(* ===== verification/Prelude.thy ===== *)
theory Prelude
  imports Complex_Main "HOL-Library.Word" "HOL-Library.Monad_Syntax" "HOL-Library.Sublist"
begin

text \<open>
  Prelude of the NetBridge development: the machine types, the C++ library
  facilities that several components use (byte strings, prefix tests, big-endian
  integer folding), and the generic lemmas about lists, options and words that the
  component theories share.

  Conventions.  A \<open>std::string\<close> is a \<open>string\<close> (a list of 8-bit characters), a
  \<open>std::vector<std::uint8_t>\<close> is a list of \<open>byte\<close>; a \<open>w\<close>-bit unsigned integer is a
  \<open>w word\<close>; a signed integer that only crosses a cast is the word of the same width,
  read with \<open>sint\<close>.  A nullable pointer argument is an \<open>option\<close> (\<open>None\<close> is the null
  pointer).  Failure is a value of a sum or an option type.
\<close>

named_theorems byte_simps \<open>evaluation and inversion of the byte level encodings\<close>
named_theorems step_defs \<open>definitions of the operations that one step of a component runs\<close>

type_synonym byte = "8 word"
type_synonym u16 = "16 word"
type_synonym u32 = "32 word"
type_synonym u64 = "64 word"
type_synonym bytes = "byte list"

unbundle bit_operations_syntax

section \<open>Characters and bytes\<close>

definition byte_of_char :: "char \<Rightarrow> byte" where
  "byte_of_char c = of_nat (of_char c)"

definition char_of_byte :: "byte \<Rightarrow> char" where
  "char_of_byte b = char_of (unat b)"

definition string_bytes :: "string \<Rightarrow> bytes" where
  "string_bytes s = map byte_of_char s"

definition bytes_string :: "bytes \<Rightarrow> string" where
  "bytes_string bs = map char_of_byte bs"

lemma unat_byte_of_char: "unat (byte_of_char c) = of_char c"
proof -
  have "of_char c < (256::nat)" by simp
  then show ?thesis by (simp add: byte_of_char_def unat_of_nat)
qed

lemma char_of_byte_of_char [simp]: "char_of_byte (byte_of_char c) = c"
  by (simp add: char_of_byte_def unat_byte_of_char)

lemma byte_of_char_of_byte [simp]: "byte_of_char (char_of_byte b) = b"
proof -
  have "unat b < 256" using unsigned_less [of b] by simp
  then have "of_char (char_of_byte b) = unat b" by (simp add: char_of_byte_def)
  then show ?thesis by (simp add: byte_of_char_def)
qed

lemma string_bytes_inverse [simp]: "bytes_string (string_bytes s) = s"
  by (simp add: string_bytes_def bytes_string_def comp_def)

lemma bytes_string_inverse [simp]: "string_bytes (bytes_string bs) = bs"
  by (simp add: string_bytes_def bytes_string_def comp_def)

lemma length_string_bytes [simp]: "length (string_bytes s) = length s"
  by (simp add: string_bytes_def)

lemma length_bytes_string [simp]: "length (bytes_string bs) = length bs"
  by (simp add: bytes_string_def)

section \<open>Library string tests\<close>

text \<open>\<open>s.rfind(p, 0) == 0\<close> is the C++ idiom for "\<open>s\<close> starts with \<open>p\<close>";
  \<open>s.find(p) != npos\<close> is "\<open>p\<close> occurs in \<open>s\<close>".\<close>

definition starts_with :: "string \<Rightarrow> string \<Rightarrow> bool" where
  "starts_with p s \<longleftrightarrow> take (length p) s = p"

fun contains_str :: "string \<Rightarrow> string \<Rightarrow> bool" where
  "contains_str p [] \<longleftrightarrow> p = []"
| "contains_str p (c # s) \<longleftrightarrow> starts_with p (c # s) \<or> contains_str p s"

lemma starts_with_iff: "starts_with p s \<longleftrightarrow> (\<exists>r. s = p @ r)"
  by (metis append_eq_conv_conj append_take_drop_id starts_with_def)

lemma starts_with_append [simp]: "starts_with p (p @ r)"
  by (simp add: starts_with_def)

lemma contains_str_iff: "contains_str p s \<longleftrightarrow> (\<exists>a b. s = a @ p @ b)"
proof (induction s)
  case Nil
  then show ?case by auto
next
  case (Cons c s)
  show ?case
  proof
    assume "contains_str p (c # s)"
    then consider "starts_with p (c # s)" | "contains_str p s" by auto
    then show "\<exists>a b. c # s = a @ p @ b"
    proof cases
      case 1
      then obtain r where "c # s = [] @ p @ r" by (auto simp: starts_with_iff)
      then show ?thesis by blast
    next
      case 2
      then obtain a b where "s = a @ p @ b" using Cons by auto
      then have "c # s = (c # a) @ p @ b" by simp
      then show ?thesis by blast
    qed
  next
    assume "\<exists>a b. c # s = a @ p @ b"
    then obtain a b where ab: "c # s = a @ p @ b" by blast
    show "contains_str p (c # s)"
    proof (cases a)
      case Nil
      then have "starts_with p (c # s)" using ab unfolding starts_with_iff by auto
      then show ?thesis by simp
    next
      case (Cons d a')
      then have "s = a' @ p @ b" using ab by simp
      then show ?thesis using Cons.IH by auto
    qed
  qed
qed

text \<open>\<open>std::to_string\<close> of an unsigned value.\<close>

fun dec :: "nat \<Rightarrow> string" where
  "dec n = (if n < 10 then [char_of (48 + n)] else dec (n div 10) @ [char_of (48 + n mod 10)])"

declare dec.simps [simp del]

section \<open>Errors as values\<close>

text \<open>A fallible operation returns \<open>Inl\<close> of what it reports or \<open>Inr\<close> of its result.\<close>

definition bindR :: "'e + 'a \<Rightarrow> ('a \<Rightarrow> 'e + 'b) \<Rightarrow> 'e + 'b" where
  "bindR r f = (case r of Inl e \<Rightarrow> Inl e | Inr x \<Rightarrow> f x)"

lemma bindR_simps [simp]: "bindR (Inl e) f = Inl e" "bindR (Inr x) f = f x"
  by (simp_all add: bindR_def)

lemma bindR_eq_Inr [simp]: "bindR r f = Inr y \<longleftrightarrow> (\<exists>x. r = Inr x \<and> f x = Inr y)"
  by (cases r) auto

lemma bindR_cong [fundef_cong]:
  "r = r' \<Longrightarrow> (\<And>x. r' = Inr x \<Longrightarrow> f x = f' x) \<Longrightarrow> bindR r f = bindR r' f'"
  by (cases r') auto

fun mapR :: "('a \<Rightarrow> 'e + 'b) \<Rightarrow> 'a list \<Rightarrow> 'e + 'b list" where
  "mapR f [] = Inr []"
| "mapR f (x # xs) = bindR (f x) (\<lambda>y. bindR (mapR f xs) (\<lambda>ys. Inr (y # ys)))"

lemma mapR_cong [fundef_cong]:
  "xs = ys \<Longrightarrow> (\<And>x. x \<in> set ys \<Longrightarrow> f x = g x) \<Longrightarrow> mapR f xs = mapR g ys"
  by (induction ys arbitrary: xs) (auto intro!: bindR_cong)

lemma mapR_Inr_length: "mapR f xs = Inr ys \<Longrightarrow> length ys = length xs"
  by (induction xs arbitrary: ys) auto

lemma mapR_Inr_map: "(\<And>x. x \<in> set xs \<Longrightarrow> f x = Inr (g x)) \<Longrightarrow> mapR f xs = Inr (map g xs)"
  by (induction xs) auto

section \<open>Memory\<close>

text \<open>Indexing a vector out of range and dereferencing a null pointer are undefined in C++.
  Code whose safety is a question is modelled in the option monad, \<open>None\<close> standing for
  undefined behaviour; a lemma that such a function returns \<open>Some\<close> is a memory safety lemma.\<close>

type_synonym ros_time = nat

definition load :: "'a list \<Rightarrow> nat \<Rightarrow> 'a option" where
  "load xs i = (if i < length xs then Some (xs ! i) else None)"

definition store :: "'a list \<Rightarrow> nat \<Rightarrow> 'a \<Rightarrow> 'a list option" where
  "store xs i v = (if i < length xs then Some (xs[i := v]) else None)"

lemma load_Some [simp]: "i < length xs \<Longrightarrow> load xs i = Some (xs ! i)"
  by (simp add: load_def)

lemma store_Some [simp]: "i < length xs \<Longrightarrow> store xs i v = Some (xs[i := v])"
  by (simp add: store_def)

text \<open>A loop whose body may be undefined.\<close>

fun foldO :: "('a \<Rightarrow> 's \<Rightarrow> 's option) \<Rightarrow> 'a list \<Rightarrow> 's \<Rightarrow> 's option" where
  "foldO f [] s = Some s"
| "foldO f (x # xs) s = Option.bind (f x s) (foldO f xs)"

lemma foldO_cong [fundef_cong]:
  "xs = ys \<Longrightarrow> s = t \<Longrightarrow> (\<And>x u. x \<in> set ys \<Longrightarrow> f x u = g x u) \<Longrightarrow> foldO f xs s = foldO g ys t"
proof (induction ys arbitrary: xs s t)
  case Nil
  then show ?case by simp
next
  case (Cons y ys)
  then show ?case by (auto intro!: Option.bind_cong)
qed

lemma foldO_append: "foldO f (xs @ ys) s = Option.bind (foldO f xs s) (foldO f ys)"
  by (induction xs arbitrary: s) (auto intro!: Option.bind_cong)

lemma foldO_concat: "foldO f (concat xss) s = foldO (foldO f) xss s"
  by (induction xss arbitrary: s) (auto simp: foldO_append intro!: Option.bind_cong)

lemma foldO_map: "foldO f (map h xs) s = foldO (\<lambda>x. f (h x)) xs s"
proof (induction xs arbitrary: s)
  case (Cons x xs)
  then show ?case by (auto intro!: Option.bind_cong)
qed simp

lemma foldO_filter: "foldO f (filter P xs) s = foldO (\<lambda>x u. if P x then f x u else Some u) xs s"
proof (induction xs arbitrary: s)
  case (Cons x xs)
  then show ?case by (auto intro!: Option.bind_cong)
qed simp

lemma foldO_invariant:
  assumes "\<And>x u. x \<in> set xs \<Longrightarrow> P u \<Longrightarrow> f x u = Some (g x u) \<and> P (g x u)" and "P s"
  shows "foldO f xs s = Some (fold g xs s) \<and> P (fold g xs s)"
  using assms by (induction xs arbitrary: s) auto

lemma foldO_cong_inv:
  assumes "\<And>x s. x \<in> set xs \<Longrightarrow> I s \<Longrightarrow> f x s = g x s"
    and "\<And>x s s'. x \<in> set xs \<Longrightarrow> I s \<Longrightarrow> g x s = Some s' \<Longrightarrow> I s'" and "I s"
  shows "foldO f xs s = foldO g xs s"
  using assms
proof (induction xs arbitrary: s)
  case (Cons x xs)
  have "f x s = g x s" using Cons.prems by simp
  moreover have "foldO f xs u = foldO g xs u" if "g x s = Some u" for u
  proof (rule Cons.IH)
    show "I u" using Cons.prems(2,3) that by (meson list.set_intros(1))
    show "I s'" if "y \<in> set xs" "I v" "g y v = Some s'" for y v s'
      using Cons.prems(2) that by (meson list.set_intros(2))
  qed (use Cons.prems(1) in simp)
  ultimately show ?case by (auto intro!: Option.bind_cong)
qed simp

lemma foldO_inv:
  assumes "foldO g xs s = Some s'" and "I s"
    and "\<And>x s s'. x \<in> set xs \<Longrightarrow> I s \<Longrightarrow> g x s = Some s' \<Longrightarrow> I s'"
  shows "I s'"
  using assms
proof (induction xs arbitrary: s)
  case (Cons x xs)
  then obtain u where u: "g x s = Some u" "foldO g xs u = Some s'" by (auto simp: bind_eq_Some_conv)
  have "I u" using Cons.prems(2,3) u(1) by (meson list.set_intros(1))
  show ?case by (rule Cons.IH [OF u(2) \<open>I u\<close>]) (use Cons.prems(3) in \<open>meson list.set_intros(2)\<close>)
qed simp

lemma foldO_SomeI:
  assumes "\<And>x u. x \<in> set xs \<Longrightarrow> f x u = Some (g x u)"
  shows "foldO f xs s = Some (fold g xs s)"
  using foldO_invariant [of xs "\<lambda>_. True" f g s] assms by simp

section \<open>Lists\<close>

definition slice :: "nat \<Rightarrow> nat \<Rightarrow> 'a list \<Rightarrow> 'a list" where
  "slice i n xs = take n (drop i xs)"

lemma length_slice [simp]: "i + n \<le> length xs \<Longrightarrow> length (slice i n xs) = n"
  by (simp add: slice_def)

lemma nth_slice [simp]: "k < n \<Longrightarrow> i + n \<le> length xs \<Longrightarrow> slice i n xs ! k = xs ! (i + k)"
  by (simp add: slice_def)

text \<open>A queue of capacity \<open>c\<close> that drops from the front keeps the last \<open>c\<close> elements.\<close>

definition lastn :: "nat \<Rightarrow> 'a list \<Rightarrow> 'a list" where
  "lastn c xs = drop (length xs - c) xs"

lemma length_lastn [simp]: "length (lastn c xs) = min c (length xs)"
  by (simp add: lastn_def)

lemma lastn_le [simp]: "length xs \<le> c \<Longrightarrow> lastn c xs = xs"
  by (simp add: lastn_def)

lemma lastn_snoc: "0 < c \<Longrightarrow> lastn c (xs @ [x]) = lastn (c - 1) xs @ [x]"
  by (cases "length xs < c") (simp_all add: lastn_def Suc_diff_le)

lemma lastn_lastn_snoc: "lastn c (lastn c xs @ [x]) = lastn c (xs @ [x])"
proof (cases "length xs < c")
  case True
  then show ?thesis by simp
next
  case False
  then have "length (lastn c xs) = c" by simp
  then show ?thesis using False
    by (cases c) (auto simp: lastn_def Suc_diff_Suc)
qed

lemma tl_lastn: "0 < c \<Longrightarrow> c \<le> length xs \<Longrightarrow> tl (lastn c xs) = lastn (c - 1) xs"
  by (simp add: lastn_def tl_drop drop_Suc [symmetric] Suc_diff_le)

section \<open>Big-endian integers\<close>

text \<open>\<open>result = (result << 8) | byte\<close>, the body of the reading loop.\<close>

definition shift_in :: "'a::len word \<Rightarrow> byte \<Rightarrow> 'a word" where
  "shift_in r b = push_bit 8 r OR ucast b"

lemma bit_shift_in:
  "j < LENGTH('a) \<Longrightarrow>
    bit (shift_in (r :: 'a::len word) b) j \<longleftrightarrow> (if j < 8 then bit b j else bit r (j - 8))"
  by (auto simp: shift_in_def bit_or_iff bit_push_bit_iff bit_ucast_iff
           dest: bit_imp_le_length)

lemma bit_fold_shift_in:
  "j < LENGTH('a) \<Longrightarrow> 8 * length bs \<le> LENGTH('a) \<Longrightarrow>
    bit (foldl shift_in (0 :: 'a::len word) bs) j \<longleftrightarrow>
      j < 8 * length bs \<and> bit (rev bs ! (j div 8)) (j mod 8)"
proof (induction bs arbitrary: j rule: rev_induct)
  case Nil
  then show ?case by simp
next
  case (snoc b bs)
  show ?case
  proof (cases "j < 8")
    case True
    then show ?thesis using snoc.prems by (simp add: bit_shift_in)
  next
    case False
    then obtain k where j: "j = k + 8" by (metis add.commute le_Suc_ex not_le)
    have "bit (foldl shift_in (0 :: 'a word) bs) k \<longleftrightarrow>
        k < 8 * length bs \<and> bit (rev bs ! (k div 8)) (k mod 8)"
      using snoc.prems j by (intro snoc.IH) auto
    then show ?thesis using snoc.prems j False by (simp add: bit_shift_in)
  qed
qed

section \<open>Exceptions and undefined behaviour\<close>

text \<open>What ends an operation: an exception with its text, or undefined behaviour (a conversion out of range, a read
  outside of a buffer).\<close>

datatype failure = Throws string | Undefined

text \<open>A loop whose body may fail.\<close>

fun foldR :: "('x \<Rightarrow> 's \<Rightarrow> 'e + 's) \<Rightarrow> 'x list \<Rightarrow> 's \<Rightarrow> 'e + 's" where
  "foldR f [] s = Inr s"
| "foldR f (x # xs) s = bindR (f x s) (foldR f xs)"

definition throwIf :: "bool \<Rightarrow> string \<Rightarrow> failure + unit" where
  "throwIf b msg = (if b then Inl (Throws msg) else Inr ())"

lemma throwIf_Inr [simp]: "throwIf b msg = Inr u \<longleftrightarrow> \<not> b"
  by (simp add: throwIf_def)

lemma bindR_Inr_iff: "bindR r f = Inr y \<longleftrightarrow> (\<exists>x. r = Inr x \<and> f x = Inr y)"
  by (cases r) simp_all

lemma bindR_InrE: "bindR r f = Inr y \<Longrightarrow> (\<And>x. r = Inr x \<Longrightarrow> f x = Inr y \<Longrightarrow> P) \<Longrightarrow> P"
  by (cases r) simp_all

lemma throwIf_InrE: "throwIf b msg = Inr u \<Longrightarrow> (\<not> b \<Longrightarrow> P) \<Longrightarrow> P"
  by simp

lemma foldR_invariant:
  assumes "foldR f xs s = Inr s'" and "P s"
    and "\<And>x s s'. x \<in> set xs \<Longrightarrow> f x s = Inr s' \<Longrightarrow> P s \<Longrightarrow> P s'"
  shows "P s'"
  using assms by (induction xs arbitrary: s) (auto simp: bindR_Inr_iff)

lemma foldR_append: "foldR f (xs @ ys) s = bindR (foldR f xs s) (foldR f ys)"
  by (induction xs arbitrary: s) (auto simp: bindR_def split: sum.splits)

section \<open>Numbers in strings\<close>

definition is_space :: "char \<Rightarrow> bool" where
  "is_space c = (let n = of_char c :: nat in n = 32 \<or> 9 \<le> n \<and> n \<le> 13)"

definition is_digit :: "char \<Rightarrow> bool" where
  "is_digit c = (let n = of_char c :: nat in 48 \<le> n \<and> n \<le> 57)"

definition digits_value :: "string \<Rightarrow> nat" where
  "digits_value ds = foldl (\<lambda>n c. 10 * n + (of_char c - 48)) 0 ds"

text \<open>The number that \<^verbatim>\<open>strtol\<close> reads in base 10, if any.\<close>

definition strtol :: "string \<Rightarrow> int option" where
  "strtol s =
     (let s = dropWhile is_space s;
          (neg, s) = (if take 1 s = ''-'' then (True, drop 1 s)
                      else if take 1 s = ''+'' then (False, drop 1 s) else (False, s));
          ds = takeWhile is_digit s
      in if ds = [] then None
         else Some (if neg then - int (digits_value ds) else int (digits_value ds)))"

text \<open>The values of the 32-bit \<^verbatim>\<open>int\<close>.\<close>

definition int_range :: "int \<Rightarrow> bool" where
  "int_range i \<longleftrightarrow> -2147483648 \<le> i \<and> i \<le> 2147483647"

definition stoi :: "string \<Rightarrow> failure + int" where
  "stoi s =
     (case strtol s of
        None \<Rightarrow> Inl (Throws ''stoi'')
      | Some i \<Rightarrow> if int_range i then Inr i else Inl (Throws ''stoi''))"

definition atoi :: "string \<Rightarrow> failure + int" where
  "atoi s =
     (case strtol s of
        None \<Rightarrow> Inr 0
      | Some i \<Rightarrow> if int_range i then Inr i else Inl Undefined)"

end
