(* ===== verification/Wire_Integers.thy ===== *)
theory Wire_Integers
  imports Prelude
begin

text \<open>
  The four byte-level helpers of \<^verbatim>\<open>src/transport/bridge_transport.cpp\<close>
  (\<^verbatim>\<open>AppendUnsigned\<close>, \<^verbatim>\<open>ReadUnsigned\<close>, \<^verbatim>\<open>AppendString\<close>, \<^verbatim>\<open>ReadString\<close>) and the
  contract \<open>wire_codec\<close> they satisfy: writing then reading returns the value and the
  untouched rest, and whatever is read was written that way.  A read cursor is the list of
  the bytes between \<^verbatim>\<open>cursor\<close> and \<^verbatim>\<open>end\<close>.
\<close>

section \<open>Unsigned integers\<close>

definition AppendUnsigned :: "'a::len word \<Rightarrow> bytes \<Rightarrow> bytes" where
  "AppendUnsigned value output =
     output @ map (\<lambda>i. ucast (drop_bit ((LENGTH('a) div 8 - i - 1) * 8) value AND 0xff))
                [0..<LENGTH('a) div 8]"

definition ReadUnsigned :: "bytes \<Rightarrow> ('a::len word \<times> bytes) option" where
  "ReadUnsigned cursor =
     (if length cursor < LENGTH('a) div 8 then None
      else Some (foldl shift_in 0 (take (LENGTH('a) div 8) cursor),
                 drop (LENGTH('a) div 8) cursor))"

lemma length_AppendUnsigned [byte_simps]:
  "length (AppendUnsigned (v :: 'a::len word) out) = length out + LENGTH('a) div 8"
  by (simp add: AppendUnsigned_def)

lemma AppendUnsigned_append: "AppendUnsigned v out = out @ AppendUnsigned v []"
  by (simp add: AppendUnsigned_def)

lemma bit_AppendUnsigned_nth:
  fixes v :: "'a::len word"
  assumes "i < LENGTH('a) div 8" and "j < 8" and "8 \<le> LENGTH('a)"
  shows "bit (AppendUnsigned v [] ! i) j \<longleftrightarrow> bit v ((LENGTH('a) div 8 - i - 1) * 8 + j)"
proof -
  have "bit (255 :: 'a word) j"
    using assms(2,3) bit_mask_iff [of 8 j, where ?'a = "'a word"]
    by (auto simp: mask_eq_exp_minus_1 bit_numeral_rec(1) numeral_2_eq_2 bit_imp_le_length)
  then show ?thesis
    using assms by (simp add: AppendUnsigned_def bit_ucast_iff bit_and_iff bit_drop_bit_eq)
qed

lemma bit_foldl_AppendUnsigned:
  fixes v :: "'a::len word"
  assumes dvd: "8 dvd LENGTH('a)" and j: "j < LENGTH('a)"
  shows "bit (foldl shift_in (0 :: 'a word) (AppendUnsigned v [])) j \<longleftrightarrow> bit v j"
proof -
  let ?n = "LENGTH('a) div 8"
  have n: "8 * ?n = LENGTH('a)" using dvd by simp
  have k: "j div 8 < ?n" using j n by (simp add: less_mult_imp_div_less mult.commute)
  have len: "length (AppendUnsigned v []) = ?n" by (simp add: length_AppendUnsigned)
  have le8: "8 \<le> LENGTH('a)" using k n by linarith
  have "rev (AppendUnsigned v []) ! (j div 8) = AppendUnsigned v [] ! (?n - Suc (j div 8))"
    using k len by (simp add: rev_nth)
  moreover have "bit (AppendUnsigned v [] ! (?n - Suc (j div 8))) (j mod 8) \<longleftrightarrow> bit v j"
  proof -
    have e: "(?n - (?n - Suc (j div 8)) - 1) * 8 + j mod 8 = j" using k by simp
    have "bit (AppendUnsigned v [] ! (?n - Suc (j div 8))) (j mod 8) \<longleftrightarrow>
        bit v ((?n - (?n - Suc (j div 8)) - 1) * 8 + j mod 8)"
      by (rule bit_AppendUnsigned_nth) (use k le8 in auto)
    then show ?thesis unfolding e .
  qed
  ultimately show ?thesis using j n len by (simp add: bit_fold_shift_in)
qed

lemma foldl_AppendUnsigned:
  "8 dvd LENGTH('a) \<Longrightarrow> foldl shift_in (0 :: 'a::len word) (AppendUnsigned v []) = v"
  by (rule bit_word_eqI) (simp add: bit_foldl_AppendUnsigned)

lemma AppendUnsigned_foldl:
  fixes bs :: bytes
  assumes dvd: "8 dvd LENGTH('a::len)" and len: "length bs = LENGTH('a) div 8"
  shows "AppendUnsigned (foldl shift_in (0 :: 'a word) bs) [] = bs"
proof (rule nth_equalityI)
  let ?n = "LENGTH('a) div 8" and ?v = "foldl shift_in (0 :: 'a word) bs"
  show "length (AppendUnsigned ?v []) = length bs" using len by (simp add: length_AppendUnsigned)
  fix i assume "i < length (AppendUnsigned ?v [])"
  then have i: "i < ?n" by (simp add: length_AppendUnsigned)
  have n: "8 * ?n = LENGTH('a)" using dvd by simp
  have le8: "8 \<le> LENGTH('a)" using i n by linarith
  show "AppendUnsigned ?v [] ! i = bs ! i"
  proof (rule bit_word_eqI)
    fix j assume "j < LENGTH(8)"
    then have j: "j < 8" by simp
    let ?m = "(?n - i - 1) * 8 + j"
    have m: "?m < LENGTH('a)" using i j n by arith
    have md: "?m div 8 = ?n - i - 1" "?m mod 8 = j"
      using j by (simp_all only: div_mult_self3 mod_mult_self3) simp_all
    have "bit (AppendUnsigned ?v [] ! i) j \<longleftrightarrow> bit ?v ?m"
      by (rule bit_AppendUnsigned_nth) (use i j le8 in auto)
    also have "\<dots> \<longleftrightarrow> bit (rev bs ! (?n - i - 1)) j"
      using m md len n by (simp add: bit_fold_shift_in)
    also have "rev bs ! (?n - i - 1) = bs ! i" using i len by (simp add: rev_nth)
    finally show "bit (AppendUnsigned ?v [] ! i) j \<longleftrightarrow> bit (bs ! i) j" .
  qed
qed

lemma ReadUnsigned_AppendUnsigned:
  "8 dvd LENGTH('a) \<Longrightarrow>
    ReadUnsigned (AppendUnsigned (v :: 'a::len word) [] @ rest) = Some (v, rest)"
  by (simp add: ReadUnsigned_def length_AppendUnsigned foldl_AppendUnsigned)

lemma ReadUnsigned_SomeD:
  assumes dvd: "8 dvd LENGTH('a)" and r: "ReadUnsigned bs = Some (v :: 'a::len word, rest)"
  shows "bs = AppendUnsigned v [] @ rest"
proof -
  from r have len: "LENGTH('a) div 8 \<le> length bs"
    and v: "v = foldl shift_in 0 (take (LENGTH('a) div 8) bs)"
    and rest: "rest = drop (LENGTH('a) div 8) bs"
    by (auto simp: ReadUnsigned_def split: if_splits)
  have "AppendUnsigned v [] = take (LENGTH('a) div 8) bs"
    unfolding v by (rule AppendUnsigned_foldl) (use dvd len in auto)
  then show ?thesis by (simp add: rest)
qed

section \<open>Length-prefixed strings\<close>

definition AppendString :: "string \<Rightarrow> bytes \<Rightarrow> bytes option" where
  "AppendString value output =
     (if length value > 65535 then None
      else Some (AppendUnsigned (of_nat (length value) :: u16) output @ string_bytes value))"

definition ReadString :: "bytes \<Rightarrow> (string \<times> bytes) option" where
  "ReadString cursor =
     do { (len, cursor) \<leftarrow> (ReadUnsigned cursor :: (u16 \<times> bytes) option);
          if length cursor < unat len then None
          else Some (bytes_string (take (unat len) cursor), drop (unat len) cursor) }"

text \<open>The bytes one string contributes.\<close>

definition string_wire :: "string \<Rightarrow> bytes" where
  "string_wire s = AppendUnsigned (of_nat (length s) :: u16) [] @ string_bytes s"

lemma length_string_wire [byte_simps]: "length (string_wire s) = 2 + length s"
  by (simp add: string_wire_def length_AppendUnsigned)

lemma AppendString_eq:
  "AppendString s out = (if length s \<le> 65535 then Some (out @ string_wire s) else None)"
  by (simp add: AppendString_def string_wire_def AppendUnsigned_append [of _ out])

lemma ReadString_wire:
  assumes "length s \<le> 65535"
  shows "ReadString (string_wire s @ rest) = Some (s, rest)"
proof -
  have "unat (of_nat (length s) :: u16) = length s"
    using assms by (simp add: unat_of_nat)
  then show ?thesis
    by (simp add: ReadString_def string_wire_def ReadUnsigned_AppendUnsigned)
qed

lemma ReadString_SomeD:
  assumes "ReadString bs = Some (s, rest)"
  shows "bs = string_wire s @ rest \<and> length s \<le> 65535"
proof -
  obtain len :: u16 and c where r: "ReadUnsigned bs = Some (len, c)"
    and c: "unat len \<le> length c"
    and s: "s = bytes_string (take (unat len) c)" and rest: "rest = drop (unat len) c"
    using assms by (auto simp: ReadString_def bind_eq_Some_conv split: if_splits)
  have ls: "length s = unat len" using c s by simp
  have "string_wire s = AppendUnsigned len [] @ take (unat len) c"
    using c by (simp add: string_wire_def s)
  moreover have "bs = AppendUnsigned len [] @ c" using r by (intro ReadUnsigned_SomeD) simp
  moreover have "unat len \<le> 65535" using unsigned_less [of len, where 'a = nat] by simp
  ultimately show ?thesis using ls rest by simp
qed

section \<open>The codec contract\<close>

text \<open>
  \<open>wire_codec put get ok\<close>: \<open>put\<close> writes a value as bytes, \<open>get\<close> reads one value off
  the front, \<open>ok\<close> says which values can be written.  The envelope codec uses its string
  and integer fields only through these two laws.
\<close>

locale wire_codec =
  fixes put :: "'v \<Rightarrow> bytes"
    and get :: "bytes \<Rightarrow> ('v \<times> bytes) option"
    and ok :: "'v \<Rightarrow> bool"
  assumes get_put: "ok v \<Longrightarrow> get (put v @ rest) = Some (v, rest)"
    and get_SomeD: "get bs = Some (v, rest) \<Longrightarrow> bs = put v @ rest \<and> ok v"
begin

lemma get_iff: "get bs = Some (v, rest) \<longleftrightarrow> ok v \<and> bs = put v @ rest"
  by (auto simp: get_put dest: get_SomeD)

lemma put_inject:
  assumes "ok v" "ok w" "put v @ r = put w @ s"
  shows "v = w \<and> r = s"
proof -
  have "Some (v, r) = get (put w @ s)" unfolding assms(3) [symmetric] by (rule get_put [OF assms(1), symmetric])
  also have "\<dots> = Some (w, s)" by (rule get_put [OF assms(2)])
  finally show ?thesis by simp
qed

lemma put_nonempty:
  assumes "ok v" "ok w" "v \<noteq> w"
  shows "put v \<noteq> []"
proof
  assume "put v = []"
  then have "put v @ put w = put w @ []" by simp
  then show False using put_inject [OF assms(1,2)] assms(3) by blast
qed

lemma truncated_None:
  assumes "ok v" and "k < length (put v)"
  shows "get (take k (put v)) = None"
proof (rule ccontr)
  assume "get (take k (put v)) \<noteq> None"
  then obtain w r where "get (take k (put v)) = Some (w, r)" by auto
  then have w: "ok w" "take k (put v) = put w @ r" by (auto simp: get_iff)
  have "put v @ [] = put w @ (r @ drop k (put v))"
    using w(2) append_take_drop_id [of k "put v"] by simp
  then have "r @ drop k (put v) = []" using put_inject [OF assms(1) w(1)] by blast
  then show False using assms(2) by simp
qed

end

interpretation u8_codec: wire_codec "\<lambda>v :: byte. AppendUnsigned v []" ReadUnsigned "\<lambda>_. True"
  by unfold_locales (auto simp: ReadUnsigned_AppendUnsigned dest: ReadUnsigned_SomeD [rotated])

interpretation u16_codec: wire_codec "\<lambda>v :: u16. AppendUnsigned v []" ReadUnsigned "\<lambda>_. True"
  by unfold_locales (auto simp: ReadUnsigned_AppendUnsigned dest: ReadUnsigned_SomeD [rotated])

interpretation u32_codec: wire_codec "\<lambda>v :: u32. AppendUnsigned v []" ReadUnsigned "\<lambda>_. True"
  by unfold_locales (auto simp: ReadUnsigned_AppendUnsigned dest: ReadUnsigned_SomeD [rotated])

interpretation u64_codec: wire_codec "\<lambda>v :: u64. AppendUnsigned v []" ReadUnsigned "\<lambda>_. True"
  by unfold_locales (auto simp: ReadUnsigned_AppendUnsigned dest: ReadUnsigned_SomeD [rotated])

interpretation string_codec: wire_codec string_wire ReadString "\<lambda>s. length s \<le> 65535"
  by unfold_locales (auto simp: ReadString_wire dest: ReadString_SomeD)

end
