(* ===== verification/Envelope.thy ===== *)
theory Envelope
  imports Wire_Integers
begin

text \<open>
  The versioned \<^verbatim>\<open>NBZ1\<close> wire envelope of \<^verbatim>\<open>src/transport/bridge_transport.cpp\<close>:
  \<open>EncodeEnvelope\<close>, \<open>DecodeEnvelope\<close> and \<open>ValidateEnvelopeMetadata\<close> with the record they
  work on.  An output or input pointer is an option; a call returns its result together
  with what the pointed-to object holds afterwards.  The returned string is the text the
  code stores through its \<^verbatim>\<open>error\<close> pointer when that pointer is not null.
\<close>

section \<open>Data\<close>

definition kBridgeProtocolVersion :: u16 where
  "kBridgeProtocolVersion = 1"

definition kMaxEnvelopePayloadBytes :: nat where
  "kMaxEnvelopePayloadBytes = 512 * 1024 * 1024"

datatype PayloadKind = kRosSerialized | kJpeg | kPointCloudCompressed
  | kServiceRequest | kServiceResponse

fun PayloadKind_code :: "PayloadKind \<Rightarrow> byte" where
  "PayloadKind_code kRosSerialized = 0"
| "PayloadKind_code kJpeg = 1"
| "PayloadKind_code kPointCloudCompressed = 2"
| "PayloadKind_code kServiceRequest = 3"
| "PayloadKind_code kServiceResponse = 4"

text \<open>\<^verbatim>\<open>static_cast<PayloadKind>\<close>; only applied to codes the decoder has let through.\<close>

definition PayloadKind_of :: "byte \<Rightarrow> PayloadKind" where
  "PayloadKind_of c =
     (if c = 0 then kRosSerialized else if c = 1 then kJpeg
      else if c = 2 then kPointCloudCompressed
      else if c = 3 then kServiceRequest else kServiceResponse)"

record TransportEnvelope =
  protocol_version :: u16
  payload_kind :: PayloadKind
  sequence :: u64
  source_time_ns :: u64
  source_header_sequence :: u32
  source_host :: string
  ros_type :: string
  ros_md5 :: string
  frame_id :: string
  payload :: bytes

definition default_envelope :: TransportEnvelope where
  "default_envelope =
     \<lparr>protocol_version = kBridgeProtocolVersion, payload_kind = kRosSerialized, sequence = 0,
      source_time_ns = 0, source_header_sequence = 0, source_host = [], ros_type = [],
      ros_md5 = [], frame_id = [], payload = []\<rparr>"

definition kMagic :: bytes where
  "kMagic = [0x4E, 0x42, 0x5A, 0x31]"

section \<open>Encoding\<close>

definition EncodeEnvelope ::
  "TransportEnvelope \<Rightarrow> bytes option \<Rightarrow> (string + unit) \<times> bytes option" where
  "EncodeEnvelope envelope output =
     (case output of
        None \<Rightarrow> (Inl ''output is null'', None)
      | Some old \<Rightarrow>
          if protocol_version envelope \<noteq> kBridgeProtocolVersion then
            (Inl ''unsupported envelope protocol version'', Some old)
          else if length (payload envelope) > kMaxEnvelopePayloadBytes \<or>
                  length (payload envelope) > 4294967295 then
            (Inl ''envelope payload exceeds configured limit'', Some old)
          else
            let out = kMagic;
                out = AppendUnsigned (protocol_version envelope) out;
                out = out @ [PayloadKind_code (payload_kind envelope)];
                out = out @ [0];
                out = AppendUnsigned (sequence envelope) out;
                out = AppendUnsigned (source_time_ns envelope) out;
                out = AppendUnsigned (source_header_sequence envelope) out
            in case do { out \<leftarrow> AppendString (source_host envelope) out;
                         out \<leftarrow> AppendString (ros_type envelope) out;
                         out \<leftarrow> AppendString (ros_md5 envelope) out;
                         AppendString (frame_id envelope) out }
               of None \<Rightarrow> (Inl ''envelope string exceeds uint16 length'', Some [])
                | Some out \<Rightarrow>
                    (Inr (), Some (AppendUnsigned (of_nat (length (payload envelope)) :: u32) out
                                     @ payload envelope)))"

section \<open>Decoding\<close>

text \<open>The fixed header after the magic: version, kind, flags, sequence, time, header sequence.\<close>

definition ReadHeader :: "bytes \<Rightarrow> ((u16 \<times> byte \<times> byte \<times> u64 \<times> u64 \<times> u32) \<times> bytes) option" where
  "ReadHeader cursor =
     do { (version, cursor) \<leftarrow> ReadUnsigned cursor;
          (kind, cursor) \<leftarrow> ReadUnsigned cursor;
          (flags, cursor) \<leftarrow> ReadUnsigned cursor;
          (seq, cursor) \<leftarrow> ReadUnsigned cursor;
          (time, cursor) \<leftarrow> ReadUnsigned cursor;
          (hseq, cursor) \<leftarrow> ReadUnsigned cursor;
          Some ((version, kind, flags, seq, time, hseq), cursor) }"

definition ReadMetadata :: "bytes \<Rightarrow> ((string \<times> string \<times> string \<times> string) \<times> bytes) option" where
  "ReadMetadata cursor =
     do { (host, cursor) \<leftarrow> ReadString cursor;
          (type, cursor) \<leftarrow> ReadString cursor;
          (md5, cursor) \<leftarrow> ReadString cursor;
          (frame, cursor) \<leftarrow> ReadString cursor;
          Some ((host, type, md5, frame), cursor) }"

definition DecodeEnvelope ::
  "bytes option \<Rightarrow> TransportEnvelope option \<Rightarrow> (string + unit) \<times> TransportEnvelope option" where
  "DecodeEnvelope data envelope =
     (case (data, envelope) of
        (Some buf, Some old) \<Rightarrow>
          if length buf < length kMagic \<or> take (length kMagic) buf \<noteq> kMagic then
            (Inl ''invalid envelope magic'', Some old)
          else
            (case ReadHeader (drop (length kMagic) buf) of
               None \<Rightarrow> (Inl ''truncated envelope header'', Some old)
             | Some ((version, kind, flags, seq, time, hseq), cursor) \<Rightarrow>
                 if version \<noteq> kBridgeProtocolVersion then
                   (Inl ''unsupported envelope protocol version'', Some old)
                 else if kind > PayloadKind_code kServiceResponse then
                   (Inl ''invalid envelope payload kind'', Some old)
                 else
                   (case ReadMetadata cursor of
                      None \<Rightarrow> (Inl ''truncated envelope metadata'', Some old)
                    | Some ((host, type, md5, frame), cursor) \<Rightarrow>
                        (case (ReadUnsigned cursor :: (u32 \<times> bytes) option) of
                           None \<Rightarrow> (Inl ''invalid or truncated envelope payload'', Some old)
                         | Some (plen, cursor) \<Rightarrow>
                             if unat plen > kMaxEnvelopePayloadBytes \<or>
                                length cursor \<noteq> unat plen then
                               (Inl ''invalid or truncated envelope payload'', Some old)
                             else
                               (Inr (), Some
                                  \<lparr>protocol_version = version,
                                   payload_kind = PayloadKind_of kind, sequence = seq,
                                   source_time_ns = time, source_header_sequence = hseq,
                                   source_host = host, ros_type = type, ros_md5 = md5,
                                   frame_id = frame, payload = cursor\<rparr>))))
      | _ \<Rightarrow> (Inl ''input or envelope is null'', envelope))"

text \<open>The two calls as their callers make them: a fresh output vector, and a buffer decoded
  into a fresh envelope.\<close>

definition encode_wire :: "TransportEnvelope \<Rightarrow> string + bytes" where
  "encode_wire e =
     (case EncodeEnvelope e (Some []) of
        (Inr _, Some w) \<Rightarrow> Inr w | (Inl s, _) \<Rightarrow> Inl s | (Inr _, None) \<Rightarrow> Inl [])"

definition decode_wire :: "bytes \<Rightarrow> string + TransportEnvelope" where
  "decode_wire w =
     (case DecodeEnvelope (Some w) (Some default_envelope) of
        (Inr _, Some e) \<Rightarrow> Inr e | (Inl s, _) \<Rightarrow> Inl s | (Inr _, None) \<Rightarrow> Inl [])"

section \<open>Validation\<close>

definition ValidateEnvelopeMetadata ::
  "TransportEnvelope \<Rightarrow> string \<Rightarrow> string \<Rightarrow> string + unit" where
  "ValidateEnvelopeMetadata envelope expected_ros_type expected_ros_md5 =
     (if protocol_version envelope \<noteq> kBridgeProtocolVersion then
        Inl ''envelope protocol version mismatch''
      else if ros_type envelope \<noteq> expected_ros_type then
        Inl (''ROS type mismatch: expected '' @ expected_ros_type @ '', got '' @ ros_type envelope)
      else if ros_md5 envelope \<noteq> expected_ros_md5 then
        Inl (''ROS MD5 mismatch for '' @ expected_ros_type)
      else Inr ())"

section \<open>The layout of an encoded envelope\<close>

definition encodable :: "TransportEnvelope \<Rightarrow> bool" where
  "encodable e \<longleftrightarrow>
     protocol_version e = kBridgeProtocolVersion \<and>
     length (payload e) \<le> kMaxEnvelopePayloadBytes \<and>
     length (source_host e) \<le> 65535 \<and> length (ros_type e) \<le> 65535 \<and>
     length (ros_md5 e) \<le> 65535 \<and> length (frame_id e) \<le> 65535"

text \<open>\<open>envelope_wire f e\<close> is the documented layout with \<open>f\<close> in the reserved flags byte.\<close>

definition envelope_wire :: "byte \<Rightarrow> TransportEnvelope \<Rightarrow> bytes" where
  "envelope_wire flags e =
     kMagic @ AppendUnsigned (protocol_version e) [] @
     AppendUnsigned (PayloadKind_code (payload_kind e)) [] @ AppendUnsigned flags [] @
     AppendUnsigned (sequence e) [] @ AppendUnsigned (source_time_ns e) [] @
     AppendUnsigned (source_header_sequence e) [] @
     string_wire (source_host e) @ string_wire (ros_type e) @
     string_wire (ros_md5 e) @ string_wire (frame_id e) @
     AppendUnsigned (of_nat (length (payload e)) :: u32) [] @ payload e"

lemma AppendUnsigned_byte [simp]: "AppendUnsigned (b :: byte) out = out @ [b]"
proof -
  have "(255 :: byte) = - 1" by simp
  then have "b AND 255 = b" by (metis and.right_neutral)
  then show ?thesis by (simp add: AppendUnsigned_def)
qed

lemma kMagic_length [simp]: "length kMagic = 4"
  by (simp add: kMagic_def)

lemma PayloadKind_of_code [simp]: "PayloadKind_of (PayloadKind_code k) = k"
  by (cases k) (simp_all add: PayloadKind_of_def)

lemma PayloadKind_code_le [simp]: "\<not> 4 < PayloadKind_code k"
  by (cases k) simp_all

lemma PayloadKind_code_of: "\<not> 4 < c \<Longrightarrow> PayloadKind_code (PayloadKind_of c) = c"
proof -
  assume "\<not> 4 < c"
  then have n: "unat c \<le> 4" by (simp add: word_less_nat_alt)
  moreover have c: "c = word_of_nat (unat c)" by simp
  ultimately obtain n where "c = word_of_nat n" "n \<le> 4" by blast
  moreover from this(2) have "n \<in> {0, 1, 2, 3, 4}" by auto
  ultimately show ?thesis by (auto simp: PayloadKind_of_def)
qed

lemma length_envelope_wire [byte_simps]:
  "length (envelope_wire f e) =
     40 + length (source_host e) + length (ros_type e) + length (ros_md5 e) +
     length (frame_id e) + length (payload e)"
  by (simp add: envelope_wire_def byte_simps del: AppendUnsigned_byte)

lemma take_magic [simp]: "take (length kMagic) (envelope_wire f e) = kMagic"
  by (simp add: envelope_wire_def)

subsection \<open>Encoding writes exactly the documented layout\<close>

definition encode_failure :: "TransportEnvelope \<Rightarrow> string" where
  "encode_failure e =
     (if protocol_version e \<noteq> kBridgeProtocolVersion then
        ''unsupported envelope protocol version''
      else if kMaxEnvelopePayloadBytes < length (payload e) then
        ''envelope payload exceeds configured limit''
      else ''envelope string exceeds uint16 length'')"

lemma EncodeEnvelope_Some:
  "EncodeEnvelope e (Some old) =
     (if encodable e then (Inr (), Some (envelope_wire 0 e))
      else (Inl (encode_failure e),
            Some (if protocol_version e \<noteq> kBridgeProtocolVersion \<or>
                     kMaxEnvelopePayloadBytes < length (payload e) then old else [])))"
proof -
  have big: "kMaxEnvelopePayloadBytes < n \<or> 4294967295 < n \<longleftrightarrow> kMaxEnvelopePayloadBytes < n" for n
    by (auto simp: kMaxEnvelopePayloadBytes_def)
  show ?thesis
    unfolding EncodeEnvelope_def Let_def option.case big
    by (auto simp: encodable_def encode_failure_def envelope_wire_def AppendString_eq
                   AppendUnsigned_append [of _ "_ @ _"] AppendUnsigned_append [of _ kMagic]
             simp del: AppendUnsigned_byte split: option.splits)
       (simp_all)
qed

subsection \<open>Decoding inverts the layout\<close>

lemmas field_gets = u8_codec.get_iff u16_codec.get_iff u32_codec.get_iff u64_codec.get_iff
  string_codec.get_iff

lemma ReadHeader_iff:
  "ReadHeader bs = Some ((v, k, f, s, t, h), rest) \<longleftrightarrow>
     bs = AppendUnsigned v [] @ AppendUnsigned k [] @ AppendUnsigned f [] @
          AppendUnsigned s [] @ AppendUnsigned t [] @ AppendUnsigned h [] @ rest"
  by (auto simp: ReadHeader_def bind_eq_Some_conv field_gets simp del: AppendUnsigned_byte)

lemma ReadMetadata_iff:
  "ReadMetadata bs = Some ((a, b, c, d), rest) \<longleftrightarrow>
     length a \<le> 65535 \<and> length b \<le> 65535 \<and> length c \<le> 65535 \<and> length d \<le> 65535 \<and>
     bs = string_wire a @ string_wire b @ string_wire c @ string_wire d @ rest"
  by (auto simp: ReadMetadata_def bind_eq_Some_conv field_gets)

lemma payload_length_roundtrip:
  "length p \<le> kMaxEnvelopePayloadBytes \<Longrightarrow> unat (of_nat (length p) :: u32) = length p"
  by (simp add: unat_of_nat kMaxEnvelopePayloadBytes_def)

lemma DecodeEnvelope_wire:
  assumes "encodable e"
  shows "DecodeEnvelope (Some (envelope_wire f e)) (Some old) = (Inr (), Some e)"
proof -
  let ?tail = "string_wire (source_host e) @ string_wire (ros_type e) @
     string_wire (ros_md5 e) @ string_wire (frame_id e) @
     AppendUnsigned (of_nat (length (payload e)) :: u32) [] @ payload e"
  have h: "ReadHeader (drop (length kMagic) (envelope_wire f e)) =
      Some ((protocol_version e, PayloadKind_code (payload_kind e), f, sequence e,
             source_time_ns e, source_header_sequence e), ?tail)"
    unfolding ReadHeader_iff by (simp add: envelope_wire_def)
  have m: "ReadMetadata ?tail =
      Some ((source_host e, ros_type e, ros_md5 e, frame_id e),
            AppendUnsigned (of_nat (length (payload e)) :: u32) [] @ payload e)"
    unfolding ReadMetadata_iff using assms by (simp add: encodable_def)
  have "\<not> length (envelope_wire f e) < length kMagic" by (simp add: length_envelope_wire)
  then show ?thesis
    using assms
    by (simp add: DecodeEnvelope_def h m ReadUnsigned_AppendUnsigned payload_length_roundtrip
                  encodable_def kBridgeProtocolVersion_def del: kMagic_length)
qed

lemma DecodeEnvelope_InrD:
  assumes "DecodeEnvelope (Some bs) (Some old) = (Inr (), out)"
  shows "\<exists>e f. out = Some e \<and> encodable e \<and> bs = envelope_wire f e"
proof -
  obtain v k f s t h c1 a b d1 d2 c2 pl and c3 :: bytes where
    magic: "take (length kMagic) bs = kMagic" and
    hd: "ReadHeader (drop (length kMagic) bs) = Some ((v, k, f, s, t, h), c1)" and
    v: "v = kBridgeProtocolVersion" and k: "\<not> 4 < k" and
    md: "ReadMetadata c1 = Some ((a, b, d1, d2), c2)" and
    pl: "ReadUnsigned c2 = Some (pl :: u32, c3)" and
    sz: "\<not> kMaxEnvelopePayloadBytes < unat pl" "length c3 = unat pl" and
    out: "out = Some \<lparr>protocol_version = v, payload_kind = PayloadKind_of k, sequence = s,
              source_time_ns = t, source_header_sequence = h, source_host = a, ros_type = b,
              ros_md5 = d1, frame_id = d2, payload = c3\<rparr>"
    using assms unfolding DecodeEnvelope_def
    by (auto simp del: kMagic_length split: if_splits option.splits prod.splits)
  let ?e = "\<lparr>protocol_version = v, payload_kind = PayloadKind_of k, sequence = s,
              source_time_ns = t, source_header_sequence = h, source_host = a, ros_type = b,
              ros_md5 = d1, frame_id = d2, payload = c3\<rparr>"
  have md': "c1 = string_wire a @ string_wire b @ string_wire d1 @ string_wire d2 @ c2"
      "length a \<le> 65535" "length b \<le> 65535" "length d1 \<le> 65535" "length d2 \<le> 65535"
    using md by (simp_all add: ReadMetadata_iff)
  have "encodable ?e" using md' v sz by (simp add: encodable_def)
  moreover have "bs = envelope_wire f ?e"
  proof -
    have "bs = kMagic @ drop (length kMagic) bs"
      using magic append_take_drop_id [of "length kMagic" bs] by metis
    also have "drop (length kMagic) bs = AppendUnsigned v [] @ AppendUnsigned k [] @
        AppendUnsigned f [] @ AppendUnsigned s [] @ AppendUnsigned t [] @ AppendUnsigned h [] @ c1"
      using hd by (simp only: ReadHeader_iff)
    finally show ?thesis
      using md' pl k sz
      by (simp add: envelope_wire_def u32_codec.get_iff PayloadKind_code_of)
  qed
  ultimately show ?thesis using out by blast
qed

lemma decode_wire_iff:
  "decode_wire bs = Inr e \<longleftrightarrow> encodable e \<and> (\<exists>f. bs = envelope_wire f e)"
proof
  assume "decode_wire bs = Inr e"
  then have "DecodeEnvelope (Some bs) (Some default_envelope) = (Inr (), Some e)"
    by (auto simp: decode_wire_def split: prod.splits sum.splits option.splits)
  then show "encodable e \<and> (\<exists>f. bs = envelope_wire f e)" by (auto dest: DecodeEnvelope_InrD)
next
  assume "encodable e \<and> (\<exists>f. bs = envelope_wire f e)"
  then show "decode_wire bs = Inr e" by (auto simp: decode_wire_def DecodeEnvelope_wire)
qed

lemma encode_wire_eq:
  "encode_wire e = (if encodable e then Inr (envelope_wire 0 e) else Inl (encode_failure e))"
  by (simp add: encode_wire_def EncodeEnvelope_Some)

lemma DecodeEnvelope_failure_keeps:
  "DecodeEnvelope data env = (Inl err, env') \<Longrightarrow> env' = env"
  by (auto simp: DecodeEnvelope_def split: if_splits option.splits prod.splits)

lemma AppendUnsigned_inject:
  fixes v w :: "'a::len word"
  assumes "8 dvd LENGTH('a)"
  shows "AppendUnsigned v [] @ r = AppendUnsigned w [] @ s \<longleftrightarrow> v = w \<and> r = s"
  by (metis ReadUnsigned_AppendUnsigned assms option.inject prod.inject)

lemma string_wire_inject:
  "length a \<le> 65535 \<Longrightarrow> length b \<le> 65535 \<Longrightarrow>
    string_wire a @ r = string_wire b @ s \<longleftrightarrow> a = b \<and> r = s"
  using string_codec.put_inject by blast

lemma PayloadKind_code_inject [simp]: "PayloadKind_code k = PayloadKind_code k' \<longleftrightarrow> k = k'"
  by (metis PayloadKind_of_code)

lemma envelope_wire_inject:
  assumes e: "encodable e" and e': "encodable e'"
    and eq: "envelope_wire f e @ x = envelope_wire f' e' @ y"
  shows "e = e' \<and> f = f' \<and> x = y"
proof -
  have "length (payload e) = length (payload e')"
  proof -
    have "(of_nat (length (payload e)) :: u32) = of_nat (length (payload e'))"
      using eq e e'
      by (simp add: envelope_wire_def AppendUnsigned_inject string_wire_inject encodable_def
               del: AppendUnsigned_byte)
    then show ?thesis
      using e e' payload_length_roundtrip unfolding encodable_def by metis
  qed
  then show ?thesis
    using eq e e'
    by (simp add: envelope_wire_def AppendUnsigned_inject string_wire_inject encodable_def
             del: AppendUnsigned_byte)
qed

lemma envelope_wire_split:
  "\<exists>pre post. length pre = 7 \<and> (\<forall>f. envelope_wire f e = pre @ f # post)"
  by (rule exI [of _ "kMagic @ AppendUnsigned (protocol_version e) [] @
        [PayloadKind_code (payload_kind e)]"])
     (simp add: envelope_wire_def length_AppendUnsigned)

lemma envelope_wire_nth7: "envelope_wire f e ! 7 = f"
  and envelope_wire_update7: "(envelope_wire f e)[7 := g] = envelope_wire g e"
proof -
  obtain pre post where p: "length pre = 7" "\<And>f. envelope_wire f e = pre @ f # post"
    using envelope_wire_split [of e] by blast
  show "envelope_wire f e ! 7 = f" using p by (simp add: nth_append)
  show "(envelope_wire f e)[7 := g] = envelope_wire g e" using p by (simp add: list_update_append)
qed

section \<open>Properties\<close>

definition sample_envelope :: TransportEnvelope where
  "sample_envelope =
     \<lparr>protocol_version = 1, payload_kind = kJpeg, sequence = 258, source_time_ns = 7,
      source_header_sequence = 9, source_host = ''a'', ros_type = ''t'', ros_md5 = ''m'',
      frame_id = [], payload = [1, 2]\<rparr>"

definition sample_wire :: bytes where
  "sample_wire =
     [0x4E, 0x42, 0x5A, 0x31, 0, 1, 1, 0, 0, 0, 0, 0, 0, 0, 1, 2, 0, 0, 0, 0, 0, 0, 0, 7,
      0, 0, 0, 9, 0, 1, 97, 0, 1, 116, 0, 1, 109, 0, 0, 0, 0, 0, 2, 1, 2]"

lemma sample_wire_eq: "envelope_wire 0 sample_envelope = sample_wire"
  by (simp add: envelope_wire_def sample_envelope_def sample_wire_def kMagic_def AppendUnsigned_def
        string_wire_def string_bytes_def byte_of_char_def upt_rec)

lemma encodable_sample: "encodable sample_envelope"
  by (simp add: encodable_def sample_envelope_def kBridgeProtocolVersion_def
        kMaxEnvelopePayloadBytes_def)

lemma EncodeEnvelope_sample: "EncodeEnvelope sample_envelope (Some []) = (Inr (), Some sample_wire)"
  by (simp add: EncodeEnvelope_Some encodable_sample sample_wire_eq)

text \<open>C24: whatever \<open>EncodeEnvelope\<close> writes, \<open>DecodeEnvelope\<close> reads back as the same envelope,
  into any target.\<close>

theorem envelope_roundtrip:
  assumes "EncodeEnvelope e (Some old) = (Inr (), Some wire)"
  shows "DecodeEnvelope (Some wire) (Some target) = (Inr (), Some e)"
  using assms by (auto simp: EncodeEnvelope_Some DecodeEnvelope_wire split: if_splits)

theorem envelope_roundtrip_witness:
  "DecodeEnvelope (Some sample_wire) (Some default_envelope) = (Inr (), Some sample_envelope)"
  by (rule envelope_roundtrip [OF EncodeEnvelope_sample])

text \<open>C28: an accepted buffer is the unique encoding of the envelope it decodes to, up to the
  reserved flags byte at offset 7, which the decoder ignores: re-encoding the decoded envelope
  gives the buffer with that byte cleared.\<close>

theorem decode_canonical:
  assumes "DecodeEnvelope (Some wire) (Some target) = (Inr (), Some e)"
  shows "EncodeEnvelope e (Some old) = (Inr (), Some (wire[7 := 0]))"
  using DecodeEnvelope_InrD [OF assms]
  by (auto simp: EncodeEnvelope_Some envelope_wire_update7)

theorem decode_canonical_witness:
  "EncodeEnvelope sample_envelope (Some [5]) = (Inr (), Some ((sample_wire[7 := 255])[7 := 0]))"
proof (rule decode_canonical)
  show "DecodeEnvelope (Some (sample_wire[7 := 255])) (Some default_envelope) =
      (Inr (), Some sample_envelope)"
    by (simp only: sample_wire_eq [symmetric] envelope_wire_update7
          DecodeEnvelope_wire [OF encodable_sample])
qed

text \<open>no proper prefix of an encoded envelope and no encoded envelope with trailing bytes is
  accepted.\<close>

theorem decode_rejects_truncation_and_padding:
  assumes enc: "EncodeEnvelope e (Some old) = (Inr (), Some wire)"
    and bad: "(\<exists>k < length wire. buf = take k wire) \<or> (\<exists>x. x \<noteq> [] \<and> buf = wire @ x)"
  shows "\<exists>err. DecodeEnvelope (Some buf) (Some target) = (Inl err, Some target)"
proof (cases "DecodeEnvelope (Some buf) (Some target)")
  case (Pair r env)
  show ?thesis
  proof (cases r)
    case (Inl err)
    then show ?thesis using Pair DecodeEnvelope_failure_keeps by blast
  next
    case (Inr u)
    then have "DecodeEnvelope (Some buf) (Some target) = (Inr (), env)" using Pair by simp
    then obtain e' f where e': "encodable e'" "buf = envelope_wire f e'"
      by (auto dest: DecodeEnvelope_InrD)
    have e: "encodable e" "wire = envelope_wire 0 e"
      using enc by (auto simp: EncodeEnvelope_Some split: if_splits)
    from bad show ?thesis
    proof
      assume "\<exists>k < length wire. buf = take k wire"
      then obtain k where k: "k < length wire" "buf @ drop k wire = wire" by auto
      then have "envelope_wire f e' @ drop k wire = envelope_wire 0 e @ []" using e e' by simp
      then have "drop k wire = []" using envelope_wire_inject [OF e'(1) e(1)] by blast
      then show ?thesis using k by simp
    next
      assume "\<exists>x. x \<noteq> [] \<and> buf = wire @ x"
      then obtain x where x: "x \<noteq> []" "envelope_wire f e' @ [] = envelope_wire 0 e @ x"
        using e e' by auto
      then show ?thesis using envelope_wire_inject [OF e'(1) e(1)] by blast
    qed
  qed
qed

theorem decode_rejects_truncation_and_padding_witness:
  "\<exists>err. DecodeEnvelope (Some (sample_wire @ [0])) (Some default_envelope) =
     (Inl err, Some default_envelope)"
  by (rule decode_rejects_truncation_and_padding [OF EncodeEnvelope_sample]) auto

text \<open>\<open>EncodeEnvelope\<close> on every branch: the null output, the three rejections in the
  order the code tests them (the output is left alone by the first two and cleared by the
  third), and success exactly on the encodable envelopes with the documented byte layout,
  whose length is the 40 fixed bytes the code reserves plus the variable parts.\<close>

theorem encode_spec:
  "EncodeEnvelope e None = (Inl ''output is null'', None) \<and>
   EncodeEnvelope e (Some old) =
     (if encodable e then (Inr (), Some (envelope_wire 0 e))
      else if protocol_version e \<noteq> 1 then
        (Inl ''unsupported envelope protocol version'', Some old)
      else if 536870912 < length (payload e) then
        (Inl ''envelope payload exceeds configured limit'', Some old)
      else (Inl ''envelope string exceeds uint16 length'', Some [])) \<and>
   length (envelope_wire f e) =
     40 + length (source_host e) + length (ros_type e) + length (ros_md5 e) +
     length (frame_id e) + length (payload e)"
proof (intro conjI)
  show "EncodeEnvelope e None = (Inl ''output is null'', None)" by (simp add: EncodeEnvelope_def)
qed (simp add: EncodeEnvelope_Some encode_failure_def kBridgeProtocolVersion_def
        kMaxEnvelopePayloadBytes_def, rule length_envelope_wire)

text \<open>\<open>DecodeEnvelope\<close> accepts exactly the layouts of encodable envelopes, and a
  rejected buffer leaves the caller's envelope untouched.\<close>

theorem decode_spec:
  "(DecodeEnvelope (Some buf) (Some target) = (Inr (), Some e) \<longleftrightarrow>
     encodable e \<and> (\<exists>f. buf = envelope_wire f e)) \<and>
   ((\<exists>f e. encodable e \<and> buf = envelope_wire f e \<and>
        DecodeEnvelope (Some buf) (Some target) = (Inr (), Some e)) \<or>
   (\<exists>err. DecodeEnvelope (Some buf) (Some target) = (Inl err, Some target))) \<and>
   (\<exists>err. DecodeEnvelope None env = (Inl err, env)) \<and>
   (\<exists>err. DecodeEnvelope data None = (Inl err, None))"
proof (intro conjI)
  show "DecodeEnvelope (Some buf) (Some target) = (Inr (), Some e) \<longleftrightarrow>
     encodable e \<and> (\<exists>f. buf = envelope_wire f e)"
    by (auto dest: DecodeEnvelope_InrD simp: DecodeEnvelope_wire)
  show "(\<exists>f e. encodable e \<and> buf = envelope_wire f e \<and>
        DecodeEnvelope (Some buf) (Some target) = (Inr (), Some e)) \<or>
     (\<exists>err. DecodeEnvelope (Some buf) (Some target) = (Inl err, Some target))"
  proof (cases "DecodeEnvelope (Some buf) (Some target)")
    case (Pair r env)
    then show ?thesis
      by (cases r) (fastforce dest: DecodeEnvelope_InrD DecodeEnvelope_failure_keeps)+
  qed
qed (simp_all add: DecodeEnvelope_def split: option.split)

end
