(* ===== verification/Qos_Queue.thy ===== *)
theory Qos_Queue
  imports Envelope
begin

text \<open>
  The quality-of-service classes of \<^verbatim>\<open>src/transport/bridge_transport.cpp\<close> and the bounded
  receive queue every topic receiver uses.  \<open>bounded_buffer\<close> is the contract of a bounded
  FIFO that either drops the oldest or refuses the newest element when it is full; the
  receive queue of each class is an instance, and so is the executor of the Zenoh
  transport (theory \<open>Zenoh_Transport\<close>).
\<close>

section \<open>Classes and policies\<close>

datatype QosClass = kCommand | kState | kBulk | kService

record QosPolicy =
  reliable :: bool
  block_on_congestion :: bool
  express :: bool
  keep_latest :: bool
  queue_capacity :: nat
  priority :: string

definition ParseQosClass :: "string \<Rightarrow> QosClass option \<Rightarrow> bool \<times> QosClass option" where
  "ParseQosClass value qos_class =
     (case qos_class of
        None \<Rightarrow> (False, None)
      | Some old \<Rightarrow>
          if value = ''command'' then (True, Some kCommand)
          else if value = ''state'' then (True, Some kState)
          else if value = ''bulk'' then (True, Some kBulk)
          else if value = ''service'' then (True, Some kService)
          else (False, Some old))"

fun QosClassName :: "QosClass \<Rightarrow> string" where
  "QosClassName kCommand = ''command''"
| "QosClassName kState = ''state''"
| "QosClassName kBulk = ''bulk''"
| "QosClassName kService = ''service''"

fun GetQosPolicy :: "QosClass \<Rightarrow> QosPolicy" where
  "GetQosPolicy kCommand =
     \<lparr>reliable = True, block_on_congestion = True, express = True, keep_latest = False,
      queue_capacity = 64, priority = ''real_time''\<rparr>"
| "GetQosPolicy kState =
     \<lparr>reliable = False, block_on_congestion = False, express = True, keep_latest = True,
      queue_capacity = 1, priority = ''data_high''\<rparr>"
| "GetQosPolicy kBulk =
     \<lparr>reliable = False, block_on_congestion = False, express = False, keep_latest = True,
      queue_capacity = 1, priority = ''data_low''\<rparr>"
| "GetQosPolicy kService =
     \<lparr>reliable = True, block_on_congestion = True, express = True, keep_latest = False,
      queue_capacity = 64, priority = ''interactive_high''\<rparr>"

section \<open>The bounded receive queue\<close>

datatype BoundedQueuePushResult = kEnqueued | kReplacedOldest | kRejected

definition PushToBoundedEnvelopeQueue ::
  "QosClass \<Rightarrow> TransportEnvelope \<Rightarrow> TransportEnvelope list option \<Rightarrow>
     BoundedQueuePushResult \<times> TransportEnvelope list option" where
  "PushToBoundedEnvelopeQueue qos_class envelope queue =
     (case queue of
        None \<Rightarrow> (kRejected, None)
      | Some q \<Rightarrow>
          let policy = GetQosPolicy qos_class;
              capacity = max 1 (queue_capacity policy)
          in if length q \<ge> capacity then
               if \<not> keep_latest policy then (kRejected, Some q)
               else (kReplacedOldest, Some (tl q @ [envelope]))
             else (kEnqueued, Some (q @ [envelope])))"

text \<open>The call on a queue that exists, as the receiver makes it.\<close>

definition push_queue ::
  "QosClass \<Rightarrow> TransportEnvelope \<Rightarrow> TransportEnvelope list \<Rightarrow>
     BoundedQueuePushResult \<times> TransportEnvelope list" where
  "push_queue qos e q =
     (case PushToBoundedEnvelopeQueue qos e (Some q) of (r, q') \<Rightarrow>
        (r, case q' of Some q'' \<Rightarrow> q'' | None \<Rightarrow> []))"

definition class_capacity :: "QosClass \<Rightarrow> nat" where
  "class_capacity qos = max 1 (queue_capacity (GetQosPolicy qos))"

lemma class_capacity_simps [simp]:
  "class_capacity kCommand = 64" "class_capacity kState = 1"
  "class_capacity kBulk = 1" "class_capacity kService = 64"
  by (simp_all add: class_capacity_def)

lemma push_queue_eq:
  "push_queue qos e q =
     (if length q < class_capacity qos then (kEnqueued, q @ [e])
      else if keep_latest (GetQosPolicy qos) then (kReplacedOldest, tl q @ [e])
      else (kRejected, q))"
  by (auto simp: push_queue_def PushToBoundedEnvelopeQueue_def class_capacity_def Let_def)

section \<open>The contract of a bounded FIFO\<close>

text \<open>Pushing a whole sequence, with the result of each push.\<close>

fun push_all :: "('x \<Rightarrow> 'x list \<Rightarrow> BoundedQueuePushResult \<times> 'x list) \<Rightarrow> 'x list \<Rightarrow> 'x list \<Rightarrow>
    BoundedQueuePushResult list \<times> 'x list" where
  "push_all push q [] = ([], q)"
| "push_all push q (x # xs) =
     (case push x q of (r, q') \<Rightarrow> case push_all push q' xs of (rs, q'') \<Rightarrow> (r # rs, q''))"

lemma push_all_Cons [simp]:
  "fst (push_all push q (x # xs)) = fst (push x q) # fst (push_all push (snd (push x q)) xs)"
  "snd (push_all push q (x # xs)) = snd (push_all push (snd (push x q)) xs)"
  by (simp_all add: case_prod_unfold)

declare push_all.simps(2) [simp del]

definition dropped :: "BoundedQueuePushResult list \<Rightarrow> nat" where
  "dropped rs = length (filter (\<lambda>r. r \<noteq> kEnqueued) rs)"

locale bounded_buffer =
  fixes push :: "'x \<Rightarrow> 'x list \<Rightarrow> BoundedQueuePushResult \<times> 'x list"
    and capacity :: nat
  assumes capacity_pos: "0 < capacity"
    and push_room: "length q < capacity \<Longrightarrow> push x q = (kEnqueued, q @ [x])"
    and push_full: "capacity \<le> length q \<Longrightarrow>
      push x q = (kReplacedOldest, tl q @ [x]) \<or> push x q = (kRejected, q)"
begin

lemma push_bound: "length q \<le> capacity \<Longrightarrow> length (snd (push x q)) \<le> capacity"
  using push_room [of q x] push_full [of q x] capacity_pos
  by (cases "length q < capacity") (auto simp: Suc_le_eq)

lemma push_count:
  assumes "length q \<le> capacity"
  shows "length (snd (push x q)) + dropped [fst (push x q)] = Suc (length q)"
  using push_room [of q x] push_full [of q x] capacity_pos assms
  by (cases "length q < capacity") (auto simp: dropped_def)

lemma push_subseq: "subseq (snd (push x q)) (q @ [x])"
proof (cases "length q < capacity")
  case True
  then show ?thesis by (simp add: push_room)
next
  case False
  then have "push x q = (kReplacedOldest, tl q @ [x]) \<or> push x q = (kRejected, q)"
    by (intro push_full) simp
  moreover have "subseq (tl q) q" by (cases q) auto
  ultimately show ?thesis by (auto intro: list_emb_append_mono)
qed

lemma push_all_bound:
  "length q \<le> capacity \<Longrightarrow> length (snd (push_all push q xs)) \<le> capacity"
proof (induction xs arbitrary: q)
  case (Cons x xs)
  then show ?case by (simp add: push_bound)
qed simp

lemma push_all_count:
  "length q \<le> capacity \<Longrightarrow>
    length (snd (push_all push q xs)) + dropped (fst (push_all push q xs)) = length q + length xs"
proof (induction xs arbitrary: q)
  case Nil
  then show ?case by (simp add: dropped_def)
next
  case (Cons x xs)
  then show ?case
    using Cons.IH [of "snd (push x q)"] push_bound [of q x] push_count [of q x]
    by (auto simp: dropped_def split: if_splits)
qed

lemma push_all_subseq: "subseq (snd (push_all push q xs)) (q @ xs)"
proof (induction xs arbitrary: q)
  case (Cons x xs)
  have "subseq (snd (push x q) @ xs) ((q @ [x]) @ xs)"
    using push_subseq [of x q] by (intro list_emb_append_mono) auto
  with Cons.IH [of "snd (push x q)"] show ?case by (auto intro: subseq_order.trans)
qed simp

lemma push_all_fits:
  "length q + length xs \<le> capacity \<Longrightarrow>
    push_all push q xs = (replicate (length xs) kEnqueued, q @ xs)"
  by (induction xs arbitrary: q) (auto simp: push_room push_all.simps(2))

end

text \<open>A buffer that always makes room keeps the newest; one that always refuses keeps the oldest.\<close>

locale latest_buffer = bounded_buffer +
  assumes push_replaces: "capacity \<le> length q \<Longrightarrow> push x q = (kReplacedOldest, tl q @ [x])"
begin

lemma push_all_latest:
  "length q \<le> capacity \<Longrightarrow> snd (push_all push q xs) = lastn capacity (q @ xs)"
proof (induction xs arbitrary: q)
  case Nil
  then show ?case by simp
next
  case (Cons x xs)
  show ?case
  proof (cases "length q < capacity")
    case True
    then show ?thesis using Cons.IH [of "q @ [x]"] by (simp add: push_room)
  next
    case False
    then have len: "length q = capacity" using Cons.prems by simp
    then have p: "push x q = (kReplacedOldest, tl q @ [x])" by (simp add: push_replaces)
    obtain y q' where q: "q = y # q'" using len capacity_pos by (cases q) auto
    have "lastn capacity (q' @ x # xs) = lastn capacity (q @ x # xs)"
      using len q by (simp add: lastn_def Suc_diff_le)
    then show ?thesis using Cons.IH [of "q' @ [x]"] len p q by (simp)
  qed
qed

end

locale refusing_buffer = bounded_buffer +
  assumes push_refuses: "capacity \<le> length q \<Longrightarrow> push x q = (kRejected, q)"
begin

lemma push_all_oldest:
  "length q \<le> capacity \<Longrightarrow> snd (push_all push q xs) = take capacity (q @ xs)"
proof (induction xs arbitrary: q)
  case Nil
  then show ?case by simp
next
  case (Cons x xs)
  show ?case
  proof (cases "length q < capacity")
    case True
    then show ?thesis using Cons.IH [of "q @ [x]"] by (simp add: push_room)
  next
    case False
    then have len: "length q = capacity" using Cons.prems by simp
    then show ?thesis using Cons.IH [of q] by (simp add: push_refuses)
  qed
qed

end

interpretation any_queue: bounded_buffer "push_queue qos" "class_capacity qos" for qos
  by unfold_locales (auto simp: push_queue_eq class_capacity_def)

interpretation command_queue: refusing_buffer "push_queue kCommand" "class_capacity kCommand"
  by unfold_locales (auto simp: push_queue_eq)

interpretation service_queue: refusing_buffer "push_queue kService" "class_capacity kService"
  by unfold_locales (auto simp: push_queue_eq)

interpretation state_queue: latest_buffer "push_queue kState" "class_capacity kState"
  by unfold_locales (auto simp: push_queue_eq)

interpretation bulk_queue: latest_buffer "push_queue kBulk" "class_capacity kBulk"
  by unfold_locales (auto simp: push_queue_eq)

section \<open>Properties\<close>

text \<open>for every class, any sequence of pushes onto an empty receive queue keeps the queue
  within the class capacity, keeps a subsequence of what was pushed in order, and reports as
  replaced or rejected exactly the envelopes that are missing.\<close>

theorem receive_queue_contract:
  "length (snd (push_all (push_queue qos) [] es)) \<le> class_capacity qos \<and>
   subseq (snd (push_all (push_queue qos) [] es)) es \<and>
   length (snd (push_all (push_queue qos) [] es)) +
     dropped (fst (push_all (push_queue qos) [] es)) = length es"
  using any_queue.push_all_bound [of "[]"] any_queue.push_all_subseq [of qos "[]" es]
    any_queue.push_all_count [of "[]"] by simp

text \<open>which envelopes survive congestion: a state or bulk queue holds just the newest
  envelope, a command or service queue the first 64, in order.\<close>

theorem receive_queue_survivors:
  "snd (push_all (push_queue kState) [] es) = lastn 1 es \<and>
   snd (push_all (push_queue kBulk) [] es) = lastn 1 es \<and>
   snd (push_all (push_queue kCommand) [] es) = take 64 es \<and>
   snd (push_all (push_queue kService) [] es) = take 64 es"
  using state_queue.push_all_latest [of "[]" es] bulk_queue.push_all_latest [of "[]" es]
    command_queue.push_all_oldest [of "[]" es] service_queue.push_all_oldest [of "[]" es]
  by simp

text \<open>the class names of the configuration parse back to their class, nothing else
  parses, and a name that does not parse leaves the target unchanged.\<close>

theorem qos_class_names:
  "ParseQosClass (QosClassName q) (Some old) = (True, Some q) \<and>
   (ParseQosClass s (Some old) = (True, Some q) \<longleftrightarrow> s = QosClassName q) \<and>
   (fst (ParseQosClass s (Some old)) \<or> ParseQosClass s (Some old) = (False, Some old))"
  by (cases q) (auto simp: ParseQosClass_def)

end
