(* ===== verification/Zenoh_Keys.thy ===== *)
theory Zenoh_Keys
  imports Prelude
begin

text \<open>
  The Zenoh key expressions of \<^verbatim>\<open>src/transport/bridge_transport.cpp\<close>: normalisation of ROS
  names and the keys of topics, services and liveliness tokens.  The reference description of
  a ROS name is its list of non-empty segments between slashes.
\<close>

section \<open>Normalisation of ROS names\<close>

fun normalize_loop :: "string \<Rightarrow> bool \<Rightarrow> string \<Rightarrow> string" where
  "normalize_loop normalized previous_slash [] = normalized"
| "normalize_loop normalized previous_slash (ch # name) =
     (if ch = CHR ''/'' then
        normalize_loop (if \<not> previous_slash then normalized @ [CHR ''/''] else normalized) True name
      else normalize_loop (normalized @ [ch]) False name)"

function pop_slashes :: "string \<Rightarrow> string" where
  "pop_slashes normalized =
     (if normalized \<noteq> [] \<and> last normalized = CHR ''/'' then pop_slashes (butlast normalized)
      else normalized)"
  by pat_completeness auto
termination
  by (relation "measure length") auto

declare pop_slashes.simps [simp del]

definition NormalizeRosName :: "string \<Rightarrow> string" where
  "NormalizeRosName name = pop_slashes (normalize_loop [] True name)"

section \<open>Keys\<close>

definition TopicFanoutKey :: "string \<Rightarrow> string \<Rightarrow> string" where
  "TopicFanoutKey source_host ros_topic =
     ''netbridge/v1/topic/'' @ source_host @ ''/fanout/'' @ NormalizeRosName ros_topic"

definition TopicDirectedKey :: "string \<Rightarrow> string \<Rightarrow> string \<Rightarrow> string" where
  "TopicDirectedKey source_host destination_host ros_topic =
     ''netbridge/v1/topic/'' @ source_host @ ''/dst/'' @ destination_host @ ''/'' @
       NormalizeRosName ros_topic"

definition ServiceKey :: "string \<Rightarrow> string \<Rightarrow> string" where
  "ServiceKey server_host ros_service =
     ''netbridge/v1/service/'' @ server_host @ ''/'' @ NormalizeRosName ros_service"

definition AliveKey :: "string \<Rightarrow> string" where
  "AliveKey hostname = ''netbridge/v1/alive/'' @ hostname"

definition ParseAliveKey :: "string \<Rightarrow> string option \<Rightarrow> bool \<times> string option" where
  "ParseAliveKey key hostname =
     (let kPrefix = ''netbridge/v1/alive/'' in
      case hostname of
        None \<Rightarrow> (False, None)
      | Some old \<Rightarrow>
          if \<not> starts_with kPrefix key then (False, Some old)
          else let parsed = drop (length kPrefix) key
               in if parsed = [] \<or> CHR ''/'' \<in> set parsed then (False, Some old)
                  else (True, Some parsed))"

section \<open>Segments\<close>

fun split_slash :: "string \<Rightarrow> string list" where
  "split_slash [] = [[]]"
| "split_slash (c # s) =
     (if c = CHR ''/'' then [] # split_slash s
      else (c # hd (split_slash s)) # tl (split_slash s))"

definition segments :: "string \<Rightarrow> string list" where
  "segments s = filter (\<lambda>w. w \<noteq> []) (split_slash s)"

fun join_slash :: "string list \<Rightarrow> string" where
  "join_slash [] = []"
| "join_slash [w] = w"
| "join_slash (w # ws) = w @ ''/'' @ join_slash ws"

definition slash_free :: "string \<Rightarrow> bool" where
  "slash_free s \<longleftrightarrow> CHR ''/'' \<notin> set s"

lemma split_slash_nonempty [simp]: "split_slash s \<noteq> []"
  by (cases s) auto

lemma split_slash_slash_free: "w \<in> set (split_slash s) \<Longrightarrow> slash_free w"
proof (induction s arbitrary: w)
  case Nil
  then show ?case by (simp add: slash_free_def)
next
  case (Cons c s)
  obtain v vs where s: "split_slash s = v # vs" by (cases "split_slash s") auto
  then show ?case using Cons by (fastforce simp: slash_free_def split: if_splits)
qed

lemma segments_wf: "w \<in> set (segments s) \<Longrightarrow> w \<noteq> [] \<and> slash_free w"
  by (auto simp: segments_def split_slash_slash_free)

lemma join_slash_Cons: "join_slash (w # ws) = w @ (if ws = [] then [] else ''/'' @ join_slash ws)"
  by (cases ws) auto

lemma join_slash_eq_Nil: "\<forall>w \<in> set ws. w \<noteq> [] \<Longrightarrow> join_slash ws = [] \<longleftrightarrow> ws = []"
  by (cases ws) (auto simp: join_slash_Cons)

subsection \<open>The loop without its accumulator\<close>

fun go :: "bool \<Rightarrow> string \<Rightarrow> string" where
  "go prev [] = []"
| "go prev (c # s) =
     (if c = CHR ''/'' then (if prev then [] else [CHR ''/'']) @ go True s else c # go False s)"

lemma normalize_loop_go: "normalize_loop acc prev s = acc @ go prev s"
  by (induction s arbitrary: acc prev) auto

lemma pop_slashes_Nil [simp]: "pop_slashes [] = []"
  by (simp add: pop_slashes.simps)

lemma pop_slashes_snoc:
  "pop_slashes (s @ [c]) = (if c = CHR ''/'' then pop_slashes s else s @ [c])"
  by (subst pop_slashes.simps) simp

lemma pop_slashes_Cons:
  "pop_slashes (c # s) =
     (if pop_slashes s = [] then (if c = CHR ''/'' then [] else [c]) else c # pop_slashes s)"
proof (induction s rule: rev_induct)
  case Nil
  then show ?case using pop_slashes_snoc [of "[]" c] by simp
next
  case (snoc d s)
  then show ?case using pop_slashes_snoc [of "c # s" d] by (simp add: pop_slashes_snoc)
qed

lemma pop_go:
  "pop_slashes (go False s) = join_slash (hd (split_slash s) # filter (\<lambda>w. w \<noteq> []) (tl (split_slash s)))
   \<and> pop_slashes (go True s) = join_slash (segments s)"
proof (induction s)
  case Nil
  then show ?case by (simp add: segments_def)
next
  case (Cons c s)
  obtain v vs where s: "split_slash s = v # vs" by (cases "split_slash s") auto
  show ?case
  proof (cases "c = CHR ''/''")
    case True
    have "join_slash (segments s) = [] \<longleftrightarrow> segments s = []"
      by (rule join_slash_eq_Nil) (use segments_wf in blast)
    then show ?thesis using True Cons s
      by (auto simp: pop_slashes_Cons join_slash_Cons segments_def)
  next
    case False
    then show ?thesis using Cons s
      by (auto simp: pop_slashes_Cons join_slash_Cons segments_def)
  qed
qed

lemma NormalizeRosName_segments: "NormalizeRosName s = join_slash (segments s)"
  using pop_go [of s] by (simp add: NormalizeRosName_def normalize_loop_go)

subsection \<open>Splitting a joined list\<close>

lemma split_slash_append_slash:
  "slash_free w \<Longrightarrow> split_slash (w @ CHR ''/'' # s) = w # split_slash s"
  by (induction w) (auto simp: slash_free_def)

lemma split_slash_free: "slash_free w \<Longrightarrow> split_slash w = [w]"
  by (induction w) (auto simp: slash_free_def)

lemma split_join:
  "\<forall>w \<in> set ws. w \<noteq> [] \<and> slash_free w \<Longrightarrow> ws \<noteq> [] \<Longrightarrow> split_slash (join_slash ws) = ws"
  by (induction ws rule: join_slash.induct) (auto simp: split_slash_free split_slash_append_slash)

lemma segments_join:
  "\<forall>w \<in> set ws. w \<noteq> [] \<and> slash_free w \<Longrightarrow> segments (join_slash ws) = ws"
  by (cases "ws = []") (auto simp: segments_def split_join)

lemma segments_Normalize [simp]: "segments (NormalizeRosName s) = segments s"
  by (simp add: NormalizeRosName_segments segments_join segments_wf)

lemma Normalize_eq_iff: "NormalizeRosName s = NormalizeRosName t \<longleftrightarrow> segments s = segments t"
  by (metis NormalizeRosName_segments segments_Normalize)

lemma slash_free_split:
  "slash_free h \<Longrightarrow> slash_free h' \<Longrightarrow> h @ CHR ''/'' # s = h' @ CHR ''/'' # s' \<longleftrightarrow> h = h' \<and> s = s'"
proof (induction h arbitrary: h')
  case Nil
  then show ?case by (cases h') (auto simp: slash_free_def)
next
  case (Cons c h)
  then show ?case by (cases h') (auto simp: slash_free_def)
qed

lemma ParseAliveKey_iff:
  "ParseAliveKey k (Some old) = (True, Some h) \<longleftrightarrow> k = AliveKey h \<and> h \<noteq> [] \<and> slash_free h"
  by (auto simp: ParseAliveKey_def AliveKey_def Let_def slash_free_def starts_with_iff
           split: if_splits)

section \<open>Properties\<close>

text \<open>\<open>NormalizeRosName\<close> is the slash-join of the non-empty segments of the name, so the
  result has no leading, trailing or doubled slash, normalising twice changes nothing, and two
  names have the same key text exactly when they have the same segments.\<close>

theorem normalize_canonical:
  "NormalizeRosName s = join_slash (segments s) \<and>
   NormalizeRosName (NormalizeRosName s) = NormalizeRosName s \<and>
   (NormalizeRosName s = NormalizeRosName t \<longleftrightarrow> segments s = segments t)"
  by (simp add: Normalize_eq_iff) (rule NormalizeRosName_segments)

text \<open>C35: between hosts whose names hold no slash, topic keys do not collide: a fan-out key
  determines its source and topic segments, a directed key also its destination, and no key
  is both.\<close>

theorem topic_keys_injective:
  assumes "slash_free h" "slash_free h'" "slash_free d" "slash_free d'"
  shows "(TopicFanoutKey h t = TopicFanoutKey h' t' \<longleftrightarrow> h = h' \<and> segments t = segments t') \<and>
    (TopicDirectedKey h d t = TopicDirectedKey h' d' t' \<longleftrightarrow>
       h = h' \<and> d = d' \<and> segments t = segments t') \<and>
    TopicFanoutKey h t \<noteq> TopicDirectedKey h' d t' \<and>
    (ServiceKey h s = ServiceKey h' s' \<longleftrightarrow> h = h' \<and> segments s = segments s')"
  using assms
  by (auto simp: TopicFanoutKey_def TopicDirectedKey_def ServiceKey_def slash_free_split
        Normalize_eq_iff)

theorem topic_keys_injective_witness:
  "TopicFanoutKey ''drone1'' ''/a//b/'' = TopicFanoutKey ''drone1'' ''a/b'' \<and>
   TopicFanoutKey ''drone1'' ''/x'' \<noteq> TopicDirectedKey ''drone1'' ''gs'' ''/x''"
proof -
  have h: "slash_free ''drone1''" "slash_free ''gs''" by (simp_all add: slash_free_def)
  show ?thesis
    using topic_keys_injective [OF h(1) h(1) h(2) h(2), of "''/a//b/''" "''a/b''"]
      topic_keys_injective [OF h(1) h(1) h(2) h(2), of "''/x''" "''/x''"]
    by (simp add: segments_def)
qed

text \<open>\<open>ParseAliveKey\<close> recovers exactly the host a liveliness key was built from: it
  accepts a key if and only if it is \<open>AliveKey\<close> of a non-empty host name without slashes, and
  leaves its output alone otherwise.\<close>

theorem alive_key_roundtrip:
  "(ParseAliveKey k (Some old) = (True, Some h) \<longleftrightarrow> k = AliveKey h \<and> h \<noteq> [] \<and> slash_free h) \<and>
   (fst (ParseAliveKey k (Some old)) \<or> ParseAliveKey k (Some old) = (False, Some old))"
  unfolding ParseAliveKey_iff by (auto simp: ParseAliveKey_def Let_def)

end
