(* ===== verification/Point_Layout.thy ===== *)
theory Point_Layout
  imports Prelude
begin

text \<open>
  The point layout analysis of \<^verbatim>\<open>src/transport/draco_pointcloud_codec.cpp\<close>: which bytes of a
  point the Draco codec carries (position and colour) and which go to the side car.
  A \<^verbatim>\<open>const sensor_msgs::PointField*\<close> into the field vector is the pair of the index it
  points at and the field there, so that pointer equality is equality of indices.
  Offsets and counts are 32-bit; the sums and products the code forms from them are taken in
  64 bits, which they cannot leave, and are therefore written on \<open>nat\<close>.
\<close>

section \<open>Fields\<close>

record PointField =
  pf_name :: string
  pf_offset :: u32
  pf_datatype :: byte
  pf_count :: u32

type_synonym field_ptr = "nat \<times> PointField"

text \<open>The datatype constants of \<^verbatim>\<open>sensor_msgs/PointField\<close>.\<close>

abbreviation (input) PF_INT8 :: byte where "PF_INT8 \<equiv> 1"
abbreviation (input) PF_UINT8 :: byte where "PF_UINT8 \<equiv> 2"
abbreviation (input) PF_INT16 :: byte where "PF_INT16 \<equiv> 3"
abbreviation (input) PF_UINT16 :: byte where "PF_UINT16 \<equiv> 4"
abbreviation (input) PF_INT32 :: byte where "PF_INT32 \<equiv> 5"
abbreviation (input) PF_UINT32 :: byte where "PF_UINT32 \<equiv> 6"
abbreviation (input) PF_FLOAT32 :: byte where "PF_FLOAT32 \<equiv> 7"
abbreviation (input) PF_FLOAT64 :: byte where "PF_FLOAT64 \<equiv> 8"

datatype ColorEncoding = ColorNone | ColorPacked | ColorSeparate

record PointLayout =
  lay_x :: "field_ptr option"
  lay_y :: "field_ptr option"
  lay_z :: "field_ptr option"
  lay_packed_color :: "field_ptr option"
  lay_red :: "field_ptr option"
  lay_green :: "field_ptr option"
  lay_blue :: "field_ptr option"
  lay_alpha :: "field_ptr option"
  color_encoding :: ColorEncoding
  encoded_byte_mask :: "bool list"

definition default_layout :: PointLayout where
  "default_layout =
     \<lparr>lay_x = None, lay_y = None, lay_z = None, lay_packed_color = None, lay_red = None,
      lay_green = None, lay_blue = None, lay_alpha = None, color_encoding = ColorNone,
      encoded_byte_mask = []\<rparr>"

definition DatatypeSize :: "byte \<Rightarrow> nat" where
  "DatatypeSize dt =
     (if dt = PF_INT8 \<or> dt = PF_UINT8 then 1
      else if dt = PF_INT16 \<or> dt = PF_UINT16 then 2
      else if dt = PF_INT32 \<or> dt = PF_UINT32 \<or> dt = PF_FLOAT32 then 4
      else if dt = PF_FLOAT64 then 8 else 0)"

definition FieldFits :: "PointField \<Rightarrow> nat \<Rightarrow> bool" where
  "FieldFits field point_step =
     (let datatype_size = DatatypeSize (pf_datatype field) in
      if datatype_size = 0 \<or> pf_count field = 0 then False
      else
        let size = datatype_size * unat (pf_count field)
        in unat (pf_offset field) \<le> point_step \<and> size \<le> point_step - unat (pf_offset field))"

fun find_from :: "nat \<Rightarrow> PointField list \<Rightarrow> string \<Rightarrow> field_ptr option" where
  "find_from i [] nm = None"
| "find_from i (f # fs) nm = (if pf_name f = nm then Some (i, f) else find_from (Suc i) fs nm)"

definition FindField :: "PointField list \<Rightarrow> string \<Rightarrow> field_ptr option" where
  "FindField flds nm = find_from 0 flds nm"

fun IsFloat32Scalar :: "field_ptr option \<Rightarrow> nat \<Rightarrow> bool" where
  "IsFloat32Scalar None point_step = False"
| "IsFloat32Scalar (Some (i, f)) point_step =
     (pf_datatype f = PF_FLOAT32 \<and> pf_count f = 1 \<and> FieldFits f point_step)"

fun IsUint8Scalar :: "field_ptr option \<Rightarrow> nat \<Rightarrow> bool" where
  "IsUint8Scalar None point_step = False"
| "IsUint8Scalar (Some (i, f)) point_step =
     (pf_datatype f = PF_UINT8 \<and> pf_count f = 1 \<and> FieldFits f point_step)"

fun IsPackedColor :: "field_ptr option \<Rightarrow> nat \<Rightarrow> bool" where
  "IsPackedColor None point_step = False"
| "IsPackedColor (Some (i, f)) point_step =
     (pf_count f = 1 \<and> (pf_datatype f = PF_FLOAT32 \<or> pf_datatype f = PF_UINT32) \<and>
      FieldFits f point_step)"

definition field_end :: "PointField \<Rightarrow> nat" where
  "field_end f = unat (pf_offset f) + DatatypeSize (pf_datatype f) * unat (pf_count f)"

definition SpansOverlap :: "PointField \<Rightarrow> PointField \<Rightarrow> bool" where
  "SpansOverlap lhs rhs =
     (let lhs_end = field_end lhs; rhs_end = field_end rhs
      in unat (pf_offset lhs) < rhs_end \<and> unat (pf_offset rhs) < lhs_end)"

definition MarkField :: "PointField \<Rightarrow> bool list option \<Rightarrow> bool \<times> bool list option" where
  "MarkField field msk =
     (case msk of
        None \<Rightarrow> (False, None)
      | Some m \<Rightarrow>
          if \<not> FieldFits field (length m) then (False, Some m)
          else
            let fin = field_end field
            in (True, Some (take (unat (pf_offset field)) m @
                            replicate (fin - unat (pf_offset field)) True @ drop fin m)))"

section \<open>The layout of a message\<close>

text \<open>Lines 143 to 150: the three position fields.\<close>

definition positions_ok ::
  "field_ptr option \<Rightarrow> field_ptr option \<Rightarrow> field_ptr option \<Rightarrow> nat \<Rightarrow> bool" where
  "positions_ok fx fy fz point_step \<longleftrightarrow>
     IsFloat32Scalar fx point_step \<and> IsFloat32Scalar fy point_step \<and>
     IsFloat32Scalar fz point_step \<and>
     \<not> SpansOverlap (snd (the fx)) (snd (the fy)) \<and>
     \<not> SpansOverlap (snd (the fx)) (snd (the fz)) \<and>
     \<not> SpansOverlap (snd (the fy)) (snd (the fz))"

text \<open>The choice between a packed colour, separate channels and no colour.\<close>

definition choose_color :: "PointField list \<Rightarrow> nat \<Rightarrow> PointLayout \<Rightarrow> PointLayout" where
  "choose_color flds point_step parsed =
     (let packed = FindField flds ''rgba'';
          packed = (if \<not> IsPackedColor packed point_step then FindField flds ''rgb'' else packed)
      in if IsPackedColor packed point_step then
           parsed\<lparr>lay_packed_color := packed, color_encoding := ColorPacked\<rparr>
         else
           let red = FindField flds ''r''; green = FindField flds ''g'';
               blue = FindField flds ''b''; alpha = FindField flds ''a''
           in if IsUint8Scalar red point_step \<and> IsUint8Scalar green point_step \<and>
                 IsUint8Scalar blue point_step \<and>
                 (alpha = None \<or> IsUint8Scalar alpha point_step) then
                parsed\<lparr>lay_packed_color := None, lay_red := red, lay_green := green,
                       lay_blue := blue, lay_alpha := alpha, color_encoding := ColorSeparate\<rparr>
              else
                parsed\<lparr>lay_packed_color := None, lay_red := None, lay_green := None,
                       lay_blue := None, lay_alpha := None\<rparr>)"

definition color_fields :: "PointLayout \<Rightarrow> field_ptr list" where
  "color_fields parsed =
     (case color_encoding parsed of
        ColorPacked \<Rightarrow> [the (lay_packed_color parsed)]
      | ColorSeparate \<Rightarrow>
          [the (lay_red parsed), the (lay_green parsed), the (lay_blue parsed)] @
          (if lay_alpha parsed \<noteq> None then [the (lay_alpha parsed)] else [])
      | ColorNone \<Rightarrow> [])"

definition encoded_fields :: "PointLayout \<Rightarrow> field_ptr list" where
  "encoded_fields parsed =
     [the (lay_x parsed), the (lay_y parsed), the (lay_z parsed)] @ color_fields parsed"

fun any_overlap :: "field_ptr list \<Rightarrow> bool" where
  "any_overlap [] = False"
| "any_overlap (f # fs) = (list_ex (\<lambda>g. SpansOverlap (snd f) (snd g)) fs \<or> any_overlap fs)"

text \<open>A field that is not encoded (by address) and overlaps an encoded one.\<close>

definition clobbered :: "PointField list \<Rightarrow> field_ptr list \<Rightarrow> bool" where
  "clobbered flds enc =
     list_ex (\<lambda>(i, f). i \<notin> set (map fst enc) \<and> list_ex (\<lambda>g. SpansOverlap f (snd g)) enc)
       (enumerate 0 flds)"

fun mark_fields :: "field_ptr list \<Rightarrow> bool list \<Rightarrow> bool list option" where
  "mark_fields [] msk = Some msk"
| "mark_fields (f # fs) msk =
     (case MarkField (snd f) (Some msk) of
        (True, Some msk') \<Rightarrow> mark_fields fs msk'
      | _ \<Rightarrow> None)"

definition ParseLayout ::
  "PointField list \<Rightarrow> u32 \<Rightarrow> PointLayout option \<Rightarrow> bool \<times> PointLayout option" where
  "ParseLayout flds step layout =
     (let point_step = unat step in
      if layout = None \<or> step = 0 then (False, layout)
      else if list_ex (\<lambda>f. \<not> FieldFits f point_step) flds then (False, layout)
      else
        let parsed = default_layout\<lparr>lay_x := FindField flds ''x'',
              lay_y := FindField flds ''y'', lay_z := FindField flds ''z''\<rparr>
        in if \<not> positions_ok (lay_x parsed) (lay_y parsed) (lay_z parsed) point_step
           then (False, layout)
           else
             let parsed = choose_color flds point_step parsed;
                 enc = encoded_fields parsed
             in if any_overlap enc then (False, layout)
                else if clobbered flds enc then (False, layout)
                else
                  (case mark_fields enc (replicate point_step False) of
                     None \<Rightarrow> (False, layout)
                   | Some msk \<Rightarrow> (True, Some (parsed\<lparr>encoded_byte_mask := msk\<rparr>))))"

text \<open>The call as \<^verbatim>\<open>Encode\<close> and \<^verbatim>\<open>Decode\<close> make it, on a fresh layout.\<close>

definition parse_layout :: "PointField list \<Rightarrow> u32 \<Rightarrow> PointLayout option" where
  "parse_layout flds step =
     (case ParseLayout flds step (Some default_layout) of
        (True, l) \<Rightarrow> l | (False, _) \<Rightarrow> None)"

definition UnencodedBytesPerPoint :: "PointLayout \<Rightarrow> nat" where
  "UnencodedBytesPerPoint layout = length (filter (\<lambda>b. \<not> b) (encoded_byte_mask layout))"

section \<open>Spans\<close>

definition field_span :: "PointField \<Rightarrow> nat set" where
  "field_span f = {unat (pf_offset f)..<field_end f}"

lemma FieldFits_span:
  "FieldFits f n \<Longrightarrow> unat (pf_offset f) < field_end f \<and> field_end f \<le> n"
  by (auto simp: FieldFits_def field_end_def Let_def unat_gt_0 split: if_splits)

lemma FieldFits_iff:
  "FieldFits f n \<longleftrightarrow> 0 < DatatypeSize (pf_datatype f) \<and> pf_count f \<noteq> 0 \<and> field_end f \<le> n"
  by (auto simp: FieldFits_def field_end_def Let_def)

lemma SpansOverlap_iff:
  "FieldFits f n \<Longrightarrow> FieldFits g n \<Longrightarrow> SpansOverlap f g \<longleftrightarrow> field_span f \<inter> field_span g \<noteq> {}"
  by (drule FieldFits_span)+ (auto simp: SpansOverlap_def field_span_def Let_def)

lemma MarkField_Some:
  "MarkField f (Some m) =
     (if FieldFits f (length m)
      then (True, Some (map (\<lambda>b. m ! b \<or> b \<in> field_span f) [0..<length m])) else (False, Some m))"
proof (cases "FieldFits f (length m)")
  case True
  note s = FieldFits_span [OF True]
  have "take (unat (pf_offset f)) m @ replicate (field_end f - unat (pf_offset f)) True @
      drop (field_end f) m = map (\<lambda>b. m ! b \<or> b \<in> field_span f) [0..<length m]"
    by (rule nth_equalityI) (use s in \<open>auto simp: nth_append field_span_def min_def\<close>)
  then show ?thesis using True by (simp add: MarkField_def Let_def)
qed (simp add: MarkField_def)

lemma mark_fields_Some:
  "(\<And>f. f \<in> set fs \<Longrightarrow> FieldFits (snd f) (length m)) \<Longrightarrow>
    mark_fields fs m = Some (map (\<lambda>b. m ! b \<or> (\<exists>f\<in>set fs. b \<in> field_span (snd f))) [0..<length m])"
proof (induction fs arbitrary: m)
  case Nil
  then show ?case by (simp add: map_nth)
next
  case (Cons f fs)
  have "FieldFits (snd f) (length m)" using Cons.prems by simp
  then show ?case using Cons.IH [of "map (\<lambda>b. m ! b \<or> b \<in> field_span (snd f)) [0..<length m]"] Cons.prems
    by (auto simp: MarkField_Some)
qed

lemma any_overlap_disjoint:
  "(\<And>f. f \<in> set fs \<Longrightarrow> FieldFits (snd f) n) \<Longrightarrow> \<not> any_overlap fs \<Longrightarrow>
    i < j \<Longrightarrow> j < length fs \<Longrightarrow> field_span (snd (fs ! i)) \<inter> field_span (snd (fs ! j)) = {}"
proof (induction fs arbitrary: i j)
  case Nil
  then show ?case by simp
next
  case (Cons f fs)
  obtain j' where j: "j = Suc j'" using Cons.prems by (cases j) auto
  show ?case
  proof (cases i)
    case 0
    have "fs ! j' \<in> set fs" using Cons.prems j by simp
    then have "\<not> SpansOverlap (snd f) (snd (fs ! j'))"
      using Cons.prems(2) by (auto simp: list_ex_iff)
    then show ?thesis
      using SpansOverlap_iff Cons.prems(1) \<open>fs ! j' \<in> set fs\<close> 0 j by fastforce
  next
    case (Suc i')
    then show ?thesis using Cons.IH [of i' j'] Cons.prems j by auto
  qed
qed

section \<open>Well-formed layouts\<close>

text \<open>What the rest of the codec relies on: the three positions are 4-byte fields, the colour
  fields the encoding names are present with their sizes, no two encoded fields share a byte,
  and the mask marks exactly the bytes of the encoded fields.\<close>

definition field_sized :: "field_ptr option \<Rightarrow> nat \<Rightarrow> bool" where
  "field_sized p n \<longleftrightarrow> p \<noteq> None \<and> field_end (snd (the p)) = unat (pf_offset (snd (the p))) + n"

definition color_wf :: "PointLayout \<Rightarrow> bool" where
  "color_wf l \<longleftrightarrow>
     (case color_encoding l of
        ColorNone \<Rightarrow> True
      | ColorPacked \<Rightarrow> field_sized (lay_packed_color l) 4
      | ColorSeparate \<Rightarrow>
          field_sized (lay_red l) 1 \<and> field_sized (lay_green l) 1 \<and> field_sized (lay_blue l) 1 \<and>
          (lay_alpha l = None \<or> field_sized (lay_alpha l) 1))"

definition layout_wf :: "nat \<Rightarrow> PointLayout \<Rightarrow> bool" where
  "layout_wf n l \<longleftrightarrow>
     field_sized (lay_x l) 4 \<and> field_sized (lay_y l) 4 \<and> field_sized (lay_z l) 4 \<and> color_wf l \<and>
     (\<forall>f \<in> set (encoded_fields l). FieldFits (snd f) n) \<and> \<not> any_overlap (encoded_fields l) \<and>
     encoded_byte_mask l =
       map (\<lambda>b. \<exists>f \<in> set (encoded_fields l). b \<in> field_span (snd f)) [0..<n]"

lemma scalar_sized:
  "IsFloat32Scalar p n \<Longrightarrow> field_sized p 4 \<and> FieldFits (snd (the p)) n"
  "IsUint8Scalar p n \<Longrightarrow> field_sized p 1 \<and> FieldFits (snd (the p)) n"
  "IsPackedColor p n \<Longrightarrow> field_sized p 4 \<and> FieldFits (snd (the p)) n"
proof -
  have s: "DatatypeSize 7 = 4" "DatatypeSize 6 = 4" "DatatypeSize 2 = 1"
    by (simp_all add: DatatypeSize_def)
  show "IsFloat32Scalar p n \<Longrightarrow> field_sized p 4 \<and> FieldFits (snd (the p)) n"
    by (cases "(p, n)" rule: IsFloat32Scalar.cases) (auto simp: field_sized_def field_end_def s)
  show "IsUint8Scalar p n \<Longrightarrow> field_sized p 1 \<and> FieldFits (snd (the p)) n"
    by (cases "(p, n)" rule: IsUint8Scalar.cases) (auto simp: field_sized_def field_end_def s)
  show "IsPackedColor p n \<Longrightarrow> field_sized p 4 \<and> FieldFits (snd (the p)) n"
    by (cases "(p, n)" rule: IsPackedColor.cases) (auto simp: field_sized_def field_end_def s)
qed

lemma choose_color_keeps [simp]:
  "lay_x (choose_color flds n l) = lay_x l" "lay_y (choose_color flds n l) = lay_y l"
  "lay_z (choose_color flds n l) = lay_z l"
  by (simp_all add: choose_color_def Let_def)

lemma choose_color_wf:
  assumes "color_encoding l = ColorNone"
  shows "color_wf (choose_color flds n l) \<and>
    (\<forall>f \<in> set (color_fields (choose_color flds n l)). FieldFits (snd f) n)"
  using assms scalar_sized(2,3)
  by (auto simp: choose_color_def Let_def color_wf_def color_fields_def)

lemma mask_update_keeps [simp]:
  "encoded_fields (l\<lparr>encoded_byte_mask := msk\<rparr>) = encoded_fields l"
  "color_fields (l\<lparr>encoded_byte_mask := msk\<rparr>) = color_fields l"
  "color_wf (l\<lparr>encoded_byte_mask := msk\<rparr>) = color_wf l"
  by (cases "color_encoding l"; simp add: encoded_fields_def color_fields_def color_wf_def)+

text \<open>When the layout analysis succeeds, and with what.\<close>

definition parsed_base :: "PointField list \<Rightarrow> nat \<Rightarrow> PointLayout" where
  "parsed_base flds n =
     choose_color flds n (default_layout\<lparr>lay_x := FindField flds ''x'',
       lay_y := FindField flds ''y'', lay_z := FindField flds ''z''\<rparr>)"

definition layout_accepted :: "PointField list \<Rightarrow> nat \<Rightarrow> bool" where
  "layout_accepted flds n \<longleftrightarrow>
     0 < n \<and> (\<forall>f \<in> set flds. FieldFits f n) \<and>
     positions_ok (FindField flds ''x'') (FindField flds ''y'') (FindField flds ''z'') n \<and>
     \<not> any_overlap (encoded_fields (parsed_base flds n)) \<and>
     \<not> clobbered flds (encoded_fields (parsed_base flds n))"

lemma parsed_base_fits:
  assumes "positions_ok (FindField flds ''x'') (FindField flds ''y'') (FindField flds ''z'') n"
    and "f \<in> set (encoded_fields (parsed_base flds n))"
  shows "FieldFits (snd f) n"
proof -
  have "f = the (FindField flds ''x'') \<or> f = the (FindField flds ''y'') \<or>
      f = the (FindField flds ''z'') \<or> f \<in> set (color_fields (parsed_base flds n))"
    using assms(2) by (auto simp: encoded_fields_def parsed_base_def)
  then show ?thesis
  proof (elim disjE)
    assume "f \<in> set (color_fields (parsed_base flds n))"
    then show ?thesis
      using choose_color_wf [of "default_layout\<lparr>lay_x := FindField flds ''x'',
       lay_y := FindField flds ''y'', lay_z := FindField flds ''z''\<rparr>"]
      unfolding parsed_base_def by (simp add: default_layout_def)
  qed (use assms(1) scalar_sized(1) in \<open>auto simp: positions_ok_def\<close>)
qed

lemma ParseLayout_eq:
  "ParseLayout flds step (Some old) =
     (if layout_accepted flds (unat step)
      then (True, Some ((parsed_base flds (unat step))\<lparr>encoded_byte_mask :=
             map (\<lambda>b. \<exists>f \<in> set (encoded_fields (parsed_base flds (unat step))). b \<in> field_span (snd f))
               [0..<unat step]\<rparr>))
      else (False, Some old))"
proof (cases "layout_accepted flds (unat step)")
  case True
  then have p: "positions_ok (FindField flds ''x'') (FindField flds ''y'') (FindField flds ''z'')
      (unat step)" by (simp add: layout_accepted_def)
  have "mark_fields (encoded_fields (parsed_base flds (unat step))) (replicate (unat step) False) =
      Some (map (\<lambda>b. \<exists>f \<in> set (encoded_fields (parsed_base flds (unat step))). b \<in> field_span (snd f))
               [0..<unat step])"
    by (subst mark_fields_Some) (auto dest: parsed_base_fits [OF p])
  then show ?thesis using True
    by (auto simp: ParseLayout_def layout_accepted_def Let_def parsed_base_def [symmetric]
        list_ex_iff)
next
  case False
  then show ?thesis
    by (auto simp: ParseLayout_def layout_accepted_def Let_def parsed_base_def [symmetric]
        list_ex_iff unat_gt_0 split: option.split)
qed

lemma ParseLayout_wf:
  assumes "ParseLayout flds step (Some old) = (True, Some l)"
  shows "layout_wf (unat step) l"
proof -
  let ?n = "unat step"
  have acc: "layout_accepted flds ?n" and l: "l = (parsed_base flds ?n)\<lparr>encoded_byte_mask :=
             map (\<lambda>b. \<exists>f \<in> set (encoded_fields (parsed_base flds ?n)). b \<in> field_span (snd f)) [0..<?n]\<rparr>"
    using assms by (auto simp: ParseLayout_eq split: if_splits)
  have p: "positions_ok (FindField flds ''x'') (FindField flds ''y'') (FindField flds ''z'') ?n"
    using acc by (simp add: layout_accepted_def)
  have "color_wf (parsed_base flds ?n)"
    using choose_color_wf by (simp add: parsed_base_def default_layout_def)
  moreover have "field_sized (lay_x (parsed_base flds ?n)) 4 \<and>
      field_sized (lay_y (parsed_base flds ?n)) 4 \<and> field_sized (lay_z (parsed_base flds ?n)) 4"
    using p by (auto simp: positions_ok_def parsed_base_def dest: scalar_sized(1))
  ultimately show ?thesis
    using acc parsed_base_fits [OF p] by (simp add: layout_wf_def l layout_accepted_def)
qed

lemma parse_layout_wf: "parse_layout flds step = Some l \<Longrightarrow> layout_wf (unat step) l"
  by (rule ParseLayout_wf [of flds step default_layout])
     (auto simp: parse_layout_def split: prod.splits bool.splits)

lemma layout_wf_mask:
  assumes "layout_wf n l"
  shows "length (encoded_byte_mask l) = n"
    and "b < n \<Longrightarrow> encoded_byte_mask l ! b \<longleftrightarrow>
           (\<exists>f \<in> set (encoded_fields l). b \<in> field_span (snd f))"
  using assms by (simp_all add: layout_wf_def)

end
