(* ===== verification/Cloud_Storage.thy ===== *)
theory Cloud_Storage
  imports Point_Layout
begin

text \<open>
  The storage side of \<^verbatim>\<open>src/transport/draco_pointcloud_codec.cpp\<close>: validation of a
  \<^verbatim>\<open>PointCloud2\<close>, reading and writing words and colours at a byte offset, and the side car
  that carries the bytes the Draco payload does not.  \<open>None\<close> is undefined behaviour (an index
  out of range, a null field pointer, a division by zero).
\<close>

section \<open>Data\<close>

record Header =
  hdr_seq :: u32
  hdr_stamp :: ros_time
  hdr_frame_id :: string

definition default_header :: Header where
  "default_header = \<lparr>hdr_seq = 0, hdr_stamp = 0, hdr_frame_id = []\<rparr>"

record PointCloud2 =
  pc_header :: Header
  pc_height :: u32
  pc_width :: u32
  pc_fields :: "PointField list"
  pc_is_bigendian :: bool
  pc_point_step :: u32
  pc_row_step :: u32
  pc_data :: bytes
  pc_is_dense :: bool

definition ValidateMessageStorage :: "PointCloud2 \<Rightarrow> u64 option \<Rightarrow> bool \<times> u64 option" where
  "ValidateMessageStorage message point_count =
     (if point_count = None \<or> (pc_height message = 0 \<and> pc_width message \<noteq> 0) then
        (False, point_count)
      else
        let row_data_size = ucast (pc_width message) * ucast (pc_point_step message) :: u64;
            expected_data_size = ucast (pc_row_step message) * ucast (pc_height message) :: u64;
            count = ucast (pc_width message) * ucast (pc_height message) :: u64
        in if row_data_size > ucast (pc_row_step message) \<or>
              unat expected_data_size \<noteq> length (pc_data message) \<or>
              count > 2147483647 then (False, point_count)
           else if count > 0 \<and> pc_point_step message = 0 then (False, point_count)
           else (True, Some count))"

section \<open>Words and colours\<close>

definition ReadUint32 :: "bytes \<Rightarrow> nat \<Rightarrow> bool \<Rightarrow> u32 option" where
  "ReadUint32 data p bigendian =
     do { b0 \<leftarrow> load data p; b1 \<leftarrow> load data (p + 1);
          b2 \<leftarrow> load data (p + 2); b3 \<leftarrow> load data (p + 3);
          Some (if bigendian then
                  push_bit 24 (ucast b0) OR push_bit 16 (ucast b1) OR push_bit 8 (ucast b2) OR ucast b3
                else
                  ucast b0 OR push_bit 8 (ucast b1) OR push_bit 16 (ucast b2) OR push_bit 24 (ucast b3)) }"

definition WriteUint32 :: "u32 \<Rightarrow> bool \<Rightarrow> nat \<Rightarrow> bytes \<Rightarrow> bytes option" where
  "WriteUint32 value bigendian p data =
     (if bigendian then
        do { data \<leftarrow> store data p (ucast (drop_bit 24 value));
             data \<leftarrow> store data (p + 1) (ucast (drop_bit 16 value));
             data \<leftarrow> store data (p + 2) (ucast (drop_bit 8 value));
             store data (p + 3) (ucast value) }
      else
        do { data \<leftarrow> store data p (ucast value);
             data \<leftarrow> store data (p + 1) (ucast (drop_bit 8 value));
             data \<leftarrow> store data (p + 2) (ucast (drop_bit 16 value));
             store data (p + 3) (ucast (drop_bit 24 value)) })"

text \<open>A \<^verbatim>\<open>float\<close> is moved as its bit pattern (\<^verbatim>\<open>memcpy\<close>).\<close>

definition ReadFloat32 :: "bytes \<Rightarrow> nat \<Rightarrow> bool \<Rightarrow> u32 option" where
  "ReadFloat32 data p bigendian = ReadUint32 data p bigendian"

definition WriteFloat32 :: "u32 \<Rightarrow> bool \<Rightarrow> nat \<Rightarrow> bytes \<Rightarrow> bytes option" where
  "WriteFloat32 value bigendian p data = WriteUint32 value bigendian p data"

type_synonym rgba = "byte \<times> byte \<times> byte \<times> byte"

definition field_offset :: "field_ptr option \<Rightarrow> nat option" where
  "field_offset p = map_option (\<lambda>(i, f). unat (pf_offset f)) p"

definition ReadColor :: "bytes \<Rightarrow> nat \<Rightarrow> bool \<Rightarrow> PointLayout \<Rightarrow> rgba option" where
  "ReadColor data point bigendian layout =
     (if color_encoding layout = ColorPacked then
        do { off \<leftarrow> field_offset (lay_packed_color layout);
             packed \<leftarrow> ReadUint32 data (point + off) bigendian;
             Some (ucast (drop_bit 16 packed), ucast (drop_bit 8 packed), ucast packed,
                   ucast (drop_bit 24 packed)) }
      else
        do { ro \<leftarrow> field_offset (lay_red layout); r \<leftarrow> load data (point + ro);
             go \<leftarrow> field_offset (lay_green layout); g \<leftarrow> load data (point + go);
             bo \<leftarrow> field_offset (lay_blue layout); b \<leftarrow> load data (point + bo);
             a \<leftarrow> (case lay_alpha layout of None \<Rightarrow> Some 255
                   | Some f \<Rightarrow> load data (point + unat (pf_offset (snd f))));
             Some (r, g, b, a) })"

fun WriteColor :: "rgba \<Rightarrow> bool \<Rightarrow> PointLayout \<Rightarrow> nat \<Rightarrow> bytes \<Rightarrow> bytes option" where
  "WriteColor (c0, c1, c2, c3) bigendian layout point data =
     (if color_encoding layout = ColorPacked then
        do { off \<leftarrow> field_offset (lay_packed_color layout);
             WriteUint32 (push_bit 24 (ucast c3) OR push_bit 16 (ucast c0) OR push_bit 8 (ucast c1)
                            OR ucast c2) bigendian (point + off) data }
      else
        do { ro \<leftarrow> field_offset (lay_red layout); data \<leftarrow> store data (point + ro) c0;
             go \<leftarrow> field_offset (lay_green layout); data \<leftarrow> store data (point + go) c1;
             bo \<leftarrow> field_offset (lay_blue layout); data \<leftarrow> store data (point + bo) c2;
             (case lay_alpha layout of None \<Rightarrow> Some data
              | Some f \<Rightarrow> store data (point + unat (pf_offset (snd f))) c3) })"

section \<open>The side car\<close>

text \<open>32-bit products, as the code forms them.\<close>

definition row_bytes :: "PointCloud2 \<Rightarrow> nat" where
  "row_bytes message = unat (pc_width message * pc_point_step message)"

definition row_padding :: "PointCloud2 \<Rightarrow> nat" where
  "row_padding message = unat (pc_row_step message - pc_width message * pc_point_step message)"

definition sidecar_expected :: "PointCloud2 \<Rightarrow> PointLayout \<Rightarrow> u64" where
  "sidecar_expected message layout =
     of_nat (UnencodedBytesPerPoint layout) * ucast (pc_width message) * ucast (pc_height message)
     + of_nat (row_padding message) * ucast (pc_height message)"

definition load_range :: "'a list \<Rightarrow> nat \<Rightarrow> nat \<Rightarrow> 'a list option" where
  "load_range xs i j = (if i \<le> j \<and> j \<le> length xs then Some (slice i (j - i) xs) else None)"

definition ExtractSidecar ::
  "PointCloud2 \<Rightarrow> PointLayout \<Rightarrow> bytes option \<Rightarrow> (bool \<times> bytes option) option" where
  "ExtractSidecar message layout sidecar =
     (if sidecar = None then Some (False, None)
      else
        let expected = sidecar_expected message layout in
        if unat expected > 2 ^ 64 - 1 then Some (False, sidecar)
        else
          do { out \<leftarrow>
                 foldO (\<lambda>row sc.
                   let row_offset = row * unat (pc_row_step message) in
                   do { sc \<leftarrow>
                          foldO (\<lambda>column sc.
                            let point_offset = row_offset + column * unat (pc_point_step message) in
                            foldO (\<lambda>byte sc.
                              do { m \<leftarrow> load (encoded_byte_mask layout) byte;
                                   if \<not> m then
                                     do { v \<leftarrow> load (pc_data message) (point_offset + byte);
                                          Some (sc @ [v]) }
                                   else Some sc })
                              [0..<unat (pc_point_step message)] sc)
                            [0..<unat (pc_width message)] sc;
                        pad \<leftarrow> load_range (pc_data message) (row_offset + row_bytes message)
                                 (row_offset + unat (pc_row_step message));
                        Some (sc @ pad) })
                   [0..<unat (pc_height message)] [];
               Some (length out = unat expected, Some out) })"

definition copy_range :: "bytes \<Rightarrow> nat \<Rightarrow> nat \<Rightarrow> nat \<Rightarrow> bytes \<Rightarrow> bytes option" where
  "copy_range src i n dst data =
     (if i + n \<le> length src \<and> dst + n \<le> length data
      then Some (take dst data @ slice i n src @ drop (dst + n) data) else None)"

definition RestoreSidecar ::
  "bytes \<Rightarrow> PointLayout \<Rightarrow> PointCloud2 option \<Rightarrow> (bool \<times> PointCloud2 option) option" where
  "RestoreSidecar sidecar layout msg =
     (case msg of
        None \<Rightarrow> Some (False, None)
      | Some message \<Rightarrow>
          let expected = sidecar_expected message layout in
          if unat expected \<noteq> length sidecar then Some (False, Some message)
          else
            do { (data, cursor) \<leftarrow>
                   foldO (\<lambda>row st.
                     let row_offset = row * unat (pc_row_step message) in
                     do { (data, cursor) \<leftarrow>
                            foldO (\<lambda>column st.
                              let point_offset = row_offset + column * unat (pc_point_step message) in
                              foldO (\<lambda>byte (data, cursor).
                                do { m \<leftarrow> load (encoded_byte_mask layout) byte;
                                     if \<not> m then
                                       do { v \<leftarrow> load sidecar cursor;
                                            data \<leftarrow> store data (point_offset + byte) v;
                                            Some (data, cursor + 1) }
                                     else Some (data, cursor) })
                                [0..<unat (pc_point_step message)] st)
                              [0..<unat (pc_width message)] st;
                          data \<leftarrow> copy_range sidecar cursor (row_padding message)
                                    (row_offset + row_bytes message) data;
                          Some (data, cursor + row_padding message) })
                     [0..<unat (pc_height message)] (pc_data message, 0);
                 Some (cursor = length sidecar, Some (message\<lparr>pc_data := data\<rparr>)) })"

definition PointDataOffset :: "PointCloud2 \<Rightarrow> u32 \<Rightarrow> nat option" where
  "PointDataOffset message point_index =
     (if pc_width message = 0 then None
      else
        let row = point_index div pc_width message; column = point_index mod pc_width message
        in Some (unat row * unat (pc_row_step message) + unat column * unat (pc_point_step message)))"

section \<open>Valid storage\<close>

abbreviation nW :: "PointCloud2 \<Rightarrow> nat" where "nW m \<equiv> unat (pc_width m)"
abbreviation nH :: "PointCloud2 \<Rightarrow> nat" where "nH m \<equiv> unat (pc_height m)"
abbreviation nS :: "PointCloud2 \<Rightarrow> nat" where "nS m \<equiv> unat (pc_point_step m)"
abbreviation nR :: "PointCloud2 \<Rightarrow> nat" where "nR m \<equiv> unat (pc_row_step m)"

text \<open>The same conditions over the natural numbers, where nothing can wrap.\<close>

definition storage_ok :: "PointCloud2 \<Rightarrow> bool" where
  "storage_ok m \<longleftrightarrow>
     (nH m = 0 \<longrightarrow> nW m = 0) \<and> nW m * nS m \<le> nR m \<and> nR m * nH m = length (pc_data m) \<and>
     nW m * nH m \<le> 2147483647 \<and> (0 < nW m * nH m \<longrightarrow> 0 < nS m)"

lemma unat_ucast_u64 [simp]: "unat (ucast (w :: u32) :: u64) = unat w"
proof -
  have "unat w < 2 ^ 64" using unsigned_less [of w, where 'a = nat] by simp
  then show ?thesis by (simp add: unsigned_ucast_eq take_bit_nat_eq_self)
qed

lemma unat_mult_u32: "unat (ucast a * ucast b :: u64) = unat (a :: u32) * unat (b :: u32)"
proof -
  have "unat a < 2 ^ 32" "unat b < 2 ^ 32" using unsigned_less [of a] unsigned_less [of b] by simp_all
  then have "unat a * unat b < 2 ^ 32 * 2 ^ 32" by (intro mult_strict_mono) auto
  then have "unat a * unat b < 2 ^ 64" by simp
  then show ?thesis by (simp add: unat_word_ariths)
qed

lemma ValidateMessageStorage_eq:
  "ValidateMessageStorage m (Some old) =
     (if storage_ok m then (True, Some (ucast (pc_width m) * ucast (pc_height m)))
      else (False, Some old))"
proof -
  have z: "w = 0 \<longleftrightarrow> unat w = 0" for w :: "'a::len word" by (simp add: unat_eq_0)
  show ?thesis
    unfolding ValidateMessageStorage_def Let_def storage_ok_def z word_less_nat_alt unat_mult_u32 unat_ucast_u64
    by (auto simp: not_less simp flip: z)
qed

lemma row_bytes_ok: "storage_ok m \<Longrightarrow> row_bytes m = nW m * nS m"
  and row_padding_ok: "storage_ok m \<Longrightarrow> row_padding m = nR m - nW m * nS m"
proof -
  assume ok: "storage_ok m"
  have lt: "nW m * nS m \<le> nR m" "nR m < 2 ^ 32" using ok unsigned_less [of "pc_row_step m"]
    by (simp_all add: storage_ok_def)
  then have p: "unat (pc_width m * pc_point_step m) = nW m * nS m" by (simp add: unat_word_ariths)
  then show "row_bytes m = nW m * nS m" by (simp add: row_bytes_def)
  have "pc_width m * pc_point_step m \<le> pc_row_step m" using p lt by (simp add: word_le_nat_alt)
  then show "row_padding m = nR m - nW m * nS m" using p by (simp add: row_padding_def unat_sub)
qed

section \<open>Which byte of the data the side car carries\<close>

definition is_encoded :: "PointCloud2 \<Rightarrow> PointLayout \<Rightarrow> nat \<Rightarrow> bool" where
  "is_encoded m l p \<longleftrightarrow> p mod nR m < nW m * nS m \<and> encoded_byte_mask l ! (p mod nR m mod nS m)"

definition point_positions :: "PointCloud2 \<Rightarrow> PointLayout \<Rightarrow> nat \<Rightarrow> nat list" where
  "point_positions m l off =
     map (\<lambda>b. off + b) (filter (\<lambda>b. \<not> encoded_byte_mask l ! b) [0..<nS m])"

definition row_positions :: "PointCloud2 \<Rightarrow> PointLayout \<Rightarrow> nat \<Rightarrow> nat list" where
  "row_positions m l r =
     concat (map (\<lambda>c. point_positions m l (r * nR m + c * nS m)) [0..<nW m]) @
     [r * nR m + nW m * nS m..<r * nR m + nR m]"

definition sidecar_positions :: "PointCloud2 \<Rightarrow> PointLayout \<Rightarrow> nat list" where
  "sidecar_positions m l = concat (map (row_positions m l) [0..<nH m])"

lemma upt_blocks: "[s..<s + n * k] = concat (map (\<lambda>i. [s + i * k..<s + i * k + k]) [0..<n])"
proof (induction n)
  case (Suc n)
  have "[s..<s + Suc n * k] = [s..<s + n * k] @ [s + n * k..<s + n * k + k]"
    using upt_add_eq_append [of s "s + n * k" k] by (simp add: algebra_simps)
  then show ?case using Suc by (simp add: algebra_simps)
qed simp

lemma sidecar_positions_filter:
  assumes "storage_ok m"
  shows "sidecar_positions m l = filter (\<lambda>p. \<not> is_encoded m l p) [0..<length (pc_data m)]"
proof -
  let ?R = "nR m" and ?S = "nS m" and ?W = "nW m"
  have le: "?W * ?S \<le> ?R" using assms by (simp add: storage_ok_def)
  have point: "point_positions m l (r * ?R + c * ?S) =
      filter (\<lambda>p. \<not> is_encoded m l p) [r * ?R + c * ?S..<r * ?R + c * ?S + ?S]"
    if c: "c < ?W" for r c
  proof -
    have "c * ?S + b < ?W * ?S" if "b < ?S" for b
    proof -
      have "c * ?S + ?S \<le> ?W * ?S" using c by (metis Suc_leI add.commute mult_Suc mult_le_mono1)
      then show ?thesis using that by linarith
    qed
    note lt = this
    have m: "(r * ?R + c * ?S + b) mod ?R = c * ?S + b" if "b < ?S" for b
      using lt [OF that] le by (simp add: add.assoc)
    have "[r * ?R + c * ?S..<r * ?R + c * ?S + ?S] = map (\<lambda>b. r * ?R + c * ?S + b) [0..<?S]"
      using map_add_upt [of "r * ?R + c * ?S" ?S] by (simp only: add.commute [of _ "r * ?R + c * ?S"])
    moreover have "is_encoded m l (r * ?R + c * ?S + b) \<longleftrightarrow> encoded_byte_mask l ! b" if "b < ?S" for b
      using m [OF that] lt [OF that] that by (simp add: is_encoded_def)
    ultimately show ?thesis
      by (auto simp: point_positions_def filter_map comp_def intro!: filter_cong)
  qed
  have row: "row_positions m l r = filter (\<lambda>p. \<not> is_encoded m l p) [r * ?R..<r * ?R + ?R]" for r
  proof -
    have s: "[r * ?R..<r * ?R + ?R] = [r * ?R..<r * ?R + ?W * ?S] @ [r * ?R + ?W * ?S..<r * ?R + ?R]"
      using le upt_add_eq_append [of "r * ?R" "r * ?R + ?W * ?S" "?R - ?W * ?S"] by simp
    have "\<not> is_encoded m l p" if "p \<in> set [r * ?R + ?W * ?S..<r * ?R + ?R]" for p
    proof -
      have "p = r * ?R + (p - r * ?R)" "?W * ?S \<le> p - r * ?R" "p - r * ?R < ?R"
        using that by auto
      then obtain q where q: "p = r * ?R + q" "?W * ?S \<le> q" "q < ?R" by blast
      then show ?thesis by (simp add: is_encoded_def)
    qed
    then have pad: "filter (\<lambda>p. \<not> is_encoded m l p) [r * ?R + ?W * ?S..<r * ?R + ?R] =
        [r * ?R + ?W * ?S..<r * ?R + ?R]" by simp
    have "filter (\<lambda>p. \<not> is_encoded m l p) [r * ?R..<r * ?R + ?W * ?S] =
        concat (map (\<lambda>c. point_positions m l (r * ?R + c * ?S)) [0..<?W])"
      by (subst upt_blocks) (auto simp: filter_concat comp_def point intro!: arg_cong [of _ _ concat])
    then show ?thesis by (simp add: row_positions_def s pad)
  qed
  have "length (pc_data m) = nH m * ?R" using assms by (simp add: storage_ok_def mult.commute)
  then show ?thesis
    using upt_blocks [of 0 "nH m" ?R]
    by (simp add: sidecar_positions_def filter_concat comp_def ext [OF row])
qed

lemma length_sidecar_positions:
  assumes "storage_ok m"
  shows "length (sidecar_positions m l) =
    nH m * (nW m * length (filter (\<lambda>b. \<not> encoded_byte_mask l ! b) [0..<nS m]) + row_padding m)"
proof -
  have "length (row_positions m l r) =
      nW m * length (filter (\<lambda>b. \<not> encoded_byte_mask l ! b) [0..<nS m]) + row_padding m" for r
    using assms by (simp add: row_positions_def length_concat comp_def point_positions_def
        row_padding_ok sum_list_triv)
  then show ?thesis
    by (simp add: sidecar_positions_def length_concat comp_def sum_list_triv)
qed

text \<open>The size the code computes in 64 bits is the number of side car positions.\<close>

lemma sidecar_expected_ok:
  assumes ok: "storage_ok m" and msk: "length (encoded_byte_mask l) = nS m"
  shows "unat (sidecar_expected m l) = length (sidecar_positions m l)"
proof -
  have u: "UnencodedBytesPerPoint l = length (filter (\<lambda>b. \<not> encoded_byte_mask l ! b) [0..<nS m])"
    unfolding UnencodedBytesPerPoint_def length_filter_conv_card using msk by (simp cong: conj_cong)
  let ?u = "UnencodedBytesPerPoint l"
  have "?u * nW m * nH m + row_padding m * nH m = length (sidecar_positions m l)"
    by (simp add: length_sidecar_positions [OF ok] u algebra_simps)
  moreover have "length (sidecar_positions m l) \<le> length (pc_data m)"
    by (subst sidecar_positions_filter [OF ok]) (metis length_filter_le length_upt minus_nat.diff_0)
  moreover have "length (pc_data m) < 2 ^ 64"
  proof -
    have "nR m < 2 ^ 32" "nH m < 2 ^ 32"
      using unsigned_less [of "pc_row_step m"] unsigned_less [of "pc_height m"] by simp_all
    then have "nR m * nH m < 2 ^ 32 * 2 ^ 32" by (intro mult_strict_mono) auto
    then show ?thesis using ok by (simp add: storage_ok_def)
  qed
  ultimately have "unat (of_nat (?u * nW m * nH m + row_padding m * nH m) :: u64) =
      length (sidecar_positions m l)"
    by (simp only: unat_of_nat) (simp add: take_bit_nat_eq_self)
  moreover have "(of_nat (?u * nW m * nH m + row_padding m * nH m) :: u64) = sidecar_expected m l"
    by (simp add: sidecar_expected_def)
  ultimately show ?thesis by simp
qed

section \<open>Extraction\<close>

definition push_byte :: "bytes \<Rightarrow> nat \<Rightarrow> bytes \<Rightarrow> bytes option" where
  "push_byte data p sc = do { v \<leftarrow> load data p; Some (sc @ [v]) }"

lemma foldO_push_byte:
  "(\<And>p. p \<in> set ps \<Longrightarrow> p < length data) \<Longrightarrow>
    foldO (push_byte data) ps sc = Some (sc @ map (nth data) ps)"
  by (induction ps arbitrary: sc) (simp_all add: push_byte_def)

text \<open>The byte loop of one point, for any body \<open>f\<close> run on the bytes the mask leaves.\<close>

lemma masked_loop:
  assumes "length (encoded_byte_mask l) = nS m"
  shows "foldO (\<lambda>byte u. do { b \<leftarrow> load (encoded_byte_mask l) byte;
                             if \<not> b then f (off + byte) u else Some u }) [0..<nS m] s =
         foldO f (point_positions m l off) s"
  unfolding point_positions_def foldO_map foldO_filter
  using assms by (intro foldO_cong) simp_all

lemma sidecar_positions_bound:
  assumes "storage_ok m" "p \<in> set (sidecar_positions m l)"
  shows "p < length (pc_data m)"
  using assms by (simp add: sidecar_positions_filter)

lemma row_end_bound:
  assumes ok: "storage_ok m" and r: "r < nH m"
  shows "r * nR m + nR m \<le> length (pc_data m)"
proof -
  have "Suc r * nR m \<le> nH m * nR m" using r by (intro mult_le_mono1) simp
  then show ?thesis using ok by (simp add: storage_ok_def algebra_simps)
qed

lemma ExtractSidecar_ok:
  assumes ok: "storage_ok m" and msk: "length (encoded_byte_mask l) = nS m"
  shows "ExtractSidecar m l (Some old) =
    Some (True, Some (map (nth (pc_data m)) (sidecar_positions m l)))"
proof -
  let ?push = "push_byte (pc_data m)"
  have point: "foldO (\<lambda>byte sc. do { b \<leftarrow> load (encoded_byte_mask l) byte;
        if \<not> b then do { v \<leftarrow> load (pc_data m) (off + byte); Some (sc @ [v]) } else Some sc })
      [0..<nS m] s = foldO ?push (point_positions m l off) s" for off s
    using masked_loop [OF msk, of ?push off s] unfolding push_byte_def by simp
  have pad: "Option.bind (load_range (pc_data m) (r * nR m + row_bytes m) (r * nR m + nR m))
        (\<lambda>pad. Some (sc @ pad)) =
      foldO ?push [r * nR m + nW m * nS m..<r * nR m + nR m] sc" if r: "r < nH m" for r sc
  proof -
    have b: "nW m * nS m \<le> nR m" using ok by (simp add: storage_ok_def)
    have "foldO ?push [r * nR m + nW m * nS m..<r * nR m + nR m] sc =
        Some (sc @ map (nth (pc_data m)) [r * nR m + nW m * nS m..<r * nR m + nR m])"
      by (rule foldO_push_byte) (use row_end_bound [OF ok r] in auto)
    moreover have "map (nth (pc_data m)) [r * nR m + nW m * nS m..<r * nR m + nR m] =
        slice (r * nR m + nW m * nS m) (nR m - nW m * nS m) (pc_data m)"
      by (rule nth_equalityI) (use row_end_bound [OF ok r] b in auto)
    ultimately show ?thesis
      using row_end_bound [OF ok r] b by (simp add: load_range_def row_bytes_ok [OF ok])
  qed
  have row: "Option.bind (foldO (\<lambda>c. foldO ?push (point_positions m l (r * nR m + c * nS m))) [0..<nW m] s)
        (\<lambda>sc. Option.bind (load_range (pc_data m) (r * nR m + row_bytes m) (r * nR m + nR m))
          (\<lambda>pad. Some (sc @ pad))) = foldO ?push (row_positions m l r) s" if "r < nH m" for r s
    by (simp add: row_positions_def foldO_append foldO_concat foldO_map pad [OF that]
             del: upt_Suc cong: Option.bind_cong)
  have all: "foldO ?push (sidecar_positions m l) [] =
      Some (map (nth (pc_data m)) (sidecar_positions m l))"
    by (subst foldO_push_byte) (auto intro: sidecar_positions_bound [OF ok])
  have loop: "foldO (\<lambda>r s. Option.bind
        (foldO (\<lambda>c. foldO ?push (point_positions m l (r * nR m + c * nS m))) [0..<nW m] s)
        (\<lambda>sc. Option.bind (load_range (pc_data m) (r * nR m + row_bytes m) (r * nR m + nR m))
          (\<lambda>pad. Some (sc @ pad)))) [0..<nH m] [] = foldO ?push (sidecar_positions m l) []"
    unfolding sidecar_positions_def foldO_concat foldO_map
    by (rule foldO_cong) (simp_all add: row)
  have "unat (sidecar_expected m l) \<le> 2 ^ 64 - 1"
    using unsigned_less [of "sidecar_expected m l", where 'a = nat] by simp
  then show ?thesis
    by (simp add: ExtractSidecar_def Let_def point loop all sidecar_expected_ok [OF ok msk])
qed

section \<open>Restoration\<close>

definition put_byte :: "bytes \<Rightarrow> nat \<Rightarrow> bytes \<times> nat \<Rightarrow> (bytes \<times> nat) option" where
  "put_byte sc p st = (case st of (data, cursor) \<Rightarrow>
     do { v \<leftarrow> load sc cursor; data \<leftarrow> store data p v; Some (data, cursor + 1) })"

definition write_at :: "nat list \<Rightarrow> bytes \<Rightarrow> bytes \<Rightarrow> bytes" where
  "write_at ps vs data = fold (\<lambda>(p, v) d. d[p := v]) (zip ps vs) data"

lemma write_at_simps [simp]:
  "write_at [] vs d = d" "write_at ps [] d = d"
  "write_at (p # ps) (v # vs) d = write_at ps vs (d[p := v])"
  by (simp_all add: write_at_def)

lemma length_write_at [simp]: "length (write_at ps vs d) = length d"
proof (induction ps arbitrary: vs d)
  case (Cons p ps)
  then show ?case by (cases vs) simp_all
qed simp

lemma foldO_put_byte:
  "(\<And>p. p \<in> set ps \<Longrightarrow> p < length d) \<Longrightarrow> k + length ps \<le> length sc \<Longrightarrow>
    foldO (put_byte sc) ps (d, k) = Some (write_at ps (drop k sc) d, k + length ps)"
proof (induction ps arbitrary: d k)
  case (Cons p ps)
  have "drop k sc = sc ! k # drop (Suc k) sc" using Cons.prems by (simp add: Cons_nth_drop_Suc)
  then show ?case using Cons.IH [of "d[p := sc ! k]" "Suc k"] Cons.prems by (simp add: put_byte_def)
qed simp

lemma write_at_other: "p \<notin> set ps \<Longrightarrow> write_at ps vs d ! p = d ! p"
proof (induction ps arbitrary: vs d)
  case (Cons q ps)
  then show ?case by (cases vs) simp_all
qed simp

lemma write_at_nth:
  "distinct ps \<Longrightarrow> k < length ps \<Longrightarrow> k < length vs \<Longrightarrow> ps ! k < length d \<Longrightarrow>
    write_at ps vs d ! (ps ! k) = vs ! k"
proof (induction ps arbitrary: vs d k)
  case (Cons p ps)
  then obtain v vs' where vs: "vs = v # vs'" by (cases vs) auto
  show ?case
  proof (cases k)
    case 0
    then show ?thesis using Cons.prems vs by (simp add: write_at_other)
  next
    case (Suc k')
    then show ?thesis using Cons.IH [of k' vs' "d[p := v]"] Cons.prems vs by simp
  qed
qed simp

lemma write_at_range:
  "i + n \<le> length sc \<Longrightarrow> dst + n \<le> length d \<Longrightarrow>
    write_at [dst..<dst + n] (drop i sc) d = take dst d @ slice i n sc @ drop (dst + n) d"
proof (rule nth_equalityI)
  fix p assume b: "i + n \<le> length sc" "dst + n \<le> length d"
    "p < length (write_at [dst..<dst + n] (drop i sc) d)"
  show "write_at [dst..<dst + n] (drop i sc) d ! p =
      (take dst d @ slice i n sc @ drop (dst + n) d) ! p"
  proof (cases "dst \<le> p \<and> p < dst + n")
    case True
    then have p: "[dst..<dst + n] ! (p - dst) = p" "p - dst < n" by auto
    show ?thesis
      using write_at_nth [of "[dst..<dst + n]" "p - dst" "drop i sc" d] b True p(2)
      unfolding p(1) by (simp add: nth_append)
  next
    case False
    then show ?thesis using b by (auto simp: write_at_other nth_append)
  qed
qed simp

text \<open>The state of the loop keeps the size of the data and a cursor inside the side car.\<close>

definition restoring :: "bytes \<Rightarrow> PointCloud2 \<Rightarrow> bytes \<times> nat \<Rightarrow> bool" where
  "restoring sc m st \<longleftrightarrow> length (fst st) = length (pc_data m) \<and> snd st \<le> length sc"

lemma put_byte_restoring:
  "restoring sc m st \<Longrightarrow> put_byte sc p st = Some st' \<Longrightarrow> restoring sc m st'"
  by (auto simp: restoring_def put_byte_def load_def store_def bind_eq_Some_conv
           split: prod.splits if_splits)

lemma put_bytes_restoring:
  "foldO (put_byte sc) ps st = Some st' \<Longrightarrow> restoring sc m st \<Longrightarrow> restoring sc m st'"
  by (rule foldO_inv [where I = "restoring sc m" and s = st]) (auto intro: put_byte_restoring)

lemma put_bytes_exhausted:
  "k \<le> length sc \<Longrightarrow> length sc < k + length ps \<Longrightarrow> foldO (put_byte sc) ps (d, k) = None"
proof (induction ps arbitrary: d k)
  case (Cons p ps)
  show ?case
  proof (cases "k < length sc \<and> p < length d")
    case True
    then show ?thesis using Cons.IH [of "Suc k" "d[p := sc ! k]"] Cons.prems
      by (simp add: put_byte_def)
  next
    case False
    then show ?thesis by (auto simp: put_byte_def load_def store_def)
  qed
qed simp

lemma copy_range_put:
  assumes "restoring sc m (d, k)" and "dst + n \<le> length (pc_data m)"
  shows "Option.bind (copy_range sc k n dst d) (\<lambda>d. Some (d, k + n)) =
    foldO (put_byte sc) [dst..<dst + n] (d, k)"
proof (cases "k + n \<le> length sc")
  case True
  have "foldO (put_byte sc) [dst..<dst + n] (d, k) = Some (write_at [dst..<dst + n] (drop k sc) d, k + n)"
    using foldO_put_byte [of "[dst..<dst + n]" d k sc] assms True by (simp add: restoring_def)
  then show ?thesis using assms True by (simp add: copy_range_def restoring_def write_at_range)
next
  case False
  then show ?thesis using put_bytes_exhausted [of k sc "[dst..<dst + n]" d] assms
    by (simp add: copy_range_def restoring_def)
qed

lemma RestoreSidecar_ok:
  assumes ok: "storage_ok m" and msk: "length (encoded_byte_mask l) = nS m"
  shows "RestoreSidecar sc l (Some m) =
    (if length sc = length (sidecar_positions m l)
     then Some (True, Some (m\<lparr>pc_data := write_at (sidecar_positions m l) sc (pc_data m)\<rparr>))
     else Some (False, Some m))"
proof -
  let ?put = "put_byte sc" and ?I = "restoring sc m"
  have point: "foldO (\<lambda>byte (data, cursor). do { b \<leftarrow> load (encoded_byte_mask l) byte;
        if \<not> b then do { v \<leftarrow> load sc cursor; data \<leftarrow> store data (off + byte) v;
                         Some (data, cursor + 1) }
        else Some (data, cursor) }) [0..<nS m] s =
      foldO ?put (point_positions m l off) s" for off s
    unfolding masked_loop [OF msk, symmetric] put_byte_def by (rule foldO_cong) auto
  have cols: "foldO (\<lambda>c. foldO ?put (point_positions m l (r * nR m + c * nS m))) [0..<nW m] s =
      foldO ?put (concat (map (\<lambda>c. point_positions m l (r * nR m + c * nS m)) [0..<nW m])) s" for r s
    by (simp add: foldO_concat foldO_map)
  have row: "Option.bind
        (foldO (\<lambda>c. foldO ?put (point_positions m l (r * nR m + c * nS m))) [0..<nW m] s)
        (\<lambda>(data, cursor). Option.bind
          (copy_range sc cursor (row_padding m) (r * nR m + row_bytes m) data)
          (\<lambda>data. Some (data, cursor + row_padding m))) = foldO ?put (row_positions m l r) s"
    if r: "r \<in> set [0..<nH m]" and I: "?I s" for r s
  proof -
    have b: "nW m * nS m \<le> nR m" using ok by (simp add: storage_ok_def)
    have e: "r * nR m + row_bytes m + row_padding m = r * nR m + nR m"
      using b by (simp add: row_bytes_ok [OF ok] row_padding_ok [OF ok])
    have pad: "Option.bind (copy_range sc k (row_padding m) (r * nR m + row_bytes m) d)
          (\<lambda>d. Some (d, k + row_padding m)) =
        foldO ?put [r * nR m + nW m * nS m..<r * nR m + nR m] (d, k)" if "?I (d, k)" for d k
      using copy_range_put [OF that, of "r * nR m + row_bytes m" "row_padding m"]
        row_end_bound [OF ok, of r] r unfolding e by (simp add: row_bytes_ok [OF ok])
    show ?thesis
      unfolding row_positions_def foldO_append cols
      by (rule Option.bind_cong [OF refl]) (auto simp: pad dest: put_bytes_restoring [OF _ I])
  qed
  have all: "foldO ?put (sidecar_positions m l) (pc_data m, 0) =
      Some (write_at (sidecar_positions m l) sc (pc_data m), length (sidecar_positions m l))"
    if "length sc = length (sidecar_positions m l)"
    using foldO_put_byte [of "sidecar_positions m l" "pc_data m" 0 sc] that
      sidecar_positions_bound [OF ok] by simp
  have loop: "foldO (\<lambda>r s. Option.bind
        (foldO (\<lambda>c. foldO ?put (point_positions m l (r * nR m + c * nS m))) [0..<nW m] s)
        (\<lambda>(data, cursor). Option.bind
          (copy_range sc cursor (row_padding m) (r * nR m + row_bytes m) data)
          (\<lambda>data. Some (data, cursor + row_padding m)))) [0..<nH m] (pc_data m, 0) =
      foldO ?put (sidecar_positions m l) (pc_data m, 0)"
    unfolding sidecar_positions_def foldO_concat foldO_map
    by (rule foldO_cong_inv [where I = ?I])
       (use row put_bytes_restoring in \<open>blast, blast, simp add: restoring_def\<close>)
  show ?thesis
    by (simp add: RestoreSidecar_def Let_def point loop all sidecar_expected_ok [OF ok msk])
qed

text \<open>Extracting and restoring: the side car bytes come back, nothing else is touched.\<close>

lemma restore_nth:
  assumes ok: "storage_ok m" and len: "length d0 = length (pc_data m)" and p: "p < length (pc_data m)"
  shows "write_at (sidecar_positions m l) (map (nth (pc_data m)) (sidecar_positions m l)) d0 ! p =
    (if is_encoded m l p then d0 ! p else pc_data m ! p)"
proof (cases "is_encoded m l p")
  case True
  then show ?thesis by (simp add: write_at_other sidecar_positions_filter [OF ok])
next
  case False
  then have "p \<in> set (sidecar_positions m l)" using p by (simp add: sidecar_positions_filter [OF ok])
  then obtain k where k: "k < length (sidecar_positions m l)" "sidecar_positions m l ! k = p"
    by (auto simp: in_set_conv_nth)
  have "distinct (sidecar_positions m l)" by (simp add: sidecar_positions_filter [OF ok])
  then show ?thesis
    using write_at_nth [of "sidecar_positions m l" k _ d0] k p len False by simp
qed

section \<open>The encoded bytes of a point\<close>

definition word_bytes :: "bool \<Rightarrow> u32 \<Rightarrow> bytes" where
  "word_bytes bigendian v =
     (let little = [ucast v, ucast (drop_bit 8 v), ucast (drop_bit 16 v), ucast (drop_bit 24 v)]
      in if bigendian then rev little else little)"

lemma length_word_bytes [simp]: "length (word_bytes b v) = 4"
  by (simp add: word_bytes_def Let_def)

lemma upt4: "[p..<p + 4] = [p, p + 1, p + 2, p + (3::nat)]"
  by (simp add: upt_rec)

lemma WriteUint32_eq:
  "p + 4 \<le> length d \<Longrightarrow> WriteUint32 v b p d = Some (write_at [p..<p + 4] (word_bytes b v) d)"
  by (simp add: WriteUint32_def upt4 word_bytes_def)

lemma ReadUint32_in_range: "p + 4 \<le> length d \<Longrightarrow> \<exists>w. ReadUint32 d p b = Some w"
  by (simp add: ReadUint32_def)

lemma byte_bit_bound: "bit (b :: byte) n \<Longrightarrow> n < 8"
  using bit_imp_le_length by fastforce

lemma ReadUint32_bytes:
  assumes "p + 4 \<le> length d" and "ReadUint32 d p b = Some w"
  shows "word_bytes b w = map (nth d) [p..<p + 4]"
proof -
  have w: "w = (if b then push_bit 24 (ucast (d ! p)) OR push_bit 16 (ucast (d ! (p + 1))) OR
                  push_bit 8 (ucast (d ! (p + 2))) OR ucast (d ! (p + 3))
            else ucast (d ! p) OR push_bit 8 (ucast (d ! (p + 1))) OR
                  push_bit 16 (ucast (d ! (p + 2))) OR push_bit 24 (ucast (d ! (p + 3))))"
    using assms by (cases b) (simp_all add: ReadUint32_def)
  have part: "ucast (drop_bit 24 u) = b3" "ucast (drop_bit 16 u) = b2" "ucast (drop_bit 8 u) = b1"
      "ucast u = b0"
    if "u = push_bit 24 (ucast b3) OR push_bit 16 (ucast b2) OR push_bit 8 (ucast b1) OR
            (ucast b0 :: u32)"
    for b0 b1 b2 b3 :: byte and u :: u32
    unfolding that
    by (rule bit_word_eqI,
        auto simp: bit_ucast_iff bit_or_iff bit_push_bit_iff bit_drop_bit_eq dest: byte_bit_bound)+
  show ?thesis
  proof (cases b)
    case True
    then show ?thesis using part [of w "d ! p" "d ! (p + 1)" "d ! (p + 2)" "d ! (p + 3)"] w
      by (simp add: word_bytes_def upt4)
  next
    case False
    have "w = push_bit 24 (ucast (d ! (p + 3))) OR push_bit 16 (ucast (d ! (p + 2))) OR
        push_bit 8 (ucast (d ! (p + 1))) OR ucast (d ! p)"
      using False w by (simp add: or.commute or.left_commute or.assoc)
    from part [OF this] show ?thesis using False by (simp add: word_bytes_def upt4)
  qed
qed

lemma repack:
  fixes w :: u32
  shows "push_bit 24 (ucast (ucast (drop_bit 24 w) :: byte)) OR
    push_bit 16 (ucast (ucast (drop_bit 16 w) :: byte)) OR
    push_bit 8 (ucast (ucast (drop_bit 8 w) :: byte)) OR ucast (ucast w :: byte) = w"
proof (rule bit_word_eqI)
  fix n assume "n < LENGTH(32)"
  then consider "n < 8" | "8 \<le> n" "n < 16" | "16 \<le> n" "n < 24" | "24 \<le> n" "n < 32" by force
  then show "bit (push_bit 24 (ucast (ucast (drop_bit 24 w) :: byte)) OR
    push_bit 16 (ucast (ucast (drop_bit 16 w) :: byte)) OR
    push_bit 8 (ucast (ucast (drop_bit 8 w) :: byte)) OR (ucast (ucast w :: byte) :: u32)) n = bit w n"
    by cases (auto simp: bit_ucast_iff bit_or_iff bit_push_bit_iff bit_drop_bit_eq)
qed

end
