(* ===== verification/Draco_Codec.thy ===== *)
theory Draco_Codec
  imports Cloud_Storage
begin

text \<open>
  \<^verbatim>\<open>DracoPointCloudCodec::Encode\<close> and \<^verbatim>\<open>Decode\<close> of
  \<^verbatim>\<open>src/transport/draco_pointcloud_codec.cpp\<close>.  The Draco library is a parameter: a record of
  the calls the codec makes.  What is relied on is stated by \<open>draco_faithful\<close>: decoding an
  encoded cloud gives the same points in some order, in attributes of the declared sizes, with the
  quantised attribute (\<^verbatim>\<open>POSITION\<close>, 14 bits) changed by some \<open>q\<close> and the integer attributes
  unchanged.  The attributes of a payload that a peer made are of any size, and the decoder copies
  each value into a fixed buffer: a copy that does not fit is undefined behaviour.
  A result \<open>None\<close> is undefined behaviour; \<open>Some (r, out)\<close> is the returned flag with what the
  output pointer holds.
\<close>

section \<open>Data\<close>

record EncodedPointCloud =
  codec :: string
  format_version :: byte
  point_type :: string
  original_header :: Header
  original_width :: u32
  original_height :: u32
  original_fields :: "PointField list"
  original_is_bigendian :: bool
  original_point_step :: u32
  original_row_step :: u32
  original_is_dense :: bool
  source_stamp :: ros_time
  receive_stamp :: ros_time
  epc_frame_id :: string
  epc_payload :: bytes
  sidecar_bytes :: bytes

definition kLayoutFormatVersion :: byte where "kLayoutFormatVersion = 2"
definition kPointTypeXyz :: string where "kPointTypeXyz = ''xyz''"
definition kPointTypeXyzRgb :: string where "kPointTypeXyzRgb = ''xyzrgb''"

definition default_encoded :: EncodedPointCloud where
  "default_encoded =
     \<lparr>codec = [], format_version = 0, point_type = [], original_header = default_header,
      original_width = 0, original_height = 0, original_fields = [],
      original_is_bigendian = False, original_point_step = 0, original_row_step = 0,
      original_is_dense = False, source_stamp = 0, receive_stamp = 0, epc_frame_id = [],
      epc_payload = [], sidecar_bytes = []\<rparr>"

text \<open>The Draco cloud under construction: the encoder declares its attributes (three 32-bit floats,
  one 32-bit integer, four bytes) and sets a value of each for every point.\<close>

type_synonym xyz = "u32 \<times> u32 \<times> u32"

record DracoCloud =
  num_points :: nat
  dc_position :: "(nat \<Rightarrow> xyz) option"
  dc_generic :: "(nat \<Rightarrow> u32) option"
  dc_color :: "(nat \<Rightarrow> rgba) option"

text \<open>A decoded Draco cloud: the types of its attributes come from the payload, so an attribute is the
  size of its values and their bytes.\<close>

record DracoAttribute =
  byte_stride :: nat
  value_byte :: "nat \<Rightarrow> nat \<Rightarrow> byte"

record DecodedCloud =
  dd_points :: nat
  dd_position :: "DracoAttribute option"
  dd_generic :: "DracoAttribute option"
  dd_color :: "DracoAttribute option"

record DracoLib =
  draco_position_id :: int
  draco_generic_id :: int
  draco_color_id :: int
  draco_finalize :: "DracoCloud \<Rightarrow> DracoCloud option"
  draco_encode :: "nat \<Rightarrow> nat \<Rightarrow> nat \<Rightarrow> DracoCloud \<Rightarrow> bytes option"
  draco_decode :: "bytes \<Rightarrow> DecodedCloud option option"

definition Name :: string where "Name = ''draco''"

section \<open>Encode\<close>

text \<open>The point loop of lines 469 to 483, collecting what is set for each point.\<close>

definition encode_point ::
  "PointCloud2 \<Rightarrow> PointLayout \<Rightarrow> int \<Rightarrow> nat \<Rightarrow> (xyz \<times> u32 \<times> rgba) list \<Rightarrow> (xyz \<times> u32 \<times> rgba) list option"
where
  "encode_point message layout color_id index acc =
     do { point \<leftarrow> PointDataOffset message (of_nat index);
          ox \<leftarrow> field_offset (lay_x layout); oy \<leftarrow> field_offset (lay_y layout);
          oz \<leftarrow> field_offset (lay_z layout);
          px \<leftarrow> ReadFloat32 (pc_data message) (point + ox) (pc_is_bigendian message);
          py \<leftarrow> ReadFloat32 (pc_data message) (point + oy) (pc_is_bigendian message);
          pz \<leftarrow> ReadFloat32 (pc_data message) (point + oz) (pc_is_bigendian message);
          col \<leftarrow> (if color_id \<ge> 0 then ReadColor (pc_data message) point (pc_is_bigendian message) layout
                  else Some (0, 0, 0, 0));
          Some (acc @ [((px, py, pz), of_nat index, col)]) }"

definition build_cloud :: "int \<Rightarrow> nat \<Rightarrow> (xyz \<times> u32 \<times> rgba) list \<Rightarrow> DracoCloud" where
  "build_cloud color_id n pts =
     \<lparr>num_points = n, dc_position = Some (\<lambda>i. fst (pts ! i)),
      dc_generic = Some (\<lambda>i. fst (snd (pts ! i))),
      dc_color = (if color_id \<ge> 0 then Some (\<lambda>i. snd (snd (pts ! i))) else None)\<rparr>"

definition encoded_metadata :: "PointCloud2 \<Rightarrow> PointLayout \<Rightarrow> EncodedPointCloud" where
  "encoded_metadata message layout =
     default_encoded
       \<lparr>codec := Name, format_version := kLayoutFormatVersion,
        point_type := (if color_encoding layout = ColorNone then kPointTypeXyz else kPointTypeXyzRgb),
        original_header := pc_header message, original_width := pc_width message,
        original_height := pc_height message, original_fields := pc_fields message,
        original_is_bigendian := pc_is_bigendian message,
        original_point_step := pc_point_step message,
        original_row_step := pc_row_step message, original_is_dense := pc_is_dense message,
        source_stamp := hdr_stamp (pc_header message),
        epc_frame_id := hdr_frame_id (pc_header message)\<rparr>"

definition Encode ::
  "DracoLib \<Rightarrow> PointCloud2 \<Rightarrow> EncodedPointCloud option \<Rightarrow>
     (bool \<times> EncodedPointCloud option) option" where
  "Encode lib message output =
     (if output = None then Some (False, None)
      else
        case ValidateMessageStorage message (Some 0) of
          (True, Some count) \<Rightarrow>
            let point_count = unat count;
                (parsed, lay) = (if point_count > 0
                  then ParseLayout (pc_fields message) (pc_point_step message) (Some default_layout)
                  else (True, Some default_layout));
                layout = the lay
            in if \<not> parsed then Some (False, output)
               else
                 let encoded = encoded_metadata message layout in
                 if point_count = 0 then
                   Some (True, Some (encoded\<lparr>sidecar_bytes := pc_data message\<rparr>))
                 else
                   do { (extracted, sc) \<leftarrow> ExtractSidecar message layout (Some []);
                        if \<not> extracted then Some (False, output)
                        else
                          let encoded = encoded\<lparr>sidecar_bytes := the sc\<rparr>;
                              position_id = draco_position_id lib;
                              point_index_id = draco_generic_id lib;
                              color_id = (if color_encoding layout = ColorNone then -1
                                          else draco_color_id lib)
                          in if position_id < 0 \<or> point_index_id < 0 \<or>
                                (color_encoding layout \<noteq> ColorNone \<and> color_id < 0)
                             then Some (False, output)
                             else
                               do { pts \<leftarrow> foldO (encode_point message layout color_id)
                                            [0..<point_count] [];
                                    (case draco_finalize lib (build_cloud color_id point_count pts) of
                                       None \<Rightarrow> Some (False, output)
                                     | Some cloud \<Rightarrow>
                                         (case draco_encode lib 5 5 14 cloud of
                                            None \<Rightarrow> Some (False, output)
                                          | Some buffer \<Rightarrow>
                                              Some (True, Some (encoded\<lparr>epc_payload := buffer\<rparr>)))) } }
        | _ \<Rightarrow> Some (False, output))"

section \<open>Decode\<close>

definition decoded_metadata :: "EncodedPointCloud \<Rightarrow> PointCloud2" where
  "decoded_metadata input =
     \<lparr>pc_header = original_header input, pc_height = original_height input,
      pc_width = original_width input, pc_fields = original_fields input,
      pc_is_bigendian = original_is_bigendian input, pc_point_step = original_point_step input,
      pc_row_step = original_row_step input, pc_data =
        replicate (unat (ucast (original_row_step input) * ucast (original_height input) :: u64)) 0,
      pc_is_dense = original_is_dense input\<rparr>"

text \<open>The body of the point loop after the index test (lines 582 to 594).\<close>

definition write_point ::
  "PointCloud2 \<Rightarrow> PointLayout \<Rightarrow> xyz \<Rightarrow> rgba option \<Rightarrow> nat \<Rightarrow> bytes \<Rightarrow> bytes option" where
  "write_point decoded layout pos col point data =
     (case pos of (px, py, pz) \<Rightarrow>
     do { ox \<leftarrow> field_offset (lay_x layout); oy \<leftarrow> field_offset (lay_y layout);
          oz \<leftarrow> field_offset (lay_z layout);
          data \<leftarrow> WriteFloat32 px (pc_is_bigendian decoded) (point + ox) data;
          data \<leftarrow> WriteFloat32 py (pc_is_bigendian decoded) (point + oy) data;
          data \<leftarrow> WriteFloat32 pz (pc_is_bigendian decoded) (point + oz) data;
          (case col of None \<Rightarrow> Some data
           | Some c \<Rightarrow> WriteColor c (pc_is_bigendian decoded) layout point data) })"

text \<open>\<^verbatim>\<open>GetMappedValue\<close> copies the value of a point, as many bytes as the attribute says, into the
  buffer it is given; the rest of the buffer keeps its bytes.  Beyond the buffer there is no defined
  behaviour.\<close>

definition GetMappedValue :: "DracoAttribute \<Rightarrow> nat \<Rightarrow> bytes \<Rightarrow> bytes option" where
  "GetMappedValue attribute index buffer =
     (if byte_stride attribute \<le> length buffer
      then Some (map (value_byte attribute index) [0..<byte_stride attribute] @
                 drop (byte_stride attribute) buffer)
      else None)"

text \<open>The numbers in such a buffer, on a little-endian host.\<close>

definition host_word :: "bytes \<Rightarrow> nat \<Rightarrow> u32" where
  "host_word buffer p = the (ReadUint32 buffer p False)"

definition xyz_of_buffer :: "bytes \<Rightarrow> xyz" where
  "xyz_of_buffer buffer = (host_word buffer 0, host_word buffer 4, host_word buffer 8)"

definition rgba_of_buffer :: "bytes \<Rightarrow> rgba" where
  "rgba_of_buffer buffer = (buffer ! 0, buffer ! 1, buffer ! 2, buffer ! 3)"

text \<open>One iteration; the state \<open>None\<close> says that the function has already returned false.  The state
  holds \<^verbatim>\<open>restored\<close>, \<^verbatim>\<open>position_value\<close> (12 bytes), \<^verbatim>\<open>color_value\<close> (4 bytes), which live outside
  the loop, and the data; \<^verbatim>\<open>original_index\<close> is zero again in each iteration.\<close>

definition decode_point ::
  "PointCloud2 \<Rightarrow> PointLayout \<Rightarrow> nat \<Rightarrow> DracoAttribute \<Rightarrow> DracoAttribute \<Rightarrow> DracoAttribute option \<Rightarrow> nat \<Rightarrow>
     (bool list \<times> bytes \<times> bytes \<times> bytes) option \<Rightarrow> (bool list \<times> bytes \<times> bytes \<times> bytes) option option" where
  "decode_point decoded layout point_count position point_index color index st =
     (case st of
        None \<Rightarrow> Some None
      | Some (restored, position_value, color_value, data) \<Rightarrow>
          do { index_value \<leftarrow> GetMappedValue point_index index (replicate 4 0);
               let original_index = host_word index_value 0 in
               if unat original_index \<ge> point_count \<or> restored ! unat original_index then Some None
               else
                 do { position_value \<leftarrow> GetMappedValue position index position_value;
                      point \<leftarrow> PointDataOffset decoded original_index;
                      color_value \<leftarrow> (case color of
                          None \<Rightarrow> Some color_value
                        | Some c \<Rightarrow> GetMappedValue c index color_value);
                      data \<leftarrow> write_point decoded layout (xyz_of_buffer position_value)
                                (map_option (\<lambda>_. rgba_of_buffer color_value) color) point data;
                      Some (Some (restored[unat original_index := True],
                                  position_value, color_value, data)) } })"

text \<open>The loop, started with zero buffers.\<close>

definition decode_points ::
  "PointCloud2 \<Rightarrow> PointLayout \<Rightarrow> nat \<Rightarrow> DracoAttribute \<Rightarrow> DracoAttribute \<Rightarrow> DracoAttribute option \<Rightarrow> nat \<Rightarrow>
     bytes \<Rightarrow> (bool list \<times> bytes) option option" where
  "decode_points decoded layout point_count position point_index color n data =
     do { st \<leftarrow> foldO (decode_point decoded layout point_count position point_index color) [0..<n]
                  (Some (replicate point_count False, replicate 12 0, replicate 4 0, data));
          Some (map_option (\<lambda>(restored, _, _, data). (restored, data)) st) }"

text \<open>The test of lines 538 to 541.\<close>

definition type_mismatch :: "EncodedPointCloud \<Rightarrow> PointLayout \<Rightarrow> bool" where
  "type_mismatch input layout \<longleftrightarrow>
     (point_type input \<noteq> kPointTypeXyz \<and> point_type input \<noteq> kPointTypeXyzRgb) \<or>
     (point_type input = kPointTypeXyzRgb) \<noteq> (color_encoding layout \<noteq> ColorNone)"

definition Decode ::
  "DracoLib \<Rightarrow> EncodedPointCloud \<Rightarrow> PointCloud2 option \<Rightarrow> (bool \<times> PointCloud2 option) option" where
  "Decode lib input message =
     (if message = None \<or> format_version input \<noteq> kLayoutFormatVersion then Some (False, message)
      else
        let decoded = decoded_metadata input in
        case ValidateMessageStorage decoded (Some 0) of
          (True, Some count) \<Rightarrow>
            let point_count = unat count in
            if point_count = 0 then
              if epc_payload input \<noteq> [] \<or> length (sidecar_bytes input) \<noteq> length (pc_data decoded)
              then Some (False, message)
              else Some (True, Some (decoded\<lparr>pc_data := sidecar_bytes input\<rparr>))
            else
              (case ParseLayout (pc_fields decoded) (pc_point_step decoded) (Some default_layout) of
                 (True, Some layout) \<Rightarrow>
                   if type_mismatch input layout then Some (False, message)
                   else
                     do { (restored_ok, dec) \<leftarrow> RestoreSidecar (sidecar_bytes input) layout (Some decoded);
                          if \<not> restored_ok \<or> epc_payload input = [] then Some (False, message)
                          else
                            let decoded = the dec in
                            case draco_decode lib (epc_payload input) of
                              Some (Some cloud) \<Rightarrow>
                                if dd_points cloud \<noteq> point_count then Some (False, message)
                                else
                                  (case (dd_position cloud, dd_generic cloud) of
                                     (Some pos, Some gen) \<Rightarrow>
                                       if color_encoding layout \<noteq> ColorNone \<and> dd_color cloud = None
                                       then Some (False, message)
                                       else
                                         do { st \<leftarrow> decode_points decoded layout point_count pos gen
                                                    (dd_color cloud) (dd_points cloud) (pc_data decoded);
                                              (case st of
                                                 None \<Rightarrow> Some (False, message)
                                               | Some (restored, data) \<Rightarrow>
                                                   if False \<in> set restored then Some (False, message)
                                                   else Some (True, Some (decoded\<lparr>pc_data := data\<rparr>))) }
                                   | _ \<Rightarrow> Some (False, message))
                            | _ \<Rightarrow> Some (False, message) }
               | _ \<Rightarrow> Some (False, message))
        | _ \<Rightarrow> Some (False, message))"

section \<open>The bytes of one point\<close>

definition spots :: "field_ptr list \<Rightarrow> nat \<Rightarrow> nat list" where
  "spots fs off =
     concat (map (\<lambda>f. [off + unat (pf_offset (snd f))..<off + field_end (snd f)]) fs)"

lemma spots_simps [simp]:
  "spots [] off = []"
  "spots (f # fs) off = [off + unat (pf_offset (snd f))..<off + field_end (snd f)] @ spots fs off"
  "spots (fs @ gs) off = spots fs off @ spots gs off"
  by (simp_all add: spots_def)

lemma set_spots:
  "set (spots fs off) = (\<lambda>b. off + b) ` (\<Union>f \<in> set fs. field_span (snd f))"
proof (induction fs)
  case (Cons f fs)
  have "{off + unat (pf_offset (snd f))..<off + field_end (snd f)} = (\<lambda>b. off + b) ` field_span (snd f)"
    by (simp add: field_span_def add.commute)
  then show ?case using Cons by (simp add: image_Un)
qed simp

lemma spots_disjoint:
  assumes fits: "\<And>f. f \<in> set fs \<Longrightarrow> FieldFits (snd f) n" and "\<not> any_overlap fs"
  shows "distinct (spots fs off)"
  using assms
proof (induction fs)
  case (Cons f fs)
  have "field_span (snd f) \<inter> field_span (snd g) = {}" if "g \<in> set fs" for g
    using Cons.prems that SpansOverlap_iff [of "snd f" n "snd g"] by (auto simp: list_ex_iff)
  then have "{off + unat (pf_offset (snd f))..<off + field_end (snd f)} \<inter> set (spots fs off) = {}"
    unfolding set_spots by (fastforce simp: field_span_def)
  then show ?case using Cons by simp
qed simp

lemma write_at_append:
  "length vs = length ps \<Longrightarrow> write_at (ps @ qs) (vs @ ws) d = write_at qs ws (write_at ps vs d)"
  by (simp add: write_at_def)

definition color_values :: "bool \<Rightarrow> PointLayout \<Rightarrow> rgba \<Rightarrow> bytes" where
  "color_values big l c =
     (case c of (c0, c1, c2, c3) \<Rightarrow>
       (case color_encoding l of
          ColorNone \<Rightarrow> []
        | ColorPacked \<Rightarrow>
            word_bytes big (push_bit 24 (ucast c3) OR push_bit 16 (ucast c0) OR
                            push_bit 8 (ucast c1) OR ucast c2)
        | ColorSeparate \<Rightarrow> [c0, c1, c2] @ (if lay_alpha l \<noteq> None then [c3] else [])))"

definition point_values :: "bool \<Rightarrow> PointLayout \<Rightarrow> xyz \<Rightarrow> rgba \<Rightarrow> bytes" where
  "point_values big l pos c =
     (case pos of (px, py, pz) \<Rightarrow>
        word_bytes big px @ word_bytes big py @ word_bytes big pz @ color_values big l c)"

lemma field_sizedE:
  assumes "field_sized p k"
  obtains i f where "p = Some (i, f)" "field_end f = unat (pf_offset f) + k"
  using assms by (auto simp: field_sized_def)

lemma length_color_values:
  "color_wf l \<Longrightarrow> length (color_values big l c) = length (spots (color_fields l) off)"
  by (cases c; cases "color_encoding l")
     (auto simp: color_values_def color_fields_def color_wf_def elim!: field_sizedE)

lemma length_point_values:
  assumes "layout_wf n l"
  shows "length (point_values big l pos c) = length (spots (encoded_fields l) off)"
proof -
  have "color_wf l" "field_sized (lay_x l) 4" "field_sized (lay_y l) 4" "field_sized (lay_z l) 4"
    using assms by (simp_all add: layout_wf_def)
  then show ?thesis using length_color_values [of l big c off]
    by (cases pos) (auto simp: point_values_def encoded_fields_def elim!: field_sizedE)
qed

lemma WriteColor_eq:
  assumes wf: "color_wf l" and col: "color_encoding l \<noteq> ColorNone"
    and fits: "\<And>f. f \<in> set (color_fields l) \<Longrightarrow> FieldFits (snd f) n"
    and len: "off + n \<le> length d"
  shows "WriteColor c big l off d = Some (write_at (spots (color_fields l) off) (color_values big l c) d)"
proof -
  obtain c0 c1 c2 c3 where c: "c = (c0, c1, c2, c3)" by (cases c)
  show ?thesis
  proof (cases "color_encoding l")
    case ColorPacked
    obtain i f where f: "lay_packed_color l = Some (i, f)" "field_end f = unat (pf_offset f) + 4"
      using wf ColorPacked by (auto simp: color_wf_def elim: field_sizedE)
    have "FieldFits f n" using fits [of "(i, f)"] f ColorPacked by (simp add: color_fields_def)
    from FieldFits_span [OF this] show ?thesis using ColorPacked f len c
      by (simp add: field_offset_def WriteUint32_eq color_fields_def color_values_def add.assoc)
  next
    case ColorSeparate
    obtain ir fr where r: "lay_red l = Some (ir, fr)" "field_end fr = unat (pf_offset fr) + 1"
      using wf ColorSeparate by (auto simp: color_wf_def elim: field_sizedE)
    obtain ig fg where g: "lay_green l = Some (ig, fg)" "field_end fg = unat (pf_offset fg) + 1"
      using wf ColorSeparate by (auto simp: color_wf_def elim: field_sizedE)
    obtain ib fb where b: "lay_blue l = Some (ib, fb)" "field_end fb = unat (pf_offset fb) + 1"
      using wf ColorSeparate by (auto simp: color_wf_def elim: field_sizedE)
    have "FieldFits fr n" "FieldFits fg n" "FieldFits fb n"
      using fits [of "(ir, fr)"] fits [of "(ig, fg)"] fits [of "(ib, fb)"] r g b ColorSeparate
      by (simp_all add: color_fields_def)
    note rgb = this [THEN FieldFits_span]
    show ?thesis
    proof (cases "lay_alpha l")
      case None
      then show ?thesis using r g b rgb len c ColorSeparate
        by (simp add: field_offset_def color_fields_def color_values_def)
    next
      case (Some a)
      then have "field_end (snd a) = unat (pf_offset (snd a)) + 1" "FieldFits (snd a) n"
        using wf ColorSeparate fits by (auto simp: color_wf_def color_fields_def elim: field_sizedE)
      then show ?thesis using r g b rgb len c ColorSeparate Some FieldFits_span [of "snd a" n]
        by (simp add: field_offset_def color_fields_def color_values_def)
    qed
  qed (use col in simp)
qed

lemma color_fields_subset: "set (color_fields l) \<subseteq> set (encoded_fields l)"
  by (auto simp: encoded_fields_def)

text \<open>Writing a point writes its encoded bytes and no other.\<close>

lemma write_point_eq:
  assumes wf: "layout_wf n l" and len: "off + n \<le> length d"
    and col: "color_encoding l \<noteq> ColorNone \<longleftrightarrow> c \<noteq> None"
  shows "write_point m l pos c off d =
    Some (write_at (spots (encoded_fields l) off)
            (point_values (pc_is_bigendian m) l pos (case c of None \<Rightarrow> (0, 0, 0, 0) | Some c \<Rightarrow> c)) d)"
proof -
  obtain px py pz where pos: "pos = (px, py, pz)" by (cases pos)
  obtain ix fx where x: "lay_x l = Some (ix, fx)" "field_end fx = unat (pf_offset fx) + 4"
    using wf by (auto simp: layout_wf_def elim: field_sizedE)
  obtain iy fy where y: "lay_y l = Some (iy, fy)" "field_end fy = unat (pf_offset fy) + 4"
    using wf by (auto simp: layout_wf_def elim: field_sizedE)
  obtain iz fz where z: "lay_z l = Some (iz, fz)" "field_end fz = unat (pf_offset fz) + 4"
    using wf by (auto simp: layout_wf_def elim: field_sizedE)
  have fits: "\<And>f. f \<in> set (encoded_fields l) \<Longrightarrow> FieldFits (snd f) n" and cwf: "color_wf l"
    using wf by (simp_all add: layout_wf_def)
  have "FieldFits fx n" "FieldFits fy n" "FieldFits fz n"
    using fits [of "(ix, fx)"] fits [of "(iy, fy)"] fits [of "(iz, fz)"] x y z
    by (simp_all add: encoded_fields_def)
  note xyz = this [THEN FieldFits_span]
  have cfits: "\<And>f. f \<in> set (color_fields l) \<Longrightarrow> FieldFits (snd f) n"
    using fits color_fields_subset by blast
  let ?d = "write_at [off + unat (pf_offset fz)..<off + field_end fz] (word_bytes (pc_is_bigendian m) pz)
     (write_at [off + unat (pf_offset fy)..<off + field_end fy] (word_bytes (pc_is_bigendian m) py)
       (write_at [off + unat (pf_offset fx)..<off + field_end fx] (word_bytes (pc_is_bigendian m) px) d))"
  have "write_point m l pos c off d =
      (case c of None \<Rightarrow> Some ?d | Some c \<Rightarrow> WriteColor c (pc_is_bigendian m) l off ?d)"
    using xyz len x y z by (cases c) (simp_all add: write_point_def pos field_offset_def
        WriteFloat32_def WriteUint32_eq add.assoc)
  moreover have "spots (encoded_fields l) off = [off + unat (pf_offset fx)..<off + field_end fx] @
      [off + unat (pf_offset fy)..<off + field_end fy] @
      [off + unat (pf_offset fz)..<off + field_end fz] @ spots (color_fields l) off"
    using x y z by (simp add: encoded_fields_def)
  ultimately show ?thesis
    using x y z col len WriteColor_eq [OF cwf _ cfits, where off = off and d = ?d]
    by (cases c; cases "color_encoding l")
       (auto simp: point_values_def pos write_at_append color_values_def color_fields_def)
qed

lemma map_nth_word:
  assumes "p + 4 \<le> length d"
  obtains w where "ReadUint32 d p b = Some w" "word_bytes b w = map (nth d) [p..<p + 4]"
  using ReadUint32_in_range [OF assms] ReadUint32_bytes [OF assms] by blast

lemma ReadColor_values:
  assumes wf: "color_wf l" and col: "color_encoding l \<noteq> ColorNone"
    and fits: "\<And>f. f \<in> set (color_fields l) \<Longrightarrow> FieldFits (snd f) n"
    and len: "off + n \<le> length d"
  shows "\<exists>c. ReadColor d off big l = Some c \<and>
    color_values big l c = map (nth d) (spots (color_fields l) off)"
proof (cases "color_encoding l")
  case ColorPacked
  obtain i f where f: "lay_packed_color l = Some (i, f)" "field_end f = unat (pf_offset f) + 4"
    using wf ColorPacked by (auto simp: color_wf_def elim: field_sizedE)
  have "FieldFits f n" using fits [of "(i, f)"] f ColorPacked by (simp add: color_fields_def)
  then have "off + unat (pf_offset f) + 4 \<le> length d" using FieldFits_span [of f n] f len by simp
  then obtain w where w: "ReadUint32 d (off + unat (pf_offset f)) big = Some w"
      "word_bytes big w = map (nth d) [off + unat (pf_offset f)..<off + unat (pf_offset f) + 4]"
    by (rule map_nth_word)
  then show ?thesis using ColorPacked f
    by (simp add: ReadColor_def field_offset_def color_values_def repack color_fields_def add.assoc)
next
  case ColorSeparate
  obtain ir fr where r: "lay_red l = Some (ir, fr)" "field_end fr = unat (pf_offset fr) + 1"
    using wf ColorSeparate by (auto simp: color_wf_def elim: field_sizedE)
  obtain ig fg where g: "lay_green l = Some (ig, fg)" "field_end fg = unat (pf_offset fg) + 1"
    using wf ColorSeparate by (auto simp: color_wf_def elim: field_sizedE)
  obtain ib fb where b: "lay_blue l = Some (ib, fb)" "field_end fb = unat (pf_offset fb) + 1"
    using wf ColorSeparate by (auto simp: color_wf_def elim: field_sizedE)
  have "FieldFits fr n" "FieldFits fg n" "FieldFits fb n"
    using fits [of "(ir, fr)"] fits [of "(ig, fg)"] fits [of "(ib, fb)"] r g b ColorSeparate
    by (simp_all add: color_fields_def)
  note rgb = this [THEN FieldFits_span]
  show ?thesis
  proof (cases "lay_alpha l")
    case None
    then show ?thesis using r g b rgb len ColorSeparate
      by (simp add: ReadColor_def field_offset_def color_values_def color_fields_def)
  next
    case (Some a)
    then have "field_end (snd a) = unat (pf_offset (snd a)) + 1" "FieldFits (snd a) n"
      using wf ColorSeparate fits by (auto simp: color_wf_def color_fields_def elim: field_sizedE)
    then show ?thesis using r g b rgb len ColorSeparate Some FieldFits_span [of "snd a" n]
      by (simp add: ReadColor_def field_offset_def color_values_def color_fields_def)
  qed
qed (use col in simp)

text \<open>Reading a point for the encoder recovers its encoded bytes.\<close>

lemma encode_point_eq:
  assumes wf: "layout_wf n l" and off: "PointDataOffset m (of_nat i) = Some off"
    and len: "off + n \<le> length (pc_data m)"
    and cid: "cid \<ge> 0 \<longleftrightarrow> color_encoding l \<noteq> ColorNone"
  shows "\<exists>pos c. (\<forall>acc. encode_point m l cid i acc = Some (acc @ [(pos, of_nat i, c)])) \<and>
    point_values (pc_is_bigendian m) l pos c = map (nth (pc_data m)) (spots (encoded_fields l) off)"
proof -
  let ?d = "pc_data m" and ?b = "pc_is_bigendian m"
  obtain ix fx where x: "lay_x l = Some (ix, fx)" "field_end fx = unat (pf_offset fx) + 4"
    using wf by (auto simp: layout_wf_def elim: field_sizedE)
  obtain iy fy where y: "lay_y l = Some (iy, fy)" "field_end fy = unat (pf_offset fy) + 4"
    using wf by (auto simp: layout_wf_def elim: field_sizedE)
  obtain iz fz where z: "lay_z l = Some (iz, fz)" "field_end fz = unat (pf_offset fz) + 4"
    using wf by (auto simp: layout_wf_def elim: field_sizedE)
  have fits: "\<And>f. f \<in> set (encoded_fields l) \<Longrightarrow> FieldFits (snd f) n" and cwf: "color_wf l"
    using wf by (simp_all add: layout_wf_def)
  have "FieldFits fx n" "FieldFits fy n" "FieldFits fz n"
    using fits [of "(ix, fx)"] fits [of "(iy, fy)"] fits [of "(iz, fz)"] x y z
    by (simp_all add: encoded_fields_def)
  note xyz = this [THEN FieldFits_span]
  have "off + unat (pf_offset fx) + 4 \<le> length ?d" using xyz x len by simp
  then obtain px where px: "ReadUint32 ?d (off + unat (pf_offset fx)) ?b = Some px"
    "word_bytes ?b px = map (nth ?d) [off + unat (pf_offset fx)..<off + unat (pf_offset fx) + 4]"
    by (rule map_nth_word)
  have "off + unat (pf_offset fy) + 4 \<le> length ?d" using xyz y len by simp
  then obtain py where py: "ReadUint32 ?d (off + unat (pf_offset fy)) ?b = Some py"
    "word_bytes ?b py = map (nth ?d) [off + unat (pf_offset fy)..<off + unat (pf_offset fy) + 4]"
    by (rule map_nth_word)
  have "off + unat (pf_offset fz) + 4 \<le> length ?d" using xyz z len by simp
  then obtain pz where pz: "ReadUint32 ?d (off + unat (pf_offset fz)) ?b = Some pz"
    "word_bytes ?b pz = map (nth ?d) [off + unat (pf_offset fz)..<off + unat (pf_offset fz) + 4]"
    by (rule map_nth_word)
  have "\<exists>c. (if cid \<ge> 0 then ReadColor ?d off ?b l else Some (0, 0, 0, 0)) = Some c \<and>
      color_values ?b l c = map (nth ?d) (spots (color_fields l) off)"
  proof (cases "color_encoding l = ColorNone")
    case True
    then show ?thesis using cid by (auto simp: color_values_def color_fields_def split: prod.splits)
  next
    case False
    have cf: "\<And>f. f \<in> set (color_fields l) \<Longrightarrow> FieldFits (snd f) n"
      using fits color_fields_subset by blast
    then show ?thesis using ReadColor_values [OF cwf False cf len] False cid by simp
  qed
  then obtain c where c: "(if cid \<ge> 0 then ReadColor ?d off ?b l else Some (0, 0, 0, 0)) = Some c"
      "color_values ?b l c = map (nth ?d) (spots (color_fields l) off)" by blast
  have "encode_point m l cid i acc = Some (acc @ [((px, py, pz), of_nat i, c)])" for acc
    using off x y z px(1) py(1) pz(1) c(1)
    by (simp add: encode_point_def field_offset_def ReadFloat32_def)
  moreover have "point_values ?b l (px, py, pz) c = map (nth ?d) (spots (encoded_fields l) off)"
    using px(2) py(2) pz(2) c(2) x y z
    by (simp add: point_values_def encoded_fields_def add.assoc)
  ultimately show ?thesis by blast
qed

section \<open>Where the points are\<close>

definition offs :: "PointCloud2 \<Rightarrow> nat \<Rightarrow> nat" where
  "offs m i = i div nW m * nR m + i mod nW m * nS m"

definition nP :: "PointCloud2 \<Rightarrow> nat" where "nP m = nW m * nH m"

lemma small_index:
  assumes "storage_ok m" "i < nP m"
  shows "unat (of_nat i :: u32) = i" "0 < nW m" "i div nW m < nH m" "i mod nW m < nW m"
proof -
  have "i < 2 ^ 32" using assms by (simp add: storage_ok_def nP_def)
  then show "unat (of_nat i :: u32) = i" by (simp add: unat_of_nat take_bit_nat_eq_self)
  show W: "0 < nW m" using assms(2) by (cases "nW m") (simp_all add: nP_def)
  show "i div nW m < nH m" using assms(2) W by (simp add: nP_def less_mult_imp_div_less mult.commute)
  show "i mod nW m < nW m" using W by simp
qed

lemma PointDataOffset_eq:
  assumes "storage_ok m" "i < nP m"
  shows "PointDataOffset m (of_nat i) = Some (offs m i)"
proof -
  have "pc_width m \<noteq> 0" using small_index(2) [OF assms] by (auto simp: unat_gt_0)
  then show ?thesis using small_index(1) [OF assms]
    by (simp add: PointDataOffset_def Let_def offs_def unat_div unat_mod)
qed

lemma column_end: "c < w \<Longrightarrow> b < s \<Longrightarrow> c * s + b < w * (s :: nat)"
proof -
  assume "c < w" "b < s"
  then have "c * s + s \<le> w * s" by (metis Suc_leI add.commute mult_Suc mult_le_mono1)
  then show "c * s + b < w * s" using \<open>b < s\<close> by linarith
qed

lemma offs_in_row:
  assumes ok: "storage_ok m" and i: "i < nP m" and b: "b < nS m"
  shows "(offs m i + b) mod nR m = i mod nW m * nS m + b"
    and "(offs m i + b) div nR m = i div nW m"
    and "i mod nW m * nS m + b < nW m * nS m"
proof -
  show lt: "i mod nW m * nS m + b < nW m * nS m"
    using column_end small_index(4) [OF ok i] b by blast
  then have R: "i mod nW m * nS m + b < nR m" using ok by (simp add: storage_ok_def)
  then show "(offs m i + b) mod nR m = i mod nW m * nS m + b"
    by (simp add: offs_def add.assoc)
  have "0 < nR m" using R by simp
  then show "(offs m i + b) div nR m = i div nW m"
    using R by (simp add: offs_def add.assoc)
qed

lemma offs_end:
  assumes ok: "storage_ok m" and i: "i < nP m"
  shows "offs m i + nS m \<le> length (pc_data m)"
proof -
  have "0 < nW m * nH m" using i unfolding nP_def by linarith
  then have S: "0 < nS m" using ok by (simp add: storage_ok_def)
  have "i mod nW m * nS m + nS m \<le> nW m * nS m"
    using offs_in_row(3) [OF ok i, of "nS m - 1"] S by linarith
  then have "i mod nW m * nS m + nS m \<le> nR m" using ok unfolding storage_ok_def by linarith
  then have "offs m i + nS m \<le> i div nW m * nR m + nR m" by (simp add: offs_def)
  then show ?thesis using row_end_bound [OF ok small_index(3) [OF ok i]] by linarith
qed

lemma offs_encoded:
  "storage_ok m \<Longrightarrow> i < nP m \<Longrightarrow> b < nS m \<Longrightarrow>
    is_encoded m l (offs m i + b) \<longleftrightarrow> encoded_byte_mask l ! b"
  by (simp add: is_encoded_def offs_in_row)

lemma offs_inject:
  assumes ok: "storage_ok m" and i: "i < nP m" "j < nP m" and b: "b < nS m" "c < nS m"
    and eq: "offs m i + b = offs m j + c"
  shows "i = j \<and> b = c"
proof -
  have "i div nW m = j div nW m" using offs_in_row(2) ok i b eq by metis
  moreover have e: "i mod nW m * nS m + b = j mod nW m * nS m + c"
    using offs_in_row(1) ok i b eq by metis
  then have "(i mod nW m * nS m + b) div nS m = (j mod nW m * nS m + c) div nS m" by simp
  then have "i mod nW m = j mod nW m" using b by simp
  ultimately show ?thesis using e by (metis add_left_imp_eq div_mult_mod_eq)
qed

lemma encoded_in_point:
  assumes ok: "storage_ok m" and p: "p < length (pc_data m)" and enc: "is_encoded m l p"
  obtains i b where "i < nP m" "b < nS m" "p = offs m i + b" "encoded_byte_mask l ! b"
proof -
  let ?q = "p mod nR m"
  have q: "?q < nW m * nS m" and msk: "encoded_byte_mask l ! (?q mod nS m)"
    using enc by (simp_all add: is_encoded_def)
  then have S: "0 < nS m" by (cases "nS m") auto
  have c: "?q div nS m < nW m" using q by (simp add: less_mult_imp_div_less)
  have r: "p div nR m < nH m"
    using p ok by (simp add: storage_ok_def less_mult_imp_div_less mult.commute)
  let ?i = "p div nR m * nW m + ?q div nS m"
  have "?i < nP m" using column_end [OF r c] by (simp add: nP_def mult.commute)
  moreover have "p = offs m ?i + ?q mod nS m"
    using c by (simp add: offs_def div_mult_mod_eq)
  moreover have "?q mod nS m < nS m" using S by simp
  ultimately show ?thesis using that msk by blast
qed

section \<open>The decoding loop\<close>

definition point_spots :: "PointCloud2 \<Rightarrow> PointLayout \<Rightarrow> nat \<Rightarrow> nat list" where
  "point_spots m l i = spots (encoded_fields l) (offs m i)"

lemma distinct_point_spots: "layout_wf n l \<Longrightarrow> distinct (point_spots m l i)"
  unfolding point_spots_def by (rule spots_disjoint [of _ n]) (auto simp: layout_wf_def)

lemma point_spotsE:
  assumes wf: "layout_wf (nS m) l" and p: "p \<in> set (point_spots m l i)"
  obtains b where "p = offs m i + b" "b < nS m" "encoded_byte_mask l ! b"
proof -
  obtain f b where f: "f \<in> set (encoded_fields l)" "b \<in> field_span (snd f)" "p = offs m i + b"
    using p by (auto simp: point_spots_def set_spots)
  moreover have b: "b < nS m"
  proof -
    have "FieldFits (snd f) (nS m)" using wf f(1) by (simp add: layout_wf_def)
    then show ?thesis using FieldFits_span f(2) by (fastforce simp: field_span_def)
  qed
  ultimately show ?thesis using that layout_wf_mask(2) [OF wf b] by blast
qed

lemma point_spotsI:
  "layout_wf (nS m) l \<Longrightarrow> b < nS m \<Longrightarrow> encoded_byte_mask l ! b \<Longrightarrow>
    offs m i + b \<in> set (point_spots m l i)"
  by (auto simp: layout_wf_mask point_spots_def set_spots)

lemma point_spots_bound:
  assumes "storage_ok m" "layout_wf (nS m) l" "i < nP m" "p \<in> set (point_spots m l i)"
  shows "p < length (pc_data m)"
  using offs_end [OF assms(1,3)] by (rule_tac point_spotsE [OF assms(2,4)]) simp

lemma point_spots_encoded:
  assumes "storage_ok m" "layout_wf (nS m) l" "i < nP m" "p \<in> set (point_spots m l i)"
  shows "is_encoded m l p"
  by (rule point_spotsE [OF assms(2,4)]) (simp add: offs_encoded assms(1,3))

lemma point_spots_apart:
  assumes ok: "storage_ok m" and wf: "layout_wf (nS m) l" and i: "i < nP m" "j < nP m" "i \<noteq> j"
  shows "set (point_spots m l i) \<inter> set (point_spots m l j) = {}"
proof (rule ccontr)
  assume "\<not> ?thesis"
  then obtain p where p: "p \<in> set (point_spots m l i)" "p \<in> set (point_spots m l j)" by blast
  obtain b where b: "p = offs m i + b" "b < nS m" by (rule point_spotsE [OF wf p(1)])
  obtain c where c: "p = offs m j + c" "c < nS m" by (rule point_spotsE [OF wf p(2)])
  show False using offs_inject [OF ok i(1,2) b(2) c(2)] b c i by simp
qed

definition put_points ::
  "PointCloud2 \<Rightarrow> PointLayout \<Rightarrow> (nat \<Rightarrow> nat) \<Rightarrow> (nat \<Rightarrow> bytes) \<Rightarrow> nat list \<Rightarrow> bytes \<Rightarrow> bytes" where
  "put_points m l g vals ks d = fold (\<lambda>k. write_at (point_spots m l (g k)) (vals k)) ks d"

lemma length_put_points [simp]: "length (put_points m l g vals ks d) = length d"
  by (induction ks arbitrary: d) (simp_all add: put_points_def)

lemma put_points_snoc:
  "put_points m l g vals (ks @ [k]) d =
     write_at (point_spots m l (g k)) (vals k) (put_points m l g vals ks d)"
  by (simp add: put_points_def)

lemma put_points_other:
  "storage_ok m \<Longrightarrow> layout_wf (nS m) l \<Longrightarrow> (\<And>k. k \<in> set ks \<Longrightarrow> g k < nP m) \<Longrightarrow>
    \<not> is_encoded m l p \<Longrightarrow> put_points m l g vals ks d ! p = d ! p"
proof (induction ks rule: rev_induct)
  case (snoc k ks)
  have "p \<notin> set (point_spots m l (g k))"
    using point_spots_encoded snoc.prems by (metis in_set_conv_decomp)
  then show ?case using snoc by (simp add: put_points_snoc write_at_other)
qed (simp add: put_points_def)

lemma put_points_spots:
  assumes ok: "storage_ok m" and wf: "layout_wf (nS m) l" and len: "length d = length (pc_data m)"
  shows "(\<And>k. k \<in> set ks \<Longrightarrow> g k < nP m \<and> length (vals k) = length (point_spots m l (g k))) \<Longrightarrow>
    distinct (map g ks) \<Longrightarrow> k \<in> set ks \<Longrightarrow>
    map (nth (put_points m l g vals ks d)) (point_spots m l (g k)) = vals k"
proof (induction ks rule: rev_induct)
  case (snoc j ks)
  show ?case
  proof (cases "k = j")
    case True
    show ?thesis
    proof (rule nth_equalityI)
      fix x assume "x < length (map (nth (put_points m l g vals (ks @ [j]) d)) (point_spots m l (g k)))"
      then have x: "x < length (point_spots m l (g j))" using True by simp
      have "point_spots m l (g j) ! x < length d"
        using point_spots_bound [OF ok wf _ nth_mem [OF x]] snoc.prems(1) [of j] len by simp
      then show "map (nth (put_points m l g vals (ks @ [j]) d)) (point_spots m l (g k)) ! x = vals k ! x"
        using write_at_nth [OF distinct_point_spots [OF wf] x] x snoc.prems(1) [of j] True
        by (simp add: put_points_snoc)
    qed (use snoc.prems(1) [of j] True in simp)
  next
    case False
    then have k: "k \<in> set ks" "g k \<noteq> g j" using snoc.prems(2,3) by (auto simp: image_iff)
    have "set (point_spots m l (g k)) \<inter> set (point_spots m l (g j)) = {}"
      using point_spots_apart [OF ok wf] snoc.prems(1) [of k] snoc.prems(1) [of j] k by simp
    then have apart: "x \<notin> set (point_spots m l (g j))" if "x \<in> set (point_spots m l (g k))" for x
      using that by blast
    have "map (nth (put_points m l g vals (ks @ [j]) d)) (point_spots m l (g k)) =
        map (nth (put_points m l g vals ks d)) (point_spots m l (g k))"
      by (simp add: put_points_snoc write_at_other apart)
    also have "\<dots> = vals k" using snoc.IH snoc.prems k(1) by simp
    finally show ?thesis .
  qed
qed simp

definition mark_restored :: "nat list \<Rightarrow> bool list \<Rightarrow> bool list" where
  "mark_restored gs rs = fold (\<lambda>g rs. rs[g := True]) gs rs"

lemma length_mark_restored [simp]: "length (mark_restored gs rs) = length rs"
  by (induction gs arbitrary: rs) (simp_all add: mark_restored_def)

lemma mark_restored_nth:
  "i < length rs \<Longrightarrow> mark_restored gs rs ! i \<longleftrightarrow> rs ! i \<or> i \<in> set gs"
proof (induction gs arbitrary: rs)
  case (Cons a gs)
  have "mark_restored (a # gs) rs = mark_restored gs (rs[a := True])"
    by (simp add: mark_restored_def)
  then show ?case using Cons.IH [of "rs[a := True]"] Cons.prems by (cases "i = a") auto
qed (simp add: mark_restored_def)

text \<open>The loop on the values themselves, when every value fits its buffer.\<close>

definition decode_typed ::
  "PointCloud2 \<Rightarrow> PointLayout \<Rightarrow> nat \<Rightarrow> (nat \<Rightarrow> xyz) \<Rightarrow> (nat \<Rightarrow> u32) \<Rightarrow> (nat \<Rightarrow> rgba) option \<Rightarrow> nat \<Rightarrow>
     (bool list \<times> bytes) option \<Rightarrow> (bool list \<times> bytes) option option" where
  "decode_typed decoded layout point_count pos gen col index st =
     (case st of
        None \<Rightarrow> Some None
      | Some (restored, data) \<Rightarrow>
          let original_index = gen index in
          if unat original_index \<ge> point_count \<or> restored ! unat original_index then Some None
          else
            do { point \<leftarrow> PointDataOffset decoded original_index;
                 data \<leftarrow> write_point decoded layout (pos index)
                           (map_option (\<lambda>c. c index) col) point data;
                 Some (Some (restored[unat original_index := True], data)) })"

definition decoded_values ::
  "PointCloud2 \<Rightarrow> PointLayout \<Rightarrow> (nat \<Rightarrow> xyz) \<Rightarrow> (nat \<Rightarrow> rgba) option \<Rightarrow> nat \<Rightarrow> bytes" where
  "decoded_values m l pos col k =
     point_values (pc_is_bigendian m) l (pos k) (case col of None \<Rightarrow> (0, 0, 0, 0) | Some c \<Rightarrow> c k)"

lemma decode_typed_eq:
  assumes ok: "storage_ok m" and wf: "layout_wf (nS m) l" and len: "length d = length (pc_data m)"
    and col: "color_encoding l \<noteq> ColorNone \<longleftrightarrow> col \<noteq> None"
  shows "decode_typed m l (nP m) pos gen col k (Some (rs, d)) =
    (if unat (gen k) \<ge> nP m \<or> rs ! unat (gen k) then Some None
     else Some (Some (rs[unat (gen k) := True],
            write_at (point_spots m l (unat (gen k))) (decoded_values m l pos col k) d)))"
proof (cases "unat (gen k) < nP m")
  case True
  have "PointDataOffset m (gen k) = Some (offs m (unat (gen k)))"
    using PointDataOffset_eq [OF ok True] by simp
  moreover have "write_point m l (pos k) (map_option (\<lambda>c. c k) col) (offs m (unat (gen k))) d =
      Some (write_at (point_spots m l (unat (gen k))) (decoded_values m l pos col k) d)"
    using write_point_eq [OF wf, of "offs m (unat (gen k))" d "map_option (\<lambda>c. c k) col" m "pos k"]
      offs_end [OF ok True] len col
    by (cases col) (simp_all add: point_spots_def decoded_values_def)
  ultimately show ?thesis using True by (simp add: decode_typed_def Let_def)
qed (simp add: decode_typed_def Let_def)

lemma foldO_returned: "foldO (decode_typed m l n pos gen col) ks None = Some None"
  by (induction ks) (simp_all add: decode_typed_def)

lemma decode_loop:
  assumes ok: "storage_ok m" and wf: "layout_wf (nS m) l"
    and col: "color_encoding l \<noteq> ColorNone \<longleftrightarrow> col \<noteq> None"
  shows "length d = length (pc_data m) \<Longrightarrow> length rs = nP m \<Longrightarrow>
    foldO (decode_typed m l (nP m) pos gen col) ks (Some (rs, d)) =
      Some (if distinct (map (\<lambda>k. unat (gen k)) ks) \<and>
               (\<forall>k \<in> set ks. unat (gen k) < nP m \<and> \<not> rs ! unat (gen k))
            then Some (mark_restored (map (\<lambda>k. unat (gen k)) ks) rs,
                       put_points m l (\<lambda>k. unat (gen k)) (decoded_values m l pos col) ks d)
            else None)"
proof (induction ks arbitrary: rs d)
  case Nil
  then show ?case by (simp add: mark_restored_def put_points_def)
next
  case (Cons k ks)
  show ?case
  proof (cases "unat (gen k) < nP m \<and> \<not> rs ! unat (gen k)")
    case True
    let ?rs = "rs[unat (gen k) := True]"
    have nth: "?rs ! i \<longleftrightarrow> i = unat (gen k) \<or> rs ! i" for i
      using True Cons.prems(2) by (cases "i = unat (gen k)") simp_all
    have eq: "distinct (map (\<lambda>k. unat (gen k)) (k # ks)) \<and>
        (\<forall>j \<in> set (k # ks). unat (gen j) < nP m \<and> \<not> rs ! unat (gen j)) \<longleftrightarrow>
      distinct (map (\<lambda>k. unat (gen k)) ks) \<and>
        (\<forall>j \<in> set ks. unat (gen j) < nP m \<and> \<not> ?rs ! unat (gen j))"
      unfolding nth using True by (simp add: image_iff) metis
    show ?thesis
      unfolding eq using True Cons.prems Cons.IH [of "write_at (point_spots m l (unat (gen k)))
          (decoded_values m l pos col k) d" ?rs]
      by (simp add: decode_typed_eq [OF ok wf _ col] mark_restored_def put_points_def)
  next
    case False
    then show ?thesis using Cons.prems
      by (auto simp: decode_typed_eq [OF ok wf _ col] foldO_returned)
  qed
qed

section \<open>Both directions in closed form\<close>

lemma ParseLayout_parse:
  "ParseLayout flds step (Some old) =
     (case parse_layout flds step of None \<Rightarrow> (False, Some old) | Some l \<Rightarrow> (True, Some l))"
  by (simp add: parse_layout_def ParseLayout_eq)

lemma Validate_count:
  "unat (ucast (pc_width m) * ucast (pc_height m) :: u64) = nP m"
  by (simp only: unat_mult_u32 nP_def)

lemma encode_points:
  assumes ok: "storage_ok m" and wf: "layout_wf (nS m) l"
    and cid: "cid \<ge> 0 \<longleftrightarrow> color_encoding l \<noteq> ColorNone"
  shows "n \<le> nP m \<Longrightarrow> \<exists>pts. foldO (encode_point m l cid) [0..<n] [] = Some pts \<and> length pts = n \<and>
    (\<forall>i < n. fst (snd (pts ! i)) = of_nat i \<and>
       point_values (pc_is_bigendian m) l (fst (pts ! i)) (snd (snd (pts ! i))) =
         map (nth (pc_data m)) (point_spots m l i))"
proof (induction n)
  case (Suc n)
  then obtain pts where pts: "foldO (encode_point m l cid) [0..<n] [] = Some pts" "length pts = n"
    "\<forall>i < n. fst (snd (pts ! i)) = of_nat i \<and>
       point_values (pc_is_bigendian m) l (fst (pts ! i)) (snd (snd (pts ! i))) =
         map (nth (pc_data m)) (point_spots m l i)" by auto
  have n: "n < nP m" using Suc.prems by simp
  obtain pos c where pc: "\<And>acc. encode_point m l cid n acc = Some (acc @ [(pos, of_nat n, c)])"
    "point_values (pc_is_bigendian m) l pos c = map (nth (pc_data m)) (point_spots m l n)"
    using encode_point_eq [OF wf PointDataOffset_eq [OF ok n] offs_end [OF ok n] cid]
    unfolding point_spots_def by blast
  show ?case
    using pts pc by (intro exI [of _ "pts @ [(pos, of_nat n, c)]"])
      (auto simp: foldO_append nth_append less_Suc_eq)
qed simp

definition encoded_points :: "PointCloud2 \<Rightarrow> PointLayout \<Rightarrow> int \<Rightarrow> (xyz \<times> u32 \<times> rgba) list" where
  "encoded_points m l cid = the (foldO (encode_point m l cid) [0..<nP m] [])"

lemma encoded_points:
  assumes "storage_ok m" "layout_wf (nS m) l" "cid \<ge> 0 \<longleftrightarrow> color_encoding l \<noteq> ColorNone"
  shows "foldO (encode_point m l cid) [0..<nP m] [] = Some (encoded_points m l cid)"
    and "i < nP m \<Longrightarrow> fst (snd (encoded_points m l cid ! i)) = of_nat i"
    and "i < nP m \<Longrightarrow>
      point_values (pc_is_bigendian m) l (fst (encoded_points m l cid ! i))
        (snd (snd (encoded_points m l cid ! i))) = map (nth (pc_data m)) (point_spots m l i)"
  using encode_points [OF assms, of "nP m"] by (auto simp: encoded_points_def)

text \<open>The colour attribute id the encoder works with.\<close>

definition color_id_of :: "DracoLib \<Rightarrow> PointLayout \<Rightarrow> int" where
  "color_id_of lib l = (if color_encoding l = ColorNone then -1 else draco_color_id lib)"

definition sidecar_of :: "PointCloud2 \<Rightarrow> PointLayout \<Rightarrow> bytes" where
  "sidecar_of m l = map (nth (pc_data m)) (sidecar_positions m l)"

definition ids_valid :: "DracoLib \<Rightarrow> PointLayout \<Rightarrow> bool" where
  "ids_valid lib l \<longleftrightarrow> 0 \<le> draco_position_id lib \<and> 0 \<le> draco_generic_id lib \<and>
     (color_encoding l = ColorNone \<or> 0 \<le> color_id_of lib l)"

definition draco_buffer :: "DracoLib \<Rightarrow> PointCloud2 \<Rightarrow> PointLayout \<Rightarrow> bytes option" where
  "draco_buffer lib m l =
     Option.bind (draco_finalize lib
       (build_cloud (color_id_of lib l) (nP m) (encoded_points m l (color_id_of lib l))))
       (draco_encode lib 5 5 14)"

lemma Encode_eq:
  "Encode lib m (Some old) =
     (if \<not> storage_ok m then Some (False, Some old)
      else if nP m = 0 then
        Some (True, Some ((encoded_metadata m default_layout)\<lparr>sidecar_bytes := pc_data m\<rparr>))
      else
        (case parse_layout (pc_fields m) (pc_point_step m) of
           None \<Rightarrow> Some (False, Some old)
         | Some l \<Rightarrow>
             if \<not> ids_valid lib l then Some (False, Some old)
             else
               (case draco_buffer lib m l of
                  None \<Rightarrow> Some (False, Some old)
                | Some buffer \<Rightarrow>
                    Some (True, Some ((encoded_metadata m l)
                       \<lparr>sidecar_bytes := sidecar_of m l, epc_payload := buffer\<rparr>)))))"
proof (cases "storage_ok m \<and> 0 < nP m")
  case True
  then have ok: "storage_ok m" and pos: "0 < nP m" by simp_all
  show ?thesis
  proof (cases "parse_layout (pc_fields m) (pc_point_step m)")
    case None
    then show ?thesis using ok pos
      by (simp add: Encode_def ValidateMessageStorage_eq Validate_count ParseLayout_parse)
  next
    case (Some l)
    note wf = parse_layout_wf [OF Some]
    have msk: "length (encoded_byte_mask l) = nS m" using layout_wf_mask(1) [OF wf] .
    have cid: "0 \<le> color_id_of lib l \<longleftrightarrow> color_encoding l \<noteq> ColorNone" if "ids_valid lib l"
      using that by (auto simp: ids_valid_def color_id_of_def)
    have "Encode lib m (Some old) =
      (let encoded = (encoded_metadata m l)\<lparr>sidecar_bytes := sidecar_of m l\<rparr>
       in if \<not> ids_valid lib l then Some (False, Some old)
          else do { pts \<leftarrow> foldO (encode_point m l (color_id_of lib l)) [0..<nP m] [];
                    (case draco_finalize lib (build_cloud (color_id_of lib l) (nP m) pts) of
                       None \<Rightarrow> Some (False, Some old)
                     | Some cloud \<Rightarrow>
                         (case draco_encode lib 5 5 14 cloud of
                            None \<Rightarrow> Some (False, Some old)
                          | Some buffer \<Rightarrow> Some (True, Some (encoded\<lparr>epc_payload := buffer\<rparr>)))) })"
      using ok pos Some
      by (simp add: Encode_def ValidateMessageStorage_eq Validate_count ParseLayout_parse Let_def
          ExtractSidecar_ok [OF ok msk] sidecar_of_def ids_valid_def color_id_of_def not_le
          cong: option.case_cong)
    then show ?thesis using ok pos Some
      by (cases "ids_valid lib l")
         (auto simp: Let_def encoded_points(1) [OF ok wf cid] draco_buffer_def
          bind_eq_Some_conv split: option.split)
  qed
next
  case False
  then show ?thesis
    by (auto simp: Encode_def ValidateMessageStorage_eq Validate_count)
qed

lemma Encode_defined: "Encode lib m out \<noteq> None"
  by (cases out) (auto simp: Encode_eq Encode_def [of _ _ None] split: option.split)

text \<open>What the decoder reads of an attribute whose values fit: missing bytes are zero.\<close>

definition padded_value :: "nat \<Rightarrow> DracoAttribute \<Rightarrow> nat \<Rightarrow> bytes" where
  "padded_value n a k = map (value_byte a k) [0..<byte_stride a] @ replicate (n - byte_stride a) 0"

definition position_view :: "DracoAttribute \<Rightarrow> nat \<Rightarrow> xyz" where
  "position_view a k = xyz_of_buffer (padded_value 12 a k)"

definition index_view :: "DracoAttribute \<Rightarrow> nat \<Rightarrow> u32" where
  "index_view a k = host_word (padded_value 4 a k) 0"

definition color_view :: "DracoAttribute \<Rightarrow> nat \<Rightarrow> rgba" where
  "color_view a k = rgba_of_buffer (padded_value 4 a k)"

text \<open>A buffer between two iterations: after the bytes the attribute fills it is still zero.\<close>

definition buffer_ok :: "nat \<Rightarrow> DracoAttribute \<Rightarrow> bytes \<Rightarrow> bool" where
  "buffer_ok n a buffer \<longleftrightarrow>
     length buffer = n \<and> drop (byte_stride a) buffer = replicate (n - byte_stride a) 0"

lemma buffer_ok_start [simp]: "buffer_ok n a (replicate n 0)"
  by (simp add: buffer_ok_def)

lemma GetMappedValue_fits:
  "buffer_ok n a buffer \<Longrightarrow> byte_stride a \<le> n \<Longrightarrow> GetMappedValue a k buffer = Some (padded_value n a k)"
  by (simp add: GetMappedValue_def padded_value_def buffer_ok_def)

lemma buffer_ok_padded: "byte_stride a \<le> n \<Longrightarrow> buffer_ok n a (padded_value n a k)"
  by (simp add: buffer_ok_def padded_value_def)

lemma GetMappedValue_None: "GetMappedValue a k buffer = None \<longleftrightarrow> length buffer < byte_stride a"
  by (simp add: GetMappedValue_def)

definition color_fits :: "DracoAttribute option \<Rightarrow> bool" where
  "color_fits color \<longleftrightarrow> (\<forall>c. color = Some c \<longrightarrow> byte_stride c \<le> 4)"

definition color_buffer_ok :: "DracoAttribute option \<Rightarrow> bytes \<Rightarrow> bool" where
  "color_buffer_ok color buffer \<longleftrightarrow> (\<forall>c. color = Some c \<longrightarrow> buffer_ok 4 c buffer)"

lemma decode_point_fits:
  assumes fits: "byte_stride gen \<le> 4" "byte_stride pos \<le> 12" "color_fits col"
    and ok: "buffer_ok 12 pos pv" "color_buffer_ok col cv"
  obtains pv' cv' where "buffer_ok 12 pos pv'" "color_buffer_ok col cv'"
    "decode_point r l n pos gen col k (Some (rs, pv, cv, d)) =
      map_option (map_option (\<lambda>(rs, d). (rs, pv', cv', d)))
        (decode_typed r l n (position_view pos) (index_view gen) (map_option color_view col) k (Some (rs, d)))"
proof -
  let ?cv = "case col of None \<Rightarrow> cv | Some c \<Rightarrow> padded_value 4 c k"
  have gen: "GetMappedValue gen k (replicate 4 0) = Some (padded_value 4 gen k)"
    by (rule GetMappedValue_fits) (use fits in simp_all)
  have pos: "GetMappedValue pos k pv = Some (padded_value 12 pos k)"
    by (rule GetMappedValue_fits) (use fits ok in simp_all)
  have col: "(case col of None \<Rightarrow> Some cv | Some c \<Rightarrow> GetMappedValue c k cv) = Some ?cv"
    using fits(3) ok(2) by (cases col) (simp_all add: color_fits_def color_buffer_ok_def GetMappedValue_fits)
  have view: "map_option (\<lambda>_. rgba_of_buffer ?cv) col = map_option (\<lambda>c. c k) (map_option color_view col)"
    by (cases col) (simp_all add: color_view_def)
  show ?thesis
  proof (rule that)
    show "buffer_ok 12 pos (padded_value 12 pos k)" using fits(2) by (rule buffer_ok_padded)
    show "color_buffer_ok col ?cv"
      using fits(3) by (auto simp: color_buffer_ok_def color_fits_def buffer_ok_padded)
    show "decode_point r l n pos gen col k (Some (rs, pv, cv, d)) =
      map_option (map_option (\<lambda>(rs, d). (rs, padded_value 12 pos k, ?cv, d)))
        (decode_typed r l n (position_view pos) (index_view gen) (map_option color_view col) k (Some (rs, d)))"
      unfolding decode_point_def decode_typed_def option.case prod.case gen pos col view
        index_view_def position_view_def Let_def Option.bind.bind_lunit
      by (auto simp: Let_def pos col view split: Option.bind_split)
  qed
qed

lemma decode_points_fits:
  assumes fits: "byte_stride gen \<le> 4" "byte_stride pos \<le> 12" "color_fits col"
  shows "decode_points r l n pos gen col m d =
    foldO (decode_typed r l n (position_view pos) (index_view gen) (map_option color_view col)) [0..<m]
      (Some (replicate n False, d))"
proof -
  let ?typed = "decode_typed r l n (position_view pos) (index_view gen) (map_option color_view col)"
  let ?out = "map_option (map_option (\<lambda>(rs, _, _, d). (rs, d)))"
  have gone: "foldO (decode_point r l n pos gen col) ks None = Some None" for ks
    by (induction ks) (simp_all add: decode_point_def)
  have gone': "foldO ?typed ks None = Some None" for ks
    by (induction ks) (simp_all add: decode_typed_def)
  have loop: "buffer_ok 12 pos pv \<Longrightarrow> color_buffer_ok col cv \<Longrightarrow>
      ?out (foldO (decode_point r l n pos gen col) ks (Some (rs, pv, cv, d))) =
      foldO ?typed ks (Some (rs, d))" for ks rs pv cv d
  proof (induction ks arbitrary: rs pv cv d)
    case (Cons k ks)
    obtain pv' cv' where b: "buffer_ok 12 pos pv'" "color_buffer_ok col cv'"
      and s: "decode_point r l n pos gen col k (Some (rs, pv, cv, d)) =
        map_option (map_option (\<lambda>(rs, d). (rs, pv', cv', d))) (?typed k (Some (rs, d)))"
      using decode_point_fits [OF fits Cons.prems] by blast
    show ?case
    proof (cases "?typed k (Some (rs, d))")
      case (Some st)
      then show ?thesis using s Cons.IH [OF b] by (cases st) (auto simp: gone gone')
    qed (simp add: s)
  qed simp
  show ?thesis
    using loop [of "replicate 12 0" "replicate 4 0" "[0..<m]" "replicate n False" d]
    by (simp add: decode_points_def color_buffer_ok_def map_conv_bind_option o_def)
qed

text \<open>When they do not fit: the first iteration decides.\<close>

lemma decode_points_overrun:
  assumes n: "0 < n" "0 < m" and bad: "\<not> (byte_stride gen \<le> 4 \<and> byte_stride pos \<le> 12 \<and> color_fits col)"
  shows "decode_points r l n pos gen col m d =
    (if byte_stride gen \<le> 4 \<and> \<not> unat (index_view gen 0) < n then Some None else None)"
proof -
  have m: "[0..<m] = 0 # [1..<m]" using n by (simp add: upt_conv_Cons)
  have gone: "foldO (decode_point r l n pos gen col) ks None = Some None" for ks
    by (induction ks) (simp_all add: decode_point_def)
  let ?st = "Some (replicate n False, replicate 12 0, replicate 4 0, d)"
  have "decode_point r l n pos gen col 0 ?st =
      (if byte_stride gen \<le> 4 \<and> \<not> unat (index_view gen 0) < n then Some None else None)"
  proof (cases "byte_stride gen \<le> 4")
    case True
    then have gen: "GetMappedValue gen 0 (replicate 4 0) = Some (padded_value 4 gen 0)"
      by (rule GetMappedValue_fits [rotated]) simp
    have none: "GetMappedValue pos 0 (replicate 12 0) = None \<or>
        (case col of None \<Rightarrow> Some (replicate 4 0) | Some c \<Rightarrow> GetMappedValue c 0 (replicate 4 0)) = None"
      using bad True GetMappedValue_None [of pos 0 "replicate 12 0"]
        GetMappedValue_None [of _ 0 "replicate 4 0"] by (cases col) (auto simp: color_fits_def)
    show ?thesis
      using True none unfolding decode_point_def option.case prod.case gen index_view_def
      by (auto simp: Let_def bind_eq_None_conv)
  next
    case False
    then have "GetMappedValue gen 0 (replicate 4 0) = None" by (simp add: GetMappedValue_None)
    then show ?thesis using False by (simp add: decode_point_def)
  qed
  then show ?thesis by (simp add: decode_points_def m gone)
qed

text \<open>Every point index occurs exactly once.\<close>

definition index_permutation :: "nat \<Rightarrow> (nat \<Rightarrow> u32) \<Rightarrow> bool" where
  "index_permutation n gen \<longleftrightarrow>
     bij_betw (\<lambda>k. unat (gen k)) {0..<n} {0..<n}"

lemma index_permutation_iff:
  "index_permutation n gen \<longleftrightarrow>
     distinct (map (\<lambda>k. unat (gen k)) [0..<n]) \<and> (\<forall>k \<in> set [0..<n]. unat (gen k) < n)"
proof -
  have "(\<lambda>k. unat (gen k)) ` {0..<n} = {0..<n}"
    if "inj_on (\<lambda>k. unat (gen k)) {0..<n}" "\<forall>k < n. unat (gen k) < n"
    by (rule endo_inj_surj) (use that in auto)
  then show ?thesis
    by (auto simp: index_permutation_def bij_betw_def distinct_map atLeast0LessThan)
qed

definition point_put :: "PointCloud2 \<Rightarrow> PointLayout \<Rightarrow> (nat \<Rightarrow> xyz) \<Rightarrow> (nat \<Rightarrow> u32) \<Rightarrow> (nat \<Rightarrow> rgba) option \<Rightarrow> bytes"
where
  "point_put r l pos gen col =
     put_points r l (\<lambda>k. unat (gen k)) (decoded_values r l pos col) [0..<nP r] (pc_data r)"

lemma decode_typed_loop:
  assumes ok: "storage_ok r" and wf: "layout_wf (nS r) l"
    and col: "color_encoding l \<noteq> ColorNone \<longleftrightarrow> col \<noteq> None"
  shows "\<exists>marks. foldO (decode_typed r l (nP r) pos gen col) [0..<nP r]
      (Some (replicate (nP r) False, pc_data r)) =
    Some (if index_permutation (nP r) gen then Some (marks, point_put r l pos gen col) else None) \<and>
    (index_permutation (nP r) gen \<longrightarrow> False \<notin> set marks)"
proof -
  let ?g = "\<lambda>k. unat (gen k)"
  let ?marks = "mark_restored (map ?g [0..<nP r]) (replicate (nP r) False)"
  have all: "False \<notin> set ?marks" if perm: "index_permutation (nP r) gen"
  proof
    assume "False \<in> set ?marks"
    then obtain i where i: "i < nP r" "\<not> ?marks ! i" by (auto simp: in_set_conv_nth)
    have "i \<in> ?g ` {0..<nP r}" using perm i by (simp add: index_permutation_def bij_betw_def)
    then show False using i by (auto simp: mark_restored_nth)
  qed
  show ?thesis
    unfolding index_permutation_iff
    using decode_loop [OF ok wf col, of "pc_data r" "replicate (nP r) False" pos gen "[0..<nP r]"] all
    by (intro exI [of _ ?marks]) (auto simp: point_put_def index_permutation_iff)
qed

definition restored_cloud :: "EncodedPointCloud \<Rightarrow> PointLayout \<Rightarrow> PointCloud2" where
  "restored_cloud e l =
     (let dm = decoded_metadata e
      in dm\<lparr>pc_data := write_at (sidecar_positions dm l) (sidecar_bytes e) (pc_data dm)\<rparr>)"

definition type_matches :: "EncodedPointCloud \<Rightarrow> PointLayout \<Rightarrow> bool" where
  "type_matches e l \<longleftrightarrow>
     point_type e = (if color_encoding l = ColorNone then kPointTypeXyz else kPointTypeXyzRgb)"

lemma Decode_eq:
  "Decode lib e (Some t) =
     (let dm = decoded_metadata e in
      if format_version e \<noteq> kLayoutFormatVersion \<or> \<not> storage_ok dm then Some (False, Some t)
      else if nP dm = 0 then
        (if epc_payload e \<noteq> [] \<or> length (sidecar_bytes e) \<noteq> length (pc_data dm) then Some (False, Some t)
         else Some (True, Some (dm\<lparr>pc_data := sidecar_bytes e\<rparr>)))
      else
        (case parse_layout (pc_fields dm) (pc_point_step dm) of
           None \<Rightarrow> Some (False, Some t)
         | Some l \<Rightarrow>
             if \<not> type_matches e l \<or> length (sidecar_bytes e) \<noteq> length (sidecar_positions dm l) \<or>
                epc_payload e = [] then Some (False, Some t)
             else
               (case draco_decode lib (epc_payload e) of
                  Some (Some cloud) \<Rightarrow>
                    if dd_points cloud \<noteq> nP dm \<or> dd_position cloud = None \<or> dd_generic cloud = None \<or>
                       (color_encoding l \<noteq> ColorNone \<and> dd_color cloud = None) then Some (False, Some t)
                    else
                      do { st \<leftarrow> decode_points (restored_cloud e l) l (nP dm) (the (dd_position cloud))
                                 (the (dd_generic cloud)) (dd_color cloud) (nP dm)
                                 (pc_data (restored_cloud e l));
                           (case st of
                              None \<Rightarrow> Some (False, Some t)
                            | Some (restored, data) \<Rightarrow>
                                if False \<in> set restored then Some (False, Some t)
                                else Some (True, Some ((restored_cloud e l)\<lparr>pc_data := data\<rparr>))) }
                | _ \<Rightarrow> Some (False, Some t))))"
proof (cases "format_version e = kLayoutFormatVersion \<and> storage_ok (decoded_metadata e) \<and>
    0 < nP (decoded_metadata e)")
  case True
  let ?dm = "decoded_metadata e"
  from True have fmt: "format_version e = kLayoutFormatVersion" and ok: "storage_ok ?dm"
    and pos: "0 < nP ?dm" by simp_all
  show ?thesis
  proof (cases "parse_layout (pc_fields ?dm) (pc_point_step ?dm)")
    case None
    then show ?thesis using fmt ok pos
      by (simp add: Decode_def ValidateMessageStorage_eq Validate_count ParseLayout_parse Let_def)
  next
    case (Some l)
    have msk: "length (encoded_byte_mask l) = nS ?dm"
      using layout_wf_mask(1) [OF parse_layout_wf [OF Some]] .
    have tm: "type_mismatch e l \<longleftrightarrow> \<not> type_matches e l"
      by (auto simp: type_mismatch_def type_matches_def kPointTypeXyz_def kPointTypeXyzRgb_def)
    have rc: "?dm\<lparr>pc_data := write_at (sidecar_positions ?dm l) (sidecar_bytes e) (pc_data ?dm)\<rparr> =
        restored_cloud e l" by (simp add: restored_cloud_def Let_def)
    show ?thesis using fmt ok pos Some
      by (auto simp: Decode_def ValidateMessageStorage_eq Validate_count ParseLayout_parse
          tm RestoreSidecar_ok [OF ok msk] rc Let_def split: option.split)
         (simp_all only: option.sel)
  qed
next
  case False
  then show ?thesis
    by (auto simp: Decode_def ValidateMessageStorage_eq Validate_count Let_def)
qed

section \<open>What is relied on of the Draco library\<close>

definition attribute_permuted ::
  "nat \<Rightarrow> (nat \<Rightarrow> nat) \<Rightarrow> ('a \<Rightarrow> 'a) \<Rightarrow> (nat \<Rightarrow> 'a) option \<Rightarrow> (nat \<Rightarrow> 'a) option \<Rightarrow> bool" where
  "attribute_permuted n perm h a b \<longleftrightarrow>
     (case (a, b) of
        (None, None) \<Rightarrow> True
      | (Some f, Some f') \<Rightarrow> \<forall>k < n. f' k = h (f (perm k))
      | _ \<Rightarrow> False)"

text \<open>An attribute of the decoded cloud holds values of the declared size.\<close>

definition attribute_kept ::
  "nat \<Rightarrow> (nat \<Rightarrow> nat) \<Rightarrow> ('a \<Rightarrow> 'a) \<Rightarrow> nat \<Rightarrow> (DracoAttribute \<Rightarrow> nat \<Rightarrow> 'a) \<Rightarrow>
     (nat \<Rightarrow> 'a) option \<Rightarrow> DracoAttribute option \<Rightarrow> bool" where
  "attribute_kept n perm h width view a b \<longleftrightarrow>
     attribute_permuted n perm h a (map_option view b) \<and> (\<forall>c. b = Some c \<longrightarrow> byte_stride c = width)"

definition cloud_kept :: "(xyz \<Rightarrow> xyz) \<Rightarrow> DracoCloud \<Rightarrow> DecodedCloud \<Rightarrow> (nat \<Rightarrow> nat) \<Rightarrow> bool" where
  "cloud_kept h cloud cloud' perm \<longleftrightarrow>
     dd_points cloud' = num_points cloud \<and>
     bij_betw perm {0..<num_points cloud} {0..<num_points cloud} \<and>
     attribute_kept (num_points cloud) perm h 12 position_view (dc_position cloud) (dd_position cloud') \<and>
     attribute_kept (num_points cloud) perm id 4 index_view (dc_generic cloud) (dd_generic cloud') \<and>
     attribute_kept (num_points cloud) perm id 4 color_view (dc_color cloud) (dd_color cloud')"

definition draco_faithful :: "DracoLib \<Rightarrow> (DracoCloud \<Rightarrow> xyz \<Rightarrow> xyz) \<Rightarrow> bool" where
  "draco_faithful lib q \<longleftrightarrow>
     (\<forall>cloud cloud'. draco_finalize lib cloud = Some cloud' \<longrightarrow> cloud' = cloud) \<and>
     (\<forall>cloud buf. draco_encode lib 5 5 14 cloud = Some buf \<longrightarrow> buf \<noteq> [] \<and>
        (\<exists>cloud' perm. draco_decode lib buf = Some (Some cloud') \<and> cloud_kept (q cloud) cloud cloud' perm))"

lemma draco_faithfulD:
  assumes "draco_faithful lib q" and "draco_encode lib 5 5 14 cloud = Some buf"
  shows "buf \<noteq> [] \<and>
    (\<exists>cloud' perm. draco_decode lib buf = Some (Some cloud') \<and> cloud_kept (q cloud) cloud cloud' perm)"
  using assms unfolding draco_faithful_def by blast

section \<open>Encode, then decode\<close>

lemma geometry_data [simp]:
  "nP (m\<lparr>pc_data := d\<rparr>) = nP m" "offs (m\<lparr>pc_data := d\<rparr>) i = offs m i"
  "point_spots (m\<lparr>pc_data := d\<rparr>) l i = point_spots m l i"
  "is_encoded (m\<lparr>pc_data := d\<rparr>) l p = is_encoded m l p"
  "sidecar_positions (m\<lparr>pc_data := d\<rparr>) l = sidecar_positions m l"
proof -
  show "nP (m\<lparr>pc_data := d\<rparr>) = nP m" by (simp add: nP_def)
  show "offs (m\<lparr>pc_data := d\<rparr>) i = offs m i" by (simp add: offs_def)
  then show "point_spots (m\<lparr>pc_data := d\<rparr>) l i = point_spots m l i" by (simp add: point_spots_def)
  show "is_encoded (m\<lparr>pc_data := d\<rparr>) l p = is_encoded m l p" by (simp add: is_encoded_def)
  have "row_positions (m\<lparr>pc_data := d\<rparr>) l = row_positions m l"
    by (rule ext) (simp add: row_positions_def point_positions_def)
  then show "sidecar_positions (m\<lparr>pc_data := d\<rparr>) l = sidecar_positions m l"
    by (simp add: sidecar_positions_def)
qed

lemma storage_ok_data:
  "length d = length (pc_data m) \<Longrightarrow> storage_ok (m\<lparr>pc_data := d\<rparr>) = storage_ok m"
  by (simp add: storage_ok_def)

lemma decoded_metadata_encoded:
  assumes "storage_ok m"
  shows "decoded_metadata ((encoded_metadata m l)\<lparr>sidecar_bytes := s, epc_payload := b\<rparr>) =
    m\<lparr>pc_data := replicate (length (pc_data m)) 0\<rparr>"
    and "decoded_metadata ((encoded_metadata m l)\<lparr>sidecar_bytes := s\<rparr>) =
    m\<lparr>pc_data := replicate (length (pc_data m)) 0\<rparr>"
proof -
  have "unat (ucast (pc_row_step m) * ucast (pc_height m) :: u64) = length (pc_data m)"
    using assms unfolding unat_mult_u32 storage_ok_def by blast
  then show "decoded_metadata ((encoded_metadata m l)\<lparr>sidecar_bytes := s, epc_payload := b\<rparr>) =
    m\<lparr>pc_data := replicate (length (pc_data m)) 0\<rparr>"
    and "decoded_metadata ((encoded_metadata m l)\<lparr>sidecar_bytes := s\<rparr>) =
    m\<lparr>pc_data := replicate (length (pc_data m)) 0\<rparr>"
    by (simp_all add: decoded_metadata_def encoded_metadata_def default_encoded_def)
qed

text \<open>The position of point \<open>i\<close>, as the encoder's loop reads it.\<close>

definition point_xyz :: "PointCloud2 \<Rightarrow> PointLayout \<Rightarrow> nat \<Rightarrow> xyz" where
  "point_xyz m l i = fst (hd (the (encode_point m l (-1) i [])))"

lemma word_bytes_inject:
  assumes "word_bytes b v = word_bytes b w"
  shows "v = w"
proof -
  have eq: "ucast v = (ucast w :: byte)" "ucast (drop_bit 8 v) = (ucast (drop_bit 8 w) :: byte)"
    "ucast (drop_bit 16 v) = (ucast (drop_bit 16 w) :: byte)"
    "ucast (drop_bit 24 v) = (ucast (drop_bit 24 w) :: byte)"
    using assms by (cases b; simp add: word_bytes_def)+
  show ?thesis using repack [of v] unfolding eq repack by simp
qed

lemma ReadUint32_of_bytes:
  assumes "p + 4 \<le> length d" and "map (nth d) [p..<p + 4] = word_bytes b w"
  shows "ReadUint32 d p b = Some w"
proof -
  obtain v where "ReadUint32 d p b = Some v" "word_bytes b v = map (nth d) [p..<p + 4]"
    using map_nth_word [OF assms(1)] .
  then show ?thesis using assms(2) word_bytes_inject by metis
qed

lemma point_xyz_of_bytes:
  assumes ok: "storage_ok m" and wf: "layout_wf (nS m) l" and i: "i < nP m"
    and vals: "map (nth (pc_data m)) (point_spots m l i) =
      point_values (pc_is_bigendian m) l pos c"
  shows "encode_point m l (-1) i [] = Some [(pos, of_nat i, (0, 0, 0, 0))]"
proof -
  obtain px py pz where pos: "pos = (px, py, pz)" by (cases pos)
  let ?d = "pc_data m" and ?b = "pc_is_bigendian m" and ?o = "offs m i"
  obtain ix fx where x: "lay_x l = Some (ix, fx)" "field_end fx = unat (pf_offset fx) + 4"
    using wf by (auto simp: layout_wf_def elim: field_sizedE)
  obtain iy fy where y: "lay_y l = Some (iy, fy)" "field_end fy = unat (pf_offset fy) + 4"
    using wf by (auto simp: layout_wf_def elim: field_sizedE)
  obtain iz fz where z: "lay_z l = Some (iz, fz)" "field_end fz = unat (pf_offset fz) + 4"
    using wf by (auto simp: layout_wf_def elim: field_sizedE)
  have fits: "\<And>f. f \<in> set (encoded_fields l) \<Longrightarrow> FieldFits (snd f) (nS m)"
    using wf by (simp add: layout_wf_def)
  have "FieldFits fx (nS m)" "FieldFits fy (nS m)" "FieldFits fz (nS m)"
    using fits [of "(ix, fx)"] fits [of "(iy, fy)"] fits [of "(iz, fz)"] x y z
    by (simp_all add: encoded_fields_def)
  note xyz = this [THEN FieldFits_span]
  have parts: "map (nth ?d) [?o + unat (pf_offset fx)..<?o + unat (pf_offset fx) + 4] = word_bytes ?b px"
    "map (nth ?d) [?o + unat (pf_offset fy)..<?o + unat (pf_offset fy) + 4] = word_bytes ?b py"
    "map (nth ?d) [?o + unat (pf_offset fz)..<?o + unat (pf_offset fz) + 4] = word_bytes ?b pz"
    using vals x y z
    by (auto simp: point_spots_def encoded_fields_def point_values_def pos append_eq_append_conv add.assoc)
  have len: "?o + unat (pf_offset fx) + 4 \<le> length ?d" "?o + unat (pf_offset fy) + 4 \<le> length ?d"
    "?o + unat (pf_offset fz) + 4 \<le> length ?d"
    using xyz x y z offs_end [OF ok i] by linarith+
  show ?thesis
    using ReadUint32_of_bytes [OF len(1) parts(1)] ReadUint32_of_bytes [OF len(2) parts(2)]
      ReadUint32_of_bytes [OF len(3) parts(3)] PointDataOffset_eq [OF ok i] x y z
    by (simp add: encode_point_def field_offset_def ReadFloat32_def pos)
qed

lemma color_values_none: "color_encoding l = ColorNone \<Longrightarrow> color_values b l c = []"
  by (cases c) (simp add: color_values_def)

lemma point_values_none:
  "color_encoding l = ColorNone \<Longrightarrow> point_values b l pos c = point_values b l pos c'"
  by (cases pos) (simp add: point_values_def color_values_none)

text \<open>The decoding loop on what the library returns for the encoder's cloud.\<close>

lemma decode_encoded_cloud:
  assumes ok: "storage_ok m" and wf: "layout_wf (nS m) l" and ids: "ids_valid lib l"
    and cloud: "cloud = build_cloud (color_id_of lib l) (nP m) (encoded_points m l (color_id_of lib l))"
    and perm: "bij_betw perm {0..<nP m} {0..<nP m}"
    and pos: "attribute_permuted (nP m) perm qc (dc_position cloud) (Some pos')"
    and gen: "attribute_permuted (nP m) perm id (dc_generic cloud) (Some gen')"
    and col: "attribute_permuted (nP m) perm id (dc_color cloud) col'"
    and len: "length d1 = length (pc_data m)"
  shows "\<exists>marks d'. foldO (decode_typed (m\<lparr>pc_data := d1\<rparr>) l (nP m) pos' gen' col') [0..<nP m]
      (Some (replicate (nP m) False, d1)) = Some (Some (marks, d')) \<and> False \<notin> set marks \<and>
    length d' = length (pc_data m) \<and>
    (\<forall>p. \<not> is_encoded m l p \<longrightarrow> d' ! p = d1 ! p) \<and>
    (\<forall>i < nP m. map (nth d') (point_spots m l i) =
       point_values (pc_is_bigendian m) l (qc (fst (encoded_points m l (color_id_of lib l) ! i)))
         (snd (snd (encoded_points m l (color_id_of lib l) ! i))))"
proof -
  let ?r = "m\<lparr>pc_data := d1\<rparr>" and ?n = "nP m" and ?pts = "encoded_points m l (color_id_of lib l)"
  have cid: "0 \<le> color_id_of lib l \<longleftrightarrow> color_encoding l \<noteq> ColorNone"
    using ids by (auto simp: ids_valid_def color_id_of_def)
  note pts = encoded_points(2) [OF ok wf cid]
  have pk: "perm k < ?n" if "k < ?n" for k using bij_betw_apply [OF perm] that by fastforce
  have pos': "pos' k = qc (fst (?pts ! perm k))" if "k < ?n" for k
    using pos that by (simp add: cloud build_cloud_def attribute_permuted_def)
  have gen': "unat (gen' k) = perm k" if "k < ?n" for k
    using gen that pts [OF pk [OF that]] small_index(1) [OF ok pk [OF that]]
    by (simp add: cloud build_cloud_def attribute_permuted_def)
  have perm': "index_permutation ?n gen'"
    using perm gen' bij_betw_cong [of "{0..<?n}" "\<lambda>k. unat (gen' k)" perm "{0..<?n}"]
    by (simp add: index_permutation_def)
  have colmatch: "color_encoding l \<noteq> ColorNone \<longleftrightarrow> col' \<noteq> None"
    using col cid by (auto simp: cloud build_cloud_def attribute_permuted_def split: option.splits if_splits)
  have rok: "storage_ok ?r" using ok len by (simp add: storage_ok_data)
  let ?d = "point_put ?r l pos' gen' col'"
  have vals: "decoded_values ?r l pos' col' k =
      point_values (pc_is_bigendian m) l (qc (fst (?pts ! perm k))) (snd (snd (?pts ! perm k)))"
    if k: "k < ?n" for k
  proof (cases "color_encoding l = ColorNone")
    case True
    then show ?thesis using pos' [OF k] point_values_none [OF True] by (simp add: decoded_values_def)
  next
    case False
    then obtain c where c: "col' = Some c" using colmatch by auto
    then have "c k = snd (snd (?pts ! perm k))"
      using col k cid False by (simp add: cloud build_cloud_def attribute_permuted_def)
    then show ?thesis using pos' [OF k] c by (simp add: decoded_values_def)
  qed
  have pg: "map (nth ?d) (point_spots ?r l (unat (gen' k))) = decoded_values ?r l pos' col' k"
    if k: "k < ?n" for k
    unfolding point_put_def
  proof (rule put_points_spots [OF rok])
    show "distinct (map (\<lambda>k. unat (gen' k)) [0..<nP ?r])"
      using perm' by (simp add: index_permutation_iff)
    show "unat (gen' j) < nP ?r \<and>
        length (decoded_values ?r l pos' col' j) = length (point_spots ?r l (unat (gen' j)))"
      if "j \<in> set [0..<nP ?r]" for j
      using that gen' pk length_point_values [OF wf]
      by (simp add: decoded_values_def point_spots_def)
  qed (use wf k in simp_all)
  have spots: "map (nth ?d) (point_spots m l i) =
      point_values (pc_is_bigendian m) l (qc (fst (?pts ! i))) (snd (snd (?pts ! i)))"
    if i: "i < ?n" for i
  proof -
    have "i \<in> perm ` {0..<?n}" using perm i by (simp add: bij_betw_def)
    then obtain k where k: "k < ?n" "perm k = i" by auto
    then show ?thesis using pg [OF k(1)] gen' [OF k(1)] vals [OF k(1)] by simp
  qed
  have other: "?d ! p = d1 ! p" if "\<not> is_encoded m l p" for p
    using put_points_other [OF rok, of l "[0..<nP ?r]" "\<lambda>k. unat (gen' k)" p] wf that gen' pk
    by (simp add: point_put_def)
  show ?thesis
    using decode_typed_loop [OF rok, of l col' pos' gen'] wf colmatch perm' spots other len
    by (fastforce simp: point_put_def)
qed

lemma roundtrip_core:
  assumes faithful: "draco_faithful lib q" and enc: "Encode lib m (Some old) = Some (True, Some e)"
    and pos: "0 < nP m" and l: "parse_layout (pc_fields m) (pc_point_step m) = Some l"
  shows "\<exists>d'. Decode lib e (Some t) = Some (True, Some (m\<lparr>pc_data := d'\<rparr>)) \<and>
    length d' = length (pc_data m) \<and>
    (\<forall>p < length (pc_data m). \<not> is_encoded m l p \<longrightarrow> d' ! p = pc_data m ! p) \<and>
    (\<forall>i < nP m. map (nth d') (point_spots m l i) =
       point_values (pc_is_bigendian m) l
         (q (build_cloud (color_id_of lib l) (nP m) (encoded_points m l (color_id_of lib l)))
            (fst (encoded_points m l (color_id_of lib l) ! i)))
         (snd (snd (encoded_points m l (color_id_of lib l) ! i))))"
proof -
  let ?cid = "color_id_of lib l"
  let ?cloud = "build_cloud ?cid (nP m) (encoded_points m l ?cid)"
  have ok: "storage_ok m" and ids: "ids_valid lib l"
    using enc l pos by (auto simp: Encode_eq split: if_splits)
  obtain buf where buf: "draco_buffer lib m l = Some buf"
    and e: "e = (encoded_metadata m l)\<lparr>sidecar_bytes := sidecar_of m l, epc_payload := buf\<rparr>"
    using enc l pos ok ids by (auto simp: Encode_eq split: option.splits)
  note wf = parse_layout_wf [OF l]
  have encd: "draco_encode lib 5 5 14 ?cloud = Some buf"
    using buf faithful by (auto simp: draco_buffer_def draco_faithful_def bind_eq_Some_conv)
  have numc: "num_points ?cloud = nP m" by (simp add: build_cloud_def)
  obtain c' perm where ne: "buf \<noteq> []" and dec: "draco_decode lib buf = Some (Some c')"
    and kept: "cloud_kept (q ?cloud) ?cloud c' perm"
    using draco_faithfulD [OF faithful encd] by blast
  then have n: "dd_points c' = nP m" and perm: "bij_betw perm {0..<nP m} {0..<nP m}"
    and ap: "attribute_permuted (nP m) perm (q ?cloud) (dc_position ?cloud)
      (map_option position_view (dd_position c'))"
    and ag: "attribute_permuted (nP m) perm id (dc_generic ?cloud) (map_option index_view (dd_generic c'))"
    and ac: "attribute_permuted (nP m) perm id (dc_color ?cloud) (map_option color_view (dd_color c'))"
    and strides: "\<And>a. dd_position c' = Some a \<Longrightarrow> byte_stride a \<le> 12"
      "\<And>a. dd_generic c' = Some a \<Longrightarrow> byte_stride a \<le> 4" "color_fits (dd_color c')"
    unfolding cloud_kept_def attribute_kept_def numc by (auto simp: color_fits_def)
  obtain pa ga where pg: "dd_position c' = Some pa" "dd_generic c' = Some ga"
    using ap ag by (auto simp: attribute_permuted_def build_cloud_def split: option.splits)
  let ?pos' = "position_view pa" and ?gen' = "index_view ga" and ?col' = "map_option color_view (dd_color c')"
  have ap': "attribute_permuted (nP m) perm (q ?cloud) (dc_position ?cloud) (Some ?pos')"
    and ag': "attribute_permuted (nP m) perm id (dc_generic ?cloud) (Some ?gen')"
    using ap ag pg by simp_all
  have cid: "0 \<le> ?cid \<longleftrightarrow> color_encoding l \<noteq> ColorNone"
    using ids by (auto simp: ids_valid_def color_id_of_def)
  have colmatch: "color_encoding l \<noteq> ColorNone \<longleftrightarrow> dd_color c' \<noteq> None"
    using ac cid by (auto simp: build_cloud_def attribute_permuted_def split: option.splits if_splits)
  have dm: "decoded_metadata e = m\<lparr>pc_data := replicate (length (pc_data m)) 0\<rparr>"
    unfolding e by (rule decoded_metadata_encoded [OF ok])
  let ?d1 = "write_at (sidecar_positions m l) (sidecar_of m l) (replicate (length (pc_data m)) 0)"
  have rc: "restored_cloud e l = m\<lparr>pc_data := ?d1\<rparr>"
    by (simp add: restored_cloud_def Let_def dm) (simp add: e)
  have d1: "?d1 ! p = pc_data m ! p" if "p < length (pc_data m)" "\<not> is_encoded m l p" for p
    using restore_nth [OF ok, of "replicate (length (pc_data m)) 0" p l] that
    by (simp add: sidecar_of_def)
  obtain marks d' where loop: "foldO (decode_typed (m\<lparr>pc_data := ?d1\<rparr>) l (nP m) ?pos' ?gen' ?col')
      [0..<nP m] (Some (replicate (nP m) False, ?d1)) = Some (Some (marks, d'))" "False \<notin> set marks"
    and d': "length d' = length (pc_data m)" "\<forall>p. \<not> is_encoded m l p \<longrightarrow> d' ! p = ?d1 ! p"
      "\<forall>i < nP m. map (nth d') (point_spots m l i) =
       point_values (pc_is_bigendian m) l (q ?cloud (fst (encoded_points m l ?cid ! i)))
         (snd (snd (encoded_points m l ?cid ! i)))"
    using decode_encoded_cloud [OF ok wf ids refl perm ap' ag' ac, of ?d1]
    by auto
  have meta: "format_version e = kLayoutFormatVersion" "type_matches e l" "epc_payload e = buf"
    "sidecar_bytes e = sidecar_of m l"
    by (simp_all add: e encoded_metadata_def default_encoded_def type_matches_def)
  have "Decode lib e (Some t) = Some (True, Some (m\<lparr>pc_data := d'\<rparr>))"
    using pos l ok ne colmatch loop decode_points_fits [OF strides(2) [OF pg(2)] strides(1) [OF pg(1)] strides(3)]
    by (auto simp: Decode_eq Let_def dm rc meta dec n pg storage_ok_data sidecar_of_def)
  then show ?thesis using d' d1 by auto
qed

text \<open>The bytes that hold the position of point \<open>i\<close>.\<close>

definition position_spots :: "PointCloud2 \<Rightarrow> PointLayout \<Rightarrow> nat \<Rightarrow> nat list" where
  "position_spots m l i = spots [the (lay_x l), the (lay_y l), the (lay_z l)] (offs m i)"

lemma point_spots_split:
  "point_spots m l i = position_spots m l i @ spots (color_fields l) (offs m i)"
  by (simp add: point_spots_def position_spots_def encoded_fields_def)

lemma length_position_spots:
  "layout_wf n l \<Longrightarrow> length (position_spots m l i) = 12"
  by (auto simp: layout_wf_def position_spots_def elim!: field_sizedE)

lemma color_bytes_kept:
  assumes wf: "layout_wf n l"
    and a: "map (nth d) (point_spots m l i) = point_values b l pos c"
    and a': "map (nth d') (point_spots m l i) = point_values b l pos' c"
  shows "map (nth d') (spots (color_fields l) (offs m i)) = map (nth d) (spots (color_fields l) (offs m i))"
proof -
  have drop: "map (nth v) (spots (color_fields l) (offs m i)) = drop 12 (map (nth v) (point_spots m l i))"
    for v :: bytes
    using length_position_spots [OF wf, of m i] by (simp add: point_spots_split)
  have "drop 12 (point_values b l pos c) = drop 12 (point_values b l pos' c)"
    by (cases pos; cases pos') (simp add: point_values_def)
  then show ?thesis unfolding drop a a' by simp
qed

lemma encode_point_mine:
  assumes ok: "storage_ok m" and l: "parse_layout (pc_fields m) (pc_point_step m) = Some l"
    and i: "i < nP m" and cid: "cid \<ge> 0 \<longleftrightarrow> color_encoding l \<noteq> ColorNone"
  shows "point_xyz m l i = fst (encoded_points m l cid ! i)"
  using point_xyz_of_bytes [OF ok parse_layout_wf [OF l] i
      encoded_points(3) [OF ok parse_layout_wf [OF l] cid i, symmetric]]
  by (simp add: point_xyz_def)

lemma quantised_core:
  assumes faithful: "draco_faithful lib q" and enc: "Encode lib m (Some old) = Some (True, Some e)"
    and pos: "0 < nP m" and l: "parse_layout (pc_fields m) (pc_point_step m) = Some l"
  shows "\<exists>d' cloud. Decode lib e (Some t) = Some (True, Some (m\<lparr>pc_data := d'\<rparr>)) \<and>
    length d' = length (pc_data m) \<and>
    (\<forall>p < length (pc_data m). (\<forall>i < nP m. p \<notin> set (position_spots m l i)) \<longrightarrow> d' ! p = pc_data m ! p) \<and>
    (\<forall>i < nP m. point_xyz (m\<lparr>pc_data := d'\<rparr>) l i = q cloud (point_xyz m l i)) \<and>
    (\<forall>i < nP m. map (nth d') (point_spots m l i) = point_values (pc_is_bigendian m) l
       (q cloud (point_xyz m l i)) (snd (snd (encoded_points m l (color_id_of lib l) ! i))))"
proof -
  let ?cid = "color_id_of lib l"
  let ?cloud = "build_cloud ?cid (nP m) (encoded_points m l ?cid)"
  have ok: "storage_ok m" and ids: "ids_valid lib l"
    using enc l pos by (auto simp: Encode_eq split: if_splits)
  have cid: "0 \<le> ?cid \<longleftrightarrow> color_encoding l \<noteq> ColorNone"
    using ids by (auto simp: ids_valid_def color_id_of_def)
  note wf = parse_layout_wf [OF l] and mine = encode_point_mine [OF ok l _ cid]
  obtain d' where dec: "Decode lib e (Some t) = Some (True, Some (m\<lparr>pc_data := d'\<rparr>))"
    and len: "length d' = length (pc_data m)"
    and other: "\<forall>p < length (pc_data m). \<not> is_encoded m l p \<longrightarrow> d' ! p = pc_data m ! p"
    and vals: "\<And>i. i < nP m \<Longrightarrow> map (nth d') (point_spots m l i) =
       point_values (pc_is_bigendian m) l (q ?cloud (fst (encoded_points m l ?cid ! i)))
         (snd (snd (encoded_points m l ?cid ! i)))"
    using roundtrip_core [OF faithful enc pos l] by blast
  have xyz: "point_xyz (m\<lparr>pc_data := d'\<rparr>) l i = q ?cloud (point_xyz m l i)" if i: "i < nP m" for i
    using point_xyz_of_bytes [of "m\<lparr>pc_data := d'\<rparr>" l i] ok wf i len vals [OF i] mine [OF i]
    by (simp add: storage_ok_data point_xyz_def)
  have "d' ! p = pc_data m ! p"
    if p: "p < length (pc_data m)" and np: "\<forall>i < nP m. p \<notin> set (position_spots m l i)" for p
  proof (cases "is_encoded m l p")
    case True
    obtain i b where i: "i < nP m" "p \<in> set (point_spots m l i)"
      using encoded_in_point [OF ok p True] point_spotsI [OF wf] by metis
    then have "p \<in> set (spots (color_fields l) (offs m i))" using np by (auto simp: point_spots_split)
    then show ?thesis
      using color_bytes_kept [OF wf encoded_points(3) [OF ok wf cid i(1), symmetric] vals [OF i(1)]]
      by simp
  qed (use other p in blast)
  then show ?thesis using dec len xyz vals mine by (intro exI [of _ d'] exI [of _ ?cloud]) simp
qed

lemma parse_layout_total:
  assumes "Encode lib m (Some old) = Some (True, Some e)" "0 < nP m"
  obtains l where "parse_layout (pc_fields m) (pc_point_step m) = Some l"
  using assms by (auto simp: Encode_eq split: if_splits option.splits)

text \<open>A message without points travels in the side car.\<close>

lemma empty_core:
  assumes enc: "Encode lib m (Some old) = Some (True, Some e)" and empty: "nP m = 0"
  shows "Decode lib e (Some t) = Some (True, Some m)"
proof -
  have ok: "storage_ok m"
    and e: "e = (encoded_metadata m default_layout)\<lparr>sidecar_bytes := pc_data m\<rparr>"
    using enc empty by (auto simp: Encode_eq split: if_splits)
  then have dm: "decoded_metadata e = m\<lparr>pc_data := replicate (length (pc_data m)) 0\<rparr>"
    by (simp add: decoded_metadata_encoded)
  show ?thesis using empty ok
    by (simp add: Decode_eq Let_def dm storage_ok_data)
       (simp add: e encoded_metadata_def default_encoded_def)
qed

section \<open>Undefined behaviour of the decoder\<close>

lemma parse_layout_no_color:
  assumes "parse_layout flds step = Some l" and none: "color_encoding l = ColorNone"
  shows "lay_red l = None"
proof -
  have "color_encoding (parsed_base flds (unat step)) = ColorNone \<Longrightarrow>
      lay_red (parsed_base flds (unat step)) = None"
    by (auto simp: parsed_base_def choose_color_def Let_def default_layout_def)
  then show ?thesis
    using assms by (auto simp: parse_layout_def ParseLayout_eq split: if_splits)
qed

text \<open>Writing a colour without colour fields dereferences a null field pointer.\<close>

lemma write_point_null:
  assumes "color_encoding l = ColorNone" "lay_red l = None"
  shows "write_point r l pos (Some c) off d = None"
  using assms by (cases pos; cases c)
    (auto simp: write_point_def field_offset_def bind_eq_None_conv)

lemma decode_typed_null:
  assumes ok: "storage_ok r" and none: "color_encoding l = ColorNone" "lay_red l = None"
    and n: "0 < nP r"
  shows "foldO (decode_typed r l (nP r) pos gen (Some c)) [0..<nP r]
      (Some (replicate (nP r) False, d)) =
    (if unat (gen 0) < nP r then None else Some None)"
proof -
  obtain m where m: "[0..<nP r] = 0 # [1..<nP r]" using n by (simp add: upt_conv_Cons)
  show ?thesis
  proof (cases "unat (gen 0) < nP r")
    case True
    have "decode_typed r l (nP r) pos gen (Some c) 0 (Some (replicate (nP r) False, d)) = None"
      using True PointDataOffset_eq [OF ok True] write_point_null [OF none]
      by (simp add: decode_typed_def Let_def)
    then show ?thesis using True by (simp add: m)
  next
    case False
    then show ?thesis by (simp add: m decode_typed_def Let_def foldO_returned)
  qed
qed

text \<open>The attributes on which the loop is undefined, for \<open>n\<close> points: the first value to be copied
  does not fit its buffer, or a colour is to be written where the layout has no colour fields.\<close>

definition overrun ::
  "nat \<Rightarrow> PointLayout \<Rightarrow> DracoAttribute \<Rightarrow> DracoAttribute \<Rightarrow> DracoAttribute option \<Rightarrow> bool" where
  "overrun n l position point_index color \<longleftrightarrow>
     4 < byte_stride point_index \<or>
     (unat (index_view point_index 0) < n \<and>
        (12 < byte_stride position \<or>
         (\<exists>c. color = Some c \<and> (4 < byte_stride c \<or> color_encoding l = ColorNone))))"

lemma decode_points_None:
  assumes ok: "storage_ok r" and wf: "layout_wf (nS r) l" and n: "0 < nP r"
    and none: "color_encoding l = ColorNone \<Longrightarrow> lay_red l = None"
    and col: "color_encoding l \<noteq> ColorNone \<Longrightarrow> col \<noteq> None"
  shows "decode_points r l (nP r) pos gen col (nP r) (pc_data r) = None \<longleftrightarrow> overrun (nP r) l pos gen col"
proof (cases "byte_stride gen \<le> 4 \<and> byte_stride pos \<le> 12 \<and> color_fits col")
  case True
  then have fits: "byte_stride gen \<le> 4" "byte_stride pos \<le> 12" "color_fits col" by simp_all
  show ?thesis
  proof (cases "color_encoding l = ColorNone \<and> col \<noteq> None")
    case nc: True
    then obtain c where c: "col = Some c" by auto
    show ?thesis
      using decode_typed_null [OF ok _ none n, of "position_view pos" "index_view gen" "color_view c"
          "pc_data r"] nc fits
      by (simp add: decode_points_fits [OF fits, unfolded c] c overrun_def color_fits_def)
  next
    case False
    then have match: "color_encoding l \<noteq> ColorNone \<longleftrightarrow> map_option color_view col \<noteq> None" using col by auto
    have "decode_points r l (nP r) pos gen col (nP r) (pc_data r) \<noteq> None"
      using decode_typed_loop [OF ok wf match, of "position_view pos" "index_view gen"]
      by (auto simp: decode_points_fits [OF fits])
    then show ?thesis using fits False by (auto simp: overrun_def color_fits_def)
  qed
next
  case False
  show ?thesis
    using False unfolding decode_points_overrun [OF n n False]
    by (auto simp: overrun_def color_fits_def)
qed

text \<open>The inputs on which \<^verbatim>\<open>Decode\<close> enters the point loop.\<close>

definition reaches_points ::
  "DracoLib \<Rightarrow> EncodedPointCloud \<Rightarrow> PointLayout \<Rightarrow> DecodedCloud \<Rightarrow> DracoAttribute \<Rightarrow> DracoAttribute \<Rightarrow> bool" where
  "reaches_points lib e l cloud position point_index \<longleftrightarrow>
     format_version e = 2 \<and> storage_ok (decoded_metadata e) \<and> 0 < nP (decoded_metadata e) \<and>
     parse_layout (original_fields e) (original_point_step e) = Some l \<and>
     point_type e = (if color_encoding l = ColorNone then ''xyz'' else ''xyzrgb'') \<and>
     length (sidecar_bytes e) = length (sidecar_positions (decoded_metadata e) l) \<and>
     epc_payload e \<noteq> [] \<and> draco_decode lib (epc_payload e) = Some (Some cloud) \<and>
     dd_points cloud = nP (decoded_metadata e) \<and> dd_position cloud = Some position \<and>
     dd_generic cloud = Some point_index \<and>
     (color_encoding l = ColorNone \<or> dd_color cloud \<noteq> None)"

lemma type_matches_names:
  "type_matches e l \<longleftrightarrow> point_type e = (if color_encoding l = ColorNone then ''xyz'' else ''xyzrgb'')"
  by (simp add: type_matches_def kPointTypeXyz_def kPointTypeXyzRgb_def)

lemma restored_geometry:
  assumes "storage_ok (decoded_metadata e)"
  shows "storage_ok (restored_cloud e l)" "nP (restored_cloud e l) = nP (decoded_metadata e)"
    "nS (restored_cloud e l) = nS (decoded_metadata e)"
  using assms by (simp_all add: restored_cloud_def Let_def storage_ok_data)

lemma decoded_metadata_fields [simp]:
  "pc_fields (decoded_metadata e) = original_fields e"
  "pc_point_step (decoded_metadata e) = original_point_step e"
  by (simp_all add: decoded_metadata_def)

lemma Decode_reaches:
  assumes "reaches_points lib e l cloud pos gen"
  shows "Decode lib e (Some t) =
    Option.bind (decode_points (restored_cloud e l) l (nP (decoded_metadata e)) pos gen (dd_color cloud)
        (nP (decoded_metadata e)) (pc_data (restored_cloud e l)))
      (\<lambda>st. case st of
         None \<Rightarrow> Some (False, Some t)
       | Some (restored, data) \<Rightarrow>
           if False \<in> set restored then Some (False, Some t)
           else Some (True, Some ((restored_cloud e l)\<lparr>pc_data := data\<rparr>)))"
  using assms unfolding reaches_points_def type_matches_names [symmetric]
  by (auto simp: Decode_eq Let_def kLayoutFormatVersion_def cong: option.case_cong)

lemma Decode_stops:
  assumes "0 < nP (decoded_metadata e)" and "\<nexists>l cloud pos gen. reaches_points lib e l cloud pos gen"
  shows "Decode lib e (Some t) = Some (False, Some t)"
  using assms unfolding reaches_points_def type_matches_names [symmetric]
  by (auto simp: Decode_eq Let_def kLayoutFormatVersion_def split: option.split)

lemma reaches_layout:
  assumes "reaches_points lib e l cloud pos gen"
  shows "storage_ok (restored_cloud e l)" "nP (restored_cloud e l) = nP (decoded_metadata e)"
    "layout_wf (nS (restored_cloud e l)) l" "color_encoding l = ColorNone \<Longrightarrow> lay_red l = None"
    "color_encoding l \<noteq> ColorNone \<Longrightarrow> dd_color cloud \<noteq> None" "0 < nP (restored_cloud e l)"
proof -
  have ok: "storage_ok (decoded_metadata e)" and pos: "0 < nP (decoded_metadata e)"
    and l: "parse_layout (original_fields e) (original_point_step e) = Some l"
    and col: "color_encoding l = ColorNone \<or> dd_color cloud \<noteq> None"
    using assms by (simp_all add: reaches_points_def)
  note geo = restored_geometry [OF ok, of l]
  show "storage_ok (restored_cloud e l)" "nP (restored_cloud e l) = nP (decoded_metadata e)" by (fact geo)+
  show "layout_wf (nS (restored_cloud e l)) l" using parse_layout_wf [OF l] by (simp add: geo)
  show "color_encoding l = ColorNone \<Longrightarrow> lay_red l = None" by (rule parse_layout_no_color [OF l])
  show "color_encoding l \<noteq> ColorNone \<Longrightarrow> dd_color cloud \<noteq> None" using col by blast
  show "0 < nP (restored_cloud e l)" using pos by (simp add: geo)
qed

lemma reaches_None:
  assumes "reaches_points lib e l cloud pos gen"
  shows "Decode lib e (Some t) = None \<longleftrightarrow> overrun (nP (decoded_metadata e)) l pos gen (dd_color cloud)"
proof -
  note geo = reaches_layout [OF assms]
  show ?thesis
    using decode_points_None [OF geo(1,3,6,4,5), of pos gen]
    by (auto simp: Decode_reaches [OF assms] geo(2) bind_eq_None_conv split: option.splits if_splits)
qed

lemma Decode_None_iff:
  "Decode lib e (Some t) = None \<longleftrightarrow>
     (\<exists>l cloud position point_index. reaches_points lib e l cloud position point_index \<and>
        overrun (nP (decoded_metadata e)) l position point_index (dd_color cloud))"
proof (cases "\<exists>l cloud pos gen. reaches_points lib e l cloud pos gen")
  case True
  then show ?thesis
    using reaches_None [of lib e _ _ _ _ t] unfolding reaches_points_def
    by (metis (no_types, lifting) option.inject)
next
  case False
  then have "Decode lib e (Some t) \<noteq> None"
    using Decode_stops [of e lib t] by (cases "0 < nP (decoded_metadata e)") (auto simp: Decode_eq Let_def)
  then show ?thesis using False by blast
qed

lemma Decode_success:
  assumes dec: "Decode lib e (Some t) = Some (True, Some m)" and pos: "0 < nP m"
  shows "storage_ok m \<and> (\<exists>cloud gen. draco_decode lib (epc_payload e) = Some (Some cloud) \<and>
    dd_points cloud = nP m \<and> dd_generic cloud = Some gen \<and> index_permutation (nP m) (index_view gen))"
proof -
  let ?dm = "decoded_metadata e"
  have ok: "storage_ok ?dm" using dec by (auto simp: Decode_eq Let_def split: if_splits)
  show ?thesis
  proof (cases "nP ?dm = 0")
    case True
    then show ?thesis using dec pos ok by (auto simp: Decode_eq Let_def split: if_splits)
  next
    case False
    then obtain l cloud p gen where r: "reaches_points lib e l cloud p gen"
      using Decode_stops [of e lib t] dec by force
    note geo = reaches_layout [OF r]
    let ?r = "restored_cloud e l"
    obtain marks data where st: "decode_points ?r l (nP ?r) p gen (dd_color cloud) (nP ?r) (pc_data ?r) =
        Some (Some (marks, data))" and m: "m = ?r\<lparr>pc_data := data\<rparr>"
      using dec by (auto simp: Decode_reaches [OF r] geo(2) bind_eq_Some_conv split: option.splits if_splits)
    have fits: "byte_stride gen \<le> 4 \<and> byte_stride p \<le> 12 \<and> color_fits (dd_color cloud)"
    proof (rule ccontr)
      assume "\<not> ?thesis"
      from decode_points_overrun [OF geo(6,6) this, of ?r l "pc_data ?r"] st
      show False by (simp split: if_splits)
    qed
    then have f: "byte_stride gen \<le> 4" "byte_stride p \<le> 12" "color_fits (dd_color cloud)" by simp_all
    have "\<not> (color_encoding l = ColorNone \<and> dd_color cloud \<noteq> None)"
    proof
      assume "color_encoding l = ColorNone \<and> dd_color cloud \<noteq> None"
      then obtain c where none: "color_encoding l = ColorNone" and c: "dd_color cloud = Some c" by auto
      show False
        using st decode_typed_null [OF geo(1) none geo(4) [OF none] geo(6), of "position_view p"
            "index_view gen" "color_view c" "pc_data ?r"]
        by (simp add: decode_points_fits [OF f, unfolded c] c split: if_splits)
    qed
    then have match: "color_encoding l \<noteq> ColorNone \<longleftrightarrow> map_option color_view (dd_color cloud) \<noteq> None"
      using geo(5) by auto
    have perm: "index_permutation (nP ?r) (index_view gen)"
      and data: "data = point_put ?r l (position_view p) (index_view gen) (map_option color_view (dd_color cloud))"
      using st decode_typed_loop [OF geo(1,3) match, of "position_view p" "index_view gen"]
      by (auto simp: decode_points_fits [OF f] split: if_splits)
    have "length data = length (pc_data ?r)" by (simp add: data point_put_def)
    then show ?thesis using m r perm geo by (auto simp: storage_ok_data reaches_points_def)
  qed
qed

end
