(* ===== verification/Cloud_Properties.thy ===== *)
theory Cloud_Properties
  imports Draco_Codec
begin

text \<open>
  What the point cloud codec guarantees: the layout analysis, the side car, the round trip of
  \<^verbatim>\<open>Encode\<close> and \<^verbatim>\<open>Decode\<close> (exact outside the position bytes, which the library quantises), the
  memory safety of both, and the inputs on which \<^verbatim>\<open>Decode\<close> is undefined: a payload with an
  attribute larger than the buffer its values are copied into, or with a colour attribute for a
  message without colour fields.
  The concrete cloud and the one-point library at the start are the witnesses' inputs.
\<close>

section \<open>A concrete cloud\<close>

definition sample_fields :: "PointField list" where
  "sample_fields =
     [\<lparr>pf_name = ''x'', pf_offset = 0, pf_datatype = 7, pf_count = 1\<rparr>,
      \<lparr>pf_name = ''y'', pf_offset = 4, pf_datatype = 7, pf_count = 1\<rparr>,
      \<lparr>pf_name = ''z'', pf_offset = 8, pf_datatype = 7, pf_count = 1\<rparr>,
      \<lparr>pf_name = ''ring'', pf_offset = 12, pf_datatype = 4, pf_count = 1\<rparr>]"

definition sample_cloud :: PointCloud2 where
  "sample_cloud =
     \<lparr>pc_header = \<lparr>hdr_seq = 3, hdr_stamp = 9, hdr_frame_id = ''map''\<rparr>, pc_height = 1,
      pc_width = 1, pc_fields = sample_fields, pc_is_bigendian = False, pc_point_step = 14,
      pc_row_step = 15,
      pc_data = [1, 2, 3, 4, 5, 6, 7, 8, 9, 10, 11, 12, 13, 14, 15], pc_is_dense = True\<rparr>"

definition sample_layout :: PointLayout where
  "sample_layout =
     default_layout
       \<lparr>lay_x := Some (0, \<lparr>pf_name = ''x'', pf_offset = 0, pf_datatype = 7, pf_count = 1\<rparr>),
        lay_y := Some (1, \<lparr>pf_name = ''y'', pf_offset = 4, pf_datatype = 7, pf_count = 1\<rparr>),
        lay_z := Some (2, \<lparr>pf_name = ''z'', pf_offset = 8, pf_datatype = 7, pf_count = 1\<rparr>),
        encoded_byte_mask := [True, True, True, True, True, True, True, True, True, True, True, True,
          False, False]\<rparr>"

lemma FindField_sample:
  "FindField sample_fields ''x'' = lay_x sample_layout"
  "FindField sample_fields ''y'' = lay_y sample_layout"
  "FindField sample_fields ''z'' = lay_z sample_layout"
  "FindField sample_fields ''rgb'' = None" "FindField sample_fields ''rgba'' = None"
  "FindField sample_fields ''r'' = None" "FindField sample_fields ''g'' = None"
  "FindField sample_fields ''b'' = None" "FindField sample_fields ''a'' = None"
  by (simp_all add: FindField_def sample_fields_def sample_layout_def)

lemmas layout_eval = FieldFits_def field_end_def DatatypeSize_def SpansOverlap_def Let_def

lemma parsed_base_sample:
  "parsed_base sample_fields 14 = sample_layout\<lparr>encoded_byte_mask := []\<rparr>"
  by (simp add: parsed_base_def FindField_sample choose_color_def sample_layout_def default_layout_def)

lemma encoded_fields_sample:
  "encoded_fields sample_layout =
     [(0, \<lparr>pf_name = ''x'', pf_offset = 0, pf_datatype = 7, pf_count = 1\<rparr>),
      (1, \<lparr>pf_name = ''y'', pf_offset = 4, pf_datatype = 7, pf_count = 1\<rparr>),
      (2, \<lparr>pf_name = ''z'', pf_offset = 8, pf_datatype = 7, pf_count = 1\<rparr>)]"
  by (simp add: encoded_fields_def color_fields_def sample_layout_def default_layout_def)

lemma sample_mask:
  "map (\<lambda>b. \<exists>f \<in> set (encoded_fields sample_layout). b \<in> field_span (snd f)) [0..<14] =
    encoded_byte_mask sample_layout"
  unfolding encoded_fields_sample
  by (simp add: field_span_def field_end_def DatatypeSize_def sample_layout_def upt_rec)

lemma layout_accepted_sample: "layout_accepted sample_fields 14"
  unfolding layout_accepted_def parsed_base_sample mask_update_keeps encoded_fields_sample FindField_sample
  by (simp add: sample_fields_def sample_layout_def positions_ok_def clobbered_def layout_eval)

lemma ParseLayout_sample:
  "ParseLayout sample_fields 14 (Some default_layout) = (True, Some sample_layout)"
  by (simp add: ParseLayout_eq layout_accepted_sample parsed_base_sample sample_mask)

lemma parse_layout_sample: "parse_layout sample_fields 14 = Some sample_layout"
  by (simp add: parse_layout_def ParseLayout_sample)

lemma sample_data:
  "pc_data sample_cloud = [1, 2, 3, 4, 5, 6, 7, 8, 9, 10, 11, 12, 13, 14, 15]"
  "pc_is_bigendian sample_cloud = False"
  by (simp_all add: sample_cloud_def)

lemma length_sample_data: "length (pc_data sample_cloud) = 15"
  by (simp add: sample_data)

lemma storage_sample: "storage_ok sample_cloud" and nP_sample: "nP sample_cloud = 1"
  by (simp_all add: storage_ok_def nP_def sample_cloud_def)

section \<open>A library that keeps one-point clouds\<close>

definition one_point_draco :: DracoLib where
  "one_point_draco =
     \<lparr>draco_position_id = 0, draco_generic_id = 1, draco_color_id = 2, draco_finalize = Some,
      draco_encode = (\<lambda>_ _ _ c.
        case (dc_position c, dc_generic c, dc_color c) of
          (Some f, Some g, None) \<Rightarrow>
            (case f 0 of (px, py, pz) \<Rightarrow>
               if num_points c = 1 \<and> g 0 = 0
               then Some (word_bytes False px @ word_bytes False py @ word_bytes False pz) else None)
        | _ \<Rightarrow> None),
      draco_decode = (\<lambda>buf. Some (Some
        \<lparr>dd_points = 1, dd_position = Some \<lparr>byte_stride = 12, value_byte = (\<lambda>_ b. buf ! b)\<rparr>,
         dd_generic = Some \<lparr>byte_stride = 4, value_byte = (\<lambda>_ _. 0)\<rparr>, dd_color = None\<rparr>))\<rparr>"

lemma ReadUint32_at:
  "ReadUint32 (pre @ word_bytes b w @ post) (length pre) b = Some w"
proof (rule ReadUint32_of_bytes)
  show "map (nth (pre @ word_bytes b w @ post)) [length pre..<length pre + 4] = word_bytes b w"
    by (rule nth_equalityI) (simp_all add: nth_append)
qed simp

lemma one_point_words:
  "xyz_of_buffer (word_bytes False a @ word_bytes False b @ word_bytes False c) = (a, b, c)"
  using ReadUint32_at [of "[]" False a "word_bytes False b @ word_bytes False c"]
    ReadUint32_at [of "word_bytes False a" False b "word_bytes False c"]
    ReadUint32_at [of "word_bytes False a @ word_bytes False b" False c "[]"]
  by (simp add: xyz_of_buffer_def host_word_def)

lemma zero_index: "index_view \<lparr>byte_stride = 4, value_byte = (\<lambda>_ _. 0)\<rparr> k = 0"
  by (simp add: index_view_def padded_value_def host_word_def ReadUint32_def map_replicate_const)

lemma one_point_faithful: "draco_faithful one_point_draco (\<lambda>_ p. p)"
proof -
  have "buf \<noteq> [] \<and> (\<exists>cloud' perm. draco_decode one_point_draco buf = Some (Some cloud') \<and>
       cloud_kept (\<lambda>p. p) cloud cloud' perm)"
    if enc: "draco_encode one_point_draco 5 5 14 cloud = Some buf" for cloud buf
  proof -
    obtain f g px py pz where c: "dc_position cloud = Some f" "dc_generic cloud = Some g"
      "dc_color cloud = None" "f 0 = (px, py, pz)" "num_points cloud = 1" "g 0 = 0"
      "buf = word_bytes False px @ word_bytes False py @ word_bytes False pz"
      using enc by (auto simp: one_point_draco_def split: option.splits prod.splits if_splits)
    have ne: "buf \<noteq> []" using c(7) by (simp add: word_bytes_def)
    have len: "length buf = 12" by (simp add: c(7))
    have pos: "position_view \<lparr>byte_stride = 12, value_byte = (\<lambda>_ b. buf ! b)\<rparr> k = (px, py, pz)" for k
    proof -
      have "map (\<lambda>b. buf ! b) [0..<12] = buf" using map_nth [of buf] len by simp
      then show ?thesis using one_point_words [of px py pz]
        by (simp add: position_view_def padded_value_def c(7))
    qed
    show ?thesis
    proof (intro conjI exI)
      show "draco_decode one_point_draco buf = Some (Some
        \<lparr>dd_points = 1, dd_position = Some \<lparr>byte_stride = 12, value_byte = (\<lambda>_ b. buf ! b)\<rparr>,
         dd_generic = Some \<lparr>byte_stride = 4, value_byte = (\<lambda>_ _. 0)\<rparr>, dd_color = None\<rparr>)"
        by (simp add: one_point_draco_def)
      show "cloud_kept (\<lambda>p. p) cloud
        \<lparr>dd_points = 1, dd_position = Some \<lparr>byte_stride = 12, value_byte = (\<lambda>_ b. buf ! b)\<rparr>,
         dd_generic = Some \<lparr>byte_stride = 4, value_byte = (\<lambda>_ _. 0)\<rparr>, dd_color = None\<rparr> id"
        using c(1-6) by (simp add: cloud_kept_def attribute_kept_def attribute_permuted_def pos zero_index)
    qed (rule ne)
  qed
  then show ?thesis unfolding draco_faithful_def by (simp add: one_point_draco_def)
qed

definition sample_encoded :: EncodedPointCloud where
  "sample_encoded =
     (encoded_metadata sample_cloud sample_layout)
       \<lparr>sidecar_bytes := [13, 14, 15], epc_payload := [1, 2, 3, 4, 5, 6, 7, 8, 9, 10, 11, 12]\<rparr>"

lemma sample_positions: "sidecar_positions sample_cloud sample_layout = [12, 13, 14]"
proof -
  have "[0..<15] = [0, 1, 2, 3, 4, 5, 6, 7, 8, 9, 10, 11, 12, 13, 14::nat]" by (simp add: upt_rec)
  then show ?thesis
    unfolding sidecar_positions_filter [OF storage_sample]
    by (simp add: is_encoded_def sample_cloud_def sample_layout_def)
qed

lemma Encode_sample:
  "Encode one_point_draco sample_cloud (Some default_encoded) = Some (True, Some sample_encoded)"
proof -
  have cid: "color_encoding sample_layout = ColorNone"
    by (simp add: sample_layout_def default_layout_def)
  have pl: "parse_layout (pc_fields sample_cloud) (pc_point_step sample_cloud) = Some sample_layout"
    using parse_layout_sample by (simp add: sample_cloud_def)
  have wf: "layout_wf (nS sample_cloud) sample_layout" using parse_layout_wf [OF pl] .
  have id: "color_id_of one_point_draco sample_layout = -1" by (simp add: color_id_of_def cid)
  let ?p = "encoded_points sample_cloud sample_layout (-1) ! 0"
  obtain px py pz where p: "fst ?p = (px, py, pz)" by (cases "fst ?p")
  have g: "fst (snd ?p) = 0" using encoded_points(2) [OF storage_sample wf, of "-1" 0] nP_sample cid by simp
  have off: "offs sample_cloud 0 = 0" by (simp add: offs_def)
  have "point_values False sample_layout (fst ?p) (snd (snd ?p)) =
      map (nth (pc_data sample_cloud)) (point_spots sample_cloud sample_layout 0)"
    using encoded_points(3) [OF storage_sample wf, of "-1" 0] nP_sample cid
    by (simp add: sample_data)
  also have "point_spots sample_cloud sample_layout 0 = [0, 1, 2, 3, 4, 5, 6, 7, 8, 9, 10, 11]"
    by (simp add: point_spots_def encoded_fields_sample off field_end_def DatatypeSize_def upt_rec)
  finally have vals: "word_bytes False px @ word_bytes False py @ word_bytes False pz =
      [1, 2, 3, 4, 5, 6, 7, 8, 9, 10, 11, 12]"
    by (simp add: point_values_def p color_values_none [OF cid] sample_data)
  have "draco_buffer one_point_draco sample_cloud sample_layout =
      Some [1, 2, 3, 4, 5, 6, 7, 8, 9, 10, 11, 12]"
    unfolding draco_buffer_def id
    using p g vals by (simp add: build_cloud_def one_point_draco_def nP_sample)
  moreover have "ids_valid one_point_draco sample_layout"
    by (simp add: ids_valid_def cid one_point_draco_def)
  moreover have "sidecar_of sample_cloud sample_layout = [13, 14, 15]"
    by (simp add: sidecar_of_def sample_positions sample_data)
  ultimately show ?thesis
    by (simp add: Encode_eq storage_sample nP_sample pl sample_encoded_def)
qed

section \<open>Properties\<close>

text \<open>C13: a layout the analysis accepts is well formed: \<open>x\<close>, \<open>y\<close>, \<open>z\<close> are four-byte fields, the
  colour fields its encoding names are present with their sizes, every encoded field lies inside
  the point, no two share a byte, and the mask has one flag per byte of the point, set exactly on
  the bytes of the encoded fields.\<close>

theorem layout_analysis_wf:
  assumes "ParseLayout flds step (Some old) = (True, Some l)"
  shows "layout_wf (unat step) l"
  using assms by (rule ParseLayout_wf)

theorem layout_analysis_wf_witness: "layout_wf 14 sample_layout"
  using layout_analysis_wf [OF ParseLayout_sample] by simp

text \<open>the side car of a message, restored into any data of the same size, puts back exactly
  the bytes that the Draco payload does not carry and leaves the others alone; both loops stay
  inside their buffers.\<close>

theorem sidecar_roundtrip:
  assumes ok: "storage_ok m" and wf: "layout_wf (nS m) l" and len: "length d0 = length (pc_data m)"
  shows "\<exists>sc d'. ExtractSidecar m l (Some old) = Some (True, Some sc) \<and>
    RestoreSidecar sc l (Some (m\<lparr>pc_data := d0\<rparr>)) = Some (True, Some (m\<lparr>pc_data := d'\<rparr>)) \<and>
    length d' = length (pc_data m) \<and>
    (\<forall>p < length (pc_data m). d' ! p = (if is_encoded m l p then d0 ! p else pc_data m ! p))"
proof -
  have msk: "length (encoded_byte_mask l) = nS m" using layout_wf_mask(1) [OF wf] .
  have ok0: "storage_ok (m\<lparr>pc_data := d0\<rparr>)" using ok len by (simp add: storage_ok_data)
  show ?thesis
  proof (intro exI conjI)
    show "RestoreSidecar (map (nth (pc_data m)) (sidecar_positions m l)) l (Some (m\<lparr>pc_data := d0\<rparr>)) =
      Some (True, Some (m\<lparr>pc_data :=
        write_at (sidecar_positions m l) (map (nth (pc_data m)) (sidecar_positions m l)) d0\<rparr>))"
      using RestoreSidecar_ok [OF ok0, of l] msk by simp
  qed (simp_all add: len restore_nth [OF ok len] ExtractSidecar_ok [OF ok msk])
qed

theorem sidecar_roundtrip_witness:
  "\<exists>sc d'. ExtractSidecar sample_cloud sample_layout (Some []) = Some (True, Some sc) \<and>
    RestoreSidecar sc sample_layout (Some (sample_cloud\<lparr>pc_data := replicate 15 0\<rparr>)) =
      Some (True, Some (sample_cloud\<lparr>pc_data := d'\<rparr>)) \<and> d' ! 12 = 13 \<and> d' ! 0 = 0"
proof -
  have wf: "layout_wf (nS sample_cloud) sample_layout"
    using parse_layout_wf [OF parse_layout_sample] by (simp add: sample_cloud_def)
  have len: "length (replicate 15 0 :: bytes) = length (pc_data sample_cloud)"
    by (simp add: sample_data)
  have enc: "\<not> is_encoded sample_cloud sample_layout 12" "is_encoded sample_cloud sample_layout 0"
    by (simp_all add: is_encoded_def sample_cloud_def sample_layout_def)
  from sidecar_roundtrip [OF storage_sample wf len, of "[]"]
  obtain sc d' where "ExtractSidecar sample_cloud sample_layout (Some []) = Some (True, Some sc)"
    "RestoreSidecar sc sample_layout (Some (sample_cloud\<lparr>pc_data := replicate 15 0\<rparr>)) =
      Some (True, Some (sample_cloud\<lparr>pc_data := d'\<rparr>))"
    and d': "\<forall>p < 15. d' ! p = (if is_encoded sample_cloud sample_layout p
        then replicate 15 0 ! p else pc_data sample_cloud ! p)"
    by (auto simp: sample_data)
  moreover have "d' ! 12 = 13" using d' [rule_format, of 12] enc(1) by (simp add: sample_data)
  moreover have "d' ! 0 = 0" using d' [rule_format, of 0] enc(2) by simp
  ultimately show ?thesis by blast
qed

text \<open>C2: with positions changed by the library's quantisation \<open>q\<close>, decoding an
  encoded message gives the same message but for the position bytes of its points: every other
  byte (colours, unencoded fields, padding) and all metadata are the original ones, and the
  position of each point, read as the encoder reads it, is the quantised original one.\<close>

theorem codec_quantised:
  assumes "draco_faithful lib q" and "Encode lib m (Some old) = Some (True, Some e)"
    and "0 < nP m" and "parse_layout (pc_fields m) (pc_point_step m) = Some l"
  shows "\<exists>d' cloud. Decode lib e (Some t) = Some (True, Some (m\<lparr>pc_data := d'\<rparr>)) \<and>
    length d' = length (pc_data m) \<and>
    (\<forall>p < length (pc_data m). (\<forall>i < nP m. p \<notin> set (position_spots m l i)) \<longrightarrow> d' ! p = pc_data m ! p) \<and>
    (\<forall>i < nP m. point_xyz (m\<lparr>pc_data := d'\<rparr>) l i = q cloud (point_xyz m l i))"
  using quantised_core [OF assms, of t] by blast

theorem codec_quantised_witness:
  "\<exists>d'. Decode one_point_draco sample_encoded (Some sample_cloud) =
      Some (True, Some (sample_cloud\<lparr>pc_data := d'\<rparr>)) \<and> length d' = 15 \<and>
    point_xyz (sample_cloud\<lparr>pc_data := d'\<rparr>) sample_layout 0 = point_xyz sample_cloud sample_layout 0"
proof -
  have "parse_layout (pc_fields sample_cloud) (pc_point_step sample_cloud) = Some sample_layout"
    using parse_layout_sample by (simp add: sample_cloud_def)
  from codec_quantised [OF one_point_faithful Encode_sample _ this, of sample_cloud]
  show ?thesis by (auto simp: nP_sample sample_data)
qed

text \<open>C5: \<open>Encode\<close> never indexes outside its buffers, dereferences a null field or divides by
  zero, on any message; it fails without touching the output, or succeeds, and then the storage
  of the message is consistent and its layout (when it has points) is accepted.\<close>

theorem encode_safe:
  "\<exists>ok out'. Encode lib m out = Some (ok, out') \<and>
    (if ok then storage_ok m \<and> (nP m = 0 \<or> layout_accepted (pc_fields m) (nS m))
     else out' = out)"
proof (cases out)
  case None
  then show ?thesis by (intro exI [of _ False] exI [of _ None]) (simp add: Encode_def)
next
  case (Some old)
  have "parse_layout (pc_fields m) (pc_point_step m) = Some l \<Longrightarrow>
      layout_accepted (pc_fields m) (nS m)" for l
    by (auto simp: parse_layout_def ParseLayout_eq split: if_splits)
  then show ?thesis using Some by (auto simp: Encode_eq split: option.split)
qed

text \<open>C7: \<open>Decode\<close> on a received cloud is undefined exactly when every check before the point loop
  passes and either the values of the point index attribute are larger than four bytes, or the first
  index is in range and the position values are larger than twelve bytes, the colour values are
  larger than four, or there are colour values while the layout has no colour.  In the first three
  cases the library copies a value beyond a local buffer, in the last the loop writes through null
  field pointers; all four are under the control of the peer that made the payload.\<close>

theorem decode_undefined_iff:
  "Decode lib e (Some t) = None \<longleftrightarrow>
     (\<exists>l cloud position point_index. reaches_points lib e l cloud position point_index \<and>
        (4 < byte_stride point_index \<or>
         (unat (index_view point_index 0) < nP (decoded_metadata e) \<and>
            (12 < byte_stride position \<or>
             (\<exists>c. dd_color cloud = Some c \<and> (4 < byte_stride c \<or> color_encoding l = ColorNone))))))"
  unfolding Decode_None_iff overrun_def by (rule refl)

text \<open>such inputs exist: the sample cloud, whose layout has no colour, with a payload the library
  decodes to a one-point cloud that has positions of three doubles, or that has a colour attribute.\<close>

definition hostile_cloud :: "nat \<Rightarrow> DracoAttribute option \<Rightarrow> DecodedCloud" where
  "hostile_cloud stride color =
     \<lparr>dd_points = 1, dd_position = Some \<lparr>byte_stride = stride, value_byte = (\<lambda>_ _. 65)\<rparr>,
      dd_generic = Some \<lparr>byte_stride = 4, value_byte = (\<lambda>_ _. 0)\<rparr>, dd_color = color\<rparr>"

lemma sample_reaches:
  "reaches_points (one_point_draco\<lparr>draco_decode := (\<lambda>_. Some (Some (hostile_cloud stride color)))\<rparr>)
     sample_encoded sample_layout (hostile_cloud stride color)
     \<lparr>byte_stride = stride, value_byte = (\<lambda>_ _. 65)\<rparr> \<lparr>byte_stride = 4, value_byte = (\<lambda>_ _. 0)\<rparr>"
  and sample_decoded_points: "nP (decoded_metadata sample_encoded) = 1"
proof -
  have dm: "decoded_metadata sample_encoded = sample_cloud\<lparr>pc_data := replicate 15 0\<rparr>"
    using decoded_metadata_encoded(1) [OF storage_sample]
    by (simp add: sample_encoded_def length_sample_data)
  have meta: "format_version sample_encoded = 2" "point_type sample_encoded = ''xyz''"
    "original_fields sample_encoded = sample_fields" "original_point_step sample_encoded = 14"
    "length (sidecar_bytes sample_encoded) = 3" "epc_payload sample_encoded \<noteq> []"
    "color_encoding sample_layout = ColorNone"
    by (simp_all add: sample_encoded_def encoded_metadata_def default_encoded_def
        kLayoutFormatVersion_def kPointTypeXyz_def sample_layout_def default_layout_def sample_cloud_def)
  show "nP (decoded_metadata sample_encoded) = 1" by (simp add: dm nP_sample)
  then show "reaches_points (one_point_draco\<lparr>draco_decode := (\<lambda>_. Some (Some (hostile_cloud stride color)))\<rparr>)
     sample_encoded sample_layout (hostile_cloud stride color)
     \<lparr>byte_stride = stride, value_byte = (\<lambda>_ _. 65)\<rparr> \<lparr>byte_stride = 4, value_byte = (\<lambda>_ _. 0)\<rparr>"
    by (simp add: reaches_points_def dm meta parse_layout_sample storage_ok_data storage_sample
        sample_positions length_sample_data hostile_cloud_def nP_sample)
qed

theorem decode_crashes:
  "Decode (one_point_draco\<lparr>draco_decode := (\<lambda>_. Some (Some (hostile_cloud 24 None)))\<rparr>)
     sample_encoded (Some sample_cloud) = None"
  "Decode (one_point_draco\<lparr>draco_decode := (\<lambda>_. Some (Some (hostile_cloud 12 (Some color))))\<rparr>)
     sample_encoded (Some sample_cloud) = None"
proof -
  have none: "color_encoding sample_layout = ColorNone" by (simp add: sample_layout_def default_layout_def)
  show "Decode (one_point_draco\<lparr>draco_decode := (\<lambda>_. Some (Some (hostile_cloud 24 None)))\<rparr>)
     sample_encoded (Some sample_cloud) = None"
    unfolding reaches_None [OF sample_reaches]
    by (simp add: overrun_def sample_decoded_points zero_index)
  show "Decode (one_point_draco\<lparr>draco_decode := (\<lambda>_. Some (Some (hostile_cloud 12 (Some color))))\<rparr>)
     sample_encoded (Some sample_cloud) = None"
    unfolding reaches_None [OF sample_reaches]
    by (simp add: overrun_def sample_decoded_points zero_index hostile_cloud_def none)
qed

text \<open>when \<open>Decode\<close> succeeds on a message with points, the storage of the result is
  consistent and the payload named every point index exactly once, so no point is left zero
  and none is written twice.\<close>

theorem decode_covers_all_points:
  assumes "Decode lib e (Some t) = Some (True, Some m)" and "0 < nP m"
  shows "storage_ok m \<and> (\<exists>cloud gen. draco_decode lib (epc_payload e) = Some (Some cloud) \<and>
    dd_points cloud = nP m \<and> dd_generic cloud = Some gen \<and>
    bij_betw (\<lambda>k. unat (index_view gen k)) {0..<nP m} {0..<nP m})"
  using Decode_success [OF assms] by (simp add: index_permutation_def)

end
