(* ===== verification/Std_Map.thy ===== *)
theory Std_Map
  imports Prelude "HOL-Library.List_Lexorder" "HOL-Library.Char_ord"
begin

text \<open>
  \<^verbatim>\<open>std::map\<close> with string keys, as the components use it: an association list sorted by key,
  which fixes the iteration order.  \<open>map_store\<close> is the interface clients rely on: what a
  lookup finds after \<^verbatim>\<open>m[k] = v\<close>, after clearing, and after a run of assignments.
\<close>

type_synonym 'v smap = "(string \<times> 'v) list"

fun mset_at :: "string \<Rightarrow> 'v \<Rightarrow> 'v smap \<Rightarrow> 'v smap" where
  "mset_at k v [] = [(k, v)]"
| "mset_at k v ((k', v') # m) =
     (if k = k' then (k, v) # m
      else if k < k' then (k, v) # (k', v') # m
      else (k', v') # mset_at k v m)"

fun mfind :: "'v smap \<Rightarrow> string \<Rightarrow> 'v option" where
  "mfind [] k = None"
| "mfind ((k', v') # m) k = (if k = k' then Some v' else mfind m k)"

definition merase :: "string \<Rightarrow> 'v smap \<Rightarrow> 'v smap" where
  "merase k m = filter (\<lambda>(k', _). k' \<noteq> k) m"

definition map_ok :: "'v smap \<Rightarrow> bool" where
  "map_ok m \<longleftrightarrow> sorted_wrt (<) (map fst m)"

lemma mfind_mset_at: "mfind (mset_at k v m) k' = (if k' = k then Some v else mfind m k')"
  by (induction m) auto

lemma set_fst_mset_at: "fst ` set (mset_at k v m) = insert k (fst ` set m)"
proof (induction m)
  case (Cons a m)
  then show ?case by (cases a) (simp add: insert_commute)
qed simp

lemma map_ok_mset_at: "map_ok m \<Longrightarrow> map_ok (mset_at k v m)"
proof (induction m)
  case (Cons a m)
  then show ?case
    using set_fst_mset_at [of k v m] by (cases a) (auto simp: map_ok_def)
qed (simp add: map_ok_def)

lemma mfind_merase: "mfind (merase k m) k' = (if k' = k then None else mfind m k')"
  by (induction m) (auto simp: merase_def)

lemma map_ok_merase: "map_ok m \<Longrightarrow> map_ok (merase k m)"
  by (auto simp: map_ok_def merase_def sorted_wrt_map intro: sorted_wrt_filter)

lemma mfind_set: "map_ok m \<Longrightarrow> (k, v) \<in> set m \<longleftrightarrow> mfind m k = Some v"
proof (induction m)
  case (Cons a m)
  then have "\<forall>x \<in> set m. fst a \<noteq> fst x" by (auto simp: map_ok_def)
  then show ?case using Cons by (cases a) (auto simp: map_ok_def)
qed simp

lemma mfind_None_iff: "mfind m k = None \<longleftrightarrow> k \<notin> fst ` set m"
proof (induction m)
  case (Cons a m)
  then show ?case by (cases a) simp
qed simp

lemma map_ok_distinct: "map_ok m \<Longrightarrow> distinct (map fst m)"
  by (auto simp: map_ok_def strict_sorted_iff)

section \<open>The interface\<close>

locale map_store =
  fixes find :: "'m \<Rightarrow> string \<Rightarrow> 'v option"
    and put :: "string \<Rightarrow> 'v \<Rightarrow> 'm \<Rightarrow> 'm"
    and empty :: 'm
    and ok :: "'m \<Rightarrow> bool"
  assumes find_put: "find (put k v m) k' = (if k' = k then Some v else find m k')"
    and find_empty: "find empty k = None"
    and ok_empty: "ok empty"
    and ok_put: "ok m \<Longrightarrow> ok (put k v m)"
begin

text \<open>Assigning a list of entries in order: the last entry of a key wins.\<close>

lemma put_all_last:
  "find (foldl (\<lambda>m (k, v). put k v m) m kvs) k =
     (case map_of (rev kvs) k of None \<Rightarrow> find m k | Some v \<Rightarrow> Some v)"
  by (induction kvs rule: rev_induct) (auto simp: find_put split: prod.splits)

lemma put_all_ok: "ok m \<Longrightarrow> ok (foldl (\<lambda>m (k, v). put k v m) m kvs)"
  by (induction kvs rule: rev_induct) (auto simp: ok_put split: prod.splits)

lemma put_put: "find (put k v (put k w m)) k' = find (put k v m) k'"
  by (simp add: find_put)

end

interpretation std_map: map_store mfind mset_at "[]" map_ok
  by unfold_locales (simp_all add: mfind_mset_at map_ok_mset_at map_ok_def [of "[]"])

end
