(* ===== verification/Diagnostics_Cache.thy ===== *)
theory Diagnostics_Cache
  imports Std_Map
begin

text \<open>
  \<^verbatim>\<open>src/diagnostics/diagnostics_cache.cpp\<close>: the last received \<^verbatim>\<open>NetworkArray\<close>, indexed by entry
  name, with freshness.  Every operation runs under the cache's mutex, so it is one state
  transition; the reading of \<^verbatim>\<open>steady_clock\<close> (nanoseconds) is an argument.  An output pointer is
  an option and comes back with what it points to.
\<close>

record NetworkInfo =
  ni_name :: string
  ni_msg_type :: string
  ni_direction :: string
  ni_codec :: string
  ni_transport :: string
  ni_qos_class :: string
  ni_configured_rate_hz :: real
  ni_send_rate_hz :: real
  ni_recv_rate_hz :: real
  ni_bandwidth_kbps :: real
  ni_effective_recv_bandwidth_kbps :: real
  ni_image_loss_rate_pct :: real
  ni_complete_frame_success_rate_pct :: real
  ni_avg_latency_ms :: real
  ni_jitter_ms :: real
  ni_stability_score :: real
  ni_last_recv_age_ms :: real
  ni_adaptive_quality_enabled :: bool
  ni_configured_jpeg_quality :: u32
  ni_current_jpeg_quality :: u32
  ni_target_bandwidth_kbps :: real
  ni_packet_size :: u32
  ni_total_messages :: u32
  ni_dropped_messages :: u32
  ni_session_connected :: bool
  ni_link_connected :: bool
  ni_connected_peer_count :: u64
  ni_connected_router_count :: u64
  ni_reconnect_count :: u64
  ni_transport_queue_drops :: u64
  ni_expected_frames :: u64
  ni_transport_complete_frames :: u64
  ni_decoded_frames :: u64
  ni_inferred_lost_frames :: u64
  ni_sequence_resets :: u64
  ni_service_timeouts :: u64
  ni_decode_errors :: u64
  ni_node_hostname :: string
  ni_node_online :: bool
  ni_node_state_age_ms :: u64
  ni_node_online_transitions :: u64

text \<open>A default constructed message entry.\<close>

definition default_info :: NetworkInfo where
  "default_info =
     \<lparr>ni_name = [], ni_msg_type = [], ni_direction = [], ni_codec = [], ni_transport = [],
      ni_qos_class = [], ni_configured_rate_hz = 0, ni_send_rate_hz = 0, ni_recv_rate_hz = 0,
      ni_bandwidth_kbps = 0, ni_effective_recv_bandwidth_kbps = 0, ni_image_loss_rate_pct = 0,
      ni_complete_frame_success_rate_pct = 0, ni_avg_latency_ms = 0, ni_jitter_ms = 0,
      ni_stability_score = 0, ni_last_recv_age_ms = 0, ni_adaptive_quality_enabled = False,
      ni_configured_jpeg_quality = 0, ni_current_jpeg_quality = 0, ni_target_bandwidth_kbps = 0,
      ni_packet_size = 0, ni_total_messages = 0, ni_dropped_messages = 0,
      ni_session_connected = False, ni_link_connected = False, ni_connected_peer_count = 0,
      ni_connected_router_count = 0, ni_reconnect_count = 0, ni_transport_queue_drops = 0,
      ni_expected_frames = 0, ni_transport_complete_frames = 0, ni_decoded_frames = 0,
      ni_inferred_lost_frames = 0, ni_sequence_resets = 0, ni_service_timeouts = 0,
      ni_decode_errors = 0, ni_node_hostname = [], ni_node_online = False,
      ni_node_state_age_ms = 0, ni_node_online_transitions = 0\<rparr>"

record DiagnosticsCache =
  latest :: "NetworkInfo smap"
  last_update_at :: nat
  has_update :: bool

definition initial_cache :: DiagnosticsCache where
  "initial_cache = \<lparr>latest = [], last_update_at = 0, has_update = False\<rparr>"

definition Update :: "nat \<Rightarrow> NetworkInfo list \<Rightarrow> DiagnosticsCache \<Rightarrow> DiagnosticsCache" where
  "Update now info c =
     c\<lparr>latest := foldl (\<lambda>m item. mset_at (ni_name item) item m) [] info,
       last_update_at := now, has_update := True\<rparr>"

definition IsFreshLocked :: "nat \<Rightarrow> nat \<Rightarrow> DiagnosticsCache \<Rightarrow> bool" where
  "IsFreshLocked now max_age c \<longleftrightarrow>
     has_update c \<and> int now - int (last_update_at c) \<le> int max_age * 1000000"

definition IsFresh :: "nat \<Rightarrow> nat \<Rightarrow> DiagnosticsCache \<Rightarrow> bool" where
  "IsFresh now max_age c = IsFreshLocked now max_age c"

definition HasReceivedData :: "DiagnosticsCache \<Rightarrow> bool" where
  "HasReceivedData c = has_update c"

definition Snapshot :: "DiagnosticsCache \<Rightarrow> NetworkInfo list" where
  "Snapshot c = map snd (latest c)"

definition NodeSnapshot :: "DiagnosticsCache \<Rightarrow> NetworkInfo list" where
  "NodeSnapshot c = map snd (filter (\<lambda>(_, i). ni_msg_type i = ''presence'') (latest c))"

definition LookupNode ::
  "nat \<Rightarrow> string \<Rightarrow> NetworkInfo option \<Rightarrow> DiagnosticsCache \<Rightarrow> bool \<times> NetworkInfo option" where
  "LookupNode now hostname out c =
     (if out = None then (False, out)
      else if \<not> IsFreshLocked now 2500 c then (False, out)
      else
        (case mfind (latest c) (''@zenoh/node/'' @ hostname) of
           None \<Rightarrow> (False, out)
         | Some item \<Rightarrow> if ni_msg_type item \<noteq> ''presence'' then (False, out) else (True, Some item)))"

definition Lookup ::
  "nat \<Rightarrow> string \<Rightarrow> NetworkInfo option \<Rightarrow> DiagnosticsCache \<Rightarrow> bool \<times> NetworkInfo option" where
  "Lookup now topic out c =
     (if \<not> IsFreshLocked now 2500 c then (False, out)
      else
        (case mfind (latest c) topic of
           None \<Rightarrow> (False, out)
         | Some item \<Rightarrow> if out = None then (False, out) else (True, Some item)))"

fun first_directed :: "NetworkInfo smap \<Rightarrow> string list \<Rightarrow> string \<Rightarrow> NetworkInfo option" where
  "first_directed m [] dir = None"
| "first_directed m (topic # topics) dir =
     (case mfind m topic of
        Some item \<Rightarrow> if ni_direction item = dir then Some item else first_directed m topics dir
      | None \<Rightarrow> first_directed m topics dir)"

definition LookupDirected ::
  "nat \<Rightarrow> string list \<Rightarrow> string \<Rightarrow> NetworkInfo option \<Rightarrow> DiagnosticsCache \<Rightarrow>
     bool \<times> NetworkInfo option" where
  "LookupDirected now topics dir out c =
     (if out = None then (False, out)
      else if \<not> IsFreshLocked now 2500 c then (False, out)
      else
        (case first_directed (latest c) topics dir of
           None \<Rightarrow> (False, out) | Some item \<Rightarrow> (True, Some item)))"

fun first_any :: "NetworkInfo smap \<Rightarrow> string list \<Rightarrow> NetworkInfo option" where
  "first_any m [] = None"
| "first_any m (topic # topics) =
     (case mfind m topic of Some item \<Rightarrow> Some item | None \<Rightarrow> first_any m topics)"

definition LookupAny ::
  "nat \<Rightarrow> string list \<Rightarrow> NetworkInfo option \<Rightarrow> DiagnosticsCache \<Rightarrow> bool \<times> NetworkInfo option" where
  "LookupAny now topics out c =
     (if out = None then (False, out)
      else if \<not> IsFreshLocked now 2500 c then (False, out)
      else
        (case first_any (latest c) topics of
           None \<Rightarrow> (False, out) | Some item \<Rightarrow> (True, Some item)))"

section \<open>What an update makes visible\<close>

text \<open>The entry of a message that a lookup by name returns: the last one with that name.\<close>

definition last_named :: "NetworkInfo list \<Rightarrow> string \<Rightarrow> NetworkInfo option" where
  "last_named info nm = List.find (\<lambda>i. ni_name i = nm) (rev info)"

lemma map_of_named:
  "map_of (rev (map (\<lambda>i. (ni_name i, i)) info)) nm = last_named info nm"
proof -
  have "map_of (map (\<lambda>i. (ni_name i, i)) xs) nm = List.find (\<lambda>i. ni_name i = nm) xs" for xs
    by (induction xs) auto
  from this [of "rev info"] show ?thesis by (simp add: last_named_def rev_map)
qed

lemma latest_Update_foldl:
  "latest (Update now info c) =
     foldl (\<lambda>m (k, v). mset_at k v m) [] (map (\<lambda>i. (ni_name i, i)) info)"
  by (simp add: Update_def foldl_map)

lemma mfind_Update: "mfind (latest (Update now info c)) nm = last_named info nm"
  unfolding latest_Update_foldl std_map.put_all_last map_of_named by (simp split: option.split)

lemma map_ok_Update: "map_ok (latest (Update now info c))"
  unfolding latest_Update_foldl by (rule std_map.put_all_ok [OF std_map.ok_empty])

lemma last_named_name: "last_named info nm = Some i \<Longrightarrow> i \<in> set info \<and> ni_name i = nm"
  by (auto simp: last_named_def find_Some_iff in_set_conv_nth) (metis in_set_conv_nth length_rev set_rev nth_mem)

lemma Snapshot_set:
  assumes "map_ok (latest c)"
  shows "i \<in> set (Snapshot c) \<longleftrightarrow> (\<exists>k. mfind (latest c) k = Some i)"
  using mfind_set [OF assms] by (force simp: Snapshot_def)

text \<open>Splitting a list at its first element with a property, one step at a time.\<close>

lemma first_split:
  "(\<exists>pre x post. a # xs = pre @ x # post \<and> P x \<and> Q \<and> list_all R pre) \<longleftrightarrow>
     (P a \<and> Q) \<or> (R a \<and> (\<exists>pre x post. xs = pre @ x # post \<and> P x \<and> Q \<and> list_all R pre))"
  (is "?l \<longleftrightarrow> ?r")
proof
  assume ?l
  then obtain pre x post where s: "a # xs = pre @ x # post" "P x" "Q" "list_all R pre" by blast
  then show ?r by (cases pre) auto
next
  assume ?r
  then show ?l
  proof
    assume "P a \<and> Q"
    then show ?l by (intro exI [of _ "[]"]) auto
  next
    assume "R a \<and> (\<exists>pre x post. xs = pre @ x # post \<and> P x \<and> Q \<and> list_all R pre)"
    then obtain pre x post where "R a" "xs = pre @ x # post" "P x" "Q" "list_all R pre" by blast
    then show ?l by (intro exI [of _ "a # pre"]) auto
  qed
qed

section \<open>Properties\<close>

text \<open>for 2.5 seconds after an update, a lookup by name returns the last entry of that name in
  the received message and fails exactly when there is none; after that every lookup fails and
  leaves its output alone, whatever earlier updates said.\<close>

theorem cache_lookup_spec:
  "Lookup t nm (Some old) (Update now info c) =
     (if int t - int now \<le> 2500000000
      then (case last_named info nm of None \<Rightarrow> (False, Some old) | Some i \<Rightarrow> (True, Some i))
      else (False, Some old)) \<and>
   Lookup t nm (Some old) initial_cache = (False, Some old)"
  using mfind_Update [of now info c nm]
  by (auto simp: Lookup_def IsFreshLocked_def Update_def initial_cache_def split: option.split)

text \<open>\<open>LookupDirected\<close> and \<open>LookupAny\<close> return the entry of the first alias that has a
  (matching) entry, and \<open>LookupNode\<close> only ever returns a presence entry of that host.\<close>

theorem cache_alias_lookup:
  "(LookupDirected t topics dir (Some old) c = (True, Some i) \<longleftrightarrow>
      IsFresh t 2500 c \<and>
      (\<exists>pre nm post. topics = pre @ nm # post \<and> mfind (latest c) nm = Some i \<and> ni_direction i = dir \<and>
         list_all (\<lambda>n. case mfind (latest c) n of None \<Rightarrow> True | Some j \<Rightarrow> ni_direction j \<noteq> dir) pre)) \<and>
   (LookupAny t topics (Some old) c = (True, Some i) \<longleftrightarrow>
      IsFresh t 2500 c \<and>
      (\<exists>pre nm post. topics = pre @ nm # post \<and> mfind (latest c) nm = Some i \<and>
         list_all (\<lambda>n. mfind (latest c) n = None) pre)) \<and>
   (LookupNode t host (Some old) c = (True, Some i) \<longleftrightarrow>
      IsFresh t 2500 c \<and> mfind (latest c) (''@zenoh/node/'' @ host) = Some i \<and>
      ni_msg_type i = ''presence'')"
proof (intro conjI)
  have dir: "first_directed m topics dir = Some i \<longleftrightarrow>
      (\<exists>pre nm post. topics = pre @ nm # post \<and> mfind m nm = Some i \<and> ni_direction i = dir \<and>
         list_all (\<lambda>n. case mfind m n of None \<Rightarrow> True | Some j \<Rightarrow> ni_direction j \<noteq> dir) pre)" for m
  proof (induction topics)
    case (Cons a topics)
    let ?miss = "\<lambda>n. case mfind m n of None \<Rightarrow> True | Some j \<Rightarrow> ni_direction j \<noteq> dir"
    let ?hit = "\<lambda>n. mfind m n = Some i \<and> ni_direction i = dir"
    have "(\<exists>pre nm post. a # topics = pre @ nm # post \<and> mfind m nm = Some i \<and> ni_direction i = dir \<and>
         list_all ?miss pre) \<longleftrightarrow>
      ?hit a \<or> (?miss a \<and> (\<exists>pre nm post. topics = pre @ nm # post \<and> mfind m nm = Some i \<and>
         ni_direction i = dir \<and> list_all ?miss pre))"
      by (rule first_split)
    moreover have "first_directed m (a # topics) dir = Some i \<longleftrightarrow>
        ?hit a \<or> (?miss a \<and> first_directed m topics dir = Some i)"
      by (auto split: option.split)
    ultimately show ?case unfolding Cons.IH by simp
  qed simp
  show "LookupDirected t topics dir (Some old) c = (True, Some i) \<longleftrightarrow>
      IsFresh t 2500 c \<and>
      (\<exists>pre nm post. topics = pre @ nm # post \<and> mfind (latest c) nm = Some i \<and> ni_direction i = dir \<and>
         list_all (\<lambda>n. case mfind (latest c) n of None \<Rightarrow> True | Some j \<Rightarrow> ni_direction j \<noteq> dir) pre)"
    unfolding dir [symmetric] by (simp add: LookupDirected_def IsFresh_def split: option.split)
  have any: "first_any m topics = Some i \<longleftrightarrow>
      (\<exists>pre nm post. topics = pre @ nm # post \<and> mfind m nm = Some i \<and>
         list_all (\<lambda>n. mfind m n = None) pre)" for m
  proof (induction topics)
    case (Cons a topics)
    have "(\<exists>pre nm post. a # topics = pre @ nm # post \<and> mfind m nm = Some i \<and>
         list_all (\<lambda>n. mfind m n = None) pre) \<longleftrightarrow>
      mfind m a = Some i \<or> (mfind m a = None \<and> (\<exists>pre nm post. topics = pre @ nm # post \<and>
         mfind m nm = Some i \<and> list_all (\<lambda>n. mfind m n = None) pre))"
      using first_split [of a topics "\<lambda>n. mfind m n = Some i" True "\<lambda>n. mfind m n = None"] by simp
    moreover have "first_any m (a # topics) = Some i \<longleftrightarrow>
        mfind m a = Some i \<or> (mfind m a = None \<and> first_any m topics = Some i)"
      by (auto split: option.split)
    ultimately show ?case unfolding Cons.IH by simp
  qed simp
  show "LookupAny t topics (Some old) c = (True, Some i) \<longleftrightarrow>
      IsFresh t 2500 c \<and>
      (\<exists>pre nm post. topics = pre @ nm # post \<and> mfind (latest c) nm = Some i \<and>
         list_all (\<lambda>n. mfind (latest c) n = None) pre)"
    unfolding any [symmetric] by (simp add: LookupAny_def IsFresh_def split: option.split)
  show "LookupNode t host (Some old) c = (True, Some i) \<longleftrightarrow>
      IsFresh t 2500 c \<and> mfind (latest c) (''@zenoh/node/'' @ host) = Some i \<and>
      ni_msg_type i = ''presence''"
    by (auto simp: LookupNode_def IsFresh_def split: option.split)
qed

end
