(* ===== verification/Topic_Metrics.thy ===== *)
theory Topic_Metrics
  imports Prelude
begin

text \<open>
  \<^verbatim>\<open>include/diagnostics/topic_metrics.hpp\<close> and \<^verbatim>\<open>src/diagnostics/topic_metrics.cpp\<close>: the runtime
  state every topic end keeps, the sequence observer that infers lost frames, and the metrics
  computed from the state.  \<^verbatim>\<open>double\<close> values are reals (rounding is not modelled), counters are
  64-bit words, a \<^verbatim>\<open>ros::Time\<close> is its nanoseconds.
\<close>

section \<open>Data\<close>

record TopicMetrics =
  tm_topic_name :: string
  tm_msg_type :: string
  tm_direction :: string
  tm_codec :: string
  tm_transport :: string
  tm_qos_class :: string
  tm_configured_rate_hz :: real
  tm_send_rate_hz :: real
  tm_recv_rate_hz :: real
  tm_avg_latency_ms :: real
  tm_jitter_ms :: real
  tm_bandwidth_kbps :: real
  tm_effective_recv_bandwidth_kbps :: real
  tm_image_loss_rate_pct :: real
  tm_complete_frame_success_rate_pct :: real
  tm_stability_score :: real
  tm_last_recv_age_ms :: real
  tm_adaptive_quality_enabled :: bool
  tm_configured_jpeg_quality :: u32
  tm_current_jpeg_quality :: u32
  tm_target_bandwidth_kbps :: real
  tm_packet_size :: u32
  tm_total_messages :: u64
  tm_dropped_messages :: u64
  tm_transport_queue_drops :: u64
  tm_expected_frames :: u64
  tm_transport_complete_frames :: u64
  tm_decoded_frames :: u64
  tm_inferred_lost_frames :: u64
  tm_sequence_resets :: u64

record TopicRuntimeState =
  topic_name :: string
  msg_type :: string
  direction :: string
  ts_codec :: string
  transport :: string
  ts_qos_class :: string
  configured_rate_hz :: real
  total_sent :: u64
  total_received :: u64
  dropped_messages :: u64
  transport_queue_drops :: u64
  total_send_bytes :: u64
  total_recv_bytes :: u64
  packet_size :: u32
  window_start :: ros_time
  last_send_time :: ros_time
  last_recv_time :: ros_time
  recent_send_times :: "ros_time list"
  recent_recv_times :: "ros_time list"
  recent_send_bytes :: "(ros_time \<times> u64) list"
  recent_recv_bytes :: "(ros_time \<times> u64) list"
  rate_window_sec :: real
  adaptive_quality_enabled :: bool
  configured_jpeg_quality :: u32
  current_jpeg_quality :: u32
  target_bandwidth_kbps :: real
  quality_step :: u32
  adapt_cooldown_frames :: u32
  last_adapt_total_sent :: u64
  avg_latency_ms :: real
  jitter_ms :: real
  last_latency_ms :: real
  frame_sequence_initialized :: bool
  last_frame_sequence :: u64
  expected_frames :: u64
  transport_complete_frames :: u64
  inferred_lost_frames :: u64
  sequence_resets :: u64

definition default_runtime_state :: TopicRuntimeState where
  "default_runtime_state =
     \<lparr>topic_name = [], msg_type = [], direction = [], ts_codec = [], transport = [],
      ts_qos_class = [], configured_rate_hz = 0, total_sent = 0, total_received = 0,
      dropped_messages = 0, transport_queue_drops = 0, total_send_bytes = 0,
      total_recv_bytes = 0, packet_size = 0, window_start = 0, last_send_time = 0,
      last_recv_time = 0, recent_send_times = [], recent_recv_times = [],
      recent_send_bytes = [], recent_recv_bytes = [], rate_window_sec = 3,
      adaptive_quality_enabled = False, configured_jpeg_quality = 0, current_jpeg_quality = 0,
      target_bandwidth_kbps = 0, quality_step = 0, adapt_cooldown_frames = 0,
      last_adapt_total_sent = 0, avg_latency_ms = 0, jitter_ms = 0, last_latency_ms = -1,
      frame_sequence_initialized = False, last_frame_sequence = 0, expected_frames = 0,
      transport_complete_frames = 0, inferred_lost_frames = 0, sequence_resets = 0\<rparr>"

text \<open>\<^verbatim>\<open>(a - b).toSec()\<close> and \<^verbatim>\<open>static_cast<double>\<close> of a counter.\<close>

definition secs_between :: "ros_time \<Rightarrow> ros_time \<Rightarrow> real" where
  "secs_between a b = (real a - real b) / 1000000000"

definition dbl :: "'a::len word \<Rightarrow> real" where
  "dbl w = real (unat w)"

lemma dbl_nonneg [simp]: "0 \<le> dbl w"
  unfolding dbl_def by (rule of_nat_0_le_iff)

section \<open>Operations\<close>

definition ComputeObservedWindow :: "ros_time \<Rightarrow> ros_time \<Rightarrow> real \<Rightarrow> real" where
  "ComputeObservedWindow now start configured_window_sec =
     (if start = 0 then configured_window_sec
      else
        let observed = max 0.001 (secs_between now start)
        in min (max 0.001 configured_window_sec) observed)"

definition ComputeStability :: "TopicRuntimeState \<Rightarrow> real \<Rightarrow> real \<Rightarrow> real" where
  "ComputeStability state send_rate recv_rate =
     (if configured_rate_hz state \<le> 0 then (if dropped_messages state = 0 then 100 else 85)
      else
        let reference_rate = (if direction state = ''send'' then send_rate else recv_rate);
            rate_ratio = min 1 (reference_rate / max 0.001 (configured_rate_hz state));
            drop_penalty = min 40 (dbl (dropped_messages state) * 2);
            latency_penalty = (if avg_latency_ms state > 0 then min 25 (avg_latency_ms state / 8) else 0)
        in max 0 (min 100 (rate_ratio * 100 - drop_penalty - latency_penalty)))"

definition ObserveCompleteFrameSequence ::
  "u64 \<Rightarrow> TopicRuntimeState option \<Rightarrow> TopicRuntimeState option" where
  "ObserveCompleteFrameSequence seq st =
     (case st of
        None \<Rightarrow> None
      | Some state \<Rightarrow>
          Some (if \<not> frame_sequence_initialized state then
                  state\<lparr>frame_sequence_initialized := True, last_frame_sequence := seq,
                        expected_frames := expected_frames state + 1,
                        transport_complete_frames := transport_complete_frames state + 1\<rparr>
                else if seq = last_frame_sequence state then state
                else if seq < last_frame_sequence state then
                  state\<lparr>sequence_resets := sequence_resets state + 1, last_frame_sequence := seq,
                        expected_frames := expected_frames state + 1,
                        transport_complete_frames := transport_complete_frames state + 1\<rparr>
                else
                  let sequence_delta = seq - last_frame_sequence state
                  in state\<lparr>expected_frames := expected_frames state + sequence_delta,
                           inferred_lost_frames := inferred_lost_frames state + (sequence_delta - 1),
                           transport_complete_frames := transport_complete_frames state + 1,
                           last_frame_sequence := seq\<rparr>))"

definition window_front :: "ros_time list \<Rightarrow> ros_time \<Rightarrow> ros_time" where
  "window_front stamps start = (case stamps of [] \<Rightarrow> start | t # _ \<Rightarrow> t)"

definition MakeTopicMetrics :: "TopicRuntimeState \<Rightarrow> ros_time \<Rightarrow> TopicMetrics" where
  "MakeTopicMetrics state now =
     (let send_window_start = window_front (recent_send_times state) (window_start state);
          recv_window_start = window_front (recent_recv_times state) (window_start state);
          send_elapsed = ComputeObservedWindow now send_window_start (rate_window_sec state);
          recv_elapsed = ComputeObservedWindow now recv_window_start (rate_window_sec state);
          send_rate = (if recent_send_times state = [] then 0
                       else real (length (recent_send_times state)) / send_elapsed);
          recv_rate = (if recent_recv_times state = [] then 0
                       else real (length (recent_recv_times state)) / recv_elapsed);
          sending = direction state = ''send'';
          recent_bytes = sum_list (map snd (if sending then recent_send_bytes state
                                            else recent_recv_bytes state));
          bandwidth = (if recent_bytes = 0 then 0
                       else dbl recent_bytes * 8 / 1000 / (if sending then send_elapsed else recv_elapsed));
          image_recv = msg_type state = ''sensor_msgs/Image'' \<and> direction state = ''recv'' \<and>
                       expected_frames state > 0
      in \<lparr>tm_topic_name = topic_name state,
          tm_msg_type = msg_type state,
          tm_direction = direction state,
          tm_codec = ts_codec state,
          tm_transport = transport state,
          tm_qos_class = ts_qos_class state,
          tm_configured_rate_hz = configured_rate_hz state,
          tm_send_rate_hz = send_rate,
          tm_recv_rate_hz = recv_rate,
          tm_avg_latency_ms = avg_latency_ms state,
          tm_jitter_ms = jitter_ms state,
          tm_bandwidth_kbps = bandwidth,
          tm_effective_recv_bandwidth_kbps = (if sending then 0 else bandwidth),
          tm_image_loss_rate_pct =
              (if image_recv then min 100 (dbl (inferred_lost_frames state) * 100 / dbl (expected_frames state))
               else 0),
          tm_complete_frame_success_rate_pct =
              (if image_recv then min 100 (dbl (total_received state) * 100 / dbl (expected_frames state))
               else 0),
          tm_stability_score = ComputeStability state send_rate recv_rate,
          tm_last_recv_age_ms =
              (if last_recv_time state = 0 then -1 else secs_between now (last_recv_time state) * 1000),
          tm_adaptive_quality_enabled = adaptive_quality_enabled state,
          tm_configured_jpeg_quality = configured_jpeg_quality state,
          tm_current_jpeg_quality = current_jpeg_quality state,
          tm_target_bandwidth_kbps = target_bandwidth_kbps state,
          tm_packet_size = packet_size state,
          tm_total_messages = total_sent state + total_received state,
          tm_dropped_messages = dropped_messages state,
          tm_transport_queue_drops = transport_queue_drops state,
          tm_expected_frames = expected_frames state,
          tm_transport_complete_frames = transport_complete_frames state,
          tm_decoded_frames = (if direction state = ''recv'' then total_received state else 0),
          tm_inferred_lost_frames = inferred_lost_frames state,
          tm_sequence_resets = sequence_resets state\<rparr>)"

section \<open>The sequence observer\<close>

text \<open>The call on a state that exists, and a run over the sequences of a stream.\<close>

definition observe :: "u64 \<Rightarrow> TopicRuntimeState \<Rightarrow> TopicRuntimeState" where
  "observe seq state = the (ObserveCompleteFrameSequence seq (Some state))"

lemma ObserveCompleteFrameSequence_eq:
  "ObserveCompleteFrameSequence seq (Some state) = Some (observe seq state)"
  by (simp add: observe_def ObserveCompleteFrameSequence_def)

lemmas observe_defs = observe_def ObserveCompleteFrameSequence_def

definition accounted :: "TopicRuntimeState \<Rightarrow> bool" where
  "accounted s \<longleftrightarrow> expected_frames s = transport_complete_frames s + inferred_lost_frames s"

lemma observe_accounted: "accounted s \<Longrightarrow> accounted (observe q s)"
  by (simp add: accounted_def observe_defs Let_def)

lemma fold_observe_accounted: "accounted s \<Longrightarrow> accounted (fold observe xs s)"
  by (induction xs arbitrary: s) (simp_all add: observe_accounted)

lemma observe_twice: "observe q (observe q s) = observe q s"
  by (simp add: observe_defs Let_def)

lemma fold_observe_remdups: "fold observe (remdups_adj xs) s = fold observe xs s"
  by (induction xs arbitrary: s rule: remdups_adj.induct) (simp_all add: observe_twice)

text \<open>The observer touches nothing but its own fields.\<close>

lemma observe_increasing:
  assumes init: "frame_sequence_initialized s" and up: "last_frame_sequence s < q"
  shows "observe q s =
    s\<lparr>expected_frames := expected_frames s + (q - last_frame_sequence s),
      inferred_lost_frames := inferred_lost_frames s + (q - last_frame_sequence s - 1),
      transport_complete_frames := transport_complete_frames s + 1,
      last_frame_sequence := q\<rparr>"
  using assms by (simp add: observe_defs Let_def order_less_not_sym)

lemma fold_observe_increasing:
  "frame_sequence_initialized s \<Longrightarrow> sorted_wrt (<) (last_frame_sequence s # xs) \<Longrightarrow>
    expected_frames (fold observe xs s) =
      expected_frames s + (last (last_frame_sequence s # xs) - last_frame_sequence s) \<and>
    transport_complete_frames (fold observe xs s) = transport_complete_frames s + of_nat (length xs) \<and>
    sequence_resets (fold observe xs s) = sequence_resets s"
proof (induction xs arbitrary: s)
  case (Cons q xs)
  then have up: "last_frame_sequence s < q" by simp
  let ?s = "observe q s"
  have s: "last_frame_sequence ?s = q" "frame_sequence_initialized ?s"
    "expected_frames ?s = expected_frames s + (q - last_frame_sequence s)"
    "transport_complete_frames ?s = transport_complete_frames s + 1"
    "sequence_resets ?s = sequence_resets s"
    using Cons.prems(1) observe_increasing [OF Cons.prems(1) up] by simp_all
  have "sorted_wrt (<) (last_frame_sequence ?s # xs)" using Cons.prems(2) s(1) by simp
  from Cons.IH [OF s(2) this]
  have ih: "expected_frames (fold observe xs ?s) = expected_frames ?s + (last (q # xs) - q)"
    "transport_complete_frames (fold observe xs ?s) = transport_complete_frames ?s + of_nat (length xs)"
    "sequence_resets (fold observe xs ?s) = sequence_resets ?s"
    unfolding s(1) by blast+
  have "last (last_frame_sequence s # q # xs) = last (q # xs)" by simp
  then show ?case unfolding fold_simps ih s by simp
qed simp

section \<open>The fields of the metrics\<close>

lemma metrics_send_rate:
  "tm_send_rate_hz (MakeTopicMetrics s now) =
     (if recent_send_times s = [] then 0
      else real (length (recent_send_times s)) /
        ComputeObservedWindow now (window_front (recent_send_times s) (window_start s)) (rate_window_sec s))"
  unfolding MakeTopicMetrics_def Let_def by simp

lemma metrics_recv_rate:
  "tm_recv_rate_hz (MakeTopicMetrics s now) =
     (if recent_recv_times s = [] then 0
      else real (length (recent_recv_times s)) /
        ComputeObservedWindow now (window_front (recent_recv_times s) (window_start s)) (rate_window_sec s))"
  unfolding MakeTopicMetrics_def Let_def by simp

lemma metrics_stability:
  "tm_stability_score (MakeTopicMetrics s now) =
     ComputeStability s (tm_send_rate_hz (MakeTopicMetrics s now)) (tm_recv_rate_hz (MakeTopicMetrics s now))"
  unfolding metrics_send_rate metrics_recv_rate unfolding MakeTopicMetrics_def Let_def by simp

lemma metrics_loss:
  "tm_image_loss_rate_pct (MakeTopicMetrics s now) =
     (if msg_type s = ''sensor_msgs/Image'' \<and> direction s = ''recv'' \<and> expected_frames s > 0
      then min 100 (dbl (inferred_lost_frames s) * 100 / dbl (expected_frames s)) else 0)"
  unfolding MakeTopicMetrics_def Let_def by simp

lemma metrics_success:
  "tm_complete_frame_success_rate_pct (MakeTopicMetrics s now) =
     (if msg_type s = ''sensor_msgs/Image'' \<and> direction s = ''recv'' \<and> expected_frames s > 0
      then min 100 (dbl (total_received s) * 100 / dbl (expected_frames s)) else 0)"
  unfolding MakeTopicMetrics_def Let_def by simp

lemma metrics_bandwidth:
  "tm_bandwidth_kbps (MakeTopicMetrics s now) =
     (let sending = direction s = ''send'';
          total = sum_list (map snd (if sending then recent_send_bytes s else recent_recv_bytes s))
      in if total = 0 then 0
         else dbl total * 8 / 1000 /
           (if sending
            then ComputeObservedWindow now (window_front (recent_send_times s) (window_start s)) (rate_window_sec s)
            else ComputeObservedWindow now (window_front (recent_recv_times s) (window_start s)) (rate_window_sec s)))"
  unfolding MakeTopicMetrics_def Let_def by simp

section \<open>Properties\<close>

text \<open>C36: every frame the observer expects is either complete or inferred lost: along any stream
  of sequence numbers, resets and duplicates included, the three 64-bit counters satisfy
  expected = complete + lost, and immediately repeated sequence numbers change nothing.\<close>

theorem frame_accounting:
  "expected_frames (fold observe xs default_runtime_state) =
     transport_complete_frames (fold observe xs default_runtime_state) +
     inferred_lost_frames (fold observe xs default_runtime_state) \<and>
   fold observe (remdups_adj xs) s = fold observe xs s"
  using fold_observe_accounted [of default_runtime_state xs]
  by (simp add: accounted_def default_runtime_state_def fold_observe_remdups)

text \<open>for a stream with increasing sequence numbers the inferred loss is exactly the number of
  missing numbers between the first and the last: expected is the length of that interval,
  complete the number of envelopes, and no sender reset is counted.\<close>

theorem increasing_stream_loss:
  assumes "sorted_wrt (<) (q # qs)"
  shows "expected_frames (fold observe (q # qs) default_runtime_state) = last (q # qs) - q + 1 \<and>
    transport_complete_frames (fold observe (q # qs) default_runtime_state) =
      of_nat (length (q # qs)) \<and>
    inferred_lost_frames (fold observe (q # qs) default_runtime_state) =
      last (q # qs) - q + 1 - of_nat (length (q # qs)) \<and>
    sequence_resets (fold observe (q # qs) default_runtime_state) = 0"
proof -
  let ?s = "observe q default_runtime_state"
  have s: "frame_sequence_initialized ?s" "last_frame_sequence ?s = q" "expected_frames ?s = 1"
    "transport_complete_frames ?s = 1" "sequence_resets ?s = 0" "accounted ?s"
    by (simp_all add: observe_defs default_runtime_state_def accounted_def)
  have "accounted (fold observe qs ?s)" by (rule fold_observe_accounted [OF s(6)])
  then have acc: "inferred_lost_frames (fold observe qs ?s) =
      expected_frames (fold observe qs ?s) - transport_complete_frames (fold observe qs ?s)"
    by (simp add: accounted_def)
  have "sorted_wrt (<) (last_frame_sequence ?s # qs)" using assms s(2) by simp
  from fold_observe_increasing [OF s(1) this]
  have run: "expected_frames (fold observe qs ?s) = 1 + (last (q # qs) - q)"
    "transport_complete_frames (fold observe qs ?s) = 1 + of_nat (length qs)"
    "sequence_resets (fold observe qs ?s) = 0"
    unfolding s by blast+
  show ?thesis unfolding fold_simps acc run by simp
qed

theorem increasing_stream_loss_witness:
  "inferred_lost_frames (fold observe [5, 6, 9] default_runtime_state) = 2 \<and>
   expected_frames (fold observe [5, 6, 9] default_runtime_state) = 5"
  using increasing_stream_loss [of 5 "[6, 9]"] by simp

text \<open>the metrics stay in their ranges: the stability score and both percentages lie between
  0 and 100, and rates and bandwidth are not negative, for any state with a positive rate window,
  whatever the clock says.\<close>

theorem metrics_in_range:
  assumes "0 < rate_window_sec state"
  shows "0 \<le> tm_stability_score (MakeTopicMetrics state now) \<and>
    tm_stability_score (MakeTopicMetrics state now) \<le> 100 \<and>
    0 \<le> tm_image_loss_rate_pct (MakeTopicMetrics state now) \<and>
    tm_image_loss_rate_pct (MakeTopicMetrics state now) \<le> 100 \<and>
    0 \<le> tm_complete_frame_success_rate_pct (MakeTopicMetrics state now) \<and>
    tm_complete_frame_success_rate_pct (MakeTopicMetrics state now) \<le> 100 \<and>
    0 \<le> tm_send_rate_hz (MakeTopicMetrics state now) \<and>
    0 \<le> tm_recv_rate_hz (MakeTopicMetrics state now) \<and>
    0 \<le> tm_bandwidth_kbps (MakeTopicMetrics state now)"
proof -
  have win: "0 < ComputeObservedWindow now start (rate_window_sec state)" for start
    using assms by (auto simp: ComputeObservedWindow_def Let_def)
  have clamp: "0 \<le> max 0 (min 100 x) \<and> max 0 (min 100 x) \<le> 100" for x :: real
    by (simp add: max_def min_def)
  have stab: "0 \<le> ComputeStability state a b \<and> ComputeStability state a b \<le> 100" for a b
  proof (cases "configured_rate_hz state \<le> 0")
    case True
    then show ?thesis by (simp add: ComputeStability_def)
  next
    case False
    then show ?thesis unfolding ComputeStability_def Let_def if_not_P [OF False] by (rule_tac clamp)
  qed
  have "0 \<le> tm_stability_score (MakeTopicMetrics state now) \<and>
      tm_stability_score (MakeTopicMetrics state now) \<le> 100"
    unfolding metrics_stability by (rule stab)
  moreover have "0 \<le> tm_image_loss_rate_pct (MakeTopicMetrics state now) \<and>
      tm_image_loss_rate_pct (MakeTopicMetrics state now) \<le> 100"
    by (simp add: metrics_loss)
  moreover have "0 \<le> tm_complete_frame_success_rate_pct (MakeTopicMetrics state now) \<and>
      tm_complete_frame_success_rate_pct (MakeTopicMetrics state now) \<le> 100"
    by (simp add: metrics_success)
  moreover have "0 \<le> tm_send_rate_hz (MakeTopicMetrics state now)"
    using win by (simp add: metrics_send_rate less_imp_le)
  moreover have "0 \<le> tm_recv_rate_hz (MakeTopicMetrics state now)"
    using win by (simp add: metrics_recv_rate less_imp_le)
  moreover have "0 \<le> tm_bandwidth_kbps (MakeTopicMetrics state now)"
    using win by (simp add: metrics_bandwidth Let_def less_imp_le)
  ultimately show ?thesis by blast
qed

theorem metrics_in_range_witness:
  "tm_stability_score (MakeTopicMetrics default_runtime_state 5) \<le> 100"
proof -
  have "0 < rate_window_sec default_runtime_state" by (simp add: default_runtime_state_def)
  from metrics_in_range [OF this] show ?thesis by blast
qed

end
