(* ===== verification/Topic_Stats.thy ===== *)
theory Topic_Stats
  imports Topic_Metrics
begin

text \<open>
  The metrics side of \<^verbatim>\<open>src/topic_factory.cpp\<close>: the record functions every topic end calls under
  \<^verbatim>\<open>metrics_mutex_\<close>, the sliding rate window, the JPEG quality controller and the latency
  filter.  The clock reading \<^verbatim>\<open>ros::Time::now()\<close> of each call is the argument \<open>now\<close>.  The
  controller reads four fields of the topic configuration, given here as \<open>QualityCfg\<close>; it adds and
  subtracts in C++ \<^verbatim>\<open>int\<close>, and its result is \<open>None\<close> where that overflows, which the language leaves
  undefined.
\<close>

section \<open>Operations\<close>

record QualityCfg =
  q_image :: bool
  q_min :: int
  q_max :: int
  q_step :: int

definition pruneMetricsWindowLocked :: "ros_time \<Rightarrow> TopicRuntimeState \<Rightarrow> TopicRuntimeState" where
  "pruneMetricsWindowLocked now s =
     (let max_age = rate_window_sec s;
          old = (\<lambda>t. secs_between now t > max_age)
      in s\<lparr>recent_send_times := dropWhile old (recent_send_times s),
           recent_recv_times := dropWhile old (recent_recv_times s),
           recent_send_bytes := dropWhile (\<lambda>i. old (fst i)) (recent_send_bytes s),
           recent_recv_bytes := dropWhile (\<lambda>i. old (fst i)) (recent_recv_bytes s)\<rparr>)"

text \<open>The measured bandwidth of lines 602 to 609.\<close>

definition send_bandwidth :: "ros_time \<Rightarrow> TopicRuntimeState \<Rightarrow> real" where
  "send_bandwidth now s =
     (let recent_bytes = sum_list (map snd (recent_send_bytes s));
          window = max 0.001 (secs_between now (fst (hd (recent_send_bytes s))))
      in dbl recent_bytes * 8 / 1000 / window)"

text \<open>A value of a C++ \<^verbatim>\<open>int\<close> expression.\<close>

definition cpp_int :: "int \<Rightarrow> int option" where
  "cpp_int i = (if int_range i then Some i else None)"

definition maybeAdaptImageQualityLocked ::
  "QualityCfg \<Rightarrow> ros_time \<Rightarrow> TopicRuntimeState \<Rightarrow> TopicRuntimeState option" where
  "maybeAdaptImageQualityLocked cfg now s =
     (if \<not> q_image cfg \<or> \<not> adaptive_quality_enabled s \<or> target_bandwidth_kbps s \<le> 0 \<or>
         length (recent_send_bytes s) < 2 \<or>
         total_sent s < last_adapt_total_sent s + ucast (adapt_cooldown_frames s)
      then Some s
      else
        let bandwidth = send_bandwidth now s;
            upper = target_bandwidth_kbps s * 1.15;
            lower = target_bandwidth_kbps s * 0.85;
            quality = sint (current_jpeg_quality s)
        in if bandwidth > upper \<and> quality > q_min cfg then
             do { reduced \<leftarrow> cpp_int (quality - q_step cfg);
                  Some (s\<lparr>current_jpeg_quality := word_of_int (max (q_min cfg) reduced),
                          last_adapt_total_sent := total_sent s\<rparr>) }
           else if bandwidth < lower \<and> quality < q_max cfg then
             do { raised \<leftarrow> cpp_int (quality + q_step cfg);
                  Some (s\<lparr>current_jpeg_quality := word_of_int (min (q_max cfg) raised),
                          last_adapt_total_sent := total_sent s\<rparr>) }
           else Some s)"

text \<open>The counters of a send, before the controller runs.\<close>

definition count_send :: "ros_time \<Rightarrow> u64 \<Rightarrow> TopicRuntimeState \<Rightarrow> TopicRuntimeState" where
  "count_send now bytes s =
     (let s = pruneMetricsWindowLocked now s
      in s\<lparr>total_sent := total_sent s + 1, total_send_bytes := total_send_bytes s + bytes,
            packet_size := ucast bytes, last_send_time := now,
            recent_send_times := recent_send_times s @ [now],
            recent_send_bytes := recent_send_bytes s @ [(now, bytes)]\<rparr>)"

definition recordSend ::
  "QualityCfg \<Rightarrow> ros_time \<Rightarrow> u64 \<Rightarrow> TopicRuntimeState \<Rightarrow> TopicRuntimeState option" where
  "recordSend cfg now bytes s = maybeAdaptImageQualityLocked cfg now (count_send now bytes s)"

definition recordDrop :: "TopicRuntimeState \<Rightarrow> TopicRuntimeState" where
  "recordDrop s = s\<lparr>dropped_messages := dropped_messages s + 1\<rparr>"

definition recordTransportQueueDrop :: "TopicRuntimeState \<Rightarrow> TopicRuntimeState" where
  "recordTransportQueueDrop s =
     s\<lparr>dropped_messages := dropped_messages s + 1,
       transport_queue_drops := transport_queue_drops s + 1\<rparr>"

definition recordCompleteImageEnvelope :: "u64 \<Rightarrow> TopicRuntimeState \<Rightarrow> TopicRuntimeState" where
  "recordCompleteImageEnvelope seq s = the (ObserveCompleteFrameSequence seq (Some s))"

definition computeLatencyStats :: "real \<Rightarrow> TopicRuntimeState option \<Rightarrow> TopicRuntimeState option" where
  "computeLatencyStats latency st =
     (case st of
        None \<Rightarrow> None
      | Some s \<Rightarrow>
          if latency < 0 then Some s
          else if total_received s \<le> 1 \<or> avg_latency_ms s \<le> 0 then
            Some (s\<lparr>avg_latency_ms := latency, jitter_ms := 0, last_latency_ms := latency\<rparr>)
          else
            let kAlpha = 0.2;
                s = s\<lparr>avg_latency_ms := avg_latency_ms s * (1 - kAlpha) + latency * kAlpha\<rparr>;
                s = (if last_latency_ms s \<ge> 0
                     then s\<lparr>jitter_ms := jitter_ms s * (1 - kAlpha) +
                              \<bar>latency - last_latency_ms s\<bar> * kAlpha\<rparr>
                     else s)
            in Some (s\<lparr>last_latency_ms := latency\<rparr>))"

definition recordReceive ::
  "ros_time \<Rightarrow> u64 \<Rightarrow> real \<Rightarrow> TopicRuntimeState \<Rightarrow> TopicRuntimeState" where
  "recordReceive now bytes latency s =
     (let s = pruneMetricsWindowLocked now s;
          s = s\<lparr>total_received := total_received s + 1, total_recv_bytes := total_recv_bytes s + bytes,
                packet_size := ucast bytes, last_recv_time := now,
                recent_recv_times := recent_recv_times s @ [now],
                recent_recv_bytes := recent_recv_bytes s @ [(now, bytes)]\<rparr>
      in the (computeLatencyStats latency (Some s)))"

definition inferLatencyMs :: "ros_time \<Rightarrow> u64 \<Rightarrow> real" where
  "inferLatencyMs now source_time_ns =
     (let src = sint source_time_ns in
      if src \<le> 0 then -1
      else
        let now_ns = int now
        in if now_ns < src then -1 else real_of_int (now_ns - src) / 1000000)"

definition GetMetricsSnapshot ::
  "ros_time \<Rightarrow> TopicRuntimeState \<Rightarrow> TopicMetrics \<times> TopicRuntimeState" where
  "GetMetricsSnapshot now s =
     (let s = pruneMetricsWindowLocked now s in (MakeTopicMetrics s now, s))"

section \<open>The rate window\<close>

text \<open>Pruning and recording only concern the window fields and the counters.\<close>

lemma maybeAdapt_shape:
  assumes "maybeAdaptImageQualityLocked c now s = Some s'"
  obtains q l where "s' = s\<lparr>current_jpeg_quality := q, last_adapt_total_sent := l\<rparr>"
proof -
  have "s' = s \<or> (\<exists>q l. s' = s\<lparr>current_jpeg_quality := q, last_adapt_total_sent := l\<rparr>)"
    using assms unfolding maybeAdaptImageQualityLocked_def Let_def bind_eq_Some_conv
    by (auto simp: bind_eq_Some_conv split: if_splits)
  moreover have "s = s\<lparr>current_jpeg_quality := current_jpeg_quality s,
      last_adapt_total_sent := last_adapt_total_sent s\<rparr>" by simp
  ultimately show thesis using that by metis
qed

lemma recordSend_window:
  assumes "recordSend c now b s = Some s'"
  shows "recent_send_times s' =
      dropWhile (\<lambda>t. secs_between now t > rate_window_sec s) (recent_send_times s) @ [now]"
    "rate_window_sec s' = rate_window_sec s" "total_sent s' = total_sent s + 1"
    "dropped_messages s' = dropped_messages s"
proof -
  obtain q l where s': "s' = (count_send now b s)\<lparr>current_jpeg_quality := q, last_adapt_total_sent := l\<rparr>"
    using maybeAdapt_shape [OF assms [unfolded recordSend_def]] by blast
  show "recent_send_times s' =
      dropWhile (\<lambda>t. secs_between now t > rate_window_sec s) (recent_send_times s) @ [now]"
    "rate_window_sec s' = rate_window_sec s" "total_sent s' = total_sent s + 1"
    "dropped_messages s' = dropped_messages s"
    by (simp_all add: s' count_send_def pruneMetricsWindowLocked_def Let_def)
qed

lemma recordReceive_counts [simp]:
  "total_received (recordReceive now b l s) = total_received s + 1"
  "dropped_messages (recordReceive now b l s) = dropped_messages s"
  "transport_queue_drops (recordReceive now b l s) = transport_queue_drops s"
  by (simp_all add: recordReceive_def computeLatencyStats_def pruneMetricsWindowLocked_def Let_def)

text \<open>On an ascending list of times, dropping the old prefix is filtering.\<close>

lemma dropWhile_old_filter:
  "sorted xs \<Longrightarrow> dropWhile (\<lambda>t. secs_between now t > w) xs = filter (\<lambda>t. secs_between now t \<le> w) xs"
proof (induction xs)
  case (Cons a xs)
  show ?case
  proof (cases "secs_between now a > w")
    case False
    have "secs_between now t \<le> w" if "t \<in> set xs" for t
    proof -
      have "a \<le> t" using Cons.prems that by auto
      then have "secs_between now t \<le> secs_between now a"
        by (simp add: secs_between_def divide_right_mono)
      then show ?thesis using False by linarith
    qed
    then show ?thesis using False by (simp add: filter_id_conv)
  qed (use Cons in simp)
qed simp

fun send_all ::
  "QualityCfg \<Rightarrow> (ros_time \<times> u64) list \<Rightarrow> TopicRuntimeState \<Rightarrow> TopicRuntimeState option" where
  "send_all c [] s = Some s"
| "send_all c ((now, b) # xs) s = do { s \<leftarrow> recordSend c now b s; send_all c xs s }"

lemma send_all_snoc:
  "send_all c (xs @ [(now, b)]) s = do { s \<leftarrow> send_all c xs s; recordSend c now b s }"
proof (induction c xs s rule: send_all.induct)
  case (2 c now' b' xs s)
  then show ?case by (cases "recordSend c now' b' s") simp_all
next
  case (1 c s)
  show ?case by (cases "recordSend c now b s") simp_all
qed

lemma send_all_keeps: "send_all c xs s = Some s' \<Longrightarrow> rate_window_sec s' = rate_window_sec s"
  by (induction c xs s rule: send_all.induct) (auto simp: bind_eq_Some_conv recordSend_window)

lemma send_all_window:
  assumes "recent_send_times s = []" and "0 \<le> rate_window_sec s"
  shows "sorted (map fst xs) \<Longrightarrow> send_all c xs s = Some s' \<Longrightarrow>
    recent_send_times s' =
      filter (\<lambda>t. secs_between (fst (last xs)) t \<le> rate_window_sec s) (map fst xs)"
proof (induction xs arbitrary: s' rule: rev_induct)
  case Nil
  then show ?case using assms by simp
next
  case (snoc x xs)
  obtain now b where x: "x = (now, b)" by (cases x)
  obtain s1 where s1: "send_all c xs s = Some s1" "recordSend c now b s1 = Some s'"
    using snoc.prems(2) by (auto simp: x send_all_snoc bind_eq_Some_conv)
  have sorted: "sorted (map fst xs)" and le: "\<And>t. t \<in> set (map fst xs) \<Longrightarrow> t \<le> now"
    using snoc.prems x by (auto simp: sorted_append)
  have mono: "secs_between (fst (last xs)) t \<le> secs_between now t" if "xs \<noteq> []" for t
    using le [of "fst (last xs)"] that by (simp add: secs_between_def divide_right_mono)
  let ?w = "rate_window_sec s"
  have "recent_send_times s' =
      dropWhile (\<lambda>t. secs_between now t > ?w)
        (filter (\<lambda>t. secs_between (fst (last xs)) t \<le> ?w) (map fst xs)) @ [now]"
    using snoc.IH [OF sorted s1(1)] recordSend_window(1) [OF s1(2)] send_all_keeps [OF s1(1)] by simp
  also have "dropWhile (\<lambda>t. secs_between now t > ?w)
        (filter (\<lambda>t. secs_between (fst (last xs)) t \<le> ?w) (map fst xs)) =
      filter (\<lambda>t. secs_between now t \<le> ?w) (map fst xs)"
  proof (cases "xs = []")
    case False
    then have "filter (\<lambda>t. secs_between now t \<le> ?w)
          (filter (\<lambda>t. secs_between (fst (last xs)) t \<le> ?w) (map fst xs)) =
        filter (\<lambda>t. secs_between now t \<le> ?w) (map fst xs)"
      using mono [OF False] by (auto simp: filter_filter intro!: filter_cong dest: order_trans)
    then show ?thesis using sorted by (simp add: dropWhile_old_filter sorted_filter [of id, simplified])
  qed simp
  finally show ?case using assms(2) by (simp add: x secs_between_def)
qed

section \<open>The quality controller\<close>

definition quality_in_range :: "QualityCfg \<Rightarrow> TopicRuntimeState \<Rightarrow> bool" where
  "quality_in_range c s \<longleftrightarrow>
     q_min c \<le> sint (current_jpeg_quality s) \<and> sint (current_jpeg_quality s) \<le> q_max c"

definition quality_cfg_ok :: "QualityCfg \<Rightarrow> bool" where
  "quality_cfg_ok c \<longleftrightarrow> 1 \<le> q_min c \<and> q_max c \<le> 100 \<and> 1 \<le> q_step c \<and> q_step c \<le> 2147483647"

lemma sint_u32: "- (2 ^ 31) \<le> v \<Longrightarrow> v < 2 ^ 31 \<Longrightarrow> sint (word_of_int v :: u32) = v"
  by (simp add: signed_of_int signed_take_bit_int_eq_self)

text \<open>When the controller raises the quality.\<close>

definition raises_quality :: "QualityCfg \<Rightarrow> ros_time \<Rightarrow> TopicRuntimeState \<Rightarrow> bool" where
  "raises_quality c now s \<longleftrightarrow>
     q_image c \<and> adaptive_quality_enabled s \<and> 0 < target_bandwidth_kbps s \<and>
     2 \<le> length (recent_send_bytes s) \<and>
     last_adapt_total_sent s + ucast (adapt_cooldown_frames s) \<le> total_sent s \<and>
     send_bandwidth now s < target_bandwidth_kbps s * 0.85 \<and> sint (current_jpeg_quality s) < q_max c"

lemma maybeAdapt_quality:
  assumes cfg: "quality_cfg_ok c" and r: "quality_in_range c s"
  shows "maybeAdaptImageQualityLocked c now s = Some s' \<Longrightarrow> quality_in_range c s'"
    "maybeAdaptImageQualityLocked c now s = None \<longleftrightarrow>
       raises_quality c now s \<and> 2147483647 < sint (current_jpeg_quality s) + q_step c"
proof -
  let ?q = "sint (current_jpeg_quality s)"
  have b: "q_min c \<le> ?q" "?q \<le> q_max c" "1 \<le> q_min c" "q_max c \<le> 100" "1 \<le> q_step c"
    "q_step c \<le> 2147483647"
    using cfg r by (simp_all add: quality_cfg_ok_def quality_in_range_def)
  have down: "sint (word_of_int (max (q_min c) (?q - q_step c)) :: u32) = max (q_min c) (?q - q_step c)"
    by (rule sint_u32) (use b in \<open>auto simp: max_def\<close>)
  have up: "sint (word_of_int (min (q_max c) (?q + q_step c)) :: u32) = min (q_max c) (?q + q_step c)"
    by (rule sint_u32) (use b in \<open>auto simp: min_def\<close>)
  have range: "q_min c \<le> max (q_min c) (?q - q_step c)" "max (q_min c) (?q - q_step c) \<le> q_max c"
    "q_min c \<le> min (q_max c) (?q + q_step c)" "min (q_max c) (?q + q_step c) \<le> q_max c"
    using b by (auto simp: max_def min_def)
  have sums: "cpp_int (?q - q_step c) = Some (?q - q_step c)"
    "cpp_int (?q + q_step c) = (if 2147483647 < ?q + q_step c then None else Some (?q + q_step c))"
    using b by (simp_all add: cpp_int_def int_range_def)
  show "quality_in_range c s'" if "maybeAdaptImageQualityLocked c now s = Some s'"
    using that r down up range unfolding maybeAdaptImageQualityLocked_def Let_def sums
    by (auto simp: quality_in_range_def split: if_splits)
  have low: "\<not> (target_bandwidth_kbps s * 1.15 < send_bandwidth now s)"
    if "0 < target_bandwidth_kbps s" "send_bandwidth now s < target_bandwidth_kbps s * 0.85"
    using that by simp
  show "maybeAdaptImageQualityLocked c now s = None \<longleftrightarrow>
       raises_quality c now s \<and> 2147483647 < ?q + q_step c"
    using low unfolding maybeAdaptImageQualityLocked_def Let_def sums raises_quality_def
    by (auto simp: not_le not_less)
qed

lemma count_send_quality [simp]: "current_jpeg_quality (count_send now b s) = current_jpeg_quality s"
  by (simp add: count_send_def pruneMetricsWindowLocked_def Let_def)

lemma recordSend_quality:
  assumes "quality_cfg_ok c" "quality_in_range c s"
  shows "recordSend c now b s = Some s' \<Longrightarrow> quality_in_range c s'"
    "recordSend c now b s = None \<longleftrightarrow> raises_quality c now (count_send now b s) \<and>
       2147483647 < sint (current_jpeg_quality s) + q_step c"
proof -
  have r: "quality_in_range c (count_send now b s)" using assms(2) by (simp add: quality_in_range_def)
  show "recordSend c now b s = Some s' \<Longrightarrow> quality_in_range c s'"
    unfolding recordSend_def by (rule maybeAdapt_quality(1) [OF assms(1) r])
  show "recordSend c now b s = None \<longleftrightarrow> raises_quality c now (count_send now b s) \<and>
       2147483647 < sint (current_jpeg_quality s) + q_step c"
    unfolding recordSend_def maybeAdapt_quality(2) [OF assms(1) r] by simp
qed

lemma send_all_quality:
  "quality_cfg_ok c \<Longrightarrow> quality_in_range c s \<Longrightarrow> send_all c xs s = Some s' \<Longrightarrow> quality_in_range c s'"
  by (induction c xs s rule: send_all.induct) (auto simp: bind_eq_Some_conv recordSend_quality(1))

lemma send_all_defined:
  assumes "quality_cfg_ok c" and "q_max c + q_step c \<le> 2147483647"
  shows "quality_in_range c s \<Longrightarrow> \<exists>s'. send_all c xs s = Some s'"
  using assms
proof (induction c xs s rule: send_all.induct)
  case (2 c now b xs s)
  have "recordSend c now b s \<noteq> None"
    unfolding recordSend_quality(2) [OF 2(3,2)] using 2(2,4) by (simp add: quality_in_range_def)
  then obtain s1 where "recordSend c now b s = Some s1" by auto
  then show ?case using 2 recordSend_quality(1) [OF 2(3,2)] by simp
qed simp

section \<open>The latency filter\<close>

fun receive_all :: "(ros_time \<times> u64 \<times> real) list \<Rightarrow> TopicRuntimeState \<Rightarrow> TopicRuntimeState" where
  "receive_all [] s = s"
| "receive_all ((now, b, l) # xs) s = receive_all xs (recordReceive now b l s)"

definition latency_bounded :: "real \<Rightarrow> TopicRuntimeState \<Rightarrow> bool" where
  "latency_bounded B s \<longleftrightarrow>
     0 \<le> avg_latency_ms s \<and> avg_latency_ms s \<le> B \<and> 0 \<le> jitter_ms s \<and> jitter_ms s \<le> B \<and>
     last_latency_ms s \<le> B"

lemma ema_bounds:
  fixes a b B :: real
  assumes "0 \<le> a" "a \<le> B" "0 \<le> b" "b \<le> B"
  shows "0 \<le> a * (1 - 0.2) + b * 0.2 \<and> a * (1 - 0.2) + b * 0.2 \<le> B"
  using assms by simp

lemma computeLatencyStats_bounded:
  assumes l: "l \<le> B" and s: "latency_bounded B s"
  shows "latency_bounded B (the (computeLatencyStats l (Some s)))"
proof (cases "l < 0 \<or> total_received s \<le> 1 \<or> avg_latency_ms s \<le> 0")
  case True
  then show ?thesis using assms by (auto simp: computeLatencyStats_def latency_bounded_def)
next
  case False
  have delta: "0 \<le> \<bar>l - last_latency_ms s\<bar> \<and> \<bar>l - last_latency_ms s\<bar> \<le> B"
    if "0 \<le> last_latency_ms s" using that assms False by (simp add: latency_bounded_def abs_if)
  have avg: "0 \<le> avg_latency_ms s * (1 - 0.2) + l * 0.2 \<and> avg_latency_ms s * (1 - 0.2) + l * 0.2 \<le> B"
    by (rule ema_bounds) (use assms False in \<open>simp_all add: latency_bounded_def\<close>)
  show ?thesis
  proof (cases "0 \<le> last_latency_ms s")
    case True
    have "0 \<le> jitter_ms s * (1 - 0.2) + \<bar>l - last_latency_ms s\<bar> * 0.2 \<and>
        jitter_ms s * (1 - 0.2) + \<bar>l - last_latency_ms s\<bar> * 0.2 \<le> B"
      by (rule ema_bounds) (use assms delta [OF True] in \<open>simp_all add: latency_bounded_def\<close>)
    then show ?thesis using False True avg l
      by (simp add: computeLatencyStats_def latency_bounded_def Let_def)
  next
    case neg: False
    then show ?thesis using False avg assms
      by (simp add: computeLatencyStats_def latency_bounded_def Let_def)
  qed
qed

lemma recordReceive_bounded:
  assumes "l \<le> B" "latency_bounded B s"
  shows "latency_bounded B (recordReceive now b l s)"
  unfolding recordReceive_def Let_def
  by (rule computeLatencyStats_bounded [OF assms(1)])
     (use assms(2) in \<open>simp add: latency_bounded_def pruneMetricsWindowLocked_def Let_def\<close>)

lemma receive_all_bounded:
  "latency_bounded B s \<Longrightarrow> list_all (\<lambda>x. snd (snd x) \<le> B) xs \<Longrightarrow> latency_bounded B (receive_all xs s)"
  by (induction xs s rule: receive_all.induct) (simp_all add: recordReceive_bounded)

section \<open>Properties\<close>

text \<open>C38: The adaptive JPEG quality never leaves the configured interval: starting inside it, any
  sequence of sends, at any times and sizes, ends inside it, unless a sum of C++ integers overflows.
  That happens at exactly those sends whose measured bandwidth is low enough to raise the quality while
  the configured step takes it beyond the range of \<^verbatim>\<open>int\<close>, and never when the largest quality plus the
  step is in that range.\<close>

theorem adaptive_quality_bounds:
  assumes "quality_cfg_ok c" and "quality_in_range c s"
  shows "(\<forall>s'. send_all c xs s = Some s' \<longrightarrow>
       q_min c \<le> sint (current_jpeg_quality s') \<and> sint (current_jpeg_quality s') \<le> q_max c) \<and>
    (send_all c (xs @ [(now, b)]) s = None \<longleftrightarrow>
       (case send_all c xs s of
          None \<Rightarrow> True
        | Some s' \<Rightarrow> raises_quality c now (count_send now b s') \<and>
            2147483647 < sint (current_jpeg_quality s') + q_step c)) \<and>
    (q_max c + q_step c \<le> 2147483647 \<longrightarrow> send_all c xs s \<noteq> None)"
proof -
  have "send_all c (xs @ [(now, b)]) s = None \<longleftrightarrow> raises_quality c now (count_send now b s') \<and>
      2147483647 < sint (current_jpeg_quality s') + q_step c" if "send_all c xs s = Some s'" for s'
    using recordSend_quality(2) [OF assms(1) send_all_quality [OF assms that]]
    by (simp add: send_all_snoc that)
  then show ?thesis
    using send_all_quality [OF assms, of xs] send_all_defined [OF assms(1) _ assms(2), of xs]
    by (auto simp: quality_in_range_def send_all_snoc split: option.split)
qed

text \<open>Two small images on an idle link: the second raises the quality, and with a step of the largest
  \<^verbatim>\<open>int\<close> the sum overflows.\<close>

theorem adaptive_quality_bounds_witness:
  "let c = \<lparr>q_image = True, q_min = 45, q_max = 90, q_step = 2147483647\<rparr>;
       s = default_runtime_state\<lparr>current_jpeg_quality := 80, adaptive_quality_enabled := True,
             target_bandwidth_kbps := 1000, adapt_cooldown_frames := 0\<rparr>
   in quality_in_range c s \<and> send_all c [(1, 7)] s \<noteq> None \<and> send_all c ([(1, 7)] @ [(1000000001, 8)]) s = None"
proof -
  let ?c = "\<lparr>q_image = True, q_min = 45, q_max = 90, q_step = 2147483647\<rparr>"
  let ?s = "default_runtime_state\<lparr>current_jpeg_quality := 80, adaptive_quality_enabled := True,
             target_bandwidth_kbps := 1000, adapt_cooldown_frames := 0\<rparr>"
  have ok: "quality_cfg_ok ?c" "quality_in_range ?c ?s"
    by (simp_all add: quality_cfg_ok_def quality_in_range_def)
  have s1: "send_all ?c [(1, 7)] ?s = Some (count_send 1 7 ?s)"
    by (simp add: recordSend_def maybeAdaptImageQualityLocked_def count_send_def
        pruneMetricsWindowLocked_def default_runtime_state_def)
  have "raises_quality ?c 1000000001 (count_send 1000000001 8 (count_send 1 7 ?s))"
    by (simp add: raises_quality_def send_bandwidth_def count_send_def pruneMetricsWindowLocked_def
        default_runtime_state_def Let_def secs_between_def dbl_def)
  then have "send_all ?c ([(1, 7)] @ [(1000000001, 8)]) ?s = None"
    using adaptive_quality_bounds [OF ok, of "[(1, 7)]" 1000000001 8] unfolding s1 by simp
  then show ?thesis unfolding Let_def using ok s1 by simp
qed

text \<open>the sliding window of a sender is exact: after sends at non-decreasing times it holds,
  in order, exactly the send times at most \<open>rate_window_sec\<close> older than the last one.\<close>

theorem send_window_exact:
  assumes "recent_send_times s = []" and "0 \<le> rate_window_sec s" and "sorted (map fst xs)"
    and "send_all c xs s = Some s'"
  shows "recent_send_times s' =
    filter (\<lambda>t. secs_between (fst (last xs)) t \<le> rate_window_sec s) (map fst xs)"
  using assms by (rule send_all_window)

theorem send_window_exact_witness:
  "\<exists>s'. send_all \<lparr>q_image = False, q_min = 1, q_max = 2, q_step = 1\<rparr>
     [(1, 10), (2000000000, 10), (4000000000, 10)] default_runtime_state = Some s' \<and>
     recent_send_times s' = [2000000000, 4000000000]"
proof -
  obtain s' where s': "send_all \<lparr>q_image = False, q_min = 1, q_max = 2, q_step = 1\<rparr>
     [(1, 10), (2000000000, 10), (4000000000, 10)] default_runtime_state = Some s'"
    by (simp add: recordSend_def maybeAdaptImageQualityLocked_def)
  have "recent_send_times default_runtime_state = []" "0 \<le> rate_window_sec default_runtime_state"
    "rate_window_sec default_runtime_state = 3"
    by (simp_all add: default_runtime_state_def)
  then show ?thesis
    using send_window_exact [OF _ _ _ s'] s' by (auto simp: secs_between_def)
qed

text \<open>the latency filter stays between the extremes of its input: if no latency sample exceeds
  \<open>B\<close>, the filtered latency and the jitter stay in \<open>[0, B]\<close> along any run (unknown latencies,
  reported as -1, are skipped).\<close>

theorem latency_filter_bounds:
  assumes "0 \<le> B" and "list_all (\<lambda>x. snd (snd x) \<le> B) xs"
  shows "0 \<le> avg_latency_ms (receive_all xs default_runtime_state) \<and>
    avg_latency_ms (receive_all xs default_runtime_state) \<le> B \<and>
    0 \<le> jitter_ms (receive_all xs default_runtime_state) \<and>
    jitter_ms (receive_all xs default_runtime_state) \<le> B"
proof -
  have "latency_bounded B default_runtime_state"
    using assms(1) by (simp add: latency_bounded_def default_runtime_state_def)
  from receive_all_bounded [OF this assms(2)] show ?thesis
    by (simp add: latency_bounded_def)
qed

theorem latency_filter_bounds_witness:
  "avg_latency_ms (receive_all [(5, 9, 12), (6, 9, -1), (7, 9, 20)] default_runtime_state) \<le> 20"
  using latency_filter_bounds [of 20 "[(5, 9, 12), (6, 9, -1), (7, 9, 20)]"] by simp

end
