(* ===== verification/Image_Encodings.thy ===== *)
theory Image_Encodings
  imports Prelude
begin

text \<open>
  Image encodings in \<^verbatim>\<open>cv_bridge.cpp\<close> (the copy of the ROS package under
  \<^verbatim>\<open>src/cv_bridge_noetic_fit_version\<close>): the OpenCV type of an encoding and the colour conversions
  between two encodings.  The predicates of \<^verbatim>\<open>sensor_msgs::image_encodings\<close> (number of channels, bit
  depth, colour, mono, Bayer, alpha) are not part of the repository: they are the parameter
  \<open>EncLib\<close>, and \<open>documented\<close> states what they say of the encodings that ROS defines.
\<close>

section \<open>Names\<close>

abbreviation enc_BGR8 :: string where "enc_BGR8 \<equiv> ''bgr8''"
abbreviation enc_RGB8 :: string where "enc_RGB8 \<equiv> ''rgb8''"
abbreviation enc_BGRA8 :: string where "enc_BGRA8 \<equiv> ''bgra8''"
abbreviation enc_RGBA8 :: string where "enc_RGBA8 \<equiv> ''rgba8''"
abbreviation enc_MONO8 :: string where "enc_MONO8 \<equiv> ''mono8''"
abbreviation enc_BGR16 :: string where "enc_BGR16 \<equiv> ''bgr16''"
abbreviation enc_RGB16 :: string where "enc_RGB16 \<equiv> ''rgb16''"
abbreviation enc_BGRA16 :: string where "enc_BGRA16 \<equiv> ''bgra16''"
abbreviation enc_RGBA16 :: string where "enc_RGBA16 \<equiv> ''rgba16''"
abbreviation enc_MONO16 :: string where "enc_MONO16 \<equiv> ''mono16''"
abbreviation enc_BAYER_RGGB8 :: string where "enc_BAYER_RGGB8 \<equiv> ''bayer_rggb8''"
abbreviation enc_BAYER_BGGR8 :: string where "enc_BAYER_BGGR8 \<equiv> ''bayer_bggr8''"
abbreviation enc_BAYER_GBRG8 :: string where "enc_BAYER_GBRG8 \<equiv> ''bayer_gbrg8''"
abbreviation enc_BAYER_GRBG8 :: string where "enc_BAYER_GRBG8 \<equiv> ''bayer_grbg8''"
abbreviation enc_BAYER_RGGB16 :: string where "enc_BAYER_RGGB16 \<equiv> ''bayer_rggb16''"
abbreviation enc_BAYER_BGGR16 :: string where "enc_BAYER_BGGR16 \<equiv> ''bayer_bggr16''"
abbreviation enc_BAYER_GBRG16 :: string where "enc_BAYER_GBRG16 \<equiv> ''bayer_gbrg16''"
abbreviation enc_BAYER_GRBG16 :: string where "enc_BAYER_GRBG16 \<equiv> ''bayer_grbg16''"
abbreviation enc_YUV422 :: string where "enc_YUV422 \<equiv> ''yuv422''"

record EncLib =
  numChannels :: "string \<Rightarrow> string + int"
  bitDepth :: "string \<Rightarrow> string + int"
  isColor :: "string \<Rightarrow> bool"
  isMono :: "string \<Rightarrow> bool"
  isBayer :: "string \<Rightarrow> bool"
  hasAlpha :: "string \<Rightarrow> bool"

text \<open>An exception of the library or of \<^verbatim>\<open>cv_bridge\<close>, as a result that may also be undefined.\<close>

definition thrown_by :: "string + 'a \<Rightarrow> failure + 'a" where
  "thrown_by r = map_sum Throws id r"

lemma thrown_by_simps [simp]: "thrown_by (Inl e) = Inl (Throws e)" "thrown_by (Inr x) = Inr x"
  by (simp_all add: thrown_by_def)

lemma thrown_by_Inr [simp]: "thrown_by r = Inr x \<longleftrightarrow> r = Inr x"
  by (cases r) simp_all

lemma thrown_by_Undefined [simp]: "thrown_by r \<noteq> Inl Undefined"
  by (cases r) simp_all

section \<open>OpenCV types\<close>

text \<open>The \<^verbatim>\<open>int\<close> that OpenCV packs a depth and a channel count into, with the macros that take it
  apart: three bits of depth below nine bits of channels less one.\<close>

definition CV_MAKETYPE :: "int \<Rightarrow> int \<Rightarrow> int" where
  "CV_MAKETYPE depth cn = depth mod 8 + (cn - 1) * 8"

definition CV_MAT_DEPTH :: "int \<Rightarrow> int" where
  "CV_MAT_DEPTH t = t mod 8"

definition CV_MAT_CN :: "int \<Rightarrow> int" where
  "CV_MAT_CN t = t div 8 mod 512 + 1"

lemma CV_MAT_DEPTH_make [simp]: "CV_MAT_DEPTH (CV_MAKETYPE d n) = d mod 8"
  by (simp only: CV_MAT_DEPTH_def CV_MAKETYPE_def mod_mult_self1 mod_mod_trivial)

lemma CV_MAKETYPE_mod [simp]: "CV_MAKETYPE (d mod 8) n = CV_MAKETYPE d n"
  by (simp add: CV_MAKETYPE_def)

lemma CV_MAT_DEPTH_mod [simp]: "CV_MAT_DEPTH t mod 8 = CV_MAT_DEPTH t"
  by (simp add: CV_MAT_DEPTH_def)

lemma CV_MAKETYPE_eq: "CV_MAKETYPE d n = CV_MAKETYPE d' n \<longleftrightarrow> d mod 8 = d' mod 8"
  by (simp add: CV_MAKETYPE_def)

lemma CV_MAT_CN_make: "CV_MAT_CN (CV_MAKETYPE d n) = (n - 1) mod 512 + 1"
proof -
  have "d mod 8 div 8 = 0" by simp
  then have "(d mod 8 + (n - 1) * 8) div 8 = n - 1" by simp
  then show ?thesis by (simp add: CV_MAT_CN_def CV_MAKETYPE_def)
qed

lemma CV_MAT_CN_small [simp]: "1 \<le> n \<Longrightarrow> n \<le> 512 \<Longrightarrow> CV_MAT_CN (CV_MAKETYPE d n) = n"
  by (simp add: CV_MAT_CN_make)

lemma CV_MAT_CN_pos: "1 \<le> CV_MAT_CN t"
  by (simp add: CV_MAT_CN_def)

definition depth_bytes :: "int \<Rightarrow> int" where
  "depth_bytes d = (if d < 2 then 1 else if d < 4 then 2 else if d < 6 then 4 else if d = 6 then 8 else 2)"

definition depthStrToInt :: "string \<Rightarrow> int" where
  "depthStrToInt depth =
     (if depth = ''8U'' then 0 else if depth = ''8S'' then 1 else if depth = ''16U'' then 2
      else if depth = ''16S'' then 3 else if depth = ''32S'' then 4 else if depth = ''32F'' then 5
      else 6)"

text \<open>The two regular expressions: a depth, alone or followed by \<open>C\<close> and a decimal number.\<close>

definition depth_names :: "string list" where
  "depth_names = [''8U'', ''8S'', ''16U'', ''16S'', ''32S'', ''32F'', ''64F'']"

definition match_generic :: "string \<Rightarrow> (string \<times> string) option" where
  "match_generic s =
     (case find (\<lambda>d. starts_with (d @ ''C'') s) depth_names of
        None \<Rightarrow> None
      | Some d \<Rightarrow> (let ds = drop (Suc (length d)) s
                   in if ds \<noteq> [] \<and> list_all is_digit ds then Some (d, ds) else None))"

definition c_str :: "string \<Rightarrow> string" where
  "c_str s = takeWhile (\<lambda>c. of_char c \<noteq> (0 :: nat)) s"

definition getCvType :: "string \<Rightarrow> failure + int" where
  "getCvType encoding =
     (if encoding = enc_BGR8 then Inr (CV_MAKETYPE 0 3)
      else if encoding = enc_MONO8 then Inr (CV_MAKETYPE 0 1)
      else if encoding = enc_RGB8 then Inr (CV_MAKETYPE 0 3)
      else if encoding = enc_MONO16 then Inr (CV_MAKETYPE 2 1)
      else if encoding = enc_BGR16 then Inr (CV_MAKETYPE 2 3)
      else if encoding = enc_RGB16 then Inr (CV_MAKETYPE 2 3)
      else if encoding = enc_BGRA8 then Inr (CV_MAKETYPE 0 4)
      else if encoding = enc_RGBA8 then Inr (CV_MAKETYPE 0 4)
      else if encoding = enc_BGRA16 then Inr (CV_MAKETYPE 2 4)
      else if encoding = enc_RGBA16 then Inr (CV_MAKETYPE 2 4)
      else if encoding = enc_BAYER_RGGB8 then Inr (CV_MAKETYPE 0 1)
      else if encoding = enc_BAYER_BGGR8 then Inr (CV_MAKETYPE 0 1)
      else if encoding = enc_BAYER_GBRG8 then Inr (CV_MAKETYPE 0 1)
      else if encoding = enc_BAYER_GRBG8 then Inr (CV_MAKETYPE 0 1)
      else if encoding = enc_BAYER_RGGB16 then Inr (CV_MAKETYPE 2 1)
      else if encoding = enc_BAYER_BGGR16 then Inr (CV_MAKETYPE 2 1)
      else if encoding = enc_BAYER_GBRG16 then Inr (CV_MAKETYPE 2 1)
      else if encoding = enc_BAYER_GRBG16 then Inr (CV_MAKETYPE 2 1)
      else if encoding = enc_YUV422 then Inr (CV_MAKETYPE 0 2)
      else
        (case match_generic (c_str encoding) of
           Some (depth, count) \<Rightarrow>
             bindR (atoi count) (\<lambda>n. Inr (CV_MAKETYPE (depthStrToInt depth) n))
         | None \<Rightarrow>
             if c_str encoding \<in> set depth_names then Inr (CV_MAKETYPE (depthStrToInt (c_str encoding)) 1)
             else Inl (Throws (''Unrecognized image encoding ['' @ encoding @ '']''))))"

section \<open>Colour conversions\<close>

datatype Encoding =
    INVALID | GRAY | RGB | BGR | RGBA | BGRA | YUV422
  | BAYER_RGGB | BAYER_BGGR | BAYER_GBRG | BAYER_GRBG

definition getEncoding :: "string \<Rightarrow> Encoding" where
  "getEncoding encoding =
     (if encoding = enc_MONO8 \<or> encoding = enc_MONO16 then GRAY
      else if encoding = enc_BGR8 \<or> encoding = enc_BGR16 then BGR
      else if encoding = enc_RGB8 \<or> encoding = enc_RGB16 then RGB
      else if encoding = enc_BGRA8 \<or> encoding = enc_BGRA16 then BGRA
      else if encoding = enc_RGBA8 \<or> encoding = enc_RGBA16 then RGBA
      else if encoding = enc_YUV422 then YUV422
      else if encoding = enc_BAYER_RGGB8 \<or> encoding = enc_BAYER_RGGB16 then BAYER_RGGB
      else if encoding = enc_BAYER_BGGR8 \<or> encoding = enc_BAYER_BGGR16 then BAYER_BGGR
      else if encoding = enc_BAYER_GBRG8 \<or> encoding = enc_BAYER_GBRG16 then BAYER_GBRG
      else if encoding = enc_BAYER_GRBG8 \<or> encoding = enc_BAYER_GRBG16 then BAYER_GRBG
      else INVALID)"

text \<open>The conversion codes of OpenCV that the table names, and \<^verbatim>\<open>SAME_FORMAT\<close>.\<close>

datatype ConversionCode =
    SAME_FORMAT
  | COLOR_GRAY2RGB | COLOR_GRAY2BGR | COLOR_GRAY2RGBA | COLOR_GRAY2BGRA
  | COLOR_RGB2GRAY | COLOR_RGB2BGR | COLOR_RGB2RGBA | COLOR_RGB2BGRA
  | COLOR_BGR2GRAY | COLOR_BGR2RGB | COLOR_BGR2RGBA | COLOR_BGR2BGRA
  | COLOR_RGBA2GRAY | COLOR_RGBA2RGB | COLOR_RGBA2BGR | COLOR_RGBA2BGRA
  | COLOR_BGRA2GRAY | COLOR_BGRA2RGB | COLOR_BGRA2BGR | COLOR_BGRA2RGBA
  | COLOR_YUV2GRAY_UYVY | COLOR_YUV2RGB_UYVY | COLOR_YUV2BGR_UYVY | COLOR_YUV2RGBA_UYVY
  | COLOR_YUV2BGRA_UYVY
  | COLOR_BayerBG2GRAY | COLOR_BayerBG2RGB | COLOR_BayerBG2BGR
  | COLOR_BayerRG2GRAY | COLOR_BayerRG2RGB | COLOR_BayerRG2BGR
  | COLOR_BayerGR2GRAY | COLOR_BayerGR2RGB | COLOR_BayerGR2BGR
  | COLOR_BayerGB2GRAY | COLOR_BayerGB2RGB | COLOR_BayerGB2BGR

definition getConversionCodes :: "((Encoding \<times> Encoding) \<times> ConversionCode list) list" where
  "getConversionCodes =
     map (\<lambda>i. ((i, i), [SAME_FORMAT])) [GRAY, RGB, BGR, RGBA, BGRA, YUV422] @
     [((GRAY, RGB), [COLOR_GRAY2RGB]), ((GRAY, BGR), [COLOR_GRAY2BGR]),
      ((GRAY, RGBA), [COLOR_GRAY2RGBA]), ((GRAY, BGRA), [COLOR_GRAY2BGRA]),
      ((RGB, GRAY), [COLOR_RGB2GRAY]), ((RGB, BGR), [COLOR_RGB2BGR]),
      ((RGB, RGBA), [COLOR_RGB2RGBA]), ((RGB, BGRA), [COLOR_RGB2BGRA]),
      ((BGR, GRAY), [COLOR_BGR2GRAY]), ((BGR, RGB), [COLOR_BGR2RGB]),
      ((BGR, RGBA), [COLOR_BGR2RGBA]), ((BGR, BGRA), [COLOR_BGR2BGRA]),
      ((RGBA, GRAY), [COLOR_RGBA2GRAY]), ((RGBA, RGB), [COLOR_RGBA2RGB]),
      ((RGBA, BGR), [COLOR_RGBA2BGR]), ((RGBA, BGRA), [COLOR_RGBA2BGRA]),
      ((BGRA, GRAY), [COLOR_BGRA2GRAY]), ((BGRA, RGB), [COLOR_BGRA2RGB]),
      ((BGRA, BGR), [COLOR_BGRA2BGR]), ((BGRA, RGBA), [COLOR_BGRA2RGBA]),
      ((YUV422, GRAY), [COLOR_YUV2GRAY_UYVY]), ((YUV422, RGB), [COLOR_YUV2RGB_UYVY]),
      ((YUV422, BGR), [COLOR_YUV2BGR_UYVY]), ((YUV422, RGBA), [COLOR_YUV2RGBA_UYVY]),
      ((YUV422, BGRA), [COLOR_YUV2BGRA_UYVY]),
      ((BAYER_RGGB, GRAY), [COLOR_BayerBG2GRAY]), ((BAYER_RGGB, RGB), [COLOR_BayerBG2RGB]),
      ((BAYER_RGGB, BGR), [COLOR_BayerBG2BGR]),
      ((BAYER_BGGR, GRAY), [COLOR_BayerRG2GRAY]), ((BAYER_BGGR, RGB), [COLOR_BayerRG2RGB]),
      ((BAYER_BGGR, BGR), [COLOR_BayerRG2BGR]),
      ((BAYER_GBRG, GRAY), [COLOR_BayerGR2GRAY]), ((BAYER_GBRG, RGB), [COLOR_BayerGR2RGB]),
      ((BAYER_GBRG, BGR), [COLOR_BayerGR2BGR]),
      ((BAYER_GRBG, GRAY), [COLOR_BayerGB2GRAY]), ((BAYER_GRBG, RGB), [COLOR_BayerGB2RGB]),
      ((BAYER_GRBG, BGR), [COLOR_BayerGB2BGR])]"

definition color_format :: "EncLib \<Rightarrow> string \<Rightarrow> bool" where
  "color_format E e \<longleftrightarrow> isColor E e \<or> isMono E e \<or> isBayer E e \<or> e = enc_YUV422"

definition getConversionCode :: "EncLib \<Rightarrow> string \<Rightarrow> string \<Rightarrow> string + ConversionCode list" where
  "getConversionCode E src_encoding dst_encoding =
     (let src_encod = getEncoding src_encoding; dst_encod = getEncoding dst_encoding;
          is_src_color_format = color_format E src_encoding;
          is_dst_color_format = color_format E dst_encoding
      in bindR (numChannels E src_encoding) (\<lambda>src_channels.
         bindR (numChannels E dst_encoding) (\<lambda>dst_channels.
           let is_num_channels_the_same = (src_channels = dst_channels)
           in if \<not> is_src_color_format then
                (if is_dst_color_format then
                   Inl (''['' @ src_encoding @ ''] is not a color format. but ['' @ dst_encoding @
                        ''] is. The conversion does not make sense'')
                 else if \<not> is_num_channels_the_same then
                   Inl (''['' @ src_encoding @ ''] and ['' @ dst_encoding @
                        ''] do not have the same number of channel'')
                 else Inr [SAME_FORMAT])
              else if \<not> is_dst_color_format then
                (if \<not> is_num_channels_the_same then
                   Inl (''['' @ src_encoding @ ''] is a color format but ['' @ dst_encoding @
                        ''] is not so they must have the same OpenCV type, CV_8UC3, CV16UC1 ....'')
                 else Inr [SAME_FORMAT])
              else
                (case map_of getConversionCodes (src_encod, dst_encod) of
                   None \<Rightarrow> Inl (''Unsupported conversion from ['' @ src_encoding @ ''] to ['' @
                                dst_encoding @ '']'')
                 | Some codes \<Rightarrow>
                     bindR (bitDepth E src_encoding) (\<lambda>src_depth.
                     bindR (bitDepth E dst_encoding) (\<lambda>dst_depth.
                       Inr (if src_depth \<noteq> dst_depth \<and> src_encod \<noteq> dst_encod
                            then codes @ [SAME_FORMAT] else codes)))))))"

section \<open>What the encodings are\<close>

datatype EncKind = KMono | KColor | KColorAlpha | KBayer | KYuv | KGeneric

definition enc_table :: "(string \<times> (EncKind \<times> int \<times> int)) list" where
  "enc_table =
     [(enc_MONO8, (KMono, 1, 8)), (enc_MONO16, (KMono, 1, 16)),
      (enc_BGR8, (KColor, 3, 8)), (enc_RGB8, (KColor, 3, 8)),
      (enc_BGR16, (KColor, 3, 16)), (enc_RGB16, (KColor, 3, 16)),
      (enc_BGRA8, (KColorAlpha, 4, 8)), (enc_RGBA8, (KColorAlpha, 4, 8)),
      (enc_BGRA16, (KColorAlpha, 4, 16)), (enc_RGBA16, (KColorAlpha, 4, 16)),
      (enc_BAYER_RGGB8, (KBayer, 1, 8)), (enc_BAYER_BGGR8, (KBayer, 1, 8)),
      (enc_BAYER_GBRG8, (KBayer, 1, 8)), (enc_BAYER_GRBG8, (KBayer, 1, 8)),
      (enc_BAYER_RGGB16, (KBayer, 1, 16)), (enc_BAYER_BGGR16, (KBayer, 1, 16)),
      (enc_BAYER_GBRG16, (KBayer, 1, 16)), (enc_BAYER_GRBG16, (KBayer, 1, 16)),
      (enc_YUV422, (KYuv, 2, 8))]"

definition depth_bits :: "string \<Rightarrow> int" where
  "depth_bits d = 8 * depth_bytes (depthStrToInt d)"

text \<open>An encoding that ROS defines: its kind, channels and bits per channel.\<close>

definition enc_entry :: "string \<Rightarrow> (EncKind \<times> int \<times> int) option" where
  "enc_entry e =
     (case map_of enc_table e of
        Some x \<Rightarrow> Some x
      | None \<Rightarrow>
          (case match_generic e of
             Some (d, ds) \<Rightarrow> (case atoi ds of Inr n \<Rightarrow> Some (KGeneric, n, depth_bits d) | _ \<Rightarrow> None)
           | None \<Rightarrow> if e \<in> set depth_names then Some (KGeneric, 1, depth_bits e) else None))"

definition documented :: "EncLib \<Rightarrow> bool" where
  "documented E \<longleftrightarrow>
     (\<forall>e kind n bits. enc_entry e = Some (kind, n, bits) \<longrightarrow>
        numChannels E e = Inr n \<and> bitDepth E e = Inr bits \<and>
        isColor E e = (kind = KColor \<or> kind = KColorAlpha) \<and> isMono E e = (kind = KMono) \<and>
        isBayer E e = (kind = KBayer) \<and> hasAlpha E e = (kind = KColorAlpha))"

definition plain_enc :: EncLib where
  "plain_enc =
     \<lparr>numChannels = (\<lambda>e. case enc_entry e of Some (_, n, _) \<Rightarrow> Inr n | None \<Rightarrow> Inl ''Unknown encoding''),
      bitDepth = (\<lambda>e. case enc_entry e of Some (_, _, b) \<Rightarrow> Inr b | None \<Rightarrow> Inl ''Unknown encoding''),
      isColor = (\<lambda>e. case enc_entry e of Some (k, _, _) \<Rightarrow> k = KColor \<or> k = KColorAlpha | None \<Rightarrow> False),
      isMono = (\<lambda>e. case enc_entry e of Some (k, _, _) \<Rightarrow> k = KMono | None \<Rightarrow> False),
      isBayer = (\<lambda>e. case enc_entry e of Some (k, _, _) \<Rightarrow> k = KBayer | None \<Rightarrow> False),
      hasAlpha = (\<lambda>e. case enc_entry e of Some (k, _, _) \<Rightarrow> k = KColorAlpha | None \<Rightarrow> False)\<rparr>"

lemma documented_plain: "documented plain_enc"
  by (simp add: documented_def plain_enc_def)

end
