(* ===== verification/Cv_Bridge.thy ===== *)
theory Cv_Bridge
  imports Image_Encodings Cloud_Storage
begin

text \<open>
  Images between ROS and OpenCV: \<^verbatim>\<open>cv_bridge.cpp\<close> and \<^verbatim>\<open>cv_bridge.h\<close>.  A \<^verbatim>\<open>cv::Mat\<close> is a view: its
  dimensions, its type, the distance between its rows and the bytes from its data pointer to the end
  of the memory it may read, which for a shared matrix is the data of the ROS message.  OpenCV itself
  is the parameter \<open>CvLib\<close>.  Handing OpenCV a view that reaches beyond its memory is \<open>Undefined\<close>.
\<close>

section \<open>Messages and matrices\<close>

record RosImage =
  im_header :: Header
  im_height :: u32
  im_width :: u32
  im_encoding :: string
  im_is_bigendian :: byte
  im_step :: u32
  im_data :: bytes

record Mat =
  mat_rows :: int
  mat_cols :: int
  mat_type :: int
  mat_step :: nat
  mat_data :: bytes

record CvImage =
  cvi_header :: Header
  cvi_encoding :: string
  cvi_image :: Mat

record CompressedImage =
  cmp_header :: Header
  cmp_format :: string
  cmp_data :: bytes

text \<open>The constructor of \<^verbatim>\<open>cv::Mat\<close> over foreign memory may refuse its arguments; \<^verbatim>\<open>mixChannels\<close>
  fills a new matrix of the size and type of its source; \<^verbatim>\<open>imencode\<close> throws, returns false
  (\<open>Inr None\<close>) or yields bytes.\<close>

record CvLib =
  native_big :: bool
  enc :: EncLib
  mat_accepted :: "int \<Rightarrow> int \<Rightarrow> int \<Rightarrow> nat \<Rightarrow> bool"
  mixChannels :: "Mat \<Rightarrow> (int \<times> int) list \<Rightarrow> Mat"
  lib_cvtColor :: "ConversionCode \<Rightarrow> Mat \<Rightarrow> string + Mat"
  convertTo :: "Mat \<Rightarrow> int \<Rightarrow> real \<Rightarrow> Mat"
  cv_resize :: "Mat \<Rightarrow> int \<Rightarrow> int \<Rightarrow> string + Mat"
  imencode :: "string \<Rightarrow> Mat \<Rightarrow> int option \<Rightarrow> string + bytes option"
  imdecode_color :: "bytes \<Rightarrow> string + Mat"
  imdecode_unchanged :: "bytes \<Rightarrow> string + Mat"

definition elemSize :: "int \<Rightarrow> nat" where
  "elemSize t = nat (CV_MAT_CN t * depth_bytes (CV_MAT_DEPTH t))"

definition row_size :: "Mat \<Rightarrow> nat" where
  "row_size m = nat (mat_cols m) * elemSize (mat_type m)"

definition readable :: "Mat \<Rightarrow> bool" where
  "readable m \<longleftrightarrow> mat_rows m \<le> 0 \<or> mat_cols m \<le> 0 \<or>
     (nat (mat_rows m) - 1) * mat_step m + row_size m \<le> length (mat_data m)"

definition mat_row :: "Mat \<Rightarrow> nat \<Rightarrow> bytes" where
  "mat_row m i = slice (i * mat_step m) (row_size m) (mat_data m)"

definition isContinuous :: "Mat \<Rightarrow> bool" where
  "isContinuous m \<longleftrightarrow> mat_rows m \<le> 1 \<or> mat_step m = row_size m"

definition mat_empty :: "Mat \<Rightarrow> bool" where
  "mat_empty m \<longleftrightarrow> mat_data m = [] \<or> mat_rows m * mat_cols m = 0"

definition copyTo :: "Mat \<Rightarrow> Mat" where
  "copyTo m = m\<lparr>mat_step := row_size m,
     mat_data := concat (map (mat_row m) [0..<nat (mat_rows m)])\<rparr>"

definition make_mat :: "CvLib \<Rightarrow> int \<Rightarrow> int \<Rightarrow> int \<Rightarrow> bytes \<Rightarrow> nat \<Rightarrow> failure + Mat" where
  "make_mat lib rows cols ty data step =
     (if mat_accepted lib rows cols ty step
      then Inr \<lparr>mat_rows = rows, mat_cols = cols, mat_type = ty, mat_step = step, mat_data = data\<rparr>
      else Inl (Throws ''cv::Exception''))"

section \<open>From a message to a matrix\<close>

text \<open>The channel permutation that reverses the bytes of every sample.\<close>

definition swap_pairs :: "int \<Rightarrow> int \<Rightarrow> (int \<times> int) list" where
  "swap_pairs num_channels byte_depth =
     concat (map (\<lambda>i. map (\<lambda>j. (byte_depth * i + j, byte_depth * i + byte_depth - 1 - j))
       [0..byte_depth - 1]) [0..num_channels - 1])"

definition same_endian :: "CvLib \<Rightarrow> RosImage \<Rightarrow> bool" where
  "same_endian lib source \<longleftrightarrow>
     native_big lib \<and> im_is_bigendian source \<noteq> 0 \<or> \<not> native_big lib \<and> im_is_bigendian source = 0"

definition matFromImage :: "CvLib \<Rightarrow> RosImage \<Rightarrow> failure + Mat" where
  "matFromImage lib source =
     bindR (getCvType (im_encoding source)) (\<lambda>source_type.
     bindR (thrown_by (bitDepth (enc lib) (im_encoding source))) (\<lambda>bits.
     bindR (thrown_by (numChannels (enc lib) (im_encoding source))) (\<lambda>num_channels.
       let byte_depth = bits div 8;
           rows = sint (im_height source); cols = sint (im_width source); step = unat (im_step source)
       in if im_step source < im_width source * word_of_int byte_depth * word_of_int num_channels then
            Inl (Throws (''Image is wrongly formed: step < width * byte_depth * num_channels  or  '' @
              dec step @ '' != '' @ dec (unat (im_width source)) @ '' * '' @ dec (nat byte_depth) @
              '' * '' @ dec (nat num_channels)))
          else if unat (im_height source * im_step source) \<noteq> length (im_data source) then
            Inl (Throws (''Image is wrongly formed: height * step != size  or  '' @
              dec (unat (im_height source)) @ '' * '' @ dec step @ '' != '' @
              dec (length (im_data source))))
          else
            bindR (make_mat lib rows cols source_type (im_data source) step) (\<lambda>mat.
              if same_endian lib source \<or> byte_depth = 1 then Inr mat
              else
                bindR (make_mat lib rows cols (CV_MAKETYPE 0 (num_channels * byte_depth))
                         (im_data source) step) (\<lambda>mat.
                  if \<not> readable mat then Inl Undefined
                  else Inr (mixChannels lib mat (swap_pairs num_channels byte_depth)))))))"

section \<open>Conversion\<close>

definition convert_image ::
  "CvLib \<Rightarrow> string \<Rightarrow> string \<Rightarrow> ConversionCode \<Rightarrow> Mat \<Rightarrow> failure + Mat" where
  "convert_image lib src_encoding dst_encoding conversion_code image1 =
     (if conversion_code = SAME_FORMAT then
        bindR (thrown_by (bitDepth (enc lib) src_encoding)) (\<lambda>src_depth.
        bindR (thrown_by (bitDepth (enc lib) dst_encoding)) (\<lambda>dst_depth.
        bindR (getCvType dst_encoding) (\<lambda>dst_type.
          let image2_type = CV_MAKETYPE (CV_MAT_DEPTH dst_type) (CV_MAT_CN (mat_type image1))
          in if src_depth = 8 \<and> dst_depth = 16 then Inr (convertTo lib image1 image2_type (65535 / 255))
             else if src_depth = 16 \<and> dst_depth = 8 then
               Inr (convertTo lib image1 image2_type (255 / 65535))
             else Inr (convertTo lib image1 image2_type 1))))
      else thrown_by (lib_cvtColor lib conversion_code image1))"

definition toCvCopyImpl ::
  "CvLib \<Rightarrow> Mat \<Rightarrow> Header \<Rightarrow> string \<Rightarrow> string \<Rightarrow> failure + CvImage" where
  "toCvCopyImpl lib source src_header src_encoding dst_encoding =
     (if dst_encoding = [] \<or> dst_encoding = src_encoding then
        (if readable source then
           Inr \<lparr>cvi_header = src_header, cvi_encoding = src_encoding, cvi_image = copyTo source\<rparr>
         else Inl Undefined)
      else
        bindR (thrown_by (getConversionCode (enc lib) src_encoding dst_encoding)) (\<lambda>conversion_codes.
          if \<not> readable source then Inl Undefined
          else
            bindR (foldR (convert_image lib src_encoding dst_encoding) conversion_codes source)
              (\<lambda>image. Inr \<lparr>cvi_header = src_header, cvi_encoding = dst_encoding, cvi_image = image\<rparr>)))"

definition toCvCopy :: "CvLib \<Rightarrow> RosImage \<Rightarrow> string \<Rightarrow> failure + CvImage" where
  "toCvCopy lib source encoding =
     bindR (matFromImage lib source)
       (\<lambda>m. toCvCopyImpl lib m (im_header source) (im_encoding source) encoding)"

definition toCvShare :: "CvLib \<Rightarrow> RosImage \<Rightarrow> string \<Rightarrow> failure + CvImage" where
  "toCvShare lib source encoding =
     (if (encoding \<noteq> [] \<and> im_encoding source \<noteq> encoding) \<or>
         (im_is_bigendian source \<noteq> 0 \<and> \<not> native_big lib)
      then toCvCopy lib source encoding
      else
        bindR (matFromImage lib source) (\<lambda>m.
          Inr \<lparr>cvi_header = im_header source, cvi_encoding = im_encoding source, cvi_image = m\<rparr>))"

definition cvtColor :: "CvLib \<Rightarrow> CvImage \<Rightarrow> string \<Rightarrow> failure + CvImage" where
  "cvtColor lib source encoding =
     toCvCopyImpl lib (cvi_image source) (cvi_header source) (cvi_encoding source) encoding"

section \<open>From a matrix to a message\<close>

text \<open>\<^verbatim>\<open>step\<close> and the product that sizes the vector are 32-bit values; the copies are undefined when
  they read past the matrix or write past the vector.\<close>

definition toImageMsg :: "CvLib \<Rightarrow> CvImage \<Rightarrow> failure + RosImage" where
  "toImageMsg lib c =
     (let image = cvi_image c; rows = nat (mat_rows image);
          step = word_of_int (mat_cols image * int (elemSize (mat_type image))) :: u32;
          size = unat (step * word_of_int (mat_rows image));
          msg = \<lparr>im_header = cvi_header c, im_height = word_of_int (mat_rows image),
                 im_width = word_of_int (mat_cols image), im_encoding = cvi_encoding c,
                 im_is_bigendian = (if native_big lib then 1 else 0), im_step = step, im_data = []\<rparr>
      in if isContinuous image then
           (if size \<le> length (mat_data image) then Inr (msg\<lparr>im_data := take size (mat_data image)\<rparr>)
            else Inl Undefined)
         else if rows * unat step \<le> size \<and>
                 (step = 0 \<or> (rows - 1) * mat_step image + unat step \<le> length (mat_data image)) then
           Inr (msg\<lparr>im_data := concat (map (\<lambda>i. slice (i * mat_step image) (unat step) (mat_data image))
                                     [0..<rows])\<rparr>)
         else Inl Undefined)"

section \<open>Compressed images\<close>

datatype Format =
    BMP | DIB | JPG | JPEG | JPE | JP2 | PNG | PBM | PGM | PPM | SR | RAS | TIFF | TIF

fun getFormat :: "Format \<Rightarrow> string" where
  "getFormat DIB = ''dib''" | "getFormat BMP = ''bmp''" | "getFormat JPG = ''jpg''"
| "getFormat JPEG = ''jpeg''" | "getFormat JPE = ''jpe''" | "getFormat JP2 = ''jp2''"
| "getFormat PNG = ''png''" | "getFormat PBM = ''pbm''" | "getFormat PGM = ''pgm''"
| "getFormat PPM = ''ppm''" | "getFormat RAS = ''ras''" | "getFormat SR = ''sr''"
| "getFormat TIF = ''tif''" | "getFormat TIFF = ''tiff''"

text \<open>The result of \<^verbatim>\<open>imencode\<close> is not looked at: the data stays empty when it returns false.\<close>

definition toCompressedImageMsg :: "CvLib \<Rightarrow> CvImage \<Rightarrow> Format \<Rightarrow> failure + CompressedImage" where
  "toCompressedImageMsg lib c dst_format =
     bindR (if cvi_encoding c \<in> {enc_BGR8, enc_BGRA8, enc_MONO8, enc_MONO16} then Inr (cvi_image c)
            else if hasAlpha (enc lib) (cvi_encoding c)
              then bindR (cvtColor lib c enc_BGRA8) (\<lambda>temp. Inr (cvi_image temp))
              else bindR (cvtColor lib c enc_BGR8) (\<lambda>temp. Inr (cvi_image temp)))
       (\<lambda>image.
          if \<not> readable image then Inl Undefined
          else
            bindR (thrown_by (imencode lib (''.'' @ getFormat dst_format) image None)) (\<lambda>data.
              Inr \<lparr>cmp_header = cvi_header c, cmp_format = getFormat dst_format,
                   cmp_data = (case data of None \<Rightarrow> [] | Some d \<Rightarrow> d)\<rparr>))"

text \<open>\<open>Inr None\<close> is the null pointer.\<close>

definition toCvCopy_compressed ::
  "CvLib \<Rightarrow> CompressedImage \<Rightarrow> string \<Rightarrow> failure + CvImage option" where
  "toCvCopy_compressed lib source encoding =
     bindR (thrown_by (imdecode_unchanged lib (cmp_data source))) (\<lambda>rgb_a.
       let copy = (\<lambda>src_encoding. bindR
                     (toCvCopyImpl lib rgb_a (cmp_header source) src_encoding encoding) (\<lambda>c. Inr (Some c)))
       in if encoding \<noteq> enc_MONO16 then
            (if CV_MAT_CN (mat_type rgb_a) = 4 then copy enc_BGRA8
             else if CV_MAT_CN (mat_type rgb_a) = 3 then copy enc_BGR8
             else if CV_MAT_CN (mat_type rgb_a) = 1 then copy enc_MONO8
             else Inr None)
          else copy enc_MONO16)"

end
