(* ===== verification/Ros_Messages.thy ===== *)
theory Ros_Messages
  imports Topic_Stats Draco_Codec Cv_Bridge Envelope
begin

text \<open>
  The message types a topic can carry (\<^verbatim>\<open>MSGS_MACRO\<close> of \<^verbatim>\<open>include/msgs_macro.hpp\<close>) and the
  payload conversions of \<^verbatim>\<open>src/topic_factory.cpp\<close>: what \<^verbatim>\<open>subCallback\<close> puts in an envelope for a
  message and what \<^verbatim>\<open>deserializePub\<close> makes of an envelope.  The X-macro instantiates one template
  per type; here the type is the constructor of the message.  Images go through \<open>Cv_Bridge\<close>, clouds
  through \<open>Draco_Codec\<close>.  ROS serialisation, PCL and what OpenCV and Draco do are parameters, in the
  record \<open>RosLib\<close>.
\<close>

section \<open>Messages\<close>

definition msgs_types :: "string list" where
  "msgs_types = [''sensor_msgs/Image'', ''std_msgs/String'', ''nav_msgs/Odometry'',
     ''geometry_msgs/PoseStamped'', ''sensor_msgs/PointCloud2'', ''visualization_msgs/Marker'',
     ''visualization_msgs/MarkerArray'']"

text \<open>\<^verbatim>\<open>nav_msgs/Odometry\<close>: 64-bit floats are their bits, zero is \<open>0\<close>.\<close>

record 'pose Odometry =
  od_header :: Header
  od_child_frame_id :: string
  od_pose :: 'pose
  od_pose_covariance :: "u64 list"
  od_twist :: "u64 list"
  od_twist_covariance :: "u64 list"

text \<open>An odometry of which only the header, the child frame and the pose are set; the covariance
  matrices and the six components of the twist are those of a new message, zero.\<close>

definition bare_odometry :: "Header \<Rightarrow> string \<Rightarrow> 'pose \<Rightarrow> 'pose Odometry" where
  "bare_odometry header child pose =
     \<lparr>od_header = header, od_child_frame_id = child, od_pose = pose,
      od_pose_covariance = replicate 36 0, od_twist = replicate 6 0,
      od_twist_covariance = replicate 36 0\<rparr>"

datatype ('pose, 'o) RosMessage =
    ImageMsg RosImage
  | StringMsg 'o
  | OdometryMsg "'pose Odometry"
  | PoseStampedMsg Header 'pose
  | PointCloud2Msg PointCloud2
  | MarkerMsg Header 'o
  | MarkerArrayMsg 'o

fun type_of_msg :: "('pose, 'o) RosMessage \<Rightarrow> string" where
  "type_of_msg (ImageMsg _) = ''sensor_msgs/Image''"
| "type_of_msg (StringMsg _) = ''std_msgs/String''"
| "type_of_msg (OdometryMsg _) = ''nav_msgs/Odometry''"
| "type_of_msg (PoseStampedMsg _ _) = ''geometry_msgs/PoseStamped''"
| "type_of_msg (PointCloud2Msg _) = ''sensor_msgs/PointCloud2''"
| "type_of_msg (MarkerMsg _ _) = ''visualization_msgs/Marker''"
| "type_of_msg (MarkerArrayMsg _) = ''visualization_msgs/MarkerArray''"

text \<open>\<^verbatim>\<open>has_data_header\<close>: the header of the types that have one.\<close>

fun header_of_msg :: "('pose, 'o) RosMessage \<Rightarrow> Header option" where
  "header_of_msg (ImageMsg m) = Some (im_header m)"
| "header_of_msg (StringMsg _) = None"
| "header_of_msg (OdometryMsg od) = Some (od_header od)"
| "header_of_msg (PoseStampedMsg h _) = Some h"
| "header_of_msg (PointCloud2Msg m) = Some (pc_header m)"
| "header_of_msg (MarkerMsg h _) = Some h"
| "header_of_msg (MarkerArrayMsg _) = None"

record PtCloudCompress =
  pcc_original_header :: Header
  pcc_sender_stamp :: ros_time
  pcc_compressed_bytes :: bytes
  pcc_original_width :: u32
  pcc_original_height :: u32
  pcc_original_frame_id :: string
  pcc_codec :: string
  pcc_voxel_leaf_size :: real
  pcc_receiver_stamp :: bool
  pcc_format_version :: byte
  pcc_point_type :: string
  pcc_original_fields :: "PointField list"
  pcc_original_is_bigendian :: bool
  pcc_original_point_step :: u32
  pcc_original_row_step :: u32
  pcc_original_is_dense :: bool
  pcc_sidecar_bytes :: bytes

definition default_compressed :: PtCloudCompress where
  "default_compressed =
     \<lparr>pcc_original_header = default_header, pcc_sender_stamp = 0, pcc_compressed_bytes = [],
      pcc_original_width = 0, pcc_original_height = 0, pcc_original_frame_id = [],
      pcc_codec = [], pcc_voxel_leaf_size = 0, pcc_receiver_stamp = False,
      pcc_format_version = 0, pcc_point_type = [], pcc_original_fields = [],
      pcc_original_is_bigendian = False, pcc_original_point_step = 0,
      pcc_original_row_step = 0, pcc_original_is_dense = False, pcc_sidecar_bytes = []\<rparr>"

section \<open>The libraries\<close>

record ('pose, 'o) RosLib =
  md5sum :: "string \<Rightarrow> string"
  serialize :: "('pose, 'o) RosMessage \<Rightarrow> bytes"
  deserialize :: "string \<Rightarrow> bytes \<Rightarrow> ('pose, 'o) RosMessage option"
  serialize_compressed :: "PtCloudCompress \<Rightarrow> bytes"
  deserialize_compressed :: "bytes \<Rightarrow> PtCloudCompress option"
  cvlib :: CvLib
  voxel_filter :: "real \<Rightarrow> PointCloud2 \<Rightarrow> PointCloud2"
  octree_encode :: "PointCloud2 \<Rightarrow> bytes"
  octree_decode :: "bytes \<Rightarrow> u32 \<Rightarrow> u32 \<Rightarrow> PointCloud2"
  draco :: DracoLib

definition RosTypeMd5 :: "('pose, 'o) RosLib \<Rightarrow> string \<Rightarrow> string" where
  "RosTypeMd5 lib ty = (if ty \<in> set msgs_types then md5sum lib ty else [])"

definition RosTimeToNs :: "ros_time \<Rightarrow> u64" where
  "RosTimeToNs stamp = (if stamp = 0 then 0 else of_nat stamp)"

section \<open>Encoding\<close>

text \<open>The settings of \<^verbatim>\<open>TopicCfg\<close> that the conversions read.\<close>

record PayloadCfg =
  img_resize_rate :: real
  cloud_compress :: bool
  cloud_downsample :: real
  cloud_codec :: string

text \<open>Failure is \<open>Inl\<close> of the exception text; \<open>None\<close> is undefined behaviour of the codec.\<close>

definition downsampled :: "('pose, 'o) RosLib \<Rightarrow> PayloadCfg \<Rightarrow> PointCloud2 \<Rightarrow> PointCloud2" where
  "downsampled lib cfg msg =
     (if cloud_downsample cfg > 0
      then (voxel_filter lib (cloud_downsample cfg) msg)\<lparr>pc_header := pc_header msg\<rparr>
      else msg)"

definition ptCloudProcess ::
  "('pose, 'o) RosLib \<Rightarrow> PayloadCfg \<Rightarrow> PointCloud2 \<Rightarrow> (string + bytes) option" where
  "ptCloudProcess lib cfg msg =
     (let cloud_msg = downsampled lib cfg msg
      in if \<not> cloud_compress cfg then Some (Inr (serialize lib (PointCloud2Msg cloud_msg)))
         else
           let compressed = default_compressed
                 \<lparr>pcc_original_header := pc_header msg, pcc_sender_stamp := hdr_stamp (pc_header msg),
                  pcc_original_width := pc_width cloud_msg, pcc_original_height := pc_height cloud_msg,
                  pcc_original_frame_id := hdr_frame_id (pc_header msg),
                  pcc_voxel_leaf_size := cloud_downsample cfg, pcc_receiver_stamp := True,
                  pcc_codec := cloud_codec cfg\<rparr>
           in if cloud_codec cfg = ''draco'' then
                do { (ok, out) \<leftarrow> Encode (draco lib) cloud_msg (Some default_encoded);
                     Some (if \<not> ok then Inl ''Draco encode failed''
                           else
                             let encoded = the out in
                             Inr (serialize_compressed lib
                               (compressed
                                 \<lparr>pcc_compressed_bytes := epc_payload encoded,
                                  pcc_format_version := format_version encoded,
                                  pcc_point_type := point_type encoded,
                                  pcc_original_fields := original_fields encoded,
                                  pcc_original_is_bigendian := original_is_bigendian encoded,
                                  pcc_original_point_step := original_point_step encoded,
                                  pcc_original_row_step := original_row_step encoded,
                                  pcc_original_is_dense := original_is_dense encoded,
                                  pcc_sidecar_bytes := sidecar_bytes encoded\<rparr>))) }
              else
                Some (Inr (serialize_compressed lib
                  (compressed\<lparr>pcc_compressed_bytes := octree_encode lib cloud_msg,
                              pcc_codec := ''pcl_octree''\<rparr>))))"

text \<open>An undefined operation is \<open>None\<close>.\<close>

definition outcome :: "failure + 'a \<Rightarrow> (string + 'a) option" where
  "outcome r = (case r of Inl Undefined \<Rightarrow> None | Inl (Throws e) \<Rightarrow> Some (Inl e) | Inr x \<Rightarrow> Some (Inr x))"

lemma outcome_simps [simp]:
  "outcome (Inl Undefined) = None" "outcome (Inl (Throws e)) = Some (Inl e)"
  "outcome (Inr x) = Some (Inr x)"
  by (simp_all add: outcome_def)

lemma outcome_Inr [simp]: "outcome r = Some (Inr x) \<longleftrightarrow> r = Inr x"
  by (auto simp: outcome_def split: sum.splits failure.splits)

lemma outcome_None [simp]: "outcome r = None \<longleftrightarrow> r = Inl Undefined"
  by (auto simp: outcome_def split: sum.splits failure.splits)

text \<open>\<^verbatim>\<open>std::max(1, static_cast<int>(std::floor(n * rate)))\<close>\<close>

definition scaled :: "int \<Rightarrow> real \<Rightarrow> failure + int" where
  "scaled n rate =
     (let x = \<lfloor>real_of_int n * rate\<rfloor> in if int_range x then Inr (max 1 x) else Inl Undefined)"

definition encode_image :: "CvLib \<Rightarrow> PayloadCfg \<Rightarrow> int \<Rightarrow> RosImage \<Rightarrow> failure + bytes" where
  "encode_image cv cfg quality image_msg =
     bindR (if im_encoding image_msg = enc_BGR8 then toCvShare cv image_msg enc_BGR8
            else toCvCopy cv image_msg enc_BGR8) (\<lambda>cv_ptr.
       let image = cvi_image cv_ptr
       in if \<not> readable image then Inl Undefined
          else
            bindR (if \<bar>img_resize_rate cfg - 1\<bar> > 1 / 1000000 then
                     bindR (scaled (mat_cols image) (img_resize_rate cfg)) (\<lambda>cols.
                     bindR (scaled (mat_rows image) (img_resize_rate cfg)) (\<lambda>rows.
                       thrown_by (cv_resize cv image cols rows)))
                   else Inr image) (\<lambda>resized.
            bindR (thrown_by (imencode cv ''.jpg'' resized (Some quality))) (\<lambda>result.
              case result of None \<Rightarrow> Inl (Throws ''JPEG encode failed'') | Some data \<Rightarrow> Inr data)))"

text \<open>The payload and its kind, as the \<^verbatim>\<open>if constexpr\<close> chain of \<^verbatim>\<open>subCallback\<close> computes them.\<close>

fun encode_payload ::
  "('pose, 'o) RosLib \<Rightarrow> PayloadCfg \<Rightarrow> int \<Rightarrow> ('pose, 'o) RosMessage \<Rightarrow>
     (string + (PayloadKind \<times> bytes)) option" where
  "encode_payload lib cfg quality (OdometryMsg od) =
     Some (Inr (kRosSerialized, serialize lib
       (PoseStampedMsg ((od_header od)\<lparr>hdr_frame_id := od_child_frame_id od\<rparr>) (od_pose od))))"
| "encode_payload lib cfg quality (ImageMsg m) =
     map_option (map_sum id (Pair kJpeg)) (outcome (encode_image (cvlib lib) cfg quality m))"
| "encode_payload lib cfg quality (PointCloud2Msg m) =
     map_option (\<lambda>r. case r of Inl e \<Rightarrow> Inl e
                   | Inr d \<Rightarrow> Inr (if cloud_compress cfg then kPointCloudCompressed else kRosSerialized, d))
       (ptCloudProcess lib cfg m)"
| "encode_payload lib cfg quality msg = Some (Inr (kRosSerialized, serialize lib msg))"

section \<open>Decoding\<close>

definition encoded_of_compressed :: "ros_time \<Rightarrow> PtCloudCompress \<Rightarrow> EncodedPointCloud" where
  "encoded_of_compressed now c =
     \<lparr>codec = pcc_codec c, format_version = pcc_format_version c, point_type = pcc_point_type c,
      original_header = pcc_original_header c, original_width = pcc_original_width c,
      original_height = pcc_original_height c, original_fields = pcc_original_fields c,
      original_is_bigendian = pcc_original_is_bigendian c,
      original_point_step = pcc_original_point_step c,
      original_row_step = pcc_original_row_step c, original_is_dense = pcc_original_is_dense c,
      source_stamp = pcc_sender_stamp c, receive_stamp = now,
      epc_frame_id = pcc_original_frame_id c, epc_payload = pcc_compressed_bytes c,
      sidecar_bytes = pcc_sidecar_bytes c\<rparr>"

definition default_cloud :: PointCloud2 where
  "default_cloud =
     \<lparr>pc_header = default_header, pc_height = 0, pc_width = 0, pc_fields = [],
      pc_is_bigendian = False, pc_point_step = 0, pc_row_step = 0, pc_data = [],
      pc_is_dense = False\<rparr>"

definition decode_compressed ::
  "('pose, 'o) RosLib \<Rightarrow> ros_time \<Rightarrow> bytes \<Rightarrow> (string + PointCloud2) option" where
  "decode_compressed lib now data =
     (case deserialize_compressed lib data of
        None \<Rightarrow> Some (Inl ''deserialization failed'')
      | Some compressed \<Rightarrow>
          if pcc_codec compressed = ''draco'' then
            do { (ok, out) \<leftarrow> Decode (draco lib) (encoded_of_compressed now compressed)
                               (Some default_cloud);
                 Some (if \<not> ok then Inl ''Draco decode failed''
                       else Inr ((the out)\<lparr>pc_header := pcc_original_header compressed\<rparr>)) }
          else
            Some (Inr ((octree_decode lib (pcc_compressed_bytes compressed)
                          (pcc_original_width compressed) (pcc_original_height compressed))
                         \<lparr>pc_header := pcc_original_header compressed\<rparr>)))"

text \<open>The message \<^verbatim>\<open>deserializePub\<close> publishes for an envelope of a topic of type \<open>ty\<close>.\<close>

definition decode_message ::
  "('pose, 'o) RosLib \<Rightarrow> PayloadCfg \<Rightarrow> ros_time \<Rightarrow> string \<Rightarrow> TransportEnvelope \<Rightarrow>
     (string + ('pose, 'o) RosMessage) option" where
  "decode_message lib cfg now ty envelope =
     (if ty = ''sensor_msgs/Image'' then
        (if payload_kind envelope \<noteq> kJpeg then Some (Inl ''image topic received a non-JPEG payload'')
         else
           (case imdecode_color (cvlib lib) (payload envelope) of
              Inl e \<Rightarrow> Some (Inl e)
            | Inr frame \<Rightarrow>
                if mat_empty frame then Some (Inl ''JPEG decode failed'')
                else
                  let header = \<lparr>hdr_seq = source_header_sequence envelope,
                                hdr_stamp = (if sint (source_time_ns envelope) > 0
                                             then unat (source_time_ns envelope) else 0),
                                hdr_frame_id = frame_id envelope\<rparr>
                  in map_option (map_sum id ImageMsg)
                       (outcome (toImageMsg (cvlib lib)
                          \<lparr>cvi_header = header, cvi_encoding = enc_BGR8, cvi_image = frame\<rparr>))))
      else if ty = ''nav_msgs/Odometry'' then
        (case deserialize lib ''geometry_msgs/PoseStamped'' (payload envelope) of
           Some (PoseStampedMsg h pose) \<Rightarrow>
             Some (Inr (OdometryMsg (bare_odometry (h\<lparr>hdr_frame_id := ''world''\<rparr>) (hdr_frame_id h) pose)))
         | _ \<Rightarrow> Some (Inl ''deserialization failed''))
      else if ty = ''sensor_msgs/PointCloud2'' \<and> cloud_compress cfg then
        map_option (map_sum id PointCloud2Msg) (decode_compressed lib now (payload envelope))
      else if ty \<in> set msgs_types then
        (case deserialize lib ty (payload envelope) of
           None \<Rightarrow> Some (Inl ''deserialization failed'')
         | Some msg \<Rightarrow> Some (Inr msg))
      else Some (Inl (''Invalid ROS message type: '' @ ty)))"

end
