(* ===== verification/Xmlrpc.thy ===== *)
theory Xmlrpc
  imports Prelude
begin

text \<open>
  \<^verbatim>\<open>XmlRpc::XmlRpcValue\<close>, the dynamically typed value of the ROS parameter server, as far as
  the configuration code looks into it.  Type tests, members, sizes and elements of a checked
  value are read directly; an access that the code makes without checking the type first (a cast, with
  its overload for constant values, or \<^verbatim>\<open>value["key"]\<close> on any value) is a parameter, in \<open>XmlRpcLib\<close>, with \<open>None\<close> for the
  \<^verbatim>\<open>XmlRpcException\<close>.
\<close>

datatype XmlRpcValue =
    XInvalid
  | XBool bool
  | XInt int
  | XDouble real
  | XString string
  | XArray "XmlRpcValue list"
  | XStruct "(string \<times> XmlRpcValue) list"

record XmlRpcLib =
  xr_string :: "XmlRpcValue \<Rightarrow> string option"
  xr_string_const :: "XmlRpcValue \<Rightarrow> string option"
  xr_bool :: "XmlRpcValue \<Rightarrow> bool option"
  xr_index :: "XmlRpcValue \<Rightarrow> string \<Rightarrow> XmlRpcValue option"

text \<open>What the library documents: the cast of a value of the right type is its content, and
  indexing a struct by one of its keys is the member.\<close>

definition xmlrpc_ok :: "XmlRpcLib \<Rightarrow> bool" where
  "xmlrpc_ok lib \<longleftrightarrow>
     (\<forall>s. xr_string lib (XString s) = Some s \<and> xr_string_const lib (XString s) = Some s) \<and> (\<forall>b. xr_bool lib (XBool b) = Some b) \<and>
     (\<forall>m k v. map_of m k = Some v \<longrightarrow> xr_index lib (XStruct m) k = Some v)"

definition or_throw :: "'a option \<Rightarrow> failure + 'a" where
  "or_throw r = (case r of None \<Rightarrow> Inl (Throws ''XmlRpcException'') | Some x \<Rightarrow> Inr x)"

definition cast_string :: "XmlRpcLib \<Rightarrow> XmlRpcValue \<Rightarrow> failure + string" where
  "cast_string lib v = or_throw (xr_string lib v)"

definition cast_string_const :: "XmlRpcLib \<Rightarrow> XmlRpcValue \<Rightarrow> failure + string" where
  "cast_string_const lib v = or_throw (xr_string_const lib v)"

definition cast_bool :: "XmlRpcLib \<Rightarrow> XmlRpcValue \<Rightarrow> failure + bool" where
  "cast_bool lib v = or_throw (xr_bool lib v)"

definition member :: "XmlRpcLib \<Rightarrow> XmlRpcValue \<Rightarrow> string \<Rightarrow> failure + XmlRpcValue" where
  "member lib v k = or_throw (xr_index lib v k)"

fun has_member :: "XmlRpcValue \<Rightarrow> string \<Rightarrow> bool" where
  "has_member (XStruct m) k = (map_of m k \<noteq> None)"
| "has_member _ k = False"

fun is_array :: "XmlRpcValue \<Rightarrow> bool" where
  "is_array (XArray xs) = True" | "is_array _ = False"

fun is_struct :: "XmlRpcValue \<Rightarrow> bool" where
  "is_struct (XStruct m) = True" | "is_struct _ = False"

fun elements :: "XmlRpcValue \<Rightarrow> XmlRpcValue list" where
  "elements (XArray xs) = xs" | "elements _ = []"

fun entries :: "XmlRpcValue \<Rightarrow> (string \<times> XmlRpcValue) list" where
  "entries (XStruct m) = m" | "entries _ = []"

lemma cast_string_ok: "xmlrpc_ok lib \<Longrightarrow> cast_string lib (XString s) = Inr s"
  by (simp add: cast_string_def or_throw_def xmlrpc_ok_def)

lemma cast_string_const_ok: "xmlrpc_ok lib \<Longrightarrow> cast_string_const lib (XString s) = Inr s"
  by (simp add: cast_string_const_def or_throw_def xmlrpc_ok_def)

lemma cast_bool_ok: "xmlrpc_ok lib \<Longrightarrow> cast_bool lib (XBool b) = Inr b"
  by (simp add: cast_bool_def or_throw_def xmlrpc_ok_def)

lemma member_ok: "xmlrpc_ok lib \<Longrightarrow> map_of m k = Some v \<Longrightarrow> member lib (XStruct m) k = Inr v"
  by (simp add: member_def or_throw_def xmlrpc_ok_def)

end
