(* ===== verification/Topic_Factory.thy ===== *)
theory Topic_Factory
  imports Ros_Messages Qos_Queue Zenoh_Keys Std_Map Xmlrpc
begin

text \<open>
  \<^verbatim>\<open>TopicFactory\<close> of \<^verbatim>\<open>src/topic_factory.cpp\<close>: one end of a bridged topic.  A sender
  turns ROS callbacks into envelopes and publishes them; a receiver checks arriving envelopes,
  queues them and decodes them on a worker thread.  Each critical section is one transition; the
  ROS subscriber and publisher and the transport are the outcomes given as arguments and the
  outputs returned.
\<close>

section \<open>State\<close>

record TopicCfg =
  tc_name :: string
  tc_raw_name :: string
  tc_wire_name :: string
  tc_type :: string
  tc_src_hostname :: string
  tc_my_hostname :: string
  tc_transport_name :: string
  tc_src_hostnames_xml :: XmlRpcValue
  tc_dst_hostnames_xml :: XmlRpcValue
  tc_dst_hostname_map :: "bool smap"
  tc_src_hostname_map :: "bool smap"
  tc_max_freq :: real
  tc_img_resize_rate :: real
  tc_img_jpeg_quality :: int
  tc_img_adaptive_quality :: bool
  tc_img_min_jpeg_quality :: int
  tc_img_max_jpeg_quality :: int
  tc_img_target_bandwidth_kbps :: real
  tc_img_quality_step :: int
  tc_img_adapt_cooldown_frames :: int
  tc_cloud_compress :: bool
  tc_cloud_downsample :: real
  tc_cloud_codec :: string
  tc_has_prefix :: bool
  tc_same_prefix :: bool
  tc_dynamic_dst :: bool
  tc_qos_class :: QosClass

definition default_topic_cfg :: TopicCfg where
  "default_topic_cfg =
     \<lparr>tc_name = [], tc_raw_name = [], tc_wire_name = [], tc_type = [], tc_src_hostname = [],
      tc_my_hostname = [], tc_transport_name = ''zenoh'', tc_src_hostnames_xml = XInvalid,
      tc_dst_hostnames_xml = XInvalid, tc_dst_hostname_map = [], tc_src_hostname_map = [],
      tc_max_freq = 10, tc_img_resize_rate = 1, tc_img_jpeg_quality = 80,
      tc_img_adaptive_quality = False, tc_img_min_jpeg_quality = 45,
      tc_img_max_jpeg_quality = 90, tc_img_target_bandwidth_kbps = 1200,
      tc_img_quality_step = 5, tc_img_adapt_cooldown_frames = 8, tc_cloud_compress = False,
      tc_cloud_downsample = -1, tc_cloud_codec = ''raw'', tc_has_prefix = True,
      tc_same_prefix = False, tc_dynamic_dst = False, tc_qos_class = kState\<rparr>"

definition payload_cfg :: "TopicCfg \<Rightarrow> PayloadCfg" where
  "payload_cfg c =
     \<lparr>img_resize_rate = tc_img_resize_rate c, cloud_compress = tc_cloud_compress c,
      cloud_downsample = tc_cloud_downsample c, cloud_codec = tc_cloud_codec c\<rparr>"

definition quality_cfg :: "TopicCfg \<Rightarrow> QualityCfg" where
  "quality_cfg c =
     \<lparr>q_image = (tc_type c = ''sensor_msgs/Image''), q_min = tc_img_min_jpeg_quality c,
      q_max = tc_img_max_jpeg_quality c, q_step = tc_img_quality_step c\<rparr>"

datatype SendOrRecv = SEND | RECV

record TopicFactory =
  tf_cfg :: TopicCfg
  tf_dir :: SendOrRecv
  tf_sender :: "string option"
  tf_dynamic_senders :: "string smap"
  tf_subscription :: "string option"
  tf_sub_last_time :: ros_time
  tf_ros_active :: bool
  tf_recv_thread_flag :: bool
  tf_recv_queue :: "TransportEnvelope list"
  tf_sequence :: u64
  tf_metrics :: TopicRuntimeState

abbreviation (input) on_metrics ::
  "(TopicRuntimeState \<Rightarrow> TopicRuntimeState) \<Rightarrow> TopicFactory \<Rightarrow> TopicFactory" where
  "on_metrics f t \<equiv> t\<lparr>tf_metrics := f (tf_metrics t)\<rparr>"

section \<open>Construction\<close>

definition initial_metrics :: "TopicCfg \<Rightarrow> SendOrRecv \<Rightarrow> ros_time \<Rightarrow> TopicRuntimeState" where
  "initial_metrics cfg dir now =
     default_runtime_state
       \<lparr>topic_name := tc_name cfg, msg_type := tc_type cfg,
        direction := (if dir = SEND then ''send'' else ''recv''),
        ts_codec := (if tc_type cfg = ''sensor_msgs/PointCloud2''
                     then (if tc_cloud_compress cfg then tc_cloud_codec cfg else ''raw'')
                     else (if tc_type cfg = ''sensor_msgs/Image'' then ''jpeg'' else ''raw'')),
        transport := tc_transport_name cfg, ts_qos_class := QosClassName (tc_qos_class cfg),
        configured_rate_hz := tc_max_freq cfg, window_start := now,
        adaptive_quality_enabled := tc_img_adaptive_quality cfg,
        configured_jpeg_quality := word_of_int (tc_img_jpeg_quality cfg),
        current_jpeg_quality := word_of_int (tc_img_jpeg_quality cfg),
        target_bandwidth_kbps := tc_img_target_bandwidth_kbps cfg,
        quality_step := word_of_int (tc_img_quality_step cfg),
        adapt_cooldown_frames := word_of_int (tc_img_adapt_cooldown_frames cfg)\<rparr>"

text \<open>\<^verbatim>\<open>topicSubscriber\<close> and \<^verbatim>\<open>topicPublisher\<close>: both throw for a type outside the macro.\<close>

definition check_msg_type :: "string \<Rightarrow> string + unit" where
  "check_msg_type ty =
     (if ty \<in> set msgs_types then Inr () else Inl (''Invalid ROS message type: '' @ ty))"

text \<open>Declaring the publishers of a dynamic topic, in the order of the destination map;
  \<open>declare_ok key qos\<close> says whether the transport's \<^verbatim>\<open>DeclarePublisher\<close> returns or throws.\<close>

fun declare_dynamic ::
  "(string \<Rightarrow> QosClass \<Rightarrow> bool) \<Rightarrow> TopicCfg \<Rightarrow> (string \<times> bool) list \<Rightarrow> string smap \<Rightarrow>
     string + string smap" where
  "declare_dynamic declare_ok cfg [] senders = Inr senders"
| "declare_dynamic declare_ok cfg ((dst, enabled) # rest) senders =
     (if \<not> enabled \<or> dst = tc_my_hostname cfg then declare_dynamic declare_ok cfg rest senders
      else
        let key = TopicDirectedKey (tc_src_hostname cfg) dst (tc_wire_name cfg)
        in if declare_ok key (tc_qos_class cfg)
           then declare_dynamic declare_ok cfg rest (mset_at dst key senders)
           else Inl ''DeclarePublisher failed'')"

definition TopicFactory_create ::
  "(string \<Rightarrow> QosClass \<Rightarrow> bool) \<Rightarrow> TopicCfg \<Rightarrow> bool \<Rightarrow> SendOrRecv \<Rightarrow> ros_time \<Rightarrow>
     string + TopicFactory" where
  "TopicFactory_create declare_ok cfg has_transport dir now =
     (if \<not> has_transport then Inl ''TopicFactory requires a shared bridge transport''
      else
        let t = \<lparr>tf_cfg = cfg, tf_dir = dir, tf_sender = None, tf_dynamic_senders = [],
                 tf_subscription = None, tf_sub_last_time = 0, tf_ros_active = True,
                 tf_recv_thread_flag = False, tf_recv_queue = [], tf_sequence = 0,
                 tf_metrics = initial_metrics cfg dir now\<rparr>
        in if dir = SEND then
             bindR
               (if \<not> tc_dynamic_dst cfg then
                  let key = TopicFanoutKey (tc_src_hostname cfg) (tc_wire_name cfg)
                  in if declare_ok key (tc_qos_class cfg) then Inr (t\<lparr>tf_sender := Some key\<rparr>)
                     else Inl ''DeclarePublisher failed''
                else
                  bindR (declare_dynamic declare_ok cfg (tc_dst_hostname_map cfg) [])
                    (\<lambda>senders. Inr (t\<lparr>tf_dynamic_senders := senders\<rparr>)))
               (\<lambda>t. bindR (check_msg_type (tc_type cfg)) (\<lambda>_. Inr t))
           else bindR (check_msg_type (tc_type cfg)) (\<lambda>_. Inr t))"

section \<open>Sending\<close>

definition sendFreqControl :: "ros_time \<Rightarrow> TopicFactory \<Rightarrow> bool \<times> TopicFactory" where
  "sendFreqControl now t =
     (let max_freq = tc_max_freq (tf_cfg t) in
      if \<bar>max_freq - (-1)\<bar> < 1 / 2 ^ 52 then (False, t)
      else
        let minimum_interval = 1 / max 0.001 max_freq
        in if tf_sub_last_time t \<noteq> 0 \<and> secs_between now (tf_sub_last_time t) < minimum_interval
           then (True, on_metrics recordDrop t)
           else (False, t\<lparr>tf_sub_last_time := now\<rparr>))"

definition build_envelope ::
  "('pose, 'o) RosLib \<Rightarrow> ros_time \<Rightarrow> ('pose, 'o) RosMessage \<Rightarrow> TopicFactory \<Rightarrow>
     TransportEnvelope" where
  "build_envelope lib now msg t =
     (let cfg = tf_cfg t;
          e = default_envelope\<lparr>payload_kind := kRosSerialized, sequence := tf_sequence t + 1,
                source_host := tc_my_hostname cfg, ros_type := tc_type cfg,
                ros_md5 := RosTypeMd5 lib (tc_type cfg)\<rparr>
      in case header_of_msg msg of
           Some h \<Rightarrow> e\<lparr>source_time_ns := RosTimeToNs (hdr_stamp h),
                       source_header_sequence := hdr_seq h, frame_id := hdr_frame_id h\<rparr>
         | None \<Rightarrow> e\<lparr>source_time_ns := RosTimeToNs now\<rparr>)"

text \<open>The directed publishes of a message with \<^verbatim>\<open>to_drone_ids\<close>; \<open>clock k\<close> is the k-th later
  reading of the clock, \<open>publish\<close> the transport's answer.  The list collects what went out; the result
  is \<open>None\<close> where the quality controller overflows.\<close>

fun publish_directed ::
  "(string \<Rightarrow> TransportEnvelope \<Rightarrow> bool) \<Rightarrow> (nat \<Rightarrow> ros_time) \<Rightarrow> TransportEnvelope \<Rightarrow> nat \<Rightarrow> byte list \<Rightarrow>
     TopicFactory \<Rightarrow> ((string \<times> TransportEnvelope) list \<times> TopicFactory) option" where
  "publish_directed publish clock e k [] t = Some ([], t)"
| "publish_directed publish clock e k (i # ids) t =
     (case mfind (tf_dynamic_senders t) (''drone'' @ dec (unat i)) of
        None \<Rightarrow> publish_directed publish clock e (Suc k) ids (on_metrics recordDrop t)
      | Some key \<Rightarrow>
          if publish key e then
            do { s \<leftarrow> recordSend (quality_cfg (tf_cfg t)) (clock k) (of_nat (length (payload e)))
                        (tf_metrics t);
                 (out, t') \<leftarrow> publish_directed publish clock e (Suc k) ids (t\<lparr>tf_metrics := s\<rparr>);
                 Some ((key, e) # out, t') }
          else publish_directed publish clock e (Suc k) ids (on_metrics recordDrop t))"

definition subCallback ::
  "('pose, 'o) RosLib \<Rightarrow> (string \<Rightarrow> TransportEnvelope \<Rightarrow> bool) \<Rightarrow> (nat \<Rightarrow> ros_time) \<Rightarrow>
     byte list option \<Rightarrow> ('pose, 'o) RosMessage \<Rightarrow> TopicFactory \<Rightarrow>
     ((string \<times> TransportEnvelope) list \<times> TopicFactory) option" where
  "subCallback lib publish clock drone_ids msg t =
     (let (limited, t) = sendFreqControl (clock 0) t in
      if limited then Some ([], t)
      else
        let e = build_envelope lib (clock 1) msg t;
            t = t\<lparr>tf_sequence := tf_sequence t + 1\<rparr>;
            quality = sint (current_jpeg_quality (tf_metrics t))
        in do { r \<leftarrow> encode_payload lib (payload_cfg (tf_cfg t)) quality msg;
                (case r of
                   Inl _ \<Rightarrow> Some ([], on_metrics recordDrop t)
                 | Inr (kind, data) \<Rightarrow>
                     let e = e\<lparr>payload_kind := kind, payload := data\<rparr>
                     in case drone_ids of
                          Some ids \<Rightarrow> publish_directed publish clock e 2 ids t
                        | None \<Rightarrow>
                            (case tf_sender t of
                               Some key \<Rightarrow>
                                 if publish key e then
                                   do { s \<leftarrow> recordSend (quality_cfg (tf_cfg t)) (clock 2)
                                               (of_nat (length data)) (tf_metrics t);
                                        Some ([(key, e)], t\<lparr>tf_metrics := s\<rparr>) }
                                 else Some ([], on_metrics recordDrop t)
                             | None \<Rightarrow> Some ([], on_metrics recordDrop t))) })"

section \<open>Receiving\<close>

definition expected_payload_kind :: "TopicCfg \<Rightarrow> PayloadKind" where
  "expected_payload_kind cfg =
     (if tc_type cfg = ''sensor_msgs/Image'' then kJpeg
      else if tc_type cfg = ''sensor_msgs/PointCloud2'' \<and> tc_cloud_compress cfg
           then kPointCloudCompressed else kRosSerialized)"

text \<open>The state after the call and whether the worker is notified.\<close>

definition enqueueEnvelope ::
  "('pose, 'o) RosLib \<Rightarrow> TransportEnvelope \<Rightarrow> TopicFactory \<Rightarrow> bool \<times> TopicFactory" where
  "enqueueEnvelope lib envelope t =
     (let cfg = tf_cfg t in
      if payload_kind envelope \<noteq> expected_payload_kind cfg then (False, on_metrics recordDrop t)
      else if ValidateEnvelopeMetadata envelope (tc_type cfg) (RosTypeMd5 lib (tc_type cfg)) \<noteq> Inr ()
        then (False, on_metrics recordDrop t)
      else if \<not> tc_dynamic_dst cfg \<and> source_host envelope \<noteq> tc_src_hostname cfg
        then (False, on_metrics recordDrop t)
      else if mfind (tc_src_hostname_map cfg) (source_host envelope) \<noteq> Some True
        then (False, on_metrics recordDrop t)
      else
        let t = (if tc_type cfg = ''sensor_msgs/Image''
                 then on_metrics (recordCompleteImageEnvelope (sequence envelope)) t else t)
        in if \<not> tf_recv_thread_flag t then (False, t)
           else
             let (result, queue) =
                   PushToBoundedEnvelopeQueue (tc_qos_class cfg) envelope (Some (tf_recv_queue t));
                 t = t\<lparr>tf_recv_queue := the queue\<rparr>
             in if result = kRejected then (False, on_metrics recordTransportQueueDrop t)
                else if result = kReplacedOldest then (True, on_metrics recordTransportQueueDrop t)
                else (True, t))"

text \<open>Decoding and publishing one envelope; \<open>None\<close> when the codec is undefined.\<close>

definition deserializePublish ::
  "('pose, 'o) RosLib \<Rightarrow> ros_time \<Rightarrow> TransportEnvelope \<Rightarrow> TopicFactory \<Rightarrow>
     (('pose, 'o) RosMessage option \<times> TopicFactory) option" where
  "deserializePublish lib now envelope t =
     do { r \<leftarrow> decode_message lib (payload_cfg (tf_cfg t)) now (tc_type (tf_cfg t)) envelope;
          Some (case r of
                  Inl _ \<Rightarrow> (None, on_metrics recordDrop t)
                | Inr msg \<Rightarrow>
                    (Some msg,
                     on_metrics (recordReceive now (of_nat (length (payload envelope)))
                       (inferLatencyMs now (source_time_ns envelope))) t)) }"

text \<open>One round of the worker loop.\<close>

datatype ('pose, 'o) WorkerRound =
    WorkerExit
  | WorkerWait
  | WorkerUndefined
  | WorkerTook TransportEnvelope "('pose, 'o) RosMessage option" TopicFactory

definition recvFunction_round ::
  "('pose, 'o) RosLib \<Rightarrow> ros_time \<Rightarrow> TopicFactory \<Rightarrow> ('pose, 'o) WorkerRound" where
  "recvFunction_round lib now t =
     (if tf_recv_thread_flag t \<and> tf_recv_queue t = [] then WorkerWait
      else if \<not> tf_recv_thread_flag t \<and> tf_recv_queue t = [] then WorkerExit
      else
        let envelope = hd (tf_recv_queue t); t = t\<lparr>tf_recv_queue := tl (tf_recv_queue t)\<rparr>
        in case deserializePublish lib now envelope t of
             None \<Rightarrow> WorkerUndefined
           | Some (msg, t) \<Rightarrow> WorkerTook envelope msg t)"

section \<open>Threads\<close>

definition recv_key :: "TopicCfg \<Rightarrow> string" where
  "recv_key cfg =
     (if tc_dynamic_dst cfg then TopicDirectedKey ''*'' (tc_my_hostname cfg) (tc_wire_name cfg)
      else TopicFanoutKey (tc_src_hostname cfg) (tc_wire_name cfg))"

text \<open>A call that joins the worker: it returns, or waits forever.  The flag is cleared and the worker
  notified without the mutex of its condition variable, so that both can fall between the worker's
  test of its predicate and its wait; the notification is then missed and the worker sleeps for good.
  Whether this happens is up to the scheduler and is the argument \<open>missed\<close>; the interleavings
  themselves are the relation \<open>thread_step\<close> below.\<close>

datatype 'a Joined = Returns 'a | Hangs

text \<open>\<open>subscribe_ok\<close>: whether the transport's \<^verbatim>\<open>Subscribe\<close> returns.  When it throws, the flag is
  cleared, the worker joined and the exception passed on.\<close>

definition createThread ::
  "(string \<Rightarrow> bool) \<Rightarrow> bool \<Rightarrow> TopicFactory \<Rightarrow> ((string + unit) \<times> TopicFactory) Joined" where
  "createThread subscribe_ok missed t =
     (if tf_dir t \<noteq> RECV \<or> tf_recv_thread_flag t then Returns (Inr (), t)
      else
        let t = t\<lparr>tf_recv_thread_flag := True\<rparr>; key = recv_key (tf_cfg t)
        in if subscribe_ok key then Returns (Inr (), t\<lparr>tf_subscription := Some key\<rparr>)
           else if missed then Hangs
           else Returns (Inl ''Subscribe failed'', t\<lparr>tf_recv_thread_flag := False\<rparr>))"

text \<open>The rounds of a worker that ends: it takes the queued envelopes one by one.\<close>

fun drain ::
  "('pose, 'o) RosLib \<Rightarrow> (nat \<Rightarrow> ros_time) \<Rightarrow> nat \<Rightarrow> TransportEnvelope list \<Rightarrow> TopicFactory \<Rightarrow>
     (('pose, 'o) RosMessage option list \<times> TopicFactory) option" where
  "drain lib clock k [] t = Some ([], t)"
| "drain lib clock k (e # q) t =
     do { (m, t) \<leftarrow> deserializePublish lib (clock k) e (t\<lparr>tf_recv_queue := q\<rparr>);
          (ms, t) \<leftarrow> drain lib clock (Suc k) q t;
          Some (m # ms, t) }"

text \<open>\<open>None\<close> when a codec is undefined.  That the worker publishes the queue before it leaves, and that
  it leaves unless the notification is missed, is \<open>stop_protocol\<close> in \<open>Recv_Worker\<close>.\<close>

definition stopThread ::
  "('pose, 'o) RosLib \<Rightarrow> (nat \<Rightarrow> ros_time) \<Rightarrow> bool \<Rightarrow> TopicFactory \<Rightarrow>
     (('pose, 'o) RosMessage option list \<times> TopicFactory) Joined option" where
  "stopThread lib clock missed t =
     (if tf_dir t = SEND then
        Some (Returns ([], t\<lparr>tf_ros_active := False, tf_dynamic_senders := [], tf_sender := None\<rparr>))
      else
        let t = t\<lparr>tf_subscription := None\<rparr>
        in if tf_recv_thread_flag t then
             do { (ms, t) \<leftarrow> drain lib clock 0 (tf_recv_queue t) (t\<lparr>tf_recv_thread_flag := False\<rparr>);
                  Some (if missed then Hangs else Returns (ms, t\<lparr>tf_ros_active := False\<rparr>)) }
           else Some (Returns ([], t\<lparr>tf_ros_active := False\<rparr>)))"

section \<open>The worker and the stopping thread\<close>

text \<open>What the checks of \<open>enqueueEnvelope\<close> let through.\<close>

definition accepts :: "('pose, 'o) RosLib \<Rightarrow> TopicCfg \<Rightarrow> TransportEnvelope \<Rightarrow> bool" where
  "accepts lib cfg e \<longleftrightarrow>
     payload_kind e = expected_payload_kind cfg \<and>
     protocol_version e = kBridgeProtocolVersion \<and> ros_type e = tc_type cfg \<and>
     ros_md5 e = RosTypeMd5 lib (tc_type cfg) \<and>
     (tc_dynamic_dst cfg \<or> source_host e = tc_src_hostname cfg) \<and>
     mfind (tc_src_hostname_map cfg) (source_host e) = Some True"

text \<open>The worker is about to lock the mutex and test its predicate, holds the mutex and is about to
  wait, waits, or has returned.  The stopping thread has not begun, has dropped the subscription, has
  cleared the flag, has notified and joins, or has returned.\<close>

datatype WorkerPc = Testing | Blocking | Blocked | Exited

datatype StopPc = NotStopping | Unsubscribed | Cleared | Notified | Stopped

record ('pose, 'o) threads =
  th_tf :: TopicFactory
  th_worker :: WorkerPc
  th_stop :: StopPc
  th_published :: "('pose, 'o) RosMessage option list"

text \<open>A notification wakes the worker only if it already waits.  Spurious wake-ups, which C++ allows but
  does not promise, are not steps.\<close>

definition woken :: "WorkerPc \<Rightarrow> WorkerPc" where
  "woken w = (if w = Blocked then Testing else w)"

inductive thread_step ::
  "('pose, 'o) RosLib \<Rightarrow> (nat \<Rightarrow> ros_time) \<Rightarrow> ('pose, 'o) threads \<Rightarrow> ('pose, 'o) threads \<Rightarrow> bool"
  for lib clock where
  look: "th_worker p = Testing \<Longrightarrow>
     recvFunction_round lib (clock (length (th_published p))) (th_tf p) = WorkerWait \<Longrightarrow>
     thread_step lib clock p (p\<lparr>th_worker := Blocking\<rparr>)"
| block: "th_worker p = Blocking \<Longrightarrow> thread_step lib clock p (p\<lparr>th_worker := Blocked\<rparr>)"
| take: "th_worker p = Testing \<Longrightarrow>
     recvFunction_round lib (clock (length (th_published p))) (th_tf p) = WorkerTook e m t \<Longrightarrow>
     thread_step lib clock p (p\<lparr>th_tf := t, th_published := th_published p @ [m]\<rparr>)"
| leave: "th_worker p = Testing \<Longrightarrow>
     recvFunction_round lib (clock (length (th_published p))) (th_tf p) = WorkerExit \<Longrightarrow>
     thread_step lib clock p (p\<lparr>th_worker := Exited\<rparr>)"
| unsubscribe: "th_stop p = NotStopping \<Longrightarrow>
     thread_step lib clock p
       (p\<lparr>th_stop := Unsubscribed, th_tf := (th_tf p)\<lparr>tf_subscription := None\<rparr>\<rparr>)"
| clear: "th_stop p = Unsubscribed \<Longrightarrow>
     thread_step lib clock p
       (p\<lparr>th_stop := Cleared, th_tf := (th_tf p)\<lparr>tf_recv_thread_flag := False\<rparr>\<rparr>)"
| notify: "th_stop p = Cleared \<Longrightarrow>
     thread_step lib clock p (p\<lparr>th_stop := Notified, th_worker := woken (th_worker p)\<rparr>)"
| join: "th_stop p = Notified \<Longrightarrow> th_worker p = Exited \<Longrightarrow>
     thread_step lib clock p (p\<lparr>th_stop := Stopped, th_tf := (th_tf p)\<lparr>tf_ros_active := False\<rparr>\<rparr>)"

inductive_cases thread_stepE: "thread_step lib clock p p'"

text \<open>An arrival in between; the queue is not touched while the worker holds the mutex.\<close>

inductive arrive_step ::
  "('pose, 'o) RosLib \<Rightarrow> ('pose, 'o) threads \<Rightarrow> ('pose, 'o) threads \<Rightarrow> bool" for lib where
  arrival: "enqueueEnvelope lib e (th_tf p) = (notified, t) \<Longrightarrow>
     (accepts lib (tf_cfg (th_tf p)) e \<longrightarrow> th_worker p \<noteq> Blocking) \<Longrightarrow>
     arrive_step lib p (p\<lparr>th_tf := t,
       th_worker := (if notified then woken (th_worker p) else th_worker p)\<rparr>)"

inductive_cases arrive_stepE: "arrive_step lib p p'"

text \<open>A running receiver as \<open>createThread\<close> leaves it.\<close>

definition th_start :: "TopicFactory \<Rightarrow> ('pose, 'o) threads" where
  "th_start t = \<lparr>th_tf = t, th_worker = Testing, th_stop = NotStopping, th_published = []\<rparr>"

section \<open>The receiver as a transition system\<close>

text \<open>\<open>rx\<close> is the receiver with two ghosts: the envelopes offered to its queue while it was
  running, in order of arrival, and those the worker has taken.\<close>

record rx =
  rx_tf :: TopicFactory
  rx_pushed :: "TransportEnvelope list"
  rx_taken :: "TransportEnvelope list"

inductive rx_step :: "('pose, 'o) RosLib \<Rightarrow> rx \<Rightarrow> rx \<Rightarrow> bool" for lib where
  arrive: "enqueueEnvelope lib e (rx_tf r) = (n, t) \<Longrightarrow>
     rx_step lib r (r\<lparr>rx_tf := t, rx_pushed := rx_pushed r @
       (if accepts lib (tf_cfg (rx_tf r)) e \<and> tf_recv_thread_flag (rx_tf r) then [e] else [])\<rparr>)"
| work: "recvFunction_round lib now (rx_tf r) = WorkerTook e m t \<Longrightarrow>
     rx_step lib r (r\<lparr>rx_tf := t, rx_taken := rx_taken r @ [e]\<rparr>)"
| halt: "rx_step lib r (r\<lparr>rx_tf := (rx_tf r)\<lparr>tf_subscription := None, tf_recv_thread_flag := False\<rparr>\<rparr>)"

inductive_cases rx_stepE: "rx_step lib r r'"

end
