(* ===== verification/Cv_Properties.thy ===== *)
theory Cv_Properties
  imports Cv_Bridge
begin

text \<open>
  What OpenCV documents of the operations that \<open>Cv_Bridge\<close> uses, and the properties of the conversion
  between ROS images and OpenCV matrices: reads stay inside the message, types follow encodings, and
  a message holds the pixels of its matrix.
\<close>

section \<open>Documented behaviour of OpenCV\<close>

text \<open>The kind of a format and the channels of its pixels.\<close>

fun kind_of :: "Encoding \<Rightarrow> EncKind" where
  "kind_of INVALID = KGeneric" | "kind_of GRAY = KMono" | "kind_of RGB = KColor"
| "kind_of BGR = KColor" | "kind_of RGBA = KColorAlpha" | "kind_of BGRA = KColorAlpha"
| "kind_of YUV422 = KYuv" | "kind_of BAYER_RGGB = KBayer" | "kind_of BAYER_BGGR = KBayer"
| "kind_of BAYER_GBRG = KBayer" | "kind_of BAYER_GRBG = KBayer"

fun kind_channels :: "EncKind \<Rightarrow> int" where
  "kind_channels KMono = 1" | "kind_channels KColor = 3" | "kind_channels KColorAlpha = 4"
| "kind_channels KBayer = 1" | "kind_channels KYuv = 2" | "kind_channels KGeneric = 1"

text \<open>The formats, channel order included, that a colour conversion expects and produces, as its name
  says; OpenCV documents \<^verbatim>\<open>BayerBG\<close> as the pattern RGGB, \<^verbatim>\<open>BayerRG\<close> as BGGR, \<^verbatim>\<open>BayerGR\<close> as GBRG and
  \<^verbatim>\<open>BayerGB\<close> as GRBG.\<close>

fun code_formats :: "ConversionCode \<Rightarrow> Encoding \<times> Encoding" where
  "code_formats SAME_FORMAT = (INVALID, INVALID)"
| "code_formats COLOR_GRAY2RGB = (GRAY, RGB)" | "code_formats COLOR_GRAY2BGR = (GRAY, BGR)"
| "code_formats COLOR_GRAY2RGBA = (GRAY, RGBA)" | "code_formats COLOR_GRAY2BGRA = (GRAY, BGRA)"
| "code_formats COLOR_RGB2GRAY = (RGB, GRAY)" | "code_formats COLOR_RGB2BGR = (RGB, BGR)"
| "code_formats COLOR_RGB2RGBA = (RGB, RGBA)" | "code_formats COLOR_RGB2BGRA = (RGB, BGRA)"
| "code_formats COLOR_BGR2GRAY = (BGR, GRAY)" | "code_formats COLOR_BGR2RGB = (BGR, RGB)"
| "code_formats COLOR_BGR2RGBA = (BGR, RGBA)" | "code_formats COLOR_BGR2BGRA = (BGR, BGRA)"
| "code_formats COLOR_RGBA2GRAY = (RGBA, GRAY)" | "code_formats COLOR_RGBA2RGB = (RGBA, RGB)"
| "code_formats COLOR_RGBA2BGR = (RGBA, BGR)" | "code_formats COLOR_RGBA2BGRA = (RGBA, BGRA)"
| "code_formats COLOR_BGRA2GRAY = (BGRA, GRAY)" | "code_formats COLOR_BGRA2RGB = (BGRA, RGB)"
| "code_formats COLOR_BGRA2BGR = (BGRA, BGR)" | "code_formats COLOR_BGRA2RGBA = (BGRA, RGBA)"
| "code_formats COLOR_YUV2GRAY_UYVY = (YUV422, GRAY)" | "code_formats COLOR_YUV2RGB_UYVY = (YUV422, RGB)"
| "code_formats COLOR_YUV2BGR_UYVY = (YUV422, BGR)" | "code_formats COLOR_YUV2RGBA_UYVY = (YUV422, RGBA)"
| "code_formats COLOR_YUV2BGRA_UYVY = (YUV422, BGRA)" | "code_formats COLOR_BayerBG2GRAY = (BAYER_RGGB, GRAY)"
| "code_formats COLOR_BayerBG2RGB = (BAYER_RGGB, RGB)" | "code_formats COLOR_BayerBG2BGR = (BAYER_RGGB, BGR)"
| "code_formats COLOR_BayerRG2GRAY = (BAYER_BGGR, GRAY)" | "code_formats COLOR_BayerRG2RGB = (BAYER_BGGR, RGB)"
| "code_formats COLOR_BayerRG2BGR = (BAYER_BGGR, BGR)" | "code_formats COLOR_BayerGR2GRAY = (BAYER_GBRG, GRAY)"
| "code_formats COLOR_BayerGR2RGB = (BAYER_GBRG, RGB)" | "code_formats COLOR_BayerGR2BGR = (BAYER_GBRG, BGR)"
| "code_formats COLOR_BayerGB2GRAY = (BAYER_GRBG, GRAY)" | "code_formats COLOR_BayerGB2RGB = (BAYER_GRBG, RGB)"
| "code_formats COLOR_BayerGB2BGR = (BAYER_GRBG, BGR)"

definition code_channels :: "ConversionCode \<Rightarrow> int \<times> int" where
  "code_channels code = (case code_formats code of
     (s, d) \<Rightarrow> (kind_channels (kind_of s), kind_channels (kind_of d)))"

text \<open>A matrix that owns its pixels.\<close>

definition own_mat :: "Mat \<Rightarrow> bool" where
  "own_mat m \<longleftrightarrow> 0 \<le> mat_rows m \<and> 0 \<le> mat_cols m \<and> readable m \<and>
     (row_size m \<le> mat_step m \<or> mat_rows m \<le> 1)"

definition same_size :: "Mat \<Rightarrow> Mat \<Rightarrow> bool" where
  "same_size m m' \<longleftrightarrow> mat_rows m' = mat_rows m \<and> mat_cols m' = mat_cols m"

definition cvtColor_documented :: "CvLib \<Rightarrow> bool" where
  "cvtColor_documented lib \<longleftrightarrow>
     (\<forall>code m m'. code \<noteq> SAME_FORMAT \<and> lib_cvtColor lib code m = Inr m' \<longrightarrow>
        mat_type m' = CV_MAKETYPE (CV_MAT_DEPTH (mat_type m)) (snd (code_channels code)) \<and>
        same_size m m' \<and> own_mat m')"

definition convertTo_documented :: "CvLib \<Rightarrow> bool" where
  "convertTo_documented lib \<longleftrightarrow>
     (\<forall>m ty a. 0 \<le> mat_rows m \<and> 0 \<le> mat_cols m \<longrightarrow>
        mat_type (convertTo lib m ty a) = CV_MAKETYPE (CV_MAT_DEPTH ty) (CV_MAT_CN (mat_type m)) \<and>
        same_size m (convertTo lib m ty a) \<and> own_mat (convertTo lib m ty a))"

definition resize_documented :: "CvLib \<Rightarrow> bool" where
  "resize_documented lib \<longleftrightarrow>
     (\<forall>m cols rows m'. cv_resize lib m cols rows = Inr m' \<longrightarrow>
        mat_type m' = mat_type m \<and> mat_cols m' = cols \<and> mat_rows m' = rows \<and> own_mat m')"

definition imdecode_documented :: "CvLib \<Rightarrow> bool" where
  "imdecode_documented lib \<longleftrightarrow>
     (\<forall>data m. imdecode_color lib data = Inr m \<and> \<not> mat_empty m \<longrightarrow>
        mat_type m = CV_MAKETYPE 0 3 \<and> own_mat m)"

text \<open>What is assumed of the constructor: it throws on negative sizes, which the documentation does not
  say of it, and it takes rows without gaps.\<close>

definition mat_documented :: "CvLib \<Rightarrow> bool" where
  "mat_documented lib \<longleftrightarrow>
     (\<forall>rows cols ty step. mat_accepted lib rows cols ty step \<longrightarrow> 0 \<le> rows \<and> 0 \<le> cols) \<and>
     (\<forall>rows cols ty. 0 \<le> rows \<and> 0 \<le> cols \<longrightarrow> mat_accepted lib rows cols ty (nat cols * elemSize ty))"

text \<open>A JPEG image decodes to an image of the size that was encoded; an empty one is not encoded.\<close>

definition jpeg_documented :: "CvLib \<Rightarrow> bool" where
  "jpeg_documented lib \<longleftrightarrow>
     (\<forall>m q d. imencode lib ''.jpg'' m (Some q) = Inr (Some d) \<and> mat_type m = CV_MAKETYPE 0 3 \<longrightarrow>
        0 < mat_rows m \<and> 0 < mat_cols m \<and>
        (\<exists>f. imdecode_color lib d = Inr f \<and> \<not> mat_empty f \<and> same_size m f))"

text \<open>\<^verbatim>\<open>mixChannels\<close> on 8-bit channels: channel \<open>t\<close> of every pixel is channel \<open>f\<close> of the same
  pixel of the source, for each pair, when no channel is the target of two.\<close>

definition mixChannels_documented :: "CvLib \<Rightarrow> bool" where
  "mixChannels_documented lib \<longleftrightarrow>
     (\<forall>m pairs. 0 \<le> mat_rows m \<and> 0 \<le> mat_cols m \<longrightarrow>
        mat_type (mixChannels lib m pairs) = mat_type m \<and> same_size m (mixChannels lib m pairs) \<and>
        own_mat (mixChannels lib m pairs) \<and>
        (\<forall>f t i x. CV_MAT_DEPTH (mat_type m) = 0 \<and> (f, t) \<in> set pairs \<and>
             (\<forall>f'. (f', t) \<in> set pairs \<longrightarrow> f' = f) \<and> int i < mat_rows m \<and> int x < mat_cols m \<and>
             0 \<le> f \<and> f < CV_MAT_CN (mat_type m) \<and> 0 \<le> t \<and> t < CV_MAT_CN (mat_type m) \<longrightarrow>
           mat_row (mixChannels lib m pairs) i ! (x * nat (CV_MAT_CN (mat_type m)) + nat t) =
           mat_row m i ! (x * nat (CV_MAT_CN (mat_type m)) + nat f)))"

definition cv_documented :: "CvLib \<Rightarrow> bool" where
  "cv_documented lib \<longleftrightarrow> documented (enc lib) \<and> mat_documented lib \<and> cvtColor_documented lib \<and>
     convertTo_documented lib \<and> resize_documented lib \<and> imdecode_documented lib \<and>
     mixChannels_documented lib"

section \<open>Types of encodings\<close>

lemma elemSize_make:
  "1 \<le> n \<Longrightarrow> n \<le> 512 \<Longrightarrow> elemSize (CV_MAKETYPE d n) = nat (n * depth_bytes (d mod 8))"
  by (simp add: elemSize_def)

lemma digit_not_nul: "is_digit c \<Longrightarrow> of_char c \<noteq> (0 :: nat)"
  by (simp add: is_digit_def Let_def)

lemma depth_names_not_nul: "d \<in> set depth_names \<Longrightarrow> c \<in> set d \<Longrightarrow> of_char c \<noteq> (0 :: nat)"
  by (auto simp: depth_names_def)

lemma c_str_id: "(\<And>c. c \<in> set s \<Longrightarrow> of_char c \<noteq> (0 :: nat)) \<Longrightarrow> c_str s = s"
  unfolding c_str_def takeWhile_eq_all_conv by blast

lemma match_generic_shape:
  assumes "match_generic s = Some (d, ds)"
  shows "d \<in> set depth_names \<and> s = d @ ''C'' @ ds \<and> list_all is_digit ds"
proof -
  have f: "find (\<lambda>d. starts_with (d @ ''C'') s) depth_names = Some d"
    and ds: "ds = drop (Suc (length d)) s" "list_all is_digit ds"
    using assms by (auto simp: match_generic_def Let_def split: option.splits if_splits)
  from f have d: "d \<in> set depth_names" and s: "starts_with (d @ ''C'') s"
    by (auto simp: find_Some_iff)
  then obtain r where "s = (d @ ''C'') @ r" by (auto simp: starts_with_iff)
  then show ?thesis using d ds by simp
qed

lemma match_generic_c_str:
  assumes "match_generic s = Some x" shows "c_str s = s"
proof -
  obtain d ds where x: "x = (d, ds)" by (cases x)
  have s: "d \<in> set depth_names" "s = d @ ''C'' @ ds" "list_all is_digit ds"
    using match_generic_shape assms x by blast+
  show ?thesis
    by (rule c_str_id) (use s depth_names_not_nul digit_not_nul in \<open>auto simp: list_all_iff\<close>)
qed

text \<open>The OpenCV type of a documented encoding has its channels, and its depth has its bits.\<close>

lemma depthStrToInt_range: "0 \<le> depthStrToInt d \<and> depthStrToInt d \<le> 6"
  by (simp add: depthStrToInt_def)

lemma getCvType_table:
  "list_all (\<lambda>(e, kind, n, bits). getCvType e = Inr (CV_MAKETYPE (if bits = 8 then 0 else 2) n) \<and>
     (bits = 8 \<or> bits = 16) \<and> 1 \<le> n \<and> n \<le> 4) enc_table"
  by code_simp

lemma getCvType_entry:
  assumes "enc_entry e = Some (kind, n, bits)" and "1 \<le> n" "n \<le> 512"
  shows "\<exists>d. getCvType e = Inr (CV_MAKETYPE d n) \<and> 0 \<le> d \<and> d \<le> 6 \<and> bits = 8 * depth_bytes d"
proof (cases "map_of enc_table e")
  case (Some x)
  then have "x = (kind, n, bits)" using assms(1) by (simp add: enc_entry_def)
  then have "map_of enc_table e = Some (kind, n, bits)" using Some by simp
  then have "(e, kind, n, bits) \<in> set enc_table" by (rule map_of_SomeD)
  then have "getCvType e = Inr (CV_MAKETYPE (if bits = 8 then 0 else 2) n) \<and> (bits = 8 \<or> bits = 16)"
    using getCvType_table unfolding list_all_iff by fastforce
  then show ?thesis
    by (intro exI [of _ "if bits = 8 then 0 else 2"]) (auto simp: depth_bytes_def)
next
  case None
  then have ne: "getCvType e =
        (case match_generic (c_str e) of
           Some (depth, count) \<Rightarrow>
             bindR (atoi count) (\<lambda>n. Inr (CV_MAKETYPE (depthStrToInt depth) n))
         | None \<Rightarrow>
             if c_str e \<in> set depth_names then Inr (CV_MAKETYPE (depthStrToInt (c_str e)) 1)
             else Inl (Throws (''Unrecognized image encoding ['' @ e @ '']'')))"
    unfolding enc_table_def map_of_eq_None_iff getCvType_def by simp
  show ?thesis
  proof (cases "match_generic e")
    case m: None
    then have "e \<in> set depth_names" "n = 1" "bits = depth_bits e"
      using assms(1) None by (auto simp: enc_entry_def split: if_splits)
    moreover have "c_str e = e" by (rule c_str_id) (use depth_names_not_nul \<open>e \<in> _\<close> in blast)
    ultimately show ?thesis using ne m depthStrToInt_range by (auto simp: depth_bits_def)
  next
    case (Some x)
    obtain d ds where x: "x = (d, ds)" by (cases x)
    then have "atoi ds = Inr n" "bits = depth_bits d"
      using assms(1) None Some by (auto simp: enc_entry_def split: sum.splits)
    then show ?thesis
      using ne Some x match_generic_c_str [OF Some] depthStrToInt_range by (auto simp: depth_bits_def)
  qed
qed

section \<open>Reading a message\<close>

text \<open>The bytes of a pixel of a documented encoding, and the condition under which the two products
  of the checks do not wrap around in 32 bits.\<close>

definition pixel_size :: "int \<Rightarrow> int \<Rightarrow> nat" where
  "pixel_size n bits = nat (n * (bits div 8))"

definition no_wrap :: "RosImage \<Rightarrow> nat \<Rightarrow> bool" where
  "no_wrap s pixel \<longleftrightarrow>
     unat (im_height s) * unat (im_step s) < 2 ^ 32 \<and> unat (im_width s) * pixel < 2 ^ 32"

lemma depth_bytes_range: "1 \<le> depth_bytes d \<and> depth_bytes d \<le> 8"
  by (simp add: depth_bytes_def)

lemma unat_product:
  fixes a b :: u32
  assumes "unat a * unat b < 2 ^ 32"
  shows "unat (a * b) = unat a * unat b"
  using assms by (simp add: unat_mult_lem [symmetric])

lemma unat_of_nat_u32: "p < 2 ^ 32 \<Longrightarrow> unat (of_nat p :: u32) = p"
  by (simp add: unat_of_nat)

lemma row_product:
  assumes "0 \<le> n" "0 \<le> k" and "unat w * nat (n * k) < 2 ^ 32"
  shows "unat (w * word_of_int k * word_of_int n :: u32) = unat w * nat (n * k)"
proof -
  obtain n' k' where nk: "n = int n'" "k = int k'" using assms(1,2) by (metis nonneg_int_cases)
  have "of_nat (unat w) = w" by simp
  then have "w * word_of_int k * word_of_int n = (of_nat (unat w * (n' * k')) :: u32)"
    unfolding nk by (simp add: ac_simps)
  moreover have "nat (n * k) = n' * k'" by (simp add: nk nat_mult_distrib)
  ultimately show ?thesis using assms(3) by (simp only: unat_of_nat_u32)
qed

lemma elemSize_entry:
  assumes "getCvType e = Inr (CV_MAKETYPE d n)" "0 \<le> d" "d \<le> 6" "1 \<le> n" "n \<le> 512"
  shows "elemSize (CV_MAKETYPE d n) = pixel_size n (8 * depth_bytes d)"
  using assms by (simp add: elemSize_make pixel_size_def)

lemma sint_unat:
  assumes "0 \<le> sint (w :: u32)" shows "sint w = int (unat w)"
proof -
  have "sint w < 2 ^ 32" using sint_lt [of w] by simp
  then have "take_bit 32 (sint w) = sint w" using assms by (simp add: take_bit_int_eq_self)
  then have "uint w = sint w" by (simp add: uint_sint)
  then show ?thesis by (simp flip: uint_nat)
qed

text \<open>The matrix over the data of a message.\<close>

definition view :: "RosImage \<Rightarrow> int \<Rightarrow> Mat" where
  "view s ty = \<lparr>mat_rows = sint (im_height s), mat_cols = sint (im_width s), mat_type = ty,
     mat_step = unat (im_step s), mat_data = im_data s\<rparr>"

lemma make_view: "mat_documented lib \<Longrightarrow>
    make_mat lib (sint (im_height s)) (sint (im_width s)) ty (im_data s) (unat (im_step s)) = Inr m \<Longrightarrow>
    m = view s ty \<and> 0 \<le> sint (im_height s) \<and> 0 \<le> sint (im_width s)"
  by (auto simp: make_mat_def view_def mat_documented_def split: if_splits)

lemma make_view_cases:
  "make_mat lib (sint (im_height s)) (sint (im_width s)) ty (im_data s) (unat (im_step s)) =
     (if mat_accepted lib (sint (im_height s)) (sint (im_width s)) ty (unat (im_step s))
      then Inr (view s ty) else Inl (Throws ''cv::Exception''))"
  by (simp add: make_mat_def view_def)

definition swapped_type :: "int \<Rightarrow> int \<Rightarrow> int" where
  "swapped_type n bits = CV_MAKETYPE 0 (n * (bits div 8))"

lemma matFromImage_cases:
  assumes "documented (enc lib)" and "mat_documented lib"
    and "enc_entry (im_encoding s) = Some (kind, n, bits)" and "1 \<le> n" "n \<le> 512"
    and "getCvType (im_encoding s) = Inr ty" and "no_wrap s (pixel_size n bits)" and "0 \<le> bits"
  obtains (rejected) e where "matFromImage lib s = Inl (Throws e)"
  | (accepted) "0 \<le> sint (im_height s)" "0 \<le> sint (im_width s)"
      "unat (im_width s) * pixel_size n bits \<le> unat (im_step s)"
      "length (im_data s) = unat (im_height s) * unat (im_step s)"
      "matFromImage lib s =
         (if same_endian lib s \<or> bits div 8 = 1 then Inr (view s ty)
          else if readable (view s (swapped_type n bits))
          then Inr (mixChannels lib (view s (swapped_type n bits)) (swap_pairs n (bits div 8)))
          else Inl Undefined)"
proof -
  have e: "bitDepth (enc lib) (im_encoding s) = Inr bits" "numChannels (enc lib) (im_encoding s) = Inr n"
    using assms(1,3) by (auto simp: documented_def)
  have w: "im_step s < im_width s * word_of_int (bits div 8) * word_of_int n \<longleftrightarrow>
      unat (im_step s) < unat (im_width s) * pixel_size n bits"
    using row_product [of n "bits div 8" "im_width s"] assms(4,7,8)
    by (simp add: word_less_nat_alt no_wrap_def pixel_size_def)
  have h: "unat (im_height s * im_step s) = unat (im_height s) * unat (im_step s)"
    using assms(7) by (simp add: no_wrap_def unat_product)
  show thesis
  proof (cases "\<exists>e. matFromImage lib s = Inl (Throws e)")
    case True
    then show ?thesis using rejected by blast
  next
    case False
    then have "\<not> unat (im_step s) < unat (im_width s) * pixel_size n bits"
      "unat (im_height s) * unat (im_step s) = length (im_data s)"
      "mat_accepted lib (sint (im_height s)) (sint (im_width s)) ty (unat (im_step s))"
      "\<not> (same_endian lib s \<or> bits div 8 = 1) \<Longrightarrow>
         mat_accepted lib (sint (im_height s)) (sint (im_width s)) (swapped_type n bits) (unat (im_step s))"
      by (auto simp: matFromImage_def assms(6) e w h Let_def make_view_cases swapped_type_def split: if_splits)
    then show ?thesis
      using assms(2) by (intro accepted)
        (auto simp: matFromImage_def assms(6) e w h Let_def make_view_cases swapped_type_def mat_documented_def)
  qed
qed

lemma elemSize_swapped:
  assumes "1 \<le> n * (bits div 8)"
  shows "elemSize (swapped_type n bits) \<le> pixel_size n bits"
proof -
  let ?k = "n * (bits div 8)"
  have "(?k - 1) mod 512 \<le> ?k - 1" using assms by (intro zmod_le_nonneg_dividend) simp
  then show ?thesis
    by (simp add: elemSize_def swapped_type_def CV_MAT_CN_make pixel_size_def depth_bytes_def)
qed

lemma readable_view:
  assumes "unat (im_width s) * pixel \<le> unat (im_step s)" and "elemSize ty \<le> pixel"
    and "length (im_data s) = unat (im_height s) * unat (im_step s)"
    and "0 \<le> sint (im_height s)" "0 \<le> sint (im_width s)"
  shows "readable (view s ty) \<and> row_size (view s ty) \<le> mat_step (view s ty)"
proof -
  have "row_size (view s ty) \<le> unat (im_width s) * pixel"
    using assms(2,5) by (simp add: row_size_def view_def sint_unat)
  then have r: "row_size (view s ty) \<le> unat (im_step s)" using assms(1) by simp
  have rows: "nat (mat_rows (view s ty)) = unat (im_height s)"
    using assms(4) by (simp add: view_def sint_unat)
  show ?thesis
  proof (cases "unat (im_height s)")
    case 0
    then have "mat_rows (view s ty) \<le> 0" using rows by simp
    then show ?thesis using r by (simp add: readable_def view_def)
  next
    case (Suc k)
    then have "(nat (mat_rows (view s ty)) - 1) * mat_step (view s ty) + row_size (view s ty) \<le>
        length (mat_data (view s ty))"
      using r rows assms(3) by (simp add: view_def)
    then show ?thesis using r by (simp add: readable_def view_def)
  qed
qed

text \<open>Whatever image arrives, the matrix over it stays inside the message: when the two products
  of the checks do not wrap around, OpenCV is never handed memory beyond the data, every row of the
  matrix lies in the data and in its own step, and the matrix has the size of the message.\<close>

lemma view_in_bounds:
  assumes "cv_documented lib"
    and "enc_entry (im_encoding s) = Some (kind, n, bits)" and "1 \<le> n" "n \<le> 512"
    and "no_wrap s (pixel_size n bits)"
  shows "matFromImage lib s \<noteq> Inl Undefined \<and>
    (\<forall>m. matFromImage lib s = Inr m \<longrightarrow>
       readable m \<and> (row_size m \<le> mat_step m \<or> mat_rows m \<le> 1) \<and>
       mat_rows m = int (unat (im_height s)) \<and> mat_cols m = int (unat (im_width s)))"
proof -
  have docs: "documented (enc lib)" "mat_documented lib" "mixChannels_documented lib"
    using assms(1) by (simp_all add: cv_documented_def)
  obtain d where d: "getCvType (im_encoding s) = Inr (CV_MAKETYPE d n)" "0 \<le> d" "d \<le> 6"
    "bits = 8 * depth_bytes d"
    using getCvType_entry [OF assms(2-4)] by blast
  have b: "0 \<le> bits" "1 \<le> n * (bits div 8)"
    using d(4) depth_bytes_range [of d] assms(3) mult_mono [of 1 n 1 "depth_bytes d"] by simp_all
  have ty: "elemSize (CV_MAKETYPE d n) \<le> pixel_size n bits"
    using elemSize_entry [OF d(1-3) assms(3,4)] d(4) by simp
  show ?thesis
  proof (cases rule: matFromImage_cases [OF docs(1,2) assms(2-4) d(1) assms(5) b(1)])
    case (1 e)
    then show ?thesis by simp
  next
    case 2
    note r1 = readable_view [OF 2(3) ty 2(4,1,2)]
    note r2 = readable_view [OF 2(3) elemSize_swapped [OF b(2)] 2(4,1,2)]
    let ?m = "mixChannels lib (view s (swapped_type n bits)) (swap_pairs n (bits div 8))"
    have m: "own_mat ?m" "same_size (view s (swapped_type n bits)) ?m"
      using docs(3) 2(1,2) by (simp_all add: mixChannels_documented_def view_def)
    have rows: "mat_rows (view s t) = int (unat (im_height s))" "mat_cols (view s t) = int (unat (im_width s))" for t
      using 2(1,2) by (simp_all add: view_def sint_unat)
    show ?thesis
      unfolding 2(5) using r1 r2 m by (auto simp: rows own_mat_def same_size_def)
  qed
qed

section \<open>Which conversions there are\<close>

text \<open>Format, channels and bits after a conversion step towards \<open>dst_bits\<close> bits, if the step applies: a
  colour conversion needs an image of its own source format.\<close>

fun step_shape ::
  "int \<Rightarrow> ConversionCode \<Rightarrow> Encoding \<times> int \<times> int \<Rightarrow> (Encoding \<times> int \<times> int) option" where
  "step_shape dst_bits code (f, n, bits) =
     (if code = SAME_FORMAT then Some (f, n, dst_bits)
      else if f = fst (code_formats code) \<and> n = fst (code_channels code)
        then Some (snd (code_formats code), snd (code_channels code), bits) else None)"

definition path_shape ::
  "int \<Rightarrow> ConversionCode list \<Rightarrow> Encoding \<times> int \<times> int \<Rightarrow> (Encoding \<times> int \<times> int) option" where
  "path_shape dst_bits codes shape = foldO (step_shape dst_bits) codes shape"

text \<open>The conversions of the library: between formats without colour information or to one, with the
  same number of channels; from any colour format to mono and colour; to an alpha channel unless from
  a Bayer pattern; and YUV to itself.\<close>

fun convertible :: "EncKind \<Rightarrow> int \<Rightarrow> EncKind \<Rightarrow> int \<Rightarrow> bool" where
  "convertible k n k' n' \<longleftrightarrow>
     (if k = KGeneric then k' = KGeneric \<and> n = n'
      else if k' = KGeneric then n = n'
      else k' = KMono \<or> k' = KColor \<or> k' = KColorAlpha \<and> k \<noteq> KBayer \<or> k' = KYuv \<and> k = KYuv)"

lemma enc_table_kinds:
  "list_all (\<lambda>(e, kind, n, bits). kind \<noteq> KGeneric \<and> kind = kind_of (getEncoding e) \<and>
     n = kind_channels kind \<and> (kind = KYuv) = (e = enc_YUV422)) enc_table"
  by code_simp

lemma conversion_table:
  "map_of getConversionCodes (a, b) =
     (if a = INVALID \<or> b = INVALID \<or> \<not> convertible (kind_of a) 0 (kind_of b) 0 then None
      else if a = b then Some [SAME_FORMAT]
      else map_of (drop 6 getConversionCodes) (a, b))"
  by (cases a; cases b; simp add: getConversionCodes_def)

lemma conversion_supported:
  "map_of getConversionCodes (a, b) = None \<longleftrightarrow>
     a = INVALID \<or> b = INVALID \<or> \<not> convertible (kind_of a) 0 (kind_of b) 0"
  by (cases a; cases b; simp add: getConversionCodes_def)

lemma convertible_color:
  "k \<noteq> KGeneric \<Longrightarrow> k' \<noteq> KGeneric \<Longrightarrow> convertible k n k' n' = convertible k m k' m'"
  by simp

lemma convertible_generic:
  "k = KGeneric \<or> k' = KGeneric \<Longrightarrow> convertible k n k' n' \<Longrightarrow> n = n'"
  by (auto split: if_splits)

lemma conversion_steps:
  "list_all (\<lambda>((a, b), codes). a \<noteq> b \<and> (case codes of [c] \<Rightarrow> c \<noteq> SAME_FORMAT \<and>
      code_formats c = (a, b) | _ \<Rightarrow> False))
   (drop 6 getConversionCodes)"
  by code_simp

lemma entry_kind:
  assumes "enc_entry e = Some (kind, n, bits)"
  shows "(kind = KYuv) = (e = enc_YUV422) \<and>
    (kind \<noteq> KGeneric \<longrightarrow> kind = kind_of (getEncoding e) \<and> n = kind_channels kind \<and>
       (e, kind, n, bits) \<in> set enc_table)"
proof (cases "map_of enc_table e")
  case (Some x)
  then have "map_of enc_table e = Some (kind, n, bits)" using assms by (simp add: enc_entry_def)
  then have m: "(e, kind, n, bits) \<in> set enc_table" by (rule map_of_SomeD)
  from bspec [OF enc_table_kinds [unfolded list_all_iff] m]
  have "kind \<noteq> KGeneric \<and> kind = kind_of (getEncoding e) \<and> n = kind_channels kind \<and>
    (kind = KYuv) = (e = enc_YUV422)" unfolding case_prod_conv by blast
  with m show ?thesis by blast
next
  case None
  then have "kind = KGeneric" using assms
    by (auto simp: enc_entry_def split: option.splits if_splits sum.splits)
  moreover have "e \<noteq> enc_YUV422" using None by (auto simp: enc_table_def)
  ultimately show ?thesis by simp
qed

lemma color_format_entry:
  assumes "documented E" and "enc_entry e = Some (kind, n, bits)"
  shows "color_format E e \<longleftrightarrow> kind \<noteq> KGeneric"
  using assms entry_kind [OF assms(2)] unfolding color_format_def documented_def
  by (cases kind) auto

lemma getConversionCode_color:
  assumes "documented E" and "enc_entry src = Some (k, n, b)" and "enc_entry dst = Some (k', n', b')"
    and "k \<noteq> KGeneric" "k' \<noteq> KGeneric"
  shows "getConversionCode E src dst =
    (case map_of getConversionCodes (getEncoding src, getEncoding dst) of
       None \<Rightarrow> Inl (''Unsupported conversion from ['' @ src @ ''] to ['' @ dst @ '']'')
     | Some codes \<Rightarrow> Inr (if b \<noteq> b' \<and> getEncoding src \<noteq> getEncoding dst then codes @ [SAME_FORMAT] else codes))"
proof -
  have c: "numChannels E src = Inr n" "numChannels E dst = Inr n'"
    "bitDepth E src = Inr b" "bitDepth E dst = Inr b'"
    using assms(1-3) unfolding documented_def by blast+
  note f = color_format_entry [OF assms(1,2)] color_format_entry [OF assms(1,3)]
  show ?thesis
    unfolding getConversionCode_def Let_def c bindR_simps f using assms(4,5)
    by (simp split: option.split)
qed

lemma getConversionCode_generic:
  assumes "documented E" and "enc_entry src = Some (k, n, b)" and "enc_entry dst = Some (k', n', b')"
    and "k = KGeneric \<or> k' = KGeneric"
  shows "getConversionCode E src dst = Inr codes \<longleftrightarrow> convertible k n k' n' \<and> codes = [SAME_FORMAT]"
proof -
  have c: "numChannels E src = Inr n" "numChannels E dst = Inr n'"
    using assms(1-3) unfolding documented_def by blast+
  note f = color_format_entry [OF assms(1,2)] color_format_entry [OF assms(1,3)]
  show ?thesis
    unfolding getConversionCode_def Let_def c bindR_simps f using assms(4)
    by (cases "k = KGeneric"; cases "k' = KGeneric"; cases "n = n'") (simp_all add: eq_commute)
qed

lemma conversion_step:
  assumes "map_of getConversionCodes (a, b) = Some codes" and "a \<noteq> b"
  shows "\<exists>c. codes = [c] \<and> c \<noteq> SAME_FORMAT \<and> code_formats c = (a, b)"
proof -
  have "map_of (drop 6 getConversionCodes) (a, b) = Some codes"
    using assms by (simp add: conversion_table split: if_splits)
  then have "((a, b), codes) \<in> set (drop 6 getConversionCodes)" by (rule map_of_SomeD)
  from bspec [OF conversion_steps [unfolded list_all_iff] this] show ?thesis
    by (auto split: list.splits)
qed

lemma conversion_codes:
  assumes "documented E" and "enc_entry src = Some (k, n, b)" and "enc_entry dst = Some (k', n', b')"
    and "getConversionCode E src dst = Inr codes"
  obtains (same) "codes = [SAME_FORMAT]" "n = n'"
      "k = KGeneric \<or> k' = KGeneric \<or> getEncoding src = getEncoding dst"
  | (one) c where "codes = [c]" "c \<noteq> SAME_FORMAT" "code_channels c = (n, n')"
      "code_formats c = (getEncoding src, getEncoding dst)" "b = b'"
      "k \<noteq> KGeneric" "k' \<noteq> KGeneric"
  | (two) c where "codes = [c, SAME_FORMAT]" "c \<noteq> SAME_FORMAT" "code_channels c = (n, n')"
      "code_formats c = (getEncoding src, getEncoding dst)" "k \<noteq> KGeneric" "k' \<noteq> KGeneric"
proof (cases "k = KGeneric \<or> k' = KGeneric")
  case True
  then have "codes = [SAME_FORMAT]" "convertible k n k' n'"
    using getConversionCode_generic [OF assms(1-3)] assms(4) by blast+
  then show ?thesis using same convertible_generic [OF True] True by blast
next
  case False
  let ?a = "getEncoding src" and ?b = "getEncoding dst"
  have k: "k = kind_of ?a" "k' = kind_of ?b" "n = kind_channels k" "n' = kind_channels k'"
    using entry_kind [OF assms(2)] entry_kind [OF assms(3)] False by blast+
  obtain cs where m: "map_of getConversionCodes (?a, ?b) = Some cs"
    and codes: "codes = (if b \<noteq> b' \<and> ?a \<noteq> ?b then cs @ [SAME_FORMAT] else cs)"
    using getConversionCode_color [OF assms(1-3)] False assms(4) by (auto split: option.splits)
  show ?thesis
  proof (cases "?a = ?b")
    case True
    then have "cs = [SAME_FORMAT]" using m by (simp add: conversion_table split: if_splits)
    moreover have "n = n'" using True k by simp
    ultimately show ?thesis using same codes True by simp
  next
    case ne: False
    obtain c where "cs = [c]" "c \<noteq> SAME_FORMAT" "code_formats c = (?a, ?b)"
      using conversion_step [OF m ne] by blast
    moreover from this have "code_channels c = (n, n')" using k by (simp add: code_channels_def)
    ultimately show ?thesis using one two codes ne False by (cases "b = b'") auto
  qed
qed

lemma conversion_exists:
  assumes "documented E" and "enc_entry src = Some (k, n, b)" and "enc_entry dst = Some (k', n', b')"
  shows "(\<exists>codes. getConversionCode E src dst = Inr codes) = convertible k n k' n'"
proof (cases "k = KGeneric \<or> k' = KGeneric")
  case True
  then show ?thesis using getConversionCode_generic [OF assms] by blast
next
  case False
  let ?a = "getEncoding src" and ?b = "getEncoding dst"
  have k: "k = kind_of ?a" "k' = kind_of ?b" "n = kind_channels k" "n' = kind_channels k'"
    using entry_kind [OF assms(2)] entry_kind [OF assms(3)] False by blast+
  have "map_of getConversionCodes (?a, ?b) = None \<longleftrightarrow> \<not> convertible k n k' n'"
    using conversion_supported [of ?a ?b] False k convertible_color [of k k' n n' 0 0]
    by (metis kind_of.simps(1))
  then show ?thesis
    using getConversionCode_color [OF assms] False by (auto simp del: convertible.simps split: option.splits)
qed

text \<open>C14: A documented encoding converts to another exactly when the rules of the library allow it,
  and then each step of the path finds the format and the channels it expects, and the path ends with
  the channels and the bit depth of the target and, between two colour encodings, in the format of
  the target, the order of its channels included.\<close>

theorem conversion_path:
  assumes "documented E" and "enc_entry src = Some (k, n, b)" and "enc_entry dst = Some (k', n', b')"
  shows "(\<exists>codes. getConversionCode E src dst = Inr codes) = convertible k n k' n' \<and>
    (\<forall>codes. getConversionCode E src dst = Inr codes \<longrightarrow>
       path_shape b' codes (getEncoding src, n, b) =
         Some (if k = KGeneric \<or> k' = KGeneric then getEncoding src else getEncoding dst, n', b'))"
proof -
  have "path_shape b' codes (getEncoding src, n, b) =
      Some (if k = KGeneric \<or> k' = KGeneric then getEncoding src else getEncoding dst, n', b')"
    if "getConversionCode E src dst = Inr codes" for codes
    by (cases rule: conversion_codes [OF assms that]) (auto simp add: path_shape_def)
  then show ?thesis using conversion_exists [OF assms] by blast
qed

section \<open>The matrix of a converted image\<close>

lemma concat_rows:
  "(\<And>x. x \<in> set xs \<Longrightarrow> length (f x) = k) \<Longrightarrow> length (concat (map f xs)) = length xs * k"
  by (induction xs) auto

lemma readable_row:
  assumes "readable m" and "int i < mat_rows m" and "0 < mat_cols m"
  shows "i * mat_step m + row_size m \<le> length (mat_data m)"
proof -
  have "i \<le> nat (mat_rows m) - 1" using assms(2) by simp
  then have "i * mat_step m \<le> (nat (mat_rows m) - 1) * mat_step m" by (rule mult_right_mono) simp
  moreover have "(nat (mat_rows m) - 1) * mat_step m + row_size m \<le> length (mat_data m)"
    using assms by (auto simp: readable_def)
  ultimately show ?thesis by linarith
qed

lemma length_mat_row:
  assumes "readable m" and "int i < mat_rows m"
  shows "length (mat_row m i) = row_size m"
proof (cases "0 < mat_cols m")
  case True
  then show ?thesis using readable_row [OF assms] by (simp add: mat_row_def)
next
  case False
  then show ?thesis by (simp add: mat_row_def row_size_def slice_def)
qed

lemma own_tight:
  assumes "0 \<le> mat_rows m" "0 \<le> mat_cols m" and "mat_step m = row_size m"
    and "length (mat_data m) = nat (mat_rows m) * row_size m"
  shows "own_mat m"
proof (cases "nat (mat_rows m)")
  case 0
  then show ?thesis using assms by (simp add: own_mat_def readable_def)
next
  case (Suc k)
  then have "(nat (mat_rows m) - 1) * mat_step m + row_size m \<le> length (mat_data m)"
    using assms(3,4) by simp
  then show ?thesis using assms(1-3) unfolding own_mat_def readable_def by simp
qed

lemma copyTo_own:
  assumes "readable m" "0 \<le> mat_rows m" "0 \<le> mat_cols m"
  shows "own_mat (copyTo m) \<and> same_size m (copyTo m) \<and> mat_type (copyTo m) = mat_type m"
proof -
  have "length (mat_data (copyTo m)) = nat (mat_rows m) * row_size m"
    unfolding copyTo_def using concat_rows [of "[0..<nat (mat_rows m)]" "mat_row m" "row_size m"]
    by (simp add: length_mat_row [OF assms(1)])
  moreover have "row_size (copyTo m) = row_size m" by (simp add: copyTo_def row_size_def)
  ultimately have "own_mat (copyTo m)"
    using assms(2,3) by (intro own_tight) (simp_all add: copyTo_def)
  then show ?thesis by (simp add: same_size_def copyTo_def)
qed

lemma convert_same:
  assumes "convert_image lib src dst SAME_FORMAT m = Inr m'" and "convertTo_documented lib"
    and "getCvType dst = Inr ty" and "0 \<le> mat_rows m" "0 \<le> mat_cols m"
  shows "mat_type m' = CV_MAKETYPE (CV_MAT_DEPTH ty) (CV_MAT_CN (mat_type m)) \<and> same_size m m' \<and> own_mat m'"
proof -
  obtain a where "m' = convertTo lib m (CV_MAKETYPE (CV_MAT_DEPTH ty) (CV_MAT_CN (mat_type m))) a"
    using assms(1,3) by (auto simp: convert_image_def Let_def split: if_splits)
  then show ?thesis using assms(2,4,5) by (simp add: convertTo_documented_def)
qed

lemma convert_color:
  assumes "convert_image lib src dst c m = Inr m'" and "cvtColor_documented lib" and "c \<noteq> SAME_FORMAT"
  shows "mat_type m' = CV_MAKETYPE (CV_MAT_DEPTH (mat_type m)) (snd (code_channels c)) \<and>
    same_size m m' \<and> own_mat m'"
  using assms by (auto simp: convert_image_def cvtColor_documented_def)

lemma same_size_trans: "same_size a b \<Longrightarrow> same_size b c \<Longrightarrow> same_size a c"
  by (simp add: same_size_def)

lemma color_depth:
  assumes "enc_entry e = Some (kind, n, bits)" and "kind \<noteq> KGeneric"
  shows "getCvType e = Inr (CV_MAKETYPE (if bits = 8 then 0 else 2) n)"
proof -
  have "(e, kind, n, bits) \<in> set enc_table" using entry_kind [OF assms(1)] assms(2) by blast
  from bspec [OF getCvType_table [unfolded list_all_iff] this] show ?thesis
    unfolding case_prod_conv by blast
qed

text \<open>A converted image has the OpenCV type of its encoding, the size and the header of its
  source, and owns its pixels, whatever path the conversion takes.\<close>

lemma conversion_type:
  assumes "cv_documented lib" and "toCvCopyImpl lib source header src dst = Inr c"
    and "enc_entry src = Some (k, n, b)" and "1 \<le> n" "n \<le> 512" and "getCvType src = Inr (mat_type source)"
    and "dst \<noteq> [] \<Longrightarrow> enc_entry dst = Some (k', n', b') \<and> 1 \<le> n' \<and> n' \<le> 512"
    and "0 \<le> mat_rows source" "0 \<le> mat_cols source"
  shows "cvi_encoding c = (if dst = [] then src else dst) \<and>
    getCvType (cvi_encoding c) = Inr (mat_type (cvi_image c)) \<and> cvi_header c = header \<and>
    same_size source (cvi_image c) \<and> own_mat (cvi_image c)"
proof (cases "dst = [] \<or> dst = src")
  case True
  then show ?thesis
    using assms(2,6) copyTo_own [of source] assms(8,9) by (auto simp: toCvCopyImpl_def split: if_splits)
next
  case False
  have docs: "documented (enc lib)" "cvtColor_documented lib" "convertTo_documented lib"
    using assms(1) by (simp_all add: cv_documented_def)
  have d: "enc_entry dst = Some (k', n', b')" "1 \<le> n'" "n' \<le> 512" using assms(7) False by auto
  obtain e where ty: "getCvType dst = Inr (CV_MAKETYPE e n')" using getCvType_entry [OF d] by blast
  obtain e0 where ty0: "mat_type source = CV_MAKETYPE e0 n"
    using getCvType_entry [OF assms(3-5)] assms(6) by auto
  obtain codes image where codes: "getConversionCode (enc lib) src dst = Inr codes"
    and run: "foldR (convert_image lib src dst) codes source = Inr image"
    and c: "c = \<lparr>cvi_header = header, cvi_encoding = dst, cvi_image = image\<rparr>"
    using assms(2) False by (auto simp: toCvCopyImpl_def split: if_splits)
  have "mat_type image = CV_MAKETYPE e n' \<and> same_size source image \<and> own_mat image"
  proof (cases rule: conversion_codes [OF docs(1) assms(3) d(1) codes])
    case 1
    then show ?thesis
      using run convert_same [OF _ docs(3) ty assms(8,9)] ty0 assms(4,5) d by auto
  next
    case (2 g)
    have "e0 mod 8 = e mod 8"
      using color_depth [OF assms(3)] color_depth [OF d(1)] ty ty0 assms(6) 2
      by (auto simp: CV_MAKETYPE_eq)
    then show ?thesis
      using run 2 convert_color [OF _ docs(2)] ty0 by (auto simp: CV_MAKETYPE_eq)
  next
    case (3 g)
    obtain m where "convert_image lib src dst g source = Inr m"
      and "convert_image lib src dst SAME_FORMAT m = Inr image"
      using run 3 by auto
    note color = convert_color [OF this(1) docs(2) 3(2)] and same = convert_same [OF this(2) docs(3) ty]
    have "0 \<le> mat_rows m" "0 \<le> mat_cols m" using color by (simp_all add: own_mat_def)
    from color same [OF this] show ?thesis using 3(3) d same_size_trans by auto
  qed
  then show ?thesis using c ty False by simp
qed

section \<open>Byte order\<close>

lemma swap_pairs_mem:
  assumes "ch < nat n" "j < nat k"
  shows "(k * int ch + (k - 1 - int j), k * int ch + int j) \<in> set (swap_pairs n k)"
  using assms unfolding swap_pairs_def
  by (simp add: image_iff, intro bexI [of _ "int ch"] bexI [of _ "k - 1 - int j"]) auto

lemma swap_pairs_functional:
  assumes "(f, t) \<in> set (swap_pairs n k)" and "(f', t) \<in> set (swap_pairs n k)"
  shows "f' = f"
proof -
  have "f = 2 * (k * (t div k)) + k - 1 - t" if m: "(f, t) \<in> set (swap_pairs n k)" for f
  proof -
    obtain i j where ij: "f = k * i + j" "t = k * i + (k - 1 - j)" "0 \<le> j" "j < k"
      using m by (auto simp: swap_pairs_def)
    then have "t div k = i" by (simp add: div_add1_eq [of "k * i"] flip: div_mult_self1)
    then have "k * (t div k) = k * i" by simp
    then show ?thesis using ij(1,2) by linarith
  qed
  from this [OF assms(1)] this [OF assms(2)] show ?thesis by simp
qed

lemma within_pixel:
  fixes n k ch j :: nat
  assumes "ch < n" "j < k" shows "k * ch + j < n * k"
proof -
  have "k * ch + j < k * Suc ch" using assms(2) by simp
  also have "\<dots> \<le> k * n" using assms(1) by (intro mult_le_mono) auto
  finally show ?thesis by (simp add: mult.commute)
qed

lemma within_row:
  fixes x p q c :: nat
  assumes "x < c" "q < p" shows "x * p + q < c * p"
  using within_pixel [OF assms] by (simp add: mult.commute)

lemma mix_byte:
  assumes "mixChannels_documented lib" and "0 \<le> mat_rows v" "0 \<le> mat_cols v"
    and "CV_MAT_DEPTH (mat_type v) = 0" and "CV_MAT_CN (mat_type v) = int p"
    and "(int f, int t) \<in> set (swap_pairs n k)"
    and "int i < mat_rows v" "int x < mat_cols v" "f < p" "t < p"
  shows "mat_row (mixChannels lib v (swap_pairs n k)) i ! (x * p + t) = mat_row v i ! (x * p + f)"
proof -
  have "\<forall>f'. (f', int t) \<in> set (swap_pairs n k) \<longrightarrow> f' = int f"
    using swap_pairs_functional [OF assms(6)] by blast
  then have "mat_row (mixChannels lib v (swap_pairs n k)) i ! (x * nat (int p) + nat (int t)) =
      mat_row v i ! (x * nat (int p) + nat (int f))"
    using assms(1-5,7-10) assms(6) unfolding mixChannels_documented_def
    by (metis of_nat_0_le_iff of_nat_less_iff)
  then show ?thesis by simp
qed

lemma view_byte:
  assumes "readable (view s ty)" and "int i < mat_rows (view s ty)" "int x < mat_cols (view s ty)"
    and "elemSize ty = p" and "f < p"
  shows "mat_row (view s ty) i ! (x * p + f) = im_data s ! (i * unat (im_step s) + (x * p + f))"
proof -
  have "x < nat (mat_cols (view s ty))" using assms(3) by simp
  then have "x * p + f < row_size (view s ty)"
    using within_row [OF _ assms(5)] by (simp add: row_size_def view_def assms(4))
  moreover have "i * mat_step (view s ty) + row_size (view s ty) \<le> length (mat_data (view s ty))"
    using readable_row [OF assms(1,2)] assms(3) by simp
  ultimately show ?thesis by (simp add: mat_row_def) (simp add: view_def)
qed

text \<open>What the conversion of such an image returns, and where each of its bytes comes from.\<close>

lemma swapped_view:
  assumes "documented (enc lib)" and "mat_documented lib" and "matFromImage lib s = Inr m"
    and "enc_entry (im_encoding s) = Some (kind, n, bits)" and "1 \<le> n" and "n * (bits div 8) \<le> 512"
    and "no_wrap s (pixel_size n bits)" and "\<not> same_endian lib s" and "8 < bits"
  obtains d v where "getCvType (im_encoding s) = Inr (CV_MAKETYPE d n)" "0 < d" "d \<le> 6"
    "v = view s (swapped_type n bits)" "0 \<le> mat_rows v" "0 \<le> mat_cols v" "readable v"
    "m = mixChannels lib v (swap_pairs n (bits div 8))" "n \<le> 512"
proof -
  have "n \<le> n * (bits div 8)" using assms(5,9) by (simp add: mult_le_cancel_left1)
  then have n: "n \<le> 512" using assms(6) by simp
  from getCvType_entry [OF assms(4,5) this] obtain d where
    d: "getCvType (im_encoding s) = Inr (CV_MAKETYPE d n)" "0 \<le> d" "d \<le> 6" "bits = 8 * depth_bytes d"
    by blast
  have "0 < d" "0 \<le> bits" "bits div 8 \<noteq> 1"
    using d assms(9) by (auto simp: depth_bytes_def split: if_splits)
  let ?v = "view s (swapped_type n bits)"
  have "0 \<le> mat_rows ?v \<and> 0 \<le> mat_cols ?v \<and> readable ?v \<and>
    m = mixChannels lib ?v (swap_pairs n (bits div 8))"
  proof (cases rule: matFromImage_cases [OF assms(1,2,4,5) n d(1) assms(7) \<open>0 \<le> bits\<close>])
    case (1 e)
    then show ?thesis using assms(3) by simp
  next
    case 2
    then show ?thesis using assms(3,8) \<open>bits div 8 \<noteq> 1\<close> by (auto simp: view_def split: if_splits)
  qed
  then show ?thesis using that [OF d(1) \<open>0 < d\<close> d(3) refl] n by blast
qed

lemma swapped_byte:
  assumes "mixChannels_documented lib" and "v = view s ty" and "0 \<le> mat_rows v" "0 \<le> mat_cols v" "readable v"
    and "CV_MAT_DEPTH ty = 0" and "CV_MAT_CN ty = int (nat n * k)"
    and "int i < mat_rows v" "int x < mat_cols v" "ch < nat n" "j < k"
  shows "mat_row (mixChannels lib v (swap_pairs n (int k))) i ! (x * (nat n * k) + (k * ch + j)) =
    im_data s ! (i * unat (im_step s) + (x * (nat n * k) + (k * ch + (k - 1 - j))))"
proof -
  let ?f = "k * ch + (k - 1 - j)" and ?p = "nat n * k"
  have f: "?f < ?p" by (rule within_pixel [OF assms(10)]) (use assms(11) in simp)
  have t: "k * ch + j < ?p" by (rule within_pixel [OF assms(10,11)])
  have e: "int ?f = int k * int ch + (int k - 1 - int j)" "int (k * ch + j) = int k * int ch + int j"
    using assms(11) by (simp_all add: of_nat_diff)
  have pair: "(int ?f, int (k * ch + j)) \<in> set (swap_pairs n (int k))"
    unfolding e by (rule swap_pairs_mem) (use assms(10,11) in auto)
  have es: "elemSize ty = ?p" using assms(6,7) by (simp add: elemSize_def depth_bytes_def del: of_nat_mult)
  have ty: "CV_MAT_DEPTH (mat_type v) = 0" "CV_MAT_CN (mat_type v) = int ?p"
    using assms(6,7) by (simp_all add: assms(2) view_def)
  have "mat_row (mixChannels lib v (swap_pairs n (int k))) i ! (x * ?p + (k * ch + j)) = mat_row v i ! (x * ?p + ?f)"
    by (rule mix_byte [OF assms(1,3,4) ty pair assms(8,9) f t])
  also have "\<dots> = im_data s ! (i * unat (im_step s) + (x * ?p + ?f))"
    using view_byte [OF _ _ _ es f, of s i x] assms(5,8,9) unfolding assms(2) by blast
  finally show ?thesis .
qed

text \<open>C25: An image whose samples have more than one byte and the other byte order comes out with the
  bytes of every sample reversed, but as a matrix of 8-bit channels: the \<^verbatim>\<open>reshape\<close> that was to
  restore the type of the encoding has no effect.\<close>

theorem endian_swap:
  assumes "cv_documented lib" and "matFromImage lib s = Inr m"
    and "enc_entry (im_encoding s) = Some (kind, n, bits)" and "1 \<le> n" and "n * (bits div 8) \<le> 512"
    and "no_wrap s (pixel_size n bits)" and "\<not> same_endian lib s" and "8 < bits"
  shows "let k = nat (bits div 8); p = pixel_size n bits in
    mat_type m = CV_MAKETYPE 0 (n * (bits div 8)) \<and> getCvType (im_encoding s) \<noteq> Inr (mat_type m) \<and>
    (\<forall>i x ch j. int i < mat_rows m \<and> int x < mat_cols m \<and> ch < nat n \<and> j < k \<longrightarrow>
       mat_row m i ! (x * p + (k * ch + j)) =
       im_data s ! (i * unat (im_step s) + (x * p + (k * ch + (k - 1 - j)))))"
proof -
  have docs: "documented (enc lib)" "mat_documented lib" "mixChannels_documented lib"
    using assms(1) by (simp_all add: cv_documented_def)
  obtain d v where d: "getCvType (im_encoding s) = Inr (CV_MAKETYPE d n)" "0 < d" "d \<le> 6"
    and v: "v = view s (swapped_type n bits)" "0 \<le> mat_rows v" "0 \<le> mat_cols v" "readable v"
    and m: "m = mixChannels lib v (swap_pairs n (bits div 8))" and n: "n \<le> 512"
    by (rule swapped_view [OF docs(1,2) assms(2-8)])
  define k where "k = nat (bits div 8)"
  have k: "bits div 8 = int k" using assms(8) by (simp add: k_def)
  have p: "pixel_size n bits = nat n * k" using assms(4) by (simp add: pixel_size_def k_def nat_mult_distrib)
  have "1 \<le> n * (bits div 8)" using mult_mono [of 1 n 1 "bits div 8"] assms(4,8) by simp
  then have ty: "CV_MAT_DEPTH (swapped_type n bits) = 0" "CV_MAT_CN (swapped_type n bits) = int (nat n * k)"
    using assms(4,5) p by (simp_all add: swapped_type_def pixel_size_def k del: of_nat_mult flip: of_nat_mult)
  have docm: "mat_type m = swapped_type n bits" "same_size v m"
    using docs(3) v unfolding m by (simp_all add: mixChannels_documented_def) (simp add: view_def)
  have "CV_MAT_DEPTH (CV_MAKETYPE d n) \<noteq> CV_MAT_DEPTH (swapped_type n bits)" using d(2,3) ty(1) by simp
  then have "getCvType (im_encoding s) \<noteq> Inr (mat_type m)" unfolding d(1) docm(1) by (metis Inr_inject)
  moreover have "mat_row m i ! (x * (nat n * k) + (k * ch + j)) =
      im_data s ! (i * unat (im_step s) + (x * (nat n * k) + (k * ch + (k - 1 - j))))"
    if "int i < mat_rows m" "int x < mat_cols m" "ch < nat n" "j < k" for i x ch j
    using swapped_byte [OF docs(3) v ty _ _ that(3,4)] that(1,2) docm(2) unfolding m k by (simp add: same_size_def)
  ultimately show ?thesis
    using docm(1) unfolding Let_def k_def [symmetric] p swapped_type_def by blast
qed

section \<open>Writing a message\<close>

lemma slice_concat:
  assumes "i < r" and "\<And>x. x < r \<Longrightarrow> length (f x) = k"
  shows "slice (i * k) k (concat (map f [0..<r])) = f i"
  using assms
proof (induction r)
  case (Suc r)
  have len: "length (concat (map f [0..<r])) = r * k"
    using concat_rows [of "[0..<r]" f k] Suc.prems(2) by simp
  show ?case
  proof (cases "i = r")
    case True
    then show ?thesis using len Suc.prems(2) [of r] by (simp add: slice_def)
  next
    case False
    then have i: "i < r" using Suc.prems(1) by simp
    then have "Suc i * k \<le> r * k" by (intro mult_le_mono1) simp
    then have "slice (i * k) k (concat (map f [0..<r]) @ f r) = slice (i * k) k (concat (map f [0..<r]))"
      using len by (simp add: slice_def)
    then show ?thesis using Suc.IH [OF i] Suc.prems(2) by simp
  qed
qed simp

lemma matFromImage_accepts:
  assumes "documented (enc lib)" and "enc_entry (im_encoding s) = Some (kind, n, bits)"
    and "0 \<le> n" "0 \<le> bits" and "getCvType (im_encoding s) = Inr ty" and "no_wrap s (pixel_size n bits)"
    and "unat (im_width s) * pixel_size n bits \<le> unat (im_step s)"
    and "length (im_data s) = unat (im_height s) * unat (im_step s)"
    and "same_endian lib s"
    and "mat_accepted lib (sint (im_height s)) (sint (im_width s)) ty (unat (im_step s))"
  shows "matFromImage lib s = Inr (view s ty)"
proof -
  have e: "bitDepth (enc lib) (im_encoding s) = Inr bits" "numChannels (enc lib) (im_encoding s) = Inr n"
    using assms(1,2) by (auto simp: documented_def)
  have w: "\<not> im_step s < im_width s * word_of_int (bits div 8) * word_of_int n"
    using row_product [of n "bits div 8" "im_width s"] assms(3,4,6,7)
    by (simp add: word_less_nat_alt no_wrap_def pixel_size_def)
  have h: "unat (im_height s * im_step s) = unat (im_height s) * unat (im_step s)"
    using assms(6) by (simp add: no_wrap_def unat_product)
  show ?thesis
    using assms(8-10) by (simp add: matFromImage_def assms(5) e w h Let_def make_view_cases)
qed

text \<open>A matrix whose message is not too large for 32-bit sizes.\<close>

definition message_sized :: "Mat \<Rightarrow> bool" where
  "message_sized m \<longleftrightarrow> own_mat m \<and> mat_rows m < 2 ^ 31 \<and> mat_cols m < 2 ^ 31 \<and>
     row_size m < 2 ^ 32 \<and> nat (mat_rows m) * row_size m < 2 ^ 32"

lemma unat_of_int_u32: "0 \<le> i \<Longrightarrow> i < 2 ^ 32 \<Longrightarrow> unat (word_of_int i :: u32) = nat i"
  using unat_of_nat_u32 [of "nat i"] by simp

lemma sint_of_int_u32: "0 \<le> i \<Longrightarrow> i < 2 ^ 31 \<Longrightarrow> sint (word_of_int i :: u32) = i"
  by (simp add: sint_uint uint_word_of_int_eq signed_take_bit_int_eq_self take_bit_int_eq_self)

lemma continuous_rows:
  assumes "own_mat m" and "isContinuous m"
  shows "nat (mat_rows m) * row_size m \<le> length (mat_data m)"
    and "int i < mat_rows m \<Longrightarrow>
      slice (i * row_size m) (row_size m) (take (nat (mat_rows m) * row_size m) (mat_data m)) = mat_row m i"
proof -
  show "nat (mat_rows m) * row_size m \<le> length (mat_data m)"
  proof (cases "mat_rows m \<le> 0 \<or> mat_cols m \<le> 0")
    case True
    then show ?thesis by (auto simp: row_size_def)
  next
    case False
    then obtain r where r: "nat (mat_rows m) = Suc r" using gr0_conv_Suc by (metis not_le zero_less_nat_eq)
    have "r * mat_step m + row_size m \<le> length (mat_data m)"
      using assms(1) False r by (simp add: own_mat_def readable_def)
    moreover have "r = 0 \<or> mat_step m = row_size m" using assms(2) r by (auto simp: isContinuous_def)
    ultimately show ?thesis using r by auto
  qed
  assume i: "int i < mat_rows m"
  then have "Suc i * row_size m \<le> nat (mat_rows m) * row_size m" by (intro mult_le_mono1) simp
  then have a: "slice (i * row_size m) (row_size m) (take (nat (mat_rows m) * row_size m) (mat_data m)) =
      slice (i * row_size m) (row_size m) (mat_data m)"
    by (simp add: slice_def take_drop min_def)
  have "i * row_size m = i * mat_step m" using assms(2) i by (auto simp: isContinuous_def)
  then show "slice (i * row_size m) (row_size m) (take (nat (mat_rows m) * row_size m) (mat_data m)) = mat_row m i"
    unfolding a mat_row_def by (rule arg_cong)
qed

lemma toImageMsg_rows:
  assumes "message_sized (cvi_image c)"
  shows "\<exists>data. toImageMsg lib c = Inr \<lparr>im_header = cvi_header c,
      im_height = word_of_int (mat_rows (cvi_image c)), im_width = word_of_int (mat_cols (cvi_image c)),
      im_encoding = cvi_encoding c, im_is_bigendian = (if native_big lib then 1 else 0),
      im_step = of_nat (row_size (cvi_image c)), im_data = data\<rparr> \<and>
    length data = nat (mat_rows (cvi_image c)) * row_size (cvi_image c) \<and>
    (\<forall>i. int i < mat_rows (cvi_image c) \<longrightarrow>
       slice (i * row_size (cvi_image c)) (row_size (cvi_image c)) data = mat_row (cvi_image c) i)"
proof -
  let ?m = "cvi_image c"
  let ?r = "row_size ?m" and ?R = "nat (mat_rows ?m)"
  have own: "own_mat ?m" and sizes: "?r < 2 ^ 32" "?R * ?r < 2 ^ 32"
    and nn: "0 \<le> mat_rows ?m" "0 \<le> mat_cols ?m"
    using assms by (simp_all add: message_sized_def own_mat_def)
  have step: "word_of_int (mat_cols ?m * int (elemSize (mat_type ?m))) = (of_nat ?r :: u32)"
  proof -
    have "mat_cols ?m * int (elemSize (mat_type ?m)) = int ?r" using nn(2) by (simp add: row_size_def)
    then show ?thesis by simp
  qed
  obtain R where R: "mat_rows ?m = int R" using nn(1) nonneg_int_cases by blast
  have "(of_nat ?r * word_of_int (mat_rows ?m) :: u32) = of_nat (?R * ?r)"
    unfolding R by (simp add: mult.commute)
  then have size: "unat (of_nat ?r * word_of_int (mat_rows ?m) :: u32) = ?R * ?r"
    using sizes(2) by (simp only: unat_of_nat_u32)
  have ur: "unat (of_nat ?r :: u32) = ?r" using sizes(1) by (rule unat_of_nat_u32)
  show ?thesis
  proof (cases "isContinuous ?m")
    case True
    have "toImageMsg lib c = Inr \<lparr>im_header = cvi_header c,
      im_height = word_of_int (mat_rows ?m), im_width = word_of_int (mat_cols ?m),
      im_encoding = cvi_encoding c, im_is_bigendian = (if native_big lib then 1 else 0),
      im_step = of_nat ?r, im_data = take (?R * ?r) (mat_data ?m)\<rparr>"
      using True continuous_rows(1) [OF own True] unfolding toImageMsg_def Let_def step size by simp
    then show ?thesis using continuous_rows [OF own True] by auto
  next
    case False
    have rd: "readable ?m" using own by (simp add: own_mat_def)
    then have "of_nat ?r = (0 :: u32) \<or> (?R - 1) * mat_step ?m + ?r \<le> length (mat_data ?m)"
      using False nn by (auto simp: readable_def row_size_def isContinuous_def)
    then have msg: "toImageMsg lib c = Inr \<lparr>im_header = cvi_header c,
      im_height = word_of_int (mat_rows ?m), im_width = word_of_int (mat_cols ?m),
      im_encoding = cvi_encoding c, im_is_bigendian = (if native_big lib then 1 else 0),
      im_step = of_nat ?r, im_data = concat (map (mat_row ?m) [0..<?R])\<rparr>"
      using False unfolding toImageMsg_def Let_def step size ur mat_row_def by simp
    have len: "length (mat_row ?m i) = ?r" if "i < ?R" for i
      using length_mat_row [OF rd] that by simp
    show ?thesis
      using msg concat_rows [of "[0..<?R]" "mat_row ?m" ?r] slice_concat [of _ ?R "mat_row ?m" ?r] len by auto
  qed
qed

text \<open>Writing a matrix to a message and reading it back.\<close>

lemma message_roundtrip:
  assumes "documented (enc lib)" and "mat_documented lib" and "message_sized (cvi_image c)"
    and "enc_entry (cvi_encoding c) = Some (kind, n, bits)" and "1 \<le> n" "n \<le> 512"
    and "getCvType (cvi_encoding c) = Inr (mat_type (cvi_image c))"
  shows "\<exists>s m. toImageMsg lib c = Inr s \<and> im_header s = cvi_header c \<and> im_encoding s = cvi_encoding c \<and>
    matFromImage lib s = Inr m \<and> same_size (cvi_image c) m \<and> mat_type m = mat_type (cvi_image c) \<and>
    (\<forall>i. int i < mat_rows m \<longrightarrow> mat_row m i = mat_row (cvi_image c) i)"
proof -
  let ?m = "cvi_image c"
  let ?r = "row_size ?m"
  obtain s data where s: "toImageMsg lib c = Inr s" and msg: "s = \<lparr>im_header = cvi_header c,
      im_height = word_of_int (mat_rows ?m), im_width = word_of_int (mat_cols ?m),
      im_encoding = cvi_encoding c, im_is_bigendian = (if native_big lib then 1 else 0),
      im_step = of_nat ?r, im_data = data\<rparr>"
    and len: "length data = nat (mat_rows ?m) * ?r"
    and rows: "\<And>i. int i < mat_rows ?m \<Longrightarrow> slice (i * ?r) ?r data = mat_row ?m i"
    using toImageMsg_rows [OF assms(3)] by blast
  obtain d where d: "getCvType (cvi_encoding c) = Inr (CV_MAKETYPE d n)" "0 \<le> d" "d \<le> 6"
    "bits = 8 * depth_bytes d"
    using getCvType_entry [OF assms(4-6)] by blast
  have elem: "elemSize (mat_type ?m) = pixel_size n bits"
    using elemSize_entry [OF d(1-3) assms(5,6)] assms(7) d(1,4) by simp
  have sz: "0 \<le> mat_rows ?m" "mat_rows ?m < 2 ^ 31" "0 \<le> mat_cols ?m" "mat_cols ?m < 2 ^ 31"
    "?r < 2 ^ 32" "nat (mat_rows ?m) * ?r < 2 ^ 32"
    using assms(3) by (simp_all add: message_sized_def own_mat_def)
  have words: "unat (im_height s) = nat (mat_rows ?m)" "unat (im_width s) = nat (mat_cols ?m)"
    "unat (im_step s) = ?r" "sint (im_height s) = mat_rows ?m" "sint (im_width s) = mat_cols ?m"
    using sz by (simp_all add: msg unat_of_int_u32 sint_of_int_u32 unat_of_nat_u32 del: unsigned_of_nat unsigned_of_int)
  have r: "?r = nat (mat_cols ?m) * pixel_size n bits" by (simp add: row_size_def elem)
  have "matFromImage lib s = Inr (view s (mat_type ?m))"
  proof (rule matFromImage_accepts [OF assms(1)])
    show "no_wrap s (pixel_size n bits)" using sz(5,6) by (simp only: no_wrap_def words r [symmetric] simp_thms)
    show "mat_accepted lib (sint (im_height s)) (sint (im_width s)) (mat_type ?m) (unat (im_step s))"
      unfolding words using assms(2) sz(1,3) by (simp add: mat_documented_def row_size_def)
    show "unat (im_width s) * pixel_size n bits \<le> unat (im_step s)" unfolding words r [symmetric] by simp
    show "length (im_data s) = unat (im_height s) * unat (im_step s)" unfolding words using len by (simp add: msg)
  qed (use assms(4,5,7) d(4) depth_bytes_range [of d] in \<open>simp_all add: same_endian_def msg\<close>)
  moreover have "same_size ?m (view s (mat_type ?m))"
    using words(4,5) by (simp add: same_size_def view_def)
  moreover have "mat_row (view s (mat_type ?m)) i = mat_row ?m i" if "int i < mat_rows ?m" for i
  proof -
    have "row_size (view s (mat_type ?m)) = ?r" "mat_step (view s (mat_type ?m)) = ?r"
      using words(3,5) by (simp_all add: row_size_def view_def)
    then show ?thesis using rows [OF that] by (simp add: mat_row_def view_def msg)
  qed
  ultimately show ?thesis using s by (auto simp: same_size_def view_def msg)
qed

text \<open>C15: A matrix written to a message and read back is the same matrix: the message is accepted,
  states the encoding and the header, and the matrix over it has the size, the type and, row by row,
  the bytes of the original, which need not be stored contiguously.\<close>

theorem image_message_roundtrip:
  assumes "documented (enc lib)" and "mat_documented lib" and "message_sized (cvi_image c)"
    and "enc_entry (cvi_encoding c) = Some (kind, n, bits)" and "1 \<le> n" "n \<le> 512"
    and "getCvType (cvi_encoding c) = Inr (mat_type (cvi_image c))"
  shows "\<exists>s m. toImageMsg lib c = Inr s \<and> im_header s = cvi_header c \<and> im_encoding s = cvi_encoding c \<and>
    matFromImage lib s = Inr m \<and> same_size (cvi_image c) m \<and> mat_type m = mat_type (cvi_image c) \<and>
    (\<forall>i. int i < mat_rows m \<longrightarrow> mat_row m i = mat_row (cvi_image c) i)"
  by (rule message_roundtrip [OF assms])

section \<open>A concrete library\<close>

text \<open>A library that behaves as documented: its conversions give black images, its codec keeps only
  the size, its \<^verbatim>\<open>mixChannels\<close> the permuted bytes.\<close>

definition black :: "int \<Rightarrow> int \<Rightarrow> int \<Rightarrow> Mat" where
  "black rows cols ty = \<lparr>mat_rows = rows, mat_cols = cols, mat_type = ty,
     mat_step = nat cols * elemSize ty, mat_data = replicate (nat rows * (nat cols * elemSize ty)) 0\<rparr>"

definition permuted_row :: "Mat \<Rightarrow> (int \<times> int) list \<Rightarrow> nat \<Rightarrow> bytes" where
  "permuted_row m pairs i =
     concat (map (\<lambda>x. map (\<lambda>t.
         case map_of (map prod.swap pairs) (int t) of
           Some f \<Rightarrow> mat_row m i ! (x * elemSize (mat_type m) + nat f) | None \<Rightarrow> 0)
       [0..<elemSize (mat_type m)]) [0..<nat (mat_cols m)])"

definition permuted :: "Mat \<Rightarrow> (int \<times> int) list \<Rightarrow> Mat" where
  "permuted m pairs = m\<lparr>mat_step := row_size m,
     mat_data := concat (map (permuted_row m pairs) [0..<nat (mat_rows m)])\<rparr>"

definition plain_cv :: CvLib where
  "plain_cv =
     \<lparr>native_big = False, enc = plain_enc, mat_accepted = (\<lambda>rows cols ty step. 0 \<le> rows \<and> 0 \<le> cols),
      mixChannels = permuted,
      lib_cvtColor = (\<lambda>code m.
        if 0 \<le> mat_rows m \<and> 0 \<le> mat_cols m \<and> CV_MAT_CN (mat_type m) = fst (code_channels code)
        then Inr (black (mat_rows m) (mat_cols m)
          (CV_MAKETYPE (CV_MAT_DEPTH (mat_type m)) (snd (code_channels code))))
        else Inl ''cv::Exception''),
      convertTo = (\<lambda>m ty a. black (mat_rows m) (mat_cols m)
        (CV_MAKETYPE (CV_MAT_DEPTH ty) (CV_MAT_CN (mat_type m)))),
      cv_resize = (\<lambda>m cols rows. if 0 \<le> cols \<and> 0 \<le> rows then Inr (black rows cols (mat_type m))
        else Inl ''cv::Exception''),
      imencode = (\<lambda>ext m q. if 0 < mat_rows m \<and> 0 < mat_cols m
        then Inr (Some (replicate (nat (mat_rows m)) 1 @ 0 # replicate (nat (mat_cols m)) 1))
        else Inl ''cv::Exception''),
      imdecode_color = (\<lambda>data. Inr (black (int (length (takeWhile ((=) 1) data)))
        (int (length (dropWhile ((=) 1) data)) - 1) (CV_MAKETYPE 0 3))),
      imdecode_unchanged = (\<lambda>data. Inr (black 1 1 (CV_MAKETYPE 0 3)))\<rparr>"

lemma black_simps [simp]:
  "mat_rows (black rows cols ty) = rows" "mat_cols (black rows cols ty) = cols"
  "mat_type (black rows cols ty) = ty" "row_size (black rows cols ty) = nat cols * elemSize ty"
  "mat_step (black rows cols ty) = nat cols * elemSize ty"
  by (simp_all add: black_def row_size_def)

lemma own_black [simp]: "0 \<le> rows \<Longrightarrow> 0 \<le> cols \<Longrightarrow> own_mat (black rows cols ty)"
  by (rule own_tight) (simp_all add: black_def row_size_def)

lemma black_nonempty: "\<not> mat_empty (black rows cols ty) \<Longrightarrow> 0 < rows \<and> 0 < cols"
  by (rule ccontr) (auto simp: mat_empty_def black_def)

lemma permuted_simps [simp]:
  "mat_rows (permuted m ps) = mat_rows m" "mat_cols (permuted m ps) = mat_cols m"
  "mat_type (permuted m ps) = mat_type m" "row_size (permuted m ps) = row_size m"
  "mat_step (permuted m ps) = row_size m"
  by (simp_all add: permuted_def row_size_def)

lemma length_permuted_row: "length (permuted_row m ps i) = row_size m"
proof -
  have "length (concat (map g [0..<c])) = c * k"
    if "\<And>x. length (g x) = k" for g :: "nat \<Rightarrow> bytes" and c k
    using concat_rows [of "[0..<c]" g k] that by simp
  then show ?thesis unfolding permuted_row_def row_size_def by simp
qed

lemma permuted_rows:
  assumes "int i < mat_rows m" shows "mat_row (permuted m ps) i = permuted_row m ps i"
proof -
  have "slice (i * row_size m) (row_size m) (concat (map (permuted_row m ps) [0..<nat (mat_rows m)])) =
      permuted_row m ps i"
    using assms length_permuted_row by (intro slice_concat) auto
  then show ?thesis unfolding mat_row_def permuted_simps by (simp add: permuted_def)
qed

lemma own_permuted [simp]: "0 \<le> mat_rows m \<Longrightarrow> 0 \<le> mat_cols m \<Longrightarrow> own_mat (permuted m ps)"
  using concat_rows [of "[0..<nat (mat_rows m)]" "permuted_row m ps" "row_size m"]
  by (intro own_tight) (simp_all add: length_permuted_row, simp add: permuted_def)

lemma permuted_byte:
  assumes "int i < mat_rows m" "int x < mat_cols m" and "(f, t) \<in> set ps"
    and "\<And>f'. (f', t) \<in> set ps \<Longrightarrow> f' = f" and "0 \<le> t" "nat t < elemSize (mat_type m)"
  shows "mat_row (permuted m ps) i ! (x * elemSize (mat_type m) + nat t) =
    mat_row m i ! (x * elemSize (mat_type m) + nat f)"
proof -
  let ?e = "elemSize (mat_type m)"
  let ?g = "\<lambda>x. map (\<lambda>t. case map_of (map prod.swap ps) (int t) of
      Some f \<Rightarrow> mat_row m i ! (x * ?e + nat f) | None \<Rightarrow> 0) [0..<?e]"
  obtain f' where f': "map_of (map prod.swap ps) t = Some f'"
    using assms(3) by (cases "map_of (map prod.swap ps) t") (force simp: map_of_eq_None_iff)+
  then have "(f', t) \<in> set ps" by (auto dest!: map_of_SomeD)
  then have "f' = f" by (rule assms(4))
  have "mat_row (permuted m ps) i ! (x * ?e + nat t) = slice (x * ?e) ?e (permuted_row m ps i) ! nat t"
  proof -
    have "Suc x * ?e \<le> row_size m"
      unfolding row_size_def using assms(2) by (intro mult_le_mono1) simp
    then show ?thesis using permuted_rows [OF assms(1)] assms(6) by (simp add: length_permuted_row)
  qed
  also have "slice (x * ?e) ?e (permuted_row m ps i) = ?g x"
    unfolding permuted_row_def using assms(2) by (intro slice_concat) auto
  also have "?g x ! nat t = mat_row m i ! (x * ?e + nat f)"
    using assms(5,6) f' \<open>f' = f\<close> by simp
  finally show ?thesis .
qed

lemma documented_plain_cv: "cv_documented plain_cv"
proof -
  have "mixChannels_documented plain_cv"
    unfolding mixChannels_documented_def plain_cv_def CvLib.simps
  proof (intro allI impI conjI)
    fix m :: Mat and pairs f t i x
    assume a: "CV_MAT_DEPTH (mat_type m) = 0 \<and> (f, t) \<in> set pairs \<and>
      (\<forall>f'. (f', t) \<in> set pairs \<longrightarrow> f' = f) \<and> int i < mat_rows m \<and> int x < mat_cols m \<and>
      0 \<le> f \<and> f < CV_MAT_CN (mat_type m) \<and> 0 \<le> t \<and> t < CV_MAT_CN (mat_type m)"
    then have "elemSize (mat_type m) = nat (CV_MAT_CN (mat_type m))" by (simp add: elemSize_def depth_bytes_def)
    with a permuted_byte [of i m x f t pairs]
    show "mat_row (permuted m pairs) i ! (x * nat (CV_MAT_CN (mat_type m)) + nat t) =
        mat_row m i ! (x * nat (CV_MAT_CN (mat_type m)) + nat f)" by simp
  qed (simp_all add: same_size_def)
  moreover have "cvtColor_documented plain_cv"
    by (auto simp: cvtColor_documented_def plain_cv_def same_size_def split: if_splits)
  moreover have "convertTo_documented plain_cv"
    by (simp add: convertTo_documented_def plain_cv_def same_size_def)
  moreover have "resize_documented plain_cv"
    by (auto simp: resize_documented_def plain_cv_def split: if_splits)
  moreover have "imdecode_documented plain_cv"
  proof -
    have "mat_type m = CV_MAKETYPE 0 3 \<and> own_mat m"
      if d: "imdecode_color plain_cv data = Inr m" and "\<not> mat_empty m" for data m
    proof -
      obtain r c where m: "m = black r c (CV_MAKETYPE 0 3)" using d by (auto simp: plain_cv_def)
      then have "0 < r \<and> 0 < c" using black_nonempty \<open>\<not> mat_empty m\<close> by blast
      then show ?thesis using m by simp
    qed
    then show ?thesis unfolding imdecode_documented_def by blast
  qed
  moreover have "mat_documented plain_cv" by (simp add: mat_documented_def plain_cv_def)
  ultimately show ?thesis by (simp add: cv_documented_def documented_plain plain_cv_def)
qed

lemma jpeg_documented_plain: "jpeg_documented plain_cv"
proof -
  have "takeWhile ((=) 1) (replicate r 1 @ 0 # xs) = replicate r (1 :: byte)"
    "dropWhile ((=) 1) (replicate r 1 @ 0 # xs) = (0 :: byte) # xs" for r and xs :: bytes
    by (induction r) auto
  then show ?thesis
    by (auto simp: jpeg_documented_def plain_cv_def same_size_def mat_empty_def black_def elemSize_make
        depth_bytes_def split: if_splits)
qed

section \<open>Concrete images\<close>

definition tiny_image :: "string \<Rightarrow> byte \<Rightarrow> bytes \<Rightarrow> RosImage" where
  "tiny_image e big data = \<lparr>im_header = default_header, im_height = 1, im_width = 1, im_encoding = e,
     im_is_bigendian = big, im_step = of_nat (length data), im_data = data\<rparr>"

text \<open>65537 rows of 65536 bytes: the product is 65536 in 32 bits.\<close>

definition wrapping_image :: RosImage where
  "wrapping_image = \<lparr>im_header = default_header, im_height = 65537, im_width = 1,
     im_encoding = enc_MONO8, im_is_bigendian = 0, im_step = 65536, im_data = replicate 65536 0\<rparr>"

lemma sample_entries:
  "enc_entry enc_MONO8 = Some (KMono, 1, 8)" "enc_entry enc_MONO16 = Some (KMono, 1, 16)"
  "enc_entry enc_BGR8 = Some (KColor, 3, 8)" "enc_entry enc_BAYER_RGGB16 = Some (KBayer, 1, 16)"
  by (simp_all add: enc_entry_def enc_table_def)

lemma sample_types:
  "getCvType enc_MONO8 = Inr (CV_MAKETYPE 0 1)" "getCvType enc_MONO16 = Inr (CV_MAKETYPE 2 1)"
  "getCvType enc_BGR8 = Inr (CV_MAKETYPE 0 3)"
  by (simp_all add: getCvType_def)

lemma plain_cv_simps [simp]:
  "enc plain_cv = plain_enc" "native_big plain_cv = False"
  "mat_accepted plain_cv rows cols ty step = (0 \<le> rows \<and> 0 \<le> cols)"
  "mixChannels plain_cv = permuted"
  by (simp_all add: plain_cv_def)

lemma plain_enc_simps:
  "enc_entry e = Some (k, n, b) \<Longrightarrow> bitDepth plain_enc e = Inr b"
  "enc_entry e = Some (k, n, b) \<Longrightarrow> numChannels plain_enc e = Inr n"
  using documented_plain unfolding documented_def by blast+

lemma endian_swap_witness:
  "\<exists>m. matFromImage plain_cv (tiny_image enc_MONO16 1 [1, 2]) = Inr m \<and> mat_row m 0 ! 0 = 2 \<and>
     getCvType enc_MONO16 \<noteq> Inr (mat_type m)"
proof -
  let ?s = "tiny_image enc_MONO16 1 [1, 2]"
  obtain m where m: "matFromImage plain_cv ?s = Inr m" and size: "mat_rows m = 1" "mat_cols m = 1"
    by (simp add: matFromImage_def tiny_image_def sample_types plain_enc_simps [OF sample_entries(2)]
        make_mat_def same_endian_def readable_def row_size_def elemSize_make depth_bytes_def)
  have p: "enc_entry (im_encoding ?s) = Some (KMono, 1, 16)" "(1 :: int) \<le> 1" "(1 :: int) * (16 div 8) \<le> 512"
    "no_wrap ?s (pixel_size 1 16)" "\<not> same_endian plain_cv ?s" "(8 :: int) < 16"
    by (simp_all add: sample_entries no_wrap_def tiny_image_def pixel_size_def same_endian_def)
  note swap = endian_swap [OF documented_plain_cv m p, unfolded Let_def]
  have "getCvType (im_encoding ?s) \<noteq> Inr (mat_type m)" using swap by blast
  moreover have "mat_row m 0 ! (0 * pixel_size 1 16 + (nat (16 div 8) * 0 + 0)) =
      im_data ?s ! (0 * unat (im_step ?s) + (0 * pixel_size 1 16 + (nat (16 div 8) * 0 + (nat (16 div 8) - 1 - 0))))"
    using swap size by (intro swap [THEN conjunct2, THEN conjunct2, rule_format]) simp
  ultimately show ?thesis using m by (simp add: tiny_image_def)
qed

lemma conversion_path_witness:
  "convertible KBayer 1 KColor 3 \<and>
   getConversionCode plain_enc enc_BAYER_RGGB16 enc_BGR8 = Inr [COLOR_BayerBG2BGR, SAME_FORMAT] \<and>
   path_shape 8 [COLOR_BayerBG2BGR, SAME_FORMAT] (BAYER_RGGB, 1, 16) = Some (BGR, 3, 8)"
proof -
  have "getConversionCode plain_enc enc_BAYER_RGGB16 enc_BGR8 = Inr [COLOR_BayerBG2BGR, SAME_FORMAT]"
    using getConversionCode_color [OF documented_plain sample_entries(4,3)]
    by (simp add: getConversionCodes_def getEncoding_def)
  then show ?thesis using conversion_path [OF documented_plain sample_entries(4,3)]
    by (simp add: getEncoding_def)
qed

lemma image_message_roundtrip_witness:
  "\<exists>s m. toImageMsg plain_cv \<lparr>cvi_header = default_header, cvi_encoding = enc_MONO8, cvi_image =
       \<lparr>mat_rows = 2, mat_cols = 1, mat_type = CV_MAKETYPE 0 1, mat_step = 2, mat_data = [7, 0, 8]\<rparr>\<rparr> = Inr s \<and>
     matFromImage plain_cv s = Inr m \<and> mat_row m 1 = [8]"
proof -
  let ?m = "\<lparr>mat_rows = 2, mat_cols = 1, mat_type = CV_MAKETYPE 0 1, mat_step = 2, mat_data = [7, 0, 8 :: byte]\<rparr>"
  let ?c = "\<lparr>cvi_header = default_header, cvi_encoding = enc_MONO8, cvi_image = ?m\<rparr>"
  have r: "row_size ?m = 1" by (simp add: row_size_def elemSize_make depth_bytes_def)
  then have "message_sized ?m" by (simp add: message_sized_def own_mat_def readable_def)
  moreover have "mat_row ?m 1 = [8]" using r by (simp add: mat_row_def slice_def)
  moreover have "documented (enc plain_cv)" "mat_documented plain_cv"
    using documented_plain_cv by (simp_all add: cv_documented_def)
  ultimately show ?thesis
    using image_message_roundtrip [of plain_cv ?c KMono 1 8]
    by (auto simp: sample_entries sample_types same_size_def)
qed

text \<open>The check of the image size is done in 32 bits and can be passed by an image whose rows reach
  far beyond its data: OpenCV is handed the memory behind the message.\<close>

theorem size_check_wraps:
  assumes "documented (enc lib)" and "mat_accepted lib 65537 1 (CV_MAKETYPE 0 1) 65536"
    and "\<not> native_big lib"
  shows "toCvCopy lib wrapping_image enc_BGR8 = Inl Undefined"
proof -
  have e: "numChannels (enc lib) enc_MONO8 = Inr 1" "bitDepth (enc lib) enc_MONO8 = Inr 8"
    using assms(1) sample_entries(1) unfolding documented_def by blast+
  have "getConversionCode (enc lib) enc_MONO8 enc_BGR8 = Inr [COLOR_GRAY2BGR]"
    using getConversionCode_color [OF assms(1) sample_entries(1,3)]
    by (simp add: getConversionCodes_def getEncoding_def)
  moreover have "\<not> readable \<lparr>mat_rows = 65537, mat_cols = 1, mat_type = CV_MAKETYPE 0 1,
      mat_step = 65536, mat_data = replicate 65536 0\<rparr>"
    by (simp add: readable_def row_size_def elemSize_make depth_bytes_def)
  ultimately show ?thesis
    using assms(2,3)
    by (simp add: toCvCopy_def matFromImage_def wrapping_image_def sample_types e Let_def make_mat_def
        same_endian_def toCvCopyImpl_def)
qed

lemma size_check_wraps_witness: "toCvCopy plain_cv wrapping_image enc_BGR8 = Inl Undefined"
  by (rule size_check_wraps) (simp_all add: documented_plain)

end
