(* ===== verification/Topic_Properties.thy ===== *)
theory Topic_Properties
  imports Topic_Factory Cloud_Properties Cv_Properties
begin

text \<open>
  What a topic end guarantees: the acceptance policy of the receiver, the invariant of its queue
  under every interleaving of arrivals, worker rounds and stopping, that stopping drains the
  queue, the spacing enforced by the rate limiter, and the accounting of the sender.
\<close>

section \<open>The receiver's entry point\<close>

lemma ValidateEnvelopeMetadata_ok:
  "ValidateEnvelopeMetadata e ty md5 = Inr () \<longleftrightarrow>
     protocol_version e = kBridgeProtocolVersion \<and> ros_type e = ty \<and> ros_md5 e = md5"
  by (simp add: ValidateEnvelopeMetadata_def)

lemma push_queue_Some:
  "PushToBoundedEnvelopeQueue qos e (Some q) =
     (fst (push_queue qos e q), Some (snd (push_queue qos e q)))"
  by (auto simp: push_queue_def PushToBoundedEnvelopeQueue_def Let_def)

definition observe_if_image :: "TransportEnvelope \<Rightarrow> TopicFactory \<Rightarrow> TopicFactory" where
  "observe_if_image e t =
     (if tc_type (tf_cfg t) = ''sensor_msgs/Image''
      then t\<lparr>tf_metrics := recordCompleteImageEnvelope (sequence e) (tf_metrics t)\<rparr> else t)"

lemma enqueueEnvelope_eq:
  "enqueueEnvelope lib e t =
     (if \<not> accepts lib (tf_cfg t) e then (False, t\<lparr>tf_metrics := recordDrop (tf_metrics t)\<rparr>)
      else
        let t' = observe_if_image e t in
        if \<not> tf_recv_thread_flag t then (False, t')
        else
          (case push_queue (tc_qos_class (tf_cfg t)) e (tf_recv_queue t) of (r, q) \<Rightarrow>
             (r \<noteq> kRejected,
              t'\<lparr>tf_recv_queue := q,
                 tf_metrics := (if r = kEnqueued then tf_metrics t'
                                else recordTransportQueueDrop (tf_metrics t'))\<rparr>)))"
proof -
  have kinds: "r \<noteq> kRejected \<Longrightarrow> r \<noteq> kReplacedOldest \<Longrightarrow> r = kEnqueued" for r
    by (cases r) auto
  show ?thesis
    unfolding enqueueEnvelope_def Let_def accepts_def ValidateEnvelopeMetadata_ok
    by (auto simp: push_queue_Some observe_if_image_def Let_def split: prod.split dest: kinds)
qed

lemma recordCompleteImage_keeps [simp]:
  "dropped_messages (recordCompleteImageEnvelope q s) = dropped_messages s"
  "transport_queue_drops (recordCompleteImageEnvelope q s) = transport_queue_drops s"
  by (simp_all add: recordCompleteImageEnvelope_def ObserveCompleteFrameSequence_def Let_def)

lemma observe_if_image_keeps [simp]:
  "tf_cfg (observe_if_image e t) = tf_cfg t" "tf_recv_queue (observe_if_image e t) = tf_recv_queue t"
  "tf_recv_thread_flag (observe_if_image e t) = tf_recv_thread_flag t"
  "transport_queue_drops (tf_metrics (observe_if_image e t)) = transport_queue_drops (tf_metrics t)"
  "dropped_messages (tf_metrics (observe_if_image e t)) = dropped_messages (tf_metrics t)"
  by (simp_all add: observe_if_image_def)

lemma record_drops [simp]:
  "transport_queue_drops (recordDrop s) = transport_queue_drops s"
  "dropped_messages (recordDrop s) = dropped_messages s + 1"
  "transport_queue_drops (recordTransportQueueDrop s) = transport_queue_drops s + 1"
  "dropped_messages (recordTransportQueueDrop s) = dropped_messages s + 1"
  by (simp_all add: recordDrop_def recordTransportQueueDrop_def)

lemma enqueueEnvelope_idle:
  assumes "\<not> (accepts lib (tf_cfg t) e \<and> tf_recv_thread_flag t)"
  shows "tf_recv_queue (snd (enqueueEnvelope lib e t)) = tf_recv_queue t \<and>
    tf_cfg (snd (enqueueEnvelope lib e t)) = tf_cfg t \<and>
    transport_queue_drops (tf_metrics (snd (enqueueEnvelope lib e t))) =
      transport_queue_drops (tf_metrics t)"
proof (cases "accepts lib (tf_cfg t) e")
  case True
  then have "\<not> tf_recv_thread_flag t" using assms by blast
  then show ?thesis unfolding enqueueEnvelope_eq Let_def using True by simp
qed (simp add: enqueueEnvelope_eq)

lemma enqueueEnvelope_running:
  assumes "accepts lib (tf_cfg t) e \<and> tf_recv_thread_flag t"
    and "push_queue (tc_qos_class (tf_cfg t)) e (tf_recv_queue t) = (r, q)"
  shows "tf_recv_queue (snd (enqueueEnvelope lib e t)) = q \<and>
    tf_cfg (snd (enqueueEnvelope lib e t)) = tf_cfg t \<and>
    transport_queue_drops (tf_metrics (snd (enqueueEnvelope lib e t))) =
      transport_queue_drops (tf_metrics t) + of_nat (dropped [r])"
proof -
  have a: "accepts lib (tf_cfg t) e" and f: "tf_recv_thread_flag t" using assms(1) by simp_all
  have "snd (enqueueEnvelope lib e t) = (observe_if_image e t)\<lparr>tf_recv_queue := q,
        tf_metrics := (if r = kEnqueued then tf_metrics (observe_if_image e t)
          else recordTransportQueueDrop (tf_metrics (observe_if_image e t)))\<rparr>"
    unfolding enqueueEnvelope_eq Let_def assms(2)
    by (simp only: a f not_True_eq_False if_False prod.case snd_conv)
  then show ?thesis by (simp only:) (simp add: dropped_def)
qed

lemma deserializePublish_keeps:
  assumes "deserializePublish lib now e t = Some (m, t')"
  shows "tf_cfg t' = tf_cfg t" "tf_recv_queue t' = tf_recv_queue t"
    "tf_recv_thread_flag t' = tf_recv_thread_flag t" "tf_dir t' = tf_dir t"
    "transport_queue_drops (tf_metrics t') = transport_queue_drops (tf_metrics t)"
    "m = None \<Longrightarrow> dropped_messages (tf_metrics t') = dropped_messages (tf_metrics t) + 1"
    "m \<noteq> None \<Longrightarrow> total_received (tf_metrics t') = total_received (tf_metrics t) + 1"
proof -
  obtain f where t': "t' = t\<lparr>tf_metrics := f (tf_metrics t)\<rparr>"
    and f: "f = recordDrop \<and> m = None \<or> (\<exists>b l. f = recordReceive now b l \<and> m \<noteq> None)"
  proof -
    obtain r where r: "decode_message lib (payload_cfg (tf_cfg t)) now (tc_type (tf_cfg t)) e = Some r"
      using assms by (auto simp: deserializePublish_def bind_eq_Some_conv)
    show ?thesis
    proof (cases r)
      case (Inl a)
      then have "t' = t\<lparr>tf_metrics := recordDrop (tf_metrics t)\<rparr>" "m = None"
        using assms r by (simp_all add: deserializePublish_def)
      then show ?thesis using that by blast
    next
      case (Inr a)
      then have "t' = t\<lparr>tf_metrics := recordReceive now (of_nat (length (payload e)))
          (inferLatencyMs now (source_time_ns e)) (tf_metrics t)\<rparr>" "m = Some a"
        using assms r by (simp_all add: deserializePublish_def)
      then show ?thesis using that by blast
    qed
  qed
  show "tf_cfg t' = tf_cfg t" "tf_recv_queue t' = tf_recv_queue t"
    "tf_recv_thread_flag t' = tf_recv_thread_flag t" "tf_dir t' = tf_dir t"
    by (simp_all add: t')
  show "transport_queue_drops (tf_metrics t') = transport_queue_drops (tf_metrics t)"
    using f by (auto simp: t')
  show "m = None \<Longrightarrow> dropped_messages (tf_metrics t') = dropped_messages (tf_metrics t) + 1"
    "m \<noteq> None \<Longrightarrow> total_received (tf_metrics t') = total_received (tf_metrics t) + 1"
    using f by (auto simp: t')
qed

lemma recvFunction_round_took:
  assumes "recvFunction_round lib now t = WorkerTook e m t'"
  shows "tf_recv_queue t = e # tf_recv_queue t'" "tf_cfg t' = tf_cfg t"
    "tf_recv_thread_flag t' = tf_recv_thread_flag t"
    "transport_queue_drops (tf_metrics t') = transport_queue_drops (tf_metrics t)"
proof -
  obtain q where q: "tf_recv_queue t = hd (tf_recv_queue t) # q"
    using assms by (cases "tf_recv_queue t") (auto simp: recvFunction_round_def split: if_splits)
  have "deserializePublish lib now (hd (tf_recv_queue t)) (t\<lparr>tf_recv_queue := q\<rparr>) = Some (m, t') \<and>
      e = hd (tf_recv_queue t)"
    using assms q by (cases "tf_recv_queue t")
      (auto simp: recvFunction_round_def Let_def split: if_splits option.splits)
  then show "tf_recv_queue t = e # tf_recv_queue t'" "tf_cfg t' = tf_cfg t"
    "tf_recv_thread_flag t' = tf_recv_thread_flag t"
    "transport_queue_drops (tf_metrics t') = transport_queue_drops (tf_metrics t)"
    using deserializePublish_keeps [of lib now e "t\<lparr>tf_recv_queue := q\<rparr>" m t'] q by simp_all
qed

section \<open>The queue invariant\<close>

definition rx_inv :: "TopicCfg \<Rightarrow> u64 \<Rightarrow> rx \<Rightarrow> bool" where
  "rx_inv cfg d0 r \<longleftrightarrow>
     tf_cfg (rx_tf r) = cfg \<and>
     length (tf_recv_queue (rx_tf r)) \<le> class_capacity (tc_qos_class cfg) \<and>
     subseq (rx_taken r @ tf_recv_queue (rx_tf r)) (rx_pushed r) \<and>
     of_nat (length (rx_pushed r)) =
       of_nat (length (rx_taken r) + length (tf_recv_queue (rx_tf r))) +
       (transport_queue_drops (tf_metrics (rx_tf r)) - d0)"

lemma subseq_append_mono: "subseq xs ys \<Longrightarrow> subseq (us @ xs) (us @ ys)"
  by (rule list_emb_append_mono) auto

text \<open>An accepted envelope goes through the queue of the class.\<close>

lemma rx_inv_push:
  assumes inv: "rx_inv cfg d0 r" and pq: "push_queue (tc_qos_class cfg) e (tf_recv_queue (rx_tf r)) = (res, q)"
    and t: "tf_recv_queue t = q" "tf_cfg t = cfg"
      "transport_queue_drops (tf_metrics t) = transport_queue_drops (tf_metrics (rx_tf r)) + of_nat (dropped [res])"
  shows "rx_inv cfg d0 (r\<lparr>rx_tf := t, rx_pushed := rx_pushed r @ [e]\<rparr>)"
proof -
  let ?q = "tf_recv_queue (rx_tf r)"
  have len: "length ?q \<le> class_capacity (tc_qos_class cfg)"
    and sub: "subseq (rx_taken r @ ?q) (rx_pushed r)"
    and count: "of_nat (length (rx_pushed r)) = of_nat (length (rx_taken r) + length ?q) +
      (transport_queue_drops (tf_metrics (rx_tf r)) - d0)"
    using inv by (simp_all add: rx_inv_def)
  have "subseq q (?q @ [e])" using any_queue.push_subseq [of "tc_qos_class cfg" e ?q] pq by simp
  then have "subseq (rx_taken r @ q) ((rx_taken r @ ?q) @ [e])"
    by (simp only: append_assoc subseq_append_mono)
  also have "subseq ((rx_taken r @ ?q) @ [e]) (rx_pushed r @ [e])"
    by (rule list_emb_append_mono [OF sub]) simp
  finally have s: "subseq (rx_taken r @ q) (rx_pushed r @ [e])" .
  have c: "length q + dropped [res] = Suc (length ?q)" and b: "length q \<le> class_capacity (tc_qos_class cfg)"
    using any_queue.push_count [OF len, of e] any_queue.push_bound [OF len, of e] pq by simp_all
  have "(of_nat (length (rx_pushed r @ [e])) :: u64) =
      of_nat (length (rx_taken r) + (length q + dropped [res])) + (transport_queue_drops (tf_metrics (rx_tf r)) - d0)"
    using count unfolding c by simp
  also have "\<dots> = of_nat (length (rx_taken r) + length q) + (transport_queue_drops (tf_metrics t) - d0)"
    unfolding t by simp
  finally show ?thesis using s b t by (simp add: rx_inv_def)
qed

lemma rx_inv_step:
  assumes "rx_step lib r r'" and inv: "rx_inv cfg d0 r"
  shows "rx_inv cfg d0 r'"
  using assms(1)
proof (cases rule: rx_step.cases)
  case (arrive e n t)
  let ?t = "rx_tf r" and ?q = "tf_recv_queue (rx_tf r)"
  have cfg: "tf_cfg ?t = cfg" using inv by (simp add: rx_inv_def)
  have t: "t = snd (enqueueEnvelope lib e ?t)" using arrive(2) by (simp only: snd_conv)
  show ?thesis
  proof (cases "accepts lib (tf_cfg ?t) e \<and> tf_recv_thread_flag ?t")
    case True
    obtain res q where pq: "push_queue (tc_qos_class cfg) e ?q = (res, q)" by (rule prod.exhaust)
    have "tf_recv_queue t = q" "tf_cfg t = cfg" "transport_queue_drops (tf_metrics t) =
        transport_queue_drops (tf_metrics ?t) + of_nat (dropped [res])"
      using enqueueEnvelope_running [OF True pq [folded cfg]] unfolding t [symmetric] cfg by blast+
    from rx_inv_push [OF inv pq this] show ?thesis using True by (simp add: arrive(1))
  next
    case False
    then show ?thesis using enqueueEnvelope_idle [OF False] inv
      by (simp add: rx_inv_def arrive(1) flip: t)
  qed
next
  case (work now e m t)
  then show ?thesis
    using recvFunction_round_took [OF work(2)] inv by (auto simp: rx_inv_def)
next
  case halt
  then show ?thesis using inv by (simp add: rx_inv_def)
qed

lemma rx_inv_run: "(rx_step lib)\<^sup>*\<^sup>* r r' \<Longrightarrow> rx_inv cfg d0 r \<Longrightarrow> rx_inv cfg d0 r'"
  by (induction rule: rtranclp_induct) (auto intro: rx_inv_step)

definition rx_start :: "TopicFactory \<Rightarrow> rx" where
  "rx_start t = \<lparr>rx_tf = t, rx_pushed = [], rx_taken = []\<rparr>"

lemma rx_inv_start: "tf_recv_queue t = [] \<Longrightarrow>
    rx_inv (tf_cfg t) (transport_queue_drops (tf_metrics t)) (rx_start t)"
  by (simp add: rx_inv_def rx_start_def)

section \<open>Draining\<close>

text \<open>Iterating worker rounds until the worker exits; \<open>n\<close> bounds the rounds.\<close>

fun worker_loop ::
  "('pose, 'o) RosLib \<Rightarrow> (nat \<Rightarrow> ros_time) \<Rightarrow> nat \<Rightarrow> nat \<Rightarrow> TopicFactory \<Rightarrow>
     (('pose, 'o) RosMessage option list \<times> TopicFactory) option option" where
  "worker_loop lib clock k 0 t = None"
| "worker_loop lib clock k (Suc n) t =
     (case recvFunction_round lib (clock k) t of
        WorkerExit \<Rightarrow> Some (Some ([], t))
      | WorkerWait \<Rightarrow> None
      | WorkerUndefined \<Rightarrow> Some None
      | WorkerTook e m t' \<Rightarrow>
          map_option (map_option (\<lambda>(ms, t). (m # ms, t))) (worker_loop lib clock (Suc k) n t'))"

lemma worker_loop_drain:
  "\<not> tf_recv_thread_flag t \<Longrightarrow> tf_recv_queue t = q \<Longrightarrow> length q < n \<Longrightarrow>
    worker_loop lib clock k n t = Some (drain lib clock k q t)"
proof (induction q arbitrary: t n k)
  case Nil
  then show ?case by (cases n) (simp_all add: recvFunction_round_def)
next
  case (Cons e q)
  then obtain n' where n: "n = Suc n'" by (cases n) auto
  show ?case
  proof (cases "deserializePublish lib (clock k) e (t\<lparr>tf_recv_queue := q\<rparr>)")
    case None
    then show ?thesis using Cons.prems n by (simp add: recvFunction_round_def)
  next
    case (Some mt)
    obtain m t' where mt: "mt = (m, t')" by (cases mt)
    have keep: "\<not> tf_recv_thread_flag t'" "tf_recv_queue t' = q"
      using deserializePublish_keeps [of lib "clock k" e "t\<lparr>tf_recv_queue := q\<rparr>" m t'] Some mt Cons.prems
      by simp_all
    have "worker_loop lib clock (Suc k) n' t' = Some (drain lib clock (Suc k) q t')"
      using Cons.IH [OF keep] Cons.prems n by simp
    then show ?thesis using Cons.prems n Some mt
      by (cases "drain lib clock (Suc k) q t'") (auto simp: recvFunction_round_def)
  qed
qed

lemma drain_length:
  "drain lib clock k q t = Some (ms, t') \<Longrightarrow> tf_recv_queue t = q \<Longrightarrow>
    length ms = length q \<and> tf_recv_queue t' = [] \<and> tf_recv_thread_flag t' = tf_recv_thread_flag t"
proof (induction q arbitrary: t k ms t')
  case (Cons e q)
  then obtain m t1 ms' where s: "deserializePublish lib (clock k) e (t\<lparr>tf_recv_queue := q\<rparr>) = Some (m, t1)"
    "drain lib clock (Suc k) q t1 = Some (ms', t')" "ms = m # ms'"
    by (auto simp: bind_eq_Some_conv)
  then show ?case using Cons.IH [OF s(2)] deserializePublish_keeps [OF s(1)] by simp
qed simp

lemma deserializePublish_subscription:
  assumes "deserializePublish lib now e t = Some (m, t')"
  shows "tf_subscription t' = tf_subscription t"
proof -
  obtain r where "decode_message lib (payload_cfg (tf_cfg t)) now (tc_type (tf_cfg t)) e = Some r"
    using assms by (auto simp: deserializePublish_def bind_eq_Some_conv)
  then show ?thesis using assms by (cases r) (auto simp: deserializePublish_def)
qed

lemma drain_keeps_subscription:
  "drain lib clock k q t = Some (ms, t') \<Longrightarrow> tf_subscription t' = tf_subscription t"
proof (induction q arbitrary: t k ms)
  case (Cons e q)
  then obtain m t1 ms' where s: "deserializePublish lib (clock k) e (t\<lparr>tf_recv_queue := q\<rparr>) = Some (m, t1)"
    "drain lib clock (Suc k) q t1 = Some (ms', t')"
    by (auto simp: bind_eq_Some_conv)
  then show ?case using Cons.IH [OF s(2)] deserializePublish_subscription [OF s(1)] by simp
qed simp

section \<open>Properties of the receiver\<close>

lemma recordCompleteImage_total [simp]:
  "total_received (recordCompleteImageEnvelope q s) = total_received s"
  by (simp add: recordCompleteImageEnvelope_def ObserveCompleteFrameSequence_def Let_def)

lemma observe_if_image_state [simp]:
  "tf_sequence (observe_if_image e t) = tf_sequence t" "tf_dir (observe_if_image e t) = tf_dir t"
  "total_received (tf_metrics (observe_if_image e t)) = total_received (tf_metrics t)"
  by (simp_all add: observe_if_image_def)

text \<open>C8: The receive path queues an envelope exactly when kind, version, type, checksum, source
  and source permission all match and the receiver runs; a refused one leaves the queue alone and
  counts one drop, an accepted one counts a drop exactly when the queue refuses or replaces; the
  worker is notified exactly when the queue took the envelope.\<close>

theorem enqueue_policy:
  "enqueueEnvelope lib e t = (notified, t') \<Longrightarrow>
    (let push = push_queue (tc_qos_class (tf_cfg t)) e (tf_recv_queue t);
         offered = accepts lib (tf_cfg t) e \<and> tf_recv_thread_flag t
     in notified = (offered \<and> fst push \<noteq> kRejected) \<and>
        tf_recv_queue t' = (if offered then snd push else tf_recv_queue t) \<and>
        dropped_messages (tf_metrics t') = dropped_messages (tf_metrics t) +
          (if \<not> accepts lib (tf_cfg t) e \<or> offered \<and> fst push \<noteq> kEnqueued then 1 else 0) \<and>
        total_received (tf_metrics t') = total_received (tf_metrics t) \<and> tf_cfg t' = tf_cfg t)"
proof (cases "accepts lib (tf_cfg t) e")
  case False
  assume "enqueueEnvelope lib e t = (notified, t')"
  then have "notified = False" "t' = t\<lparr>tf_metrics := recordDrop (tf_metrics t)\<rparr>"
    unfolding enqueueEnvelope_eq using False by simp_all
  then show ?thesis using False by (simp add: Let_def recordDrop_def)
next
  case True
  assume e: "enqueueEnvelope lib e t = (notified, t')"
  obtain r q where pq: "push_queue (tc_qos_class (tf_cfg t)) e (tf_recv_queue t) = (r, q)"
    by (rule prod.exhaust)
  show ?thesis
  proof (cases "tf_recv_thread_flag t")
    case flag: True
    have "notified = (r \<noteq> kRejected)"
      and t': "t' = (observe_if_image e t)\<lparr>tf_recv_queue := q,
        tf_metrics := (if r = kEnqueued then tf_metrics (observe_if_image e t)
          else recordTransportQueueDrop (tf_metrics (observe_if_image e t)))\<rparr>"
      using e unfolding enqueueEnvelope_eq Let_def pq
      by (simp_all only: True flag not_True_eq_False if_False prod.case prod.inject)
    then show ?thesis using True flag pq
      by (simp add: Let_def recordTransportQueueDrop_def)
  next
    case flag: False
    then have "notified = False" "t' = observe_if_image e t"
      using e True by (simp_all add: enqueueEnvelope_eq Let_def)
    then show ?thesis using True flag by (simp add: Let_def)
  qed
qed

text \<open>C6: In every interleaving of arrivals, worker rounds and halting that starts from an empty
  queue, the queue never exceeds the capacity of the QoS class, what the worker took followed by
  what is queued is a subsequence of what was offered (order kept, nothing duplicated), and every
  offered envelope is taken, queued or counted as a transport queue drop.\<close>

theorem receiver_invariant:
  assumes "tf_recv_queue t = []" and "(rx_step lib)\<^sup>*\<^sup>* (rx_start t) r"
  shows "length (tf_recv_queue (rx_tf r)) \<le> class_capacity (tc_qos_class (tf_cfg t)) \<and>
    subseq (rx_taken r @ tf_recv_queue (rx_tf r)) (rx_pushed r) \<and>
    (of_nat (length (rx_pushed r)) :: u64) =
      of_nat (length (rx_taken r) + length (tf_recv_queue (rx_tf r))) +
      (transport_queue_drops (tf_metrics (rx_tf r)) - transport_queue_drops (tf_metrics t))"
  using rx_inv_run [OF assms(2) rx_inv_start [OF assms(1)]] by (simp only: rx_inv_def)

section \<open>The rate limiter\<close>

text \<open>The clock readings at which callbacks pass the limiter.\<close>

fun limiter_passes :: "ros_time list \<Rightarrow> TopicFactory \<Rightarrow> ros_time list \<times> TopicFactory" where
  "limiter_passes [] t = ([], t)"
| "limiter_passes (now # stamps) t =
     (let (limited, t1) = sendFreqControl now t;
          (passed, t2) = limiter_passes stamps t1
      in (if limited then passed else now # passed, t2))"

definition min_interval :: "TopicFactory \<Rightarrow> real" where
  "min_interval t = 1 / max 0.001 (tc_max_freq (tf_cfg t))"

lemma sendFreqControl_cases:
  assumes "1 / 2 ^ 52 \<le> \<bar>tc_max_freq (tf_cfg t) + 1\<bar>"
  shows "sendFreqControl now t =
    (if tf_sub_last_time t \<noteq> 0 \<and> secs_between now (tf_sub_last_time t) < min_interval t
     then (True, t\<lparr>tf_metrics := recordDrop (tf_metrics t)\<rparr>) else (False, t\<lparr>tf_sub_last_time := now\<rparr>))"
  using assms by (simp add: sendFreqControl_def min_interval_def Let_def)

lemma limiter_passes_spaced:
  assumes "1 / 2 ^ 52 \<le> \<bar>tc_max_freq (tf_cfg t) + 1\<bar>" and "\<forall>now \<in> set stamps. 0 < now"
  shows "successively (\<lambda>a b. min_interval t \<le> secs_between b a)
      ((if tf_sub_last_time t = 0 then [] else [tf_sub_last_time t]) @ fst (limiter_passes stamps t)) \<and>
    dropped_messages (tf_metrics (snd (limiter_passes stamps t))) +
      of_nat (length (fst (limiter_passes stamps t))) =
      dropped_messages (tf_metrics t) + of_nat (length stamps)"
  using assms
proof (induction stamps arbitrary: t)
  case (Cons now stamps)
  obtain limited t1 where s: "sendFreqControl now t = (limited, t1)" by (rule prod.exhaust)
  have t1: "tc_max_freq (tf_cfg t1) = tc_max_freq (tf_cfg t)" "min_interval t1 = min_interval t"
    using s sendFreqControl_cases [OF Cons.prems(1), of now]
    by (auto simp: min_interval_def split: if_splits)
  have IH: "successively (\<lambda>a b. min_interval t \<le> secs_between b a)
      ((if tf_sub_last_time t1 = 0 then [] else [tf_sub_last_time t1]) @ fst (limiter_passes stamps t1))"
    "dropped_messages (tf_metrics (snd (limiter_passes stamps t1))) +
      of_nat (length (fst (limiter_passes stamps t1))) =
      dropped_messages (tf_metrics t1) + of_nat (length stamps)"
    using Cons.IH [of t1] Cons.prems t1 by simp_all
  show ?case
  proof (cases limited)
    case True
    then have "t1 = t\<lparr>tf_metrics := recordDrop (tf_metrics t)\<rparr>"
      using s sendFreqControl_cases [OF Cons.prems(1), of now] by (auto split: if_splits)
    then show ?thesis using IH True s
      by (simp add: case_prod_beta Let_def algebra_simps split: if_splits)
  next
    case False
    then have "t1 = t\<lparr>tf_sub_last_time := now\<rparr>"
      and ok: "tf_sub_last_time t \<noteq> 0 \<Longrightarrow> min_interval t \<le> secs_between now (tf_sub_last_time t)"
      using s sendFreqControl_cases [OF Cons.prems(1), of now] by (auto split: if_splits)
    then show ?thesis using IH False s Cons.prems(2) ok
      by (auto simp: case_prod_beta Let_def algebra_simps)
  qed
qed simp

text \<open>C32: On a rate-limited topic (\<open>max_freq\<close> other than -1) any two consecutive callbacks that
  pass are at least \<open>1 / max(0.001, max_freq)\<close> seconds apart, whatever the arrival times, and
  each of the others is counted as one drop.\<close>

theorem rate_limiter_spacing:
  assumes "1 / 2 ^ 52 \<le> \<bar>tc_max_freq (tf_cfg t) + 1\<bar>"
    and "\<forall>now \<in> set stamps. 0 < now" and "tf_sub_last_time t = 0"
  shows "successively (\<lambda>a b. 1 / max 0.001 (tc_max_freq (tf_cfg t)) \<le> secs_between b a)
      (fst (limiter_passes stamps t)) \<and>
    dropped_messages (tf_metrics (snd (limiter_passes stamps t))) +
      of_nat (length (fst (limiter_passes stamps t))) =
      dropped_messages (tf_metrics t) + of_nat (length stamps)"
  using limiter_passes_spaced [OF assms(1, 2)] assms(3) by (simp add: min_interval_def)

section \<open>The sender\<close>

lemma record_sent [simp]: "total_sent (recordDrop s) = total_sent s"
  by (simp add: recordDrop_def)

lemma publish_directed_count:
  "publish_directed publish clock e k ids t = Some (out, t') \<Longrightarrow>
    total_sent (tf_metrics t') = total_sent (tf_metrics t) + of_nat (length out) \<and>
    dropped_messages (tf_metrics t') + of_nat (length out) =
      dropped_messages (tf_metrics t) + of_nat (length ids) \<and>
    tf_sequence t' = tf_sequence t \<and> list_all (\<lambda>(key, e'). e' = e \<and> publish key e) out"
proof (induction ids arbitrary: k t out)
  case (Cons i ids)
  let ?drop = "t\<lparr>tf_metrics := recordDrop (tf_metrics t)\<rparr>"
  consider (drop) "publish_directed publish clock e (Suc k) ids ?drop = Some (out, t')"
    | (sent) key out1 s where "publish key e" "out = (key, e) # out1"
        "recordSend (quality_cfg (tf_cfg t)) (clock k) (of_nat (length (payload e))) (tf_metrics t) = Some s"
        "publish_directed publish clock e (Suc k) ids (t\<lparr>tf_metrics := s\<rparr>) = Some (out1, t')"
    using Cons.prems by (auto simp: bind_eq_Some_conv split: option.splits if_splits prod.splits)
  then show ?case
  proof cases
    case drop
    then show ?thesis using Cons.IH [OF drop] by (simp add: algebra_simps)
  next
    case sent
    then show ?thesis using Cons.IH [OF sent(4)] recordSend_window [OF sent(3)] by (simp add: algebra_simps)
  qed
qed simp

lemma sendFreqControl_result:
  "sendFreqControl now t = (limited, t1) \<Longrightarrow>
     (limited \<longrightarrow> t1 = t\<lparr>tf_metrics := recordDrop (tf_metrics t)\<rparr>) \<and>
     (\<not> limited \<longrightarrow> (\<exists>stamp. t1 = t\<lparr>tf_sub_last_time := stamp\<rparr>))"
proof -
  have "\<exists>stamp. t = t\<lparr>tf_sub_last_time := stamp\<rparr>" by (rule exI [of _ "tf_sub_last_time t"]) simp
  then show "sendFreqControl now t = (limited, t1) \<Longrightarrow> ?thesis"
    by (auto simp: sendFreqControl_def Let_def split: if_splits)
qed

lemma build_envelope_identity:
  "sequence (build_envelope lib now msg t) = tf_sequence t + 1"
  "source_host (build_envelope lib now msg t) = tc_my_hostname (tf_cfg t)"
  "ros_type (build_envelope lib now msg t) = tc_type (tf_cfg t)"
  "ros_md5 (build_envelope lib now msg t) = RosTypeMd5 lib (tc_type (tf_cfg t))"
  "protocol_version (build_envelope lib now msg t) = kBridgeProtocolVersion"
  by (simp_all add: build_envelope_def default_envelope_def Let_def split: option.splits)

definition stamped :: "('pose, 'o) RosLib \<Rightarrow> TopicFactory \<Rightarrow> TransportEnvelope \<Rightarrow> bool" where
  "stamped lib t e \<longleftrightarrow> sequence e = tf_sequence t + 1 \<and> source_host e = tc_my_hostname (tf_cfg t) \<and>
     ros_type e = tc_type (tf_cfg t) \<and> ros_md5 e = RosTypeMd5 lib (tc_type (tf_cfg t)) \<and>
     protocol_version e = kBridgeProtocolVersion"

text \<open>How many outcomes (sent or dropped) a callback is accounted for: one, or one per
  destination of a directed message that was encoded.\<close>

definition outcomes ::
  "('pose, 'o) RosLib \<Rightarrow> bool \<Rightarrow> byte list option \<Rightarrow> ('pose, 'o) RosMessage \<Rightarrow>
     TopicFactory \<Rightarrow> nat" where
  "outcomes lib limited drone_ids msg t =
     (case encode_payload lib (payload_cfg (tf_cfg t)) (sint (current_jpeg_quality (tf_metrics t))) msg of
        Some (Inr _) \<Rightarrow> (case drone_ids of Some ids \<Rightarrow> if limited then 1 else length ids | None \<Rightarrow> 1)
      | _ \<Rightarrow> 1)"

text \<open>The ways a callback can end.\<close>

abbreviation numbered :: "TopicFactory \<Rightarrow> TopicFactory" where
  "numbered t \<equiv> t\<lparr>tf_sequence := tf_sequence t + 1\<rparr>"

lemma subCallback_cases:
  assumes "subCallback lib publish clock drone_ids msg t = Some (out, t')"
    and lim: "sendFreqControl (clock 0) t = (limited, t1)"
  obtains (limited) "limited" "out = []" "t' = t\<lparr>tf_metrics := recordDrop (tf_metrics t)\<rparr>"
      "outcomes lib limited drone_ids msg t = 1"
    | (refused) "\<not> limited" "out = []" "t' = (numbered t1)\<lparr>tf_metrics := recordDrop (tf_metrics t)\<rparr>"
      "outcomes lib limited drone_ids msg t = 1"
    | (sent) key e s where "\<not> limited" "out = [(key, e)]" "publish key e" "stamped lib t e"
      "recordSend (quality_cfg (tf_cfg t)) (clock 2) (of_nat (length (payload e))) (tf_metrics t) = Some s"
      "t' = (numbered t1)\<lparr>tf_metrics := s\<rparr>"
      "outcomes lib limited drone_ids msg t = 1"
    | (directed) ids e where "\<not> limited" "stamped lib t e" "publish_directed publish clock e 2 ids (numbered t1) = Some (out, t')"
      "outcomes lib limited drone_ids msg t = length ids"
proof (cases limited)
  case True
  then have "t1 = t\<lparr>tf_metrics := recordDrop (tf_metrics t)\<rparr>" "out = []" "t' = t1"
    using assms(1) lim sendFreqControl_result [OF lim] by (simp_all add: subCallback_def)
  then show ?thesis using True that(1) by (simp add: outcomes_def split: option.split sum.split)
next
  case False
  then have t1 [simp]: "tf_cfg t1 = tf_cfg t" "tf_metrics t1 = tf_metrics t" "tf_sender t1 = tf_sender t"
    using sendFreqControl_result [OF lim] by auto
  obtain r where r: "encode_payload lib (payload_cfg (tf_cfg t))
      (sint (current_jpeg_quality (tf_metrics t))) msg = Some r"
    using assms(1) lim False by (auto simp: subCallback_def Let_def bind_eq_Some_conv)
  show ?thesis
  proof (cases r)
    case (Inl err)
    then show ?thesis using assms(1) lim False r that(2)
      by (simp add: subCallback_def Let_def outcomes_def)
  next
    case (Inr kd)
    obtain kind data where kd: "kd = (kind, data)" by (cases kd)
    define e where "e = (build_envelope lib (clock 1) msg t1)\<lparr>payload_kind := kind, payload := data\<rparr>"
    have e: "stamped lib t e" "payload e = data"
      using sendFreqControl_result [OF lim] False by (auto simp: e_def stamped_def build_envelope_identity)
    note step = assms(1) lim False r Inr kd
    show ?thesis
    proof (cases drone_ids)
      case None
      have one: "outcomes lib limited drone_ids msg t = 1" by (simp add: outcomes_def r Inr None)
      have "(case tf_sender t of
          Some key \<Rightarrow> if publish key e then
              do { s \<leftarrow> recordSend (quality_cfg (tf_cfg t)) (clock 2) (of_nat (length data)) (tf_metrics t);
                   Some ([(key, e)], (numbered t1)\<lparr>tf_metrics := s\<rparr>) }
            else Some ([], (numbered t1)\<lparr>tf_metrics := recordDrop (tf_metrics t)\<rparr>)
        | None \<Rightarrow> Some ([], (numbered t1)\<lparr>tf_metrics := recordDrop (tf_metrics t)\<rparr>)) = Some (out, t')"
        using step None by (simp add: subCallback_def Let_def e_def cong: option.case_cong if_cong)
      then show ?thesis
        using that(2) [OF False _ _ one] that(3) [OF False _ _ e(1) _ _ one] e(2)
        by (auto simp: bind_eq_Some_conv split: option.splits if_splits)
    next
      case (Some ids)
      have "publish_directed publish clock e 2 ids (numbered t1) = Some (out, t')"
        using step Some by (simp add: subCallback_def Let_def e_def)
      then show ?thesis by (rule that(4) [OF False e(1)]) (use False in \<open>simp add: outcomes_def r Inr kd Some\<close>)
    qed
  qed
qed

text \<open>C11: Each callback is accounted exactly: what goes out is counted as sent, everything else
  (rate limit, encoding failure, unknown destination, refused publish) as dropped; the sequence
  number grows by one exactly when the limiter lets the message pass, and every envelope that
  leaves carries that number, this host, and the type and checksum of the topic.\<close>

theorem sender_accounting:
  assumes "subCallback lib publish clock drone_ids msg t = Some (out, t')"
  shows "let limited = fst (sendFreqControl (clock 0) t) in
    total_sent (tf_metrics t') = total_sent (tf_metrics t) + of_nat (length out) \<and>
    dropped_messages (tf_metrics t') + of_nat (length out) =
      dropped_messages (tf_metrics t) + of_nat (outcomes lib limited drone_ids msg t) \<and>
    tf_sequence t' = tf_sequence t + (if limited then 0 else 1) \<and>
    list_all (\<lambda>(key, e). stamped lib t e \<and> publish key e) out"
proof -
  obtain limited t1 where lim: "sendFreqControl (clock 0) t = (limited, t1)" by (rule prod.exhaust)
  have same: "\<not> limited \<Longrightarrow> tf_metrics t1 = tf_metrics t \<and> tf_sequence t1 = tf_sequence t"
    using sendFreqControl_result [OF lim] by auto
  from assms lim show ?thesis
  proof (cases rule: subCallback_cases)
    case (directed ids e)
    from publish_directed_count [OF directed(3)] show ?thesis
      using directed same lim by (simp add: list_all_iff case_prod_beta)
  qed (use lim same recordSend_window in \<open>simp_all\<close>)
qed

section \<open>A concrete topic\<close>

definition sample_lib :: "(unit, unit) RosLib" where
  "sample_lib =
     \<lparr>md5sum = (\<lambda>ty. ty), serialize = (\<lambda>_. [1, 2]),
      deserialize = (\<lambda>ty data. if ty = ''std_msgs/String'' then Some (StringMsg ()) else None),
      serialize_compressed = (\<lambda>_. [3]), deserialize_compressed = (\<lambda>_. None),
      cvlib = plain_cv, voxel_filter = (\<lambda>_ m. m),
      octree_encode = (\<lambda>_. []), octree_decode = (\<lambda>_ _ _. default_cloud), draco = one_point_draco\<rparr>"

definition sample_topic :: TopicCfg where
  "sample_topic = default_topic_cfg
     \<lparr>tc_name := ''/chat'', tc_wire_name := ''chat'', tc_type := ''std_msgs/String'',
      tc_src_hostname := ''a'', tc_my_hostname := ''b'', tc_src_hostname_map := [(''a'', True)],
      tc_qos_class := kCommand\<rparr>"

definition sample_factory :: "SendOrRecv \<Rightarrow> TopicFactory" where
  "sample_factory dir =
     \<lparr>tf_cfg = sample_topic, tf_dir = dir,
      tf_sender = (if dir = SEND then Some (TopicFanoutKey ''a'' ''chat'') else None),
      tf_dynamic_senders = [],
      tf_subscription = (if dir = RECV then Some (recv_key sample_topic) else None),
      tf_sub_last_time = 0, tf_ros_active = True, tf_recv_thread_flag = (dir = RECV),
      tf_recv_queue = [], tf_sequence = 0, tf_metrics = initial_metrics sample_topic dir 0\<rparr>"

definition chat_envelope :: TransportEnvelope where
  "chat_envelope = default_envelope
     \<lparr>payload_kind := kRosSerialized, sequence := 1, source_host := ''a'',
      ros_type := ''std_msgs/String'', ros_md5 := ''std_msgs/String'', payload := [1, 2]\<rparr>"

lemma sample_topic_simps [simp]:
  "tc_type sample_topic = ''std_msgs/String''" "tc_max_freq sample_topic = 10"
  "tc_qos_class sample_topic = kCommand" "tc_dynamic_dst sample_topic = False"
  "tc_src_hostname sample_topic = ''a''" "tc_src_hostname_map sample_topic = [(''a'', True)]"
  by (simp_all add: sample_topic_def default_topic_cfg_def)

lemma sample_factory_simps [simp]:
  "tf_cfg (sample_factory dir) = sample_topic" "tf_dir (sample_factory dir) = dir"
  "tf_recv_queue (sample_factory dir) = []" "tf_sub_last_time (sample_factory dir) = 0"
  "tf_recv_thread_flag (sample_factory dir) = (dir = RECV)" "tf_sequence (sample_factory dir) = 0"
  by (simp_all add: sample_factory_def)

lemma sample_record [simp]:
  "recordSend (quality_cfg sample_topic) now b s = Some (count_send now b s)"
  by (simp add: recordSend_def maybeAdaptImageQualityLocked_def quality_cfg_def)

lemma sample_sender: "tf_sender (sample_factory SEND) = Some (TopicFanoutKey ''a'' ''chat'')"
  by (simp add: sample_factory_def)

lemma sample_created:
  "map_sum id (createThread (\<lambda>_. True) missed)
     (TopicFactory_create (\<lambda>_ _. True) sample_topic True RECV 0) = Inr (Returns (Inr (), sample_factory RECV))"
  by (simp add: TopicFactory_create_def createThread_def sample_factory_def check_msg_type_def
      msgs_types_def Let_def)

lemma sample_accepts: "accepts sample_lib sample_topic chat_envelope"
  by (simp add: accepts_def expected_payload_kind_def chat_envelope_def default_envelope_def
      RosTypeMd5_def sample_lib_def msgs_types_def)

lemma sample_push: "push_queue kCommand chat_envelope [] = (kEnqueued, [chat_envelope])"
  by (simp add: push_queue_eq)

lemma enqueue_policy_witness:
  "\<exists>t. enqueueEnvelope sample_lib chat_envelope (sample_factory RECV) = (True, t) \<and>
     tf_recv_queue t = [chat_envelope]"
proof -
  obtain n t where e: "enqueueEnvelope sample_lib chat_envelope (sample_factory RECV) = (n, t)"
    by (rule prod.exhaust)
  show ?thesis
    using enqueue_policy [OF e] e by (simp add: Let_def sample_accepts sample_push)
qed

lemma receiver_invariant_witness:
  "\<exists>r. (rx_step sample_lib)\<^sup>*\<^sup>* (rx_start (sample_factory RECV)) r \<and>
     rx_pushed r = [chat_envelope] \<and> length (tf_recv_queue (rx_tf r)) \<le> 64"
proof -
  obtain n t where e: "enqueueEnvelope sample_lib chat_envelope (sample_factory RECV) = (n, t)"
    by (rule prod.exhaust)
  let ?r = "\<lparr>rx_tf = t, rx_pushed = [chat_envelope], rx_taken = []\<rparr>"
  have "rx_step sample_lib (rx_start (sample_factory RECV)) ?r"
    using rx_step.arrive [of sample_lib chat_envelope "rx_start (sample_factory RECV)" n t] e
    by (simp add: rx_start_def sample_accepts)
  then have run: "(rx_step sample_lib)\<^sup>*\<^sup>* (rx_start (sample_factory RECV)) ?r" by blast
  moreover have "length (tf_recv_queue (rx_tf ?r)) \<le> 64"
    using receiver_invariant [OF _ run] by (simp add: class_capacity_def)
  ultimately show ?thesis by (intro exI [of _ ?r]) simp
qed

lemma sample_decode:
  "decode_message sample_lib (payload_cfg sample_topic) now ''std_msgs/String'' chat_envelope =
     Some (Inr (StringMsg ()))"
  by (simp add: decode_message_def sample_lib_def msgs_types_def)

lemma rate_limiter_spacing_witness:
  "fst (limiter_passes [1, 50000000, 100000002] (sample_factory SEND)) = [1, 100000002] \<and>
   successively (\<lambda>a b. 1 / max 0.001 10 \<le> secs_between b a)
     (fst (limiter_passes [1, 50000000, 100000002] (sample_factory SEND)))"
proof
  show "fst (limiter_passes [1, 50000000, 100000002] (sample_factory SEND)) = [1, 100000002]"
    by (simp add: sendFreqControl_def Let_def secs_between_def)
  show "successively (\<lambda>a b. 1 / max 0.001 10 \<le> secs_between b a)
     (fst (limiter_passes [1, 50000000, 100000002] (sample_factory SEND)))"
    using rate_limiter_spacing [of "sample_factory SEND" "[1, 50000000, 100000002]"] by simp
qed

lemma sender_accounting_witness:
  "\<exists>out t. subCallback sample_lib (\<lambda>_ _. True) (\<lambda>_. 5) None (StringMsg ()) (sample_factory SEND) =
      Some (out, t) \<and> length out = 1 \<and> tf_sequence t = 1"
proof -
  have lim: "sendFreqControl 5 (sample_factory SEND) = (False, (sample_factory SEND)\<lparr>tf_sub_last_time := 5\<rparr>)"
    by (simp add: sendFreqControl_def Let_def)
  have enc: "encode_payload sample_lib c q (StringMsg ()) = Some (Inr (kRosSerialized, [1, 2]))" for c q
    by (simp add: sample_lib_def)
  have "\<exists>out t. subCallback sample_lib (\<lambda>_ _. True) (\<lambda>_. 5) None (StringMsg ()) (sample_factory SEND) =
      Some (out, t) \<and> length out = 1"
    by (auto simp: subCallback_def lim enc Let_def sample_sender)
  then obtain out t where s: "length out = 1"
    "subCallback sample_lib (\<lambda>_ _. True) (\<lambda>_. 5) None (StringMsg ()) (sample_factory SEND) = Some (out, t)"
    by blast
  show ?thesis using sender_accounting [OF s(2)] s lim by (auto simp: Let_def)
qed

end
