(* ===== verification/Zenoh_Transport.thy ===== *)
theory Zenoh_Transport
  imports Qos_Queue Zenoh_Keys Std_Map
begin

text \<open>
  \<^verbatim>\<open>ZenohTransport\<close> of \<^verbatim>\<open>src/transport/zenoh_transport.cpp\<close>: the shared transport of a node.  The
  zenoh session is outside the repository: what its calls return or throw, and the events it
  delivers (samples, liveliness changes, queries, replies), are arguments.  Each callback and
  each critical section is one transition of \<open>ZenohImpl\<close>; the bounded executor of service
  queries is a component of its own.
\<close>

section \<open>Helpers\<close>

definition to_lower :: "char \<Rightarrow> char" where
  "to_lower c =
     (let n = of_char c :: nat in if 65 \<le> n \<and> n \<le> 90 then char_of (n + 32) else c)"

definition IsTimeoutError :: "string \<Rightarrow> bool" where
  "IsTimeoutError value =
     (let normalized = map to_lower value
      in contains_str ''timeout'' normalized \<or> contains_str ''timed out'' normalized)"

definition json_quote :: char where "json_quote = char_of (34 :: nat)"
definition json_escape :: char where "json_escape = char_of (92 :: nat)"

fun json_chars :: "string \<Rightarrow> string" where
  "json_chars [] = []"
| "json_chars (ch # value) =
     (if ch = json_escape \<or> ch = json_quote then [json_escape, ch] else [ch]) @ json_chars value"

definition JsonString :: "string \<Rightarrow> string" where
  "JsonString value = [json_quote] @ json_chars value @ [json_quote]"

fun json_elements :: "bool \<Rightarrow> string list \<Rightarrow> string" where
  "json_elements first [] = []"
| "json_elements first (v # values) =
     (if first then [] else '','') @ JsonString v @ json_elements False values"

definition JsonArray :: "string list \<Rightarrow> string" where
  "JsonArray values = ''['' @ json_elements True values @ '']''"

datatype ZenohPriority =
    Z_PRIORITY_REAL_TIME
  | Z_PRIORITY_INTERACTIVE_HIGH
  | Z_PRIORITY_DATA_HIGH
  | Z_PRIORITY_DATA_LOW

fun ToZenohPriority :: "QosClass \<Rightarrow> ZenohPriority" where
  "ToZenohPriority kCommand = Z_PRIORITY_REAL_TIME"
| "ToZenohPriority kState = Z_PRIORITY_DATA_HIGH"
| "ToZenohPriority kBulk = Z_PRIORITY_DATA_LOW"
| "ToZenohPriority kService = Z_PRIORITY_INTERACTIVE_HIGH"

section \<open>The bounded executor\<close>

record 'task BoundedExecutor =
  ex_capacity :: nat
  ex_tasks :: "'task list"
  ex_workers :: nat
  ex_stopping :: bool

definition BoundedExecutor_create :: "nat \<Rightarrow> nat \<Rightarrow> 'task BoundedExecutor" where
  "BoundedExecutor_create thread_count capacity =
     \<lparr>ex_capacity = max 1 capacity, ex_tasks = [], ex_workers = max 1 thread_count,
      ex_stopping = False\<rparr>"

definition TrySubmit :: "'task \<Rightarrow> 'task BoundedExecutor \<Rightarrow> bool \<times> 'task BoundedExecutor" where
  "TrySubmit task ex =
     (if ex_stopping ex \<or> ex_capacity ex \<le> length (ex_tasks ex) then (False, ex)
      else (True, ex\<lparr>ex_tasks := ex_tasks ex @ [task]\<rparr>))"

text \<open>One round of a worker: it waits, leaves, or takes the oldest task.\<close>

datatype 'task RunRound = RunWait | RunExit | RunTask 'task "'task BoundedExecutor"

definition executor_Run :: "'task BoundedExecutor \<Rightarrow> 'task RunRound" where
  "executor_Run ex =
     (if \<not> ex_stopping ex \<and> ex_tasks ex = [] then RunWait
      else if ex_stopping ex \<and> ex_tasks ex = [] then RunExit
      else RunTask (hd (ex_tasks ex)) (ex\<lparr>ex_tasks := tl (ex_tasks ex)\<rparr>))"

text \<open>\<^verbatim>\<open>Stop\<close> returns when every worker has left; the tasks still queued are run by then, oldest
  first, and are the first component.\<close>

definition executor_Stop :: "'task BoundedExecutor \<Rightarrow> 'task list \<times> 'task BoundedExecutor" where
  "executor_Stop ex =
     (if ex_stopping ex then ([], ex)
      else (ex_tasks ex, ex\<lparr>ex_stopping := True, ex_tasks := [], ex_workers := 0\<rparr>))"

section \<open>Configuration and statistics\<close>

record ZenohTransportConfig =
  zc_mode :: string
  zc_multicast_scouting :: bool
  zc_gossip_scouting :: bool
  zc_compression_enabled :: bool
  zc_enable_liveliness :: bool
  zc_multicast_scouting_address :: string
  zc_listen_endpoints :: "string list"
  zc_connect_endpoints :: "string list"
  zc_allowed_link_protocols :: "string list"
  zc_service_timeout_ms :: u64
  zc_service_worker_threads :: u64
  zc_service_queue_capacity :: u64

definition default_zenoh_config :: ZenohTransportConfig where
  "default_zenoh_config =
     \<lparr>zc_mode = ''peer'', zc_multicast_scouting = True, zc_gossip_scouting = True,
      zc_compression_enabled = False, zc_enable_liveliness = True,
      zc_multicast_scouting_address = [], zc_listen_endpoints = [], zc_connect_endpoints = [],
      zc_allowed_link_protocols = [], zc_service_timeout_ms = 1000,
      zc_service_worker_threads = 2, zc_service_queue_capacity = 64\<rparr>"

record TransportStats =
  st_session_open :: bool
  st_link_connected :: bool
  st_connected_peer_count :: u64
  st_connected_router_count :: u64
  st_reconnect_count :: u64
  st_receive_decode_errors :: u64
  st_callback_drops :: u64
  st_service_timeouts :: u64
  st_service_queue_drops :: u64

record NodePresence =
  np_hostname :: string
  np_online :: bool
  np_state_age_ms :: u64
  np_online_transitions :: u64

text \<open>The settings put into the zenoh configuration, in order.\<close>

definition json_bool :: "bool \<Rightarrow> string" where
  "json_bool b = (if b then ''true'' else ''false'')"

definition zenoh_config_entries :: "ZenohTransportConfig \<Rightarrow> (string \<times> string) list" where
  "zenoh_config_entries config =
     [(''mode'', JsonString (zc_mode config)),
      (''scouting/multicast/enabled'', json_bool (zc_multicast_scouting config))] @
     (if zc_multicast_scouting_address config \<noteq> []
      then [(''scouting/multicast/address'', JsonString (zc_multicast_scouting_address config))]
      else []) @
     [(''scouting/gossip/enabled'', json_bool (zc_gossip_scouting config))] @
     (if zc_listen_endpoints config \<noteq> []
      then [(''listen/endpoints'', JsonArray (zc_listen_endpoints config))] else []) @
     (if zc_connect_endpoints config \<noteq> []
      then [(''connect/endpoints'', JsonArray (zc_connect_endpoints config))] else []) @
     (if zc_allowed_link_protocols config \<noteq> []
      then [(''transport/link/protocols'', JsonArray (zc_allowed_link_protocols config))] else []) @
     [(''transport/unicast/compression/enabled'', json_bool (zc_compression_enabled config)),
      (''transport/multicast/compression/enabled'', json_bool (zc_compression_enabled config))]"

section \<open>State\<close>

text \<open>Times of the steady clock are in nanoseconds; they never decrease.\<close>

record PresenceRecord =
  pr_online :: bool
  pr_state_changed_at :: nat
  pr_online_transitions :: u64

record ZenohImpl =
  zi_executor :: "(string \<times> TransportEnvelope) BoundedExecutor"
  zi_session :: bool
  zi_liveliness_subscriber :: bool
  zi_liveliness_token :: "string option"
  zi_session_open :: bool
  zi_closed :: bool
  zi_last_link_connected :: bool
  zi_ever_link_connected :: bool
  zi_reconnect_count :: u64
  zi_receive_decode_errors :: u64
  zi_callback_drops :: u64
  zi_service_timeouts :: u64
  zi_service_queue_drops :: u64
  zi_presence :: "PresenceRecord smap"

definition UpdatePresence ::
  "nat \<Rightarrow> string \<Rightarrow> bool \<Rightarrow> PresenceRecord smap \<Rightarrow> PresenceRecord smap" where
  "UpdatePresence now hostname online presence =
     (case mfind presence hostname of
        None \<Rightarrow>
          mset_at hostname
            \<lparr>pr_online = online, pr_state_changed_at = now,
             pr_online_transitions = (if online then 1 else 0)\<rparr> presence
      | Some r \<Rightarrow>
          if pr_online r = online then presence
          else mset_at hostname
            \<lparr>pr_online = online, pr_state_changed_at = now,
             pr_online_transitions = pr_online_transitions r + (if online then 1 else 0)\<rparr> presence)"

datatype SampleKind = Z_SAMPLE_KIND_PUT | Z_SAMPLE_KIND_DELETE

definition on_liveliness :: "nat \<Rightarrow> string \<Rightarrow> SampleKind \<Rightarrow> ZenohImpl \<Rightarrow> ZenohImpl" where
  "on_liveliness now key kind z =
     (case ParseAliveKey key (Some []) of
        (True, Some hostname) \<Rightarrow>
          z\<lparr>zi_presence := UpdatePresence now hostname (kind = Z_SAMPLE_KIND_PUT) (zi_presence z)\<rparr>
      | _ \<Rightarrow> z)"

text \<open>\<open>opened\<close>, \<open>watched\<close> and \<open>announced\<close> say whether opening the session, subscribing to the
  liveliness tokens and declaring the own token return (they throw otherwise).\<close>

definition Impl_create ::
  "bool \<Rightarrow> bool \<Rightarrow> bool \<Rightarrow> nat \<Rightarrow> ZenohTransportConfig \<Rightarrow> string \<Rightarrow> string + ZenohImpl" where
  "Impl_create opened watched announced now config hostname =
     (if \<not> opened then Inl ''zenoh session open failed''
      else
        let z = \<lparr>zi_executor = BoundedExecutor_create (unat (zc_service_worker_threads config))
                                 (unat (zc_service_queue_capacity config)),
                 zi_session = True, zi_liveliness_subscriber = False, zi_liveliness_token = None,
                 zi_session_open = False, zi_closed = False, zi_last_link_connected = False,
                 zi_ever_link_connected = False, zi_reconnect_count = 0,
                 zi_receive_decode_errors = 0, zi_callback_drops = 0, zi_service_timeouts = 0,
                 zi_service_queue_drops = 0, zi_presence = []\<rparr>
        in if \<not> zc_enable_liveliness config then Inr (z\<lparr>zi_session_open := True\<rparr>)
           else if \<not> watched then Inl ''zenoh liveliness subscriber failed''
           else if \<not> announced then Inl ''zenoh liveliness token failed''
           else Inr (z\<lparr>zi_liveliness_subscriber := True,
                       zi_presence := UpdatePresence now hostname True (zi_presence z),
                       zi_liveliness_token := Some (AliveKey hostname),
                       zi_session_open := True\<rparr>))"

text \<open>Closing: the queued service queries that the workers still serve are returned.\<close>

definition Close :: "ZenohImpl \<Rightarrow> (string \<times> TransportEnvelope) list \<times> ZenohImpl" where
  "Close z =
     (if zi_closed z then ([], z)
      else
        let (served, ex) = executor_Stop (zi_executor z)
        in (served, z\<lparr>zi_closed := True, zi_executor := ex, zi_liveliness_subscriber := False,
                      zi_liveliness_token := None, zi_session := False, zi_session_open := False\<rparr>))"

definition Session :: "ZenohImpl \<Rightarrow> string + unit" where
  "Session z =
     (if zi_closed z \<or> \<not> zi_session z then Inl ''Zenoh session is closed'' else Inr ())"

text \<open>\<open>peers\<close> and \<open>routers\<close>: what the session answers, \<open>None\<close> when the call throws.\<close>

definition Stats :: "u64 option \<Rightarrow> u64 option \<Rightarrow> ZenohImpl \<Rightarrow> TransportStats \<times> ZenohImpl" where
  "Stats peers routers z =
     (let (peer_count, router_count) =
            (if zi_session_open z \<and> zi_session z then
               (case peers of
                  None \<Rightarrow> (0, 0)
                | Some p \<Rightarrow> (case routers of None \<Rightarrow> (p, 0) | Some r \<Rightarrow> (p, r)))
             else (0, 0));
          connected = (peer_count + router_count > 0);
          was_connected = zi_last_link_connected z;
          z = z\<lparr>zi_last_link_connected := connected\<rparr>;
          z = (if connected \<and> \<not> was_connected then
                 (let z' = z\<lparr>zi_ever_link_connected := True\<rparr>
                  in if zi_ever_link_connected z
                     then z'\<lparr>zi_reconnect_count := zi_reconnect_count z + 1\<rparr> else z')
               else z)
      in (\<lparr>st_session_open = zi_session_open z, st_link_connected = connected,
           st_connected_peer_count = peer_count, st_connected_router_count = router_count,
           st_reconnect_count = zi_reconnect_count z,
           st_receive_decode_errors = zi_receive_decode_errors z,
           st_callback_drops = zi_callback_drops z, st_service_timeouts = zi_service_timeouts z,
           st_service_queue_drops = zi_service_queue_drops z\<rparr>, z))"

definition Presence :: "nat \<Rightarrow> ZenohImpl \<Rightarrow> NodePresence list" where
  "Presence now z =
     map (\<lambda>(hostname, r).
            \<lparr>np_hostname = hostname, np_online = pr_online r,
             np_state_age_ms = of_nat ((now - pr_state_changed_at r) div 1000000),
             np_online_transitions = pr_online_transitions r\<rparr>) (zi_presence z)"

section \<open>Publishing and subscribing\<close>

record PublisherOptions =
  po_congestion_block :: bool
  po_priority :: ZenohPriority
  po_is_express :: bool
  po_reliable :: bool

definition publisher_options :: "QosClass \<Rightarrow> PublisherOptions" where
  "publisher_options qos_class =
     (let policy = GetQosPolicy qos_class
      in \<lparr>po_congestion_block = block_on_congestion policy,
          po_priority = ToZenohPriority qos_class, po_is_express = express policy,
          po_reliable = reliable policy\<rparr>)"

definition DeclarePublisher ::
  "(string \<Rightarrow> PublisherOptions \<Rightarrow> string + unit) \<Rightarrow> string \<Rightarrow> QosClass \<Rightarrow> ZenohImpl \<Rightarrow> string + unit" where
  "DeclarePublisher declare_publisher key qos_class z =
     bindR (Session z) (\<lambda>_. declare_publisher key (publisher_options qos_class))"

text \<open>\<open>put\<close>: the zenoh publisher, \<open>Inl\<close> the exception it throws.\<close>

definition ZenohPublisher_Publish ::
  "(bytes \<Rightarrow> string + unit) \<Rightarrow> TransportEnvelope \<Rightarrow> string + unit" where
  "ZenohPublisher_Publish put envelope =
     (case EncodeEnvelope envelope (Some []) of
        (Inl err, _) \<Rightarrow> Inl err
      | (Inr _, wire) \<Rightarrow> put (the wire))"

text \<open>The sample callback of a subscription on the state of the transport and of the receiver;
  \<open>callback\<close> also says whether it threw.  \<open>None\<close> is a transport that no longer exists.\<close>

definition on_sample ::
  "(TransportEnvelope \<Rightarrow> 'c \<Rightarrow> bool \<times> 'c) \<Rightarrow> bytes \<Rightarrow> ZenohImpl option \<times> 'c \<Rightarrow>
     ZenohImpl option \<times> 'c" where
  "on_sample callback data s =
     (case s of
        (None, c) \<Rightarrow> (None, c)
      | (Some z, c) \<Rightarrow>
          (case DecodeEnvelope (Some data) (Some default_envelope) of
             (Inl _, _) \<Rightarrow>
               (Some (z\<lparr>zi_receive_decode_errors := zi_receive_decode_errors z + 1\<rparr>), c)
           | (Inr _, envelope) \<Rightarrow>
               (let (threw, c) = callback (the envelope) c
                in (Some (if threw then z\<lparr>zi_callback_drops := zi_callback_drops z + 1\<rparr> else z), c))))"

definition Subscribe ::
  "(string \<Rightarrow> string + unit) \<Rightarrow> string \<Rightarrow> ZenohImpl \<Rightarrow> string + unit" where
  "Subscribe declare_subscriber key_expression z =
     bindR (Session z) (\<lambda>_. declare_subscriber key_expression)"

section \<open>Queries\<close>

datatype QueryReply = ReplyOk bytes | ReplyErr string

text \<open>The query callback: an immediate error reply, or the query handed to the executor.  The task
  runs \<open>query_task\<close>; its reply goes out under the key of the queryable.  \<open>None\<close> is a transport that
  no longer exists.\<close>

definition on_query ::
  "string \<Rightarrow> bytes option \<Rightarrow> ZenohImpl option \<Rightarrow> QueryReply option \<times> ZenohImpl option" where
  "on_query key query_payload impl =
     (case impl of
        None \<Rightarrow> (None, None)
      | Some z \<Rightarrow>
     (case query_payload of
        None \<Rightarrow> (Some (ReplyErr ''missing NetBridge request envelope''), Some z)
      | Some data \<Rightarrow>
          (case DecodeEnvelope (Some data) (Some default_envelope) of
             (Inl decode_error, _) \<Rightarrow>
               (Some (ReplyErr decode_error),
                Some (z\<lparr>zi_receive_decode_errors := zi_receive_decode_errors z + 1\<rparr>))
           | (Inr _, request) \<Rightarrow>
               (let (accepted, ex) = TrySubmit (key, the request) (zi_executor z);
                    z = z\<lparr>zi_executor := ex\<rparr>
                in if accepted then (None, Some z)
                   else (Some (ReplyErr ''NetBridge service worker queue is full''),
                         Some (z\<lparr>zi_service_queue_drops := zi_service_queue_drops z + 1\<rparr>))))))"

text \<open>The task of a query: what the handler did, and the reply it leads to.\<close>

datatype HandlerOutcome = Handled TransportEnvelope | Refused string | Threw string

definition query_task :: "(TransportEnvelope \<Rightarrow> HandlerOutcome) \<Rightarrow> TransportEnvelope \<Rightarrow> QueryReply" where
  "query_task handler request =
     (case handler request of
        Refused err \<Rightarrow> ReplyErr (if err = [] then ''service handler rejected request'' else err)
      | Handled response \<Rightarrow>
          (case EncodeEnvelope response (Some []) of
             (Inl err, _) \<Rightarrow> ReplyErr err
           | (Inr _, wire) \<Rightarrow> ReplyOk (the wire))
      | Threw what \<Rightarrow> ReplyErr what)"

definition DeclareQueryable ::
  "(string \<Rightarrow> string + unit) \<Rightarrow> string \<Rightarrow> ZenohImpl \<Rightarrow> string + unit" where
  "DeclareQueryable declare_queryable key z = bindR (Session z) (\<lambda>_. declare_queryable key)"

record QueryState =
  qs_done :: bool
  qs_received :: bool
  qs_response :: TransportEnvelope
  qs_error :: string

definition initial_query_state :: QueryState where
  "initial_query_state =
     \<lparr>qs_done = False, qs_received = False, qs_response = default_envelope, qs_error = []\<rparr>"

definition on_reply :: "QueryReply \<Rightarrow> QueryState \<Rightarrow> QueryState" where
  "on_reply reply state =
     (if qs_received state then state
      else case reply of
             ReplyErr err \<Rightarrow> state\<lparr>qs_error := err, qs_received := True\<rparr>
           | ReplyOk data \<Rightarrow>
               (case DecodeEnvelope (Some data) (Some (qs_response state)) of
                  (Inl err, _) \<Rightarrow> state\<lparr>qs_error := err, qs_received := True\<rparr>
                | (Inr _, response) \<Rightarrow> state\<lparr>qs_response := the response, qs_received := True\<rparr>))"

definition on_done :: "QueryState \<Rightarrow> QueryState" where
  "on_done state = state\<lparr>qs_done := True\<rparr>"

datatype QueryEvent = Reply QueryReply | QueryDone

fun query_events :: "QueryEvent list \<Rightarrow> QueryState \<Rightarrow> QueryState" where
  "query_events [] state = state"
| "query_events (Reply r # events) state = query_events events (on_reply r state)"
| "query_events (QueryDone # events) state = query_events events (on_done state)"

text \<open>\<open>get\<close> is the call that issues the query, \<open>Inl\<close> its exception; \<open>events\<close> are the callbacks
  that ran before the wait ended (by \<open>received\<close>, by \<open>done\<close> or by the local timeout, 250 ms after
  zenoh's own).  The result is the error text or the response; \<open>has_response\<close> says whether the
  caller's output pointer is set.\<close>

definition Query ::
  "(bytes \<Rightarrow> string + unit) \<Rightarrow> QueryEvent list \<Rightarrow> TransportEnvelope \<Rightarrow> bool \<Rightarrow> ZenohImpl \<Rightarrow>
     (string + TransportEnvelope) \<times> ZenohImpl" where
  "Query get events request has_response z =
     (let timed_out = (Inl ''Zenoh service query timed out'',
                       z\<lparr>zi_service_timeouts := zi_service_timeouts z + 1\<rparr>)
      in if \<not> has_response then (Inl ''response is null'', z)
         else case EncodeEnvelope request (Some []) of
           (Inl err, _) \<Rightarrow> (Inl err, z)
         | (Inr _, wire) \<Rightarrow>
             (case bindR (Session z) (\<lambda>_. get (the wire)) of
                Inl what \<Rightarrow> (Inl what, z)
              | Inr _ \<Rightarrow>
                  (let state = query_events events initial_query_state
                   in if \<not> qs_received state then timed_out
                      else if qs_error state \<noteq> [] then
                        (if IsTimeoutError (qs_error state) then timed_out
                         else (Inl (qs_error state), z))
                      else (Inr (qs_response state), z))))"

end
