(* ===== verification/Zenoh_Properties.thy ===== *)
theory Zenoh_Properties
  imports Zenoh_Transport
begin

text \<open>
  What the transport guarantees: the JSON text it hands to zenoh reads back as the configured
  strings, the executor runs every accepted query once and in order, presence and reconnect
  counters count edges, and the first reply decides a query.
\<close>

section \<open>JSON strings\<close>

text \<open>A reader of JSON strings with the escapes that the writer uses.\<close>

fun read_json_chars :: "string \<Rightarrow> (string \<times> string) option" where
  "read_json_chars [] = None"
| "read_json_chars (c # s) =
     (if c = json_quote then Some ([], s)
      else if c = json_escape then
        (case s of [] \<Rightarrow> None
         | d # s' \<Rightarrow> map_option (\<lambda>(v, r). (d # v, r)) (read_json_chars s'))
      else map_option (\<lambda>(v, r). (c # v, r)) (read_json_chars s))"

fun read_json_string :: "string \<Rightarrow> (string \<times> string) option" where
  "read_json_string [] = None"
| "read_json_string (c # s) = (if c = json_quote then read_json_chars s else None)"

text \<open>The elements after the opening bracket; \<open>n\<close> bounds their number.\<close>

fun read_json_elements :: "nat \<Rightarrow> string \<Rightarrow> (string list \<times> string) option" where
  "read_json_elements 0 s = None"
| "read_json_elements (Suc n) s =
     do { (v, r) \<leftarrow> read_json_string s;
          if take 1 r = '']'' then Some ([v], drop 1 r)
          else if take 1 r = '','' then
            do { (vs, r) \<leftarrow> read_json_elements n (drop 1 r); Some (v # vs, r) }
          else None }"

definition read_json_array :: "string \<Rightarrow> string list option" where
  "read_json_array s =
     (if s = ''[]'' then Some []
      else if take 1 s = ''['' then
        (case read_json_elements (length s) (drop 1 s) of
           Some (vs, []) \<Rightarrow> Some vs | _ \<Rightarrow> None)
      else None)"

lemma json_escape_quote [simp]: "json_escape \<noteq> json_quote" "json_quote \<noteq> json_escape"
  by (simp_all add: json_escape_def json_quote_def)

lemma read_json_chars: "read_json_chars (json_chars v @ json_quote # r) = Some (v, r)"
  by (induction v) auto

lemma read_json_string: "read_json_string (JsonString v @ r) = Some (v, r)"
  using read_json_chars [of v r] by (simp add: JsonString_def)

lemma read_json_elements:
  "length vs < n \<Longrightarrow>
    read_json_elements n (JsonString v @ json_elements False vs @ '']'' @ r) = Some (v # vs, r)"
proof (induction vs arbitrary: n v)
  case Nil
  then show ?case by (cases n) (simp_all add: read_json_string)
next
  case (Cons w vs)
  then obtain n' where n: "n = Suc n'" by (cases n) auto
  show ?case using Cons.IH [of n' w] Cons.prems n by (simp add: read_json_string)
qed

lemma json_elements_length: "length vs \<le> length (json_elements first vs)"
  by (induction first vs rule: json_elements.induct) (auto simp: JsonString_def)

text \<open>A JSON array written for zenoh reads back as the configured list, whatever quotes,
  backslashes or commas the strings contain: no configured endpoint can change the structure of
  the zenoh configuration.\<close>

theorem json_array_roundtrip: "read_json_array (JsonArray strs) = Some strs"
proof (cases strs)
  case Nil
  then show ?thesis by (simp add: JsonArray_def read_json_array_def)
next
  case (Cons v vs)
  have "JsonArray strs = ''['' @ JsonString v @ json_elements False vs @ '']''"
    by (simp add: JsonArray_def Cons)
  moreover have "length vs < length (JsonArray strs)"
    using json_elements_length [of vs False] by (simp add: JsonArray_def Cons)
  ultimately show ?thesis
    using read_json_elements [of vs "length (JsonArray strs)" v "[]"] Cons
    by (simp add: read_json_array_def JsonString_def)
qed

section \<open>The executor\<close>

text \<open>\<open>submit_queue\<close> is the queue of the executor as a buffer that refuses when full.\<close>

definition submit_queue :: "nat \<Rightarrow> 'task \<Rightarrow> 'task list \<Rightarrow> BoundedQueuePushResult \<times> 'task list" where
  "submit_queue capacity task q =
     (if max 1 capacity \<le> length q then (kRejected, q) else (kEnqueued, q @ [task]))"

interpretation executor_queue: refusing_buffer "submit_queue capacity" "max 1 capacity" for capacity
  by unfold_locales (auto simp: submit_queue_def)

lemma TrySubmit_queue:
  "\<not> ex_stopping ex \<Longrightarrow> 0 < ex_capacity ex \<Longrightarrow>
    TrySubmit task ex =
      (fst (submit_queue (ex_capacity ex) task (ex_tasks ex)) = kEnqueued,
       ex\<lparr>ex_tasks := snd (submit_queue (ex_capacity ex) task (ex_tasks ex))\<rparr>)"
  by (simp add: TrySubmit_def submit_queue_def max_def)

text \<open>The executor with its worker threads: \<open>alive\<close> counts those that have not left, \<open>accepted\<close> and
  \<open>started\<close> record the tasks taken in and the tasks a worker began, in order, \<open>submitted\<close> and
  \<open>refused\<close> count the calls of \<open>TrySubmit\<close> and those that returned false.  \<open>stop\<close> is the critical
  section at the start of \<^verbatim>\<open>Stop\<close>, which then joins the workers while they take their steps.\<close>

record 'task pool =
  pool_ex :: "'task BoundedExecutor"
  pool_alive :: nat
  pool_accepted :: "'task list"
  pool_started :: "'task list"
  pool_submitted :: nat
  pool_refused :: nat

definition pool_start :: "nat \<Rightarrow> nat \<Rightarrow> 'task pool" where
  "pool_start threads capacity =
     (let ex = BoundedExecutor_create threads capacity
      in \<lparr>pool_ex = ex, pool_alive = ex_workers ex, pool_accepted = [], pool_started = [],
          pool_submitted = 0, pool_refused = 0\<rparr>)"

inductive worker_step :: "'task pool \<Rightarrow> 'task pool \<Rightarrow> bool" where
  take: "0 < pool_alive p \<Longrightarrow> executor_Run (pool_ex p) = RunTask task ex \<Longrightarrow>
     worker_step p (p\<lparr>pool_ex := ex, pool_started := pool_started p @ [task]\<rparr>)"
| leave: "0 < pool_alive p \<Longrightarrow> executor_Run (pool_ex p) = RunExit \<Longrightarrow>
     worker_step p (p\<lparr>pool_alive := pool_alive p - 1\<rparr>)"

definition begin_stop :: "'task pool \<Rightarrow> 'task pool" where
  "begin_stop p = p\<lparr>pool_ex := (pool_ex p)\<lparr>ex_stopping := True\<rparr>\<rparr>"

inductive pool_step :: "'task pool \<Rightarrow> 'task pool \<Rightarrow> bool" where
  work: "worker_step p p' \<Longrightarrow> pool_step p p'"
| submit: "TrySubmit task (pool_ex p) = (ok, ex) \<Longrightarrow>
     pool_step p (p\<lparr>pool_ex := ex, pool_accepted := pool_accepted p @ (if ok then [task] else []),
       pool_submitted := Suc (pool_submitted p),
       pool_refused := pool_refused p + (if ok then 0 else 1)\<rparr>)"
| stop: "pool_step p (begin_stop p)"

inductive_cases worker_stepE: "worker_step p p'"
inductive_cases pool_stepE: "pool_step p p'"

definition pool_inv :: "nat \<Rightarrow> 'task pool \<Rightarrow> bool" where
  "pool_inv capacity p \<longleftrightarrow>
     ex_capacity (pool_ex p) = max 1 capacity \<and>
     length (ex_tasks (pool_ex p)) \<le> max 1 capacity \<and>
     pool_started p @ ex_tasks (pool_ex p) = pool_accepted p \<and>
     (pool_alive p < ex_workers (pool_ex p) \<longrightarrow> ex_stopping (pool_ex p) \<and> ex_tasks (pool_ex p) = []) \<and>
     0 < ex_workers (pool_ex p) \<and>
     pool_submitted p = length (pool_accepted p) + pool_refused p"

lemma executor_Run_iff:
  "executor_Run ex = RunTask task ex' \<longleftrightarrow>
     (\<exists>tasks. ex_tasks ex = task # tasks \<and> ex' = ex\<lparr>ex_tasks := tasks\<rparr>)"
  "executor_Run ex = RunExit \<longleftrightarrow> ex_stopping ex \<and> ex_tasks ex = []"
  by (cases "ex_tasks ex"; auto simp: executor_Run_def)+

lemma pool_inv_start: "pool_inv capacity (pool_start threads capacity)"
  by (simp add: pool_inv_def pool_start_def BoundedExecutor_create_def Let_def)

lemma pool_inv_worker: "worker_step p p' \<Longrightarrow> pool_inv capacity p \<Longrightarrow> pool_inv capacity p'"
  by (erule worker_stepE) (auto simp: pool_inv_def executor_Run_iff)

lemma pool_inv_step:
  assumes "pool_step p p'" and "pool_inv capacity p"
  shows "pool_inv capacity p'"
  using assms(1)
proof (cases rule: pool_step.cases)
  case work
  then show ?thesis using assms(2) by (rule pool_inv_worker)
next
  case (submit task ok ex)
  then show ?thesis using assms(2)
    by (auto simp: pool_inv_def TrySubmit_def split: if_splits)
next
  case stop
  then show ?thesis using assms(2) by (auto simp: pool_inv_def begin_stop_def)
qed

lemma pool_inv_run: "pool_step\<^sup>*\<^sup>* p p' \<Longrightarrow> pool_inv capacity p \<Longrightarrow> pool_inv capacity p'"
  by (induction rule: rtranclp_induct) (auto intro: pool_inv_step)

lemma stopping_accepts_nothing:
  assumes "pool_step\<^sup>*\<^sup>* p p'" and "ex_stopping (pool_ex p)"
  shows "ex_stopping (pool_ex p') \<and> pool_accepted p' = pool_accepted p"
  using assms
proof (induction rule: rtranclp_induct)
  case (step q r)
  then have q: "ex_stopping (pool_ex q)" "pool_accepted q = pool_accepted p" by simp_all
  from step.hyps(2) show ?case
    by (cases rule: pool_step.cases)
      (use q in \<open>auto simp: TrySubmit_def begin_stop_def executor_Run_iff elim!: worker_stepE\<close>)
qed simp

text \<open>C33: Whatever the interleaving of submissions, workers and stopping, the executor never holds
  more than its capacity; the tasks begun and the tasks queued are exactly the accepted ones in
  their order (each runs at most once); of the submitted tasks exactly the accepted ones and the
  counted refusals are accounted for, and a task is refused exactly while the executor stops or is
  full; when all workers have left, every accepted task has been begun; and stopping it, whatever
  happens until the workers have left, begins exactly the tasks that \<open>executor_Stop\<close> says and leaves
  none.\<close>

theorem executor_exactly_once:
  assumes "pool_step\<^sup>*\<^sup>* (pool_start threads capacity) p"
  shows "length (ex_tasks (pool_ex p)) \<le> max 1 capacity \<and>
    pool_started p @ ex_tasks (pool_ex p) = pool_accepted p \<and>
    pool_submitted p = length (pool_accepted p) + pool_refused p \<and>
    (\<forall>task. fst (TrySubmit task (pool_ex p)) =
       (\<not> ex_stopping (pool_ex p) \<and> length (ex_tasks (pool_ex p)) < max 1 capacity)) \<and>
    (pool_alive p = 0 \<longrightarrow> pool_started p = pool_accepted p) \<and>
    (\<forall>p'. \<not> ex_stopping (pool_ex p) \<and> pool_step\<^sup>*\<^sup>* (begin_stop p) p' \<and> pool_alive p' = 0 \<longrightarrow>
       pool_started p' = pool_started p @ fst (executor_Stop (pool_ex p)) \<and>
       ex_tasks (pool_ex p') = ex_tasks (snd (executor_Stop (pool_ex p))))"
proof -
  have inv: "pool_inv capacity p" by (rule pool_inv_run [OF assms pool_inv_start])
  have "pool_started p' = pool_started p @ ex_tasks (pool_ex p) \<and> ex_tasks (pool_ex p') = []"
    if r: "pool_step\<^sup>*\<^sup>* (begin_stop p) p'" and gone: "pool_alive p' = 0" for p'
  proof -
    have "pool_inv capacity p'"
      using pool_inv_run [OF r pool_inv_step [OF pool_step.stop inv]] .
    moreover have "pool_accepted p' = pool_accepted p"
      using stopping_accepts_nothing [OF r] by (simp add: begin_stop_def)
    ultimately show ?thesis using inv gone by (auto simp: pool_inv_def)
  qed
  then show ?thesis using inv by (auto simp: pool_inv_def TrySubmit_def executor_Stop_def)
qed

text \<open>Stopping terminates: once the stop flag is set, a worker that has not left always has a
  step, and each worker step lowers the number of queued tasks plus remaining workers, so the
  workers are gone after that many steps.\<close>

theorem executor_stop_terminates:
  assumes "ex_stopping (pool_ex p) \<and> 0 < pool_alive p"
  shows "(\<exists>p'. worker_step p p') \<and>
    (\<forall>p'. worker_step p p' \<longrightarrow> ex_stopping (pool_ex p') \<and>
       length (ex_tasks (pool_ex p')) + pool_alive p' + 1 = length (ex_tasks (pool_ex p)) + pool_alive p)"
proof
  show "\<exists>p'. worker_step p p'"
  proof (cases "ex_tasks (pool_ex p)")
    case Nil
    then show ?thesis using assms worker_step.leave [of p] by (auto simp: executor_Run_iff)
  next
    case (Cons task tasks)
    then show ?thesis
      using assms worker_step.take [of p task "(pool_ex p)\<lparr>ex_tasks := tasks\<rparr>"]
      by (auto simp: executor_Run_iff)
  qed
  show "\<forall>p'. worker_step p p' \<longrightarrow> ex_stopping (pool_ex p') \<and>
      length (ex_tasks (pool_ex p')) + pool_alive p' + 1 = length (ex_tasks (pool_ex p)) + pool_alive p"
    using assms by (auto elim!: worker_stepE simp: executor_Run_iff)
qed

lemma executor_exactly_once_witness:
  "\<exists>p. pool_step\<^sup>*\<^sup>* (pool_start 2 1) p \<and> pool_accepted p = [7 :: nat] \<and>
     ex_tasks (pool_ex p) = [] \<and> pool_started p = [7]"
proof -
  let ?p0 = "pool_start 2 1 :: nat pool"
  let ?p1 = "?p0\<lparr>pool_ex := (pool_ex ?p0)\<lparr>ex_tasks := [7]\<rparr>, pool_accepted := [7], pool_submitted := 1\<rparr>"
  let ?p2 = "?p1\<lparr>pool_ex := (pool_ex ?p1)\<lparr>ex_tasks := []\<rparr>, pool_started := [7]\<rparr>"
  note defs = pool_start_def BoundedExecutor_create_def Let_def
  have "pool_step ?p0 ?p1"
    using pool_step.submit [of 7 ?p0 True "(pool_ex ?p0)\<lparr>ex_tasks := [7]\<rparr>"]
    by (simp add: TrySubmit_def defs)
  moreover have "worker_step ?p1 ?p2"
    using worker_step.take [of ?p1 7 "(pool_ex ?p1)\<lparr>ex_tasks := []\<rparr>"]
    by (simp add: executor_Run_iff defs)
  ultimately have run: "pool_step\<^sup>*\<^sup>* ?p0 ?p2"
    by (meson pool_step.work rtranclp.rtrancl_into_rtrancl rtranclp.rtrancl_refl)
  have "pool_started ?p2 @ ex_tasks (pool_ex ?p2) = pool_accepted ?p2"
    using executor_exactly_once [OF run] by blast
  then show ?thesis using run by (intro exI [of _ ?p2]) (simp add: defs)
qed

lemma executor_stop_terminates_witness:
  "\<exists>p'. worker_step ((pool_start 2 1)\<lparr>pool_ex :=
      (pool_ex (pool_start 2 1 :: nat pool))\<lparr>ex_stopping := True\<rparr>\<rparr>) p'"
  using executor_stop_terminates
    [of "(pool_start 2 1)\<lparr>pool_ex := (pool_ex (pool_start 2 1 :: nat pool))\<lparr>ex_stopping := True\<rparr>\<rparr>"]
  by (simp add: pool_start_def BoundedExecutor_create_def Let_def)

section \<open>Edges\<close>

text \<open>The number of changes from off to on, given the state before.\<close>

fun rising :: "bool \<Rightarrow> bool list \<Rightarrow> nat" where
  "rising prev [] = 0"
| "rising prev (b # bs) = (if b \<and> \<not> prev then 1 else 0) + rising b bs"

lemma rising_snoc:
  "rising prev (bs @ [b]) = rising prev bs + (if b \<and> \<not> (if bs = [] then prev else last bs) then 1 else 0)"
  by (induction bs arbitrary: prev) auto

text \<open>The presence map after a run of updates, each with its time, host and state.\<close>

definition presence_run :: "(nat \<times> string \<times> bool) list \<Rightarrow> PresenceRecord smap" where
  "presence_run us = foldl (\<lambda>m (now, hostname, online). UpdatePresence now hostname online m) [] us"

definition updates_of :: "string \<Rightarrow> (nat \<times> string \<times> bool) list \<Rightarrow> bool list" where
  "updates_of hostname us = map (snd \<circ> snd) (filter (\<lambda>u. fst (snd u) = hostname) us)"

lemma map_ok_UpdatePresence: "map_ok m \<Longrightarrow> map_ok (UpdatePresence now h b m)"
  by (auto simp: UpdatePresence_def map_ok_mset_at split: option.split)

text \<open>After any sequence of liveliness updates, a host is known exactly when it was updated;
  it is online according to its last update, and its transition count is the number of times it
  went from offline (or unknown) to online.\<close>

theorem presence_history:
  "map_ok (presence_run us) \<and>
   map_option (\<lambda>r. (pr_online r, pr_online_transitions r)) (mfind (presence_run us) hostname) =
     (let bs = updates_of hostname us
      in if bs = [] then None else Some (last bs, of_nat (rising False bs)))"
proof (induction us rule: rev_induct)
  case Nil
  then show ?case by (simp add: presence_run_def updates_of_def map_ok_def)
next
  case (snoc u us)
  obtain now h b where u: "u = (now, h, b)" by (cases u) auto
  have run: "presence_run (us @ [u]) = UpdatePresence now h b (presence_run us)"
    by (simp add: presence_run_def u)
  have ups: "updates_of hostname (us @ [u]) = updates_of hostname us @ (if h = hostname then [b] else [])"
    by (simp add: updates_of_def u)
  show ?case
    unfolding run ups using snoc.IH map_ok_UpdatePresence [of "presence_run us" now h b]
    by (auto simp: UpdatePresence_def mfind_mset_at rising_snoc Let_def
        split: option.splits if_splits)
qed

text \<open>Polling the statistics repeatedly.\<close>

fun polls :: "(u64 option \<times> u64 option) list \<Rightarrow> ZenohImpl \<Rightarrow> TransportStats list \<times> ZenohImpl" where
  "polls [] z = ([], z)"
| "polls ((peers, routers) # ps) z =
     (let (st, z1) = Stats peers routers z; (sts, z2) = polls ps z1 in (st # sts, z2))"

lemma Stats_edge:
  assumes "Stats peers routers z = (st, z')"
  shows "zi_last_link_connected z' = st_link_connected st \<and>
    zi_ever_link_connected z' = (zi_ever_link_connected z \<or>
      st_link_connected st \<and> \<not> zi_last_link_connected z) \<and>
    zi_reconnect_count z' = zi_reconnect_count z +
      (if st_link_connected st \<and> \<not> zi_last_link_connected z \<and> zi_ever_link_connected z then 1 else 0) \<and>
    st_reconnect_count st = zi_reconnect_count z'"
  using assms by (auto simp: Stats_def Let_def split: prod.splits if_splits)

lemma polls_reconnects:
  "polls ps z = (sts, z') \<Longrightarrow> (zi_last_link_connected z \<longrightarrow> zi_ever_link_connected z) \<Longrightarrow>
    zi_reconnect_count z' = zi_reconnect_count z +
      of_nat (rising (zi_last_link_connected z) (map st_link_connected sts) -
        (if zi_ever_link_connected z then 0 else 1))"
proof (induction ps arbitrary: z sts)
  case (Cons p ps)
  obtain peers routers st z1 sts' where s: "p = (peers, routers)" "Stats peers routers z = (st, z1)"
    "polls ps z1 = (sts', z')" "sts = st # sts'"
    using Cons.prems(1) by (cases p) (auto simp: Let_def split: prod.splits)
  show ?case
    using Cons.IH [OF s(3)] Cons.prems(2) Stats_edge [OF s(2)] s(4)
    by (cases "st_link_connected st"; cases "zi_last_link_connected z";
        cases "zi_ever_link_connected z") auto
qed simp

lemma polls_empty: "polls ps z = ([], z') \<Longrightarrow> z' = z"
  by (cases ps) (auto simp: Let_def split: prod.splits)

text \<open>The reconnect counter reported by the statistics is the number of times the link came
  up again after having been up before: all rising edges of the observed link state but the
  first.\<close>

theorem reconnect_count_edges:
  assumes "Impl_create True True True now config hostname = Inr z" and "polls ps z = (sts, z')"
  shows "zi_reconnect_count z' = of_nat (rising False (map st_link_connected sts) - 1) \<and>
    (sts \<noteq> [] \<longrightarrow> st_reconnect_count (last sts) = zi_reconnect_count z')"
proof
  have z: "\<not> zi_last_link_connected z" "\<not> zi_ever_link_connected z" "zi_reconnect_count z = 0"
    using assms(1) by (auto simp: Impl_create_def Let_def split: if_splits)
  show "zi_reconnect_count z' = of_nat (rising False (map st_link_connected sts) - 1)"
    using polls_reconnects [OF assms(2)] z by simp
  show "sts \<noteq> [] \<longrightarrow> st_reconnect_count (last sts) = zi_reconnect_count z'"
    using assms(2)
  proof (induction ps arbitrary: z sts)
    case (Cons p ps)
    obtain peers routers st z1 sts' where s: "p = (peers, routers)" "Stats peers routers z = (st, z1)"
      "polls ps z1 = (sts', z')" "sts = st # sts'"
      using Cons.prems(1) by (cases p) (auto simp: Let_def split: prod.splits)
    have "st_reconnect_count st = zi_reconnect_count z1" using Stats_edge [OF s(2)] by blast
    then show ?case using Cons.IH [OF s(3)] polls_empty [of ps z1 z'] s(3,4) by (cases sts') auto
  qed simp
qed

lemma Stats_session:
  "zi_session_open (snd (Stats p r z)) = zi_session_open z" "zi_session (snd (Stats p r z)) = zi_session z"
  by (auto simp: Stats_def Let_def split: prod.split)

lemma Stats_connected:
  "zi_session_open z \<Longrightarrow> zi_session z \<Longrightarrow>
    st_link_connected (fst (Stats (Some p) (Some r) z)) = (0 < p + r)"
  "\<not> st_link_connected (fst (Stats None None z))"
  by (auto simp: Stats_def Let_def)

lemma reconnect_count_edges_witness:
  "\<exists>z z' sts. Impl_create True True True 0 default_zenoh_config ''a'' = Inr z \<and>
     polls [(Some 1, Some 0), (None, None), (Some 0, Some 2)] z = (sts, z') \<and>
     map st_link_connected sts = [True, False, True] \<and> zi_reconnect_count z' = 1"
proof -
  obtain z where z: "Impl_create True True True 0 default_zenoh_config ''a'' = Inr z"
    "zi_session_open z" "zi_session z"
    by (simp add: Impl_create_def Let_def default_zenoh_config_def)
  obtain sts z' where p: "polls [(Some 1, Some 0), (None, None), (Some 0, Some 2)] z = (sts, z')"
    by (rule prod.exhaust)
  have c: "map st_link_connected sts = [True, False, True]"
    using p z(2,3) by (auto simp: case_prod_beta Let_def Stats_session Stats_connected)
  show ?thesis using z p c reconnect_count_edges [OF z(1) p] by auto
qed

section \<open>Queries\<close>

fun first_reply :: "QueryEvent list \<Rightarrow> QueryReply option" where
  "first_reply [] = None"
| "first_reply (Reply r # events) = Some r"
| "first_reply (QueryDone # events) = first_reply events"

lemma DecodeEnvelope_errors:
  "DecodeEnvelope (Some data) (Some old) = (Inl err, out) \<Longrightarrow>
     err \<in> {''invalid envelope magic'', ''truncated envelope header'',
       ''unsupported envelope protocol version'', ''invalid envelope payload kind'',
       ''truncated envelope metadata'', ''invalid or truncated envelope payload''}"
  by (auto simp: DecodeEnvelope_def split: if_splits option.splits prod.splits)

lemma decode_error_plain:
  assumes "DecodeEnvelope (Some data) (Some old) = (Inl err, out)"
  shows "err \<noteq> [] \<and> \<not> IsTimeoutError err"
  using DecodeEnvelope_errors [OF assms]
  by (elim insertE emptyE) (simp_all add: IsTimeoutError_def to_lower_def starts_with_def)

text \<open>The state a reply leaves in a fresh query.\<close>

definition answered :: "QueryReply \<Rightarrow> QueryState \<Rightarrow> bool" where
  "answered r s \<longleftrightarrow> qs_received s \<and>
     (case r of
        ReplyErr err \<Rightarrow> qs_error s = err \<and> qs_response s = default_envelope
      | ReplyOk data \<Rightarrow>
          (case decode_wire data of
             Inl err \<Rightarrow> qs_error s = err \<and> err \<noteq> [] \<and> \<not> IsTimeoutError err
           | Inr e \<Rightarrow> qs_error s = [] \<and> qs_response s = e))"

lemma DecodeEnvelope_success_Some:
  "DecodeEnvelope (Some data) (Some old) = (Inr u, out) \<Longrightarrow> out \<noteq> None"
  by (auto simp: DecodeEnvelope_def split: if_splits option.splits prod.splits)

lemma answered_on_reply:
  assumes "\<not> qs_received s" "qs_response s = default_envelope" "qs_error s = []"
  shows "answered r (on_reply r s)"
proof (cases r)
  case (ReplyOk data)
  obtain res out where d: "DecodeEnvelope (Some data) (Some default_envelope) = (res, out)"
    by (rule prod.exhaust)
  show ?thesis
  proof (cases res)
    case (Inl err)
    then show ?thesis using d assms ReplyOk decode_error_plain [of data default_envelope err out]
      by (simp add: answered_def on_reply_def decode_wire_def)
  next
    case (Inr u)
    then obtain e where "out = Some e" using DecodeEnvelope_success_Some [of data default_envelope u out] d
      by auto
    then show ?thesis using d assms ReplyOk Inr
      by (simp add: answered_def on_reply_def decode_wire_def)
  qed
qed (simp add: answered_def on_reply_def assms)

lemma answered_stays: "answered r s \<Longrightarrow> answered r (query_events events s)"
proof (induction events s rule: query_events.induct)
  case (2 r' events s)
  have "on_reply r' s = s" using 2 by (simp add: answered_def on_reply_def)
  then show ?case using 2 by simp
next
  case (3 events s)
  have "answered r (on_done s)" using 3 by (simp add: answered_def on_done_def split: QueryReply.splits sum.splits)
  then show ?case using 3 by simp
qed simp

lemma query_events_first:
  "\<not> qs_received s \<Longrightarrow> qs_response s = default_envelope \<Longrightarrow> qs_error s = [] \<Longrightarrow>
    (case first_reply events of
       None \<Rightarrow> \<not> qs_received (query_events events s)
     | Some r \<Rightarrow> answered r (query_events events s))"
proof (induction events s rule: query_events.induct)
  case (2 r events s)
  then show ?case using answered_stays [OF answered_on_reply] by simp
next
  case (3 events s)
  then show ?case by (cases "first_reply events") (simp_all add: on_done_def)
qed simp

text \<open>C34: The first reply alone decides a query, whatever arrives later and whenever \<open>done\<close> comes:
  no reply is a timeout; a reply that decodes is the response; one that does not is its decoding
  error; an error reply that mentions a timeout is a timeout; any other error reply is returned as
  it is, except the empty one, which is taken for success with an empty response.  Timeouts are
  counted exactly.\<close>

theorem query_outcome:
  assumes "EncodeEnvelope request (Some []) = (Inr (), Some wire)"
    and "Session z = Inr () \<and> get wire = Inr ()"
  shows "Query get events request True z =
    (let timed_out = (Inl ''Zenoh service query timed out'',
                      z\<lparr>zi_service_timeouts := zi_service_timeouts z + 1\<rparr>)
     in case first_reply events of
          None \<Rightarrow> timed_out
        | Some (ReplyOk data) \<Rightarrow> (decode_wire data, z)
        | Some (ReplyErr err) \<Rightarrow>
            if err = [] then (Inr default_envelope, z)
            else if IsTimeoutError err then timed_out else (Inl err, z))"
proof -
  have start: "\<not> qs_received initial_query_state" "qs_response initial_query_state = default_envelope"
    "qs_error initial_query_state = []"
    by (simp_all add: initial_query_state_def)
  note first = query_events_first [OF start, of events]
  show ?thesis
  proof (cases "first_reply events")
    case None
    then show ?thesis using first assms by (simp add: Query_def Let_def)
  next
    case (Some r)
    then have a: "answered r (query_events events initial_query_state)" using first by simp
    show ?thesis
    proof (cases r)
      case (ReplyErr err)
      then show ?thesis using a Some assms by (simp add: Query_def Let_def answered_def)
    next
      case (ReplyOk data)
      then show ?thesis using a Some assms
        by (cases "decode_wire data") (simp_all add: Query_def Let_def answered_def)
    qed
  qed
qed

lemma query_outcome_witness:
  "\<exists>z. Impl_create True True True 0 default_zenoh_config ''a'' = Inr z \<and>
     Query (\<lambda>_. Inr ()) [QueryDone, Reply (ReplyErr ''Timeout''), Reply (ReplyErr ''late'')]
       sample_envelope True z =
     (Inl ''Zenoh service query timed out'', z\<lparr>zi_service_timeouts := zi_service_timeouts z + 1\<rparr>)"
proof -
  obtain z where z: "Impl_create True True True 0 default_zenoh_config ''a'' = Inr z"
    "Session z = Inr ()"
    by (simp add: Impl_create_def Session_def Let_def default_zenoh_config_def)
  have t: "IsTimeoutError ''Timeout''"
    by (simp add: IsTimeoutError_def to_lower_def starts_with_def char_of_def bit_Suc_0_iff)
  show ?thesis
    using z query_outcome [OF EncodeEnvelope_sample, of z "\<lambda>_. Inr ()"] t by (auto simp: Let_def)
qed

end
