(* ===== verification/Service_Factory.thy ===== *)
theory Service_Factory
  imports Zenoh_Transport
begin

text \<open>
  \<^verbatim>\<open>ServiceFactory\<close> of \<^verbatim>\<open>src/service_factory.cpp\<close>: one end of a bridged ROS service.  The client
  end advertises a proxy whose calls become queries of the transport; the server end answers
  queries by calling the local ROS service.  What ROS does is the record \<open>SrvLib\<close>: the checksums,
  the name check, the local call (\<open>Inl\<close> an exception) and the serialisation of its result.
\<close>

definition srvs_types :: "string list" where
  "srvs_types = [''std_srvs/Empty'', ''swarm_ros_bridge/AddTwoInts'']"

record ServiceConfig =
  sc_service_name :: string
  sc_service_prefix_name :: string
  sc_service_type :: string
  sc_server_hostname :: string
  sc_my_hostname :: string
  sc_client_hostnames :: "bool smap"
  sc_timeout_ms :: u64
  sc_if_prefix :: bool

definition default_service_config :: ServiceConfig where
  "default_service_config =
     \<lparr>sc_service_name = [], sc_service_prefix_name = [], sc_service_type = [],
      sc_server_hostname = [], sc_my_hostname = [], sc_client_hostnames = [],
      sc_timeout_ms = 1000, sc_if_prefix = False\<rparr>"

record SrvLib =
  srv_md5 :: "string \<Rightarrow> string"
  valid_name :: "string \<Rightarrow> bool"
  client_valid :: "string \<Rightarrow> bool"
  ros_call :: "string \<Rightarrow> bytes \<Rightarrow> string + (bool \<times> bytes)"
  serialize_response :: "bool \<Rightarrow> bytes \<Rightarrow> bytes"

definition typeExists :: "string \<Rightarrow> bool" where
  "typeExists type_in \<longleftrightarrow> type_in \<in> set srvs_types"

definition getServiceMsgMd5 :: "SrvLib \<Rightarrow> string \<Rightarrow> string" where
  "getServiceMsgMd5 lib type_in = (if valid_name lib type_in then srv_md5 lib type_in else [])"

definition getServiceMd5 :: "SrvLib \<Rightarrow> string \<Rightarrow> string" where
  "getServiceMd5 lib type_in =
     (if type_in \<in> set srvs_types then getServiceMsgMd5 lib type_in else [])"

datatype ClientOrServer = CLIENT | SERVER

record ServiceFactory =
  sf_role :: ClientOrServer
  sf_config :: ServiceConfig
  sf_advertised :: "string option"
  sf_queryable :: "string option"
  sf_sequence :: u64
  sf_timeout_count :: u64

definition ServiceFactory_create ::
  "(string \<Rightarrow> string + unit) \<Rightarrow> ClientOrServer \<Rightarrow> ServiceConfig \<Rightarrow> bool \<Rightarrow> string + ServiceFactory" where
  "ServiceFactory_create declare_queryable role config has_transport =
     (if \<not> has_transport then Inl ''ServiceFactory requires a shared bridge transport''
      else if \<not> typeExists (sc_service_type config) then
        Inl (''Invalid ROS service type: '' @ sc_service_type config)
      else
        let sf = \<lparr>sf_role = role, sf_config = config, sf_advertised = None, sf_queryable = None,
                  sf_sequence = 0, sf_timeout_count = 0\<rparr>
        in if role = CLIENT then Inr (sf\<lparr>sf_advertised := Some (sc_service_prefix_name config)\<rparr>)
           else
             let key = ServiceKey (sc_server_hostname config) (sc_service_name config)
             in bindR (declare_queryable key) (\<lambda>_. Inr (sf\<lparr>sf_queryable := Some key\<rparr>)))"

section \<open>The client end\<close>

definition call_request ::
  "SrvLib \<Rightarrow> ros_time \<Rightarrow> bytes \<Rightarrow> ServiceFactory \<Rightarrow> TransportEnvelope" where
  "call_request lib now data sf =
     default_envelope
       \<lparr>payload_kind := kServiceRequest, sequence := sf_sequence sf + 1,
        source_time_ns := of_nat now, source_host := sc_my_hostname (sf_config sf),
        ros_type := sc_service_type (sf_config sf),
        ros_md5 := getServiceMd5 lib (sc_service_type (sf_config sf)), payload := data\<rparr>"

text \<open>\<open>query key request timeout\<close> is the transport; the result is the response of the proxy call,
  \<open>None\<close> when the call fails.\<close>

definition service_call ::
  "SrvLib \<Rightarrow> (string \<Rightarrow> TransportEnvelope \<Rightarrow> u64 \<Rightarrow> string + TransportEnvelope) \<Rightarrow> ros_time \<Rightarrow> string \<Rightarrow>
     bytes \<Rightarrow> ServiceFactory \<Rightarrow> bytes option \<times> ServiceFactory" where
  "service_call lib query now service_name data sf =
     (let config = sf_config sf;
          request = call_request lib now data sf;
          sf = sf\<lparr>sf_sequence := sf_sequence sf + 1\<rparr>;
          key = ServiceKey (sc_server_hostname config) service_name
      in case query key request (sc_timeout_ms config) of
           Inl err \<Rightarrow>
             (None, if contains_str ''timed out'' err
                    then sf\<lparr>sf_timeout_count := sf_timeout_count sf + 1\<rparr> else sf)
         | Inr response \<Rightarrow>
             if payload_kind response \<noteq> kServiceResponse \<or>
                ValidateEnvelopeMetadata response (sc_service_type config)
                  (getServiceMd5 lib (sc_service_type config)) \<noteq> Inr ()
             then (None, sf)
             else (Some (payload response), sf))"

section \<open>The server end\<close>

text \<open>\<open>Refused\<close> is the result \<^verbatim>\<open>false\<close> with its error text; exceptions of ROS end there too.\<close>

definition handleRemoteRequest ::
  "SrvLib \<Rightarrow> ServiceConfig \<Rightarrow> ros_time \<Rightarrow> bool \<Rightarrow> TransportEnvelope \<Rightarrow> HandlerOutcome" where
  "handleRemoteRequest lib config now has_response request =
     (if \<not> has_response then Refused ''service response output is null''
      else if payload_kind request \<noteq> kServiceRequest then
        Refused ''invalid service request payload kind''
      else
        case ValidateEnvelopeMetadata request (sc_service_type config)
               (getServiceMd5 lib (sc_service_type config)) of
          Inl metadata_error \<Rightarrow>
            Refused (if metadata_error = [] then ''invalid service request payload kind''
                     else metadata_error)
        | Inr _ \<Rightarrow>
            if mfind (sc_client_hostnames config) (source_host request) \<noteq> Some True then
              Refused ''service client is not allowed by bridge configuration''
            else if \<not> client_valid lib (sc_service_name config) then
              Refused ''failed to create local ROS service client''
            else
              case ros_call lib (sc_service_name config) (payload request) of
                Inl what \<Rightarrow> Refused what
              | Inr (call_succeeded, data) \<Rightarrow>
                  Handled (default_envelope
                    \<lparr>payload_kind := kServiceResponse, sequence := sequence request,
                     source_time_ns := of_nat now, source_host := sc_my_hostname config,
                     ros_type := sc_service_type config,
                     ros_md5 := getServiceMd5 lib (sc_service_type config),
                     payload := serialize_response lib call_succeeded data\<rparr>))"

definition stopServerThread :: "ServiceFactory \<Rightarrow> ServiceFactory" where
  "stopServerThread sf = sf\<lparr>sf_queryable := None\<rparr>"

definition stopClientThread :: "ServiceFactory \<Rightarrow> ServiceFactory" where
  "stopClientThread sf = sf\<lparr>sf_advertised := None\<rparr>"

end
