(* ===== verification/Service_Properties.thy ===== *)
theory Service_Properties
  imports Service_Factory Zenoh_Properties
begin

text \<open>
  The bridged service as a whole: a call of the proxy on one node, through the envelope codec and
  the query of the transport, reaches the queryable that the server node declared under the key of the
  service and returns the answer of its local service; a request that is not authorised never reaches
  that service.  Which queryables zenoh asks is the parameter \<open>net\<close> with the hypothesis \<open>zenoh_get\<close>.
\<close>

lemma decode_wire_envelope: "encodable e \<Longrightarrow> decode_wire (envelope_wire f e) = Inr e"
  using decode_wire_iff [of "envelope_wire f e" e] by blast

lemma encodable_EncodeEnvelope:
  "encodable e \<Longrightarrow> EncodeEnvelope e (Some []) = (Inr (), Some (envelope_wire 0 e))"
  by (simp add: EncodeEnvelope_Some)

section \<open>Authorisation\<close>

definition authorised :: "SrvLib \<Rightarrow> ServiceConfig \<Rightarrow> TransportEnvelope \<Rightarrow> bool" where
  "authorised lib config request \<longleftrightarrow>
     payload_kind request = kServiceRequest \<and>
     protocol_version request = kBridgeProtocolVersion \<and>
     ros_type request = sc_service_type config \<and>
     ros_md5 request = getServiceMd5 lib (sc_service_type config) \<and>
     mfind (sc_client_hostnames config) (source_host request) = Some True"

lemma ValidateEnvelopeMetadata_cases:
  "ValidateEnvelopeMetadata e ty md5 = Inr () \<longleftrightarrow>
     protocol_version e = kBridgeProtocolVersion \<and> ros_type e = ty \<and> ros_md5 e = md5"
  "ValidateEnvelopeMetadata e ty md5 \<noteq> Inl []"
  by (auto simp: ValidateEnvelopeMetadata_def)

lemma handle_authorised:
  assumes "authorised lib config request" and "client_valid lib (sc_service_name config)"
  shows "handleRemoteRequest lib config now True request =
      (case ros_call lib (sc_service_name config) (payload request) of
         Inl what \<Rightarrow> Refused what
       | Inr (ok, data) \<Rightarrow>
           Handled (default_envelope
             \<lparr>payload_kind := kServiceResponse, sequence := sequence request,
              source_time_ns := of_nat now, source_host := sc_my_hostname config,
              ros_type := sc_service_type config,
              ros_md5 := getServiceMd5 lib (sc_service_type config),
              payload := serialize_response lib ok data\<rparr>))"
proof -
  have "ValidateEnvelopeMetadata request (sc_service_type config)
      (getServiceMd5 lib (sc_service_type config)) = Inr ()"
    using assms(1) by (simp add: authorised_def ValidateEnvelopeMetadata_cases(1))
  then show ?thesis using assms by (simp add: handleRemoteRequest_def authorised_def)
qed

text \<open>The text of a refusal before the local service is called: that of the first check that fails.\<close>

definition refusal_text ::
  "SrvLib \<Rightarrow> ServiceConfig \<Rightarrow> bool \<Rightarrow> TransportEnvelope \<Rightarrow> string" where
  "refusal_text lib config has_response request =
     (if \<not> has_response then ''service response output is null''
      else if payload_kind request \<noteq> kServiceRequest then ''invalid service request payload kind''
      else if protocol_version request \<noteq> kBridgeProtocolVersion then ''envelope protocol version mismatch''
      else if ros_type request \<noteq> sc_service_type config then
        ''ROS type mismatch: expected '' @ sc_service_type config @ '', got '' @ ros_type request
      else if ros_md5 request \<noteq> getServiceMd5 lib (sc_service_type config) then
        ''ROS MD5 mismatch for '' @ sc_service_type config
      else if mfind (sc_client_hostnames config) (source_host request) \<noteq> Some True then
        ''service client is not allowed by bridge configuration''
      else ''failed to create local ROS service client'')"

lemma handle_refused:
  assumes "\<not> (has_response \<and> authorised lib config request \<and> client_valid lib (sc_service_name config))"
  shows "handleRemoteRequest lib config now has_response request =
    Refused (refusal_text lib config has_response request)"
  using assms
  by (simp add: handleRemoteRequest_def refusal_text_def authorised_def ValidateEnvelopeMetadata_def)

lemma handle_other_service:
  "getServiceMd5 (lib\<lparr>ros_call := other\<rparr>) ty = getServiceMd5 lib ty"
  "authorised (lib\<lparr>ros_call := other\<rparr>) config request = authorised lib config request"
  "refusal_text (lib\<lparr>ros_call := other\<rparr>) config has_response request =
     refusal_text lib config has_response request"
proof -
  show md5: "getServiceMd5 (lib\<lparr>ros_call := other\<rparr>) ty = getServiceMd5 lib ty" for ty
    by (simp add: getServiceMd5_def getServiceMsgMd5_def)
  show "authorised (lib\<lparr>ros_call := other\<rparr>) config request = authorised lib config request"
    "refusal_text (lib\<lparr>ros_call := other\<rparr>) config has_response request =
       refusal_text lib config has_response request"
    by (simp_all add: authorised_def refusal_text_def md5)
qed

lemma depends_iff:
  "f x \<noteq> f y \<Longrightarrow> (\<exists>s s'. (if P then f s else c) \<noteq> (if P then f s' else c)) \<longleftrightarrow> P"
  by auto

text \<open>C12: The local ROS service is called exactly for a request of the right kind, version, type and
  checksum from a host that the configuration allows, when the caller wants a response and the local
  client is valid: exactly then does the outcome depend on what the service would answer, and it is
  that answer for exactly the bytes of the request, or the text of its exception.  Everything else is
  refused with the text of the first check that fails.\<close>

theorem service_authorization:
  "(let outcome = (\<lambda>service. handleRemoteRequest (lib\<lparr>ros_call := service\<rparr>) config now has_response request);
        allowed = (has_response \<and> authorised lib config request \<and> client_valid lib (sc_service_name config))
    in ((\<exists>service service'. outcome service \<noteq> outcome service') \<longleftrightarrow> allowed) \<and>
       (\<forall>service. outcome service =
          (if allowed then
             (case service (sc_service_name config) (payload request) of
                Inl what \<Rightarrow> Refused what
              | Inr (ok, data) \<Rightarrow>
                  Handled (default_envelope
                    \<lparr>payload_kind := kServiceResponse, sequence := sequence request,
                     source_time_ns := of_nat now, source_host := sc_my_hostname config,
                     ros_type := sc_service_type config,
                     ros_md5 := getServiceMd5 lib (sc_service_type config),
                     payload := serialize_response lib ok data\<rparr>))
           else Refused (refusal_text lib config has_response request))))"
proof -
  let ?allowed = "has_response \<and> authorised lib config request \<and> client_valid lib (sc_service_name config)"
  let ?answer = "\<lambda>service :: string \<Rightarrow> bytes \<Rightarrow> string + (bool \<times> bytes).
      case service (sc_service_name config) (payload request) of
         Inl what \<Rightarrow> Refused what
       | Inr (ok, data) \<Rightarrow> Handled (default_envelope
             \<lparr>payload_kind := kServiceResponse, sequence := sequence request,
              source_time_ns := of_nat now, source_host := sc_my_hostname config,
              ros_type := sc_service_type config,
              ros_md5 := getServiceMd5 lib (sc_service_type config),
              payload := serialize_response lib ok data\<rparr>)"
  let ?outcome = "\<lambda>service. handleRemoteRequest (lib\<lparr>ros_call := service\<rparr>) config now has_response request"
  have o: "?outcome service =
      (if ?allowed then ?answer service else Refused (refusal_text lib config has_response request))" for service
    using handle_authorised [of "lib\<lparr>ros_call := service\<rparr>" config request now]
      handle_refused [of has_response "lib\<lparr>ros_call := service\<rparr>" config request now]
    by (auto simp: handle_other_service split: sum.split)
  have d: "?answer (\<lambda>_ _. Inl ''a'') \<noteq> ?answer (\<lambda>_ _. Inl ''b'')" by simp
  have "(\<exists>service service'. ?outcome service \<noteq> ?outcome service') \<longleftrightarrow> ?allowed"
    unfolding o by (rule depends_iff [where f = ?answer, OF d])
  then show ?thesis using o unfolding Let_def by blast
qed

section \<open>The round trip\<close>

text \<open>What the queryable of a server node replies to the bytes of a query: the reply of its callback,
  or that of the task which the callback put into the executor.\<close>

definition queryable_reply ::
  "(TransportEnvelope \<Rightarrow> HandlerOutcome) \<Rightarrow> string \<Rightarrow> ZenohImpl \<Rightarrow> bytes \<Rightarrow> QueryReply" where
  "queryable_reply handler key z data =
     (case on_query key (Some data) (Some z) of
        (Some r, _) \<Rightarrow> r
      | (None, z) \<Rightarrow> query_task handler (snd (last (ex_tasks (zi_executor (the z))))))"

text \<open>What zenoh documents of a query on a key without wildcards: it is answered only by queryables that
  some session declared under that key, with what they reply to its bytes, and by one at least when
  there is one; \<open>net key data\<close> are the callbacks of the query until the caller stops waiting, which
  supposes that the sessions are connected and reply in time.\<close>

definition zenoh_get ::
  "(string \<Rightarrow> bytes \<Rightarrow> QueryEvent list) \<Rightarrow> (string \<times> (bytes \<Rightarrow> QueryReply)) list \<Rightarrow> bool" where
  "zenoh_get net queryables \<longleftrightarrow>
     (\<forall>key data.
        (\<forall>r. Reply r \<in> set (net key data) \<longrightarrow> (\<exists>q. (key, q) \<in> set queryables \<and> r = q data)) \<and>
        ((\<exists>q. (key, q) \<in> set queryables) \<longrightarrow> (\<exists>r. Reply r \<in> set (net key data))))"

text \<open>The query of the calling node over that network.\<close>

definition net_query ::
  "(string \<Rightarrow> bytes \<Rightarrow> QueryEvent list) \<Rightarrow> ZenohImpl \<Rightarrow> string \<Rightarrow> TransportEnvelope \<Rightarrow> u64 \<Rightarrow>
     string + TransportEnvelope" where
  "net_query net z key request timeout_ms =
     fst (Query (\<lambda>_. Inr ()) (case encode_wire request of Inl _ \<Rightarrow> [] | Inr wire \<Rightarrow> net key wire)
           request True z)"

lemma first_reply_set: "first_reply events = Some r \<Longrightarrow> Reply r \<in> set events"
  by (induction events rule: first_reply.induct) auto

lemma first_reply_none: "first_reply events = None \<longleftrightarrow> (\<forall>r. Reply r \<notin> set events)"
  by (induction events rule: first_reply.induct) auto

lemma first_reply_only:
  assumes "\<And>r'. Reply r' \<in> set events \<Longrightarrow> r' = r" and "Reply r \<in> set events"
  shows "first_reply events = Some r"
proof (cases "first_reply events")
  case None
  then show ?thesis using assms(2) first_reply_none by blast
next
  case (Some r')
  then show ?thesis using assms(1) [OF first_reply_set [OF Some]] by simp
qed

lemma zenoh_get_unique:
  assumes "zenoh_get net queryables" and "(key, q) \<in> set queryables"
    and "\<And>q'. (key, q') \<in> set queryables \<Longrightarrow> q' = q"
  shows "first_reply (net key data) = Some (q data)"
proof (rule first_reply_only)
  have get: "Reply r \<in> set (net key data) \<Longrightarrow> \<exists>q'. (key, q') \<in> set queryables \<and> r = q' data"
    and some: "\<exists>r. Reply r \<in> set (net key data)" for r
    using assms(1,2) unfolding zenoh_get_def by blast+
  show only: "r = q data" if "Reply r \<in> set (net key data)" for r
    using get [OF that] assms(3) by blast
  show "Reply (q data) \<in> set (net key data)" using some only by blast
qed

lemma zenoh_get_none:
  assumes "zenoh_get net queryables" and "\<And>q. (key, q) \<notin> set queryables"
  shows "first_reply (net key data) = None"
  using assms unfolding zenoh_get_def first_reply_none by blast

lemma net_query_first:
  assumes "Session z = Inr ()" and "encodable request"
  shows "first_reply (net key (envelope_wire 0 request)) = None \<Longrightarrow>
      net_query net z key request timeout_ms = Inl ''Zenoh service query timed out''"
    "first_reply (net key (envelope_wire 0 request)) = Some (ReplyOk (envelope_wire 0 response)) \<Longrightarrow>
      encodable response \<Longrightarrow> net_query net z key request timeout_ms = Inr response"
proof -
  have start: "\<not> qs_received initial_query_state" "qs_response initial_query_state = default_envelope"
    "qs_error initial_query_state = []"
    by (simp_all add: initial_query_state_def)
  let ?events = "net key (envelope_wire 0 request)"
  have q: "net_query net z key request timeout_ms = fst (Query (\<lambda>_. Inr ()) ?events request True z)"
    by (simp add: net_query_def encode_wire_def encodable_EncodeEnvelope assms(2))
  note first = query_events_first [OF start, of ?events]
  show "first_reply ?events = None \<Longrightarrow>
      net_query net z key request timeout_ms = Inl ''Zenoh service query timed out''"
    using first unfolding q by (simp add: Query_def Let_def encodable_EncodeEnvelope assms)
  show "first_reply ?events = Some (ReplyOk (envelope_wire 0 response)) \<Longrightarrow>
      encodable response \<Longrightarrow> net_query net z key request timeout_ms = Inr response"
    using first unfolding q
    by (simp add: Query_def Let_def encodable_EncodeEnvelope assms answered_def decode_wire_envelope)
qed

lemma queryable_reply_handled:
  assumes "encodable request" and "\<not> ex_stopping (zi_executor z)"
    and "length (ex_tasks (zi_executor z)) < ex_capacity (zi_executor z)"
    and "handler request = Handled response" and "encodable response"
  shows "queryable_reply handler key z (envelope_wire 0 request) = ReplyOk (envelope_wire 0 response)"
proof -
  have "DecodeEnvelope (Some (envelope_wire 0 request)) (Some default_envelope) = (Inr (), Some request)"
    using decode_wire_envelope [OF assms(1), of 0]
    by (auto simp: decode_wire_def split: prod.splits sum.splits option.splits)
  then show ?thesis
    using assms(2-4)
    by (simp add: queryable_reply_def on_query_def TrySubmit_def query_task_def
        encodable_EncodeEnvelope assms(5))
qed

text \<open>C16: A proxy call on one node returns to its caller exactly the serialised answer that the
  local ROS service on the server node gave to exactly the caller's request bytes, when it asks for
  the key under which the server node's queryable is declared, that queryable is the only one under
  the key, its executor has room, the two ends agree on the type, the server allows the client, and
  both envelopes fit the wire format.  A call for any other key, under which nobody declared a
  queryable, fails and is counted as a timeout.\<close>

theorem service_roundtrip:
  assumes "ServiceFactory_create declare_queryable SERVER config True = Inr server"
    and "zenoh_get net ((the (sf_queryable server),
           queryable_reply (handleRemoteRequest slib config later True) (the (sf_queryable server)) zs) # others)"
    and "\<forall>q. (ServiceKey (sc_server_hostname (sf_config sf)) name, q) \<notin> set others"
    and "\<not> ex_stopping (zi_executor zs) \<and>
      length (ex_tasks (zi_executor zs)) < ex_capacity (zi_executor zs)"
    and "sc_service_type (sf_config sf) = sc_service_type config \<and>
      getServiceMd5 clib (sc_service_type config) = getServiceMd5 slib (sc_service_type config) \<and>
      mfind (sc_client_hostnames config) (sc_my_hostname (sf_config sf)) = Some True"
    and "client_valid slib (sc_service_name config) \<and>
      ros_call slib (sc_service_name config) data = Inr (ok, answer)"
    and "Session z = Inr () \<and> encodable (call_request clib now data sf) \<and>
      length (sc_my_hostname config) < 65536 \<and>
      length (serialize_response slib ok answer) \<le> kMaxEnvelopePayloadBytes"
  shows "service_call clib (net_query net z) now name data sf =
    (if ServiceKey (sc_server_hostname (sf_config sf)) name =
        ServiceKey (sc_server_hostname config) (sc_service_name config)
     then (Some (serialize_response slib ok answer), sf\<lparr>sf_sequence := sf_sequence sf + 1\<rparr>)
     else (None, sf\<lparr>sf_sequence := sf_sequence sf + 1, sf_timeout_count := sf_timeout_count sf + 1\<rparr>))"
proof -
  let ?req = "call_request clib now data sf"
  let ?key = "ServiceKey (sc_server_hostname (sf_config sf)) name"
  let ?server_key = "ServiceKey (sc_server_hostname config) (sc_service_name config)"
  let ?q = "queryable_reply (handleRemoteRequest slib config later True) ?server_key zs"
  let ?resp = "default_envelope
     \<lparr>payload_kind := kServiceResponse, sequence := sequence ?req,
      source_time_ns := of_nat later, source_host := sc_my_hostname config,
      ros_type := sc_service_type config,
      ros_md5 := getServiceMd5 slib (sc_service_type config),
      payload := serialize_response slib ok answer\<rparr>"
  have "sf_queryable server = Some ?server_key"
    using assms(1) by (auto simp: ServiceFactory_create_def Let_def bindR_Inr_iff split: if_splits)
  then have net: "zenoh_get net ((?server_key, ?q) # others)" using assms(2) by simp
  have req: "encodable ?req" "Session z = Inr ()" using assms(7) by simp_all
  show ?thesis
  proof (cases "?key = ?server_key")
    case True
    have "authorised slib config ?req"
      using assms(5) by (simp add: authorised_def call_request_def default_envelope_def)
    then have h: "handleRemoteRequest slib config later True ?req = Handled ?resp"
      using assms(6) handle_authorised [of slib config ?req later] by (simp add: call_request_def)
    have e: "encodable ?resp"
      using assms(5,7) by (simp add: encodable_def call_request_def default_envelope_def)
    have "first_reply (net ?key (envelope_wire 0 ?req)) = Some (?q (envelope_wire 0 ?req))"
      using assms(3) True by (intro zenoh_get_unique [OF net]) auto
    also have "?q (envelope_wire 0 ?req) = ReplyOk (envelope_wire 0 ?resp)"
      using assms(4) req(1) h e by (intro queryable_reply_handled) auto
    finally have "net_query net z ?key ?req t = Inr ?resp" for t
      using net_query_first(2) [OF req(2,1) _ e] by blast
    then show ?thesis
      using True assms(5) ValidateEnvelopeMetadata_cases(1) [of ?resp]
      by (simp add: service_call_def Let_def) (simp add: default_envelope_def)
  next
    case False
    then have "first_reply (net ?key (envelope_wire 0 ?req)) = None"
      using assms(3) by (intro zenoh_get_none [OF net]) auto
    then have "net_query net z ?key ?req t = Inl ''Zenoh service query timed out''" for t
      using net_query_first(1) [OF req(2,1)] by blast
    moreover have "contains_str ''timed out'' ''Zenoh service query timed out''"
      by (simp add: starts_with_def)
    ultimately show ?thesis using False by (simp add: service_call_def Let_def)
  qed
qed

section \<open>A concrete service\<close>

definition sample_srv :: SrvLib where
  "sample_srv =
     \<lparr>srv_md5 = (\<lambda>_. ''d41d''), valid_name = (\<lambda>_. True), client_valid = (\<lambda>_. True),
      ros_call = (\<lambda>_ data. Inr (True, rev data)),
      serialize_response = (\<lambda>ok data. (if ok then 1 else 0) # data)\<rparr>"

definition sample_service :: "string \<Rightarrow> ServiceConfig" where
  "sample_service host = default_service_config
     \<lparr>sc_service_name := ''add'', sc_service_type := ''swarm_ros_bridge/AddTwoInts'',
      sc_server_hostname := ''s'', sc_my_hostname := host, sc_client_hostnames := [(''c'', True)]\<rparr>"

definition sample_client :: ServiceFactory where
  "sample_client =
     \<lparr>sf_role = CLIENT, sf_config = sample_service ''c'', sf_advertised = Some [],
      sf_queryable = None, sf_sequence = 0, sf_timeout_count = 0\<rparr>"

lemma sample_client_created:
  "ServiceFactory_create (\<lambda>_. Inr ()) CLIENT (sample_service ''c'') True = Inr sample_client"
  by (simp add: ServiceFactory_create_def sample_client_def sample_service_def typeExists_def
      srvs_types_def default_service_config_def Let_def)

lemma sample_service_simps [simp]:
  "sc_service_type (sample_service h) = ''swarm_ros_bridge/AddTwoInts''"
  "sc_my_hostname (sample_service h) = h" "sc_client_hostnames (sample_service h) = [(''c'', True)]"
  by (simp_all add: sample_service_def)

text \<open>A network that asks every queryable under the key.\<close>

definition sample_net ::
  "(string \<times> (bytes \<Rightarrow> QueryReply)) list \<Rightarrow> string \<Rightarrow> bytes \<Rightarrow> QueryEvent list" where
  "sample_net queryables key data =
     map (\<lambda>(k, q). Reply (q data)) (filter (\<lambda>(k, q). k = key) queryables) @ [QueryDone]"

lemma zenoh_get_sample: "zenoh_get (sample_net queryables) queryables"
  by (force simp: zenoh_get_def sample_net_def)

lemma service_roundtrip_witness:
  "\<exists>z server net. Impl_create True True True 0 default_zenoh_config ''c'' = Inr z \<and>
     ServiceFactory_create (\<lambda>_. Inr ()) SERVER (sample_service ''s'') True = Inr server \<and>
     fst (service_call sample_srv (net_query net z) 4 ''/add'' [10, 20] sample_client) = Some [1, 20, 10] \<and>
     fst (service_call sample_srv (net_query net z) 4 ''sub'' [10, 20] sample_client) = None"
proof -
  let ?config = "sample_service ''s''"
  obtain z where z: "Impl_create True True True 0 default_zenoh_config ''c'' = Inr z"
    "Session z = Inr ()" "\<not> ex_stopping (zi_executor z) \<and>
      length (ex_tasks (zi_executor z)) < ex_capacity (zi_executor z)"
    by (simp add: Impl_create_def Session_def Let_def default_zenoh_config_def BoundedExecutor_create_def)
  obtain server where s: "ServiceFactory_create (\<lambda>_. Inr ()) SERVER ?config True = Inr server"
    by (simp add: ServiceFactory_create_def typeExists_def srvs_types_def Let_def)
  let ?net = "sample_net [(the (sf_queryable server),
      queryable_reply (handleRemoteRequest sample_srv ?config 5 True) (the (sf_queryable server)) z)]"
  have e: "encodable (call_request sample_srv 4 [10, 20] sample_client)"
    by (simp add: encodable_def call_request_def default_envelope_def sample_client_def
        getServiceMd5_def getServiceMsgMd5_def sample_srv_def kMaxEnvelopePayloadBytes_def)
  have "service_call sample_srv (net_query ?net z) 4 name [10, 20] sample_client =
      (if ServiceKey (sc_server_hostname (sf_config sample_client)) name =
          ServiceKey (sc_server_hostname ?config) (sc_service_name ?config)
       then (Some [1, 20, 10], sample_client\<lparr>sf_sequence := sf_sequence sample_client + 1\<rparr>)
       else (None, sample_client\<lparr>sf_sequence := sf_sequence sample_client + 1,
          sf_timeout_count := sf_timeout_count sample_client + 1\<rparr>))" for name
    using service_roundtrip [OF s zenoh_get_sample, where sf = sample_client and name = name and
        clib = sample_srv and data = "[10, 20]" and ok = True and answer = "[20, 10]" and z = z and now = 4]
      z(2,3) e
    by (simp add: sample_client_def sample_srv_def kMaxEnvelopePayloadBytes_def)
  moreover have "NormalizeRosName ''/add'' = NormalizeRosName ''add''"
    "NormalizeRosName ''sub'' \<noteq> NormalizeRosName ''add''"
    by (simp_all add: Normalize_eq_iff segments_def)
  ultimately show ?thesis using z(1) s
    by (intro exI [of _ z] exI [of _ server] exI [of _ ?net])
      (simp add: ServiceKey_def sample_client_def sample_service_def default_service_config_def)
qed

end
