(* ===== verification/Config_Loader.thy ===== *)
theory Config_Loader
  imports Xmlrpc Std_Map
begin

text \<open>
  \<^verbatim>\<open>ConfigLoader\<close> of \<^verbatim>\<open>src/config/config_loader.cpp\<close>, which reads the parameters of the bridge for
  the text interface, with the structures and defaults of \<^verbatim>\<open>include/config/bridge_config.hpp\<close>.
  Numbers that the parameter server holds as integers or doubles are accepted as such; everything
  else keeps its default.
\<close>

section \<open>Configuration\<close>

record TopicRule =
  tr_topic_name :: string
  tr_msg_type :: string
  tr_src_hosts :: "string list"
  tr_dst_hosts :: "string list"
  tr_qos_class :: string
  tr_max_freq_hz :: real
  tr_prefix :: bool
  tr_same_prefix :: bool
  tr_cloud_compress :: bool
  tr_cloud_downsample :: real
  tr_image_resize_rate :: real
  tr_image_jpeg_quality :: int
  tr_image_adaptive_quality :: bool
  tr_image_min_jpeg_quality :: int
  tr_image_max_jpeg_quality :: int
  tr_image_target_bandwidth_kbps :: real
  tr_image_quality_step :: int
  tr_image_adapt_cooldown_frames :: int
  tr_cloud_codec :: string

definition default_topic_rule :: TopicRule where
  "default_topic_rule =
     \<lparr>tr_topic_name = [], tr_msg_type = [], tr_src_hosts = [], tr_dst_hosts = [],
      tr_qos_class = ''state'', tr_max_freq_hz = 10, tr_prefix = True, tr_same_prefix = False,
      tr_cloud_compress = False, tr_cloud_downsample = -1, tr_image_resize_rate = 1,
      tr_image_jpeg_quality = 80, tr_image_adaptive_quality = False,
      tr_image_min_jpeg_quality = 45, tr_image_max_jpeg_quality = 90,
      tr_image_target_bandwidth_kbps = 1200, tr_image_quality_step = 5,
      tr_image_adapt_cooldown_frames = 8, tr_cloud_codec = ''raw''\<rparr>"

record ServiceRule =
  srr_service_name :: string
  srr_service_type :: string
  srr_server_host :: string
  srr_client_hosts :: "string list"
  srr_prefix :: bool

definition default_service_rule :: ServiceRule where
  "default_service_rule =
     \<lparr>srr_service_name = [], srr_service_type = [], srr_server_host = [], srr_client_hosts = [],
      srr_prefix = True\<rparr>"

record ImageSessionOptions =
  iso_enabled :: bool
  iso_listen_endpoints :: "string list"
  iso_connect_endpoints :: "string list"

record CloudSessionOptions =
  cso_enabled :: bool
  cso_multicast_address :: string
  cso_listen_endpoints :: "string list"
  cso_connect_endpoints :: "string list"

record ZenohOptions =
  zo_mode :: string
  zo_multicast_scouting :: bool
  zo_gossip_scouting :: bool
  zo_compression_enabled :: bool
  zo_multicast_address :: string
  zo_listen_endpoints :: "string list"
  zo_connect_endpoints :: "string list"
  zo_service_timeout_ms :: int
  zo_image_session :: ImageSessionOptions
  zo_cloud_session :: CloudSessionOptions

record RuntimeOptions =
  ro_debug :: bool
  ro_odom_convert :: bool
  ro_monitor_node :: bool
  ro_warn_threshold :: int
  ro_monitor_rate_hz :: int

record BridgeConfig =
  bc_hostname :: string
  bc_ip_map :: "string smap"
  bc_zenoh :: ZenohOptions
  bc_runtime :: RuntimeOptions
  bc_topics :: "TopicRule list"
  bc_services :: "ServiceRule list"

definition default_zenoh_options :: ZenohOptions where
  "default_zenoh_options =
     \<lparr>zo_mode = ''peer'', zo_multicast_scouting = True, zo_gossip_scouting = True,
      zo_compression_enabled = False, zo_multicast_address = [], zo_listen_endpoints = [],
      zo_connect_endpoints = [], zo_service_timeout_ms = 1000,
      zo_image_session =
        \<lparr>iso_enabled = False, iso_listen_endpoints = [], iso_connect_endpoints = []\<rparr>,
      zo_cloud_session =
        \<lparr>cso_enabled = False, cso_multicast_address = [], cso_listen_endpoints = [],
         cso_connect_endpoints = []\<rparr>\<rparr>"

definition default_runtime_options :: RuntimeOptions where
  "default_runtime_options =
     \<lparr>ro_debug = False, ro_odom_convert = True, ro_monitor_node = True, ro_warn_threshold = 3,
      ro_monitor_rate_hz = 500\<rparr>"

definition MakeDefaultConfig :: BridgeConfig where
  "MakeDefaultConfig =
     \<lparr>bc_hostname = ''groundStation0'', bc_ip_map = [], bc_zenoh = default_zenoh_options,
      bc_runtime = default_runtime_options, bc_topics = [], bc_services = []\<rparr>"

section \<open>Reading values\<close>

definition GetDouble :: "XmlRpcValue \<Rightarrow> real \<Rightarrow> real" where
  "GetDouble v fallback =
     (case v of XInt i \<Rightarrow> real_of_int i | XDouble d \<Rightarrow> d | _ \<Rightarrow> fallback)"

definition GetBoolMember :: "XmlRpcLib \<Rightarrow> XmlRpcValue \<Rightarrow> string \<Rightarrow> bool \<Rightarrow> failure + bool" where
  "GetBoolMember lib v key fallback =
     (if \<not> has_member v key then Inr fallback else bindR (member lib v key) (cast_bool lib))"

definition GetIntMember :: "XmlRpcLib \<Rightarrow> XmlRpcValue \<Rightarrow> string \<Rightarrow> int \<Rightarrow> failure + int" where
  "GetIntMember lib v key fallback =
     (if \<not> has_member v key then Inr fallback
      else bindR (member lib v key) (\<lambda>x. Inr (case x of XInt i \<Rightarrow> i | _ \<Rightarrow> fallback)))"

definition GetDoubleMember :: "XmlRpcLib \<Rightarrow> XmlRpcValue \<Rightarrow> string \<Rightarrow> real \<Rightarrow> failure + real" where
  "GetDoubleMember lib v key fallback =
     (if \<not> has_member v key then Inr fallback
      else bindR (member lib v key) (\<lambda>x. Inr (GetDouble x fallback)))"

definition GetStringMember :: "XmlRpcLib \<Rightarrow> XmlRpcValue \<Rightarrow> string \<Rightarrow> string \<Rightarrow> failure + string" where
  "GetStringMember lib v key fallback =
     (if \<not> has_member v key then Inr fallback else bindR (member lib v key) (cast_string_const lib))"

definition LoadHosts ::
  "XmlRpcLib \<Rightarrow> XmlRpcValue \<Rightarrow> string list option \<Rightarrow> failure + string list option" where
  "LoadHosts lib hosts out =
     (case out of
        None \<Rightarrow> Inr None
      | Some old \<Rightarrow>
          if \<not> is_array hosts then Inr (Some old)
          else bindR (foldR (\<lambda>x acc. bindR (cast_string_const lib x) (\<lambda>s. Inr (acc @ [s]))) (elements hosts) [])
                 (\<lambda>acc. Inr (Some acc)))"

definition load_member_hosts ::
  "XmlRpcLib \<Rightarrow> XmlRpcValue \<Rightarrow> string \<Rightarrow> string list \<Rightarrow> failure + string list" where
  "load_member_hosts lib v key old =
     bindR (member lib v key) (\<lambda>x. bindR (LoadHosts lib x (Some old)) (\<lambda>r. Inr (the r)))"

section \<open>Rules\<close>

definition load_topic_rule :: "XmlRpcLib \<Rightarrow> XmlRpcValue \<Rightarrow> failure + TopicRule" where
  "load_topic_rule lib x =
     (let d = default_topic_rule in
      bindR (bindR (member lib x ''topic_name'') (cast_string_const lib)) (\<lambda>name.
      bindR (bindR (member lib x ''msg_type'') (cast_string_const lib)) (\<lambda>type.
      bindR (load_member_hosts lib x ''srcIP'' (tr_src_hosts d)) (\<lambda>srcs.
      bindR (load_member_hosts lib x ''dstIP'' (tr_dst_hosts d)) (\<lambda>dsts.
      bindR (GetStringMember lib x ''qos_class'' (tr_qos_class d)) (\<lambda>qos.
      bindR (bindR (member lib x ''max_freq'') (\<lambda>v. Inr (GetDouble v (tr_max_freq_hz d)))) (\<lambda>freq.
      bindR (GetBoolMember lib x ''prefix'' (tr_prefix d)) (\<lambda>pre.
      bindR (GetBoolMember lib x ''same_prefix'' (tr_same_prefix d)) (\<lambda>same.
      bindR (GetBoolMember lib x ''cloudCompress'' (tr_cloud_compress d)) (\<lambda>compress.
      bindR (GetDoubleMember lib x ''cloudDownsample'' (tr_cloud_downsample d)) (\<lambda>downsample.
      bindR (GetDoubleMember lib x ''imgResizeRate'' (tr_image_resize_rate d)) (\<lambda>resize.
      bindR (GetIntMember lib x ''imgJpegQuality'' (tr_image_jpeg_quality d)) (\<lambda>quality.
      bindR (GetBoolMember lib x ''imgAdaptiveQuality'' (tr_image_adaptive_quality d)) (\<lambda>adaptive.
      bindR (GetIntMember lib x ''imgMinJpegQuality'' (tr_image_min_jpeg_quality d)) (\<lambda>minq.
      bindR (GetIntMember lib x ''imgMaxJpegQuality'' (tr_image_max_jpeg_quality d)) (\<lambda>maxq.
      bindR (GetDoubleMember lib x ''imgTargetBandwidthKbps'' (tr_image_target_bandwidth_kbps d)) (\<lambda>bandwidth.
      bindR (GetIntMember lib x ''imgQualityStep'' (tr_image_quality_step d)) (\<lambda>qstep.
      bindR (GetIntMember lib x ''imgAdaptCooldownFrames'' (tr_image_adapt_cooldown_frames d)) (\<lambda>cooldown.
      bindR (if has_member x ''cloudCodec''
             then bindR (member lib x ''cloudCodec'') (cast_string_const lib)
             else Inr (if compress then ''pcl_octree'' else tr_cloud_codec d)) (\<lambda>codec.
      Inr \<lparr>tr_topic_name = name, tr_msg_type = type, tr_src_hosts = srcs, tr_dst_hosts = dsts,
           tr_qos_class = qos, tr_max_freq_hz = freq, tr_prefix = pre, tr_same_prefix = same,
           tr_cloud_compress = compress, tr_cloud_downsample = downsample,
           tr_image_resize_rate = resize, tr_image_jpeg_quality = quality,
           tr_image_adaptive_quality = adaptive, tr_image_min_jpeg_quality = minq,
           tr_image_max_jpeg_quality = maxq, tr_image_target_bandwidth_kbps = bandwidth,
           tr_image_quality_step = qstep, tr_image_adapt_cooldown_frames = cooldown,
           tr_cloud_codec = codec\<rparr>))))))))))))))))))))"

definition LoadTopicRules :: "XmlRpcLib \<Rightarrow> XmlRpcValue \<Rightarrow> BridgeConfig \<Rightarrow> failure + BridgeConfig" where
  "LoadTopicRules lib topics config =
     (if \<not> is_array topics then Inr config
      else foldR (\<lambda>x config. bindR (load_topic_rule lib x)
                    (\<lambda>rule. Inr (config\<lparr>bc_topics := bc_topics config @ [rule]\<rparr>)))
             (elements topics) (config\<lparr>bc_topics := []\<rparr>))"

definition load_service_rule :: "XmlRpcLib \<Rightarrow> XmlRpcValue \<Rightarrow> failure + ServiceRule" where
  "load_service_rule lib x =
     bindR (bindR (member lib x ''srv_name'') (cast_string_const lib)) (\<lambda>name.
     bindR (bindR (member lib x ''srv_type'') (cast_string_const lib)) (\<lambda>type.
     bindR (bindR (member lib x ''serverIp'') (cast_string_const lib)) (\<lambda>host.
     bindR (load_member_hosts lib x ''clientIp'' (srr_client_hosts default_service_rule)) (\<lambda>clients.
     bindR (GetBoolMember lib x ''prefix'' (srr_prefix default_service_rule)) (\<lambda>pre.
     Inr \<lparr>srr_service_name = name, srr_service_type = type, srr_server_host = host,
          srr_client_hosts = clients, srr_prefix = pre\<rparr>)))))"

definition LoadServiceRules :: "XmlRpcLib \<Rightarrow> XmlRpcValue \<Rightarrow> BridgeConfig \<Rightarrow> failure + BridgeConfig" where
  "LoadServiceRules lib services config =
     (if \<not> is_array services then Inr config
      else foldR (\<lambda>x config. bindR (load_service_rule lib x)
                    (\<lambda>rule. Inr (config\<lparr>bc_services := bc_services config @ [rule]\<rparr>)))
             (elements services) (config\<lparr>bc_services := []\<rparr>))"

section \<open>The parameters of a node\<close>

text \<open>\<open>params k\<close> is the private parameter \<open>k\<close>; the string overload of \<^verbatim>\<open>getParam\<close> only reads strings.\<close>

definition getParam_string :: "(string \<Rightarrow> XmlRpcValue option) \<Rightarrow> string \<Rightarrow> string option" where
  "getParam_string params k = (case params k of Some (XString s) \<Rightarrow> Some s | _ \<Rightarrow> None)"

definition struct_param :: "(string \<Rightarrow> XmlRpcValue option) \<Rightarrow> string \<Rightarrow> XmlRpcValue option" where
  "struct_param params k =
     (case params k of Some v \<Rightarrow> if is_struct v then Some v else None | None \<Rightarrow> None)"

definition load_runtime :: "XmlRpcLib \<Rightarrow> XmlRpcValue \<Rightarrow> RuntimeOptions \<Rightarrow> failure + RuntimeOptions" where
  "load_runtime lib x r =
     bindR (GetBoolMember lib x ''debug'' (ro_debug r)) (\<lambda>a.
     bindR (GetBoolMember lib x ''odom_convert'' (ro_odom_convert r)) (\<lambda>b.
     bindR (GetBoolMember lib x ''monitor_node'' (ro_monitor_node r)) (\<lambda>c.
     bindR (GetIntMember lib x ''warn_threshold'' (ro_warn_threshold r)) (\<lambda>d.
     bindR (GetIntMember lib x ''monitor_rate_hz'' (ro_monitor_rate_hz r)) (\<lambda>e.
     Inr \<lparr>ro_debug = a, ro_odom_convert = b, ro_monitor_node = c, ro_warn_threshold = d,
          ro_monitor_rate_hz = e\<rparr>)))))"

definition load_member_hosts_if ::
  "XmlRpcLib \<Rightarrow> XmlRpcValue \<Rightarrow> string \<Rightarrow> string list \<Rightarrow> failure + string list" where
  "load_member_hosts_if lib v key old =
     (if has_member v key then load_member_hosts lib v key old else Inr old)"

definition load_image_session ::
  "XmlRpcLib \<Rightarrow> XmlRpcValue \<Rightarrow> ImageSessionOptions \<Rightarrow> failure + ImageSessionOptions" where
  "load_image_session lib z s =
     (if \<not> has_member z ''image_session'' then Inr s
      else bindR (member lib z ''image_session'') (\<lambda>x.
        if \<not> is_struct x then Inr s
        else
          bindR (GetBoolMember lib x ''enabled'' (iso_enabled s)) (\<lambda>a.
          bindR (load_member_hosts_if lib x ''listen_endpoints'' (iso_listen_endpoints s)) (\<lambda>b.
          bindR (load_member_hosts_if lib x ''connect_endpoints'' (iso_connect_endpoints s)) (\<lambda>c.
          Inr \<lparr>iso_enabled = a, iso_listen_endpoints = b, iso_connect_endpoints = c\<rparr>)))))"

definition load_cloud_session ::
  "XmlRpcLib \<Rightarrow> XmlRpcValue \<Rightarrow> CloudSessionOptions \<Rightarrow> failure + CloudSessionOptions" where
  "load_cloud_session lib z s =
     (if \<not> has_member z ''cloud_session'' then Inr s
      else bindR (member lib z ''cloud_session'') (\<lambda>x.
        if \<not> is_struct x then Inr s
        else
          bindR (GetBoolMember lib x ''enabled'' (cso_enabled s)) (\<lambda>a.
          bindR (GetStringMember lib x ''multicast_address'' (cso_multicast_address s)) (\<lambda>b.
          bindR (load_member_hosts_if lib x ''listen_endpoints'' (cso_listen_endpoints s)) (\<lambda>c.
          bindR (load_member_hosts_if lib x ''connect_endpoints'' (cso_connect_endpoints s)) (\<lambda>d.
          Inr \<lparr>cso_enabled = a, cso_multicast_address = b, cso_listen_endpoints = c,
               cso_connect_endpoints = d\<rparr>))))))"

definition load_zenoh :: "XmlRpcLib \<Rightarrow> XmlRpcValue \<Rightarrow> ZenohOptions \<Rightarrow> failure + ZenohOptions" where
  "load_zenoh lib x z =
     bindR (GetStringMember lib x ''mode'' (zo_mode z)) (\<lambda>a.
     bindR (GetBoolMember lib x ''multicast_scouting'' (zo_multicast_scouting z)) (\<lambda>b.
     bindR (GetBoolMember lib x ''gossip_scouting'' (zo_gossip_scouting z)) (\<lambda>c.
     bindR (GetBoolMember lib x ''compression_enabled'' (zo_compression_enabled z)) (\<lambda>d.
     bindR (GetStringMember lib x ''multicast_address'' (zo_multicast_address z)) (\<lambda>e.
     bindR (load_member_hosts_if lib x ''listen_endpoints'' (zo_listen_endpoints z)) (\<lambda>f.
     bindR (load_member_hosts_if lib x ''connect_endpoints'' (zo_connect_endpoints z)) (\<lambda>g.
     bindR (GetIntMember lib x ''service_timeout_ms'' (zo_service_timeout_ms z)) (\<lambda>h.
     bindR (load_image_session lib x (zo_image_session z)) (\<lambda>i.
     bindR (load_cloud_session lib x (zo_cloud_session z)) (\<lambda>j.
     Inr \<lparr>zo_mode = a, zo_multicast_scouting = b, zo_gossip_scouting = c,
          zo_compression_enabled = d, zo_multicast_address = e, zo_listen_endpoints = f,
          zo_connect_endpoints = g, zo_service_timeout_ms = h, zo_image_session = i,
          zo_cloud_session = j\<rparr>))))))))))"

definition load_ip_map ::
  "XmlRpcLib \<Rightarrow> (string \<Rightarrow> XmlRpcValue option) \<Rightarrow> string smap \<Rightarrow> failure + string smap" where
  "load_ip_map lib params old =
     bindR (case struct_param params ''IP'' of
              None \<Rightarrow> Inr old
            | Some x \<Rightarrow> foldR (\<lambda>(k, v) m. bindR (cast_string_const lib v) (\<lambda>s. Inr (mset_at k s m)))
                          (entries x) [])
       (\<lambda>m. case params ''hosts'' of
              Some (XArray xs) \<Rightarrow>
                foldR (\<lambda>v m. bindR (cast_string_const lib v) (\<lambda>s. Inr (mset_at s ''Zenoh discovery'' m))) xs []
            | _ \<Rightarrow> Inr m)"

definition LoadFromRosParams ::
  "XmlRpcLib \<Rightarrow> (string \<Rightarrow> XmlRpcValue option) \<Rightarrow> bool \<Rightarrow> failure + (bool \<times> BridgeConfig option)" where
  "LoadFromRosParams lib params has_config =
     (if \<not> has_config then Inr (False, None)
      else
        let c = MakeDefaultConfig;
            c = (case getParam_string params ''hostname'' of
                   Some h \<Rightarrow> c\<lparr>bc_hostname := h\<rparr> | None \<Rightarrow> c)
        in bindR (case struct_param params ''config'' of
                    Some x \<Rightarrow> load_runtime lib x (bc_runtime c) | None \<Rightarrow> Inr (bc_runtime c)) (\<lambda>r.
           bindR (load_ip_map lib params (bc_ip_map c)) (\<lambda>m.
           bindR (case struct_param params ''zenoh'' of
                    Some x \<Rightarrow> load_zenoh lib x (bc_zenoh c) | None \<Rightarrow> Inr (bc_zenoh c)) (\<lambda>z.
           let c = c\<lparr>bc_runtime := r, bc_ip_map := m, bc_zenoh := z\<rparr>
           in bindR (case params ''topics'' of Some x \<Rightarrow> LoadTopicRules lib x c | None \<Rightarrow> Inr c) (\<lambda>c.
              bindR (case params ''services'' of Some x \<Rightarrow> LoadServiceRules lib x c | None \<Rightarrow> Inr c) (\<lambda>c.
              Inr (True, Some c)))))))"

section \<open>Structure\<close>

lemma foldR_collect:
  "foldR (\<lambda>x acc. bindR (f x) (\<lambda>y. Inr (acc @ [y]))) xs acc = Inr ys \<longleftrightarrow>
     (\<exists>zs. ys = acc @ zs \<and> list_all2 (\<lambda>x y. f x = Inr y) xs zs)"
proof (induction xs arbitrary: acc)
  case (Cons x xs)
  then show ?case by (auto simp: bindR_Inr_iff list_all2_Cons1)
qed auto

lemma foldR_topics:
  "foldR (\<lambda>x c. bindR (f x) (\<lambda>r. Inr (c\<lparr>bc_topics := bc_topics c @ [r]\<rparr>))) xs c = Inr c' \<longleftrightarrow>
     (\<exists>rs. c' = c\<lparr>bc_topics := bc_topics c @ rs\<rparr> \<and> list_all2 (\<lambda>x r. f x = Inr r) xs rs)"
proof (induction xs arbitrary: c)
  case (Cons x xs)
  then show ?case by (auto simp: bindR_Inr_iff list_all2_Cons1)
qed auto

lemma foldR_services:
  "foldR (\<lambda>x c. bindR (f x) (\<lambda>r. Inr (c\<lparr>bc_services := bc_services c @ [r]\<rparr>))) xs c = Inr c' \<longleftrightarrow>
     (\<exists>rs. c' = c\<lparr>bc_services := bc_services c @ rs\<rparr> \<and> list_all2 (\<lambda>x r. f x = Inr r) xs rs)"
proof (induction xs arbitrary: c)
  case (Cons x xs)
  then show ?case by (auto simp: bindR_Inr_iff list_all2_Cons1)
qed auto

end
