(* ===== verification/Bridge_Config.thy ===== *)
theory Bridge_Config
  imports Config_Loader Topic_Factory Zenoh_Transport
begin

text \<open>
  How \<^verbatim>\<open>BridgeFactory\<close> (\<^verbatim>\<open>src/bridge_factory.cpp\<close>) reads its configuration: the local host, the host
  table, the host selections of a route, the three zenoh sessions and the topics.  Each check that
  throws in the code is a \<open>Throws\<close> here; the conversion of a double out of the range of \<^verbatim>\<open>int\<close> is
  \<open>Undefined\<close>.
\<close>

section \<open>Values\<close>

definition trunc_real :: "real \<Rightarrow> int" where
  "trunc_real d = (if 0 \<le> d then \<lfloor>d\<rfloor> else \<lceil>d\<rceil>)"

definition XmlRpcToDouble :: "XmlRpcValue \<Rightarrow> real \<Rightarrow> real" where
  "XmlRpcToDouble v fallback =
     (case v of XInt i \<Rightarrow> real_of_int i | XDouble d \<Rightarrow> d | _ \<Rightarrow> fallback)"

definition XmlRpcToInt :: "XmlRpcValue \<Rightarrow> int \<Rightarrow> failure + int" where
  "XmlRpcToInt v fallback =
     (case v of
        XInt i \<Rightarrow> Inr i
      | XDouble d \<Rightarrow> if int_range (trunc_real d) then Inr (trunc_real d) else Inl Undefined
      | _ \<Rightarrow> Inr fallback)"

definition XmlRpcToBool :: "XmlRpcValue \<Rightarrow> bool \<Rightarrow> bool" where
  "XmlRpcToBool v fallback = (case v of XBool b \<Rightarrow> b | _ \<Rightarrow> fallback)"

definition XmlRpcToString :: "XmlRpcValue \<Rightarrow> string \<Rightarrow> string" where
  "XmlRpcToString v fallback = (case v of XString s \<Rightarrow> s | _ \<Rightarrow> fallback)"

fun strings_of :: "XmlRpcValue list \<Rightarrow> string list" where
  "strings_of [] = []"
| "strings_of (XString s # vs) = s # strings_of vs"
| "strings_of (_ # vs) = strings_of vs"

definition XmlRpcToStringVector :: "XmlRpcValue \<Rightarrow> string list" where
  "XmlRpcToStringVector v = (if \<not> is_array v then [] else strings_of (elements v))"

definition UsesEndpointProtocol :: "string \<Rightarrow> string \<Rightarrow> bool" where
  "UsesEndpointProtocol endpoint protocol = starts_with (protocol @ ''/'') endpoint"

definition TopicTransportName :: "bool \<Rightarrow> bool \<Rightarrow> string \<Rightarrow> string" where
  "TopicTransportName image_session_enabled cloud_session_enabled type =
     (if image_session_enabled \<and> type = ''sensor_msgs/Image'' then ''zenoh-udp''
      else if cloud_session_enabled \<and> type = ''sensor_msgs/PointCloud2'' then ''zenoh-cloud-tcp''
      else if image_session_enabled \<or> cloud_session_enabled then ''zenoh-tcp'' else ''zenoh'')"

fun ValidateEndpointProtocols :: "string list \<Rightarrow> string \<Rightarrow> string \<Rightarrow> failure + unit" where
  "ValidateEndpointProtocols [] protocol config_name = Inr ()"
| "ValidateEndpointProtocols (e # endpoints) protocol config_name =
     (if \<not> UsesEndpointProtocol e protocol then
        Inl (Throws (config_name @ '' endpoint must use '' @ protocol @ ''/: '' @ e))
      else ValidateEndpointProtocols endpoints protocol config_name)"

text \<open>\<open>x.hasMember(key) ? conv(x[key]) : absent\<close>\<close>

definition opt_member ::
  "XmlRpcLib \<Rightarrow> XmlRpcValue \<Rightarrow> string \<Rightarrow> (XmlRpcValue \<Rightarrow> failure + 'a) \<Rightarrow> 'a \<Rightarrow> failure + 'a" where
  "opt_member lib x key conv absent =
     (if has_member x key then bindR (member lib x key) conv else Inr absent)"

definition opt_bool :: "XmlRpcLib \<Rightarrow> XmlRpcValue \<Rightarrow> string \<Rightarrow> bool \<Rightarrow> bool \<Rightarrow> failure + bool" where
  "opt_bool lib x key fallback absent = opt_member lib x key (\<lambda>v. Inr (XmlRpcToBool v fallback)) absent"

definition opt_string :: "XmlRpcLib \<Rightarrow> XmlRpcValue \<Rightarrow> string \<Rightarrow> string \<Rightarrow> string \<Rightarrow> failure + string" where
  "opt_string lib x key fallback absent =
     opt_member lib x key (\<lambda>v. Inr (XmlRpcToString v fallback)) absent"

definition opt_strings :: "XmlRpcLib \<Rightarrow> XmlRpcValue \<Rightarrow> string \<Rightarrow> string list \<Rightarrow> failure + string list" where
  "opt_strings lib x key absent = opt_member lib x key (\<lambda>v. Inr (XmlRpcToStringVector v)) absent"

definition opt_int :: "XmlRpcLib \<Rightarrow> XmlRpcValue \<Rightarrow> string \<Rightarrow> int \<Rightarrow> int \<Rightarrow> failure + int" where
  "opt_int lib x key fallback absent = opt_member lib x key (\<lambda>v. XmlRpcToInt v fallback) absent"

definition opt_double :: "XmlRpcLib \<Rightarrow> XmlRpcValue \<Rightarrow> string \<Rightarrow> real \<Rightarrow> real \<Rightarrow> failure + real" where
  "opt_double lib x key fallback absent =
     opt_member lib x key (\<lambda>v. Inr (XmlRpcToDouble v fallback)) absent"

definition dec_int :: "int \<Rightarrow> string" where
  "dec_int i = (if i < 0 then ''-'' @ dec (nat (- i)) else dec (nat i))"

section \<open>Hosts\<close>

definition DRONE_ID_NULL :: int where "DRONE_ID_NULL = -9999"

text \<open>The host name and the drone number; \<open>env\<close> is the environment variable \<^verbatim>\<open>DRONE_ID\<close>.\<close>

definition getMyHostName ::
  "(string \<Rightarrow> XmlRpcValue option) \<Rightarrow> string option \<Rightarrow> failure + (string \<times> int)" where
  "getMyHostName params env =
     bindR (case getParam_string params ''hostname'' of
              Some h \<Rightarrow>
                if starts_with ''drone'' h then bindR (stoi (drop 5 h)) (\<lambda>i. Inr (h, i))
                else Inr (h, DRONE_ID_NULL)
            | None \<Rightarrow>
                (case env of
                   Some s \<Rightarrow> bindR (atoi s) (\<lambda>i. Inr (''drone'' @ dec_int i, i))
                 | None \<Rightarrow> Inl (Throws ''cannot find hostname parameter or DRONE_ID'')))
       (\<lambda>(h, i). bindR (throwIf (h = []) ''hostname cannot be empty'') (\<lambda>_. Inr (h, i)))"

definition select_host :: "XmlRpcLib \<Rightarrow> XmlRpcValue \<Rightarrow> bool smap \<Rightarrow> failure + bool smap" where
  "select_host lib v output =
     bindR (cast_string_const lib v) (\<lambda>selected.
       if selected = ''all'' then Inr (map (\<lambda>(h, _). (h, True)) output)
       else if selected = ''all_drone'' then
         Inr (map (\<lambda>(h, b). (h, b \<or> starts_with ''drone'' h)) output)
       else
         case mfind output selected of
           None \<Rightarrow> Inl (Throws (''unknown host in route: '' @ selected))
         | Some _ \<Rightarrow> Inr (mset_at selected True output))"

definition expandHostSelection ::
  "XmlRpcLib \<Rightarrow> XmlRpcValue \<Rightarrow> bool smap option \<Rightarrow> failure + bool smap" where
  "expandHostSelection lib selection output =
     (if output = None \<or> \<not> is_array selection then
        Inl (Throws ''srcIP/dstIP/clientIp must be an array'')
      else foldR (select_host lib) (elements selection) (the output))"

definition load_host_map ::
  "XmlRpcLib \<Rightarrow> (string \<Rightarrow> XmlRpcValue option) \<Rightarrow> string \<Rightarrow> failure + string smap" where
  "load_host_map lib params my_hostname =
     bindR (case params ''hosts'' of
              Some x \<Rightarrow>
                bindR (throwIf (\<not> is_array x) ''hosts must be an array'') (\<lambda>_.
                  foldR (\<lambda>v m. bindR (cast_string lib v) (\<lambda>h. Inr (mset_at h [] m))) (elements x) [])
            | None \<Rightarrow>
                (case struct_param params ''IP'' of
                   None \<Rightarrow> Inl (Throws ''hosts is required (legacy IP map is also accepted)'')
                 | Some x \<Rightarrow>
                     foldR (\<lambda>(h, v) m.
                       if h = ''all'' \<or> h = ''all_drone'' then Inr m
                       else bindR (cast_string lib v) (\<lambda>ip. Inr (mset_at h ip m))) (entries x) []))
       (\<lambda>hosts.
          bindR (throwIf (mfind hosts my_hostname = None)
                   ''local hostname is missing from hosts/IP configuration'') (\<lambda>_. Inr hosts))"

definition none_selected :: "string smap \<Rightarrow> bool smap" where
  "none_selected hosts = map (\<lambda>(h, _). (h, False)) hosts"

section \<open>Sessions\<close>

text \<open>Seeding the endpoints from the host table.\<close>

definition seed_endpoints ::
  "string \<Rightarrow> string \<Rightarrow> string \<Rightarrow> int \<Rightarrow> string smap \<Rightarrow> string list" where
  "seed_endpoints protocol trailer my_hostname port hosts =
     map (\<lambda>(h, ip). protocol @ ''/'' @ ip @ '':'' @ dec_int port @ trailer)
       (filter (\<lambda>(h, ip). h \<noteq> my_hostname \<and> ip \<noteq> []) hosts)"

definition seeded ::
  "XmlRpcLib \<Rightarrow> XmlRpcValue \<Rightarrow> string \<Rightarrow> string \<Rightarrow> int \<Rightarrow> string \<Rightarrow> string smap \<Rightarrow> string list \<Rightarrow>
     failure + string list" where
  "seeded lib x protocol trailer default_port my_hostname hosts connects =
     bindR (opt_bool lib x ''seed_from_ip_table'' False False) (\<lambda>seed.
     bindR (opt_int lib x ''seed_port'' default_port default_port) (\<lambda>port.
     Inr (connects @ (if seed then seed_endpoints protocol trailer my_hostname port hosts else []))))"

definition load_control ::
  "XmlRpcLib \<Rightarrow> string \<Rightarrow> string smap \<Rightarrow> XmlRpcValue \<Rightarrow> failure + ZenohTransportConfig" where
  "load_control lib my_hostname hosts x =
     (let d = default_zenoh_config in
      bindR (opt_string lib x ''mode'' ''peer'' (zc_mode d)) (\<lambda>mode.
      bindR (opt_bool lib x ''multicast_scouting'' True (zc_multicast_scouting d)) (\<lambda>multicast.
      bindR (opt_bool lib x ''gossip_scouting'' True (zc_gossip_scouting d)) (\<lambda>gossip.
      bindR (opt_bool lib x ''compression_enabled'' False (zc_compression_enabled d)) (\<lambda>compression.
      bindR (opt_string lib x ''multicast_address'' [] (zc_multicast_scouting_address d)) (\<lambda>address.
      bindR (opt_strings lib x ''listen_endpoints'' (zc_listen_endpoints d)) (\<lambda>listens.
      bindR (opt_strings lib x ''connect_endpoints'' (zc_connect_endpoints d)) (\<lambda>connects.
      bindR (opt_int lib x ''service_timeout_ms'' 1000 1000) (\<lambda>timeout.
      bindR (opt_int lib x ''service_worker_threads'' 2 2) (\<lambda>threads.
      bindR (opt_int lib x ''service_queue_capacity'' 64 64) (\<lambda>capacity.
      bindR (seeded lib x ''tcp'' [] 7447 my_hostname hosts connects) (\<lambda>connects.
      Inr (d\<lparr>zc_mode := mode, zc_multicast_scouting := multicast, zc_gossip_scouting := gossip,
             zc_compression_enabled := compression, zc_multicast_scouting_address := address,
             zc_listen_endpoints := listens, zc_connect_endpoints := connects,
             zc_service_timeout_ms := word_of_int (max 1 timeout),
             zc_service_worker_threads := word_of_int (max 1 threads),
             zc_service_queue_capacity := word_of_int (max 1 capacity)\<rparr>)))))))))))))"

definition validate_session ::
  "string \<Rightarrow> string \<Rightarrow> ZenohTransportConfig \<Rightarrow> failure + unit" where
  "validate_session protocol name c =
     bindR (ValidateEndpointProtocols (zc_listen_endpoints c) protocol (name @ '' listen''))
       (\<lambda>_. ValidateEndpointProtocols (zc_connect_endpoints c) protocol (name @ '' connect''))"

text \<open>The struct of a dedicated session when it is present and enabled.\<close>

definition enabled_session ::
  "XmlRpcLib \<Rightarrow> XmlRpcValue \<Rightarrow> string \<Rightarrow> failure + XmlRpcValue option" where
  "enabled_session lib x key =
     (if \<not> has_member x key then Inr None
      else
        bindR (member lib x key) (\<lambda>y.
        bindR (throwIf (\<not> is_struct y) (''zenoh.'' @ key @ '' must be a struct'')) (\<lambda>_.
        bindR (opt_bool lib y ''enabled'' False False) (\<lambda>enabled.
        Inr (if enabled then Some y else None)))))"

definition image_settings ::
  "XmlRpcLib \<Rightarrow> string \<Rightarrow> string smap \<Rightarrow> XmlRpcValue \<Rightarrow> ZenohTransportConfig \<Rightarrow>
     failure + ZenohTransportConfig" where
  "image_settings lib my_hostname hosts y control =
     bindR (opt_string lib y ''mode'' (zc_mode control) (zc_mode control)) (\<lambda>mode.
     bindR (opt_bool lib y ''multicast_scouting'' (zc_multicast_scouting control)
              (zc_multicast_scouting control)) (\<lambda>multicast.
     bindR (opt_bool lib y ''gossip_scouting'' (zc_gossip_scouting control)
              (zc_gossip_scouting control)) (\<lambda>gossip.
     bindR (opt_string lib y ''multicast_address'' []
              (zc_multicast_scouting_address control)) (\<lambda>address.
     bindR (opt_bool lib y ''compression_enabled'' False
              (zc_compression_enabled control)) (\<lambda>compression.
     bindR (opt_strings lib y ''listen_endpoints'' []) (\<lambda>listens.
     bindR (opt_strings lib y ''connect_endpoints'' []) (\<lambda>connects.
     bindR (seeded lib y ''udp'' ''?rel=1;mixed_rel=1;multistream=1'' 7448 my_hostname hosts
              connects) (\<lambda>connects.
     Inr (control\<lparr>zc_enable_liveliness := False, zc_service_worker_threads := 1,
            zc_service_queue_capacity := 1, zc_mode := mode, zc_multicast_scouting := multicast,
            zc_gossip_scouting := gossip, zc_multicast_scouting_address := address,
            zc_compression_enabled := compression, zc_listen_endpoints := listens,
            zc_connect_endpoints := connects, zc_allowed_link_protocols := [''udp'']\<rparr>)))))))))"

definition cloud_settings ::
  "XmlRpcLib \<Rightarrow> string \<Rightarrow> string smap \<Rightarrow> XmlRpcValue \<Rightarrow> ZenohTransportConfig \<Rightarrow>
     failure + ZenohTransportConfig" where
  "cloud_settings lib my_hostname hosts y control =
     bindR (opt_string lib y ''mode'' (zc_mode control) (zc_mode control)) (\<lambda>mode.
     bindR (opt_bool lib y ''multicast_scouting'' (zc_multicast_scouting control)
              (zc_multicast_scouting control)) (\<lambda>multicast.
     bindR (opt_bool lib y ''gossip_scouting'' (zc_gossip_scouting control)
              (zc_gossip_scouting control)) (\<lambda>gossip.
     bindR (opt_bool lib y ''compression_enabled'' False False) (\<lambda>compression.
     bindR (opt_string lib y ''multicast_address'' [] ''224.0.0.225:7446'') (\<lambda>address.
     bindR (opt_strings lib y ''listen_endpoints'' []) (\<lambda>listens.
     bindR (opt_strings lib y ''connect_endpoints'' []) (\<lambda>connects.
     bindR (seeded lib y ''tcp'' [] 7449 my_hostname hosts connects) (\<lambda>connects.
     Inr (control\<lparr>zc_enable_liveliness := False, zc_service_worker_threads := 1,
            zc_service_queue_capacity := 1, zc_mode := mode, zc_multicast_scouting := multicast,
            zc_gossip_scouting := gossip, zc_compression_enabled := compression,
            zc_multicast_scouting_address := address, zc_listen_endpoints := listens,
            zc_connect_endpoints := connects, zc_allowed_link_protocols := [''tcp'']\<rparr>)))))))))"

text \<open>The checks of a dedicated session; the control session is restricted to TCP links.\<close>

definition accept_session ::
  "string \<Rightarrow> string \<Rightarrow> string \<Rightarrow> ZenohTransportConfig \<Rightarrow> ZenohTransportConfig \<Rightarrow>
     failure + (bool \<times> ZenohTransportConfig \<times> ZenohTransportConfig)" where
  "accept_session protocol name missing control own =
     (let control = control\<lparr>zc_allowed_link_protocols := [''tcp'']\<rparr> in
      bindR (validate_session ''tcp'' ''zenoh control session'' control) (\<lambda>_.
      bindR (validate_session protocol name own) (\<lambda>_.
      bindR (throwIf (zc_listen_endpoints own = [] \<and> zc_connect_endpoints own = []) missing) (\<lambda>_.
      Inr (True, control, own)))))"

text \<open>The image and the cloud session: whether it is enabled, the control configuration, its own.\<close>

definition load_image ::
  "XmlRpcLib \<Rightarrow> string \<Rightarrow> string smap \<Rightarrow> XmlRpcValue \<Rightarrow> ZenohTransportConfig \<Rightarrow>
     failure + (bool \<times> ZenohTransportConfig \<times> ZenohTransportConfig)" where
  "load_image lib my_hostname hosts x control =
     bindR (enabled_session lib x ''image_session'') (\<lambda>session.
       case session of
         None \<Rightarrow> Inr (False, control, default_zenoh_config)
       | Some y \<Rightarrow>
           bindR (image_settings lib my_hostname hosts y control)
             (accept_session ''udp'' ''zenoh image session''
                ''zenoh.image_session requires at least one UDP listen or connect endpoint'' control))"

definition load_cloud ::
  "XmlRpcLib \<Rightarrow> string \<Rightarrow> string smap \<Rightarrow> XmlRpcValue \<Rightarrow> ZenohTransportConfig \<Rightarrow>
     failure + (bool \<times> ZenohTransportConfig \<times> ZenohTransportConfig)" where
  "load_cloud lib my_hostname hosts x control =
     bindR (enabled_session lib x ''cloud_session'') (\<lambda>session.
       case session of
         None \<Rightarrow> Inr (False, control, default_zenoh_config)
       | Some y \<Rightarrow>
           bindR (cloud_settings lib my_hostname hosts y control)
             (accept_session ''tcp'' ''zenoh cloud session''
                ''zenoh.cloud_session requires at least one TCP listen or connect endpoint'' control))"

record ZenohSetup =
  zs_control :: ZenohTransportConfig
  zs_image_enabled :: bool
  zs_image :: ZenohTransportConfig
  zs_cloud_enabled :: bool
  zs_cloud :: ZenohTransportConfig

definition valid_mode :: "ZenohTransportConfig \<Rightarrow> bool" where
  "valid_mode c \<longleftrightarrow> zc_mode c = ''peer'' \<or> zc_mode c = ''client'' \<or> zc_mode c = ''router''"

definition load_zenoh_setup ::
  "XmlRpcLib \<Rightarrow> (string \<Rightarrow> XmlRpcValue option) \<Rightarrow> string \<Rightarrow> string smap \<Rightarrow> failure + ZenohSetup" where
  "load_zenoh_setup lib params my_hostname hosts =
     bindR (case params ''zenoh'' of
              None \<Rightarrow>
                Inr \<lparr>zs_control = default_zenoh_config, zs_image_enabled = False,
                     zs_image = default_zenoh_config, zs_cloud_enabled = False,
                     zs_cloud = default_zenoh_config\<rparr>
            | Some x \<Rightarrow>
                bindR (throwIf (\<not> is_struct x) ''zenoh must be a struct'') (\<lambda>_.
                bindR (load_control lib my_hostname hosts x) (\<lambda>control.
                bindR (load_image lib my_hostname hosts x control) (\<lambda>(ie, control, pic).
                bindR (load_cloud lib my_hostname hosts x control) (\<lambda>(ce, control, cloud).
                Inr \<lparr>zs_control = control, zs_image_enabled = ie, zs_image = pic,
                     zs_cloud_enabled = ce, zs_cloud = cloud\<rparr>)))))
       (\<lambda>z.
          bindR (throwIf (\<not> valid_mode (zs_control z)) ''zenoh.mode must be peer, client, or router'') (\<lambda>_.
          bindR (throwIf (zs_image_enabled z \<and> \<not> valid_mode (zs_image z))
                   ''zenoh.image_session.mode must be peer, client, or router'') (\<lambda>_.
          bindR (throwIf (zs_cloud_enabled z \<and> \<not> valid_mode (zs_cloud z))
                   ''zenoh.cloud_session.mode must be peer, client, or router'') (\<lambda>_.
          Inr z))))"

section \<open>Topics\<close>

text \<open>The types of \<^verbatim>\<open>MSGS_MACRO\<close> that have a member \<^verbatim>\<open>to_drone_ids\<close>: none of the ROS types has.\<close>

definition drone_ids_types :: "string list" where
  "drone_ids_types = []"

definition clamp_quality :: "int \<Rightarrow> int" where
  "clamp_quality q = max 10 (min 100 q)"

definition load_image_topic ::
  "XmlRpcLib \<Rightarrow> XmlRpcValue \<Rightarrow> TopicCfg \<Rightarrow> failure + TopicCfg" where
  "load_image_topic lib x t =
     bindR (opt_double lib x ''imgResizeRate'' (tc_img_resize_rate t) (tc_img_resize_rate t)) (\<lambda>rate.
     bindR (opt_member lib x ''imgJpegQuality''
              (\<lambda>v. bindR (XmlRpcToInt v 80) (\<lambda>q. Inr (clamp_quality q))) (tc_img_jpeg_quality t)) (\<lambda>quality.
     bindR (opt_bool lib x ''imgAdaptiveQuality'' False (tc_img_adaptive_quality t)) (\<lambda>adaptive.
     bindR (opt_int lib x ''imgMinJpegQuality'' 45 (tc_img_min_jpeg_quality t)) (\<lambda>minq.
     bindR (opt_int lib x ''imgMaxJpegQuality'' 90 (tc_img_max_jpeg_quality t)) (\<lambda>maxq.
     bindR (opt_double lib x ''imgTargetBandwidthKbps'' 1200 (tc_img_target_bandwidth_kbps t)) (\<lambda>bandwidth.
     bindR (opt_member lib x ''imgQualityStep''
              (\<lambda>v. bindR (XmlRpcToInt v 5) (\<lambda>s. Inr (max 1 s))) (tc_img_quality_step t)) (\<lambda>qstep.
     bindR (opt_member lib x ''imgAdaptCooldownFrames''
              (\<lambda>v. bindR (XmlRpcToInt v 8) (\<lambda>f. Inr (max 1 f))) (tc_img_adapt_cooldown_frames t)) (\<lambda>cooldown.
     let minq = clamp_quality minq; maxq = max minq (min 100 maxq)
     in Inr (t\<lparr>tc_img_resize_rate := rate, tc_img_jpeg_quality := quality,
               tc_img_adaptive_quality := adaptive, tc_img_min_jpeg_quality := minq,
               tc_img_max_jpeg_quality := maxq, tc_img_target_bandwidth_kbps := bandwidth,
               tc_img_quality_step := qstep, tc_img_adapt_cooldown_frames := cooldown\<rparr>)))))))))"

definition load_cloud_topic ::
  "XmlRpcLib \<Rightarrow> XmlRpcValue \<Rightarrow> TopicCfg \<Rightarrow> failure + TopicCfg" where
  "load_cloud_topic lib x t =
     bindR (opt_bool lib x ''cloudCompress'' False (tc_cloud_compress t)) (\<lambda>compress.
     bindR (opt_member lib x ''cloudDownsample''
              (\<lambda>v. let d = XmlRpcToDouble v (-1)
                   in Inr (if d < 1 / 10000 \<or> d > 10000 then -1 else d)) (tc_cloud_downsample t)) (\<lambda>downsample.
     bindR (opt_string lib x ''cloudCodec'' ''raw'' (if compress then ''pcl_octree'' else ''raw'')) (\<lambda>codec.
     bindR (throwIf (compress \<and> codec \<noteq> ''draco'' \<and> codec \<noteq> ''pcl_octree'')
              ''cloudCodec must be draco or pcl_octree'') (\<lambda>_.
     Inr (t\<lparr>tc_cloud_compress := compress, tc_cloud_downsample := downsample,
            tc_cloud_codec := codec\<rparr>)))))"

definition quoted_slash :: string where
  "quoted_slash = [CHR 0x27, CHR ''/'', CHR 0x27]"

text \<open>The settings that every topic has.\<close>

definition load_topic_base ::
  "XmlRpcLib \<Rightarrow> string \<Rightarrow> bool smap \<Rightarrow> bool smap \<Rightarrow> XmlRpcValue \<Rightarrow> failure + TopicCfg" where
  "load_topic_base lib my_hostname src_map dst_map x =
     bindR (throwIf (\<not> is_struct x) ''each topic entry must be a struct'') (\<lambda>_.
     bindR (bindR (member lib x ''topic_name'') (cast_string lib)) (\<lambda>name.
     bindR (bindR (member lib x ''msg_type'') (cast_string lib)) (\<lambda>type.
     bindR (throwIf (take 1 name \<noteq> ''/'')
              (''topic_name must start with '' @ quoted_slash @ '': '' @ name)) (\<lambda>_.
     bindR (throwIf (\<not> has_member x ''qos_class'') (''qos_class is required for topic '' @ name)) (\<lambda>_.
     bindR (bindR (member lib x ''qos_class'') (cast_string lib)) (\<lambda>qos_name.
     case ParseQosClass qos_name (Some kState) of
       (ok, qos) \<Rightarrow>
     bindR (throwIf (\<not> ok \<or> the qos = kService)
              (''invalid topic qos_class for '' @ name @ '': '' @ qos_name)) (\<lambda>_.
     bindR (bindR (member lib x ''max_freq'') (\<lambda>v. Inr (XmlRpcToDouble v 10))) (\<lambda>freq.
     bindR (opt_bool lib x ''prefix'' True True) (\<lambda>pre.
     bindR (opt_bool lib x ''same_prefix'' False False) (\<lambda>same.
     bindR (member lib x ''srcIP'') (\<lambda>srcs.
     bindR (member lib x ''dstIP'') (\<lambda>dsts.
     bindR (expandHostSelection lib srcs (Some src_map)) (\<lambda>src_sel.
     bindR (expandHostSelection lib dsts (Some dst_map)) (\<lambda>dst_sel.
     Inr (default_topic_cfg
           \<lparr>tc_my_hostname := my_hostname, tc_name := name, tc_wire_name := name, tc_type := type,
            tc_qos_class := the qos, tc_max_freq := freq, tc_has_prefix := pre,
            tc_same_prefix := same, tc_src_hostnames_xml := srcs, tc_dst_hostnames_xml := dsts,
            tc_src_hostname_map := src_sel, tc_dst_hostname_map := dst_sel\<rparr>)))))))))))))))"

definition load_topic_cfg ::
  "XmlRpcLib \<Rightarrow> string \<Rightarrow> bool smap \<Rightarrow> bool smap \<Rightarrow> XmlRpcValue \<Rightarrow> failure + TopicCfg" where
  "load_topic_cfg lib my_hostname src_map dst_map x =
     bindR (load_topic_base lib my_hostname src_map dst_map x) (\<lambda>t.
     bindR (if tc_type t = ''sensor_msgs/Image'' then load_image_topic lib x t else Inr t) (\<lambda>t.
     bindR (if tc_type t = ''sensor_msgs/PointCloud2'' then load_cloud_topic lib x t else Inr t) (\<lambda>t.
     Inr (t\<lparr>tc_dynamic_dst := (tc_type t \<in> set drone_ids_types)\<rparr>))))"

record HostTopicConfig =
  ht_host_map :: "string smap"
  ht_setup :: ZenohSetup
  ht_topic_cfgs :: "TopicCfg list"

definition getHostTopicAndTransportConfig ::
  "XmlRpcLib \<Rightarrow> (string \<Rightarrow> XmlRpcValue option) \<Rightarrow> string \<Rightarrow> failure + HostTopicConfig" where
  "getHostTopicAndTransportConfig lib params my_hostname =
     bindR (load_host_map lib params my_hostname) (\<lambda>hosts.
     bindR (load_zenoh_setup lib params my_hostname hosts) (\<lambda>setup.
     let topics_xml = (case params ''topics'' of None \<Rightarrow> XArray [] | Some x \<Rightarrow> x)
     in bindR (throwIf (\<not> is_array topics_xml) ''topics must be an array'') (\<lambda>_.
        bindR (mapR (load_topic_cfg lib my_hostname (none_selected hosts) (none_selected hosts))
                 (elements topics_xml)) (\<lambda>cfgs.
        Inr \<lparr>ht_host_map = hosts, ht_setup = setup, ht_topic_cfgs = cfgs\<rparr>))))"

end
