(* ===== verification/Bridge_Factory.thy ===== *)
theory Bridge_Factory
  imports Bridge_Config Service_Factory Diagnostics_Cache
begin

text \<open>
  \<^verbatim>\<open>BridgeFactory\<close> of \<^verbatim>\<open>src/bridge_factory.cpp\<close>: the node.  From the configuration it opens the zenoh
  sessions, creates the topic ends and the service ends, starts and stops them and publishes the
  diagnostics.  \<open>NodeLib\<close> holds what is outside: name resolution of ROS, whether the sessions open
  and whether declarations in them succeed.
\<close>

section \<open>State\<close>

datatype SessionId = ControlSession | ImageSession | CloudSession

record NodeLib =
  nl_xml :: XmlRpcLib
  nl_resolve :: "string \<Rightarrow> failure + string"
  nl_open :: "SessionId \<Rightarrow> bool"
  nl_watch :: "SessionId \<Rightarrow> bool"
  nl_announce :: "SessionId \<Rightarrow> bool"
  nl_declare_publisher :: "SessionId \<Rightarrow> string \<Rightarrow> QosClass \<Rightarrow> bool"
  nl_declare_queryable :: "string \<Rightarrow> string + unit"

record BridgeFactory =
  bf_my_hostname :: string
  bf_do_odom_convert :: bool
  bf_is_debug :: bool
  bf_my_drone_id :: int
  bf_config :: HostTopicConfig
  bf_send_topics :: "TopicFactory smap"
  bf_recv_topics :: "TopicFactory smap"
  bf_service_servers :: "ServiceFactory smap"
  bf_service_clients :: "ServiceFactory smap"
  bf_control :: "ZenohImpl option"
  bf_image :: "ZenohImpl option"
  bf_cloud :: "ZenohImpl option"
  bf_diagnostics :: bool
  bf_stopped :: bool

definition thrown :: "string + 'a \<Rightarrow> failure + 'a" where
  "thrown r = (case r of Inl e \<Rightarrow> Inl (Throws e) | Inr x \<Rightarrow> Inr x)"

section \<open>Topics\<close>

definition transportForTopic :: "TopicCfg \<Rightarrow> BridgeFactory \<Rightarrow> failure + SessionId" where
  "transportForTopic topic b =
     (let s = ht_setup (bf_config b) in
      if zs_image_enabled s \<and> tc_type topic = ''sensor_msgs/Image'' then
        (if bf_image b = None then Inl (Throws ''image Zenoh session is not initialized'')
         else Inr ImageSession)
      else if zs_cloud_enabled s \<and> tc_type topic = ''sensor_msgs/PointCloud2'' then
        (if bf_cloud b = None then Inl (Throws ''cloud Zenoh session is not initialized'')
         else Inr CloudSession)
      else if bf_control b = None then Inl (Throws ''control Zenoh session is not initialized'')
      else Inr ControlSession)"

definition drone_prefix :: string where
  "drone_prefix = ''/drone_{id}''"

definition with_drone_id :: "int \<Rightarrow> string \<Rightarrow> string" where
  "with_drone_id i name = ''/drone_'' @ dec_int i @ drop (length drone_prefix) name"

definition topic_transport :: "TopicCfg \<Rightarrow> BridgeFactory \<Rightarrow> string" where
  "topic_transport topic b =
     TopicTransportName (zs_image_enabled (ht_setup (bf_config b)))
       (zs_cloud_enabled (ht_setup (bf_config b))) (tc_type topic)"

definition create_topic ::
  "NodeLib \<Rightarrow> SendOrRecv \<Rightarrow> ros_time \<Rightarrow> TopicCfg \<Rightarrow> BridgeFactory \<Rightarrow> failure + TopicFactory" where
  "create_topic lib dir now topic b =
     bindR (transportForTopic topic b) (\<lambda>sid.
       thrown (TopicFactory_create (nl_declare_publisher lib sid) topic True dir now))"

definition init_sender ::
  "NodeLib \<Rightarrow> ros_time \<Rightarrow> TopicCfg \<Rightarrow> BridgeFactory \<Rightarrow> failure + BridgeFactory" where
  "init_sender lib now configured b =
     (if mfind (tc_src_hostname_map configured) (bf_my_hostname b) \<noteq> Some True then Inr b
      else
        let topic = configured
              \<lparr>tc_name := (if starts_with drone_prefix (tc_name configured) \<and>
                              bf_my_drone_id b \<noteq> DRONE_ID_NULL
                           then with_drone_id (bf_my_drone_id b) (tc_name configured)
                           else tc_name configured)\<rparr>
        in bindR (nl_resolve lib (tc_name topic)) (\<lambda>raw.
           let topic = topic\<lparr>tc_raw_name := raw, tc_src_hostname := bf_my_hostname b,
                             tc_transport_name := topic_transport topic b\<rparr>
           in bindR (create_topic lib SEND now topic b) (\<lambda>t.
              Inr (b\<lparr>bf_send_topics := mset_at (tc_name topic) t (bf_send_topics b)\<rparr>))))"

text \<open>The configuration of the receiver of a topic from one source host.\<close>

definition recv_topic_cfg ::
  "NodeLib \<Rightarrow> TopicCfg \<Rightarrow> string \<Rightarrow> BridgeFactory \<Rightarrow> failure + TopicCfg" where
  "recv_topic_cfg lib configured source b =
     bindR (if \<not> starts_with drone_prefix (tc_name configured) then Inr (tc_name configured)
            else if \<not> starts_with ''drone'' source then
              Inl (Throws ''{id} topic source must be a drone host'')
            else
              bindR (if tc_dynamic_dst configured then Inr (bf_my_drone_id b)
                     else stoi (drop 5 source))
                (\<lambda>i. Inr (with_drone_id i (tc_name configured)))) (\<lambda>name.
     bindR (nl_resolve lib name) (\<lambda>raw.
       let full = (if tc_has_prefix configured \<and> \<not> tc_same_prefix configured
                   then ''/'' @ source @ name
                   else if tc_same_prefix configured then ''/bridge'' @ name else name)
       in Inr (configured\<lparr>tc_name := full, tc_raw_name := raw, tc_src_hostname := source,
                          tc_transport_name := topic_transport configured b\<rparr>)))"

fun init_receivers ::
  "NodeLib \<Rightarrow> ros_time \<Rightarrow> TopicCfg \<Rightarrow> string list \<Rightarrow> BridgeFactory \<Rightarrow> failure + BridgeFactory" where
  "init_receivers lib now configured [] b = Inr b"
| "init_receivers lib now configured (source # sources) b =
     (if source = bf_my_hostname b \<and> \<not> bf_is_debug b then
        init_receivers lib now configured sources b
      else
        case mfind (tc_src_hostname_map configured) source of
          None \<Rightarrow> Inl (Throws ''map::at'')
        | Some False \<Rightarrow> init_receivers lib now configured sources b
        | Some True \<Rightarrow>
            bindR (recv_topic_cfg lib configured source b) (\<lambda>topic.
            bindR (throwIf (mfind (bf_recv_topics b) (tc_name topic) \<noteq> None)
                     (''duplicate receive ROS topic: '' @ tc_name topic)) (\<lambda>_.
            bindR (create_topic lib RECV now topic b) (\<lambda>t.
              let b = b\<lparr>bf_recv_topics := mset_at (tc_name topic) t (bf_recv_topics b)\<rparr>
              in if tc_dynamic_dst topic then Inr b
                 else init_receivers lib now configured sources b))))"

definition init_receiver ::
  "NodeLib \<Rightarrow> ros_time \<Rightarrow> TopicCfg \<Rightarrow> BridgeFactory \<Rightarrow> failure + BridgeFactory" where
  "init_receiver lib now configured b =
     (case mfind (tc_dst_hostname_map configured) (bf_my_hostname b) of
        None \<Rightarrow> Inl (Throws ''map::at'')
      | Some False \<Rightarrow> Inr b
      | Some True \<Rightarrow> init_receivers lib now configured (map fst (ht_host_map (bf_config b))) b)"

definition topicOperatorInit ::
  "NodeLib \<Rightarrow> ros_time \<Rightarrow> BridgeFactory \<Rightarrow> failure + BridgeFactory" where
  "topicOperatorInit lib now b =
     bindR (foldR (init_sender lib now) (ht_topic_cfgs (bf_config b)) b)
       (foldR (init_receiver lib now) (ht_topic_cfgs (bf_config b)))"

section \<open>Services\<close>

definition init_service ::
  "NodeLib \<Rightarrow> XmlRpcValue \<Rightarrow> BridgeFactory \<Rightarrow> failure + BridgeFactory" where
  "init_service lib x b =
     (let xl = nl_xml lib; hosts = ht_host_map (bf_config b) in
      bindR (bindR (member xl x ''srv_name'') (cast_string xl)) (\<lambda>service_name.
      bindR (bindR (member xl x ''srv_type'') (cast_string xl)) (\<lambda>service_type.
      bindR (bindR (member xl x ''serverIp'') (cast_string xl)) (\<lambda>server_hostname.
      bindR (throwIf (take 1 service_name \<noteq> ''/'')
               (''srv_name must start with '' @ quoted_slash @ '': '' @ service_name)) (\<lambda>_.
      bindR (throwIf (mfind hosts server_hostname = None)
               (''unknown service server host: '' @ server_hostname)) (\<lambda>_.
      bindR (bindR (member xl x ''clientIp'')
               (\<lambda>sel. expandHostSelection xl sel (Some (none_selected hosts)))) (\<lambda>client_hosts.
      let i_am_server = (server_hostname = bf_my_hostname b);
          i_am_client = (mfind client_hosts (bf_my_hostname b) = Some True)
      in bindR (throwIf (i_am_server \<and> i_am_client)
                  (''a host cannot be both client and server for '' @ service_name)) (\<lambda>_.
         bindR (opt_bool xl x ''prefix'' True True) (\<lambda>if_prefix.
         let config =
               \<lparr>sc_service_name = service_name,
                sc_service_prefix_name =
                  (if if_prefix then ''/'' @ server_hostname @ service_name else service_name),
                sc_service_type = service_type, sc_server_hostname = server_hostname,
                sc_my_hostname = bf_my_hostname b, sc_client_hostnames = client_hosts,
                sc_timeout_ms = zc_service_timeout_ms (zs_control (ht_setup (bf_config b))),
                sc_if_prefix = if_prefix\<rparr>;
             make = (\<lambda>role. thrown (ServiceFactory_create (nl_declare_queryable lib) role config
                                      (bf_control b \<noteq> None)))
         in if i_am_server then
              bindR (make SERVER) (\<lambda>sf.
                Inr (b\<lparr>bf_service_servers := mset_at service_name sf (bf_service_servers b)\<rparr>))
            else if i_am_client then
              bindR (make CLIENT) (\<lambda>sf.
                Inr (b\<lparr>bf_service_clients := mset_at service_name sf (bf_service_clients b)\<rparr>))
            else Inr b)))))))))"

definition getServiceConfigAndInit ::
  "NodeLib \<Rightarrow> (string \<Rightarrow> XmlRpcValue option) \<Rightarrow> BridgeFactory \<Rightarrow> failure + BridgeFactory" where
  "getServiceConfigAndInit lib params b =
     (let services_xml = (case params ''services'' of None \<Rightarrow> XArray [] | Some x \<Rightarrow> x)
      in bindR (throwIf (\<not> is_array services_xml) ''services must be an array'') (\<lambda>_.
         foldR (init_service lib) (elements services_xml) b))"

section \<open>Construction\<close>

definition open_session ::
  "NodeLib \<Rightarrow> SessionId \<Rightarrow> nat \<Rightarrow> ZenohTransportConfig \<Rightarrow> string \<Rightarrow> failure + ZenohImpl" where
  "open_session lib sid now config hostname =
     thrown (Impl_create (nl_open lib sid) (nl_watch lib sid) (nl_announce lib sid) now config hostname)"

definition BridgeFactory_create ::
  "NodeLib \<Rightarrow> (string \<Rightarrow> XmlRpcValue option) \<Rightarrow> string option \<Rightarrow> nat \<Rightarrow> failure + BridgeFactory" where
  "BridgeFactory_create lib params env now =
     (case struct_param params ''config'' of
        None \<Rightarrow> Inl (Throws ''cannot find valid private ~config parameter'')
      | Some config \<Rightarrow>
          bindR (opt_bool (nl_xml lib) config ''odom_convert'' True True) (\<lambda>odom.
          bindR (opt_bool (nl_xml lib) config ''debug'' False False) (\<lambda>debug.
          bindR (getMyHostName params env) (\<lambda>(h, i).
          bindR (getHostTopicAndTransportConfig (nl_xml lib) params h) (\<lambda>ht.
          bindR (open_session lib ControlSession now (zs_control (ht_setup ht)) h) (\<lambda>control.
          bindR (if zs_image_enabled (ht_setup ht)
                 then bindR (open_session lib ImageSession now (zs_image (ht_setup ht)) h)
                        (\<lambda>z. Inr (Some z)) else Inr None) (\<lambda>pic.
          bindR (if zs_cloud_enabled (ht_setup ht)
                 then bindR (open_session lib CloudSession now (zs_cloud (ht_setup ht)) h)
                        (\<lambda>z. Inr (Some z)) else Inr None) (\<lambda>cloud.
          bindR (topicOperatorInit lib now
                   \<lparr>bf_my_hostname = h, bf_do_odom_convert = odom, bf_is_debug = debug,
                    bf_my_drone_id = i, bf_config = ht, bf_send_topics = [], bf_recv_topics = [],
                    bf_service_servers = [], bf_service_clients = [], bf_control = Some control,
                    bf_image = pic, bf_cloud = cloud, bf_diagnostics = False, bf_stopped = False\<rparr>) (\<lambda>b.
          getServiceConfigAndInit lib params (b\<lparr>bf_diagnostics := True\<rparr>))))))))))"

section \<open>Running\<close>

text \<open>Starting the receivers in the order of the map; a failing subscription ends the loop with its
  exception.  \<open>missed name\<close> says whether the worker of that receiver misses the notification of the
  thread that ends it.\<close>

fun start_receivers ::
  "(TopicCfg \<Rightarrow> string \<Rightarrow> bool) \<Rightarrow> (string \<Rightarrow> bool) \<Rightarrow> TopicFactory smap \<Rightarrow>
     ((string + unit) \<times> TopicFactory smap) Joined" where
  "start_receivers subscribe_ok missed [] = Returns (Inr (), [])"
| "start_receivers subscribe_ok missed ((name, t) # receivers) =
     (case createThread (subscribe_ok (tf_cfg t)) (missed name) t of
        Hangs \<Rightarrow> Hangs
      | Returns (Inl e, t) \<Rightarrow> Returns (Inl e, (name, t) # receivers)
      | Returns (Inr _, t) \<Rightarrow>
          (case start_receivers subscribe_ok missed receivers of
             Hangs \<Rightarrow> Hangs
           | Returns (r, receivers) \<Rightarrow> Returns (r, (name, t) # receivers)))"

definition startBridge ::
  "(TopicCfg \<Rightarrow> string \<Rightarrow> bool) \<Rightarrow> (string \<Rightarrow> bool) \<Rightarrow> BridgeFactory \<Rightarrow>
     ((string + unit) \<times> BridgeFactory) Joined" where
  "startBridge subscribe_ok missed b =
     (case start_receivers subscribe_ok missed (bf_recv_topics b) of
        Hangs \<Rightarrow> Hangs
      | Returns (r, receivers) \<Rightarrow> Returns (r, b\<lparr>bf_recv_topics := receivers\<rparr>))"

text \<open>What stopping a list of topic ends still delivers; \<open>None\<close> when a codec is undefined, \<open>Hangs\<close>
  when one of them never returns.\<close>

fun stop_topics ::
  "('pose, 'o) RosLib \<Rightarrow> (nat \<Rightarrow> ros_time) \<Rightarrow> (string \<Rightarrow> bool) \<Rightarrow> TopicFactory smap \<Rightarrow>
     ('pose, 'o) RosMessage option list Joined option" where
  "stop_topics lib clock missed [] = Some (Returns [])"
| "stop_topics lib clock missed ((name, t) # topics) =
     do { r \<leftarrow> stopThread lib clock (missed name) t;
          (case r of
             Hangs \<Rightarrow> Some Hangs
           | Returns (ms, _) \<Rightarrow>
               do { rest \<leftarrow> stop_topics lib clock missed topics;
                    Some (case rest of Hangs \<Rightarrow> Hangs | Returns ms' \<Rightarrow> Returns (ms @ ms')) }) }"

definition close_session ::
  "ZenohImpl option \<Rightarrow> (string \<times> TransportEnvelope) list \<times> ZenohImpl option" where
  "close_session z = (case z of None \<Rightarrow> ([], None) | Some z \<Rightarrow> map_prod id Some (Close z))"

definition closed_bridge :: "BridgeFactory \<Rightarrow> BridgeFactory" where
  "closed_bridge b =
     b\<lparr>bf_stopped := True, bf_diagnostics := False, bf_service_clients := [],
       bf_service_servers := [], bf_recv_topics := [], bf_send_topics := [],
       bf_image := snd (close_session (bf_image b)),
       bf_cloud := snd (close_session (bf_cloud b)),
       bf_control := snd (close_session (bf_control b))\<rparr>"

definition stopBridge ::
  "('pose, 'o) RosLib \<Rightarrow> (nat \<Rightarrow> ros_time) \<Rightarrow> (string \<Rightarrow> bool) \<Rightarrow> BridgeFactory \<Rightarrow>
     (('pose, 'o) RosMessage option list \<times> BridgeFactory) Joined option" where
  "stopBridge lib clock missed b =
     (if bf_stopped b then Some (Returns ([], b))
      else do { r \<leftarrow> stop_topics lib clock missed (bf_recv_topics b);
                (case r of
                   Hangs \<Rightarrow> Some Hangs
                 | Returns ms \<Rightarrow>
                     do { r' \<leftarrow> stop_topics lib clock missed (bf_send_topics b);
                          Some (case r' of
                                  Hangs \<Rightarrow> Hangs
                                | Returns ms' \<Rightarrow> Returns (ms @ ms', closed_bridge b)) }) })"

section \<open>Diagnostics\<close>

definition default_stats :: TransportStats where
  "default_stats =
     \<lparr>st_session_open = False, st_link_connected = False, st_connected_peer_count = 0,
      st_connected_router_count = 0, st_reconnect_count = 0, st_receive_decode_errors = 0,
      st_callback_drops = 0, st_service_timeouts = 0, st_service_queue_drops = 0\<rparr>"

text \<open>The info of one topic end (\<^verbatim>\<open>append_metrics\<close>): the metrics with the state of its session.\<close>

definition topic_info ::
  "TransportStats \<Rightarrow> TransportStats \<Rightarrow> TransportStats \<Rightarrow> TopicMetrics \<Rightarrow> NetworkInfo" where
  "topic_info control_stats image_stats cloud_stats m =
     (let s = (if tm_transport m = ''zenoh-udp'' then image_stats
               else if tm_transport m = ''zenoh-cloud-tcp'' then cloud_stats else control_stats)
      in default_info
        \<lparr>ni_name := tm_topic_name m, ni_msg_type := tm_msg_type m, ni_direction := tm_direction m,
         ni_codec := tm_codec m, ni_transport := tm_transport m, ni_qos_class := tm_qos_class m,
         ni_configured_rate_hz := tm_configured_rate_hz m, ni_send_rate_hz := tm_send_rate_hz m,
         ni_recv_rate_hz := tm_recv_rate_hz m, ni_bandwidth_kbps := tm_bandwidth_kbps m,
         ni_effective_recv_bandwidth_kbps := tm_effective_recv_bandwidth_kbps m,
         ni_image_loss_rate_pct := tm_image_loss_rate_pct m,
         ni_complete_frame_success_rate_pct := tm_complete_frame_success_rate_pct m,
         ni_avg_latency_ms := tm_avg_latency_ms m, ni_jitter_ms := tm_jitter_ms m,
         ni_stability_score := tm_stability_score m, ni_last_recv_age_ms := tm_last_recv_age_ms m,
         ni_adaptive_quality_enabled := tm_adaptive_quality_enabled m,
         ni_configured_jpeg_quality := tm_configured_jpeg_quality m,
         ni_current_jpeg_quality := tm_current_jpeg_quality m,
         ni_target_bandwidth_kbps := tm_target_bandwidth_kbps m,
         ni_packet_size := tm_packet_size m, ni_total_messages := ucast (tm_total_messages m),
         ni_dropped_messages := ucast (tm_dropped_messages m),
         ni_transport_queue_drops := tm_transport_queue_drops m,
         ni_expected_frames := tm_expected_frames m,
         ni_transport_complete_frames := tm_transport_complete_frames m,
         ni_decoded_frames := tm_decoded_frames m,
         ni_inferred_lost_frames := tm_inferred_lost_frames m,
         ni_sequence_resets := tm_sequence_resets m,
         ni_session_connected := st_session_open s, ni_link_connected := st_link_connected s,
         ni_connected_peer_count := st_connected_peer_count s,
         ni_connected_router_count := st_connected_router_count s\<rparr>)"

definition session_info :: "string \<Rightarrow> string \<Rightarrow> string \<Rightarrow> TransportStats \<Rightarrow> NetworkInfo" where
  "session_info name dir transport_name s =
     default_info
       \<lparr>ni_name := name, ni_msg_type := ''transport'', ni_direction := dir, ni_codec := ''none'',
        ni_transport := transport_name,
        ni_qos_class := (if dir = ''image'' \<or> dir = ''cloud'' then ''bulk'' else ''service''),
        ni_session_connected := st_session_open s, ni_link_connected := st_link_connected s,
        ni_connected_peer_count := st_connected_peer_count s,
        ni_connected_router_count := st_connected_router_count s,
        ni_reconnect_count := st_reconnect_count s,
        ni_transport_queue_drops := st_callback_drops s + st_service_queue_drops s,
        ni_service_timeouts := st_service_timeouts s,
        ni_decode_errors := st_receive_decode_errors s\<rparr>"

definition presence_info :: "TransportStats \<Rightarrow> NodePresence \<Rightarrow> NetworkInfo" where
  "presence_info s node =
     default_info
       \<lparr>ni_name := ''@zenoh/node/'' @ np_hostname node, ni_msg_type := ''presence'',
        ni_direction := (if np_online node then ''online'' else ''offline''),
        ni_codec := ''none'', ni_transport := ''zenoh-liveliness'',
        ni_node_hostname := np_hostname node, ni_node_online := np_online node,
        ni_node_state_age_ms := np_state_age_ms node,
        ni_node_online_transitions := np_online_transitions node,
        ni_session_connected := st_session_open s, ni_link_connected := st_link_connected s\<rparr>"

text \<open>Polling one session; \<open>counts sid\<close> is what zenoh answers for peers and routers.\<close>

definition poll_session ::
  "(u64 option \<times> u64 option) \<Rightarrow> ZenohImpl option \<Rightarrow> TransportStats \<times> ZenohImpl option" where
  "poll_session counts z =
     (case z of
        None \<Rightarrow> (default_stats, None)
      | Some z \<Rightarrow> (case Stats (fst counts) (snd counts) z of (s, z) \<Rightarrow> (s, Some z)))"

fun topic_infos ::
  "(TopicMetrics \<Rightarrow> NetworkInfo) \<Rightarrow> ros_time \<Rightarrow> TopicFactory smap \<Rightarrow>
     NetworkInfo list \<times> TopicFactory smap" where
  "topic_infos info now [] = ([], [])"
| "topic_infos info now ((name, t) # topics) =
     (case GetMetricsSnapshot now (tf_metrics t) of
        (m, s) \<Rightarrow>
          (case topic_infos info now topics of
             (infos, topics) \<Rightarrow> (info m # infos, (name, t\<lparr>tf_metrics := s\<rparr>) # topics)))"

definition publishDiagnostics ::
  "(SessionId \<Rightarrow> u64 option \<times> u64 option) \<Rightarrow> ros_time \<Rightarrow> nat \<Rightarrow> BridgeFactory \<Rightarrow>
     (Header \<times> NetworkInfo list) \<times> BridgeFactory" where
  "publishDiagnostics counts now steady b =
     (let (control_stats, control) = poll_session (counts ControlSession) (bf_control b);
          (image_stats, pic) = poll_session (counts ImageSession) (bf_image b);
          (cloud_stats, cloud) = poll_session (counts CloudSession) (bf_cloud b);
          info = topic_info control_stats image_stats cloud_stats;
          (sends, senders) = topic_infos info now (bf_send_topics b);
          (recvs, receivers) = topic_infos info now (bf_recv_topics b);
          setup = ht_setup (bf_config b);
          sessions =
            (if control \<noteq> None
             then [session_info ''@zenoh/session/control'' ''control''
                     (if zs_image_enabled setup \<or> zs_cloud_enabled setup then ''zenoh-tcp''
                      else ''zenoh'') control_stats] else []) @
            (if pic \<noteq> None
             then [session_info ''@zenoh/session/image'' ''image'' ''zenoh-udp'' image_stats] else []) @
            (if cloud \<noteq> None
             then [session_info ''@zenoh/session/cloud'' ''cloud'' ''zenoh-cloud-tcp'' cloud_stats]
             else []);
          nodes = (case control of None \<Rightarrow> []
                   | Some z \<Rightarrow> map (presence_info control_stats) (Presence steady z))
      in ((default_header\<lparr>hdr_stamp := now, hdr_frame_id := bf_my_hostname b\<rparr>,
           sends @ recvs @ sessions @ nodes),
          b\<lparr>bf_control := control, bf_image := pic, bf_cloud := cloud,
            bf_send_topics := senders, bf_recv_topics := receivers\<rparr>))"

end
