(* ===== verification/Bridge_Properties.thy ===== *)
theory Bridge_Properties
  imports Bridge_Factory
begin

text \<open>
  What the configuration of a node guarantees once it has been accepted: which hosts a route
  selects, what every topic and every session satisfies, and that the ends the nodes create fit
  together.
\<close>

section \<open>Host selection\<close>

definition selects :: "string list \<Rightarrow> string \<Rightarrow> bool" where
  "selects names h \<longleftrightarrow>
     ''all'' \<in> set names \<or> ''all_drone'' \<in> set names \<and> starts_with ''drone'' h \<or>
     h \<in> set names - {''all'', ''all_drone''}"

definition unknown_host :: "bool smap \<Rightarrow> string \<Rightarrow> bool" where
  "unknown_host hosts n \<longleftrightarrow> n \<noteq> ''all'' \<and> n \<noteq> ''all_drone'' \<and> mfind hosts n = None"

lemma mset_at_known:
  "map_ok m \<Longrightarrow> mfind m k \<noteq> None \<Longrightarrow> mset_at k True m = map (\<lambda>(h, b). (h, b \<or> h = k)) m"
proof (induction m)
  case (Cons a m)
  obtain h b where a: "a = (h, b)" by (cases a)
  show ?case
  proof (cases "h = k")
    case True
    then have "\<forall>x \<in> set m. fst x \<noteq> k" using Cons.prems a by (auto simp: map_ok_def)
    then have "map (\<lambda>(h, b). (h, b \<or> h = k)) m = m" by (intro map_idI) auto
    then show ?thesis using True a by simp
  next
    case False
    then have k: "mfind m k \<noteq> None" using Cons.prems a by simp
    then have "k \<in> fst ` set m" by (metis mfind_None_iff)
    then have "h < k" using Cons.prems(1) a by (auto simp: map_ok_def)
    then show ?thesis using False a Cons.IH k Cons.prems(1) by (simp add: map_ok_def)
  qed
qed simp

lemma map_fst_select: "map fst (map (\<lambda>(h, b). (h, f h b)) m) = map fst m"
  by (induction m) auto

lemma mfind_select: "mfind (map (\<lambda>(h, b). (h, f h b)) m) k = map_option (f k) (mfind m k)"
  by (induction m) auto

text \<open>One name of the selection.\<close>

lemma select_host_name:
  assumes "xmlrpc_ok lib" and "map_ok hosts"
  shows "select_host lib (XString n) hosts =
    (if unknown_host hosts n then Inl (Throws (''unknown host in route: '' @ n))
     else Inr (map (\<lambda>(h, b). (h, b \<or> selects [n] h)) hosts))"
proof -
  note c = cast_string_const_ok [OF assms(1)]
  consider "n = ''all''" | "n = ''all_drone''" | "n \<noteq> ''all''" "n \<noteq> ''all_drone''" by blast
  then show ?thesis
  proof cases
    case 3
    then show ?thesis
      using mset_at_known [OF assms(2), of n]
      by (cases "mfind hosts n")
        (auto simp: select_host_def c unknown_host_def selects_def)
  qed (simp_all add: select_host_def c unknown_host_def selects_def)
qed

lemma selects_Cons: "selects (n # ns) h \<longleftrightarrow> selects [n] h \<or> selects ns h"
  by (auto simp: selects_def)

lemma foldR_select:
  assumes "xmlrpc_ok lib"
  shows "map_ok hosts \<Longrightarrow> foldR (select_host lib) (map XString names) hosts =
    (case List.find (unknown_host hosts) names of
       Some n \<Rightarrow> Inl (Throws (''unknown host in route: '' @ n))
     | None \<Rightarrow> Inr (map (\<lambda>(h, b). (h, b \<or> selects names h)) hosts))"
proof (induction names arbitrary: hosts)
  case Nil
  have "map (\<lambda>(h, b). (h, b \<or> selects [] h)) hosts = hosts"
    by (rule map_idI) (auto simp: selects_def)
  then show ?case by simp
next
  case (Cons n names)
  let ?h = "map (\<lambda>(h, b). (h, b \<or> selects [n] h)) hosts"
  have ok: "map_ok ?h" using Cons.prems map_fst_select [of "\<lambda>h b. b \<or> selects [n] h" hosts]
    by (simp only: map_ok_def)
  have u: "unknown_host ?h = unknown_host hosts"
    using mfind_select [of "\<lambda>h b. b \<or> selects [n] h" hosts] by (auto simp: unknown_host_def fun_eq_iff)
  have m: "map (\<lambda>(h, b). (h, b \<or> selects names h)) ?h =
      map (\<lambda>(h, b). (h, b \<or> selects (n # names) h)) hosts"
    using selects_Cons [of n names] by (simp add: comp_def case_prod_beta)
  show ?case
    using select_host_name [OF assms Cons.prems, of n] Cons.IH [OF ok] u m
    by (simp split: option.splits)
qed

text \<open>C18: A host selection of a route selects exactly the hosts it names: all of them for \<open>all\<close>,
  those whose name starts with \<open>drone\<close> for \<open>all_drone\<close>, and the hosts listed; hosts selected
  before stay selected, no host is added, and the first unknown name makes it fail.\<close>

theorem host_selection:
  assumes "xmlrpc_ok lib \<and> map_ok hosts"
  shows "expandHostSelection lib (XArray (map XString names)) (Some hosts) =
    (case List.find (unknown_host hosts) names of
       Some n \<Rightarrow> Inl (Throws (''unknown host in route: '' @ n))
     | None \<Rightarrow> Inr (map (\<lambda>(h, b). (h, b \<or> selects names h)) hosts))"
  using foldR_select [of lib hosts names] assms by (simp add: expandHostSelection_def)

text \<open>A library that reads values as documented.\<close>

definition plain_xml :: XmlRpcLib where
  "plain_xml =
     \<lparr>xr_string = (\<lambda>v. case v of XString s \<Rightarrow> Some s | XInvalid \<Rightarrow> Some [] | _ \<Rightarrow> None),
      xr_string_const = (\<lambda>v. case v of XString s \<Rightarrow> Some s | _ \<Rightarrow> None),
      xr_bool = (\<lambda>v. case v of XBool b \<Rightarrow> Some b | _ \<Rightarrow> None),
      xr_index = (\<lambda>v k. case v of
         XStruct m \<Rightarrow> Some (case map_of m k of None \<Rightarrow> XInvalid | Some x \<Rightarrow> x) | _ \<Rightarrow> None)\<rparr>"

lemma plain_xml_ok: "xmlrpc_ok plain_xml"
  by (simp add: xmlrpc_ok_def plain_xml_def)

lemma host_selection_witness:
  "expandHostSelection plain_xml (XArray (map XString [''all_drone'', ''ground'']))
     (Some [(''drone1'', False), (''ground'', False), (''pc'', False)]) =
   Inr [(''drone1'', True), (''ground'', True), (''pc'', False)]"
proof -
  have "map_ok [(''drone1'', False), (''ground'', False), (''pc'', False)]"
    by (simp add: map_ok_def list_less_def lexordp_def less_char_def)
  then show ?thesis
    using host_selection [of plain_xml "[(''drone1'', False), (''ground'', False), (''pc'', False)]"
        "[''all_drone'', ''ground'']"] plain_xml_ok
    by (simp add: unknown_host_def selects_def starts_with_def)
qed

section \<open>Topics\<close>

lemma map_ok_keys: "map fst m = map fst m' \<Longrightarrow> map_ok m = map_ok m'"
  by (simp add: map_ok_def)

lemma mset_at_known_keys: "map_ok m \<Longrightarrow> mfind m k \<noteq> None \<Longrightarrow> map fst (mset_at k True m) = map fst m"
  using mset_at_known [of m k] map_fst_select [of "\<lambda>h b. b \<or> h = k" m] by simp

lemma select_host_keys:
  assumes "select_host lib v hosts = Inr m" and "map_ok hosts"
  shows "map fst m = map fst hosts"
proof -
  have "map fst (map (\<lambda>(h, _). (h, True)) hosts) = map fst hosts"
    using map_fst_select [of "\<lambda>_ _. True" hosts] by (simp add: case_prod_beta comp_def)
  then show ?thesis
    using assms mset_at_known_keys map_fst_select [of "\<lambda>h b. b \<or> starts_with ''drone'' h" hosts]
    by (auto simp: select_host_def split: if_splits option.splits)
qed

lemma expandHostSelection_keys:
  assumes "expandHostSelection lib sel (Some hosts) = Inr m" and "map_ok hosts"
  shows "map fst m = map fst hosts"
proof -
  have f: "foldR (select_host lib) (elements sel) hosts = Inr m"
    using assms(1) by (simp add: expandHostSelection_def split: if_splits)
  have "map_ok m \<and> map fst m = map fst hosts"
    by (rule foldR_invariant [OF f, of "\<lambda>s. map_ok s \<and> map fst s = map fst hosts"])
      (use assms(2) in \<open>auto dest: select_host_keys map_ok_keys [OF select_host_keys]\<close>)
  then show ?thesis by blast
qed

definition topic_cfg_wf :: "string \<Rightarrow> string smap \<Rightarrow> TopicCfg \<Rightarrow> bool" where
  "topic_cfg_wf my_hostname hosts t \<longleftrightarrow>
     tc_my_hostname t = my_hostname \<and> take 1 (tc_name t) = ''/'' \<and> tc_wire_name t = tc_name t \<and>
     tc_qos_class t \<noteq> kService \<and> \<not> tc_dynamic_dst t \<and>
     10 \<le> tc_img_min_jpeg_quality t \<and> tc_img_min_jpeg_quality t \<le> tc_img_max_jpeg_quality t \<and>
     tc_img_max_jpeg_quality t \<le> 100 \<and>
     10 \<le> tc_img_jpeg_quality t \<and> tc_img_jpeg_quality t \<le> 100 \<and>
     1 \<le> tc_img_quality_step t \<and> 1 \<le> tc_img_adapt_cooldown_frames t \<and>
     (tc_cloud_compress t \<longrightarrow> tc_type t = ''sensor_msgs/PointCloud2'' \<and>
        (tc_cloud_codec t = ''draco'' \<or> tc_cloud_codec t = ''pcl_octree'')) \<and>
     (tc_cloud_downsample t = -1 \<or>
        1 / 10000 \<le> tc_cloud_downsample t \<and> tc_cloud_downsample t \<le> 10000) \<and>
     map fst (tc_src_hostname_map t) = map fst hosts \<and>
     map fst (tc_dst_hostname_map t) = map fst hosts"

text \<open>The image section changes only the image settings and leaves them in range.\<close>

definition image_settings_wf :: "TopicCfg \<Rightarrow> bool" where
  "image_settings_wf t \<longleftrightarrow>
     10 \<le> tc_img_min_jpeg_quality t \<and> tc_img_min_jpeg_quality t \<le> tc_img_max_jpeg_quality t \<and>
     tc_img_max_jpeg_quality t \<le> 100 \<and> 10 \<le> tc_img_jpeg_quality t \<and> tc_img_jpeg_quality t \<le> 100 \<and>
     1 \<le> tc_img_quality_step t \<and> 1 \<le> tc_img_adapt_cooldown_frames t"

lemma clamp_quality_range: "10 \<le> clamp_quality q" "clamp_quality q \<le> 100"
  by (simp_all add: clamp_quality_def)

lemma opt_member_Inr:
  assumes "opt_member lib x k conv d = Inr y" and "P d" and "\<And>v. conv v = Inr y \<Longrightarrow> P y"
  shows "P y"
  using assms by (auto simp: opt_member_def split: if_splits)

lemma load_image_topic_wf:
  assumes "load_image_topic lib x t = Inr t'" and "image_settings_wf t"
  shows "image_settings_wf t' \<and>
    (\<exists>r q a mi ma b s c. t' = t\<lparr>tc_img_resize_rate := r, tc_img_jpeg_quality := q,
       tc_img_adaptive_quality := a, tc_img_min_jpeg_quality := mi, tc_img_max_jpeg_quality := ma,
       tc_img_target_bandwidth_kbps := b, tc_img_quality_step := s,
       tc_img_adapt_cooldown_frames := c\<rparr>)"
proof -
  obtain r q a mi ma b s c where
    q: "opt_member lib x ''imgJpegQuality''
          (\<lambda>v. bindR (XmlRpcToInt v 80) (\<lambda>q. Inr (clamp_quality q))) (tc_img_jpeg_quality t) = Inr q"
    and s: "opt_member lib x ''imgQualityStep''
          (\<lambda>v. bindR (XmlRpcToInt v 5) (\<lambda>s. Inr (max 1 s))) (tc_img_quality_step t) = Inr s"
    and c: "opt_member lib x ''imgAdaptCooldownFrames''
          (\<lambda>v. bindR (XmlRpcToInt v 8) (\<lambda>f. Inr (max 1 f))) (tc_img_adapt_cooldown_frames t) = Inr c"
    and t': "t' = t\<lparr>tc_img_resize_rate := r, tc_img_jpeg_quality := q, tc_img_adaptive_quality := a,
       tc_img_min_jpeg_quality := clamp_quality mi,
       tc_img_max_jpeg_quality := max (clamp_quality mi) (min 100 ma),
       tc_img_target_bandwidth_kbps := b, tc_img_quality_step := s,
       tc_img_adapt_cooldown_frames := c\<rparr>"
    using assms(1) unfolding load_image_topic_def bindR_eq_Inr Let_def Inr_inject by blast
  have "10 \<le> q \<and> q \<le> 100"
    by (rule opt_member_Inr [OF q]) (use assms(2) clamp_quality_range in \<open>auto simp: image_settings_wf_def\<close>)
  moreover have "1 \<le> s"
    by (rule opt_member_Inr [OF s]) (use assms(2) in \<open>auto simp: image_settings_wf_def\<close>)
  moreover have "1 \<le> c"
    by (rule opt_member_Inr [OF c]) (use assms(2) in \<open>auto simp: image_settings_wf_def\<close>)
  moreover have "clamp_quality mi \<le> max (clamp_quality mi) (min 100 ma)"
    "max (clamp_quality mi) (min 100 ma) \<le> 100"
    using clamp_quality_range [of mi] by simp_all
  ultimately have "image_settings_wf t'"
    using clamp_quality_range [of mi] unfolding t' image_settings_wf_def by simp
  then show ?thesis using t' by blast
qed

lemma load_cloud_topic_wf:
  assumes "load_cloud_topic lib x t = Inr t'" and "tc_cloud_downsample t = -1"
  shows "(tc_cloud_compress t' \<longrightarrow> tc_cloud_codec t' = ''draco'' \<or> tc_cloud_codec t' = ''pcl_octree'') \<and>
    (tc_cloud_downsample t' = -1 \<or> 1 / 10000 \<le> tc_cloud_downsample t' \<and> tc_cloud_downsample t' \<le> 10000) \<and>
    (\<exists>a b c. t' = t\<lparr>tc_cloud_compress := a, tc_cloud_downsample := b, tc_cloud_codec := c\<rparr>)"
proof -
  obtain a b c where
    b: "opt_member lib x ''cloudDownsample''
          (\<lambda>v. let d = XmlRpcToDouble v (-1)
               in Inr (if d < 1 / 10000 \<or> d > 10000 then -1 else d)) (tc_cloud_downsample t) = Inr b"
    and g: "\<not> (a \<and> c \<noteq> ''draco'' \<and> c \<noteq> ''pcl_octree'')"
    and t': "t' = t\<lparr>tc_cloud_compress := a, tc_cloud_downsample := b, tc_cloud_codec := c\<rparr>"
    using assms(1) unfolding load_cloud_topic_def bindR_eq_Inr throwIf_Inr Inr_inject by blast
  have "b = -1 \<or> 1 / 10000 \<le> b \<and> b \<le> 10000"
    by (rule opt_member_Inr [OF b]) (use assms(2) in \<open>auto simp: Let_def split: if_splits\<close>)
  then show ?thesis using g t' by auto
qed

lemma load_topic_base_wf:
  assumes "load_topic_base lib my_hostname src_map dst_map x = Inr t"
    and "map_ok src_map \<and> map_ok dst_map"
  shows "tc_my_hostname t = my_hostname \<and> take 1 (tc_name t) = ''/'' \<and> tc_wire_name t = tc_name t \<and>
    tc_qos_class t \<noteq> kService \<and> image_settings_wf t \<and> \<not> tc_cloud_compress t \<and>
    tc_cloud_downsample t = -1 \<and> map fst (tc_src_hostname_map t) = map fst src_map \<and>
    map fst (tc_dst_hostname_map t) = map fst dst_map"
proof -
  obtain name qos_name freq pre same srcs dsts src_sel dst_sel type where
    n: "\<not> (take 1 name \<noteq> ''/'')"
    and q: "\<not> (\<not> fst (ParseQosClass qos_name (Some kState)) \<or>
          the (snd (ParseQosClass qos_name (Some kState))) = kService)"
    and s: "expandHostSelection lib srcs (Some src_map) = Inr src_sel"
    and d: "expandHostSelection lib dsts (Some dst_map) = Inr dst_sel"
    and t: "t = default_topic_cfg
           \<lparr>tc_my_hostname := my_hostname, tc_name := name, tc_wire_name := name, tc_type := type,
            tc_qos_class := the (snd (ParseQosClass qos_name (Some kState))), tc_max_freq := freq,
            tc_has_prefix := pre, tc_same_prefix := same, tc_src_hostnames_xml := srcs,
            tc_dst_hostnames_xml := dsts, tc_src_hostname_map := src_sel, tc_dst_hostname_map := dst_sel\<rparr>"
    using assms(1) unfolding load_topic_base_def case_prod_beta
    by (elim bindR_InrE throwIf_InrE) (rule that, assumption+, drule Inr_inject, erule sym)
  have "image_settings_wf t" "\<not> tc_cloud_compress t" "tc_cloud_downsample t = -1"
    by (simp_all add: t image_settings_wf_def default_topic_cfg_def)
  then show ?thesis
    using n q expandHostSelection_keys [OF s] expandHostSelection_keys [OF d] assms(2)
    by (simp add: t)
qed

lemma load_topic_cfg_wf:
  assumes "load_topic_cfg lib my_hostname (none_selected hosts) (none_selected hosts) x = Inr t"
    and "map_ok hosts"
  shows "topic_cfg_wf my_hostname hosts t"
proof -
  have "map fst (none_selected hosts) = map fst hosts"
    by (simp add: none_selected_def case_prod_beta comp_def)
  then have keys: "map_ok (none_selected hosts)" "map fst (none_selected hosts) = map fst hosts"
    using assms(2) by (simp_all add: map_ok_def)
  obtain t0 t1 t2 where
    t0: "load_topic_base lib my_hostname (none_selected hosts) (none_selected hosts) x = Inr t0"
    and t1: "(if tc_type t0 = ''sensor_msgs/Image'' then load_image_topic lib x t0 else Inr t0) = Inr t1"
    and t2: "(if tc_type t1 = ''sensor_msgs/PointCloud2'' then load_cloud_topic lib x t1 else Inr t1) = Inr t2"
    and t: "t = t2\<lparr>tc_dynamic_dst := (tc_type t2 \<in> set drone_ids_types)\<rparr>"
    using assms(1) unfolding load_topic_cfg_def
    by (elim bindR_InrE) (rule that, assumption+, drule Inr_inject, erule sym)
  note b = load_topic_base_wf [OF t0 conjI [OF keys(1) keys(1)], unfolded keys(2)]
  have i: "image_settings_wf t1 \<and> tc_my_hostname t1 = my_hostname \<and> take 1 (tc_name t1) = ''/'' \<and>
      tc_wire_name t1 = tc_name t1 \<and> tc_qos_class t1 \<noteq> kService \<and> \<not> tc_cloud_compress t1 \<and>
      tc_cloud_downsample t1 = -1 \<and> map fst (tc_src_hostname_map t1) = map fst hosts \<and>
      map fst (tc_dst_hostname_map t1) = map fst hosts"
  proof (cases "tc_type t0 = ''sensor_msgs/Image''")
    case True
    then have "load_image_topic lib x t0 = Inr t1" using t1 by simp
    from load_image_topic_wf [OF this] b show ?thesis by auto
  next
    case False
    then show ?thesis using t1 b by simp
  qed
  show ?thesis
  proof (cases "tc_type t1 = ''sensor_msgs/PointCloud2''")
    case True
    then have "load_cloud_topic lib x t1 = Inr t2" using t2 by simp
    from load_cloud_topic_wf [OF this] i True show ?thesis
      by (auto simp: t topic_cfg_wf_def image_settings_wf_def drone_ids_types_def)
  next
    case False
    then show ?thesis using t2 i
      by (auto simp: t topic_cfg_wf_def image_settings_wf_def drone_ids_types_def)
  qed
qed

lemma load_host_map_ok: "load_host_map lib params my_hostname = Inr hosts \<Longrightarrow> map_ok hosts"
proof -
  have step: "foldR (\<lambda>v m. bindR (f v) (\<lambda>h. Inr (mset_at (k v h) (w v h) m))) xs [] = Inr m \<Longrightarrow> map_ok m"
    for f :: "'v \<Rightarrow> failure + string" and k w xs and m :: "string smap"
    by (erule foldR_invariant) (auto simp: map_ok_mset_at map_ok_def [of "[]"])
  have step': "foldR (\<lambda>(h, v) m. if p h then Inr m else bindR (f v) (\<lambda>ip. Inr (mset_at h ip m))) xs [] = Inr m \<Longrightarrow>
      map_ok m"
    for p :: "string \<Rightarrow> bool" and f :: "'v \<Rightarrow> failure + string" and xs and m :: "string smap"
    by (erule foldR_invariant) (auto simp: map_ok_mset_at map_ok_def [of "[]"] split: if_splits)
  show "load_host_map lib params my_hostname = Inr hosts \<Longrightarrow> ?thesis"
    unfolding load_host_map_def by (auto split: option.splits dest: step step')
qed

lemma mapR_elements: "mapR f xs = Inr ys \<Longrightarrow> y \<in> set ys \<Longrightarrow> \<exists>x \<in> set xs. f x = Inr y"
  by (induction xs arbitrary: ys) auto

text \<open>C20: Every topic of an accepted configuration is well formed: an absolute name that is also the
  wire name, a topic QoS class, ordered JPEG bounds and a JPEG quality within 10 to 100, positive
  adaptation steps, a known codec for compressed clouds, a usable leaf size, and source and
  destination tables over exactly the configured hosts.\<close>

theorem topic_config_wf:
  assumes "getHostTopicAndTransportConfig lib params my_hostname = Inr c"
  shows "list_all (topic_cfg_wf my_hostname (ht_host_map c)) (ht_topic_cfgs c)"
proof -
  obtain hosts xs cfgs where h: "load_host_map lib params my_hostname = Inr hosts"
    and m: "mapR (load_topic_cfg lib my_hostname (none_selected hosts) (none_selected hosts)) xs = Inr cfgs"
    and c: "ht_host_map c = hosts" "ht_topic_cfgs c = cfgs"
    using assms unfolding getHostTopicAndTransportConfig_def Let_def
    by (elim bindR_InrE throwIf_InrE) (rule that, assumption+, drule Inr_inject, auto)
  show ?thesis
    unfolding c list_all_iff
    using mapR_elements [OF m] load_topic_cfg_wf [OF _ load_host_map_ok [OF h]] by blast
qed

text \<open>A small configuration: two hosts and one string topic from \<open>a\<close> to \<open>b\<close>.\<close>

definition sample_topic_xml :: XmlRpcValue where
  "sample_topic_xml = XStruct
     [(''topic_name'', XString ''/chat''), (''msg_type'', XString ''std_msgs/String''),
      (''qos_class'', XString ''command''), (''max_freq'', XInt 20),
      (''srcIP'', XArray [XString ''a'']), (''dstIP'', XArray [XString ''b''])]"

definition sample_params :: "string \<Rightarrow> XmlRpcValue option" where
  "sample_params = map_of
     [(''config'', XStruct []), (''hosts'', XArray [XString ''a'', XString ''b'']),
      (''topics'', XArray [sample_topic_xml])]"

definition sample_topic_cfg :: "string \<Rightarrow> TopicCfg" where
  "sample_topic_cfg host = default_topic_cfg
     \<lparr>tc_my_hostname := host, tc_name := ''/chat'', tc_wire_name := ''/chat'',
      tc_type := ''std_msgs/String'', tc_qos_class := kCommand, tc_max_freq := 20,
      tc_has_prefix := True, tc_same_prefix := False,
      tc_src_hostnames_xml := XArray [XString ''a''], tc_dst_hostnames_xml := XArray [XString ''b''],
      tc_src_hostname_map := [(''a'', True), (''b'', False)],
      tc_dst_hostname_map := [(''a'', False), (''b'', True)], tc_dynamic_dst := False\<rparr>"

lemma less_a_b: "''a'' < ''b''" "\<not> ''b'' < ''a''"
  by (simp_all add: list_less_def lexordp_def less_char_def)

lemma sample_hosts:
  "h = ''a'' \<or> h = ''b'' \<Longrightarrow> load_host_map plain_xml sample_params h = Inr [(''a'', []), (''b'', [])]"
  by (auto simp: load_host_map_def sample_params_def cast_string_def or_throw_def plain_xml_def
      throwIf_def less_a_b)

lemma sample_select:
  "expandHostSelection plain_xml (XArray [XString ''a'']) (Some [(''a'', False), (''b'', False)]) =
     Inr [(''a'', True), (''b'', False)]"
  "expandHostSelection plain_xml (XArray [XString ''b'']) (Some [(''a'', False), (''b'', False)]) =
     Inr [(''a'', False), (''b'', True)]"
  by (simp_all add: expandHostSelection_def select_host_def cast_string_const_def or_throw_def
      plain_xml_def less_a_b)

lemma sample_load_topic:
  "load_topic_cfg plain_xml h [(''a'', False), (''b'', False)] [(''a'', False), (''b'', False)]
     sample_topic_xml = Inr (sample_topic_cfg h)"
proof -
  have m: "member plain_xml (XStruct m) k = Inr (case map_of m k of None \<Rightarrow> XInvalid | Some x \<Rightarrow> x)" for m k
    by (simp add: member_def or_throw_def plain_xml_def)
  have s: "cast_string plain_xml (XString s) = Inr s" for s
    by (simp add: cast_string_def or_throw_def plain_xml_def)
  show ?thesis
    by (simp add: load_topic_cfg_def load_topic_base_def sample_topic_xml_def m s opt_bool_def
        opt_member_def throwIf_def ParseQosClass_def XmlRpcToDouble_def sample_select
        sample_topic_cfg_def drone_ids_types_def)
qed

lemma sample_setup:
  "load_zenoh_setup plain_xml sample_params h hosts =
     Inr \<lparr>zs_control = default_zenoh_config, zs_image_enabled = False, zs_image = default_zenoh_config,
          zs_cloud_enabled = False, zs_cloud = default_zenoh_config\<rparr>"
  by (simp add: load_zenoh_setup_def sample_params_def throwIf_def valid_mode_def default_zenoh_config_def)

lemma sample_config:
  "h = ''a'' \<or> h = ''b'' \<Longrightarrow>
    \<exists>c. getHostTopicAndTransportConfig plain_xml sample_params h = Inr c \<and>
      ht_host_map c = [(''a'', []), (''b'', [])] \<and> ht_topic_cfgs c = [sample_topic_cfg h] \<and>
      \<not> zs_image_enabled (ht_setup c) \<and> \<not> zs_cloud_enabled (ht_setup c)"
  by (simp add: getHostTopicAndTransportConfig_def sample_hosts sample_setup none_selected_def
      sample_load_topic throwIf_def Let_def)
    (simp add: sample_params_def sample_load_topic)

lemma topic_config_wf_witness:
  "\<exists>c. getHostTopicAndTransportConfig plain_xml sample_params ''a'' = Inr c \<and>
     ht_topic_cfgs c = [sample_topic_cfg ''a''] \<and>
     topic_cfg_wf ''a'' [(''a'', []), (''b'', [])] (sample_topic_cfg ''a'')"
proof -
  obtain c where c: "getHostTopicAndTransportConfig plain_xml sample_params ''a'' = Inr c"
    "ht_host_map c = [(''a'', []), (''b'', [])]" "ht_topic_cfgs c = [sample_topic_cfg ''a'']"
    using sample_config [of "''a''"] by blast
  then show ?thesis using topic_config_wf [OF c(1)] by simp
qed

section \<open>Sessions\<close>

lemma ValidateEndpointProtocols_iff:
  "ValidateEndpointProtocols es protocol name = Inr () \<longleftrightarrow>
     list_all (\<lambda>e. starts_with (protocol @ ''/'') e) es"
  by (induction es) (simp_all add: UsesEndpointProtocol_def)

lemma validate_session_Inr:
  "validate_session protocol name c = Inr u \<Longrightarrow>
     list_all (starts_with (protocol @ ''/'')) (zc_listen_endpoints c @ zc_connect_endpoints c)"
  by (auto simp: validate_session_def ValidateEndpointProtocols_iff)

text \<open>What a dedicated session is: no liveliness, its link protocol only, at least one endpoint.\<close>

definition dedicated :: "string \<Rightarrow> ZenohTransportConfig \<Rightarrow> bool" where
  "dedicated protocol c \<longleftrightarrow>
     \<not> zc_enable_liveliness c \<and> zc_allowed_link_protocols c = [protocol] \<and>
     list_all (starts_with (protocol @ ''/'')) (zc_listen_endpoints c @ zc_connect_endpoints c) \<and>
     zc_listen_endpoints c @ zc_connect_endpoints c \<noteq> []"

definition tcp_only :: "ZenohTransportConfig \<Rightarrow> bool" where
  "tcp_only c \<longleftrightarrow> zc_allowed_link_protocols c = [''tcp''] \<and>
     list_all (starts_with ''tcp/'') (zc_listen_endpoints c @ zc_connect_endpoints c)"

lemma accept_session_wf:
  assumes "accept_session protocol name missing control own = Inr (e, control', own')"
    and "\<not> zc_enable_liveliness own \<and> zc_allowed_link_protocols own = [protocol]"
  shows "e \<and> dedicated protocol own' \<and> own' = own \<and> tcp_only control' \<and>
    control' = control\<lparr>zc_allowed_link_protocols := [''tcp'']\<rparr>"
  using assms unfolding accept_session_def Let_def dedicated_def tcp_only_def
  by (elim bindR_InrE throwIf_InrE) (auto dest!: validate_session_Inr)

lemma image_settings_wf:
  assumes "image_settings lib my_hostname hosts y control = Inr pic"
  shows "\<not> zc_enable_liveliness pic \<and> zc_allowed_link_protocols pic = [''udp'']"
  using assms unfolding image_settings_def by (elim bindR_InrE) (drule Inr_inject, hypsubst, simp)

lemma cloud_settings_wf:
  assumes "cloud_settings lib my_hostname hosts y control = Inr c"
  shows "\<not> zc_enable_liveliness c \<and> zc_allowed_link_protocols c = [''tcp'']"
  using assms unfolding cloud_settings_def by (elim bindR_InrE) (drule Inr_inject, hypsubst, simp)

lemma load_image_session:
  assumes "load_image lib my_hostname hosts x control = Inr (e, control', pic)"
  shows "if e then dedicated ''udp'' pic \<and> tcp_only control' \<and>
      control' = control\<lparr>zc_allowed_link_protocols := [''tcp'']\<rparr> else control' = control"
  using assms unfolding load_image_def
  by (elim bindR_InrE)
    (auto split: option.splits dest!: accept_session_wf [OF _ image_settings_wf] elim!: bindR_InrE)

lemma load_cloud_session:
  assumes "load_cloud lib my_hostname hosts x control = Inr (e, control', c)"
  shows "if e then dedicated ''tcp'' c \<and> tcp_only control' \<and>
      control' = control\<lparr>zc_allowed_link_protocols := [''tcp'']\<rparr> else control' = control"
  using assms unfolding load_cloud_def
  by (elim bindR_InrE)
    (auto split: option.splits dest!: accept_session_wf [OF _ cloud_settings_wf] elim!: bindR_InrE)

text \<open>C21: When the dedicated image or cloud session is enabled, it uses only endpoints and links of
  its own protocol (UDP for images, TCP for clouds) and has at least one endpoint, it does not take
  part in the liveliness protocol, and the control session is confined to TCP; all enabled sessions
  have a valid mode, and a session is never half configured.\<close>

theorem session_isolation:
  assumes "load_zenoh_setup lib params my_hostname hosts = Inr z"
  shows "valid_mode (zs_control z) \<and>
    (zs_image_enabled z \<longrightarrow> valid_mode (zs_image z) \<and> dedicated ''udp'' (zs_image z)) \<and>
    (zs_cloud_enabled z \<longrightarrow> valid_mode (zs_cloud z) \<and> dedicated ''tcp'' (zs_cloud z)) \<and>
    (zs_image_enabled z \<or> zs_cloud_enabled z \<longrightarrow> tcp_only (zs_control z))"
proof -
  define z0 where "z0 =
    \<lparr>zs_control = default_zenoh_config, zs_image_enabled = False, zs_image = default_zenoh_config,
     zs_cloud_enabled = False, zs_cloud = default_zenoh_config\<rparr>"
  have modes: "valid_mode (zs_control z) \<and> (zs_image_enabled z \<longrightarrow> valid_mode (zs_image z)) \<and>
      (zs_cloud_enabled z \<longrightarrow> valid_mode (zs_cloud z))"
    using assms unfolding load_zenoh_setup_def by (elim bindR_InrE throwIf_InrE) auto
  have "z = z0 \<or> (\<exists>x c1 ie c2 pic ce c3 cloud.
      load_image lib my_hostname hosts x c1 = Inr (ie, c2, pic) \<and>
      load_cloud lib my_hostname hosts x c2 = Inr (ce, c3, cloud) \<and>
      z = \<lparr>zs_control = c3, zs_image_enabled = ie, zs_image = pic, zs_cloud_enabled = ce, zs_cloud = cloud\<rparr>)"
  proof (cases "params ''zenoh''")
    case None
    then show ?thesis using assms unfolding load_zenoh_setup_def z0_def
      by (elim bindR_InrE) simp
  next
    case (Some x)
    then show ?thesis using assms unfolding load_zenoh_setup_def
      by (auto elim!: bindR_InrE throwIf_InrE)
  qed
  then show ?thesis
  proof (elim disjE exE conjE)
    assume "z = z0"
    then show ?thesis using modes by (simp add: z0_def)
  next
    fix x c1 ie c2 pic ce c3 cloud
    assume i: "load_image lib my_hostname hosts x c1 = Inr (ie, c2, pic)"
      and c: "load_cloud lib my_hostname hosts x c2 = Inr (ce, c3, cloud)"
      and z: "z = \<lparr>zs_control = c3, zs_image_enabled = ie, zs_image = pic, zs_cloud_enabled = ce, zs_cloud = cloud\<rparr>"
    show ?thesis
      using load_image_session [OF i] load_cloud_session [OF c] modes z
      by (cases ie; cases ce) auto
  qed
qed

definition image_params :: "string \<Rightarrow> XmlRpcValue option" where
  "image_params = map_of
     [(''zenoh'', XStruct
        [(''image_session'', XStruct
            [(''enabled'', XBool True), (''listen_endpoints'', XArray [XString ''udp/0.0.0.0:7448''])])])]"

lemma session_isolation_witness:
  "\<exists>z. load_zenoh_setup plain_xml image_params ''a'' [] = Inr z \<and> zs_image_enabled z \<and>
     zc_listen_endpoints (zs_image z) = [''udp/0.0.0.0:7448''] \<and>
     dedicated ''udp'' (zs_image z) \<and> tcp_only (zs_control z)"
proof -
  have m: "member plain_xml (XStruct m) k = Inr (case map_of m k of None \<Rightarrow> XInvalid | Some x \<Rightarrow> x)" for m k
    by (simp add: member_def or_throw_def plain_xml_def)
  note opts = opt_bool_def opt_string_def opt_strings_def opt_int_def opt_member_def m seeded_def throwIf_def
  have c: "load_control plain_xml ''a'' [] (the (image_params ''zenoh'')) =
      Inr (default_zenoh_config\<lparr>zc_service_timeout_ms := 1000, zc_service_worker_threads := 2,
        zc_service_queue_capacity := 64\<rparr>)" (is "_ = Inr ?c")
    by (simp add: load_control_def image_params_def opts default_zenoh_config_def)
  let ?y = "XStruct [(''enabled'', XBool True), (''listen_endpoints'', XArray [XString ''udp/0.0.0.0:7448''])]"
  have e: "enabled_session plain_xml (the (image_params ''zenoh'')) ''image_session'' = Inr (Some ?y)"
    by (simp add: enabled_session_def image_params_def opts XmlRpcToBool_def)
  obtain pic where s: "image_settings plain_xml ''a'' [] ?y ?c = Inr pic"
    and p: "zc_listen_endpoints pic = [''udp/0.0.0.0:7448'']" "zc_connect_endpoints pic = []"
      "valid_mode pic"
    by (simp add: image_settings_def opts valid_mode_def default_zenoh_config_def XmlRpcToStringVector_def)
  have ends: "zc_listen_endpoints default_zenoh_config = []" "zc_connect_endpoints default_zenoh_config = []"
    by (simp_all add: default_zenoh_config_def)
  have i: "load_image plain_xml ''a'' [] (the (image_params ''zenoh'')) ?c =
      Inr (True, ?c\<lparr>zc_allowed_link_protocols := [''tcp'']\<rparr>, pic)"
    by (simp add: load_image_def e s accept_session_def validate_session_def p throwIf_def ends
        UsesEndpointProtocol_def starts_with_def)
  have d: "load_cloud plain_xml ''a'' [] (the (image_params ''zenoh'')) c = Inr (False, c, default_zenoh_config)" for c
    by (simp add: load_cloud_def enabled_session_def image_params_def)
  have z: "image_params ''zenoh'' = Some (the (image_params ''zenoh''))" by (simp add: image_params_def)
  have "\<exists>z. load_zenoh_setup plain_xml image_params ''a'' [] = Inr z \<and> zs_image_enabled z \<and> zs_image z = pic"
    unfolding load_zenoh_setup_def
    by (subst z) (simp add: c i d p(3) throwIf_def, simp add: image_params_def valid_mode_def default_zenoh_config_def)
  then obtain z where "load_zenoh_setup plain_xml image_params ''a'' [] = Inr z"
    "zs_image_enabled z" "zs_image z = pic" by blast
  then show ?thesis using session_isolation [of plain_xml image_params "''a''" "[]" z] p(1) by auto
qed

end
