(* ===== verification/Topic_Delivery.thy ===== *)
theory Topic_Delivery
  imports Topic_Properties Service_Properties Bridge_Properties
begin

text \<open>
  The way of a message from the sender to the ROS publisher of the receiver: the payload that
  \<open>encode_payload\<close> builds is what \<open>decode_message\<close> reads, and the two ends that the nodes create for
  a route fit together.
\<close>

section \<open>Payloads\<close>

text \<open>A point cloud that went through Draco: everything is as before but the position bytes of the
  points, and the position of each point is the quantised one.\<close>

definition quantised_cloud :: "(DracoCloud \<Rightarrow> xyz \<Rightarrow> xyz) \<Rightarrow> PointCloud2 \<Rightarrow> PointCloud2 \<Rightarrow> bool" where
  "quantised_cloud q m m' \<longleftrightarrow>
     (if nP m = 0 then m' = m
      else \<exists>l cloud d'. parse_layout (pc_fields m) (pc_point_step m) = Some l \<and>
        m' = m\<lparr>pc_data := d'\<rparr> \<and> length d' = length (pc_data m) \<and>
        (\<forall>p < length (pc_data m). (\<forall>i < nP m. p \<notin> set (position_spots m l i)) \<longrightarrow> d' ! p = pc_data m ! p) \<and>
        (\<forall>i < nP m. point_xyz m' l i = q cloud (point_xyz m l i)))"

text \<open>What the receiving node publishes for a message.  An odometry keeps its stamp, child frame and
  pose; its frame becomes \<^verbatim>\<open>world\<close>, its covariance matrices and its twist are lost.  A point cloud is
  thinned out if the rule says so, and then goes as it is, through Draco, or through the octree codec
  (that of the library).  The other types are unchanged.\<close>

fun published_for ::
  "('pose, 'o) RosLib \<Rightarrow> PayloadCfg \<Rightarrow> (DracoCloud \<Rightarrow> xyz \<Rightarrow> xyz) \<Rightarrow>
     ('pose, 'o) RosMessage \<Rightarrow> ('pose, 'o) RosMessage \<Rightarrow> bool" where
  "published_for lib cfg q (OdometryMsg od) m' \<longleftrightarrow>
     m' = OdometryMsg (bare_odometry ((od_header od)\<lparr>hdr_frame_id := ''world''\<rparr>)
            (od_child_frame_id od) (od_pose od))"
| "published_for lib cfg q (PointCloud2Msg m) m' \<longleftrightarrow>
     (let thin = downsampled lib cfg m in
      \<exists>c. m' = PointCloud2Msg c \<and>
        (if \<not> cloud_compress cfg then c = thin
         else if cloud_codec cfg = ''draco'' then quantised_cloud q thin c
         else c = (octree_decode lib (octree_encode lib thin) (pc_width thin) (pc_height thin))
                    \<lparr>pc_header := pc_header m\<rparr>))"
| "published_for lib cfg q msg m' \<longleftrightarrow> m' = msg"

text \<open>The ROS message that goes into the payload, when it is not an image or a compressed cloud.\<close>

fun carrier :: "('pose, 'o) RosLib \<Rightarrow> PayloadCfg \<Rightarrow> ('pose, 'o) RosMessage \<Rightarrow> ('pose, 'o) RosMessage" where
  "carrier lib cfg (OdometryMsg od) =
     PoseStampedMsg ((od_header od)\<lparr>hdr_frame_id := od_child_frame_id od\<rparr>) (od_pose od)"
| "carrier lib cfg (PointCloud2Msg m) = PointCloud2Msg (downsampled lib cfg m)"
| "carrier lib cfg msg = msg"

text \<open>ROS deserialisation inverts serialisation on what is sent.\<close>

definition ros_inverts :: "('pose, 'o) RosLib \<Rightarrow> PayloadCfg \<Rightarrow> ('pose, 'o) RosMessage \<Rightarrow> bytes \<Rightarrow> bool" where
  "ros_inverts lib cfg msg data \<longleftrightarrow>
     (if type_of_msg msg = ''sensor_msgs/PointCloud2'' \<and> cloud_compress cfg
      then \<forall>c. serialize_compressed lib c = data \<longrightarrow> deserialize_compressed lib data = Some c
      else deserialize lib (type_of_msg (carrier lib cfg msg)) (serialize lib (carrier lib cfg msg)) =
             Some (carrier lib cfg msg))"

lemma Encode_shape:
  assumes "Encode lib m (Some old) = Some (True, Some e)"
  shows "\<exists>l s b. e = (encoded_metadata m l)\<lparr>sidecar_bytes := s, epc_payload := b\<rparr>"
proof (cases "nP m = 0")
  case True
  then have "e = (encoded_metadata m default_layout)\<lparr>sidecar_bytes := pc_data m\<rparr>"
    using assms by (auto simp: Encode_eq split: if_splits)
  also have "\<dots> = (encoded_metadata m default_layout)
      \<lparr>sidecar_bytes := pc_data m, epc_payload := epc_payload (encoded_metadata m default_layout)\<rparr>"
    by simp
  finally show ?thesis by blast
next
  case False
  then show ?thesis using assms by (auto simp: Encode_eq split: if_splits option.splits)
qed

text \<open>Decoding does not read the codec name, the stamps and the frame.\<close>

lemma Decode_stamps:
  "Decode lib (e\<lparr>receive_stamp := r\<rparr>) t = Decode lib e t"
proof -
  have eqs: "decoded_metadata (e\<lparr>receive_stamp := r\<rparr>) = decoded_metadata e"
    "type_mismatch (e\<lparr>receive_stamp := r\<rparr>) = type_mismatch e"
    "format_version (e\<lparr>receive_stamp := r\<rparr>) = format_version e"
    "epc_payload (e\<lparr>receive_stamp := r\<rparr>) = epc_payload e"
    "sidecar_bytes (e\<lparr>receive_stamp := r\<rparr>) = sidecar_bytes e"
    by (simp_all add: decoded_metadata_def type_mismatch_def fun_eq_iff)
  show ?thesis unfolding Decode_def eqs by (rule refl)
qed

lemma draco_quantised:
  assumes faithful: "draco_faithful lib q" and enc: "Encode lib m (Some old) = Some (True, Some e)"
  obtains m' where "Decode lib e (Some t) = Some (True, Some m')" "quantised_cloud q m m'"
    "pc_header m' = pc_header m"
proof (cases "nP m = 0")
  case True
  from empty_core [OF enc this] show ?thesis by (rule that) (simp_all add: quantised_cloud_def True)
next
  case False
  then have pos: "0 < nP m" by simp
  obtain l where l: "parse_layout (pc_fields m) (pc_point_step m) = Some l"
    by (rule parse_layout_total [OF enc pos])
  obtain d' cloud where d: "Decode lib e (Some t) = Some (True, Some (m\<lparr>pc_data := d'\<rparr>))"
    and q: "length d' = length (pc_data m)"
      "\<forall>p < length (pc_data m). (\<forall>i < nP m. p \<notin> set (position_spots m l i)) \<longrightarrow> d' ! p = pc_data m ! p"
      "\<forall>i < nP m. point_xyz (m\<lparr>pc_data := d'\<rparr>) l i = q cloud (point_xyz m l i)"
    using quantised_core [OF faithful enc pos l, of t] by blast
  from d show ?thesis
  proof (rule that)
    show "quantised_cloud q m (m\<lparr>pc_data := d'\<rparr>)"
      using False l q unfolding quantised_cloud_def by auto
  qed simp
qed

lemma downsampled_header [simp]: "pc_header (downsampled lib cfg m) = pc_header m"
  by (simp add: downsampled_def)

lemma cloud_roundtrip:
  fixes lib :: "('pose, 'o) RosLib"
  assumes p: "ptCloudProcess lib cfg m = Some (Inr data)"
    and s: "ros_inverts lib cfg (PointCloud2Msg m :: ('pose, 'o) RosMessage) data"
    and f: "cloud_codec cfg = ''draco'' \<Longrightarrow> draco_faithful (draco lib) q"
    and c: "cloud_compress cfg"
  shows "\<exists>c. decode_compressed lib now data = Some (Inr c) \<and>
    published_for lib cfg q (PointCloud2Msg m) (PointCloud2Msg c)"
proof -
  let ?thin = "downsampled lib cfg m"
  have restored: "\<And>c. serialize_compressed lib c = data \<Longrightarrow> deserialize_compressed lib data = Some c"
    using s c by (simp add: ros_inverts_def)
  let ?base = "default_compressed
       \<lparr>pcc_original_header := pc_header m, pcc_sender_stamp := hdr_stamp (pc_header m),
        pcc_original_width := pc_width ?thin, pcc_original_height := pc_height ?thin,
        pcc_original_frame_id := hdr_frame_id (pc_header m),
        pcc_voxel_leaf_size := cloud_downsample cfg, pcc_receiver_stamp := True,
        pcc_codec := cloud_codec cfg\<rparr>"
  show ?thesis
  proof (cases "cloud_codec cfg = ''draco''")
    case True
    obtain e where enc: "Encode (draco lib) ?thin (Some default_encoded) = Some (True, Some e)"
      and data: "data = serialize_compressed lib (?base
         \<lparr>pcc_compressed_bytes := epc_payload e,
          pcc_format_version := format_version e, pcc_point_type := point_type e,
          pcc_original_fields := original_fields e,
          pcc_original_is_bigendian := original_is_bigendian e,
          pcc_original_point_step := original_point_step e,
          pcc_original_row_step := original_row_step e,
          pcc_original_is_dense := original_is_dense e, pcc_sidecar_bytes := sidecar_bytes e\<rparr>)"
        (is "data = serialize_compressed lib ?c")
    proof -
      obtain ok out where o: "Encode (draco lib) ?thin (Some default_encoded) = Some (ok, out)"
        using p True c by (auto simp: ptCloudProcess_def Let_def bind_eq_Some_conv)
      then have ok: "ok" using p True c by (auto simp: ptCloudProcess_def Let_def split: if_splits)
      then obtain e where "out = Some e"
        using o by (auto simp: Encode_eq split: if_splits option.splits)
      then show ?thesis using that [of e] o ok p True c by (simp add: ptCloudProcess_def Let_def)
    qed
    have d: "deserialize_compressed lib data = Some ?c" using data by (intro restored) simp
    obtain ly sc b where e: "e = (encoded_metadata ?thin ly)\<lparr>sidecar_bytes := sc, epc_payload := b\<rparr>"
      using Encode_shape [OF enc] by blast
    have eq: "encoded_of_compressed now ?c = e\<lparr>receive_stamp := now\<rparr>"
      by (simp add: encoded_of_compressed_def e encoded_metadata_def default_encoded_def Name_def
          default_compressed_def True)
    obtain m' where m': "Decode (draco lib) e (Some default_cloud) = Some (True, Some m')"
      "quantised_cloud q ?thin m'" "pc_header m' = pc_header m"
      using draco_quantised [OF f [OF True] enc] by auto
    have dec: "Decode (draco lib) (encoded_of_compressed now ?c) (Some default_cloud) = Some (True, Some m')"
      using m'(1) unfolding eq Decode_stamps .
    have fields: "pcc_codec ?c = ''draco''" "pcc_original_header ?c = pc_header m" by (simp_all add: True)
    have "m'\<lparr>pc_header := pc_header m\<rparr> = m'" using m'(3) by simp
    then have "decode_compressed lib now data = Some (Inr m')"
      unfolding decode_compressed_def d option.case dec fields by simp
    then show ?thesis using m'(2) c True by (simp add: Let_def)
  next
    case False
    let ?c = "?base\<lparr>pcc_compressed_bytes := octree_encode lib ?thin, pcc_codec := ''pcl_octree''\<rparr>"
    have "data = serialize_compressed lib ?c"
      using p c False by (simp add: ptCloudProcess_def Let_def)
    then have d: "deserialize_compressed lib data = Some ?c" by (intro restored) simp
    show ?thesis using c False
      unfolding decode_compressed_def d option.case by (simp add: Let_def)
  qed
qed

text \<open>The payload that the sender builds for a message decodes, on the receiving end of the same
  topic, to the message that \<open>published_for\<close> names, for every type but images.\<close>

lemma payload_roundtrip:
  fixes lib :: "('pose, 'o) RosLib"
  assumes enc: "encode_payload lib cfg quality msg = Some (Inr (kind, data))"
    and ros: "ros_inverts lib cfg msg data"
    and draco: "cloud_codec cfg = ''draco'' \<Longrightarrow> draco_faithful (draco lib) q"
    and img: "type_of_msg msg \<noteq> ''sensor_msgs/Image''" and data: "payload e = data"
  shows "\<exists>m'. decode_message lib cfg now (type_of_msg msg) e = Some (Inr m') \<and>
    published_for lib cfg q msg m'"
proof (cases msg)
  case (PointCloud2Msg m)
  obtain r where r: "ptCloudProcess lib cfg m = Some r" using enc PointCloud2Msg by auto
  have p: "ptCloudProcess lib cfg m = Some (Inr data)"
    using enc PointCloud2Msg r by (cases r) auto
  show ?thesis
  proof (cases "cloud_compress cfg")
    case True
    then show ?thesis
      using cloud_roundtrip [OF p ros [unfolded PointCloud2Msg] draco True, of now] data PointCloud2Msg
      by (auto simp: decode_message_def simp del: published_for.simps)
  next
    case False
    then have "data = serialize lib (PointCloud2Msg (downsampled lib cfg m))"
      using p by (simp add: ptCloudProcess_def Let_def)
    then show ?thesis using ros data False PointCloud2Msg
      by (simp add: decode_message_def ros_inverts_def msgs_types_def)
  qed
qed (use enc ros img data in \<open>auto simp: decode_message_def ros_inverts_def msgs_types_def split: sum.splits\<close>)

section \<open>What leaves the sender\<close>

text \<open>The header of a message that has one travels in the metadata of the envelope.\<close>

definition carries_header :: "('pose, 'o) RosMessage \<Rightarrow> TransportEnvelope \<Rightarrow> bool" where
  "carries_header msg e \<longleftrightarrow> (\<forall>h. header_of_msg msg = Some h \<longrightarrow>
     source_time_ns e = RosTimeToNs (hdr_stamp h) \<and> source_header_sequence e = hdr_seq h \<and>
     frame_id e = hdr_frame_id h)"

lemma build_envelope_header:
  "carries_header msg ((build_envelope lib now msg t)\<lparr>payload_kind := kind, payload := data\<rparr>)"
  by (simp add: carries_header_def build_envelope_def Let_def split: option.split)

lemma subCallback_fanout:
  assumes "subCallback lib publish clock None msg t = Some (out, t')"
  shows "out = [] \<or>
    (\<exists>key e q. out = [(key, e)] \<and> tf_sender t = Some key \<and> stamped lib t e \<and>
       encode_payload lib (payload_cfg (tf_cfg t)) q msg = Some (Inr (payload_kind e, payload e)) \<and>
       carries_header msg e)"
proof -
  obtain limited t1 where lim: "sendFreqControl (clock 0) t = (limited, t1)" by (rule prod.exhaust)
  show ?thesis
  proof (cases limited)
    case True
    then show ?thesis using assms lim by (auto simp: subCallback_def bind_eq_Some_conv)
  next
    case False
    then have t1: "tf_cfg t1 = tf_cfg t" "tf_metrics t1 = tf_metrics t" "tf_sequence t1 = tf_sequence t"
      "tf_sender t1 = tf_sender t"
      using sendFreqControl_result [OF lim] by auto
    let ?q = "sint (current_jpeg_quality (tf_metrics t))"
    obtain r where r: "encode_payload lib (payload_cfg (tf_cfg t)) ?q msg = Some r"
      using assms lim False t1 by (auto simp: subCallback_def Let_def bind_eq_Some_conv)
    show ?thesis
    proof (cases r)
      case (Inl err)
      then show ?thesis using assms lim False t1 r by (simp add: subCallback_def Let_def)
    next
      case (Inr kd)
      obtain kind data where kd: "kd = (kind, data)" by (cases kd)
      define e where "e = (build_envelope lib (clock 1) msg t1)\<lparr>payload_kind := kind, payload := data\<rparr>"
      have e: "stamped lib t e" "payload_kind e = kind" "payload e = data"
        by (simp_all add: e_def stamped_def build_envelope_identity t1)
      have h: "carries_header msg e" unfolding e_def by (rule build_envelope_header)
      show ?thesis
      proof (cases "\<exists>key. tf_sender t = Some key \<and> publish key e")
        case True
        then obtain key where k: "tf_sender t = Some key" "publish key e" by blast
        then have "out = [(key, e)]"
          using assms lim False t1 r Inr kd
          by (auto simp: subCallback_def Let_def e_def bind_eq_Some_conv)
        then show ?thesis using k e h r Inr kd by auto
      next
        case unsent: False
        then have "out = []"
          using assms lim False t1 r Inr kd
          by (cases "tf_sender t") (auto simp: subCallback_def Let_def e_def)
        then show ?thesis by blast
      qed
    qed
  qed
qed

lemma subCallback_sent:
  assumes "subCallback lib publish clock None msg t = Some ([(key, e)], t')"
  obtains q where "tf_sender t = Some key" "stamped lib t e" "carries_header msg e"
    "encode_payload lib (payload_cfg (tf_cfg t)) q msg = Some (Inr (payload_kind e, payload e))"
  using subCallback_fanout [OF assms] by auto

lemma encode_payload_image:
  "encode_payload lib cfg q (ImageMsg m) = Some (Inr (kind, data)) \<longleftrightarrow>
     kind = kJpeg \<and> encode_image (cvlib lib) cfg q m = Inr data"
  by (cases "encode_image (cvlib lib) cfg q m") (auto simp: outcome_def split: failure.splits)

lemma encode_payload_kind:
  assumes "encode_payload lib (payload_cfg c) q msg = Some (Inr (kind, data))"
    and "type_of_msg msg = tc_type c"
  shows "kind = expected_payload_kind c"
proof (cases msg)
  case (ImageMsg m)
  then have "kind = kJpeg" using assms(1) by (simp only: encode_payload_image)
  then show ?thesis using assms(2) ImageMsg by (simp add: expected_payload_kind_def)
next
  case (PointCloud2Msg m)
  obtain r where r: "ptCloudProcess lib (payload_cfg c) m = Some r" using assms(1) PointCloud2Msg by auto
  then have "kind = (if tc_cloud_compress c then kPointCloudCompressed else kRosSerialized)"
    using assms(1) PointCloud2Msg by (cases r) (auto simp: payload_cfg_def)
  then show ?thesis using assms(2) PointCloud2Msg by (auto simp: expected_payload_kind_def)
qed (use assms in \<open>auto simp: expected_payload_kind_def\<close>)

section \<open>The two ends of a route\<close>

lemma TopicFactory_create_sender:
  assumes "TopicFactory_create declare_ok cfg has dir now = Inr t" and "\<not> tc_dynamic_dst cfg" and "dir = SEND"
  shows "tf_cfg t = cfg \<and> tf_sender t = Some (TopicFanoutKey (tc_src_hostname cfg) (tc_wire_name cfg))"
  using assms by (auto simp: TopicFactory_create_def Let_def split: if_splits)

lemma thrown_Inr: "thrown r = Inr x \<longleftrightarrow> r = Inr x"
  by (cases r) (simp_all add: thrown_def)

lemma init_sender_topic:
  assumes "init_sender lib now cfg b = Inr b'" and "mfind (tc_src_hostname_map cfg) (bf_my_hostname b) = Some True"
    and "\<not> tc_dynamic_dst cfg"
  shows "\<exists>name raw transport t. mfind (bf_send_topics b') name = Some t \<and>
    tf_cfg t = cfg\<lparr>tc_name := name, tc_raw_name := raw, tc_src_hostname := bf_my_hostname b,
      tc_transport_name := transport\<rparr> \<and>
    tf_sender t = Some (TopicFanoutKey (bf_my_hostname b) (tc_wire_name cfg))"
proof -
  obtain name raw transport t where
    c: "create_topic lib SEND now (cfg\<lparr>tc_name := name, tc_raw_name := raw,
          tc_src_hostname := bf_my_hostname b, tc_transport_name := transport\<rparr>) b = Inr t"
      (is "create_topic _ _ _ ?topic _ = _")
    and b': "b' = b\<lparr>bf_send_topics := mset_at name t (bf_send_topics b)\<rparr>"
    using assms(1,2) unfolding init_sender_def Let_def
    by (auto elim!: bindR_InrE)
  obtain sid where "TopicFactory_create (nl_declare_publisher lib sid) ?topic True SEND now = Inr t"
    using c by (auto simp: create_topic_def thrown_Inr)
  from TopicFactory_create_sender [OF this] assms(3)
  have "tf_cfg t = ?topic" "tf_sender t = Some (TopicFanoutKey (bf_my_hostname b) (tc_wire_name cfg))"
    by simp_all
  then show ?thesis unfolding b'
    by (intro exI [of _ name] exI [of _ raw] exI [of _ transport] exI [of _ t]) (simp add: mfind_mset_at)
qed

lemma recv_topic_cfg_shape:
  assumes "recv_topic_cfg lib cfg source b = Inr topic"
  shows "\<exists>name raw transport. topic = cfg\<lparr>tc_name := name, tc_raw_name := raw,
    tc_src_hostname := source, tc_transport_name := transport\<rparr>"
  using assms unfolding recv_topic_cfg_def Let_def
  by (elim bindR_InrE) (drule Inr_inject, blast)

section \<open>One rule on two nodes\<close>

text \<open>The reading of a rule depends on the node only in the host name that it records.\<close>

lemma map_sum_bindR: "map_sum id f (bindR r g) = bindR r (\<lambda>x. map_sum id f (g x))"
  by (cases r) simp_all

lemma bindR_map_sum: "bindR (map_sum id f r) g = bindR r (\<lambda>x. g (f x))"
  by (cases r) simp_all

abbreviation on_host :: "string \<Rightarrow> TopicCfg \<Rightarrow> TopicCfg" where
  "on_host h t \<equiv> t\<lparr>tc_my_hostname := h\<rparr>"

lemma on_host_dynamic: "on_host h t\<lparr>tc_dynamic_dst := d\<rparr> = on_host h (t\<lparr>tc_dynamic_dst := d\<rparr>)"
  by (cases t) simp

lemma load_topic_base_host:
  "load_topic_base lib h' sm dm x = map_sum id (on_host h') (load_topic_base lib h sm dm x)"
  by (simp add: load_topic_base_def map_sum_bindR case_prod_beta default_topic_cfg_def)

lemma load_image_topic_host:
  "load_image_topic lib x (on_host h t) = map_sum id (on_host h) (load_image_topic lib x t)"
  by (cases t) (simp add: load_image_topic_def map_sum_bindR Let_def)

lemma load_cloud_topic_host:
  "load_cloud_topic lib x (on_host h t) = map_sum id (on_host h) (load_cloud_topic lib x t)"
  by (cases t) (simp add: load_cloud_topic_def map_sum_bindR)

lemma load_topic_cfg_host:
  "load_topic_cfg lib h' sm dm x = map_sum id (on_host h') (load_topic_cfg lib h sm dm x)"
proof -
  have i: "(if tc_type (on_host h' t) = ''sensor_msgs/Image'' then load_image_topic lib x (on_host h' t)
        else Inr (on_host h' t)) =
      map_sum id (on_host h') (if tc_type t = ''sensor_msgs/Image'' then load_image_topic lib x t else Inr t)" for t
    by (simp add: load_image_topic_host)
  have c: "(if tc_type (on_host h' t) = ''sensor_msgs/PointCloud2'' then load_cloud_topic lib x (on_host h' t)
        else Inr (on_host h' t)) =
      map_sum id (on_host h') (if tc_type t = ''sensor_msgs/PointCloud2'' then load_cloud_topic lib x t else Inr t)" for t
    by (simp add: load_cloud_topic_host)
  show ?thesis
    unfolding load_topic_cfg_def load_topic_base_host [of lib h' sm dm x h] bindR_map_sum i c map_sum_bindR
    by (simp add: on_host_dynamic)
qed

lemma mapR_map_sum: "mapR (\<lambda>x. map_sum id f (g x)) xs = map_sum id (map f) (mapR g xs)"
proof (induction xs)
  case (Cons x xs)
  then show ?case by (cases "g x"; cases "mapR g xs") simp_all
qed simp

lemma load_host_map_same:
  "load_host_map lib params h = Inr m \<Longrightarrow> load_host_map lib params h' = Inr m' \<Longrightarrow> m' = m"
  unfolding load_host_map_def by (elim bindR_InrE) simp

lemma same_rules:
  assumes "getHostTopicAndTransportConfig lib params h = Inr c"
    and "getHostTopicAndTransportConfig lib params h' = Inr c'"
  shows "ht_topic_cfgs c' = map (on_host h') (ht_topic_cfgs c)"
proof -
  define xs where "xs = elements (case params ''topics'' of None \<Rightarrow> XArray [] | Some x \<Rightarrow> x)"
  obtain m where m: "load_host_map lib params h = Inr m"
    and r: "mapR (load_topic_cfg lib h (none_selected m) (none_selected m)) xs = Inr (ht_topic_cfgs c)"
    using assms(1) unfolding getHostTopicAndTransportConfig_def Let_def xs_def
    by (elim bindR_InrE) auto
  obtain m' where m': "load_host_map lib params h' = Inr m'"
    and r': "mapR (load_topic_cfg lib h' (none_selected m') (none_selected m')) xs = Inr (ht_topic_cfgs c')"
    using assms(2) unfolding getHostTopicAndTransportConfig_def Let_def xs_def
    by (elim bindR_InrE) auto
  have "m' = m" by (rule load_host_map_same [OF m m'])
  moreover have "load_topic_cfg lib h' (none_selected m) (none_selected m) =
      (\<lambda>x. map_sum id (on_host h') (load_topic_cfg lib h (none_selected m) (none_selected m) x))"
    by (rule ext) (rule load_topic_cfg_host)
  ultimately have "Inr (ht_topic_cfgs c') = map_sum id (map (on_host h'))
      (mapR (load_topic_cfg lib h (none_selected m) (none_selected m)) xs)"
    using r' by (simp only: mapR_map_sum)
  then show ?thesis by (simp add: r)
qed

lemma rule_host:
  assumes "getHostTopicAndTransportConfig lib params h = Inr c" and "cfg \<in> set (ht_topic_cfgs c)"
  shows "tc_my_hostname cfg = h \<and> \<not> tc_dynamic_dst cfg"
proof -
  have "ht_topic_cfgs c = map (on_host h) (ht_topic_cfgs c)" by (rule same_rules [OF assms(1,1)])
  then have "cfg \<in> on_host h ` set (ht_topic_cfgs c)" using assms(2) by (metis set_map)
  moreover have "\<not> tc_dynamic_dst cfg"
  proof -
    obtain m x where "load_topic_cfg lib h m m x = Inr cfg"
    proof -
      obtain m where "mapR (load_topic_cfg lib h (none_selected m) (none_selected m))
          (elements (case params ''topics'' of None \<Rightarrow> XArray [] | Some x \<Rightarrow> x)) = Inr (ht_topic_cfgs c)"
        using assms(1) unfolding getHostTopicAndTransportConfig_def Let_def by (elim bindR_InrE) auto
      from mapR_elements [OF this assms(2)] show ?thesis using that by blast
    qed
    then show ?thesis unfolding load_topic_cfg_def by (elim bindR_InrE) (auto simp: drone_ids_types_def)
  qed
  ultimately show ?thesis by auto
qed

section \<open>The topology of a node\<close>

text \<open>What every topic end of a node satisfies, given the configured topics.\<close>

definition sender_ok :: "BridgeFactory \<Rightarrow> TopicFactory \<Rightarrow> bool" where
  "sender_ok b t \<longleftrightarrow>
     tf_dir t = SEND \<and> tc_src_hostname (tf_cfg t) = bf_my_hostname b \<and>
     (\<exists>cfg \<in> set (ht_topic_cfgs (bf_config b)).
        mfind (tc_src_hostname_map cfg) (bf_my_hostname b) = Some True \<and>
        tc_wire_name (tf_cfg t) = tc_wire_name cfg \<and> tc_type (tf_cfg t) = tc_type cfg)"

definition receiver_ok :: "BridgeFactory \<Rightarrow> string \<Rightarrow> TopicFactory \<Rightarrow> bool" where
  "receiver_ok b name t \<longleftrightarrow>
     tf_dir t = RECV \<and> tc_name (tf_cfg t) = name \<and>
     (tc_src_hostname (tf_cfg t) \<noteq> bf_my_hostname b \<or> bf_is_debug b) \<and>
     (\<exists>cfg \<in> set (ht_topic_cfgs (bf_config b)).
        mfind (tc_dst_hostname_map cfg) (bf_my_hostname b) = Some True \<and>
        mfind (tc_src_hostname_map cfg) (tc_src_hostname (tf_cfg t)) = Some True \<and>
        tc_wire_name (tf_cfg t) = tc_wire_name cfg \<and> tc_type (tf_cfg t) = tc_type cfg)"

definition node_frame :: "BridgeFactory \<Rightarrow> BridgeFactory \<Rightarrow> bool" where
  "node_frame b b' \<longleftrightarrow> bf_config b' = bf_config b \<and> bf_my_hostname b' = bf_my_hostname b \<and>
     bf_is_debug b' = bf_is_debug b"

definition topology_wf :: "BridgeFactory \<Rightarrow> bool" where
  "topology_wf b \<longleftrightarrow> map_ok (bf_send_topics b) \<and> map_ok (bf_recv_topics b) \<and>
     (\<forall>name t. mfind (bf_send_topics b) name = Some t \<longrightarrow> sender_ok b t) \<and>
     (\<forall>name t. mfind (bf_recv_topics b) name = Some t \<longrightarrow> receiver_ok b name t)"

lemma frame_ok:
  "node_frame b b' \<Longrightarrow> sender_ok b' t = sender_ok b t"
  "node_frame b b' \<Longrightarrow> receiver_ok b' name t = receiver_ok b name t"
  by (simp_all add: node_frame_def sender_ok_def receiver_ok_def)

lemma node_frame_trans: "node_frame a b \<Longrightarrow> node_frame b c \<Longrightarrow> node_frame a c"
  by (simp add: node_frame_def)

lemma create_topic_Inr:
  "create_topic lib dir now topic b = Inr t \<Longrightarrow> tf_cfg t = topic \<and> tf_dir t = dir"
  by (cases dir) (auto simp: create_topic_def thrown_Inr TopicFactory_create_def Let_def split: if_splits)

lemma init_sender_wf:
  assumes "init_sender lib now cfg b = Inr b'" and "cfg \<in> set (ht_topic_cfgs (bf_config b))"
    and "topology_wf b"
  shows "topology_wf b' \<and> node_frame b b'"
proof (cases "mfind (tc_src_hostname_map cfg) (bf_my_hostname b) = Some True")
  case False
  then show ?thesis using assms(1,3) by (simp add: init_sender_def node_frame_def)
next
  case True
  obtain topic t where c: "create_topic lib SEND now topic b = Inr t"
    and b': "b' = b\<lparr>bf_send_topics := mset_at (tc_name topic) t (bf_send_topics b)\<rparr>"
    and tp: "tc_src_hostname topic = bf_my_hostname b" "tc_wire_name topic = tc_wire_name cfg"
      "tc_type topic = tc_type cfg"
    using assms(1) True unfolding init_sender_def Let_def by (auto elim!: bindR_InrE)
  have f: "node_frame b b'" by (simp add: b' node_frame_def)
  have "sender_ok b t"
    using create_topic_Inr [OF c] tp True assms(2) by (auto simp: sender_ok_def)
  then show ?thesis
    using assms(3) frame_ok [OF f] f unfolding topology_wf_def
    by (simp add: b' mfind_mset_at map_ok_mset_at)
qed

lemma init_receivers_wf:
  "init_receivers lib now cfg sources b = Inr b' \<Longrightarrow> cfg \<in> set (ht_topic_cfgs (bf_config b)) \<Longrightarrow>
    mfind (tc_dst_hostname_map cfg) (bf_my_hostname b) = Some True \<Longrightarrow> topology_wf b \<Longrightarrow>
    topology_wf b' \<and> node_frame b b'"
proof (induction sources arbitrary: b)
  case Nil
  then show ?case by (simp add: node_frame_def)
next
  case (Cons s sources)
  consider (skip) "init_receivers lib now cfg sources b = Inr b'"
    | (new) topic t where "recv_topic_cfg lib cfg s b = Inr topic"
        "create_topic lib RECV now topic b = Inr t" "s \<noteq> bf_my_hostname b \<or> bf_is_debug b"
        "mfind (tc_src_hostname_map cfg) s = Some True"
        "(if tc_dynamic_dst topic
          then Inr (b\<lparr>bf_recv_topics := mset_at (tc_name topic) t (bf_recv_topics b)\<rparr>)
          else init_receivers lib now cfg sources
            (b\<lparr>bf_recv_topics := mset_at (tc_name topic) t (bf_recv_topics b)\<rparr>)) = Inr b'"
    using Cons.prems(1) by (auto simp: Let_def split: if_splits option.splits bool.splits)
  then show ?case
  proof cases
    case skip
    then show ?thesis using Cons by blast
  next
    case new
    let ?b = "b\<lparr>bf_recv_topics := mset_at (tc_name topic) t (bf_recv_topics b)\<rparr>"
    have f: "node_frame b ?b" by (simp add: node_frame_def)
    have "tc_src_hostname topic = s" "tc_wire_name topic = tc_wire_name cfg" "tc_type topic = tc_type cfg"
      using recv_topic_cfg_shape [OF new(1)] by auto
    then have "receiver_ok b (tc_name topic) t"
      using create_topic_Inr [OF new(2)] new(3,4) Cons.prems(2,3) by (auto simp: receiver_ok_def)
    then have wf: "topology_wf ?b"
      using Cons.prems(4) frame_ok [OF f] unfolding topology_wf_def
      by (simp add: mfind_mset_at map_ok_mset_at)
    show ?thesis
    proof (cases "tc_dynamic_dst topic")
      case True
      then show ?thesis using new(5) wf f by simp
    next
      case False
      then have "init_receivers lib now cfg sources ?b = Inr b'" using new(5) by simp
      from Cons.IH [OF this] wf Cons.prems(2,3) show ?thesis
        using node_frame_trans [OF f] by simp
    qed
  qed
qed

lemma init_receiver_wf:
  assumes "init_receiver lib now cfg b = Inr b'" and "cfg \<in> set (ht_topic_cfgs (bf_config b))"
    and "topology_wf b"
  shows "topology_wf b' \<and> node_frame b b'"
  using assms init_receivers_wf [of lib now cfg _ b b']
  by (auto simp: init_receiver_def node_frame_def split: option.splits bool.splits)

lemma topicOperatorInit_wf:
  assumes "topicOperatorInit lib now b = Inr b'" and "topology_wf b"
  shows "topology_wf b' \<and> node_frame b b'"
proof -
  obtain b1 where s: "foldR (init_sender lib now) (ht_topic_cfgs (bf_config b)) b = Inr b1"
    and r: "foldR (init_receiver lib now) (ht_topic_cfgs (bf_config b)) b1 = Inr b'"
    using assms(1) by (auto simp: topicOperatorInit_def)
  let ?P = "\<lambda>c. topology_wf c \<and> node_frame b c"
  have keep: "\<And>c. node_frame b c \<Longrightarrow> ht_topic_cfgs (bf_config c) = ht_topic_cfgs (bf_config b)"
    by (simp add: node_frame_def)
  have 1: "?P b1"
  proof (rule foldR_invariant [OF s, of ?P])
    show "?P b" using assms(2) by (simp add: node_frame_def)
    show "?P s'" if "x \<in> set (ht_topic_cfgs (bf_config b))" "init_sender lib now x s = Inr s'" "?P s" for x s s'
      using init_sender_wf [OF that(2)] that keep node_frame_trans by metis
  qed
  show ?thesis
  proof (rule foldR_invariant [OF r, of ?P])
    show "?P b1" by (rule 1)
    show "?P s'" if "x \<in> set (ht_topic_cfgs (bf_config b))" "init_receiver lib now x s = Inr s'" "?P s" for x s s'
      using init_receiver_wf [OF that(2)] that keep node_frame_trans by metis
  qed
qed

section \<open>Stopping\<close>

definition closed_session :: "ZenohImpl option \<Rightarrow> bool" where
  "closed_session z \<longleftrightarrow> (case z of None \<Rightarrow> True | Some z \<Rightarrow> zi_closed z)"

lemma close_session_closed: "closed_session (snd (close_session z))"
  by (auto simp: close_session_def closed_session_def Close_def Let_def split: option.split prod.split)

end
