(* ===== verification/Node_Topology.thy ===== *)
theory Node_Topology
  imports Topic_Delivery
begin

text \<open>
  Which topic ends \<^verbatim>\<open>topicOperatorInit\<close> of \<^verbatim>\<open>bridge_factory.cpp\<close> has to create: the rules that make
  a node a sender, the sources from which a rule makes it receive, and the lemmas that the two loops
  over the rules create an end for each of them and no others.
\<close>

section \<open>What the configuration asks for\<close>

definition sending_rules :: "BridgeFactory \<Rightarrow> TopicCfg list" where
  "sending_rules b =
     filter (\<lambda>cfg. mfind (tc_src_hostname_map cfg) (bf_my_hostname b) = Some True)
       (ht_topic_cfgs (bf_config b))"

definition sender_name :: "BridgeFactory \<Rightarrow> TopicCfg \<Rightarrow> string" where
  "sender_name b cfg =
     (if starts_with drone_prefix (tc_name cfg) \<and> bf_my_drone_id b \<noteq> DRONE_ID_NULL
      then with_drone_id (bf_my_drone_id b) (tc_name cfg) else tc_name cfg)"

text \<open>The map of the senders is keyed by name: of several rules with one name the last stays.\<close>

definition sender_rule :: "BridgeFactory \<Rightarrow> string \<Rightarrow> TopicCfg option" where
  "sender_rule b name = List.find (\<lambda>cfg. sender_name b cfg = name) (rev (sending_rules b))"

text \<open>The sources among \<open>hosts\<close> from which the rule receives; a rule with a dynamic destination takes
  the first.\<close>

definition picked_sources :: "BridgeFactory \<Rightarrow> TopicCfg \<Rightarrow> string list \<Rightarrow> string list" where
  "picked_sources b cfg hosts =
     (let sources = filter (\<lambda>s. mfind (tc_src_hostname_map cfg) s = Some True \<and>
                              (s \<noteq> bf_my_hostname b \<or> bf_is_debug b)) hosts
      in if tc_dynamic_dst cfg then take 1 sources else sources)"

definition receiving_sources :: "BridgeFactory \<Rightarrow> TopicCfg \<Rightarrow> string list" where
  "receiving_sources b cfg =
     (if mfind (tc_dst_hostname_map cfg) (bf_my_hostname b) = Some True
      then picked_sources b cfg (map fst (ht_host_map (bf_config b))) else [])"

text \<open>Creating topics changes nothing else of the node.\<close>

definition node_core :: "BridgeFactory \<Rightarrow> BridgeFactory" where
  "node_core b = b\<lparr>bf_send_topics := [], bf_recv_topics := []\<rparr>"

definition same_node :: "BridgeFactory \<Rightarrow> BridgeFactory \<Rightarrow> bool" where
  "same_node b b' \<longleftrightarrow> node_core b' = node_core b"

lemma node_core_reads:
  "bf_config (node_core b) = bf_config b" "bf_my_hostname (node_core b) = bf_my_hostname b"
  "bf_is_debug (node_core b) = bf_is_debug b" "bf_my_drone_id (node_core b) = bf_my_drone_id b"
  by (simp_all add: node_core_def)

lemma same_node_reads:
  assumes "same_node b b'"
  shows "sending_rules b' = sending_rules b" "sender_name b' = sender_name b"
    "picked_sources b' = picked_sources b" "receiving_sources b' = receiving_sources b"
    "recv_topic_cfg lib cfg source b' = recv_topic_cfg lib cfg source b"
    "topic_transport cfg b' = topic_transport cfg b"
    "bf_config b' = bf_config b" "bf_my_hostname b' = bf_my_hostname b" "bf_is_debug b' = bf_is_debug b"
proof -
  have r: "bf_config b' = bf_config b" "bf_my_hostname b' = bf_my_hostname b"
    "bf_is_debug b' = bf_is_debug b" "bf_my_drone_id b' = bf_my_drone_id b"
    using assms unfolding same_node_def by (metis node_core_reads)+
  then show "sending_rules b' = sending_rules b" "sender_name b' = sender_name b"
    "picked_sources b' = picked_sources b" "receiving_sources b' = receiving_sources b"
    "recv_topic_cfg lib cfg source b' = recv_topic_cfg lib cfg source b"
    "topic_transport cfg b' = topic_transport cfg b"
    "bf_config b' = bf_config b" "bf_my_hostname b' = bf_my_hostname b" "bf_is_debug b' = bf_is_debug b"
    by (simp_all add: sending_rules_def sender_name_def picked_sources_def receiving_sources_def
        recv_topic_cfg_def topic_transport_def fun_eq_iff)
qed

lemma same_node_refl [simp]: "same_node b b"
  by (simp add: same_node_def)

lemma same_node_trans: "same_node a b \<Longrightarrow> same_node b c \<Longrightarrow> same_node a c"
  by (simp add: same_node_def)

section \<open>The senders\<close>

text \<open>The end that a sending rule creates.\<close>

definition sender_end :: "NodeLib \<Rightarrow> BridgeFactory \<Rightarrow> TopicCfg \<Rightarrow> TopicFactory \<Rightarrow> bool" where
  "sender_end lib b cfg t \<longleftrightarrow> tf_dir t = SEND \<and>
     (\<exists>raw. nl_resolve lib (sender_name b cfg) = Inr raw \<and>
        tf_cfg t = cfg\<lparr>tc_name := sender_name b cfg, tc_raw_name := raw,
          tc_src_hostname := bf_my_hostname b, tc_transport_name := topic_transport cfg b\<rparr>)"

lemma init_sender_creates:
  assumes "init_sender lib now cfg b = Inr b'"
  shows "if mfind (tc_src_hostname_map cfg) (bf_my_hostname b) = Some True
    then \<exists>t. sender_end lib b cfg t \<and>
      b' = b\<lparr>bf_send_topics := mset_at (sender_name b cfg) t (bf_send_topics b)\<rparr>
    else b' = b"
proof (cases "mfind (tc_src_hostname_map cfg) (bf_my_hostname b) = Some True")
  case True
  let ?n = "sender_name b cfg"
  obtain raw t where r: "nl_resolve lib ?n = Inr raw"
    and c: "create_topic lib SEND now (cfg\<lparr>tc_name := ?n, tc_raw_name := raw,
          tc_src_hostname := bf_my_hostname b, tc_transport_name := topic_transport cfg b\<rparr>) b = Inr t"
    and b': "b' = b\<lparr>bf_send_topics := mset_at ?n t (bf_send_topics b)\<rparr>"
    using assms True
    by (auto simp: init_sender_def sender_name_def topic_transport_def Let_def elim!: bindR_InrE)
  show ?thesis using True b' create_topic_Inr [OF c] r by (auto simp: sender_end_def)
next
  case False
  then show ?thesis using assms by (simp add: init_sender_def)
qed

lemma find_append: "List.find P (xs @ ys) = (case List.find P xs of None \<Rightarrow> List.find P ys | Some x \<Rightarrow> Some x)"
  by (induction xs) auto

definition senders_of :: "NodeLib \<Rightarrow> BridgeFactory \<Rightarrow> TopicCfg list \<Rightarrow> TopicFactory smap \<Rightarrow> bool" where
  "senders_of lib b rules m \<longleftrightarrow>
     (\<forall>name. case List.find (\<lambda>cfg. sender_name b cfg = name) (rev rules) of
        None \<Rightarrow> mfind m name = None
      | Some cfg \<Rightarrow> \<exists>t. mfind m name = Some t \<and> sender_end lib b cfg t)"

lemma senders_of_snoc:
  assumes "senders_of lib b rules m" and "sender_end lib b cfg t"
  shows "senders_of lib b (rules @ [cfg]) (mset_at (sender_name b cfg) t m)"
  unfolding senders_of_def
proof (rule allI)
  fix name
  show "case List.find (\<lambda>cfg. sender_name b cfg = name) (rev (rules @ [cfg])) of
      None \<Rightarrow> mfind (mset_at (sender_name b cfg) t m) name = None
    | Some cfg' \<Rightarrow> \<exists>t'. mfind (mset_at (sender_name b cfg) t m) name = Some t' \<and> sender_end lib b cfg' t'"
    using assms(1) [unfolded senders_of_def, rule_format, of name] assms(2)
    by (cases "sender_name b cfg = name") (auto simp: mfind_mset_at split: option.splits)
qed

lemma foldR_init_sender:
  assumes "foldR (init_sender lib now) rules b1 = Inr b2" and "same_node b b1"
    and "senders_of lib b done_rules (bf_send_topics b1)"
  shows "same_node b b2 \<and> bf_recv_topics b2 = bf_recv_topics b1 \<and>
    senders_of lib b (done_rules @ filter (\<lambda>cfg. mfind (tc_src_hostname_map cfg) (bf_my_hostname b) = Some True) rules)
      (bf_send_topics b2)"
  using assms
proof (induction rules arbitrary: b1 done_rules)
  case (Cons cfg rules)
  obtain c where c: "init_sender lib now cfg b1 = Inr c" "foldR (init_sender lib now) rules c = Inr b2"
    using Cons.prems(1) by (auto simp: bindR_Inr_iff)
  note same = same_node_reads [OF Cons.prems(2)]
  show ?case
  proof (cases "mfind (tc_src_hostname_map cfg) (bf_my_hostname b) = Some True")
    case False
    then have "c = b1" using init_sender_creates [OF c(1)] same by simp
    then show ?thesis using Cons.IH [OF c(2)] Cons.prems(2,3) False by simp
  next
    case True
    then obtain t where t: "sender_end lib b1 cfg t"
      "c = b1\<lparr>bf_send_topics := mset_at (sender_name b1 cfg) t (bf_send_topics b1)\<rparr>"
      using init_sender_creates [OF c(1)] same by auto
    have e: "sender_end lib b cfg t" using t(1) same by (simp add: sender_end_def)
    have "same_node b1 c" using t(2) by (simp add: same_node_def node_core_def)
    from Cons.IH [OF c(2) same_node_trans [OF Cons.prems(2) this], of "done_rules @ [cfg]"]
    show ?thesis using senders_of_snoc [OF Cons.prems(3) e] True t(2) same by simp
  qed
qed simp

section \<open>The receivers\<close>

lemma length_mset_at: "mfind m k = None \<Longrightarrow> length (mset_at k v m) = Suc (length m)"
  by (induction m) (auto split: if_splits)

text \<open>The end that a rule creates for one source.\<close>

definition receiver_end ::
  "NodeLib \<Rightarrow> BridgeFactory \<Rightarrow> TopicCfg \<Rightarrow> string \<Rightarrow> TopicFactory smap \<Rightarrow> bool" where
  "receiver_end lib b cfg source m \<longleftrightarrow>
     (\<exists>topic t. recv_topic_cfg lib cfg source b = Inr topic \<and> mfind m (tc_name topic) = Some t \<and>
        tf_dir t = RECV \<and> tf_cfg t = topic)"

text \<open>The map has grown by exactly the ends of these sources.\<close>

definition grown ::
  "NodeLib \<Rightarrow> BridgeFactory \<Rightarrow> TopicCfg \<Rightarrow> string list \<Rightarrow> TopicFactory smap \<Rightarrow> TopicFactory smap \<Rightarrow> bool" where
  "grown lib b cfg sources m m' \<longleftrightarrow>
     (\<forall>name t. mfind m name = Some t \<longrightarrow> mfind m' name = Some t) \<and>
     (\<forall>source \<in> set sources. receiver_end lib b cfg source m') \<and>
     length m' = length m + length sources"

lemma receiver_end_mono:
  "receiver_end lib b cfg s m \<Longrightarrow> (\<And>name t. mfind m name = Some t \<Longrightarrow> mfind m' name = Some t) \<Longrightarrow>
    receiver_end lib b cfg s m'"
  unfolding receiver_end_def by metis

lemma grown_Cons:
  assumes "recv_topic_cfg lib cfg s b = Inr (tf_cfg t)" and "tf_dir t = RECV"
    and "mfind m (tc_name (tf_cfg t)) = None"
    and "grown lib b cfg sources (mset_at (tc_name (tf_cfg t)) t m) m'"
  shows "grown lib b cfg (s # sources) m m'"
proof -
  have keep: "mfind m' name = Some t'" if "mfind m name = Some t'" for name t'
    using that assms(3,4) unfolding grown_def by (metis mfind_mset_at option.distinct(1))
  have "mfind m' (tc_name (tf_cfg t)) = Some t"
    using assms(4) by (simp add: grown_def mfind_mset_at)
  then have "receiver_end lib b cfg s m'" using assms(1,2) by (auto simp: receiver_end_def)
  then show ?thesis
    using keep assms(4) length_mset_at [OF assms(3)] by (auto simp: grown_def)
qed

lemma init_receivers_grow:
  "init_receivers lib now cfg hosts b1 = Inr b2 \<Longrightarrow> same_node b b1 \<Longrightarrow>
    same_node b b2 \<and> bf_send_topics b2 = bf_send_topics b1 \<and>
    grown lib b cfg (picked_sources b cfg hosts) (bf_recv_topics b1) (bf_recv_topics b2)"
proof (induction hosts arbitrary: b1)
  case Nil
  then show ?case by (simp add: picked_sources_def grown_def)
next
  case (Cons s hosts)
  note same = same_node_reads [OF Cons.prems(2)]
  let ?picked = "mfind (tc_src_hostname_map cfg) s = Some True \<and> (s \<noteq> bf_my_hostname b \<or> bf_is_debug b)"
  show ?case
  proof (cases ?picked)
    case False
    then have "init_receivers lib now cfg hosts b1 = Inr b2"
      using Cons.prems(1) same by (auto split: if_splits option.splits bool.splits)
    from Cons.IH [OF this Cons.prems(2)] False show ?thesis by (auto simp: picked_sources_def)
  next
    case True
    obtain topic t where t: "recv_topic_cfg lib cfg s b1 = Inr topic"
      "mfind (bf_recv_topics b1) (tc_name topic) = None"
      "create_topic lib RECV now topic b1 = Inr t"
      "(if tc_dynamic_dst topic
        then Inr (b1\<lparr>bf_recv_topics := mset_at (tc_name topic) t (bf_recv_topics b1)\<rparr>)
        else init_receivers lib now cfg hosts
          (b1\<lparr>bf_recv_topics := mset_at (tc_name topic) t (bf_recv_topics b1)\<rparr>)) = Inr b2"
      using Cons.prems(1) True same
      by (auto simp: Let_def bindR_Inr_iff simp del: not_None_eq split: if_splits)
    let ?c = "b1\<lparr>bf_recv_topics := mset_at (tc_name topic) t (bf_recv_topics b1)\<rparr>"
    have e: "tf_cfg t = topic" "tf_dir t = RECV" using create_topic_Inr [OF t(3)] by simp_all
    have dyn: "tc_dynamic_dst topic = tc_dynamic_dst cfg" using recv_topic_cfg_shape [OF t(1)] by auto
    have c: "same_node b ?c" using Cons.prems(2) by (simp add: same_node_def node_core_def)
    have grow: "grown lib b cfg (s # rest) (bf_recv_topics b1) m"
      if "grown lib b cfg rest (bf_recv_topics ?c) m" for rest m
      using that t(1,2) e same by (intro grown_Cons [where t = t]) simp_all
    show ?thesis
    proof (cases "tc_dynamic_dst cfg")
      case d: True
      have "grown lib b cfg [] (bf_recv_topics ?c) (bf_recv_topics ?c)" by (simp add: grown_def)
      from grow [OF this] c show ?thesis
        using t(4) dyn d True by (auto simp: picked_sources_def)
    next
      case d: False
      then have "init_receivers lib now cfg hosts ?c = Inr b2" using t(4) dyn by simp
      from Cons.IH [OF this c] grow show ?thesis
        using d True by (auto simp: picked_sources_def)
    qed
  qed
qed

lemma init_receiver_grow:
  assumes "init_receiver lib now cfg b1 = Inr b2" and "same_node b b1"
  shows "same_node b b2 \<and> bf_send_topics b2 = bf_send_topics b1 \<and>
    grown lib b cfg (receiving_sources b cfg) (bf_recv_topics b1) (bf_recv_topics b2)"
  using assms init_receivers_grow [of lib now cfg _ b1 b2 b] same_node_reads [OF assms(2)]
  by (auto simp: init_receiver_def receiving_sources_def grown_def split: option.splits bool.splits)

lemma foldR_init_receiver:
  "foldR (init_receiver lib now) rules b1 = Inr b2 \<Longrightarrow> same_node b b1 \<Longrightarrow>
    same_node b b2 \<and> bf_send_topics b2 = bf_send_topics b1 \<and>
    (\<forall>name t. mfind (bf_recv_topics b1) name = Some t \<longrightarrow> mfind (bf_recv_topics b2) name = Some t) \<and>
    (\<forall>cfg \<in> set rules. \<forall>source \<in> set (receiving_sources b cfg).
       receiver_end lib b cfg source (bf_recv_topics b2)) \<and>
    length (bf_recv_topics b2) =
      length (bf_recv_topics b1) + sum_list (map (\<lambda>cfg. length (receiving_sources b cfg)) rules)"
proof (induction rules arbitrary: b1)
  case (Cons cfg rules)
  obtain c where c: "init_receiver lib now cfg b1 = Inr c" "foldR (init_receiver lib now) rules c = Inr b2"
    using Cons.prems(1) by (auto simp: bindR_Inr_iff)
  from init_receiver_grow [OF c(1) Cons.prems(2)]
  have g: "same_node b c" "bf_send_topics c = bf_send_topics b1"
    "grown lib b cfg (receiving_sources b cfg) (bf_recv_topics b1) (bf_recv_topics c)" by simp_all
  from Cons.IH [OF c(2) g(1)] g(2,3) show ?case
    by (auto simp: grown_def intro: receiver_end_mono)
qed simp

section \<open>Both\<close>

lemma topicOperatorInit_creates:
  assumes "topicOperatorInit lib now b = Inr b'"
    and "bf_send_topics b = []" and "bf_recv_topics b = []"
  shows "same_node b b' \<and> senders_of lib b (sending_rules b) (bf_send_topics b') \<and>
    (\<forall>cfg \<in> set (ht_topic_cfgs (bf_config b)). \<forall>source \<in> set (receiving_sources b cfg).
       receiver_end lib b cfg source (bf_recv_topics b')) \<and>
    length (bf_recv_topics b') =
      sum_list (map (\<lambda>cfg. length (receiving_sources b cfg)) (ht_topic_cfgs (bf_config b)))"
proof -
  obtain b1 where s: "foldR (init_sender lib now) (ht_topic_cfgs (bf_config b)) b = Inr b1"
    and r: "foldR (init_receiver lib now) (ht_topic_cfgs (bf_config b)) b1 = Inr b'"
    using assms(1) by (auto simp: topicOperatorInit_def)
  have "senders_of lib b [] (bf_send_topics b)" using assms(2) by (simp add: senders_of_def)
  from foldR_init_sender [OF s same_node_refl this]
  have 1: "same_node b b1" "bf_recv_topics b1 = []" "senders_of lib b (sending_rules b) (bf_send_topics b1)"
    using assms(3) by (simp_all add: sending_rules_def)
  from foldR_init_receiver [OF r 1(1)] 1(2,3) show ?thesis by simp
qed

end
