(* ===== verification/Node_Properties.thy ===== *)
theory Node_Properties
  imports Node_Topology Zenoh_Properties
begin

text \<open>
  Properties of a whole node and of two nodes that talk: the topology that the configuration
  creates, the two ends of a route, the delivery of a message from the callback of the sender to
  the publisher of the receiver, and shutting the bridge down.
\<close>

section \<open>Delivery\<close>

text \<open>The callback that a running receiver hands to the transport; it never throws.\<close>

definition receiver_callback ::
  "('pose, 'o) RosLib \<Rightarrow> TransportEnvelope \<Rightarrow> TopicFactory \<Rightarrow> bool \<times> TopicFactory" where
  "receiver_callback lib e t = (False, snd (enqueueEnvelope lib e t))"

lemma decode_wire_default:
  "decode_wire w = Inr e \<Longrightarrow> DecodeEnvelope (Some w) (Some default_envelope) = (Inr (), Some e)"
  by (auto simp: decode_wire_def split: prod.splits sum.splits option.splits)

lemma on_sample_wire:
  assumes "encodable e"
  shows "on_sample (receiver_callback lib) (envelope_wire 0 e) (Some z, t) =
    (Some z, snd (enqueueEnvelope lib e t))"
proof -
  have "decode_wire (envelope_wire 0 e) = Inr e" using assms by (auto simp: decode_wire_iff)
  then show ?thesis
    by (simp add: on_sample_def decode_wire_default receiver_callback_def)
qed

lemma enqueue_into_empty:
  assumes "accepts lib (tf_cfg t) e" and "tf_recv_thread_flag t" and "tf_recv_queue t = []"
  shows "tf_recv_queue (snd (enqueueEnvelope lib e t)) = [e] \<and>
    tf_cfg (snd (enqueueEnvelope lib e t)) = tf_cfg t"
proof -
  have "push_queue (tc_qos_class (tf_cfg t)) e (tf_recv_queue t) = (kEnqueued, [e])"
    using assms(3) by (cases "tc_qos_class (tf_cfg t)") (simp_all add: push_queue_eq class_capacity_def)
  from enqueueEnvelope_running [OF conjI [OF assms(1,2)] this] show ?thesis by simp
qed

lemma recvFunction_round_publishes:
  assumes "tf_recv_queue t = [e]"
    and "decode_message lib (payload_cfg (tf_cfg t)) now (tc_type (tf_cfg t)) e = Some (Inr m)"
  shows "\<exists>t'. recvFunction_round lib now t = WorkerTook e (Some m) t'"
  using assms by (simp add: recvFunction_round_def deserializePublish_def Let_def)

lemma delivered:
  assumes "decode_message lib (payload_cfg (tf_cfg r)) now (tc_type (tf_cfg r)) e = Some (Inr m)"
    and "accepts lib (tf_cfg r) e" and "tf_recv_thread_flag r" and "tf_recv_queue r = []"
    and "encodable e"
  shows "\<exists>wire r1 r2. encode_wire e = Inr wire \<and>
    on_sample (receiver_callback lib) wire (Some z, r) = (Some z, r1) \<and>
    recvFunction_round lib now r1 = WorkerTook e (Some m) r2"
proof -
  let ?r1 = "snd (enqueueEnvelope lib e r)"
  have q: "tf_recv_queue ?r1 = [e]" "tf_cfg ?r1 = tf_cfg r"
    using enqueue_into_empty [OF assms(2-4)] by simp_all
  obtain r2 where "recvFunction_round lib now ?r1 = WorkerTook e (Some m) r2"
    using recvFunction_round_publishes [OF q(1)] assms(1) q(2) by metis
  then show ?thesis
    using assms(5) on_sample_wire [OF assms(5), of lib z r] by (auto simp: encode_wire_eq)
qed

text \<open>C1: End to end: what the callback of a sender puts on the wire for a message that is not an
  image, the transport of a running receiver of the same topic decodes and queues, and the worker
  publishes exactly the message that \<open>published_for\<close> names: an odometry without its covariance and
  twist and in the world frame, a point cloud thinned out and with quantised positions (or through the
  octree codec) as the rule configures it, any other message unchanged.\<close>

theorem topic_delivery:
  assumes "subCallback lib publish clock None msg s = Some ([(key, e)], s')"
    and "payload_cfg (tf_cfg r) = payload_cfg (tf_cfg s)" and "tc_type (tf_cfg r) = type_of_msg msg"
    and "type_of_msg msg \<noteq> ''sensor_msgs/Image''"
    and "accepts lib (tf_cfg r) e" and "tf_recv_thread_flag r" and "tf_recv_queue r = []"
    and "ros_inverts lib (payload_cfg (tf_cfg s)) msg (payload e)"
    and "draco_faithful (draco lib) q" and "encodable e"
  shows "\<exists>wire r1 r2 m'. encode_wire e = Inr wire \<and>
    on_sample (receiver_callback lib) wire (Some z, r) = (Some z, r1) \<and>
    recvFunction_round lib now r1 = WorkerTook e (Some m') r2 \<and>
    published_for lib (payload_cfg (tf_cfg s)) q msg m'"
proof -
  obtain quality where
    "encode_payload lib (payload_cfg (tf_cfg s)) quality msg = Some (Inr (payload_kind e, payload e))"
    by (rule subCallback_sent [OF assms(1)])
  from payload_roundtrip [OF this assms(8) assms(9) assms(4) refl]
  obtain m' where d: "decode_message lib (payload_cfg (tf_cfg r)) now (tc_type (tf_cfg r)) e = Some (Inr m')"
    and m': "published_for lib (payload_cfg (tf_cfg s)) q msg m'"
    unfolding assms(2,3) by blast
  from delivered [OF d assms(5-7,10)] m' show ?thesis by blast
qed

section \<open>The two ends of a route\<close>

lemma route_ends:
  assumes "init_sender libA now cfg a = Inr a'"
    and "mfind (tc_src_hostname_map cfg) (bf_my_hostname a) = Some True"
    and "tc_my_hostname cfg = bf_my_hostname a" and "\<not> tc_dynamic_dst cfg"
    and "recv_topic_cfg libB (cfg\<lparr>tc_my_hostname := h\<rparr>) (bf_my_hostname a) b = Inr topic"
  shows "\<exists>name t. mfind (bf_send_topics a') name = Some t \<and> tf_sender t = Some (recv_key topic) \<and>
    payload_cfg (tf_cfg t) = payload_cfg topic \<and> tc_type (tf_cfg t) = tc_type topic \<and>
    (\<forall>lib publish clock msg s key e s'. tf_cfg s = tf_cfg t \<and> tf_sender s = tf_sender t \<and>
       type_of_msg msg = tc_type topic \<and>
       subCallback lib publish clock None msg s = Some ([(key, e)], s') \<longrightarrow>
       key = recv_key topic \<and> accepts lib topic e)"
proof -
  obtain name raw transport t where t: "mfind (bf_send_topics a') name = Some t"
    "tf_cfg t = cfg\<lparr>tc_name := name, tc_raw_name := raw, tc_src_hostname := bf_my_hostname a,
      tc_transport_name := transport\<rparr>"
    "tf_sender t = Some (TopicFanoutKey (bf_my_hostname a) (tc_wire_name cfg))"
    using init_sender_topic [OF assms(1,2,4)] by blast
  obtain name' raw' transport' where p: "topic = cfg\<lparr>tc_my_hostname := h, tc_name := name',
      tc_raw_name := raw', tc_src_hostname := bf_my_hostname a, tc_transport_name := transport'\<rparr>"
    using recv_topic_cfg_shape [OF assms(5)] by auto
  have same: "payload_cfg (tf_cfg t) = payload_cfg topic" "tc_type (tf_cfg t) = tc_type topic"
    "expected_payload_kind (tf_cfg t) = expected_payload_kind topic"
    "tc_my_hostname (tf_cfg t) = bf_my_hostname a" "tc_src_hostname topic = bf_my_hostname a"
    "mfind (tc_src_hostname_map topic) (bf_my_hostname a) = Some True"
    using assms(2,3) by (simp_all add: t(2) p payload_cfg_def expected_payload_kind_def)
  have key: "tf_sender t = Some (recv_key topic)" using assms(4) by (simp add: t(3) p recv_key_def)
  have "key = recv_key topic \<and> accepts lib topic e"
    if s: "tf_cfg s = tf_cfg t" "tf_sender s = tf_sender t" "type_of_msg msg = tc_type topic"
      "subCallback lib publish clock None msg s = Some ([(key, e)], s')"
    for lib :: "('p, 'o) RosLib" and publish clock msg s key e s'
  proof -
    obtain q where k: "tf_sender s = Some key" and st: "stamped lib s e"
      and enc: "encode_payload lib (payload_cfg (tf_cfg s)) q msg = Some (Inr (payload_kind e, payload e))"
      by (rule subCallback_sent [OF s(4)])
    have "payload_kind e = expected_payload_kind topic"
      using encode_payload_kind [OF enc] s(1,3) same(2,3) by simp
    then show ?thesis using k st s(1,2) key same
      by (simp add: accepts_def stamped_def)
  qed
  then show ?thesis using t(1) key same(1,2) by blast
qed

text \<open>C4: When two nodes read the same parameters, the end that the source node creates for a rule
  publishes under the very key that the end for this source on the other node subscribes to, and that
  end accepts every envelope that the callback lets out.\<close>

theorem route_endpoints:
  assumes "getHostTopicAndTransportConfig lib params (bf_my_hostname a) = Inr ca"
    and "getHostTopicAndTransportConfig lib params h = Inr cb"
    and "i < length (ht_topic_cfgs ca)"
    and "init_sender libA now (ht_topic_cfgs ca ! i) a = Inr a'"
    and "mfind (tc_src_hostname_map (ht_topic_cfgs ca ! i)) (bf_my_hostname a) = Some True"
    and "recv_topic_cfg libB (ht_topic_cfgs cb ! i) (bf_my_hostname a) b = Inr topic"
  shows "\<exists>name t. mfind (bf_send_topics a') name = Some t \<and> tf_sender t = Some (recv_key topic) \<and>
    payload_cfg (tf_cfg t) = payload_cfg topic \<and> tc_type (tf_cfg t) = tc_type topic \<and>
    (\<forall>lib publish clock msg s key e s'. tf_cfg s = tf_cfg t \<and> tf_sender s = tf_sender t \<and>
       type_of_msg msg = tc_type topic \<and>
       subCallback lib publish clock None msg s = Some ([(key, e)], s') \<longrightarrow>
       key = recv_key topic \<and> accepts lib topic e)"
proof -
  have rule: "tc_my_hostname (ht_topic_cfgs ca ! i) = bf_my_hostname a \<and>
      \<not> tc_dynamic_dst (ht_topic_cfgs ca ! i)"
    using rule_host [OF assms(1)] assms(3) by simp
  have "ht_topic_cfgs cb ! i = on_host h (ht_topic_cfgs ca ! i)"
    using same_rules [OF assms(1,2)] assms(3) by simp
  with assms(6) have "recv_topic_cfg libB (on_host h (ht_topic_cfgs ca ! i)) (bf_my_hostname a) b = Inr topic"
    by simp
  from route_ends [OF assms(4,5) _ _ this] rule show ?thesis by blast
qed

section \<open>The topology of a node\<close>

text \<open>C10: From empty maps the configuration creates the ends that it asks for and no others.  Under
  each name there is a sender exactly when a rule with that name selects this node as a source, made
  for the last such rule and stamping this node as the source.  For each rule that selects this node
  as a destination and each selected source other than this node (unless debugging; the first one
  only, when the destination is dynamic) there is a receiver configured for it under its own name, and
  there are exactly as many receivers as such pairs.\<close>

theorem topology:
  assumes "topicOperatorInit lib now b = Inr b'"
    and "bf_send_topics b = []" and "bf_recv_topics b = []"
  shows "topology_wf b' \<and> bf_config b' = bf_config b \<and> bf_my_hostname b' = bf_my_hostname b \<and>
    (\<forall>name. case sender_rule b name of
       None \<Rightarrow> mfind (bf_send_topics b') name = None
     | Some cfg \<Rightarrow> \<exists>t. mfind (bf_send_topics b') name = Some t \<and> sender_end lib b cfg t) \<and>
    (\<forall>cfg \<in> set (ht_topic_cfgs (bf_config b)). \<forall>source \<in> set (receiving_sources b cfg).
       receiver_end lib b cfg source (bf_recv_topics b')) \<and>
    length (bf_recv_topics b') =
      sum_list (map (\<lambda>cfg. length (receiving_sources b cfg)) (ht_topic_cfgs (bf_config b)))"
proof -
  have "topology_wf b" using assms(2,3) by (simp add: topology_wf_def map_ok_def)
  from topicOperatorInit_wf [OF assms(1) this] show ?thesis
    using topicOperatorInit_creates [OF assms]
    by (simp add: node_frame_def senders_of_def sender_rule_def)
qed

section \<open>Shutting down\<close>

lemma stopThread_receiver:
  assumes "stopThread lib clock missed t = Some r" and "tf_dir t = RECV" and "tf_recv_thread_flag t"
  shows "case r of Hangs \<Rightarrow> missed | Returns (ms, t') \<Rightarrow> \<not> missed \<and> length ms = length (tf_recv_queue t)"
proof -
  let ?t = "t\<lparr>tf_subscription := None, tf_recv_thread_flag := False\<rparr>"
  obtain ms t1 where d: "drain lib clock 0 (tf_recv_queue t) ?t = Some (ms, t1)"
    and r: "r = (if missed then Hangs else Returns (ms, t1\<lparr>tf_ros_active := False\<rparr>))"
    using assms by (auto simp: stopThread_def Let_def bind_eq_Some_conv)
  from drain_length [OF d] r show ?thesis by simp
qed

definition queued :: "TopicFactory smap \<Rightarrow> nat" where
  "queued ts = sum_list (map (\<lambda>(name, t). length (tf_recv_queue t)) ts)"

definition running :: "TopicFactory smap \<Rightarrow> bool" where
  "running ts \<longleftrightarrow> list_all (\<lambda>(name, t). tf_dir t = RECV \<and> tf_recv_thread_flag t) ts"

lemma stop_topics_receivers:
  "stop_topics lib clock missed ts = Some r \<Longrightarrow> running ts \<Longrightarrow>
    (case r of
       Hangs \<Rightarrow> \<exists>name \<in> fst ` set ts. missed name
     | Returns ms \<Rightarrow> (\<forall>name \<in> fst ` set ts. \<not> missed name) \<and> length ms = queued ts)"
proof (induction ts arbitrary: r)
  case (Cons a ts)
  obtain name t where a: "a = (name, t)" by (cases a)
  obtain r1 where r1: "stopThread lib clock (missed name) t = Some r1"
    using Cons.prems(1) by (auto simp: a bind_eq_Some_conv)
  have t: "tf_dir t = RECV" "tf_recv_thread_flag t" "running ts"
    using Cons.prems(2) by (simp_all add: running_def a)
  note one = stopThread_receiver [OF r1 t(1,2)]
  show ?case
  proof (cases r1)
    case Hangs
    then show ?thesis using Cons.prems(1) r1 one by (simp add: a)
  next
    case (Returns x)
    obtain ms1 t' where x: "x = (ms1, t')" by (cases x)
    obtain r2 where r2: "stop_topics lib clock missed ts = Some r2"
      "r = (case r2 of Hangs \<Rightarrow> Hangs | Returns ms' \<Rightarrow> Returns (ms1 @ ms'))"
      using Cons.prems(1) r1 Returns x by (auto simp: a bind_eq_Some_conv)
    show ?thesis using Cons.IH [OF r2(1) t(3)] one r2(2) Returns x
      by (cases r2) (simp_all add: a queued_def)
  qed
qed (simp add: queued_def)

lemma stop_topics_senders:
  "list_all (\<lambda>(name, t). tf_dir t = SEND) ts \<Longrightarrow> stop_topics lib clock missed ts = Some (Returns [])"
proof (induction ts)
  case (Cons a ts)
  then show ?case by (cases a) (simp add: stopThread_def)
qed simp

text \<open>C22: Stopping a running bridge returns exactly when no receiving worker misses its wake-up.  Then
  it has handed every envelope that waited in a receive queue to the publishing step, leaves no topic
  end, no service end and no open session behind, and a second stop does nothing; otherwise it hangs.\<close>

theorem bridge_shutdown:
  assumes "stopBridge lib clock missed b = Some r" and "\<not> bf_stopped b"
    and "running (bf_recv_topics b)" and "list_all (\<lambda>(name, t). tf_dir t = SEND) (bf_send_topics b)"
  shows "case r of
      Hangs \<Rightarrow> \<exists>name \<in> fst ` set (bf_recv_topics b). missed name
    | Returns (ms, b') \<Rightarrow>
        (\<forall>name \<in> fst ` set (bf_recv_topics b). \<not> missed name) \<and>
        length ms = queued (bf_recv_topics b) \<and>
        bf_stopped b' \<and> \<not> bf_diagnostics b' \<and> bf_send_topics b' = [] \<and> bf_recv_topics b' = [] \<and>
        bf_service_servers b' = [] \<and> bf_service_clients b' = [] \<and>
        closed_session (bf_control b') \<and> closed_session (bf_image b') \<and> closed_session (bf_cloud b') \<and>
        (\<forall>missed'. stopBridge lib clock missed' b' = Some (Returns ([], b')))"
proof -
  obtain r1 where s: "stop_topics lib clock missed (bf_recv_topics b) = Some r1"
    using assms(1,2) by (auto simp: stopBridge_def bind_eq_Some_conv)
  note recv = stop_topics_receivers [OF s assms(3)]
  show ?thesis
  proof (cases r1)
    case Hangs
    then show ?thesis using assms(1,2) s recv by (simp add: stopBridge_def)
  next
    case (Returns ms)
    then have "r = Returns (ms, closed_bridge b)"
      using assms(1,2) s stop_topics_senders [OF assms(4), of lib clock missed] by (simp add: stopBridge_def)
    then show ?thesis using recv Returns
      by (simp add: closed_bridge_def close_session_closed stopBridge_def)
  qed
qed

section \<open>A concrete pair of nodes\<close>

definition plain_node :: NodeLib where
  "plain_node =
     \<lparr>nl_xml = plain_xml, nl_resolve = Inr, nl_open = (\<lambda>_. True), nl_watch = (\<lambda>_. True),
      nl_announce = (\<lambda>_. True), nl_declare_publisher = (\<lambda>_ _ _. True),
      nl_declare_queryable = (\<lambda>_. Inr ())\<rparr>"

definition open_transport :: ZenohImpl where
  "open_transport = (case Impl_create True True True 0 default_zenoh_config ''a'' of Inr z \<Rightarrow> z)"

definition sample_node :: "string \<Rightarrow> BridgeFactory" where
  "sample_node h =
     \<lparr>bf_my_hostname = h, bf_do_odom_convert = True, bf_is_debug = False,
      bf_my_drone_id = DRONE_ID_NULL,
      bf_config = \<lparr>ht_host_map = [(''a'', []), (''b'', [])],
        ht_setup = \<lparr>zs_control = default_zenoh_config, zs_image_enabled = False,
          zs_image = default_zenoh_config, zs_cloud_enabled = False,
          zs_cloud = default_zenoh_config\<rparr>,
        ht_topic_cfgs = [sample_topic_cfg h]\<rparr>,
      bf_send_topics = [], bf_recv_topics = [], bf_service_servers = [], bf_service_clients = [],
      bf_control = Some open_transport, bf_image = None, bf_cloud = None, bf_diagnostics = True,
      bf_stopped = False\<rparr>"

lemma sample_topic_cfg_simps [simp]:
  "tc_name (sample_topic_cfg h) = ''/chat''" "tc_type (sample_topic_cfg h) = ''std_msgs/String''"
  "tc_my_hostname (sample_topic_cfg h) = h" "tc_dynamic_dst (sample_topic_cfg h) = False"
  "tc_src_hostname_map (sample_topic_cfg h) = [(''a'', True), (''b'', False)]"
  "tc_dst_hostname_map (sample_topic_cfg h) = [(''a'', False), (''b'', True)]"
  "tc_has_prefix (sample_topic_cfg h) = True" "tc_same_prefix (sample_topic_cfg h) = False"
  by (simp_all add: sample_topic_cfg_def)

lemma sample_create:
  "tc_type topic = ''std_msgs/String'' \<Longrightarrow> \<not> tc_dynamic_dst topic \<Longrightarrow> bf_control b \<noteq> None \<Longrightarrow>
    bf_config b = bf_config (sample_node h) \<Longrightarrow>
    \<exists>t. create_topic plain_node dir now topic b = Inr t"
  by (cases dir) (auto simp: create_topic_def transportForTopic_def sample_node_def thrown_def
      TopicFactory_create_def check_msg_type_def msgs_types_def plain_node_def Let_def)

lemma sample_sender_init:
  "\<exists>b'. init_sender plain_node now (sample_topic_cfg ''a'') (sample_node ''a'') = Inr b'"
proof -
  let ?topic = "sample_topic_cfg ''a''\<lparr>tc_name := ''/chat'', tc_raw_name := ''/chat'',
      tc_src_hostname := ''a'', tc_transport_name :=
        topic_transport (sample_topic_cfg ''a''\<lparr>tc_name := ''/chat''\<rparr>) (sample_node ''a'')\<rparr>"
  obtain t where "create_topic plain_node SEND now ?topic (sample_node ''a'') = Inr t"
    using sample_create [of ?topic "sample_node ''a''" "''a''" SEND now] by (auto simp: sample_node_def)
  then show ?thesis
    by (simp add: init_sender_def Let_def drone_prefix_def starts_with_def plain_node_def
        sample_node_def)
qed

lemma topology_witness:
  "\<exists>b'. topicOperatorInit plain_node 7 (sample_node ''a'') = Inr b' \<and> topology_wf b' \<and>
     mfind (bf_send_topics b') ''/chat'' \<noteq> None \<and> bf_recv_topics b' = []"
proof -
  obtain b' where s: "init_sender plain_node 7 (sample_topic_cfg ''a'') (sample_node ''a'') = Inr b'"
    using sample_sender_init by blast
  have "bf_config b' = bf_config (sample_node ''a'') \<and> bf_my_hostname b' = ''a''"
    using init_sender_wf [OF s] by (simp add: topology_wf_def map_ok_def node_frame_def sample_node_def)
  then have i: "topicOperatorInit plain_node 7 (sample_node ''a'') = Inr b'"
    using s by (simp add: topicOperatorInit_def init_receiver_def sample_node_def)
  have r: "sending_rules (sample_node ''a'') = [sample_topic_cfg ''a'']"
    "receiving_sources (sample_node ''a'') (sample_topic_cfg ''a'') = []"
    by (simp_all add: sending_rules_def receiving_sources_def sample_node_def)
  have "sender_name (sample_node ''a'') (sample_topic_cfg ''a'') = ''/chat''"
    by (simp add: sender_name_def sample_node_def)
  then have rule: "sender_rule (sample_node ''a'') ''/chat'' = Some (sample_topic_cfg ''a'')"
    by (simp add: sender_rule_def r)
  have node: "ht_topic_cfgs (bf_config (sample_node ''a'')) = [sample_topic_cfg ''a'']"
    "bf_send_topics (sample_node ''a'') = []" "bf_recv_topics (sample_node ''a'') = []"
    by (simp_all add: sample_node_def)
  note made = topology [OF i node(2,3)]
  from made have "\<forall>name. case sender_rule (sample_node ''a'') name of
       None \<Rightarrow> mfind (bf_send_topics b') name = None
     | Some cfg \<Rightarrow> \<exists>t. mfind (bf_send_topics b') name = Some t \<and>
         sender_end plain_node (sample_node ''a'') cfg t" by blast
  from spec [OF this, of "''/chat''"] have "mfind (bf_send_topics b') ''/chat'' \<noteq> None"
    by (auto simp: rule)
  moreover have "bf_recv_topics b' = []" using made by (simp add: node(1) r(2))
  ultimately show ?thesis using i made by blast
qed

lemma route_endpoints_witness:
  "\<exists>a' topic name t. init_sender plain_node 7 (sample_topic_cfg ''a'') (sample_node ''a'') = Inr a' \<and>
     recv_topic_cfg plain_node (sample_topic_cfg ''b'') ''a'' (sample_node ''b'') = Inr topic \<and>
     mfind (bf_send_topics a') name = Some t \<and> tf_sender t = Some (recv_key topic)"
proof -
  obtain a' where a: "init_sender plain_node 7 (sample_topic_cfg ''a'') (sample_node ''a'') = Inr a'"
    using sample_sender_init by blast
  obtain topic where t: "recv_topic_cfg plain_node (sample_topic_cfg ''b'') ''a'' (sample_node ''b'') = Inr topic"
    by (simp add: recv_topic_cfg_def drone_prefix_def starts_with_def plain_node_def)
  obtain ca where ca: "getHostTopicAndTransportConfig plain_xml sample_params ''a'' = Inr ca"
    "ht_topic_cfgs ca = [sample_topic_cfg ''a'']"
    using sample_config [of "''a''"] by blast
  obtain cb where cb: "getHostTopicAndTransportConfig plain_xml sample_params ''b'' = Inr cb"
    "ht_topic_cfgs cb = [sample_topic_cfg ''b'']"
    using sample_config [of "''b''"] by blast
  have h: "bf_my_hostname (sample_node ''a'') = ''a''" by (simp add: sample_node_def)
  show ?thesis
    using route_endpoints [of plain_xml sample_params "sample_node ''a''" ca "''b''" cb 0 plain_node 7 a'
        plain_node "sample_node ''b''" topic] ca cb a t
    by (fastforce simp: h)
qed

definition chat_sender :: TopicFactory where
  "chat_sender = (sample_factory SEND)\<lparr>tf_cfg := sample_topic\<lparr>tc_my_hostname := ''a''\<rparr>\<rparr>"

lemma chat_sent:
  "\<exists>t. subCallback sample_lib (\<lambda>_ _. True) (\<lambda>_. 5) None (StringMsg ()) chat_sender =
     Some ([(TopicFanoutKey ''a'' ''chat'', chat_envelope\<lparr>source_time_ns := 5\<rparr>)], t)"
proof -
  have lim: "sendFreqControl 5 chat_sender = (False, chat_sender\<lparr>tf_sub_last_time := 5\<rparr>)"
    by (simp add: sendFreqControl_def Let_def chat_sender_def)
  have ser: "serialize sample_lib (StringMsg ()) = [1, 2]" by (simp add: sample_lib_def)
  have k: "tf_sender chat_sender = Some (TopicFanoutKey ''a'' ''chat'')"
    by (simp add: chat_sender_def sample_sender)
  have e: "(build_envelope sample_lib 5 (StringMsg ()) (chat_sender\<lparr>tf_sub_last_time := 5\<rparr>))
      \<lparr>payload_kind := kRosSerialized, payload := [1, 2]\<rparr> = chat_envelope\<lparr>source_time_ns := 5\<rparr>"
    by (simp add: build_envelope_def chat_envelope_def default_envelope_def Let_def RosTypeMd5_def
        RosTimeToNs_def sample_lib_def chat_sender_def sample_topic_def default_topic_cfg_def msgs_types_def)
  have "recordSend (quality_cfg (tf_cfg chat_sender)) now n st = Some (count_send now n st)" for now n st
    using sample_record [of now n st] by (simp add: chat_sender_def quality_cfg_def)
  then show ?thesis by (simp add: subCallback_def lim ser Let_def k e)
qed

lemma topic_delivery_witness:
  "\<exists>wire r1 r2. encode_wire (chat_envelope\<lparr>source_time_ns := 5\<rparr>) = Inr wire \<and>
     on_sample (receiver_callback sample_lib) wire (Some open_transport, sample_factory RECV) =
       (Some open_transport, r1) \<and>
     recvFunction_round sample_lib 9 r1 =
       WorkerTook (chat_envelope\<lparr>source_time_ns := 5\<rparr>) (Some (StringMsg ())) r2"
proof -
  let ?e = "chat_envelope\<lparr>source_time_ns := 5\<rparr>"
  obtain t where sent: "subCallback sample_lib (\<lambda>_ _. True) (\<lambda>_. 5) None (StringMsg ()) chat_sender =
      Some ([(TopicFanoutKey ''a'' ''chat'', ?e)], t)"
    using chat_sent by blast
  have "payload_cfg (tf_cfg (sample_factory RECV)) = payload_cfg (tf_cfg chat_sender)"
    by (simp add: chat_sender_def payload_cfg_def)
  moreover have "accepts sample_lib sample_topic ?e" using sample_accepts by (simp add: accepts_def)
  moreover have "ros_inverts sample_lib (payload_cfg (tf_cfg chat_sender)) (StringMsg ()) (payload ?e)"
    by (simp add: ros_inverts_def sample_lib_def)
  moreover have "draco_faithful (draco sample_lib) (\<lambda>_ p. p)"
    using one_point_faithful by (simp add: sample_lib_def)
  moreover have "encodable ?e"
    by (simp add: encodable_def chat_envelope_def default_envelope_def kMaxEnvelopePayloadBytes_def)
  ultimately show ?thesis
    using topic_delivery [OF sent, of "sample_factory RECV" "\<lambda>_ p. p" open_transport 9] by auto
qed

lemma bridge_shutdown_witness:
  "let b = sample_node ''b''
       \<lparr>bf_recv_topics := [(''/chat'', (sample_factory RECV)\<lparr>tf_recv_queue := [chat_envelope]\<rparr>)]\<rparr>
   in (\<exists>b'. stopBridge sample_lib (\<lambda>_. 0) (\<lambda>_. False) b = Some (Returns ([Some (StringMsg ())], b')) \<and>
         bf_recv_topics b' = [] \<and> closed_session (bf_control b')) \<and>
      stopBridge sample_lib (\<lambda>_. 0) (\<lambda>_. True) b = Some Hangs"
proof -
  let ?b = "sample_node ''b''
    \<lparr>bf_recv_topics := [(''/chat'', (sample_factory RECV)\<lparr>tf_recv_queue := [chat_envelope]\<rparr>)]\<rparr>"
  have "\<exists>b. stopBridge sample_lib (\<lambda>_. 0) (\<lambda>_. False) ?b = Some (Returns ([Some (StringMsg ())], b))"
    by (simp add: stopBridge_def sample_node_def stopThread_def deserializePublish_def sample_decode Let_def)
  then obtain b where s: "stopBridge sample_lib (\<lambda>_. 0) (\<lambda>_. False) ?b =
      Some (Returns ([Some (StringMsg ())], b))"
    by blast
  moreover have "stopBridge sample_lib (\<lambda>_. 0) (\<lambda>_. True) ?b = Some Hangs"
    by (simp add: stopBridge_def sample_node_def stopThread_def deserializePublish_def sample_decode Let_def)
  ultimately show ?thesis using bridge_shutdown [OF s] by (simp add: sample_node_def running_def)
qed

end
