(* ===== verification/Cv_Safety.thy ===== *)
theory Cv_Safety
  imports Cv_Properties
begin

text \<open>
  Conversions stay inside the memory of the matrix they are given.
\<close>

lemma thrown_by_bind [simp]:
  "bindR (thrown_by r) f = Inl Undefined \<longleftrightarrow> (\<exists>x. r = Inr x \<and> f x = Inl Undefined)"
  by (cases r) simp_all

lemma convert_image_defined:
  assumes "getCvType dst = Inr ty" shows "convert_image lib src dst code m \<noteq> Inl Undefined"
  by (simp add: convert_image_def assms Let_def)

lemma foldR_defined:
  "(\<And>x s. x \<in> set xs \<Longrightarrow> f x s \<noteq> Inl Undefined) \<Longrightarrow> foldR f xs s \<noteq> Inl Undefined"
proof (induction xs arbitrary: s)
  case (Cons x xs)
  then show ?case by (cases "f x s") auto
qed simp

definition sane :: "Mat \<Rightarrow> bool" where
  "sane m \<longleftrightarrow> readable m \<and> 0 \<le> mat_rows m \<and> 0 \<le> mat_cols m"

lemma own_sane: "own_mat m \<Longrightarrow> sane m"
  by (simp add: own_mat_def sane_def)

lemma convert_image_sane:
  assumes "convertTo_documented lib" "cvtColor_documented lib" and "getCvType dst = Inr ty"
    and "convert_image lib src dst code m = Inr m'" and "sane m"
  shows "sane m' \<and> same_size m m'"
proof (cases "code = SAME_FORMAT")
  case True
  then show ?thesis using convert_same [of lib src dst m m' ty] assms own_sane by (auto simp: sane_def)
next
  case False
  then show ?thesis using convert_color [of lib src dst code m m'] assms own_sane by blast
qed

lemma toCvCopyImpl_sane:
  assumes "cv_documented lib" and "sane m" and "getCvType dst = Inr ty"
  shows "toCvCopyImpl lib m h src dst \<noteq> Inl Undefined \<and>
    (\<forall>c. toCvCopyImpl lib m h src dst = Inr c \<longrightarrow> sane (cvi_image c) \<and> same_size m (cvi_image c))"
proof -
  have docs: "convertTo_documented lib" "cvtColor_documented lib"
    using assms(1) by (simp_all add: cv_documented_def)
  have "foldR (convert_image lib src dst) codes m \<noteq> Inl Undefined" for codes
    using convert_image_defined [OF assms(3)] by (intro foldR_defined) blast
  moreover have "sane m' \<and> same_size m m'" if "foldR (convert_image lib src dst) codes m = Inr m'" for codes m'
    using foldR_invariant [OF that, of "\<lambda>x. sane x \<and> same_size m x"] assms(2)
      convert_image_sane [OF docs assms(3)] same_size_trans by (auto simp: same_size_def)
  moreover have "sane (copyTo m) \<and> same_size m (copyTo m)"
    using assms(2) copyTo_own [of m] own_sane by (simp add: sane_def)
  ultimately show ?thesis
    using assms(2) by (auto simp: toCvCopyImpl_def sane_def bindR_def split: sum.splits)
qed

lemma accepted_sane:
  assumes "cv_documented lib" and "matFromImage lib s = Inr m"
    and "enc_entry (im_encoding s) = Some (kind, n, bits)" and "1 \<le> n" "n \<le> 512"
    and "no_wrap s (pixel_size n bits)"
  shows "sane m \<and> mat_rows m = int (unat (im_height s)) \<and> mat_cols m = int (unat (im_width s))"
  using view_in_bounds [OF assms(1,3-6)] assms(2) by (simp add: sane_def)

end
