(* ===== verification/Image_Delivery.thy ===== *)
theory Image_Delivery
  imports Node_Properties Cv_Safety
begin

text \<open>
  The way of an image: what the sender hands to the JPEG encoder, and what the receiver publishes.
  Images are the one type whose pixels are not preserved; their size, encoding and header are.
\<close>

section \<open>Encoding\<close>

text \<open>The image that the sender scales and encodes.\<close>

definition to_bgr8 :: "CvLib \<Rightarrow> RosImage \<Rightarrow> failure + CvImage" where
  "to_bgr8 cv s = (if im_encoding s = enc_BGR8 then toCvShare cv s enc_BGR8 else toCvCopy cv s enc_BGR8)"

definition sane_result :: "RosImage \<Rightarrow> failure + CvImage \<Rightarrow> bool" where
  "sane_result s r \<longleftrightarrow> r \<noteq> Inl Undefined \<and> (\<forall>c. r = Inr c \<longrightarrow> sane (cvi_image c) \<and>
    mat_rows (cvi_image c) = int (unat (im_height s)) \<and> mat_cols (cvi_image c) = int (unat (im_width s)))"

lemma to_bgr8_sane:
  assumes "cv_documented cv" and "enc_entry (im_encoding s) = Some (kind, n, bits)" and "1 \<le> n" "n \<le> 512"
    and "no_wrap s (pixel_size n bits)"
  shows "sane_result s (to_bgr8 cv s)"
proof (cases "matFromImage cv s")
  case (Inl e)
  then have "e \<noteq> Undefined" using view_in_bounds [OF assms] by auto
  then show ?thesis by (simp add: to_bgr8_def toCvShare_def toCvCopy_def Inl sane_result_def)
next
  case (Inr m)
  note m = accepted_sane [OF assms(1) Inr assms(2-5)]
  then have "sane_result s (toCvCopy cv s enc_BGR8)"
    using toCvCopyImpl_sane [OF assms(1) _ sample_types(3), of m "im_header s" "im_encoding s"]
    by (simp add: sane_result_def toCvCopy_def Inr same_size_def)
  moreover have "sane_result s (bindR (matFromImage cv s)
      (\<lambda>m. Inr \<lparr>cvi_header = im_header s, cvi_encoding = im_encoding s, cvi_image = m\<rparr>))"
    using m by (simp add: sane_result_def Inr)
  ultimately show ?thesis unfolding to_bgr8_def toCvShare_def by (simp only: if_split simp_thms)
qed

text \<open>C9: Encoding an image never hands OpenCV memory outside of the message, whatever its encoding,
  byte order and content, as long as the products of its sizes fit in 32 bits and the scaled sizes
  in an \<^verbatim>\<open>int\<close>.\<close>

theorem image_encoding_safe:
  assumes "cv_documented (cvlib lib)" and "enc_entry (im_encoding s) = Some (kind, n, bits)"
    and "1 \<le> n" "n \<le> 512" and "no_wrap s (pixel_size n bits)"
    and "int_range \<lfloor>real (unat (im_width s)) * img_resize_rate cfg\<rfloor>"
    and "int_range \<lfloor>real (unat (im_height s)) * img_resize_rate cfg\<rfloor>"
  shows "encode_payload lib cfg quality (ImageMsg s) \<noteq> None"
proof -
  let ?cv = "cvlib lib"
  note sane = to_bgr8_sane [OF assms(1-5)]
  have "encode_image ?cv cfg quality s \<noteq> Inl Undefined"
  proof (cases "to_bgr8 ?cv s")
    case (Inl e)
    then show ?thesis using sane by (simp add: encode_image_def to_bgr8_def sane_result_def)
  next
    case (Inr c)
    let ?m = "cvi_image c"
    have "readable ?m" using sane Inr by (simp add: sane_def sane_result_def)
    moreover have "scaled (mat_cols ?m) (img_resize_rate cfg) \<noteq> Inl Undefined"
      "scaled (mat_rows ?m) (img_resize_rate cfg) \<noteq> Inl Undefined"
      using sane Inr assms(6,7) by (simp_all add: scaled_def Let_def sane_result_def)
    ultimately show ?thesis
      unfolding encode_image_def to_bgr8_def [symmetric] Inr bindR_simps Let_def
      by (auto simp: bindR_def split: sum.splits option.splits if_splits)
  qed
  then show ?thesis by simp
qed

section \<open>What is encoded\<close>

text \<open>A side of an image after scaling.\<close>

definition sized :: "PayloadCfg \<Rightarrow> u32 \<Rightarrow> int" where
  "sized cfg w = (if \<bar>img_resize_rate cfg - 1\<bar> > 1 / 1000000
     then max 1 \<lfloor>real (unat w) * img_resize_rate cfg\<rfloor> else int (unat w))"

lemma native_type:
  assumes "cv_documented lib" and "matFromImage lib s = Inr m"
    and "enc_entry (im_encoding s) = Some (kind, n, bits)" and "1 \<le> n" "n \<le> 512"
    and "no_wrap s (pixel_size n bits)" and "same_endian lib s \<or> bits = 8"
  shows "getCvType (im_encoding s) = Inr (mat_type m)"
proof -
  have docs: "documented (enc lib)" "mat_documented lib"
    using assms(1) by (simp_all add: cv_documented_def)
  obtain d where d: "getCvType (im_encoding s) = Inr (CV_MAKETYPE d n)" "bits = 8 * depth_bytes d"
    using getCvType_entry [OF assms(3-5)] by blast
  have "0 \<le> bits" using d(2) depth_bytes_range [of d] by simp
  show ?thesis
  proof (cases rule: matFromImage_cases [OF docs assms(3-5) d(1) assms(6) \<open>0 \<le> bits\<close>])
    case (1 e)
    then show ?thesis using assms(2) by simp
  next
    case 2
    then show ?thesis using assms(2,7) d(1) by (auto simp: view_def split: if_splits)
  qed
qed

lemma to_bgr8_type:
  assumes "cv_documented lib" and "to_bgr8 lib s = Inr c"
    and "enc_entry (im_encoding s) = Some (kind, n, bits)" and "1 \<le> n" "n \<le> 512"
    and "no_wrap s (pixel_size n bits)" and "same_endian lib s \<or> bits = 8"
  shows "mat_type (cvi_image c) = CV_MAKETYPE 0 3"
proof -
  obtain m where m: "matFromImage lib s = Inr m"
    using assms(2) by (auto simp: to_bgr8_def toCvShare_def toCvCopy_def split: if_splits)
  have ty: "getCvType (im_encoding s) = Inr (mat_type m)"
    by (rule native_type [OF assms(1) m assms(3-7)])
  have nn: "0 \<le> mat_rows m" "0 \<le> mat_cols m"
    using accepted_sane [OF assms(1) m assms(3-6)] by simp_all
  have "getCvType (cvi_encoding c) = Inr (mat_type (cvi_image c)) \<and> cvi_encoding c = enc_BGR8"
    if "toCvCopyImpl lib m (im_header s) (im_encoding s) enc_BGR8 = Inr c"
    using conversion_type [OF assms(1) that assms(3-5) ty, of KColor 3 8] nn sample_entries(3) by auto
  moreover have "toCvCopyImpl lib m (im_header s) (im_encoding s) enc_BGR8 = Inr c \<or>
      im_encoding s = enc_BGR8 \<and> cvi_image c = m"
    using assms(2) m by (auto simp: to_bgr8_def toCvShare_def toCvCopy_def split: if_splits)
  ultimately show ?thesis using ty sample_types(3) by auto
qed

lemma encode_image_jpeg:
  assumes "cv_documented cv" and "encode_image cv cfg q s = Inr data"
    and "enc_entry (im_encoding s) = Some (kind, n, bits)" and "1 \<le> n" "n \<le> 512"
    and "no_wrap s (pixel_size n bits)" and "same_endian cv s \<or> bits = 8"
  obtains m where "imencode cv ''.jpg'' m (Some q) = Inr (Some data)" "mat_type m = CV_MAKETYPE 0 3"
    "mat_cols m = sized cfg (im_width s)" "mat_rows m = sized cfg (im_height s)"
proof -
  obtain c where c: "to_bgr8 cv s = Inr c"
    using assms(2) unfolding encode_image_def to_bgr8_def [symmetric] by (cases "to_bgr8 cv s") auto
  let ?m = "cvi_image c"
  have m: "mat_type ?m = CV_MAKETYPE 0 3" "mat_cols ?m = int (unat (im_width s))"
    "mat_rows ?m = int (unat (im_height s))"
    using to_bgr8_type [OF assms(1) c assms(3-7)] to_bgr8_sane [OF assms(1,3-6)] c
    unfolding sane_result_def by blast+
  have resize: "resize_documented cv" using assms(1) by (simp add: cv_documented_def)
  have enc: "bindR (if \<bar>img_resize_rate cfg - 1\<bar> > 1 / 1000000 then
        bindR (scaled (mat_cols ?m) (img_resize_rate cfg)) (\<lambda>cols.
        bindR (scaled (mat_rows ?m) (img_resize_rate cfg)) (\<lambda>rows. thrown_by (cv_resize cv ?m cols rows)))
      else Inr ?m) (\<lambda>resized. bindR (thrown_by (imencode cv ''.jpg'' resized (Some q))) (\<lambda>result.
        case result of None \<Rightarrow> Inl (Throws ''JPEG encode failed'') | Some data \<Rightarrow> Inr data)) = Inr data"
    using assms(2) unfolding encode_image_def to_bgr8_def [symmetric] c bindR_simps Let_def
    by (simp split: if_splits)
  then obtain r where r: "imencode cv ''.jpg'' r (Some q) = Inr (Some data)"
    and "(if \<bar>img_resize_rate cfg - 1\<bar> > 1 / 1000000 then
        bindR (scaled (mat_cols ?m) (img_resize_rate cfg)) (\<lambda>cols.
        bindR (scaled (mat_rows ?m) (img_resize_rate cfg)) (\<lambda>rows. thrown_by (cv_resize cv ?m cols rows)))
      else Inr ?m) = Inr r"
    unfolding bindR_eq_Inr by (auto split: option.splits)
  then have "mat_type r = CV_MAKETYPE 0 3 \<and> mat_cols r = sized cfg (im_width s) \<and>
      mat_rows r = sized cfg (im_height s)"
    using m resize by (auto simp: sized_def scaled_def Let_def resize_documented_def split: if_splits)
  with r that show thesis by blast
qed

section \<open>What is published\<close>

lemma stamp_roundtrip:
  assumes "hdr_stamp h < 2 ^ 63"
  shows "(if sint (RosTimeToNs (hdr_stamp h)) > 0 then unat (RosTimeToNs (hdr_stamp h)) else 0) = hdr_stamp h"
proof -
  have "sint (of_nat (hdr_stamp h) :: u64) = int (hdr_stamp h)"
    using assms by (simp add: sint_uint unsigned_of_nat signed_take_bit_int_eq_self take_bit_int_eq_self
        take_bit_nat_eq_self)
  moreover have "unat (of_nat (hdr_stamp h) :: u64) = hdr_stamp h" using assms by (simp add: unat_of_nat)
  ultimately show ?thesis by (simp add: RosTimeToNs_def)
qed

text \<open>The header that the receiver gives to an image.\<close>

lemma decoded_header:
  assumes "carries_header (ImageMsg s) e" and "hdr_stamp (im_header s) < 2 ^ 63"
  shows "\<lparr>hdr_seq = source_header_sequence e,
      hdr_stamp = (if sint (source_time_ns e) > 0 then unat (source_time_ns e) else 0),
      hdr_frame_id = frame_id e\<rparr> = im_header s"
proof -
  have e: "source_time_ns e = RosTimeToNs (hdr_stamp (im_header s))"
    "source_header_sequence e = hdr_seq (im_header s)" "frame_id e = hdr_frame_id (im_header s)"
    using assms(1) by (simp_all add: carries_header_def)
  show ?thesis unfolding e stamp_roundtrip [OF assms(2)] by simp
qed

lemma jpeg_frame:
  assumes "cv_documented lib" "jpeg_documented lib"
    and "imencode lib ''.jpg'' m (Some q) = Inr (Some data)" "mat_type m = CV_MAKETYPE 0 3"
    and "mat_rows m * (mat_cols m * 3) < 2 ^ 32"
  obtains f where "imdecode_color lib data = Inr f" "\<not> mat_empty f" "same_size m f"
    "mat_type f = CV_MAKETYPE 0 3" "message_sized f"
proof -
  obtain f where f: "imdecode_color lib data = Inr f" "\<not> mat_empty f" "same_size m f"
    and pos: "0 < mat_rows m" "0 < mat_cols m"
    using assms(2-4) unfolding jpeg_documented_def by metis
  have t: "mat_type f = CV_MAKETYPE 0 3" "own_mat f"
    using assms(1) f unfolding cv_documented_def imdecode_documented_def by blast+
  have rs: "int (row_size f) = mat_cols m * 3"
    using t(1) f(3) pos by (simp add: row_size_def elemSize_make depth_bytes_def same_size_def)
  then have "nat (mat_rows m) * row_size f = nat (mat_rows m * (mat_cols m * 3))"
    using pos by (simp add: nat_mult_distrib flip: rs)
  then have prod: "nat (mat_rows m) * row_size f < 2 ^ 32" using assms(5) by simp
  have "1 * (mat_cols m * 3) \<le> mat_rows m * (mat_cols m * 3)" using pos by (intro mult_right_mono) auto
  moreover have "mat_rows m * 3 \<le> mat_rows m * (mat_cols m * 3)" using pos by (intro mult_left_mono) auto
  ultimately have "mat_cols m * 3 < 2 ^ 32" "mat_rows m * 3 < 2 ^ 32" using assms(5) by linarith+
  moreover from this(1) have "row_size f < 2 ^ 32" using rs by (metis nat_int nat_less_numeral_power_cancel_iff)
  ultimately have "message_sized f"
    using t(2) f(3) prod by (simp add: message_sized_def same_size_def)
  with f t(1) that show thesis by blast
qed

text \<open>C3: An image end to end: for what the callback of a sender puts on the wire, the receiver
  publishes an image with the header of the original, in \<^verbatim>\<open>bgr8\<close>, of the configured size, and well
  formed: it passes the checks of the library and can be read as a matrix.\<close>

theorem image_delivery:
  fixes lib :: "('pose, 'o) RosLib"
  assumes "subCallback lib publish clock None (ImageMsg s) t = Some ([(key, e)], t')"
    and "tc_type (tf_cfg r) = ''sensor_msgs/Image''" and "accepts lib (tf_cfg r) e"
    and "tf_recv_thread_flag r" and "tf_recv_queue r = []" and "encodable e"
    and "cv_documented (cvlib lib)" "jpeg_documented (cvlib lib)"
    and "enc_entry (im_encoding s) = Some (kind, n, bits)" and "1 \<le> n" "n \<le> 512"
    and "no_wrap s (pixel_size n bits)" and "same_endian (cvlib lib) s \<or> bits = 8"
    and "sized (payload_cfg (tf_cfg t)) (im_height s) *
           (sized (payload_cfg (tf_cfg t)) (im_width s) * 3) < 2 ^ 32"
    and "hdr_stamp (im_header s) < 2 ^ 63"
  shows "\<exists>wire r1 r2 s' m. encode_wire e = Inr wire \<and>
    on_sample (receiver_callback lib) wire (Some z, r) = (Some z, r1) \<and>
    recvFunction_round lib now r1 = WorkerTook e (Some (ImageMsg s')) r2 \<and>
    im_header s' = im_header s \<and> im_encoding s' = enc_BGR8 \<and>
    matFromImage (cvlib lib) s' = Inr m \<and> mat_type m = CV_MAKETYPE 0 3 \<and>
    mat_cols m = sized (payload_cfg (tf_cfg t)) (im_width s) \<and>
    mat_rows m = sized (payload_cfg (tf_cfg t)) (im_height s)"
proof -
  let ?cv = "cvlib lib" and ?cfg = "payload_cfg (tf_cfg t)"
  obtain q where h: "carries_header (ImageMsg s :: ('pose, 'o) RosMessage) e"
    and enc: "encode_payload lib ?cfg q (ImageMsg s) = Some (Inr (payload_kind e, payload e))"
    by (rule subCallback_sent [OF assms(1)])
  from enc have kind: "payload_kind e = kJpeg" and img: "encode_image ?cv ?cfg q s = Inr (payload e)"
    by (simp_all only: encode_payload_image)
  obtain j where j: "imencode ?cv ''.jpg'' j (Some q) = Inr (Some (payload e))" "mat_type j = CV_MAKETYPE 0 3"
    "mat_cols j = sized ?cfg (im_width s)" "mat_rows j = sized ?cfg (im_height s)"
    by (rule encode_image_jpeg [OF assms(7) img assms(9-13)])
  have "mat_rows j * (mat_cols j * 3) < 2 ^ 32" unfolding j(3,4) by (rule assms(14))
  then obtain f where f: "imdecode_color ?cv (payload e) = Inr f" "\<not> mat_empty f" "same_size j f"
    "mat_type f = CV_MAKETYPE 0 3" "message_sized f"
    using jpeg_frame [OF assms(7,8) j(1,2)] by blast
  let ?c = "\<lparr>cvi_header = im_header s, cvi_encoding = enc_BGR8, cvi_image = f\<rparr>"
  have docs: "documented (enc ?cv)" "mat_documented ?cv" using assms(7) by (simp_all add: cv_documented_def)
  obtain s' m where s': "toImageMsg ?cv ?c = Inr s'" "im_header s' = im_header s" "im_encoding s' = enc_BGR8"
    "matFromImage ?cv s' = Inr m" "same_size f m" "mat_type m = CV_MAKETYPE 0 3"
    using message_roundtrip [OF docs, of ?c KColor 3 8] f(4,5) sample_entries(3) sample_types(3) by auto
  have "decode_message lib (payload_cfg (tf_cfg r)) now (tc_type (tf_cfg r)) e = Some (Inr (ImageMsg s'))"
    using kind f(1,2) s'(1) decoded_header [OF h assms(15)]
    by (simp add: decode_message_def assms(2) Let_def)
  from delivered [OF this assms(3-6), of z] obtain wire r1 r2 where "encode_wire e = Inr wire"
    "on_sample (receiver_callback lib) wire (Some z, r) = (Some z, r1)"
    "recvFunction_round lib now r1 = WorkerTook e (Some (ImageMsg s')) r2" by blast
  moreover have "mat_cols m = sized ?cfg (im_width s)" "mat_rows m = sized ?cfg (im_height s)"
    using s'(5) f(3) j(3,4) by (simp_all add: same_size_def)
  ultimately show ?thesis using s' by blast
qed

section \<open>A concrete image\<close>

abbreviation pixel :: RosImage where "pixel \<equiv> tiny_image enc_BGR8 0 [1, 2, 3]"

lemma pixel_simps:
  "enc_entry (im_encoding pixel) = Some (KColor, 3, 8)" "no_wrap pixel (pixel_size 3 8)"
  "same_endian plain_cv pixel" "unat (im_width pixel) = 1" "unat (im_height pixel) = 1"
  "im_encoding pixel = enc_BGR8" "im_header pixel = default_header" "im_is_bigendian pixel = 0"
  by (simp_all add: tiny_image_def sample_entries no_wrap_def pixel_size_def same_endian_def)

lemma sample_cvlib [simp]: "cvlib sample_lib = plain_cv"
  by (simp add: sample_lib_def)

lemma pixel_view: "matFromImage plain_cv pixel = Inr (view pixel (CV_MAKETYPE 0 3))"
proof (rule matFromImage_accepts)
  show "enc_entry (im_encoding pixel) = Some (KColor, 3, 8)" by (rule pixel_simps)
qed (simp_all add: documented_plain sample_types no_wrap_def pixel_size_def same_endian_def tiny_image_def)

lemma pixel_encoded:
  assumes "img_resize_rate cfg = 1" shows "encode_image plain_cv cfg q pixel = Inr [1, 0, 1]"
proof -
  have share: "toCvShare plain_cv pixel enc_BGR8 =
      Inr \<lparr>cvi_header = default_header, cvi_encoding = enc_BGR8, cvi_image = view pixel (CV_MAKETYPE 0 3)\<rparr>"
    by (simp add: toCvShare_def pixel_simps pixel_view)
  have r: "readable (view pixel (CV_MAKETYPE 0 3))"
    by (simp add: readable_def view_def row_size_def elemSize_make depth_bytes_def tiny_image_def)
  have j: "imencode plain_cv ''.jpg'' (view pixel (CV_MAKETYPE 0 3)) (Some q) = Inr (Some [1, 0, 1])"
    by (simp add: plain_cv_def view_def tiny_image_def)
  show ?thesis using assms share r j by (simp add: encode_image_def pixel_simps Let_def)
qed

lemma image_encoding_safe_witness:
  "encode_payload sample_lib (payload_cfg sample_topic) 80 (ImageMsg pixel) \<noteq> None"
  by (rule image_encoding_safe [OF _ pixel_simps(1)])
    (simp_all add: documented_plain_cv pixel_simps int_range_def payload_cfg_def sample_topic_def
      default_topic_cfg_def)

definition image_topic :: TopicCfg where
  "image_topic = sample_topic\<lparr>tc_type := ''sensor_msgs/Image''\<rparr>"

definition camera :: TopicFactory where
  "camera = (sample_factory SEND)\<lparr>tf_cfg := image_topic\<lparr>tc_my_hostname := ''a''\<rparr>\<rparr>"

definition screen :: TopicFactory where
  "screen = (sample_factory RECV)\<lparr>tf_cfg := image_topic\<rparr>"

definition pixel_envelope :: TransportEnvelope where
  "pixel_envelope = default_envelope\<lparr>payload_kind := kJpeg, sequence := 1, source_host := ''a'',
     ros_type := ''sensor_msgs/Image'', ros_md5 := ''sensor_msgs/Image'', payload := [1, 0, 1]\<rparr>"

lemma pixel_sent:
  "\<exists>t. subCallback sample_lib (\<lambda>_ _. True) (\<lambda>_. 5) None (ImageMsg pixel) camera =
     Some ([(TopicFanoutKey ''a'' ''chat'', pixel_envelope)], t)"
proof -
  have lim: "sendFreqControl 5 camera = (False, camera\<lparr>tf_sub_last_time := 5\<rparr>)"
    by (simp add: sendFreqControl_def Let_def camera_def image_topic_def)
  have rate: "img_resize_rate (payload_cfg (tf_cfg camera)) = 1"
    by (simp add: camera_def image_topic_def payload_cfg_def sample_topic_def default_topic_cfg_def)
  have k: "tf_sender camera = Some (TopicFanoutKey ''a'' ''chat'')"
    by (simp add: camera_def sample_sender)
  have e: "(build_envelope sample_lib 5 (ImageMsg pixel) (camera\<lparr>tf_sub_last_time := 5\<rparr>))
      \<lparr>payload_kind := kJpeg, payload := [1, 0, 1]\<rparr> = pixel_envelope"
    by (simp add: build_envelope_def pixel_envelope_def default_envelope_def Let_def RosTypeMd5_def
        RosTimeToNs_def sample_lib_def camera_def image_topic_def sample_topic_def default_topic_cfg_def
        msgs_types_def pixel_simps default_header_def)
  have "quality_cfg_ok (quality_cfg (tf_cfg camera))"
    "quality_in_range (quality_cfg (tf_cfg camera)) (tf_metrics camera)"
    "sint (current_jpeg_quality (tf_metrics camera)) = 80"
    by (simp_all add: camera_def image_topic_def quality_cfg_def quality_cfg_ok_def quality_in_range_def
        sample_topic_def default_topic_cfg_def sample_factory_def initial_metrics_def)
  then have "recordSend (quality_cfg (tf_cfg camera)) now n (tf_metrics camera) \<noteq> None" for now n
    using recordSend_quality(2) [of "quality_cfg (tf_cfg camera)" "tf_metrics camera"]
    by (simp add: quality_cfg_def camera_def image_topic_def sample_topic_def default_topic_cfg_def)
  then obtain m where "recordSend (quality_cfg (tf_cfg camera)) 5 3 (tf_metrics camera) = Some m" by blast
  then show ?thesis by (simp add: subCallback_def lim pixel_encoded [OF rate] Let_def k e)
qed

lemma image_delivery_witness:
  "\<exists>wire r1 r2 s. encode_wire pixel_envelope = Inr wire \<and>
     on_sample (receiver_callback sample_lib) wire (Some open_transport, screen) = (Some open_transport, r1) \<and>
     recvFunction_round sample_lib 9 r1 = WorkerTook pixel_envelope (Some (ImageMsg s)) r2 \<and>
     im_encoding s = enc_BGR8"
proof -
  obtain t where sent: "subCallback sample_lib (\<lambda>_ _. True) (\<lambda>_. 5) None (ImageMsg pixel) camera =
      Some ([(TopicFanoutKey ''a'' ''chat'', pixel_envelope)], t)"
    using pixel_sent by blast
  have acc: "accepts sample_lib (tf_cfg screen) pixel_envelope"
    by (simp add: accepts_def expected_payload_kind_def pixel_envelope_def default_envelope_def screen_def
        image_topic_def RosTypeMd5_def sample_lib_def msgs_types_def)
  have fits: "encodable pixel_envelope"
    by (simp add: encodable_def pixel_envelope_def default_envelope_def kMaxEnvelopePayloadBytes_def)
  have r: "tc_type (tf_cfg screen) = ''sensor_msgs/Image''" "tf_recv_thread_flag screen" "tf_recv_queue screen = []"
    by (simp_all add: screen_def image_topic_def)
  have docs: "cv_documented (cvlib sample_lib)" "jpeg_documented (cvlib sample_lib)"
    by (simp_all add: documented_plain_cv jpeg_documented_plain)
  have "sized (payload_cfg (tf_cfg camera)) w = int (unat w)" for w
    by (simp add: sized_def camera_def image_topic_def payload_cfg_def sample_topic_def default_topic_cfg_def)
  then have size: "sized (payload_cfg (tf_cfg camera)) (im_height pixel) *
      (sized (payload_cfg (tf_cfg camera)) (im_width pixel) * 3) < 2 ^ 32"
    by (simp add: tiny_image_def)
  have one: "(1 :: int) \<le> 3" "(3 :: int) \<le> 512" "same_endian (cvlib sample_lib) pixel \<or> (8 :: int) = 8"
    "hdr_stamp (im_header pixel) < 2 ^ 63"
    by (simp_all add: pixel_simps default_header_def)
  show ?thesis
    using image_delivery [OF sent r(1) acc r(2,3) fits docs pixel_simps(1) one(1,2) pixel_simps(2) one(3) size one(4),
        of open_transport 9] by blast
qed

end
