(* ===== verification/Rgb_Colors.thy ===== *)
theory Rgb_Colors
  imports Prelude "HOL-Library.Signed_Division" "HOL-Library.List_Lexorder" "HOL-Library.Char_ord"
begin

text \<open>
  The colours of label images: \<^verbatim>\<open>rgb_colors.h\<close> and \<^verbatim>\<open>rgb_colors.cpp\<close>.
\<close>

text \<open>The enumerators, which number the colours from 0.\<close>

definition Colors :: "string list" where
  "Colors =
    [''ALICEBLUE'', ''ANTIQUEWHITE'', ''AQUA'', ''AQUAMARINE'', ''AZURE'', ''BEIGE'', ''BISQUE'',
     ''BLACK'', ''BLANCHEDALMOND'', ''BLUE'', ''BLUEVIOLET'', ''BROWN'', ''BURLYWOOD'',
     ''CADETBLUE'', ''CHARTREUSE'', ''CHOCOLATE'', ''CORAL'', ''CORNFLOWERBLUE'', ''CORNSILK'',
     ''CRIMSON'', ''CYAN'', ''DARKBLUE'', ''DARKCYAN'', ''DARKGOLDENROD'', ''DARKGRAY'',
     ''DARKGREEN'', ''DARKGREY'', ''DARKKHAKI'', ''DARKMAGENTA'', ''DARKOLIVEGREEN'',
     ''DARKORANGE'', ''DARKORCHID'', ''DARKRED'', ''DARKSALMON'', ''DARKSEAGREEN'',
     ''DARKSLATEBLUE'', ''DARKSLATEGRAY'', ''DARKSLATEGREY'', ''DARKTURQUOISE'', ''DARKVIOLET'',
     ''DEEPPINK'', ''DEEPSKYBLUE'', ''DIMGRAY'', ''DIMGREY'', ''DODGERBLUE'', ''FIREBRICK'',
     ''FLORALWHITE'', ''FORESTGREEN'', ''FUCHSIA'', ''GAINSBORO'', ''GHOSTWHITE'', ''GOLD'',
     ''GOLDENROD'', ''GRAY'', ''GREEN'', ''GREENYELLOW'', ''GREY'', ''HONEYDEW'', ''HOTPINK'',
     ''INDIANRED'', ''INDIGO'', ''IVORY'', ''KHAKI'', ''LAVENDER'', ''LAVENDERBLUSH'',
     ''LAWNGREEN'', ''LEMONCHIFFON'', ''LIGHTBLUE'', ''LIGHTCORAL'', ''LIGHTCYAN'',
     ''LIGHTGOLDENRODYELLOW'', ''LIGHTGRAY'', ''LIGHTGREEN'', ''LIGHTGREY'', ''LIGHTPINK'',
     ''LIGHTSALMON'', ''LIGHTSEAGREEN'', ''LIGHTSKYBLUE'', ''LIGHTSLATEGRAY'', ''LIGHTSLATEGREY'',
     ''LIGHTSTEELBLUE'', ''LIGHTYELLOW'', ''LIME'', ''LIMEGREEN'', ''LINEN'', ''MAGENTA'',
     ''MAROON'', ''MEDIUMAQUAMARINE'', ''MEDIUMBLUE'', ''MEDIUMORCHID'', ''MEDIUMPURPLE'',
     ''MEDIUMSEAGREEN'', ''MEDIUMSLATEBLUE'', ''MEDIUMSPRINGGREEN'', ''MEDIUMTURQUOISE'',
     ''MEDIUMVIOLETRED'', ''MIDNIGHTBLUE'', ''MINTCREAM'', ''MISTYROSE'', ''MOCCASIN'',
     ''NAVAJOWHITE'', ''NAVY'', ''OLDLACE'', ''OLIVE'', ''OLIVEDRAB'', ''ORANGE'', ''ORANGERED'',
     ''ORCHID'', ''PALEGOLDENROD'', ''PALEGREEN'', ''PALEVIOLETRED'', ''PAPAYAWHIP'',
     ''PEACHPUFF'', ''PERU'', ''PINK'', ''PLUM'', ''POWDERBLUE'', ''PURPLE'', ''RED'',
     ''ROSYBROWN'', ''ROYALBLUE'', ''SADDLEBROWN'', ''SALMON'', ''SANDYBROWN'', ''SEAGREEN'',
     ''SEASHELL'', ''SIENNA'', ''SILVER'', ''SKYBLUE'', ''SLATEBLUE'', ''SLATEGRAY'',
     ''SLATEGREY'', ''SNOW'', ''SPRINGGREEN'', ''STEELBLUE'', ''TAN'', ''TEAL'', ''THISTLE'',
     ''TOMATO'', ''TURQUOISE'', ''VIOLET'', ''WHEAT'', ''WHITE'', ''WHITESMOKE'', ''YELLOW'',
     ''YELLOWGREEN'']"

text \<open>The cases of the switch; the components in ten-thousandths.\<close>

definition color_cases :: "(string \<times> int \<times> int \<times> int) list" where
  "color_cases =
    [(''ALICEBLUE'', 9410, 9730, 10000), (''ANTIQUEWHITE'', 9800, 9220, 8430),
     (''AQUA'', 0, 10000, 10000), (''AQUAMARINE'', 4980, 10000, 8310),
     (''AZURE'', 9410, 10000, 10000), (''BEIGE'', 9610, 9610, 8630),
     (''BISQUE'', 10000, 8940, 7690), (''BLACK'', 0, 0, 0),
     (''BLANCHEDALMOND'', 10000, 9220, 8040), (''BLUE'', 0, 0, 10000),
     (''BLUEVIOLET'', 5410, 1690, 8860), (''BROWN'', 6470, 1650, 1650),
     (''BURLYWOOD'', 8710, 7220, 5290), (''CADETBLUE'', 3730, 6200, 6270),
     (''CHARTREUSE'', 4980, 10000, 0), (''CHOCOLATE'', 8240, 4120, 1180),
     (''CORAL'', 10000, 4980, 3140), (''CORNFLOWERBLUE'', 3920, 5840, 9290),
     (''CORNSILK'', 10000, 9730, 8630), (''CRIMSON'', 8630, 784, 2350),
     (''CYAN'', 0, 10000, 10000), (''DARKBLUE'', 0, 0, 5450), (''DARKCYAN'', 0, 5450, 5450),
     (''DARKGOLDENROD'', 7220, 5250, 431), (''DARKGRAY'', 6630, 6630, 6630),
     (''DARKGREEN'', 0, 3920, 0), (''DARKGREY'', 6630, 6630, 6630),
     (''DARKKHAKI'', 7410, 7180, 4200), (''DARKMAGENTA'', 5450, 0, 5450),
     (''DARKOLIVEGREEN'', 3330, 4200, 1840), (''DARKORANGE'', 10000, 5490, 0),
     (''DARKORCHID'', 6000, 1960, 8000), (''DARKRED'', 5450, 0, 0),
     (''DARKSALMON'', 9140, 5880, 4780), (''DARKSEAGREEN'', 5610, 7370, 5610),
     (''DARKSLATEBLUE'', 2820, 2390, 5450), (''DARKSLATEGRAY'', 1840, 3100, 3100),
     (''DARKSLATEGREY'', 1840, 3100, 3100), (''DARKTURQUOISE'', 0, 8080, 8200),
     (''DARKVIOLET'', 5800, 0, 8270), (''DEEPPINK'', 10000, 784, 5760),
     (''DEEPSKYBLUE'', 0, 7490, 10000), (''DIMGRAY'', 4120, 4120, 4120),
     (''DIMGREY'', 4120, 4120, 4120), (''DODGERBLUE'', 1180, 5650, 10000),
     (''FIREBRICK'', 6980, 1330, 1330), (''FLORALWHITE'', 10000, 9800, 9410),
     (''FORESTGREEN'', 1330, 5450, 1330), (''FUCHSIA'', 10000, 0, 10000),
     (''GAINSBORO'', 8630, 8630, 8630), (''GHOSTWHITE'', 9730, 9730, 10000),
     (''GOLD'', 10000, 8430, 0), (''GOLDENROD'', 8550, 6470, 1250), (''GRAY'', 5020, 5020, 5020),
     (''GREEN'', 0, 5020, 0), (''GREENYELLOW'', 6780, 10000, 1840), (''GREY'', 5020, 5020, 5020),
     (''HONEYDEW'', 9410, 10000, 9410), (''HOTPINK'', 10000, 4120, 7060),
     (''INDIANRED'', 8040, 3610, 3610), (''INDIGO'', 2940, 0, 5100),
     (''IVORY'', 10000, 10000, 9410), (''KHAKI'', 9410, 9020, 5490),
     (''LAVENDER'', 9020, 9020, 9800), (''LAVENDERBLUSH'', 10000, 9410, 9610),
     (''LAWNGREEN'', 4860, 9880, 0), (''LEMONCHIFFON'', 10000, 9800, 8040),
     (''LIGHTBLUE'', 6780, 8470, 9020), (''LIGHTCORAL'', 9410, 5020, 5020),
     (''LIGHTCYAN'', 8780, 10000, 10000), (''LIGHTGOLDENRODYELLOW'', 9800, 9800, 8240),
     (''LIGHTGRAY'', 8270, 8270, 8270), (''LIGHTGREEN'', 5650, 9330, 5650),
     (''LIGHTGREY'', 8270, 8270, 8270), (''LIGHTPINK'', 10000, 7140, 7570),
     (''LIGHTSALMON'', 10000, 6270, 4780), (''LIGHTSEAGREEN'', 1250, 6980, 6670),
     (''LIGHTSKYBLUE'', 5290, 8080, 9800), (''LIGHTSLATEGRAY'', 4670, 5330, 6000),
     (''LIGHTSLATEGREY'', 4670, 5330, 6000), (''LIGHTSTEELBLUE'', 6900, 7690, 8710),
     (''LIGHTYELLOW'', 10000, 10000, 8780), (''LIME'', 0, 10000, 0),
     (''LIMEGREEN'', 1960, 8040, 1960), (''LINEN'', 9800, 9410, 9020),
     (''MAGENTA'', 10000, 0, 10000), (''MAROON'', 5020, 0, 0),
     (''MEDIUMAQUAMARINE'', 4000, 8040, 6670), (''MEDIUMBLUE'', 0, 0, 8040),
     (''MEDIUMORCHID'', 7290, 3330, 8270), (''MEDIUMPURPLE'', 5760, 4390, 8590),
     (''MEDIUMSEAGREEN'', 2350, 7020, 4430), (''MEDIUMSLATEBLUE'', 4820, 4080, 9330),
     (''MEDIUMSPRINGGREEN'', 0, 9800, 6040), (''MEDIUMTURQUOISE'', 2820, 8200, 8000),
     (''MEDIUMVIOLETRED'', 7800, 824, 5220), (''MIDNIGHTBLUE'', 980, 980, 4390),
     (''MINTCREAM'', 9610, 10000, 9800), (''MISTYROSE'', 10000, 8940, 8820),
     (''MOCCASIN'', 10000, 8940, 7100), (''NAVAJOWHITE'', 10000, 8710, 6780),
     (''NAVY'', 0, 0, 5020), (''OLDLACE'', 9920, 9610, 9020), (''OLIVE'', 5020, 5020, 0),
     (''OLIVEDRAB'', 4200, 5570, 1370), (''ORANGE'', 10000, 6470, 0),
     (''ORANGERED'', 10000, 2710, 0), (''ORCHID'', 8550, 4390, 8390),
     (''PALEGOLDENROD'', 9330, 9100, 6670), (''PALEGREEN'', 5960, 9840, 5960),
     (''PALEVIOLETRED'', 6860, 9330, 9330), (''PAPAYAWHIP'', 10000, 9370, 8350),
     (''PEACHPUFF'', 10000, 8550, 7250), (''PERU'', 8040, 5220, 2470),
     (''PINK'', 10000, 7530, 7960), (''PLUM'', 8670, 6270, 8670),
     (''POWDERBLUE'', 6900, 8780, 9020), (''PURPLE'', 5020, 0, 5020), (''RED'', 10000, 0, 0),
     (''ROSYBROWN'', 7370, 5610, 5610), (''ROYALBLUE'', 2550, 4120, 8820),
     (''SADDLEBROWN'', 5450, 2710, 745), (''SALMON'', 9800, 5020, 4470),
     (''SANDYBROWN'', 9800, 6430, 3760), (''SEAGREEN'', 1800, 5450, 3410),
     (''SEASHELL'', 10000, 9610, 9330), (''SIENNA'', 6270, 3220, 1760),
     (''SILVER'', 7530, 7530, 7530), (''SKYBLUE'', 5290, 8080, 9220),
     (''SLATEBLUE'', 4160, 3530, 8040), (''SLATEGRAY'', 4390, 5020, 5650),
     (''SLATEGREY'', 4390, 5020, 5650), (''SNOW'', 10000, 9800, 9800),
     (''SPRINGGREEN'', 0, 10000, 4980), (''STEELBLUE'', 2750, 5100, 7060),
     (''TAN'', 8240, 7060, 5490), (''TEAL'', 0, 5020, 5020), (''THISTLE'', 8470, 7490, 8470),
     (''TOMATO'', 10000, 3880, 2780), (''TURQUOISE'', 2510, 8780, 8160),
     (''VIOLET'', 9330, 5100, 9330), (''WHEAT'', 9610, 8710, 7020),
     (''WHITE'', 10000, 10000, 10000), (''WHITESMOKE'', 9610, 9610, 9610),
     (''YELLOW'', 10000, 10000, 0), (''YELLOWGREEN'', 6040, 8040, 1960)]"

text \<open>A label that meets no case keeps the vector that was created, which is zero.  The remainder has
  the sign of the label.\<close>

definition getRGBColor :: "int \<Rightarrow> real \<times> real \<times> real" where
  "getRGBColor color =
     (let k = color smod 146
      in if 0 \<le> k \<and> nat k < length Colors then
           (case map_of color_cases (Colors ! nat k) of
              Some (r, g, b) \<Rightarrow> (of_int r / 10000, of_int g / 10000, of_int b / 10000)
            | None \<Rightarrow> (0, 0, 0))
         else (0, 0, 0))"

section \<open>The table\<close>

text \<open>Every enumerator has its case, in the same order.\<close>

lemma cases_in_order: "map fst color_cases = Colors"
  by code_simp

lemma alphabetical: "list_all (\<lambda>(a, b). a < b) (zip Colors (tl Colors))"
  by code_simp

lemma distinct_Colors: "distinct Colors"
proof -
  have "sorted_wrt (<) xs" if "list_all (\<lambda>(a, b). a < b) (zip xs (tl xs))" for xs :: "string list"
    using that by (induction xs rule: induct_list012) (auto intro: less_trans)
  then have "sorted_wrt (<) Colors" using alphabetical by blast
  then show ?thesis by (simp add: strict_sorted_iff)
qed

lemma length_Colors [simp]: "length Colors = 146"
  by code_simp

text \<open>The components lie between 0 and 1, and only one colour has none of at least 1/255.\<close>

lemma components_table:
  "list_all (\<lambda>(_, r, g, b). 0 \<le> r \<and> r \<le> 10000 \<and> 0 \<le> g \<and> g \<le> 10000 \<and> 0 \<le> b \<and> b \<le> 10000) color_cases"
  by code_simp

lemma black_table:
  "list_all (\<lambda>(i, _, r, g, b). (r * 255 < 10000 \<and> g * 255 < 10000 \<and> b * 255 < 10000) = (i = 7))
     (enumerate 0 color_cases)"
  by code_simp

end
