(* ===== verification/Endian_Conversion.thy ===== *)
theory Endian_Conversion
  imports Prelude
begin

text \<open>
  Byte order: the copy of Boost.Endian (\<^verbatim>\<open>boost/endian/conversion.hpp\<close>, \<^verbatim>\<open>detail/intrinsic.hpp\<close>) that
  \<^verbatim>\<open>cv_bridge\<close> brings along.  The order of the machine, which \<open>Predef\<close> finds out, is an argument, and
  \<^verbatim>\<open>BOOST_LITTLE_ENDIAN\<close> and \<^verbatim>\<open>BOOST_BIG_ENDIAN\<close> say which one it is; the byte swaps of the compiler
  are a parameter, which is absent when \<^verbatim>\<open>BOOST_ENDIAN_NO_INTRINSICS\<close> is defined.
\<close>

section \<open>Reversal\<close>

datatype order = big | little

record Builtins =
  bswap16 :: "(u16 \<Rightarrow> u16) option"
  bswap32 :: "u32 \<Rightarrow> u32"
  bswap64 :: "u64 \<Rightarrow> u64"

text \<open>Older compilers lack \<^verbatim>\<open>__builtin_bswap16\<close>.\<close>

definition byte_swap_2 :: "Builtins \<Rightarrow> u16 \<Rightarrow> u16" where
  "byte_swap_2 b x = (case bswap16 b of Some f \<Rightarrow> f x | None \<Rightarrow> ucast (bswap32 b (push_bit 16 (ucast x))))"

definition endian_reverse_u8 :: "byte \<Rightarrow> byte" where
  "endian_reverse_u8 x = x"

definition endian_reverse_u16 :: "Builtins option \<Rightarrow> u16 \<Rightarrow> u16" where
  "endian_reverse_u16 intrinsics x =
     (case intrinsics of None \<Rightarrow> push_bit 8 x OR drop_bit 8 x | Some b \<Rightarrow> byte_swap_2 b x)"

definition endian_reverse_u32 :: "Builtins option \<Rightarrow> u32 \<Rightarrow> u32" where
  "endian_reverse_u32 intrinsics x =
     (case intrinsics of
        None \<Rightarrow>
          let step16 = push_bit 16 x OR drop_bit 16 x
          in (push_bit 8 step16 AND 0xff00ff00) OR (drop_bit 8 step16 AND 0x00ff00ff)
      | Some b \<Rightarrow> bswap32 b x)"

definition endian_reverse_u64 :: "Builtins option \<Rightarrow> u64 \<Rightarrow> u64" where
  "endian_reverse_u64 intrinsics x =
     (case intrinsics of
        None \<Rightarrow>
          let step32 = push_bit 32 x OR drop_bit 32 x;
              step16 = push_bit 16 (step32 AND 0x0000FFFF0000FFFF) OR drop_bit 16 (step32 AND 0xFFFF0000FFFF0000)
          in push_bit 8 (step16 AND 0x00FF00FF00FF00FF) OR drop_bit 8 (step16 AND 0xFF00FF00FF00FF00)
      | Some b \<Rightarrow> bswap64 b x)"

text \<open>The signed overloads, between their casts.\<close>

definition endian_reverse_i8 :: "int \<Rightarrow> int" where
  "endian_reverse_i8 x = x"

definition endian_reverse_i16 :: "Builtins option \<Rightarrow> int \<Rightarrow> int" where
  "endian_reverse_i16 intrinsics x = sint
     (case intrinsics of
        None \<Rightarrow> push_bit 8 (word_of_int x :: u16) OR drop_bit 8 (word_of_int x)
      | Some b \<Rightarrow> byte_swap_2 b (word_of_int x))"

definition endian_reverse_i32 :: "Builtins option \<Rightarrow> int \<Rightarrow> int" where
  "endian_reverse_i32 intrinsics x = sint
     (case intrinsics of
        None \<Rightarrow>
          let step16 = push_bit 16 (word_of_int x :: u32) OR drop_bit 16 (word_of_int x)
          in (push_bit 8 step16 AND 0xff00ff00) OR (drop_bit 8 step16 AND 0x00ff00ff)
      | Some b \<Rightarrow> bswap32 b (word_of_int x))"

definition endian_reverse_i64 :: "Builtins option \<Rightarrow> int \<Rightarrow> int" where
  "endian_reverse_i64 intrinsics x = sint
     (case intrinsics of
        None \<Rightarrow>
          let step32 = push_bit 32 (word_of_int x :: u64) OR drop_bit 32 (word_of_int x);
              step16 = push_bit 16 (step32 AND 0x0000FFFF0000FFFF) OR drop_bit 16 (step32 AND 0xFFFF0000FFFF0000)
          in push_bit 8 (step16 AND 0x00FF00FF00FF00FF) OR drop_bit 8 (step16 AND 0xFF00FF00FF00FF00)
      | Some b \<Rightarrow> bswap64 b (word_of_int x))"

section \<open>Memory\<close>

text \<open>The bytes of an object in the order of their addresses, and the object of given bytes.\<close>

definition object_bytes :: "order \<Rightarrow> 'a::len word \<Rightarrow> bytes" where
  "object_bytes native x =
     (let bs = map (\<lambda>i. ucast (drop_bit (8 * i) x)) [0..<LENGTH('a) div 8]
      in if native = little then bs else rev bs)"

definition object_value :: "order \<Rightarrow> bytes \<Rightarrow> 'a::len word" where
  "object_value native bs = word_rcat (if native = little then rev bs else bs)"

text \<open>The reference implementation.\<close>

definition std_endian_reverse :: "order \<Rightarrow> 'a::len word \<Rightarrow> 'a word" where
  "std_endian_reverse native x = object_value native (rev (object_bytes native x))"

section \<open>Conversions\<close>

text \<open>\<open>endian_reverse\<close> is the overload for the type; the in-place forms assign what these return.\<close>

definition big_to_native :: "order \<Rightarrow> ('a \<Rightarrow> 'a) \<Rightarrow> 'a \<Rightarrow> 'a" where
  "big_to_native native endian_reverse x = (if native = big then x else endian_reverse x)"

definition native_to_big :: "order \<Rightarrow> ('a \<Rightarrow> 'a) \<Rightarrow> 'a \<Rightarrow> 'a" where
  "native_to_big native endian_reverse x = (if native = big then x else endian_reverse x)"

definition little_to_native :: "order \<Rightarrow> ('a \<Rightarrow> 'a) \<Rightarrow> 'a \<Rightarrow> 'a" where
  "little_to_native native endian_reverse x = (if native = little then x else endian_reverse x)"

definition native_to_little :: "order \<Rightarrow> ('a \<Rightarrow> 'a) \<Rightarrow> 'a \<Rightarrow> 'a" where
  "native_to_little native endian_reverse x = (if native = little then x else endian_reverse x)"

fun value_converter :: "order \<Rightarrow> order \<Rightarrow> ('a \<Rightarrow> 'a) \<Rightarrow> 'a \<Rightarrow> 'a" where
  "value_converter big big endian_reverse x = x"
| "value_converter little little endian_reverse x = x"
| "value_converter big little endian_reverse x = endian_reverse x"
| "value_converter little big endian_reverse x = endian_reverse x"

definition conditional_reverse :: "('a \<Rightarrow> 'a) \<Rightarrow> 'a \<Rightarrow> order \<Rightarrow> order \<Rightarrow> 'a" where
  "conditional_reverse endian_reverse x from_order to_order =
     (if from_order = to_order then x else endian_reverse x)"

definition endian_reverse_inplace :: "('a \<Rightarrow> 'a) \<Rightarrow> 'a \<Rightarrow> 'a" where
  "endian_reverse_inplace endian_reverse x = endian_reverse x"

definition big_to_native_inplace :: "order \<Rightarrow> ('a \<Rightarrow> 'a) \<Rightarrow> 'a \<Rightarrow> 'a" where
  "big_to_native_inplace native endian_reverse x =
     (if native = big then x else endian_reverse_inplace endian_reverse x)"

definition native_to_big_inplace :: "order \<Rightarrow> ('a \<Rightarrow> 'a) \<Rightarrow> 'a \<Rightarrow> 'a" where
  "native_to_big_inplace native endian_reverse x =
     (if native = big then x else endian_reverse_inplace endian_reverse x)"

definition little_to_native_inplace :: "order \<Rightarrow> ('a \<Rightarrow> 'a) \<Rightarrow> 'a \<Rightarrow> 'a" where
  "little_to_native_inplace native endian_reverse x =
     (if native = little then x else endian_reverse_inplace endian_reverse x)"

definition native_to_little_inplace :: "order \<Rightarrow> ('a \<Rightarrow> 'a) \<Rightarrow> 'a \<Rightarrow> 'a" where
  "native_to_little_inplace native endian_reverse x =
     (if native = little then x else endian_reverse_inplace endian_reverse x)"

fun converter :: "order \<Rightarrow> order \<Rightarrow> ('a \<Rightarrow> 'a) \<Rightarrow> 'a \<Rightarrow> 'a" where
  "converter big big endian_reverse x = x"
| "converter little little endian_reverse x = x"
| "converter big little endian_reverse x = endian_reverse_inplace endian_reverse x"
| "converter little big endian_reverse x = endian_reverse_inplace endian_reverse x"

definition conditional_reverse_inplace :: "('a \<Rightarrow> 'a) \<Rightarrow> 'a \<Rightarrow> order \<Rightarrow> order \<Rightarrow> 'a" where
  "conditional_reverse_inplace endian_reverse x from_order to_order =
     (if from_order \<noteq> to_order then endian_reverse_inplace endian_reverse x else x)"

text \<open>Copies between an object and bytes that need not be aligned.\<close>

definition big_reverse_copy_to :: "order \<Rightarrow> 'a::len word \<Rightarrow> bytes" where
  "big_reverse_copy_to native x =
     (if native = big then object_bytes native x else rev (object_bytes native x))"

definition big_reverse_copy_from :: "order \<Rightarrow> bytes \<Rightarrow> 'a::len word" where
  "big_reverse_copy_from native bs = object_value native (if native = big then bs else rev bs)"

definition little_reverse_copy_to :: "order \<Rightarrow> 'a::len word \<Rightarrow> bytes" where
  "little_reverse_copy_to native x =
     (if native = little then object_bytes native x else rev (object_bytes native x))"

definition little_reverse_copy_from :: "order \<Rightarrow> bytes \<Rightarrow> 'a::len word" where
  "little_reverse_copy_from native bs = object_value native (if native = little then bs else rev bs)"

section \<open>Bits\<close>

lemma length_object_bytes [simp]: "length (object_bytes native (x :: 'a::len word)) = LENGTH('a) div 8"
  by (simp add: object_bytes_def Let_def)

lemma bit_word_rcat:
  "bit (word_rcat bs :: 'a::len word) n \<longleftrightarrow> n < LENGTH('a) \<and> n div 8 < length bs \<and> bit (rev bs ! (n div 8)) (n mod 8)"
  for bs :: bytes
  using bit_horner_sum_uint_exp_iff [of "rev bs" n] by (auto simp: word_rcat_def bit_word_of_int_iff)

text \<open>The reversed bytes, whatever the order of the machine.\<close>

lemma bit_std_endian_reverse:
  fixes x :: "'a::len word"
  assumes "8 dvd LENGTH('a)"
  shows "bit (std_endian_reverse native x) n \<longleftrightarrow>
    n < LENGTH('a) \<and> bit x (8 * (LENGTH('a) div 8 - 1 - n div 8) + n mod 8)"
proof -
  let ?k = "LENGTH('a) div 8" and ?bs = "map (\<lambda>i. ucast (drop_bit (8 * i) x) :: byte) [0..<LENGTH('a) div 8]"
  have "std_endian_reverse native x = word_rcat ?bs"
    by (cases native) (simp_all add: std_endian_reverse_def object_value_def object_bytes_def Let_def)
  moreover have "n div 8 < ?k" if "n < LENGTH('a)" using that assms by auto
  ultimately show ?thesis
    by (auto simp: bit_word_rcat rev_nth bit_simps algebra_simps dest: bit_imp_le_length)
qed

text \<open>Bits by byte.\<close>

lemma byte_bits:
  fixes x y :: "'a::len word"
  assumes "8 dvd LENGTH('a)"
    and "\<And>q r. q < LENGTH('a) div 8 \<Longrightarrow> r < 8 \<Longrightarrow> bit y (8 * q + r) = bit x (8 * (LENGTH('a) div 8 - 1 - q) + r)"
  shows "y = std_endian_reverse native x"
proof (rule bit_word_eqI)
  fix n assume n: "n < LENGTH('a)"
  then have q: "n div 8 < LENGTH('a) div 8" using assms(1) by auto
  have "bit y n = bit y (8 * (n div 8) + n mod 8)" by simp
  also have "\<dots> = bit x (8 * (LENGTH('a) div 8 - 1 - n div 8) + n mod 8)" by (rule assms(2) [OF q]) simp
  also have "\<dots> = bit (std_endian_reverse native x) n" using n by (simp only: bit_std_endian_reverse [OF assms(1)] simp_thms)
  finally show "bit y n = bit (std_endian_reverse native x) n" .
qed

lemma masks:
  "(0xff00ff00 :: u32) = push_bit 8 (mask 8) OR push_bit 24 (mask 8)"
  "(0x00ff00ff :: u32) = mask 8 OR push_bit 16 (mask 8)"
  "(0x0000FFFF0000FFFF :: u64) = mask 16 OR push_bit 32 (mask 16)"
  "(0xFFFF0000FFFF0000 :: u64) = push_bit 16 (mask 16) OR push_bit 48 (mask 16)"
  "(0x00FF00FF00FF00FF :: u64) = mask 8 OR push_bit 16 (mask 8) OR push_bit 32 (mask 8) OR push_bit 48 (mask 8)"
  "(0xFF00FF00FF00FF00 :: u64) = push_bit 8 (mask 8) OR push_bit 24 (mask 8) OR push_bit 40 (mask 8) OR push_bit 56 (mask 8)"
  by code_simp+

lemma portable_u16: "endian_reverse_u16 None x = std_endian_reverse native x"
proof (rule byte_bits)
  fix q r :: nat assume q: "q < LENGTH(16) div 8" and r: "r < 8"
  from q consider "q = 0" | "q = 1" by force
  then show "bit (endian_reverse_u16 None x) (8 * q + r) = bit x (8 * (LENGTH(16) div 8 - 1 - q) + r)"
    using r by cases (auto simp: endian_reverse_u16_def bit_simps algebra_simps dest: bit_imp_le_length)
qed simp

lemma portable_u32: "endian_reverse_u32 None x = std_endian_reverse native x"
proof (rule byte_bits)
  fix q r :: nat assume q: "q < LENGTH(32) div 8" and r: "r < 8"
  from q consider "q = 0" | "q = 1" | "q = 2" | "q = 3" by force
  then show "bit (endian_reverse_u32 None x) (8 * q + r) = bit x (8 * (LENGTH(32) div 8 - 1 - q) + r)"
    using r by cases (auto simp: endian_reverse_u32_def Let_def masks bit_simps algebra_simps dest: bit_imp_le_length)
qed simp

lemma portable_u64: "endian_reverse_u64 None x = std_endian_reverse native x"
proof (rule byte_bits)
  fix q r :: nat assume q: "q < LENGTH(64) div 8" and r: "r < 8"
  from q consider "q = 0" | "q = 1" | "q = 2" | "q = 3" | "q = 4" | "q = 5" | "q = 6" | "q = 7" by force
  then show "bit (endian_reverse_u64 None x) (8 * q + r) = bit x (8 * (LENGTH(64) div 8 - 1 - q) + r)"
    using r by cases (auto simp: endian_reverse_u64_def Let_def masks bit_simps algebra_simps dest: bit_imp_le_length)
qed simp

section \<open>Equivalence with the reference\<close>

text \<open>What compilers document of their byte swaps.\<close>

definition swaps_bytes :: "Builtins \<Rightarrow> bool" where
  "swaps_bytes b \<longleftrightarrow>
     (\<forall>f. bswap16 b = Some f \<longrightarrow> (\<forall>x. f x = std_endian_reverse little x)) \<and>
     (\<forall>x. bswap32 b x = std_endian_reverse little x) \<and> (\<forall>x. bswap64 b x = std_endian_reverse little x)"

lemma std_order: "8 dvd LENGTH('a) \<Longrightarrow> std_endian_reverse native (x :: 'a::len word) = std_endian_reverse native' x"
  by (rule bit_word_eqI) (simp add: bit_std_endian_reverse)

lemma std_involution:
  fixes x :: "'a::len word"
  assumes "8 dvd LENGTH('a)"
  shows "std_endian_reverse native (std_endian_reverse native x) = x"
proof -
  have "bit x (8 * q + r) = bit (std_endian_reverse native x) (8 * (LENGTH('a) div 8 - 1 - q) + r)"
    if "q < LENGTH('a) div 8" "r < 8" for q r
  proof -
    let ?p = "LENGTH('a) div 8 - 1 - q"
    have p: "?p < LENGTH('a) div 8" "LENGTH('a) div 8 - 1 - ?p = q" using that(1) by auto
    have "Suc ?p * 8 \<le> LENGTH('a) div 8 * 8" using p(1) by (intro mult_le_mono1) simp
    then have "8 * ?p + r < LENGTH('a)" using that(2) assms by simp
    moreover have "(8 * ?p + r) div 8 = ?p" "(8 * ?p + r) mod 8 = r" using that(2) by simp_all
    ultimately show ?thesis unfolding bit_std_endian_reverse [OF assms] using p(2) by simp
  qed
  from byte_bits [OF assms this] show ?thesis by (rule sym)
qed

lemma emulated_swap:
  assumes "\<And>x. bswap32 b x = std_endian_reverse little x"
  shows "ucast (bswap32 b (push_bit 16 (ucast x))) = std_endian_reverse native (x :: u16)"
proof (rule byte_bits)
  fix q r :: nat assume q: "q < LENGTH(16) div 8" and r: "r < 8"
  from q consider "q = 0" | "q = 1" by force
  then show "bit (ucast (bswap32 b (push_bit 16 (ucast x))) :: u16) (8 * q + r) = bit x (8 * (LENGTH(16) div 8 - 1 - q) + r)"
    using r by cases (simp_all add: assms bit_std_endian_reverse bit_simps)
qed simp

lemma reverse_unsigned:
  assumes "\<forall>b. intrinsics = Some b \<longrightarrow> swaps_bytes b"
  shows "endian_reverse_u16 intrinsics x = std_endian_reverse native x"
    and "endian_reverse_u32 intrinsics y = std_endian_reverse native y"
    and "endian_reverse_u64 intrinsics z = std_endian_reverse native z"
proof -
  show "endian_reverse_u16 intrinsics x = std_endian_reverse native x"
  proof (cases intrinsics)
    case (Some b)
    then show ?thesis
      using assms emulated_swap [of b x native] std_order [of native x little]
      by (auto simp: swaps_bytes_def endian_reverse_u16_def byte_swap_2_def split: option.split)
  qed (use portable_u16 in simp)
  show "endian_reverse_u32 intrinsics y = std_endian_reverse native y"
    using assms portable_u32 [of y native] std_order [of native y little]
    by (cases intrinsics) (auto simp: swaps_bytes_def endian_reverse_u32_def)
  show "endian_reverse_u64 intrinsics z = std_endian_reverse native z"
    using assms portable_u64 [of z native] std_order [of native z little]
    by (cases intrinsics) (auto simp: swaps_bytes_def endian_reverse_u64_def)
qed

lemma word_of_sint: "word_of_int (sint w) = w"
  by (metis of_int_sint scast_id)

lemma reverse_signed:
  "endian_reverse_i16 intrinsics (sint x) = sint (endian_reverse_u16 intrinsics x)"
  "endian_reverse_i32 intrinsics (sint y) = sint (endian_reverse_u32 intrinsics y)"
  "endian_reverse_i64 intrinsics (sint z) = sint (endian_reverse_u64 intrinsics z)"
  by (simp_all add: endian_reverse_i16_def endian_reverse_u16_def endian_reverse_i32_def endian_reverse_u32_def
      endian_reverse_i64_def endian_reverse_u64_def word_of_sint split: option.split)

text \<open>C17: Reversing the bytes of an integer by shifts and masks, by the byte swaps of the compiler or, for 16
  bits, by a 32-bit swap of the shifted value is the same as reversing the bytes of its memory, on a
  machine of either order and for signed and unsigned integers; doing it twice gives the integer back.\<close>

theorem endian_equivalence:
  assumes "\<forall>b. intrinsics = Some b \<longrightarrow> swaps_bytes b"
  shows "endian_reverse_u16 intrinsics x = std_endian_reverse native x \<and>
    endian_reverse_u32 intrinsics y = std_endian_reverse native y \<and>
    endian_reverse_u64 intrinsics z = std_endian_reverse native z \<and>
    endian_reverse_i16 intrinsics (sint x) = sint (std_endian_reverse native x) \<and>
    endian_reverse_i32 intrinsics (sint y) = sint (std_endian_reverse native y) \<and>
    endian_reverse_i64 intrinsics (sint z) = sint (std_endian_reverse native z) \<and>
    endian_reverse_u16 intrinsics (endian_reverse_u16 intrinsics x) = x \<and>
    endian_reverse_u32 intrinsics (endian_reverse_u32 intrinsics y) = y \<and>
    endian_reverse_u64 intrinsics (endian_reverse_u64 intrinsics z) = z"
  by (simp add: reverse_signed reverse_unsigned [OF assms, of _ native] std_involution)

lemma endian_equivalence_witness:
  "endian_reverse_u32 None 0x01020304 = std_endian_reverse big (0x01020304 :: u32) \<and>
    endian_reverse_u32 None (endian_reverse_u32 None 0x01020304) = 0x01020304"
  using endian_equivalence [of None 0 big "0x01020304" 0] by (auto simp only: option.distinct)

section \<open>Conversions\<close>

lemma rcat_object_bytes:
  fixes x :: "'a::len word"
  assumes "8 dvd LENGTH('a)"
  shows "object_value native (object_bytes native x) = x"
proof -
  have "bit (object_value native (object_bytes native x) :: 'a word) n = bit x n" if "n < LENGTH('a)" for n
  proof -
    have "n div 8 < LENGTH('a) div 8" using that assms by auto
    then show ?thesis
      using that by (cases native)
        (auto simp: object_value_def object_bytes_def Let_def bit_word_rcat bit_simps rev_nth dest: bit_imp_le_length)
  qed
  then show ?thesis by (intro bit_word_eqI) simp
qed

text \<open>Copies put the bytes in the order of their name, on either machine, and read them back.\<close>

lemma reverse_copies:
  fixes x :: "'a::len word"
  assumes "8 dvd LENGTH('a)"
  shows "big_reverse_copy_to native x = object_bytes big x"
    and "little_reverse_copy_to native x = object_bytes little x"
    and "big_reverse_copy_from native (big_reverse_copy_to native x) = x"
    and "little_reverse_copy_from native (little_reverse_copy_to native x) = x"
proof -
  show "big_reverse_copy_to native x = object_bytes big x" "little_reverse_copy_to native x = object_bytes little x"
    by (cases native; simp add: big_reverse_copy_to_def little_reverse_copy_to_def object_bytes_def Let_def)+
  show "big_reverse_copy_from native (big_reverse_copy_to native x) = x"
    "little_reverse_copy_from native (little_reverse_copy_to native x) = x"
    using rcat_object_bytes [OF assms, of native x]
    by (cases native; simp add: big_reverse_copy_from_def big_reverse_copy_to_def
        little_reverse_copy_from_def little_reverse_copy_to_def)+
qed

text \<open>The conversions undo each other when the reversal does, and the forms by value, in place, at compile
  time and at run time agree.\<close>

lemma conversions:
  assumes "\<And>x. r (r x) = x"
  shows "big_to_native native r (native_to_big native r x) = x"
    and "little_to_native native r (native_to_little native r x) = x"
    and "value_converter from_order to_order r x = conditional_reverse r x from_order to_order"
    and "converter from_order to_order r x = conditional_reverse_inplace r x from_order to_order"
    and "conditional_reverse_inplace r x from_order to_order = conditional_reverse r x from_order to_order"
    and "conditional_reverse r (conditional_reverse r x from_order to_order) to_order from_order = x"
  by (cases from_order; cases to_order; simp add: assms big_to_native_def native_to_big_def little_to_native_def
      native_to_little_def conditional_reverse_def conditional_reverse_inplace_def endian_reverse_inplace_def)+

lemma conversions_inplace:
  "big_to_native_inplace native r x = big_to_native native r x"
  "native_to_big_inplace native r x = native_to_big native r x"
  "little_to_native_inplace native r x = little_to_native native r x"
  "native_to_little_inplace native r x = native_to_little native r x"
  by (simp_all add: big_to_native_inplace_def native_to_big_inplace_def little_to_native_inplace_def
      native_to_little_inplace_def big_to_native_def native_to_big_def little_to_native_def native_to_little_def
      endian_reverse_inplace_def)

end
