(* ===== verification/Cv_Display.thy ===== *)
theory Cv_Display
  imports Cv_Properties Rgb_Colors Endian_Conversion
begin

text \<open>
  Images for display: \<^verbatim>\<open>cvtColorForDisplay\<close> of \<^verbatim>\<open>cv_bridge.cpp\<close>.  It guesses the encoding of the
  output, colours label images, scales one channel to 8 bits and converts the rest as if the source
  had a colour encoding.
\<close>

section \<open>OpenCV\<close>

text \<open>The operations of OpenCV that only the display uses: \<^verbatim>\<open>minMaxLoc\<close>, subtraction of a scalar from a
  matrix, the rounding of a scalar to an 8-bit channel and \<^verbatim>\<open>applyColorMap\<close>.\<close>

record DisplayLib =
  minMaxLoc :: "Mat \<Rightarrow> string + real \<times> real"
  minus_scalar :: "Mat \<Rightarrow> real \<Rightarrow> Mat"
  saturate_uchar :: "real \<Rightarrow> byte"
  applyColorMap :: "Mat \<Rightarrow> int \<Rightarrow> string + Mat"

record CvtColorForDisplayOptions =
  do_dynamic_scaling :: bool
  min_image_value :: real
  max_image_value :: real
  colormap :: int
  bg_label :: int

definition default_display_options :: CvtColorForDisplayOptions where
  "default_display_options =
     \<lparr>do_dynamic_scaling = False, min_image_value = 0, max_image_value = 0, colormap = -1, bg_label = -1\<rparr>"

section \<open>Elements of a matrix\<close>

text \<open>\<^verbatim>\<open>at<int>(j, i)\<close> and \<^verbatim>\<open>at<float>(j, i)\<close> read four bytes, whatever the matrix holds; outside of its
  memory that is undefined (\<open>None\<close>).\<close>

definition native_order :: "CvLib \<Rightarrow> order" where
  "native_order lib = (if native_big lib then big else little)"

definition word_at :: "CvLib \<Rightarrow> Mat \<Rightarrow> nat \<Rightarrow> nat \<Rightarrow> u32 option" where
  "word_at lib m j i =
     (let p = j * mat_step m + 4 * i
      in if p + 4 \<le> length (mat_data m)
         then Some (object_value (native_order lib) (slice p 4 (mat_data m))) else None)"

definition isnan :: "u32 \<Rightarrow> bool" where
  "isnan w \<longleftrightarrow> drop_bit 23 w AND 0xFF = 0xFF \<and> w AND 0x7FFFFF \<noteq> 0"

text \<open>\<^verbatim>\<open>at<cv::Vec3b>(j, i) = p\<close>.\<close>

definition set_pixel :: "nat \<Rightarrow> nat \<Rightarrow> bytes \<Rightarrow> Mat \<Rightarrow> Mat option" where
  "set_pixel j i pixel m =
     (let p = j * mat_step m + 3 * i
      in if p + 3 \<le> length (mat_data m)
         then Some (m\<lparr>mat_data := take p (mat_data m) @ pixel @ drop (p + 3) (mat_data m)\<rparr>) else None)"

text \<open>The row and column indices in the order of the loops.\<close>

definition indices :: "Mat \<Rightarrow> (nat \<times> nat) list" where
  "indices m = List.product [0..<nat (mat_rows m)] [0..<nat (mat_cols m)]"

text \<open>A new matrix without gaps.  What it holds before it is written does not matter.\<close>

definition new_mat :: "int \<Rightarrow> int \<Rightarrow> int \<Rightarrow> byte \<Rightarrow> failure + Mat" where
  "new_mat rows cols ty v =
     (if 0 \<le> rows \<and> 0 \<le> cols then
        Inr \<lparr>mat_rows = rows, mat_cols = cols, mat_type = ty, mat_step = nat cols * elemSize ty,
             mat_data = replicate (nat rows * (nat cols * elemSize ty)) v\<rparr>
      else Inl (Throws ''cv::Exception''))"

definition or_undefined :: "'a option \<Rightarrow> failure + 'a" where
  "or_undefined x = (case x of Some y \<Rightarrow> Inr y | None \<Rightarrow> Inl Undefined)"

section \<open>Steps of the conversion\<close>

text \<open>The output encoding: guessed when none is given, where any exception is replaced by one of the
  function's own, and checked otherwise.\<close>

definition display_encoding :: "CvLib \<Rightarrow> string \<Rightarrow> string \<Rightarrow> failure + string" where
  "display_encoding lib src encoding_out =
     (if encoding_out = [] then
        (case bindR (numChannels (enc lib) src) (\<lambda>n.
            if n = 1 then
              (if src = ''32SC1'' then Inr enc_BGR8
               else bindR (bitDepth (enc lib) src) (\<lambda>d.
                 if d = 8 \<or> d = 16 \<or> d = 32 then Inr enc_BGR8
                 else Inl ''Unsupported depth of the source encoding ''))
            else bindR (bitDepth (enc lib) src) (\<lambda>d.
              if d = 8 \<or> d = 16 then Inr enc_BGR8
              else Inl ''Unsupported depth of the source encoding '')) of
           Inr e \<Rightarrow> Inr e
         | Inl _ \<Rightarrow> Inl (Throws ''cv_bridge.cvtColorForDisplay() output encoding is empty and cannot be guessed.''))
      else
        let bad = Inl (Throws (''cv_bridge.cvtColorForDisplay() does not have an output encoding that is '' @
                    ''color or mono, and has is bit in depth''))
        in if \<not> isColor (enc lib) encoding_out \<and> \<not> isMono (enc lib) encoding_out then bad
           else bindR (thrown_by (bitDepth (enc lib) encoding_out)) (\<lambda>d. if d \<noteq> 8 then bad else Inr encoding_out))"

text \<open>The colour of a label in blue, green, red order.\<close>

definition label_pixel :: "int \<Rightarrow> int \<Rightarrow> bytes" where
  "label_pixel bg label =
     (if label = bg then [0, 0, 0]
      else case getRGBColor label of (r, g, b) \<Rightarrow>
        [word_of_int \<lfloor>b * 255\<rfloor>, word_of_int \<lfloor>g * 255\<rfloor>, word_of_int \<lfloor>r * 255\<rfloor>])"

definition label_image :: "CvLib \<Rightarrow> Mat \<Rightarrow> int \<Rightarrow> failure + Mat" where
  "label_image lib source bg =
     bindR (new_mat (mat_rows source) (mat_cols source) (CV_MAKETYPE 0 3) 0) (\<lambda>image.
       or_undefined (foldO (\<lambda>(j, i) image.
         Option.bind (word_at lib source j i) (\<lambda>label. set_pixel j i (label_pixel bg (sint label)) image))
         (indices source) image))"

text \<open>Black where the source is not a number.\<close>

definition blacken_nan :: "CvLib \<Rightarrow> Mat \<Rightarrow> Mat \<Rightarrow> failure + Mat" where
  "blacken_nan lib source img =
     or_undefined (foldO (\<lambda>(j, i) img.
       Option.bind (word_at lib source j i)
         (\<lambda>bits. if isnan bits then set_pixel j i [0, 0, 0] img else Some img))
       (indices source) img)"

text \<open>The image of a source whose values are all the same.\<close>

definition constant_image :: "CvLib \<Rightarrow> DisplayLib \<Rightarrow> Mat \<Rightarrow> string \<Rightarrow> failure + Mat" where
  "constant_image lib dl source encoding =
     bindR (thrown_by (bitDepth (enc lib) encoding)) (\<lambda>d.
       new_mat (mat_rows source) (mat_cols source) (if d = 1 then CV_MAKETYPE 0 1 else CV_MAKETYPE 0 3)
         (saturate_uchar dl (255 / 2)))"

definition scaled_image ::
  "CvLib \<Rightarrow> DisplayLib \<Rightarrow> CvImage \<Rightarrow> CvtColorForDisplayOptions \<Rightarrow> real \<Rightarrow> real \<Rightarrow> failure + CvImage" where
  "scaled_image lib dl source options lo hi =
     bindR (thrown_by (numChannels (enc lib) (cvi_encoding source))) (\<lambda>n.
       if n \<noteq> 1 then Inl (Throws (''cv_bridge.cvtColorForDisplay() scaling for images with more than '' @
         ''one channel is unsupported''))
       else
         let convert = (\<lambda>ty. convertTo lib (minus_scalar dl (cvi_image source) lo) ty (255 / (hi - lo)))
         in if colormap options = -1 then
              Inr \<lparr>cvi_header = cvi_header source, cvi_encoding = enc_MONO8,
                   cvi_image = convert (CV_MAKETYPE 0 1)\<rparr>
            else
              bindR (thrown_by (applyColorMap dl (convert (CV_MAKETYPE 0 3)) (colormap options))) (\<lambda>image.
              bindR (if cvi_encoding source = ''32FC1'' then blacken_nan lib (cvi_image source) image
                     else Inr image) (\<lambda>image.
                Inr \<lparr>cvi_header = cvi_header source, cvi_encoding = enc_BGR8, cvi_image = image\<rparr>)))"

text \<open>The encoding under which the source is converted.\<close>

definition guessed_encoding :: "string \<Rightarrow> string" where
  "guessed_encoding src =
     (if src = ''CV_8UC1'' then enc_MONO8
      else if src = ''16UC1'' then enc_MONO16
      else if src = ''CV_8UC3'' then enc_BGR8
      else if src = ''CV_8UC4'' then enc_BGRA8
      else if src = ''CV_16UC3'' then enc_BGR16
      else if src = ''CV_16UC4'' then enc_BGRA16
      else src)"

text \<open>Whether the conversion throws the library's own exception, and not one of OpenCV or of the
  functions on encodings.\<close>

definition own_exception :: "EncLib \<Rightarrow> string \<Rightarrow> string \<Rightarrow> bool" where
  "own_exception E src dst \<longleftrightarrow>
     (case (numChannels E src, numChannels E dst, getConversionCode E src dst) of
        (Inr _, Inr _, Inl _) \<Rightarrow> \<not> (color_format E src \<and> color_format E dst \<and>
          map_of getConversionCodes (getEncoding src, getEncoding dst) \<noteq> None)
      | _ \<Rightarrow> False)"

definition quoted :: "string \<Rightarrow> string" where
  "quoted s = CHR 0x27 # s @ [CHR 0x27]"

definition typed_conversion :: "CvLib \<Rightarrow> CvImage \<Rightarrow> string \<Rightarrow> failure + CvImage" where
  "typed_conversion lib source encoding =
     (let source_typed = source\<lparr>cvi_encoding := guessed_encoding (cvi_encoding source)\<rparr>
      in if cvi_encoding source_typed = encoding then Inr source
         else
           (case cvtColor lib source_typed encoding of
              Inl (Throws e) \<Rightarrow>
                Inl (Throws (if own_exception (enc lib) (cvi_encoding source_typed) encoding
                  then ''cv_bridge.cvtColorForDisplay() while trying to convert image from '' @
                    quoted (cvi_encoding source) @ '' to '' @ quoted encoding @
                    '' an exception was thrown ('' @ e @ '')''
                  else e))
            | r \<Rightarrow> r))"

text \<open>\<open>None\<close> is the null pointer.\<close>

definition cvtColorForDisplay ::
  "CvLib \<Rightarrow> DisplayLib \<Rightarrow> CvImage option \<Rightarrow> string \<Rightarrow> CvtColorForDisplayOptions \<Rightarrow> failure + CvImage" where
  "cvtColorForDisplay lib dl source_ptr encoding_out options =
     (case source_ptr of
        None \<Rightarrow> Inl (Throws ''cv_bridge.cvtColorForDisplay() called with empty image.'')
      | Some source \<Rightarrow>
          bindR (display_encoding lib (cvi_encoding source) encoding_out) (\<lambda>encoding.
            let with_image = (\<lambda>image. \<lparr>cvi_header = cvi_header source, cvi_encoding = encoding, cvi_image = image\<rparr>)
            in if encoding = enc_BGR8 \<and> cvi_encoding source = ''32SC1'' then
                 bindR (label_image lib (cvi_image source) (bg_label options)) (\<lambda>image. Inr (with_image image))
               else
                 bindR (if do_dynamic_scaling options then thrown_by (minMaxLoc dl (cvi_image source))
                        else Inr (min_image_value options, max_image_value options)) (\<lambda>(lo, hi).
                   if do_dynamic_scaling options \<and> lo = hi then
                     bindR (constant_image lib dl (cvi_image source) encoding) (\<lambda>image. Inr (with_image image))
                   else if lo \<noteq> hi then
                     bindR (scaled_image lib dl source options lo hi) (\<lambda>img_scaled. cvtColor lib img_scaled encoding)
                   else typed_conversion lib source encoding)))"

end
