(* ===== verification/Display_Properties.thy ===== *)
theory Display_Properties
  imports Cv_Display Cv_Safety
begin

text \<open>
  Properties of the images for display: no read or write outside of a matrix, the colours of labels,
  and the type of what is returned.
\<close>

section \<open>Pixels\<close>

definition pixel_at :: "Mat \<Rightarrow> nat \<Rightarrow> nat \<Rightarrow> bytes" where
  "pixel_at m j i = slice (j * mat_step m + 3 * i) 3 (mat_data m)"

definition bgr_mat :: "Mat \<Rightarrow> bool" where
  "bgr_mat m \<longleftrightarrow> own_mat m \<and> mat_type m = CV_MAKETYPE 0 3"

text \<open>The same matrix up to the bytes.\<close>

definition same_shape :: "Mat \<Rightarrow> Mat \<Rightarrow> bool" where
  "same_shape m m' \<longleftrightarrow> same_size m m' \<and> mat_type m' = mat_type m \<and> mat_step m' = mat_step m \<and>
     length (mat_data m') = length (mat_data m)"

lemma same_shape_trans: "same_shape a b \<Longrightarrow> same_shape b c \<Longrightarrow> same_shape a c"
  by (simp add: same_shape_def same_size_def)

lemma same_shape_own: "same_shape m m' \<Longrightarrow> own_mat m' = own_mat m"
  by (simp add: same_shape_def same_size_def own_mat_def readable_def row_size_def)

lemma bgr_row_size: "bgr_mat m \<Longrightarrow> row_size m = 3 * nat (mat_cols m)"
  by (simp add: bgr_mat_def row_size_def elemSize_def depth_bytes_def)

lemma element_in_bounds:
  assumes "own_mat m" and "elemSize (mat_type m) = e" and "int j < mat_rows m" "int i < mat_cols m"
  shows "j * mat_step m + e * i + e \<le> length (mat_data m)"
proof -
  have "Suc i * e \<le> nat (mat_cols m) * e" using assms(4) by (intro mult_le_mono1) simp
  then have "e * i + e \<le> row_size m" using assms(2) by (simp add: row_size_def algebra_simps)
  moreover have "j * mat_step m + row_size m \<le> length (mat_data m)"
    using assms by (intro readable_row) (simp_all add: own_mat_def)
  ultimately show ?thesis by linarith
qed

lemma pixels_disjoint:
  assumes "bgr_mat m" and "int j < mat_rows m" "int i < mat_cols m" "int j' < mat_rows m" "int i' < mat_cols m"
    and "(j, i) \<noteq> (j', i')"
  shows "j * mat_step m + 3 * i + 3 \<le> j' * mat_step m + 3 * i' \<or> j' * mat_step m + 3 * i' + 3 \<le> j * mat_step m + 3 * i"
proof (cases "j = j'")
  case True
  then show ?thesis using assms(6) by auto
next
  case False
  have later: "j * s + 3 * i + 3 \<le> j' * s + 3 * i'"
    if "j < j'" "i < c" "3 * c \<le> s" for j j' i i' c s :: nat
  proof -
    have "Suc j * s \<le> j' * s" using that(1) by (intro mult_le_mono1) simp
    then show ?thesis using that(2,3) by simp
  qed
  have "3 * nat (mat_cols m) \<le> mat_step m"
    using False assms(1-5) bgr_row_size [OF assms(1)] by (auto simp: bgr_mat_def own_mat_def)
  then show ?thesis
    using False assms(3,5) later [of j j' i "nat (mat_cols m)" "mat_step m" i']
      later [of j' j i' "nat (mat_cols m)" "mat_step m" i] by linarith
qed

lemma set_pixel_Some:
  assumes "bgr_mat m" and "int j < mat_rows m" "int i < mat_cols m" and "length p = 3"
  obtains m' where "set_pixel j i p m = Some m'" "same_shape m m'" "pixel_at m' j i = p"
    "\<And>j' i'. int j' < mat_rows m \<Longrightarrow> int i' < mat_cols m \<Longrightarrow> (j', i') \<noteq> (j, i) \<Longrightarrow>
       pixel_at m' j' i' = pixel_at m j' i'"
proof -
  let ?o = "j * mat_step m + 3 * i" and ?d = "mat_data m"
  let ?m = "m\<lparr>mat_data := take ?o ?d @ p @ drop (?o + 3) ?d\<rparr>"
  have "elemSize (mat_type m) = 3" using assms(1) by (simp add: bgr_mat_def elemSize_def depth_bytes_def)
  from element_in_bounds [OF _ this assms(2,3)] have in_bounds: "?o + 3 \<le> length ?d"
    using assms(1) by (simp add: bgr_mat_def)
  have other: "slice q 3 (take ?o ?d @ p @ drop (?o + 3) ?d) = slice q 3 ?d"
    if "q + 3 \<le> ?o \<or> ?o + 3 \<le> q" for q
    using that in_bounds assms(4) by (auto simp: slice_def drop_take min_def)
  show ?thesis
  proof (rule that [of ?m])
    show "set_pixel j i p m = Some ?m" using in_bounds by (simp add: set_pixel_def Let_def)
    show "same_shape m ?m" using in_bounds assms(4) by (simp add: same_shape_def same_size_def)
    show "pixel_at ?m j i = p" using in_bounds assms(4) by (simp add: pixel_at_def slice_def)
    show "pixel_at ?m j' i' = pixel_at m j' i'"
      if "int j' < mat_rows m" "int i' < mat_cols m" "(j', i') \<noteq> (j, i)" for j' i'
      using other [OF pixels_disjoint [OF assms(1) that(1,2) assms(2,3) that(3)]] by (simp add: pixel_at_def)
  qed
qed

text \<open>A loop that sets a pixel or leaves it.\<close>

lemma paint:
  assumes "bgr_mat m" and "distinct xs" and "\<forall>(j, i) \<in> set xs. int j < mat_rows m \<and> int i < mat_cols m"
    and "\<forall>(j, i) \<in> set xs. \<forall>img. same_shape m img \<longrightarrow>
      f j i img = (case g j i of None \<Rightarrow> Some img | Some p \<Rightarrow> set_pixel j i p img)"
    and "\<forall>j i p. g j i = Some p \<longrightarrow> length p = 3"
  shows "\<exists>m'. foldO (\<lambda>(j, i). f j i) xs m = Some m' \<and> same_shape m m' \<and>
    (\<forall>j i. int j < mat_rows m \<and> int i < mat_cols m \<longrightarrow>
       pixel_at m' j i = (if (j, i) \<in> set xs then (case g j i of None \<Rightarrow> pixel_at m j i | Some p \<Rightarrow> p) else pixel_at m j i))"
  using assms(1-4)
proof (induction xs arbitrary: m)
  case Nil
  then show ?case by (simp add: same_shape_def same_size_def)
next
  case (Cons x xs)
  obtain j i where x: "x = (j, i)" by (cases x)
  have in_range: "int j < mat_rows m" "int i < mat_cols m" and new: "(j, i) \<notin> set xs"
    using Cons.prems(2,3) x by auto
  have refl: "same_shape m m" by (simp add: same_shape_def same_size_def)
  obtain m1 where m1: "f j i m = Some m1" "same_shape m m1"
    "pixel_at m1 j i = (case g j i of None \<Rightarrow> pixel_at m j i | Some p \<Rightarrow> p)"
    "\<And>j' i'. int j' < mat_rows m \<Longrightarrow> int i' < mat_cols m \<Longrightarrow> (j', i') \<noteq> (j, i) \<Longrightarrow> pixel_at m1 j' i' = pixel_at m j' i'"
  proof (cases "g j i")
    case None
    then show ?thesis using that [of m] Cons.prems(4) refl x by simp
  next
    case (Some p)
    obtain m1 where "set_pixel j i p m = Some m1" "same_shape m m1" "pixel_at m1 j i = p"
      "\<And>j' i'. int j' < mat_rows m \<Longrightarrow> int i' < mat_cols m \<Longrightarrow> (j', i') \<noteq> (j, i) \<Longrightarrow> pixel_at m1 j' i' = pixel_at m j' i'"
      using set_pixel_Some [OF Cons.prems(1) in_range assms(5) [rule_format, OF Some]] by metis
    then show ?thesis using that [of m1] Cons.prems(4) refl x Some by simp
  qed
  have "bgr_mat m1" using m1(2) Cons.prems(1) same_shape_own [OF m1(2)] by (simp add: bgr_mat_def same_shape_def)
  moreover have rows: "mat_rows m1 = mat_rows m" "mat_cols m1 = mat_cols m"
    using m1(2) by (simp_all add: same_shape_def same_size_def)
  moreover have "\<forall>(j', i') \<in> set xs. \<forall>img. same_shape m1 img \<longrightarrow>
      f j' i' img = (case g j' i' of None \<Rightarrow> Some img | Some p \<Rightarrow> set_pixel j' i' p img)"
    using Cons.prems(4) same_shape_trans [OF m1(2)] by auto
  ultimately obtain m' where m': "foldO (\<lambda>(j, i). f j i) xs m1 = Some m'" "same_shape m1 m'"
    "\<forall>j i. int j < mat_rows m \<and> int i < mat_cols m \<longrightarrow>
       pixel_at m' j i = (if (j, i) \<in> set xs then (case g j i of None \<Rightarrow> pixel_at m1 j i | Some p \<Rightarrow> p) else pixel_at m1 j i)"
    using Cons.IH [of m1] Cons.prems(2,3) by auto
  have "pixel_at m' j' i' = (if (j', i') \<in> set (x # xs) then (case g j' i' of None \<Rightarrow> pixel_at m j' i' | Some p \<Rightarrow> p)
      else pixel_at m j' i')" if "int j' < mat_rows m" "int i' < mat_cols m" for j' i'
    using m'(3) m1(3) m1(4) [OF that] that new by (cases "(j', i') = (j, i)") (auto simp: x split: option.splits)
  then show ?case using m1(1) m'(1) same_shape_trans [OF m1(2) m'(2)] by (auto simp: x)
qed

section \<open>Labels\<close>

lemma indices_iff: "(j, i) \<in> set (indices m) \<longleftrightarrow> int j < mat_rows m \<and> int i < mat_cols m"
  by (auto simp: indices_def)

lemma distinct_indices: "distinct (indices m)"
  by (simp add: indices_def distinct_product)

lemma word_at_Some:
  assumes "own_mat m" and "elemSize (mat_type m) = 4" and "int j < mat_rows m" "int i < mat_cols m"
  shows "\<exists>w. word_at lib m j i = Some w"
  using element_in_bounds [OF assms] unfolding word_at_def Let_def by simp

lemma length_label_pixel: "length (label_pixel bg label) = 3"
  by (simp add: label_pixel_def split: prod.split)

lemma new_mat_own:
  assumes "0 \<le> rows" "0 \<le> cols"
  obtains m where "new_mat rows cols ty v = Inr m" "mat_rows m = rows" "mat_cols m = cols" "mat_type m = ty"
    "own_mat m"
proof (rule that)
  let ?m = "\<lparr>mat_rows = rows, mat_cols = cols, mat_type = ty, mat_step = nat cols * elemSize ty,
     mat_data = replicate (nat rows * (nat cols * elemSize ty)) v\<rparr>"
  show "new_mat rows cols ty v = Inr ?m" using assms by (simp add: new_mat_def)
  show "own_mat ?m" using assms by (intro own_tight) (simp_all add: row_size_def)
qed simp_all

text \<open>The image of a matrix of labels.\<close>

lemma label_image_pixels:
  assumes "own_mat m" and "elemSize (mat_type m) = 4"
  shows "\<exists>img. label_image lib m bg = Inr img \<and> bgr_mat img \<and> same_size m img \<and>
    (\<forall>j i w. int j < mat_rows m \<and> int i < mat_cols m \<and> word_at lib m j i = Some w \<longrightarrow>
       pixel_at img j i = label_pixel bg (sint w))"
proof -
  let ?g = "\<lambda>j i. map_option (\<lambda>w. label_pixel bg (sint w)) (word_at lib m j i)"
  let ?f = "\<lambda>j i img. Option.bind (word_at lib m j i) (\<lambda>label. set_pixel j i (label_pixel bg (sint label)) img)"
  have nn: "0 \<le> mat_rows m" "0 \<le> mat_cols m" using assms(1) by (simp_all add: own_mat_def)
  obtain m0 where m0: "new_mat (mat_rows m) (mat_cols m) (CV_MAKETYPE 0 3) 0 = Inr m0"
    "mat_rows m0 = mat_rows m" "mat_cols m0 = mat_cols m" "mat_type m0 = CV_MAKETYPE 0 3" "own_mat m0"
    by (rule new_mat_own [OF nn])
  have b: "bgr_mat m0" using m0 by (simp add: bgr_mat_def)
  have r: "\<forall>(j, i) \<in> set (indices m). int j < mat_rows m0 \<and> int i < mat_cols m0"
    using m0 indices_iff by auto
  have step: "\<forall>(j, i) \<in> set (indices m). \<forall>img. same_shape m0 img \<longrightarrow>
      ?f j i img = (case ?g j i of None \<Rightarrow> Some img | Some p \<Rightarrow> set_pixel j i p img)"
  proof (clarify)
    fix j i img assume "(j, i) \<in> set (indices m)"
    then obtain w where "word_at lib m j i = Some w"
      using word_at_Some [OF assms] unfolding indices_iff by blast
    then show "?f j i img = (case ?g j i of None \<Rightarrow> Some img | Some p \<Rightarrow> set_pixel j i p img)" by simp
  qed
  have len: "\<forall>j i p. ?g j i = Some p \<longrightarrow> length p = 3" using length_label_pixel by auto
  obtain img where img: "foldO (\<lambda>(j, i). ?f j i) (indices m) m0 = Some img" "same_shape m0 img"
    "\<forall>j i. int j < mat_rows m0 \<and> int i < mat_cols m0 \<longrightarrow>
      pixel_at img j i = (if (j, i) \<in> set (indices m) then (case ?g j i of None \<Rightarrow> pixel_at m0 j i | Some p \<Rightarrow> p)
        else pixel_at m0 j i)"
    using paint [where f = ?f and g = ?g, OF b distinct_indices r step len] by blast
  have "label_image lib m bg = Inr img"
    using img(1) by (simp add: label_image_def m0(1) or_undefined_def)
  moreover have "bgr_mat img" using b same_shape_own [OF img(2)] img(2)
    by (simp add: bgr_mat_def same_shape_def)
  moreover have "same_size m img" using img(2) m0 by (simp add: same_shape_def same_size_def)
  ultimately show ?thesis using img(3) m0 indices_iff by (intro exI [of _ img]) auto
qed

text \<open>The colour of a label by its position in the table.\<close>

lemma getRGBColor_nth:
  assumes "color smod 146 = int k" and "k < 146"
  shows "getRGBColor color = (case color_cases ! k of (_, r, g, b) \<Rightarrow>
    (of_int r / 10000, of_int g / 10000, of_int b / 10000))"
proof -
  have k: "k < length color_cases" using assms(2) arg_cong [OF cases_in_order, of length] by simp
  obtain n r g b where c: "color_cases ! k = (n, r, g, b)" by (rule prod_cases4)
  have "Colors ! k = n" using k c by (simp flip: cases_in_order)
  moreover have "(n, r, g, b) \<in> set color_cases" using k c by (metis nth_mem)
  ultimately have "map_of color_cases (Colors ! k) = Some (r, g, b)"
    using distinct_Colors cases_in_order by (simp add: map_of_eq_Some_iff)
  then show ?thesis using assms by (simp add: getRGBColor_def c Let_def)
qed

lemma channel_zero:
  assumes "0 \<le> x" "x \<le> 10000"
  shows "(word_of_int \<lfloor>of_int x / 10000 * (255 :: real)\<rfloor> :: byte) = 0 \<longleftrightarrow> x * 255 < 10000"
proof -
  have "of_int x / 10000 * (255 :: real) = of_int (x * 255) / of_int 10000" by simp
  then have f: "\<lfloor>of_int x / 10000 * (255 :: real)\<rfloor> = x * 255 div 10000" by (simp only: floor_divide_of_int_eq)
  have r: "0 \<le> x * 255 div 10000" "x * 255 div 10000 < 256" using assms by simp_all
  then have "(word_of_int (x * 255 div 10000) :: byte) = 0 \<longleftrightarrow> x * 255 div 10000 = 0"
    unfolding word_of_int_eq_0_iff [where 'a = 8] using zdvd_not_zless [of "x * 255 div 10000" 256] by auto
  moreover have "x * 255 div 10000 = 0 \<longleftrightarrow> x * 255 < 10000" using assms(1) by (auto simp: zdiv_eq_0_iff)
  ultimately show ?thesis unfolding f by blast
qed

lemma label_black:
  "label_pixel bg label = [0, 0, 0] \<longleftrightarrow> label = bg \<or> label smod 146 < 0 \<or> label smod 146 = 7"
proof (cases "label = bg \<or> label smod 146 < 0")
  case True
  then show ?thesis by (auto simp: label_pixel_def getRGBColor_def Let_def)
next
  case False
  define k where "k = nat (label smod 146)"
  have k: "label smod 146 = int k" using False by (simp add: k_def)
  have "label smod 146 < 146" using smod_int_range [of 146 label] by auto
  then have lt: "k < 146" using k by simp
  then have mem: "k < length color_cases" using arg_cong [OF cases_in_order, of length] by simp
  obtain n r g b where c: "color_cases ! k = (n, r, g, b)" by (rule prod_cases4)
  have "(n, r, g, b) \<in> set color_cases" using mem c by (metis nth_mem)
  from bspec [OF components_table [unfolded list_all_iff] this]
  have range: "0 \<le> r" "r \<le> 10000" "0 \<le> g" "g \<le> 10000" "0 \<le> b" "b \<le> 10000"
    unfolding case_prod_conv by blast+
  have "(k, n, r, g, b) \<in> set (enumerate 0 color_cases)" using mem c by (auto simp: in_set_enumerate_eq)
  from bspec [OF black_table [unfolded list_all_iff] this]
  have "(r * 255 < 10000 \<and> g * 255 < 10000 \<and> b * 255 < 10000) = (k = 7)"
    unfolding case_prod_conv by blast
  moreover have "label_pixel bg label = [0, 0, 0] \<longleftrightarrow>
      (word_of_int \<lfloor>of_int b / 10000 * (255 :: real)\<rfloor> :: byte) = 0 \<and>
      (word_of_int \<lfloor>of_int g / 10000 * (255 :: real)\<rfloor> :: byte) = 0 \<and>
      (word_of_int \<lfloor>of_int r / 10000 * (255 :: real)\<rfloor> :: byte) = 0"
    using False by (simp only: label_pixel_def getRGBColor_nth [OF k lt] c prod.case list.inject simp_thms
      if_False de_Morgan_disj)
  moreover note channel_zero [OF range(1,2)] channel_zero [OF range(3,4)] channel_zero [OF range(5,6)]
  ultimately show ?thesis using False k by auto
qed

section \<open>Properties\<close>

lemma display_encoding_label:
  assumes "documented (enc lib)" and "encoding_out = [] \<or> encoding_out = enc_BGR8"
  shows "display_encoding lib ''32SC1'' encoding_out = Inr enc_BGR8"
proof -
  have e: "enc_entry ''32SC1'' = Some (KGeneric, 1, 32)" "enc_entry enc_BGR8 = Some (KColor, 3, 8)"
    by code_simp+
  then have "numChannels (enc lib) ''32SC1'' = Inr 1" "isColor (enc lib) enc_BGR8" "bitDepth (enc lib) enc_BGR8 = Inr 8"
    using assms(1) unfolding documented_def by blast+
  then show ?thesis using assms(2) by (auto simp: display_encoding_def)
qed

text \<open>A label image is drawn as a blue-green-red image of the same size in which every pixel has
  the colour of its label.  A pixel is black when its label is the background, but also for label 7
  and its like modulo 146 and for every negative label that is no multiple of 146, so labels and
  background cannot always be told apart.\<close>

theorem label_colours:
  assumes "documented (enc lib)" and "encoding_out = [] \<or> encoding_out = enc_BGR8"
    and "cvi_encoding source = ''32SC1''" and "mat_type (cvi_image source) = CV_MAKETYPE 4 1"
    and "own_mat (cvi_image source)"
  shows "\<exists>c. cvtColorForDisplay lib dl (Some source) encoding_out options = Inr c \<and>
    cvi_encoding c = enc_BGR8 \<and> cvi_header c = cvi_header source \<and> bgr_mat (cvi_image c) \<and>
    same_size (cvi_image source) (cvi_image c) \<and>
    (\<forall>j i w. int j < mat_rows (cvi_image source) \<and> int i < mat_cols (cvi_image source) \<and>
         word_at lib (cvi_image source) j i = Some w \<longrightarrow>
       pixel_at (cvi_image c) j i = label_pixel (bg_label options) (sint w) \<and>
       (pixel_at (cvi_image c) j i = [0, 0, 0] \<longleftrightarrow>
          sint w = bg_label options \<or> sint w smod 146 < 0 \<or> sint w smod 146 = 7))"
proof -
  have "elemSize (mat_type (cvi_image source)) = 4"
    by (simp add: assms(4) elemSize_def depth_bytes_def)
  from label_image_pixels [OF assms(5) this] obtain img where
    img: "label_image lib (cvi_image source) (bg_label options) = Inr img" "bgr_mat img"
    "same_size (cvi_image source) img"
    "\<forall>j i w. int j < mat_rows (cvi_image source) \<and> int i < mat_cols (cvi_image source) \<and>
       word_at lib (cvi_image source) j i = Some w \<longrightarrow>
       pixel_at img j i = label_pixel (bg_label options) (sint w)"
    by blast
  show ?thesis
    using img display_encoding_label [OF assms(1,2)] label_black [of "bg_label options"]
    by (simp add: cvtColorForDisplay_def assms(3) Let_def)
qed

text \<open>A display library that behaves as documented, for which every image is flat.\<close>

definition flat_display :: DisplayLib where
  "flat_display =
     \<lparr>minMaxLoc = (\<lambda>_. Inr (7, 7)), minus_scalar = (\<lambda>m _. m), saturate_uchar = (\<lambda>x. word_of_int \<lfloor>x\<rfloor>),
      applyColorMap = (\<lambda>m _. if 0 \<le> mat_rows m \<and> 0 \<le> mat_cols m
        then Inr (black (mat_rows m) (mat_cols m) (CV_MAKETYPE 0 3)) else Inl ''cv::Exception'')\<rparr>"

definition label_sample :: CvImage where
  "label_sample = \<lparr>cvi_header = default_header, cvi_encoding = ''32SC1'',
     cvi_image = \<lparr>mat_rows = 1, mat_cols = 2, mat_type = CV_MAKETYPE 4 1, mat_step = 8,
       mat_data = [1, 0, 0, 0, 0xFE, 0xFF, 0xFF, 0xFF]\<rparr>\<rparr>"

lemma label_colours_witness:
  "\<exists>c. cvtColorForDisplay plain_cv flat_display (Some label_sample) [] default_display_options = Inr c \<and>
     pixel_at (cvi_image c) 0 1 = [0, 0, 0] \<and> pixel_at (cvi_image c) 0 0 \<noteq> [0, 0, 0]"
proof -
  have own: "own_mat (cvi_image label_sample)"
    by (rule own_tight) (simp_all add: label_sample_def row_size_def elemSize_def depth_bytes_def)
  have w: "word_at plain_cv (cvi_image label_sample) 0 0 = Some 1"
    "word_at plain_cv (cvi_image label_sample) 0 1 = Some (- 2)"
    by (simp_all add: word_at_def label_sample_def plain_cv_def Let_def slice_def word_rcat_def object_value_def native_order_def)
  have doc: "documented (enc plain_cv)" using documented_plain_cv by (simp add: cv_documented_def)
  have s: "cvi_encoding label_sample = ''32SC1''" "mat_type (cvi_image label_sample) = CV_MAKETYPE 4 1"
    "mat_rows (cvi_image label_sample) = 1" "mat_cols (cvi_image label_sample) = 2"
    by (simp_all add: label_sample_def)
  have "sint (- 2 :: u32) smod 146 < 0" "\<not> sint (1 :: u32) smod 146 < 0" "sint (1 :: u32) smod 146 \<noteq> 7"
    "sint (1 :: u32) \<noteq> -1"
    by (simp_all add: signed_modulo_int_def)
  moreover obtain c where "cvtColorForDisplay plain_cv flat_display (Some label_sample) [] default_display_options = Inr c"
    and px: "\<forall>j i w. int j < mat_rows (cvi_image label_sample) \<and> int i < mat_cols (cvi_image label_sample) \<and>
        word_at plain_cv (cvi_image label_sample) j i = Some w \<longrightarrow>
      pixel_at (cvi_image c) j i = label_pixel (bg_label default_display_options) (sint w) \<and>
      (pixel_at (cvi_image c) j i = [0, 0, 0] \<longleftrightarrow>
         sint w = bg_label default_display_options \<or> sint w smod 146 < 0 \<or> sint w smod 146 = 7)"
    using label_colours [OF doc _ s(1,2) own, of "[]" flat_display default_display_options] by blast
  moreover have "bg_label default_display_options = -1" by (simp add: default_display_options_def)
  ultimately show ?thesis
    using px [rule_format, of 0 0 1] px [rule_format, of 0 1 "-2"] w s(3,4) by simp
qed

section \<open>The type of what is displayed\<close>

text \<open>What OpenCV documents: a scalar is subtracted from every element, and a colour map yields three
  8-bit channels.\<close>

definition display_documented :: "DisplayLib \<Rightarrow> bool" where
  "display_documented dl \<longleftrightarrow>
     (\<forall>m x. mat_type (minus_scalar dl m x) = mat_type m \<and> same_size m (minus_scalar dl m x)) \<and>
     (\<forall>m c m'. applyColorMap dl m c = Inr m' \<longrightarrow> bgr_mat m' \<and> same_size m m')"

text \<open>The result of a conversion that is defined and has the encoding \<open>e\<close> and its type.\<close>

definition displayed :: "CvImage \<Rightarrow> string \<Rightarrow> failure + CvImage \<Rightarrow> bool" where
  "displayed s e r \<longleftrightarrow> r \<noteq> Inl Undefined \<and>
     (\<forall>c. r = Inr c \<longrightarrow> cvi_encoding c = e \<and> cvi_header c = cvi_header s \<and>
        same_size (cvi_image s) (cvi_image c) \<and> getCvType e = Inr (mat_type (cvi_image c)))"

definition typed_image :: "CvImage \<Rightarrow> EncKind \<Rightarrow> int \<Rightarrow> int \<Rightarrow> bool" where
  "typed_image s kind n bits \<longleftrightarrow> enc_entry (cvi_encoding s) = Some (kind, n, bits) \<and> 1 \<le> n \<and> n \<le> 512 \<and>
     getCvType (cvi_encoding s) = Inr (mat_type (cvi_image s)) \<and> own_mat (cvi_image s)"

lemma displayed_conversion:
  assumes "cv_documented lib" and "typed_image s kind n bits"
    and "enc_entry e = Some (k, n', b)" and "1 \<le> n'" "n' \<le> 512" and "e \<noteq> []"
  shows "displayed s e (cvtColor lib s e)"
proof -
  obtain d where "getCvType e = Inr (CV_MAKETYPE d n')" using getCvType_entry [OF assms(3-5)] by blast
  moreover have "sane (cvi_image s)" using assms(2) own_sane by (simp add: typed_image_def)
  ultimately have "cvtColor lib s e \<noteq> Inl Undefined"
    unfolding cvtColor_def using toCvCopyImpl_sane [OF assms(1)] by blast
  moreover have "cvi_encoding c = e \<and> cvi_header c = cvi_header s \<and> same_size (cvi_image s) (cvi_image c) \<and>
      getCvType e = Inr (mat_type (cvi_image c))" if "cvtColor lib s e = Inr c" for c
  proof -
    have "cvi_encoding c = (if e = [] then cvi_encoding s else e) \<and>
        getCvType (cvi_encoding c) = Inr (mat_type (cvi_image c)) \<and> cvi_header c = cvi_header s \<and>
        same_size (cvi_image s) (cvi_image c) \<and> own_mat (cvi_image c)"
      by (rule conversion_type [where k = kind and n = n and b = bits and k' = k and n' = n' and b' = b,
            OF assms(1) that [unfolded cvtColor_def]])
        (use assms(2-5) in \<open>auto simp: typed_image_def own_mat_def\<close>)
    then show ?thesis using assms(6) by auto
  qed
  ultimately show ?thesis unfolding displayed_def by blast
qed

text \<open>The encodings that may be asked for.\<close>

lemma display_targets:
  "list_all (\<lambda>(e, kind, n, bits). bits = 8 \<and> kind \<in> {KMono, KColor, KColorAlpha} \<longrightarrow>
     getCvType e = Inr (CV_MAKETYPE 0 n) \<and> 1 \<le> n \<and> n \<le> 4 \<and>
     (n = 3) = (e \<notin> {enc_MONO8, enc_BGRA8, enc_RGBA8}) \<and> e \<noteq> []) enc_table"
  by code_simp

lemma display_encoding_target:
  assumes "documented (enc lib)" and "out \<noteq> [] \<Longrightarrow> enc_entry out = Some (k', n', b')"
  shows "display_encoding lib src out \<noteq> Inl Undefined \<and>
    (\<forall>e. display_encoding lib src out = Inr e \<longrightarrow> e = (if out = [] then enc_BGR8 else out) \<and> e \<noteq> [] \<and>
       (\<exists>k n. enc_entry e = Some (k, n, 8) \<and> 1 \<le> n \<and> n \<le> 4 \<and> getCvType e = Inr (CV_MAKETYPE 0 n) \<and>
          (n = 3) = (e \<notin> {enc_MONO8, enc_BGRA8, enc_RGBA8})))"
proof (cases "out = []")
  case True
  have bgr: "enc_entry enc_BGR8 = Some (KColor, 3, 8)" "getCvType enc_BGR8 = Inr (CV_MAKETYPE 0 3)" by code_simp+
  show ?thesis
  proof (intro conjI allI impI)
    show "display_encoding lib src out \<noteq> Inl Undefined"
      by (simp add: display_encoding_def True split: sum.split)
    fix e assume "display_encoding lib src out = Inr e"
    then have e: "e = enc_BGR8" by (auto simp: display_encoding_def True split: sum.splits if_splits)
    show "e = (if out = [] then enc_BGR8 else out)" "e \<noteq> []" by (simp_all add: e True)
    show "\<exists>k n. enc_entry e = Some (k, n, 8) \<and> 1 \<le> n \<and> n \<le> 4 \<and> getCvType e = Inr (CV_MAKETYPE 0 n) \<and>
        (n = 3) = (e \<notin> {enc_MONO8, enc_BGRA8, enc_RGBA8})"
      unfolding e by (intro exI [of _ KColor] exI [of _ 3]) (simp add: bgr)
  qed
next
  case False
  note entry = assms(2) [OF False]
  have doc: "bitDepth (enc lib) out = Inr b'" "isColor (enc lib) out = (k' = KColor \<or> k' = KColorAlpha)"
    "isMono (enc lib) out = (k' = KMono)"
    using assms(1) entry unfolding documented_def by blast+
  have r: "display_encoding lib src out =
      (if k' \<in> {KMono, KColor, KColorAlpha} \<and> b' = 8 then Inr out
       else Inl (Throws (''cv_bridge.cvtColorForDisplay() does not have an output encoding that is '' @
                    ''color or mono, and has is bit in depth'')))"
    using False by (auto simp: display_encoding_def doc Let_def)
  show ?thesis
  proof (cases "k' \<in> {KMono, KColor, KColorAlpha} \<and> b' = 8")
    case True
    then have "(out, k', n', b') \<in> set enc_table" using entry_kind [OF entry] by auto
    from bspec [OF display_targets [unfolded list_all_iff] this] show ?thesis
      using True r entry False unfolding case_prod_conv by auto
  next
    case bad: False
    then show ?thesis unfolding r by (auto simp del: disj_not1)
  qed
qed

text \<open>The two steps that produce an image to be converted.\<close>

lemma blacken_nan_own:
  assumes "own_mat m" and "elemSize (mat_type m) = 4" and "bgr_mat img" and "same_size m img"
  shows "\<exists>img'. blacken_nan lib m img = Inr img' \<and> bgr_mat img' \<and> same_size m img' \<and>
    (\<forall>j i w. int j < mat_rows m \<and> int i < mat_cols m \<and> word_at lib m j i = Some w \<longrightarrow>
       pixel_at img' j i = (if isnan w then [0, 0, 0] else pixel_at img j i))"
proof -
  let ?g = "\<lambda>j i. case word_at lib m j i of Some w \<Rightarrow> if isnan w then Some [0, 0, 0] else None | None \<Rightarrow> None"
  let ?f = "\<lambda>j i img. Option.bind (word_at lib m j i)
    (\<lambda>bits. if isnan bits then set_pixel j i [0, 0, 0] img else Some img)"
  have r: "\<forall>(j, i) \<in> set (indices m). int j < mat_rows img \<and> int i < mat_cols img"
    using assms(4) indices_iff by (auto simp: same_size_def)
  have step: "\<forall>(j, i) \<in> set (indices m). \<forall>img'. same_shape img img' \<longrightarrow>
      ?f j i img' = (case ?g j i of None \<Rightarrow> Some img' | Some p \<Rightarrow> set_pixel j i p img')"
  proof (clarify)
    fix j i img' assume "(j, i) \<in> set (indices m)"
    then obtain w where "word_at lib m j i = Some w"
      using word_at_Some [OF assms(1,2)] unfolding indices_iff by blast
    then show "?f j i img' = (case ?g j i of None \<Rightarrow> Some img' | Some p \<Rightarrow> set_pixel j i p img')" by simp
  qed
  have len: "\<forall>j i p. ?g j i = Some p \<longrightarrow> length p = 3" by (auto split: option.splits)
  obtain img' where img: "foldO (\<lambda>(j, i). ?f j i) (indices m) img = Some img'" "same_shape img img'"
    "\<forall>j i. int j < mat_rows img \<and> int i < mat_cols img \<longrightarrow>
      pixel_at img' j i = (if (j, i) \<in> set (indices m) then (case ?g j i of None \<Rightarrow> pixel_at img j i | Some p \<Rightarrow> p)
        else pixel_at img j i)"
    using paint [where f = ?f and g = ?g, OF assms(3) distinct_indices r step len] by blast
  have "blacken_nan lib m img = Inr img'" using img(1) by (simp add: blacken_nan_def or_undefined_def)
  moreover have "bgr_mat img'" using assms(3) same_shape_own [OF img(2)] img(2)
    by (simp add: bgr_mat_def same_shape_def)
  moreover have "same_size m img'" using img(2) assms(4) by (simp add: same_shape_def same_size_def)
  ultimately show ?thesis
    using img(3) assms(4) indices_iff by (intro exI [of _ img']) (auto simp: same_size_def)
qed

lemma scaled_image_typed:
  assumes "cv_documented lib" and "display_documented dl" and "typed_image s kind n bits"
  shows "scaled_image lib dl s options lo hi \<noteq> Inl Undefined \<and>
    (\<forall>c. scaled_image lib dl s options lo hi = Inr c \<longrightarrow> cvi_header c = cvi_header s \<and>
       same_size (cvi_image s) (cvi_image c) \<and> (\<exists>kind n. typed_image c kind n 8))"
proof -
  let ?m = "cvi_image s"
  let ?c = "\<lambda>ty. convertTo lib (minus_scalar dl ?m lo) ty (255 / (hi - lo))"
  have s: "enc_entry (cvi_encoding s) = Some (kind, n, bits)" "1 \<le> n" "n \<le> 512"
    "getCvType (cvi_encoding s) = Inr (mat_type ?m)" "own_mat ?m"
    using assms(3) by (simp_all add: typed_image_def)
  have n: "numChannels (enc lib) (cvi_encoding s) = Inr n"
    using assms(1) s(1) unfolding cv_documented_def documented_def by blast
  have "CV_MAT_CN (mat_type ?m) = n" using getCvType_entry [OF s(1-3)] s(2-4) by auto
  moreover have d: "mat_type (minus_scalar dl ?m lo) = mat_type ?m" "same_size ?m (minus_scalar dl ?m lo)"
    using assms(2) by (simp_all add: display_documented_def)
  moreover have "0 \<le> mat_rows ?m" "0 \<le> mat_cols ?m" using s(5) by (simp_all add: own_mat_def)
  ultimately have c: "mat_type (?c ty) = CV_MAKETYPE (CV_MAT_DEPTH ty) n" "same_size ?m (?c ty)" "own_mat (?c ty)" for ty
    using assms(1) by (simp_all add: cv_documented_def convertTo_documented_def same_size_def)
  have mono: "enc_entry enc_MONO8 = Some (KMono, 1, 8)" "getCvType enc_MONO8 = Inr (CV_MAKETYPE 0 1)"
    and bgr: "enc_entry enc_BGR8 = Some (KColor, 3, 8)" "getCvType enc_BGR8 = Inr (CV_MAKETYPE 0 3)"
    and float: "getCvType ''32FC1'' = Inr (CV_MAKETYPE 5 1)"
    by code_simp+
  have typed: "typed_image \<lparr>cvi_header = h, cvi_encoding = enc_BGR8, cvi_image = m\<rparr> KColor 3 8" if "bgr_mat m" for h m
    using that bgr by (simp add: typed_image_def bgr_mat_def)
  show ?thesis
  proof (cases "n = 1 \<and> colormap options \<noteq> -1")
    case False
    then show ?thesis
      using c [of "CV_MAKETYPE 0 1"] mono by (auto simp: scaled_image_def n Let_def typed_image_def)
  next
    case True
    show ?thesis
    proof (cases "applyColorMap dl (?c (CV_MAKETYPE 0 3)) (colormap options)")
      case (Inl e)
      then show ?thesis using True by (simp add: scaled_image_def n Let_def)
    next
      case (Inr img)
      then have img: "bgr_mat img" "same_size ?m img"
        using assms(2) c(2) same_size_trans unfolding display_documented_def by blast+
      show ?thesis
      proof (cases "cvi_encoding s = ''32FC1''")
        case f: True
        then have "mat_type ?m = CV_MAKETYPE 5 1" using s(4) float by simp
        then have "elemSize (mat_type ?m) = 4" by (simp only: elemSize_def) (simp add: depth_bytes_def)
        from blacken_nan_own [OF s(5) this img] obtain img' where
          "blacken_nan lib ?m img = Inr img'" "bgr_mat img'" "same_size ?m img'" by blast
        then show ?thesis using True Inr f typed by (auto simp: scaled_image_def n Let_def)
      next
        case False
        then show ?thesis using True Inr img typed by (auto simp: scaled_image_def n Let_def)
      qed
    qed
  qed
qed

lemma guessed_typed:
  assumes "typed_image s kind n bits"
  shows "\<exists>kind. typed_image (s\<lparr>cvi_encoding := guessed_encoding (cvi_encoding s)\<rparr>) kind n bits"
    and "guessed_encoding (cvi_encoding s) = cvi_encoding s \<or> guessed_encoding (cvi_encoding s) = enc_MONO16"
proof -
  have c: "enc_entry ''CV_8UC1'' = None" "enc_entry ''CV_8UC3'' = None" "enc_entry ''CV_8UC4'' = None"
    "enc_entry ''CV_16UC3'' = None" "enc_entry ''CV_16UC4'' = None"
    "enc_entry ''16UC1'' = Some (KGeneric, 1, 16)" "getCvType ''16UC1'' = Inr (CV_MAKETYPE 2 1)"
    "enc_entry enc_MONO16 = Some (KMono, 1, 16)" "getCvType enc_MONO16 = Inr (CV_MAKETYPE 2 1)"
    by code_simp+
  have g: "guessed_encoding (cvi_encoding s) = (if cvi_encoding s = ''16UC1'' then enc_MONO16 else cvi_encoding s)"
    using assms c(1-5) by (auto simp: guessed_encoding_def typed_image_def)
  show "\<exists>kind. typed_image (s\<lparr>cvi_encoding := guessed_encoding (cvi_encoding s)\<rparr>) kind n bits"
  proof (cases "cvi_encoding s = ''16UC1''")
    case True
    then have "n = 1" "bits = 16" "mat_type (cvi_image s) = CV_MAKETYPE 2 1" "own_mat (cvi_image s)"
      using assms c by (simp_all add: typed_image_def)
    then show ?thesis using c True unfolding g by (intro exI [of _ KMono]) (simp add: typed_image_def)
  next
    case False
    then show ?thesis using assms unfolding g by (intro exI [of _ kind]) simp
  qed
  show "guessed_encoding (cvi_encoding s) = cvi_encoding s \<or> guessed_encoding (cvi_encoding s) = enc_MONO16"
    by (simp add: g)
qed

lemma displayed_typed:
  assumes "cv_documented lib" and "typed_image s kind n bits"
    and "enc_entry e = Some (k, n', 8)" and "1 \<le> n'" "n' \<le> 4" and "e \<noteq> []"
  shows "displayed s e (typed_conversion lib s e)"
proof -
  let ?s = "s\<lparr>cvi_encoding := guessed_encoding (cvi_encoding s)\<rparr>"
  obtain kind' where typed: "typed_image ?s kind' n bits" using guessed_typed(1) [OF assms(2)] by blast
  show ?thesis
  proof (cases "guessed_encoding (cvi_encoding s) = e")
    case True
    have "enc_entry enc_MONO16 = Some (KMono, 1, 16)" by code_simp
    then have "e = cvi_encoding s" using guessed_typed(2) [OF assms(2)] assms(3) True by auto
    then show ?thesis
      using True assms(2) by (simp add: typed_conversion_def displayed_def typed_image_def same_size_def)
  next
    case False
    have d: "displayed ?s e (cvtColor lib ?s e)"
      using displayed_conversion [OF assms(1) typed assms(3,4) _ assms(6)] assms(5) by simp
    show ?thesis
    proof (cases "cvtColor lib ?s e")
      case (Inl f)
      then show ?thesis using d False by (cases f) (simp_all add: typed_conversion_def Let_def displayed_def)
    next
      case (Inr c)
      then show ?thesis using d False by (simp add: typed_conversion_def Let_def displayed_def)
    qed
  qed
qed

lemma displayed_bind:
  assumes "r \<noteq> Inl Undefined" and "\<And>x. r = Inr x \<Longrightarrow> displayed s e (f x)"
  shows "displayed s e (bindR r f)"
proof (cases r)
  case (Inl x)
  then show ?thesis using assms(1) by (simp add: displayed_def)
next
  case (Inr x)
  then show ?thesis using assms(2) by simp
qed

lemma displayed_scaled:
  assumes "cv_documented lib" and "display_documented dl" and "typed_image s kind n bits"
    and "enc_entry e = Some (k, n', 8)" and "1 \<le> n'" "n' \<le> 4" and "e \<noteq> []"
  shows "displayed s e (bindR (scaled_image lib dl s options lo hi) (\<lambda>img_scaled. cvtColor lib img_scaled e))"
proof (rule displayed_bind)
  note scaled = scaled_image_typed [OF assms(1-3), of options lo hi]
  then show "scaled_image lib dl s options lo hi \<noteq> Inl Undefined" by blast
  fix c assume "scaled_image lib dl s options lo hi = Inr c"
  then obtain kind' n2 where c: "cvi_header c = cvi_header s" "same_size (cvi_image s) (cvi_image c)"
    "typed_image c kind' n2 8" using scaled by blast
  have "displayed c e (cvtColor lib c e)"
    using displayed_conversion [OF assms(1) c(3) assms(4,5) _ assms(7)] assms(6) by simp
  then show "displayed s e (cvtColor lib c e)"
    unfolding displayed_def c(1) using same_size_trans [OF c(2)] by blast
qed

text \<open>The three ways of an image.\<close>

lemma display_label:
  assumes "typed_image source kind n bits" and "cvi_encoding source = ''32SC1''"
    and "display_encoding lib ''32SC1'' out = Inr enc_BGR8"
  shows "displayed source enc_BGR8 (cvtColorForDisplay lib dl (Some source) out options)"
proof -
  have ty: "getCvType ''32SC1'' = Inr (CV_MAKETYPE 4 1)" "getCvType enc_BGR8 = Inr (CV_MAKETYPE 0 3)" by code_simp+
  then have "mat_type (cvi_image source) = CV_MAKETYPE 4 1" using assms(1,2) by (simp add: typed_image_def)
  then have "elemSize (mat_type (cvi_image source)) = 4" by (simp only: elemSize_def) (simp add: depth_bytes_def)
  moreover have "own_mat (cvi_image source)" using assms(1) by (simp add: typed_image_def)
  ultimately obtain img where img: "label_image lib (cvi_image source) (bg_label options) = Inr img" "bgr_mat img"
    "same_size (cvi_image source) img" using label_image_pixels by blast
  then have "cvtColorForDisplay lib dl (Some source) out options =
      Inr \<lparr>cvi_header = cvi_header source, cvi_encoding = enc_BGR8, cvi_image = img\<rparr>"
    using assms(2,3) by (simp add: cvtColorForDisplay_def Let_def)
  then show ?thesis using img(2,3) ty(2) by (simp add: displayed_def bgr_mat_def)
qed

lemma display_flat:
  assumes "documented (enc lib)" and "enc_entry e = Some (k, n', 8)" and "own_mat (cvi_image source)"
    and "display_encoding lib (cvi_encoding source) out = Inr e"
    and "\<not> (e = enc_BGR8 \<and> cvi_encoding source = ''32SC1'')"
    and "do_dynamic_scaling options" and "minMaxLoc dl (cvi_image source) = Inr (v, v)"
  shows "\<exists>img. cvtColorForDisplay lib dl (Some source) out options =
      Inr \<lparr>cvi_header = cvi_header source, cvi_encoding = e, cvi_image = img\<rparr> \<and>
    same_size (cvi_image source) img \<and> mat_type img = CV_MAKETYPE 0 3"
proof -
  have nn: "0 \<le> mat_rows (cvi_image source)" "0 \<le> mat_cols (cvi_image source)"
    using assms(3) by (simp_all add: own_mat_def)
  obtain img where img: "new_mat (mat_rows (cvi_image source)) (mat_cols (cvi_image source)) (CV_MAKETYPE 0 3)
      (saturate_uchar dl (255 / 2)) = Inr img"
    "mat_rows img = mat_rows (cvi_image source)" "mat_cols img = mat_cols (cvi_image source)"
    "mat_type img = CV_MAKETYPE 0 3"
    by (rule new_mat_own [OF nn])
  have "bitDepth (enc lib) e = Inr 8" using assms(1,2) unfolding documented_def by blast
  then have "cvtColorForDisplay lib dl (Some source) out options =
      Inr \<lparr>cvi_header = cvi_header source, cvi_encoding = e, cvi_image = img\<rparr>"
    using assms(4-7) img(1) by (auto simp: cvtColorForDisplay_def Let_def constant_image_def)
  then show ?thesis using img(2-4) by (simp add: same_size_def)
qed

lemma display_converted:
  assumes "cv_documented lib" and "display_documented dl" and "typed_image source kind n bits"
    and "enc_entry e = Some (k, n', 8)" and "1 \<le> n'" "n' \<le> 4" and "e \<noteq> []"
    and "display_encoding lib (cvi_encoding source) out = Inr e"
    and "\<not> (e = enc_BGR8 \<and> cvi_encoding source = ''32SC1'')"
    and "\<not> (do_dynamic_scaling options \<and> (\<exists>v. minMaxLoc dl (cvi_image source) = Inr (v, v)))"
  shows "displayed source e (cvtColorForDisplay lib dl (Some source) out options)"
  using assms(8-10) displayed_scaled [OF assms(1-7)] displayed_typed [OF assms(1,3-7)]
  by (auto simp: cvtColorForDisplay_def Let_def intro!: displayed_bind)

lemma displayed_regular:
  assumes "displayed s e r" and "e = (if out = [] then enc_BGR8 else out)" and "\<not> mismatch"
  shows "r \<noteq> Inl Undefined \<and>
    (\<forall>c. r = Inr c \<longrightarrow> cvi_encoding c = (if out = [] then enc_BGR8 else out) \<and> cvi_header c = cvi_header s \<and>
       same_size (cvi_image s) (cvi_image c) \<and> (getCvType (cvi_encoding c) \<noteq> Inr (mat_type (cvi_image c)) \<longleftrightarrow> mismatch))"
proof (intro conjI allI impI)
  show "r \<noteq> Inl Undefined" using assms(1) unfolding displayed_def by (rule conjunct1)
  fix c assume "r = Inr c"
  then have c: "cvi_encoding c = e" "cvi_header c = cvi_header s" "same_size (cvi_image s) (cvi_image c)"
    "getCvType e = Inr (mat_type (cvi_image c))"
    using assms(1) unfolding displayed_def by blast+
  show "cvi_encoding c = (if out = [] then enc_BGR8 else out)" using c(1) assms(2) by simp
  show "cvi_header c = cvi_header s" "same_size (cvi_image s) (cvi_image c)" by (fact c)+
  show "(getCvType (cvi_encoding c) \<noteq> Inr (mat_type (cvi_image c))) = mismatch"
    unfolding c(1) using assms(3) c(4) by blast
qed

text \<open>C19: Displaying an image whose matrix has the type of its encoding never reads or writes outside of a
  matrix, and what it returns has the header and the size of the source and the encoding that was
  asked for, or bgr8.  Its matrix has the type of that encoding, except when the range is taken from
  the image and all its values are the same: then it always has three channels, also for mono8,
  bgra8 and rgba8.\<close>

theorem display_type:
  assumes "cv_documented lib" and "display_documented dl"
    and "enc_entry (cvi_encoding source) = Some (kind, n, bits)" and "1 \<le> n" "n \<le> 512"
    and "getCvType (cvi_encoding source) = Inr (mat_type (cvi_image source))" and "own_mat (cvi_image source)"
    and "encoding_out \<noteq> [] \<Longrightarrow> enc_entry encoding_out = Some (kind', n', bits')"
  shows "cvtColorForDisplay lib dl (Some source) encoding_out options \<noteq> Inl Undefined \<and>
    (\<forall>c. cvtColorForDisplay lib dl (Some source) encoding_out options = Inr c \<longrightarrow>
       cvi_encoding c = (if encoding_out = [] then enc_BGR8 else encoding_out) \<and>
       cvi_header c = cvi_header source \<and> same_size (cvi_image source) (cvi_image c) \<and>
       (getCvType (cvi_encoding c) \<noteq> Inr (mat_type (cvi_image c)) \<longleftrightarrow>
          encoding_out \<in> {enc_MONO8, enc_BGRA8, enc_RGBA8} \<and> do_dynamic_scaling options \<and>
          (\<exists>v. minMaxLoc dl (cvi_image source) = Inr (v, v))))"
proof -
  let ?m = "cvi_image source" and ?odd = "{enc_MONO8, enc_BGRA8, enc_RGBA8}"
  let ?r = "cvtColorForDisplay lib dl (Some source) encoding_out options"
  let ?flat = "do_dynamic_scaling options \<and> (\<exists>v. minMaxLoc dl ?m = Inr (v, v))"
  have typed: "typed_image source kind n bits" using assms(3-7) by (simp add: typed_image_def)
  have doc: "documented (enc lib)" using assms(1) by (simp add: cv_documented_def)
  note target = display_encoding_target [OF doc assms(8), of "cvi_encoding source"]
  show ?thesis
  proof (cases "display_encoding lib (cvi_encoding source) encoding_out")
    case (Inl f)
    then show ?thesis using target by (simp add: cvtColorForDisplay_def)
  next
    case (Inr e)
    obtain k n' where e: "e = (if encoding_out = [] then enc_BGR8 else encoding_out)" "e \<noteq> []"
      "enc_entry e = Some (k, n', 8)" "1 \<le> n'" "n' \<le> 4" "getCvType e = Inr (CV_MAKETYPE 0 n')"
      "(n' = 3) = (e \<notin> ?odd)"
      using target Inr by blast
    have out: "encoding_out \<in> ?odd \<longleftrightarrow> n' \<noteq> 3" using e(1,7) by auto
    consider (label) "e = enc_BGR8" "cvi_encoding source = ''32SC1''"
      | (flat) "\<not> (e = enc_BGR8 \<and> cvi_encoding source = ''32SC1'')" ?flat
      | (converted) "\<not> (e = enc_BGR8 \<and> cvi_encoding source = ''32SC1'')" "\<not> ?flat"
      by blast
    then show ?thesis
    proof cases
      case flat
      then obtain img where "?r = Inr \<lparr>cvi_header = cvi_header source, cvi_encoding = e, cvi_image = img\<rparr>"
        "same_size ?m img" "mat_type img = CV_MAKETYPE 0 3"
        using display_flat [OF doc e(3) assms(7) Inr] by blast
      moreover have "CV_MAKETYPE 0 n' = CV_MAKETYPE 0 3 \<longleftrightarrow> n' = 3"
        using e(4,5) CV_MAT_CN_small [of n' 0] CV_MAT_CN_small [of 3 0] by fastforce
      ultimately show ?thesis using flat(2) e(1,6) out by auto
    next
      case label
      then have "displayed source e ?r" "n' = 3" using display_label [OF typed] Inr e(7) by auto
      then show ?thesis using displayed_regular e(1) out by blast
    next
      case converted
      then have "displayed source e ?r"
        by (intro display_converted [OF assms(1,2) typed e(3-5,2) Inr])
      then show ?thesis using displayed_regular e(1) converted(2) by blast
    qed
  qed
qed

lemma display_type_witness:
  "\<exists>c. cvtColorForDisplay plain_cv flat_display
       (Some \<lparr>cvi_header = default_header, cvi_encoding = enc_MONO16, cvi_image = black 2 2 (CV_MAKETYPE 2 1)\<rparr>)
       enc_MONO8 (default_display_options\<lparr>do_dynamic_scaling := True\<rparr>) = Inr c \<and>
     cvi_encoding c = enc_MONO8 \<and> getCvType (cvi_encoding c) \<noteq> Inr (mat_type (cvi_image c))"
proof -
  let ?s = "\<lparr>cvi_header = default_header, cvi_encoding = enc_MONO16, cvi_image = black 2 2 (CV_MAKETYPE 2 1)\<rparr>"
  let ?o = "default_display_options\<lparr>do_dynamic_scaling := True\<rparr>"
  have dl: "display_documented flat_display"
    by (auto simp: display_documented_def flat_display_def bgr_mat_def same_size_def split: if_splits)
  have src: "enc_entry (cvi_encoding ?s) = Some (KMono, 1, 16)"
    "getCvType (cvi_encoding ?s) = Inr (mat_type (cvi_image ?s))" "own_mat (cvi_image ?s)"
    and out: "enc_entry enc_MONO8 = Some (KMono, 1, 8)"
    by (code_simp, code_simp, simp, code_simp)
  have doc: "documented (enc plain_cv)" using documented_plain_cv by (simp add: cv_documented_def)
  have "display_encoding plain_cv (cvi_encoding ?s) enc_MONO8 = Inr enc_MONO8" by code_simp
  then obtain c where "cvtColorForDisplay plain_cv flat_display (Some ?s) enc_MONO8 ?o = Inr c"
    using display_flat [OF doc out src(3), of enc_MONO8 ?o flat_display 7]
    by (auto simp: flat_display_def default_display_options_def)
  then show ?thesis
    using display_type [OF documented_plain_cv dl src(1) _ _ src(2,3) out, of ?o]
    by (auto simp: flat_display_def default_display_options_def)
qed

end
