(* ===== verification/Cv_Stream.thy ===== *)
theory Cv_Stream
  imports Cv_Safety
begin

text \<open>
  A \<^verbatim>\<open>CvImage\<close> as a message of its own: the serializer of \<^verbatim>\<open>cv_bridge.h\<close>, which writes a matrix to a
  stream and reads it back without a \<^verbatim>\<open>sensor_msgs::Image\<close> between.
\<close>

section \<open>The stream\<close>

text \<open>What roscpp does with the fields: the bytes that \<^verbatim>\<open>next\<close> writes and what it reads from the front of a
  stream, where \<open>None\<close> is an overrun, which throws.\<close>

record StreamLib =
  put_header :: "Header \<Rightarrow> bytes"
  get_header :: "bytes \<Rightarrow> (Header \<times> bytes) option"
  put_u32 :: "u32 \<Rightarrow> bytes"
  get_u32 :: "bytes \<Rightarrow> (u32 \<times> bytes) option"
  put_u8 :: "byte \<Rightarrow> bytes"
  get_u8 :: "bytes \<Rightarrow> (byte \<times> bytes) option"
  put_string :: "string \<Rightarrow> bytes"
  get_string :: "bytes \<Rightarrow> (string \<times> bytes) option"

abbreviation overrun :: failure where
  "overrun \<equiv> Throws ''Buffer Overrun''"

definition or_overrun :: "'a option \<Rightarrow> failure + 'a" where
  "or_overrun x = (case x of Some y \<Rightarrow> Inr y | None \<Rightarrow> Inl overrun)"

text \<open>\<^verbatim>\<open>advance\<close> takes a 32-bit length.\<close>

definition advance :: "u32 \<Rightarrow> bytes \<Rightarrow> failure + bytes" where
  "advance n s = (if unat n \<le> length s then Inr (drop (unat n) s) else Inl overrun)"

section \<open>The serializer\<close>

text \<open>\<^verbatim>\<open>size_t data_size = m.image.step*m.image.rows\<close>.\<close>

definition data_size :: "Mat \<Rightarrow> u64" where
  "data_size m = of_nat (mat_step m) * word_of_int (mat_rows m)"

definition serializedLength :: "StreamLib \<Rightarrow> CvImage \<Rightarrow> u32" where
  "serializedLength st m =
     of_nat (length (put_header st (cvi_header m)) + length (put_string st (cvi_encoding m)) + 17) +
       ucast (data_size (cvi_image m))"

text \<open>What is written before the pixels.\<close>

definition write_fields :: "StreamLib \<Rightarrow> CvImage \<Rightarrow> bytes" where
  "write_fields st m =
     put_header st (cvi_header m) @ put_u32 st (word_of_int (mat_rows (cvi_image m))) @
     put_u32 st (word_of_int (mat_cols (cvi_image m))) @ put_string st (cvi_encoding m) @ put_u8 st 0 @
     put_u32 st (of_nat (mat_step (cvi_image m))) @ put_u32 st (ucast (data_size (cvi_image m)))"

text \<open>The bytes written to a stream that has room for \<open>capacity\<close>.  The copy is undefined when it reads
  past the matrix or writes more than was reserved.\<close>

definition write_image :: "StreamLib \<Rightarrow> nat \<Rightarrow> CvImage \<Rightarrow> failure + bytes" where
  "write_image st capacity m =
     (let fields = write_fields st m; n = data_size (cvi_image m)
      in if capacity < length fields then Inl overrun
         else if n > 0 then
           (if capacity < length fields + unat (ucast n :: u32) then Inl overrun
            else if unat n > length (mat_data (cvi_image m)) \<or> n \<noteq> ucast (ucast n :: u32) then Inl Undefined
            else Inr (fields @ take (unat n) (mat_data (cvi_image m))))
         else Inr fields)"

text \<open>The matrix is laid over the stream from the pixels on; a step of 0 asks for rows without gaps.\<close>

definition stream_mat :: "CvLib \<Rightarrow> u32 \<Rightarrow> u32 \<Rightarrow> int \<Rightarrow> bytes \<Rightarrow> u32 \<Rightarrow> failure + Mat" where
  "stream_mat lib h w ty data step =
     make_mat lib (sint h) (sint w) ty data
       (if step = 0 then nat (sint w) * elemSize ty else unat step)"

definition read_image :: "CvLib \<Rightarrow> StreamLib \<Rightarrow> bytes \<Rightarrow> failure + CvImage \<times> bytes" where
  "read_image lib st s =
     bindR (or_overrun (get_header st s)) (\<lambda>(header, s).
     bindR (or_overrun (get_u32 st s)) (\<lambda>(h, s).
     bindR (or_overrun (get_u32 st s)) (\<lambda>(w, s).
     bindR (or_overrun (get_string st s)) (\<lambda>(encoding, s).
     bindR (or_overrun (get_u8 st s)) (\<lambda>(is_bigendian, s).
     bindR (or_overrun (get_u32 st s)) (\<lambda>(step, s).
     bindR (or_overrun (get_u32 st s)) (\<lambda>(n, s).
     bindR (getCvType encoding) (\<lambda>ty.
     bindR (advance n s) (\<lambda>s'.
     bindR (stream_mat lib h w ty s step) (\<lambda>tmp.
       if readable tmp then
         Inr (\<lparr>cvi_header = header, cvi_encoding = encoding, cvi_image = copyTo tmp\<rparr>, s')
       else Inl Undefined))))))))))"

end
