(* ===== verification/Stream_Properties.thy ===== *)
theory Stream_Properties
  imports Cv_Stream Wire_Integers
begin

text \<open>
  Properties of the image serializer: what is written fills the buffer that was asked for and reads
  back as the same image; which matrices are written and which streams are read outside of their memory.
\<close>

section \<open>Documented behaviour of roscpp\<close>

text \<open>Seconds are 32 bits wide, as is the length of a string.\<close>

definition header_fits :: "Header \<Rightarrow> bool" where
  "header_fits h \<longleftrightarrow> length (hdr_frame_id h) < 2 ^ 32 \<and> hdr_stamp h < 2 ^ 32 * 10 ^ 9"

definition streams_documented :: "StreamLib \<Rightarrow> bool" where
  "streams_documented st \<longleftrightarrow>
     (\<forall>h rest. header_fits h \<longrightarrow> get_header st (put_header st h @ rest) = Some (h, rest)) \<and>
     (\<forall>v rest. get_u32 st (put_u32 st v @ rest) = Some (v, rest)) \<and> (\<forall>v. length (put_u32 st v) = 4) \<and>
     (\<forall>v rest. get_u8 st (put_u8 st v @ rest) = Some (v, rest)) \<and> (\<forall>v. length (put_u8 st v) = 1) \<and>
     (\<forall>s rest. length s < 2 ^ 32 \<longrightarrow> get_string st (put_string st s @ rest) = Some (s, rest))"

text \<open>An image that can be sent: the matrix has its rows in its own memory, and its sizes fit.\<close>

definition streamable :: "CvImage \<Rightarrow> bool" where
  "streamable m \<longleftrightarrow> header_fits (cvi_header m) \<and> length (cvi_encoding m) < 2 ^ 32 \<and>
     own_mat (cvi_image m) \<and> mat_rows (cvi_image m) < 2 ^ 31 \<and> mat_cols (cvi_image m) < 2 ^ 31 \<and>
     mat_step (cvi_image m) < 2 ^ 32 \<and> nat (mat_rows (cvi_image m)) * mat_step (cvi_image m) < 2 ^ 32 \<and>
     row_size (cvi_image m) \<le> mat_step (cvi_image m)"

lemma read_fields:
  assumes "streams_documented st" and "header_fits h" and "length e < 2 ^ 32"
  shows "read_image lib st (put_header st h @ put_u32 st rows @ put_u32 st cols @ put_string st e @
      put_u8 st b @ put_u32 st step @ put_u32 st n @ data) =
    bindR (getCvType e) (\<lambda>ty.
    bindR (advance n data) (\<lambda>rest.
    bindR (stream_mat lib rows cols ty data step) (\<lambda>tmp.
      if readable tmp then Inr (\<lparr>cvi_header = h, cvi_encoding = e, cvi_image = copyTo tmp\<rparr>, rest)
      else Inl Undefined)))"
  using assms by (simp add: streams_documented_def read_image_def or_overrun_def)

section \<open>Writing\<close>

lemma data_size_fits:
  assumes "0 \<le> mat_rows m" and "nat (mat_rows m) * mat_step m < 2 ^ 32"
  shows "unat (data_size m) = nat (mat_rows m) * mat_step m"
    and "unat (ucast (data_size m) :: u32) = nat (mat_rows m) * mat_step m"
    and "ucast (ucast (data_size m) :: u32) = data_size m"
proof -
  obtain r where r: "mat_rows m = int r" using assms(1) nonneg_int_cases by blast
  have d: "data_size m = of_nat (nat (mat_rows m) * mat_step m)" by (simp add: data_size_def r mult.commute)
  have "(2 :: nat) ^ 32 < 2 ^ 64" by simp
  then show s: "unat (data_size m) = nat (mat_rows m) * mat_step m"
    unfolding d using assms(2) by (simp add: unat_of_nat del: of_nat_mult)
  show u: "unat (ucast (data_size m) :: u32) = nat (mat_rows m) * mat_step m"
    using assms(2) by (simp add: unsigned_ucast_eq take_bit_nat_eq_self s)
  show "ucast (ucast (data_size m) :: u32) = data_size m"
  proof -
    have "unat (ucast (ucast (data_size m) :: u32) :: u64) = unat (ucast (data_size m) :: u32)"
      by (simp only: unsigned_ucast_eq [where 'b = 64]) (simp add: take_bit_nat_eq_self order_less_trans [OF unsigned_less] unsigned_take_bit_eq)
    then show ?thesis unfolding word_unat_eq_iff s u .
  qed
qed

lemma length_fields:
  assumes "streams_documented st"
  shows "length (write_fields st m) = length (put_header st (cvi_header m)) + length (put_string st (cvi_encoding m)) + 17"
  using assms by (simp add: write_fields_def streams_documented_def)

text \<open>With room for what it writes, the outcome depends only on whether all the rows, gaps included,
  lie in the memory of the matrix.\<close>

lemma write_image_cases:
  assumes "0 \<le> mat_rows (cvi_image m)" and "nat (mat_rows (cvi_image m)) * mat_step (cvi_image m) < 2 ^ 32"
    and "length (write_fields st m) + nat (mat_rows (cvi_image m)) * mat_step (cvi_image m) \<le> capacity"
  shows "write_image st capacity m =
    (if nat (mat_rows (cvi_image m)) * mat_step (cvi_image m) \<le> length (mat_data (cvi_image m))
     then Inr (write_fields st m @ take (nat (mat_rows (cvi_image m)) * mat_step (cvi_image m)) (mat_data (cvi_image m)))
     else Inl Undefined)"
proof -
  let ?k = "nat (mat_rows (cvi_image m)) * mat_step (cvi_image m)"
  note d = data_size_fits [OF assms(1,2)]
  have z: "data_size (cvi_image m) > 0 \<longleftrightarrow> ?k > 0"
    using d(1) by (metis unat_gt_0 word_neq_0_conv)
  show ?thesis
  proof (cases "?k = 0")
    case True
    then have "\<not> data_size (cvi_image m) > 0" using z by (simp only: less_irrefl not_False_eq_True)
    then show ?thesis using assms(3) unfolding write_image_def Let_def True by simp
  next
    case False
    then show ?thesis using assms(3) z unfolding write_image_def Let_def d by (simp add: d(3) not_le)
  qed
qed

lemma write_streamable:
  assumes "streams_documented st" and "streamable m"
    and "length (write_fields st m) + nat (mat_rows (cvi_image m)) * mat_step (cvi_image m) < 2 ^ 32"
  shows "unat (serializedLength st m) =
      length (write_fields st m) + nat (mat_rows (cvi_image m)) * mat_step (cvi_image m)"
    and "write_image st (unat (serializedLength st m)) m =
      (if nat (mat_rows (cvi_image m)) * mat_step (cvi_image m) \<le> length (mat_data (cvi_image m))
       then Inr (write_fields st m @ take (nat (mat_rows (cvi_image m)) * mat_step (cvi_image m)) (mat_data (cvi_image m)))
       else Inl Undefined)"
proof -
  let ?k = "nat (mat_rows (cvi_image m)) * mat_step (cvi_image m)"
  have k: "0 \<le> mat_rows (cvi_image m)" "?k < 2 ^ 32"
    using assms(2) by (simp_all add: streamable_def own_mat_def)
  have "serializedLength st m = of_nat (length (write_fields st m) + ?k)"
    unfolding serializedLength_def length_fields [OF assms(1)]
    using arg_cong [OF data_size_fits(2) [OF k], of "of_nat :: nat \<Rightarrow> u32"] by simp
  then show len: "unat (serializedLength st m) = length (write_fields st m) + ?k"
    using assms(3) by (simp only: unat_of_nat_u32)
  show "write_image st (unat (serializedLength st m)) m =
      (if ?k \<le> length (mat_data (cvi_image m))
       then Inr (write_fields st m @ take ?k (mat_data (cvi_image m))) else Inl Undefined)"
    by (rule write_image_cases [OF k]) (simp add: len)
qed

section \<open>Reading\<close>

lemma stream_mat_view:
  assumes "mat_accepted lib (sint h) (sint w) ty (if step = 0 then nat (sint w) * elemSize ty else unat step)"
  shows "stream_mat lib h w ty data step =
    Inr \<lparr>mat_rows = sint h, mat_cols = sint w, mat_type = ty,
      mat_step = (if step = 0 then nat (sint w) * elemSize ty else unat step), mat_data = data\<rparr>"
  using assms by (simp add: stream_mat_def make_mat_def)

lemma copyTo_row:
  assumes "readable m" and "int i < mat_rows m"
  shows "mat_row (copyTo m) i = mat_row m i"
proof -
  have "slice (i * row_size m) (row_size m) (concat (map (mat_row m) [0..<nat (mat_rows m)])) = mat_row m i"
    using assms(2) length_mat_row [OF assms(1)] by (intro slice_concat) auto
  then show ?thesis by (simp add: mat_row_def [of "copyTo m"]) (simp add: copyTo_def row_size_def)
qed

text \<open>The rows of a matrix over the bytes that were written, with anything behind them.\<close>

lemma written_rows:
  fixes rest :: bytes
  assumes "own_mat m" and "row_size m \<le> mat_step m" and "nat (mat_rows m) * mat_step m \<le> length (mat_data m)"
  defines "v \<equiv> m\<lparr>mat_data := take (nat (mat_rows m) * mat_step m) (mat_data m) @ rest\<rparr>"
  shows "readable v" and "int i < mat_rows m \<Longrightarrow> mat_row v i = mat_row m i"
proof -
  let ?k = "nat (mat_rows m) * mat_step m"
  have r: "row_size v = row_size m" by (simp add: v_def row_size_def)
  have in_k: "i * mat_step m + row_size m \<le> ?k" if "int i < mat_rows m" for i
  proof -
    have "Suc i * mat_step m \<le> ?k" using that by (intro mult_le_mono1) simp
    then show ?thesis using assms(2) by simp
  qed
  show "readable v"
  proof (cases "mat_rows m \<le> 0")
    case True
    then show ?thesis by (simp add: readable_def v_def)
  next
    case False
    then have "int (nat (mat_rows m) - 1) < mat_rows m" by simp
    from in_k [OF this] show ?thesis using assms(3) unfolding readable_def r by (simp add: v_def)
  qed
  assume "int i < mat_rows m"
  from in_k [OF this] show "mat_row v i = mat_row m i"
    using assms(3) unfolding mat_row_def r by (simp add: v_def slice_def take_drop min_def)
qed

text \<open>An image that is sent fills the buffer that was asked for exactly, and the receiver reads the same
  image and leaves what follows in the stream.\<close>

theorem stream_roundtrip:
  assumes "streams_documented st" and "streamable m"
    and "length (write_fields st m) + nat (mat_rows (cvi_image m)) * mat_step (cvi_image m) < 2 ^ 32"
    and "nat (mat_rows (cvi_image m)) * mat_step (cvi_image m) \<le> length (mat_data (cvi_image m))"
    and "getCvType (cvi_encoding m) = Inr (mat_type (cvi_image m))"
    and "mat_accepted lib (mat_rows (cvi_image m)) (mat_cols (cvi_image m)) (mat_type (cvi_image m))
      (mat_step (cvi_image m))"
  shows "\<exists>bytes c. write_image st (unat (serializedLength st m)) m = Inr bytes \<and>
    length bytes = unat (serializedLength st m) \<and> read_image lib st (bytes @ rest) = Inr (c, rest) \<and>
    cvi_header c = cvi_header m \<and> cvi_encoding c = cvi_encoding m \<and>
    same_size (cvi_image m) (cvi_image c) \<and> mat_type (cvi_image c) = mat_type (cvi_image m) \<and>
    (\<forall>i. int i < mat_rows (cvi_image m) \<longrightarrow> mat_row (cvi_image c) i = mat_row (cvi_image m) i)"
proof -
  let ?m = "cvi_image m" and ?step = "of_nat (mat_step (cvi_image m)) :: u32"
  let ?k = "nat (mat_rows ?m) * mat_step ?m"
  let ?data = "take ?k (mat_data ?m) @ rest" and ?v = "?m\<lparr>mat_data := take ?k (mat_data ?m) @ rest\<rparr>"
  have s: "own_mat ?m" "header_fits (cvi_header m)" "length (cvi_encoding m) < 2 ^ 32" "mat_step ?m < 2 ^ 32"
    "row_size ?m \<le> mat_step ?m" "0 \<le> mat_rows ?m" "mat_rows ?m < 2 ^ 31" "0 \<le> mat_cols ?m" "mat_cols ?m < 2 ^ 31"
    "?k < 2 ^ 32"
    using assms(2) by (simp_all add: streamable_def own_mat_def)
  have w: "sint (word_of_int (mat_rows ?m) :: u32) = mat_rows ?m" "sint (word_of_int (mat_cols ?m) :: u32) = mat_cols ?m"
    "unat ?step = mat_step ?m"
    using s by (simp_all only: sint_of_int_u32 unat_of_nat_u32)
  have "(if ?step = 0 then nat (mat_cols ?m) * elemSize (mat_type ?m) else unat ?step) = mat_step ?m"
    using w(3) s(5) by (auto simp: row_size_def)
  then have mat: "stream_mat lib (word_of_int (mat_rows ?m)) (word_of_int (mat_cols ?m)) (mat_type ?m) ?data ?step = Inr ?v"
    using stream_mat_view [of lib "word_of_int (mat_rows ?m)" "word_of_int (mat_cols ?m)" "mat_type ?m" ?step ?data]
      assms(6) unfolding w(1,2) by simp
  note written = written_rows [where rest = rest, OF s(1,5) assms(4)]
  have "read_image lib st ((write_fields st m @ take ?k (mat_data ?m)) @ rest) =
      Inr (\<lparr>cvi_header = cvi_header m, cvi_encoding = cvi_encoding m, cvi_image = copyTo ?v\<rparr>, rest)"
    using data_size_fits(2) [OF s(6,10)] assms(4)
    by (simp add: write_fields_def read_fields [OF assms(1) s(2,3)] assms(5) advance_def mat written(1))
  moreover have "same_size ?m (copyTo ?v)" "mat_type (copyTo ?v) = mat_type ?m"
    by (simp_all add: copyTo_def same_size_def)
  moreover have "mat_row (copyTo ?v) i = mat_row ?m i" if "int i < mat_rows ?m" for i
    using copyTo_row [OF written(1), of i] written(2) that by simp
  ultimately show ?thesis
    using write_streamable [OF assms(1-3)] assms(4) by simp
qed

text \<open>A part of a larger matrix may end with its last row, before the next gap.  Writing it as an image
  message copies its rows, but the serializer always copies whole steps, and so reads behind the memory
  of every such matrix.\<close>

theorem submatrix_write:
  assumes "streams_documented st" and "streamable m" and "message_sized (cvi_image m)"
    and "length (write_fields st m) + nat (mat_rows (cvi_image m)) * mat_step (cvi_image m) < 2 ^ 32"
  shows "(write_image st (unat (serializedLength st m)) m = Inl Undefined \<longleftrightarrow>
      length (mat_data (cvi_image m)) < nat (mat_rows (cvi_image m)) * mat_step (cvi_image m)) \<and>
    (\<exists>s. toImageMsg lib m = Inr s \<and>
       length (im_data s) = nat (mat_rows (cvi_image m)) * row_size (cvi_image m))"
proof -
  have "\<exists>s. toImageMsg lib m = Inr s \<and> length (im_data s) = nat (mat_rows (cvi_image m)) * row_size (cvi_image m)"
    using toImageMsg_rows [OF assms(3), of lib] by auto
  then show ?thesis using write_streamable [OF assms(1,2,4)] by (simp add: not_le)
qed

text \<open>The stream of a \<^verbatim>\<open>sensor_msgs::Image\<close> message.\<close>

definition image_stream :: "StreamLib \<Rightarrow> RosImage \<Rightarrow> bytes" where
  "image_stream st s =
     put_header st (im_header s) @ put_u32 st (im_height s) @ put_u32 st (im_width s) @
     put_string st (im_encoding s) @ put_u8 st (im_is_bigendian s) @ put_u32 st (im_step s) @
     put_u32 st (of_nat (length (im_data s))) @ im_data s"

text \<open>C26: Reading an image from a stream checks nothing but that the stream holds the stated number of
  bytes.  When that is not height times step, the conversion of the message refuses it, but the
  reader lays its matrix over the pixels and whatever follows them in the buffer, and copies from
  behind the buffer when the rows reach further.\<close>

theorem stream_read_unchecked:
  assumes "streams_documented st" and "header_fits (im_header s)" and "length (im_encoding s) < 2 ^ 32"
    and "length (im_data s) < 2 ^ 32" and "getCvType (im_encoding s) = Inr ty" and "0 < im_step s"
    and "mat_accepted lib (sint (im_height s)) (sint (im_width s)) ty (unat (im_step s))"
    and "unat (im_height s * im_step s) \<noteq> length (im_data s)"
  shows "(\<exists>e. matFromImage lib s = Inl (Throws e)) \<and>
    read_image lib st (image_stream st s @ rest) =
      (let m = view (s\<lparr>im_data := im_data s @ rest\<rparr>) ty
       in if readable m
          then Inr (\<lparr>cvi_header = im_header s, cvi_encoding = im_encoding s, cvi_image = copyTo m\<rparr>, rest)
          else Inl Undefined)"
proof -
  have "\<exists>e. thrown_by (bitDepth (enc lib) (im_encoding s)) = Inl (Throws e)" if "bitDepth (enc lib) (im_encoding s) = Inl x" for x
    using that by simp
  then have "\<exists>e. matFromImage lib s = Inl (Throws e)"
    using assms(5,8)
    by (cases "bitDepth (enc lib) (im_encoding s)"; cases "numChannels (enc lib) (im_encoding s)")
      (simp_all add: matFromImage_def Let_def)
  moreover have "unat (of_nat (length (im_data s)) :: u32) = length (im_data s)"
    using assms(4) by (rule unat_of_nat_u32)
  moreover have "stream_mat lib (im_height s) (im_width s) ty (im_data s @ rest) (im_step s) =
      Inr (view (s\<lparr>im_data := im_data s @ rest\<rparr>) ty)"
    using assms(6,7) by (subst stream_mat_view) (auto simp: view_def)
  ultimately show ?thesis
    by (simp add: image_stream_def read_fields [OF assms(1-3)] assms(5) advance_def Let_def)
qed

section \<open>A concrete stream\<close>

definition plain_string :: "string \<Rightarrow> bytes" where
  "plain_string s = AppendUnsigned (of_nat (length s) :: u32) [] @ string_bytes s"

definition read_plain_string :: "bytes \<Rightarrow> (string \<times> bytes) option" where
  "read_plain_string bs =
     (case ReadUnsigned bs :: (u32 \<times> bytes) option of
        None \<Rightarrow> None
      | Some (n, bs) \<Rightarrow>
          if length bs < unat n then None else Some (bytes_string (take (unat n) bs), drop (unat n) bs))"

definition plain_stream :: StreamLib where
  "plain_stream =
     \<lparr>put_header = (\<lambda>h. AppendUnsigned (hdr_seq h) [] @ AppendUnsigned (of_nat (hdr_stamp h) :: u64) [] @
        plain_string (hdr_frame_id h)),
      get_header = (\<lambda>bs.
        case ReadUnsigned bs of None \<Rightarrow> None | Some (n, bs) \<Rightarrow>
        case ReadUnsigned bs :: (u64 \<times> bytes) option of None \<Rightarrow> None | Some (t, bs) \<Rightarrow>
        case read_plain_string bs of None \<Rightarrow> None | Some (f, bs) \<Rightarrow>
          Some (\<lparr>hdr_seq = n, hdr_stamp = unat t, hdr_frame_id = f\<rparr>, bs)),
      put_u32 = (\<lambda>v. AppendUnsigned v []), get_u32 = ReadUnsigned,
      put_u8 = (\<lambda>v. [v]), get_u8 = (\<lambda>bs. case bs of [] \<Rightarrow> None | b # bs \<Rightarrow> Some (b, bs)),
      put_string = plain_string, get_string = read_plain_string\<rparr>"

lemma read_plain_string:
  assumes "length s < 2 ^ 32" shows "read_plain_string (plain_string s @ rest) = Some (s, rest)"
proof -
  have "unat (of_nat (length s) :: u32) = length s" using assms by (rule unat_of_nat_u32)
  then show ?thesis
    by (simp add: read_plain_string_def plain_string_def ReadUnsigned_AppendUnsigned)
qed

lemma plain_stream_documented: "streams_documented plain_stream"
proof -
  have "get_header plain_stream (put_header plain_stream h @ rest) = Some (h, rest)" if "header_fits h" for h rest
  proof -
    have "hdr_stamp h < 2 ^ 32 * 10 ^ 9" "length (hdr_frame_id h) < 2 ^ 32" using that by (simp_all add: header_fits_def)
    then have "unat (of_nat (hdr_stamp h) :: u64) = hdr_stamp h" by (simp add: unat_of_nat)
    then show ?thesis using \<open>length (hdr_frame_id h) < 2 ^ 32\<close>
      by (simp add: plain_stream_def ReadUnsigned_AppendUnsigned read_plain_string)
  qed
  then show ?thesis
    by (simp add: streams_documented_def)
      (simp add: plain_stream_def ReadUnsigned_AppendUnsigned length_AppendUnsigned read_plain_string)
qed

definition gray_image :: "int \<Rightarrow> bytes \<Rightarrow> CvImage" where
  "gray_image cols pixels = \<lparr>cvi_header = default_header, cvi_encoding = enc_MONO8,
     cvi_image = \<lparr>mat_rows = 2, mat_cols = cols, mat_type = CV_MAKETYPE 0 1, mat_step = 2, mat_data = pixels\<rparr>\<rparr>"

lemma gray_image_simps [simp]:
  "cvi_header (gray_image c px) = default_header" "cvi_encoding (gray_image c px) = enc_MONO8"
  "mat_rows (cvi_image (gray_image c px)) = 2" "mat_cols (cvi_image (gray_image c px)) = c"
  "mat_type (cvi_image (gray_image c px)) = CV_MAKETYPE 0 1" "mat_step (cvi_image (gray_image c px)) = 2"
  "mat_data (cvi_image (gray_image c px)) = px" "row_size (cvi_image (gray_image c px)) = nat c"
  by (simp_all add: gray_image_def row_size_def elemSize_def depth_bytes_def)

lemma default_fits [simp]: "header_fits default_header"
  by (simp add: header_fits_def default_header_def)

lemma gray_streamable:
  "c \<in> {1, 2} \<Longrightarrow> length px = nat c + 2 \<Longrightarrow> streamable (gray_image c px)"
  by (auto simp: streamable_def own_mat_def readable_def)

lemma gray_fields: "length (write_fields plain_stream (gray_image c px)) = 42"
  by (simp add: length_fields [OF plain_stream_documented])
    (simp add: plain_stream_def plain_string_def default_header_def length_AppendUnsigned string_bytes_def)

lemma stream_roundtrip_witness:
  "\<exists>bytes c. write_image plain_stream (unat (serializedLength plain_stream (gray_image 2 [1, 2, 3, 4]))) (gray_image 2 [1, 2, 3, 4]) =
      Inr bytes \<and> read_image plain_cv plain_stream (bytes @ [9]) = Inr (c, [9]) \<and> cvi_encoding c = enc_MONO8 \<and>
    mat_row (cvi_image c) 1 = [3, 4]"
proof -
  let ?m = "gray_image 2 [1, 2, 3, 4]"
  have ty: "getCvType (cvi_encoding ?m) = Inr (mat_type (cvi_image ?m))" by simp code_simp
  have "mat_row (cvi_image ?m) 1 = [3, 4]" by (simp add: mat_row_def slice_def)
  then show ?thesis
    using stream_roundtrip [OF plain_stream_documented gray_streamable, of 2 "[1, 2, 3, 4]" plain_cv "[9]"] ty gray_fields
    by (fastforce simp: plain_cv_def)
qed

lemma submatrix_write_witness:
  "write_image plain_stream (unat (serializedLength plain_stream (gray_image 1 [1, 2, 3]))) (gray_image 1 [1, 2, 3]) =
      Inl Undefined \<and>
    (\<exists>s. toImageMsg plain_cv (gray_image 1 [1, 2, 3]) = Inr s \<and> length (im_data s) = 2)"
proof -
  have s: "streamable (gray_image 1 [1, 2, 3])" by (rule gray_streamable) simp_all
  then have "message_sized (cvi_image (gray_image 1 [1, 2, 3]))" by (simp add: message_sized_def streamable_def)
  from submatrix_write [OF plain_stream_documented s this, of plain_cv] show ?thesis by (simp add: gray_fields)
qed

definition short_image :: RosImage where
  "short_image = \<lparr>im_header = default_header, im_height = 3, im_width = 2, im_encoding = enc_MONO8,
     im_is_bigendian = 0, im_step = 2, im_data = [1, 2, 3, 4]\<rparr>"

lemma stream_read_unchecked_witness:
  "(\<exists>e. matFromImage plain_cv short_image = Inl (Throws e)) \<and>
    read_image plain_cv plain_stream (image_stream plain_stream short_image @ []) = Inl Undefined"
proof -
  have ty: "getCvType (im_encoding short_image) = Inr (CV_MAKETYPE 0 1)" by code_simp
  have "\<not> readable (view (short_image\<lparr>im_data := im_data short_image @ []\<rparr>) (CV_MAKETYPE 0 1))"
    by (simp add: short_image_def view_def readable_def row_size_def elemSize_def depth_bytes_def)
  then show ?thesis
    using stream_read_unchecked [OF plain_stream_documented _ _ _ ty, of plain_cv "[]"]
    by (simp add: short_image_def plain_cv_def)
qed

end
