(* ===== verification/Numpy_Arrays.thy ===== *)
theory Numpy_Arrays
  imports Cv_Display Cv_Safety
begin

text \<open>
  The Python bindings of \<^verbatim>\<open>cv_bridge\<close> (\<^verbatim>\<open>module_opencv4.cpp\<close>, \<^verbatim>\<open>module.cpp\<close>): NumPy arrays as OpenCV
  matrices and back, and the two conversions that Python calls.  Reference counts and the lock of the
  interpreter are left out; what NumPy and OpenCV do with arrays is the parameter \<open>PyLib\<close>.
\<close>

section \<open>Arrays\<close>

text \<open>An array is laid over memory by the distance in bytes between neighbours along each axis, which may
  be negative; \<open>nd_offset\<close> is where its data pointer is.\<close>

record NdArray =
  nd_type :: int
  nd_dims :: "int list"
  nd_strides :: "int list"
  nd_offset :: nat
  nd_memory :: bytes

datatype PyObject = PyNone | PyInt int | PyFloat real | PyTuple "PyObject list" | PyArray NdArray | PyOther

text \<open>The type numbers of NumPy; on a machine with 64-bit \<^verbatim>\<open>long\<close> the last two name the integers of 64 bits.\<close>

abbreviation (input) NPY_BYTE :: int where "NPY_BYTE \<equiv> 1"
abbreviation (input) NPY_UBYTE :: int where "NPY_UBYTE \<equiv> 2"
abbreviation (input) NPY_SHORT :: int where "NPY_SHORT \<equiv> 3"
abbreviation (input) NPY_USHORT :: int where "NPY_USHORT \<equiv> 4"
abbreviation (input) NPY_INT :: int where "NPY_INT \<equiv> 5"
abbreviation (input) NPY_FLOAT :: int where "NPY_FLOAT \<equiv> 11"
abbreviation (input) NPY_DOUBLE :: int where "NPY_DOUBLE \<equiv> 12"
abbreviation (input) NPY_ULONGLONG :: int where "NPY_ULONGLONG \<equiv> 10"
abbreviation (input) NPY_LONG :: int where "NPY_LONG \<equiv> 7"
abbreviation (input) NPY_ULONG :: int where "NPY_ULONG \<equiv> 8"

text \<open>A matrix of any number of dimensions; \<open>nm_owner\<close> is the array that \<^verbatim>\<open>g_numpyAllocator\<close> keeps as its
  user data, whose memory the matrix shares.\<close>

record NdMat =
  nm_sizes :: "int list"
  nm_type :: int
  nm_steps :: "u64 list"
  nm_offset :: nat
  nm_memory :: bytes
  nm_owner :: "NdArray option"

record PyLib =
  PyArray_Cast :: "NdArray \<Rightarrow> int \<Rightarrow> NdArray"
  PyArray_GETCONTIGUOUS :: "NdArray \<Rightarrow> NdArray"
  PyArray_SimpleNew :: "int list \<Rightarrow> int \<Rightarrow> NdArray"
  nd_accepted :: "int list \<Rightarrow> int \<Rightarrow> u64 list \<Rightarrow> bool"
  double_bytes :: "real \<Rightarrow> bytes"

record ArgInfo =
  ai_name :: string
  ai_outputarg :: bool

text \<open>The text of a \<^verbatim>\<open>TypeError\<close> is cut to its buffer.\<close>

definition failmsg :: "string \<Rightarrow> string" where
  "failmsg text = take 999 text"

section \<open>From Python to a matrix\<close>

definition empty_mat :: NdMat where
  "empty_mat = \<lparr>nm_sizes = [], nm_type = 0, nm_steps = [], nm_offset = 0, nm_memory = [], nm_owner = None\<rparr>"

text \<open>An integer that does not fit a \<^verbatim>\<open>long\<close> reads as -1.\<close>

definition PyInt_AsLong :: "int \<Rightarrow> int" where
  "PyInt_AsLong i = (if - (2 ^ 63) \<le> i \<and> i < 2 ^ 63 then i else -1)"

definition column_of_doubles :: "PyLib \<Rightarrow> real list \<Rightarrow> NdMat" where
  "column_of_doubles py xs =
     \<lparr>nm_sizes = [int (length xs), 1], nm_type = CV_MAKETYPE 6 1, nm_steps = [8, 8], nm_offset = 0,
      nm_memory = concat (map (double_bytes py) xs), nm_owner = None\<rparr>"

fun number_of :: "PyObject \<Rightarrow> real option" where
  "number_of (PyInt i) = Some (of_int (PyInt_AsLong i))"
| "number_of (PyFloat x) = Some x"
| "number_of _ = None"

definition depth_of_typenum :: "int \<Rightarrow> int" where
  "depth_of_typenum typenum =
     (if typenum = NPY_UBYTE then 0 else if typenum = NPY_BYTE then 1
      else if typenum = NPY_USHORT then 2 else if typenum = NPY_SHORT then 3
      else if typenum = NPY_INT then 4 else if typenum = NPY_FLOAT then 5
      else if typenum = NPY_DOUBLE then 6 else -1)"

definition ismultichannel :: "NdArray \<Rightarrow> bool" where
  "ismultichannel a \<longleftrightarrow> length (nd_dims a) = 3 \<and> nd_dims a ! 2 \<le> 512"

text \<open>Whether the loop over the strides, or the check of a channel axis after it, asks for a copy.\<close>

definition needs_copy :: "NdArray \<Rightarrow> int \<Rightarrow> bool" where
  "needs_copy a elemsize \<longleftrightarrow>
     list_ex (\<lambda>i. (Suc i = length (nd_dims a) \<and> nd_strides a ! i \<noteq> elemsize) \<or>
       (Suc i < length (nd_dims a) \<and> nd_strides a ! i < nd_strides a ! Suc i)) (rev [0..<length (nd_dims a)]) \<or>
     (ismultichannel a \<and> nd_strides a ! 1 \<noteq> elemsize * nd_dims a ! 2)"

text \<open>The constructor of \<^verbatim>\<open>cv::Mat\<close> over the data of the array.\<close>

definition mat_over :: "PyLib \<Rightarrow> NdArray \<Rightarrow> int list \<Rightarrow> int \<Rightarrow> u64 list \<Rightarrow> failure + NdMat" where
  "mat_over py a sizes type steps =
     (if nd_accepted py sizes (type mod 4096) steps
      then Inr \<lparr>nm_sizes = sizes, nm_type = type mod 4096, nm_steps = steps, nm_offset = nd_offset a,
             nm_memory = nd_memory a, nm_owner = Some a\<rparr>
      else Inl (Throws ''cv::Exception''))"

text \<open>\<open>Inl\<close> is the message of a \<^verbatim>\<open>TypeError\<close>, with which the C++ function returns false.\<close>

definition array_to_mat :: "PyLib \<Rightarrow> NdArray \<Rightarrow> ArgInfo \<Rightarrow> failure + (string + NdMat)" where
  "array_to_mat py oarr info =
     (let typenum = nd_type oarr; depth = depth_of_typenum typenum;
          needcast = depth < 0 \<and> (typenum = NPY_LONG \<or> typenum = NPY_ULONG \<or> depth = NPY_LONG)
      in if depth < 0 \<and> \<not> needcast then
           Inr (Inl (failmsg (ai_name info @ '' data type = '' @ dec (nat typenum) @ '' is not supported'')))
         else
           let type = (if needcast then 4 else depth); ndims = length (nd_dims oarr);
               elemsize = depth_bytes type;
               needcopy = needcast \<or> needs_copy oarr elemsize
           in if 32 \<le> ndims then
                Inr (Inl (failmsg (ai_name info @ '' dimensionality (='' @ dec ndims @ '') is too high'')))
              else if needcopy \<and> ai_outputarg info then
                Inr (Inl (failmsg (''Layout of the output array '' @ ai_name info @
                  '' is incompatible with cv::Mat (step[ndims-1] != elemsize or step[1] != elemsize*nchannels)'')))
              else
                let a = (if needcast then PyArray_Cast py oarr NPY_INT
                         else if needcopy then PyArray_GETCONTIGUOUS py oarr else oarr);
                    sizes = map (\<lambda>n. sint (word_of_int n :: u32)) (nd_dims oarr);
                    steps = map word_of_int (nd_strides a);
                    sizes' = (if ndims = 0 then [1] else sizes);
                    steps' = (if ndims = 0 then [word_of_int elemsize] else steps)
                in bindR (if ismultichannel oarr
                          then mat_over py a (take 2 sizes') (type OR CV_MAKETYPE 0 (sizes' ! 2)) (take 2 steps')
                          else mat_over py a sizes' type steps') (\<lambda>m. Inr (Inr m)))"

text \<open>The matrix handed in is empty wherever the function is called.\<close>

fun pyopencv_to :: "PyLib \<Rightarrow> PyObject \<Rightarrow> ArgInfo \<Rightarrow> failure + (string + NdMat)" where
  "pyopencv_to py PyNone info = Inr (Inr empty_mat)"
| "pyopencv_to py (PyInt i) info = Inr (Inr (column_of_doubles py [of_int (PyInt_AsLong i), 0, 0, 0]))"
| "pyopencv_to py (PyFloat x) info = Inr (Inr (column_of_doubles py [x, 0, 0, 0]))"
| "pyopencv_to py (PyTuple xs) info =
     (if list_all (\<lambda>x. number_of x \<noteq> None) xs
      then Inr (Inr (column_of_doubles py (map (\<lambda>x. the (number_of x)) xs)))
      else Inr (Inl (failmsg (ai_name info @ '' is not a numerical tuple''))))"
| "pyopencv_to py (PyArray a) info = array_to_mat py a info"
| "pyopencv_to py PyOther info = Inr (Inl (failmsg (ai_name info @ '' is not a numpy array, neither a scalar'')))"

text \<open>The error stays pending in the interpreter, and the matrix stays empty.\<close>

definition convert_to_CvMat2 :: "PyLib \<Rightarrow> PyObject \<Rightarrow> failure + string option \<times> NdMat" where
  "convert_to_CvMat2 py obj =
     bindR (pyopencv_to py obj \<lparr>ai_name = ''unknown'', ai_outputarg = False\<rparr>) (\<lambda>r.
       Inr (case r of Inl e \<Rightarrow> (Some e, empty_mat) | Inr m \<Rightarrow> (None, m)))"

section \<open>From a matrix to Python\<close>

text \<open>The type of the array that \<^verbatim>\<open>NumpyAllocator::allocate\<close> creates.\<close>

definition typenum_of_depth :: "int \<Rightarrow> int" where
  "typenum_of_depth depth =
     (if depth = 0 then NPY_UBYTE else if depth = 1 then NPY_BYTE else if depth = 2 then NPY_USHORT
      else if depth = 3 then NPY_SHORT else if depth = 4 then NPY_INT else if depth = 5 then NPY_FLOAT
      else if depth = 6 then NPY_DOUBLE else NPY_ULONGLONG)"

definition allocate :: "PyLib \<Rightarrow> int \<Rightarrow> int \<Rightarrow> int \<Rightarrow> NdArray" where
  "allocate py rows cols type =
     PyArray_SimpleNew py ([rows, cols] @ (if 1 < CV_MAT_CN type then [CV_MAT_CN type] else []))
       (typenum_of_depth (CV_MAT_DEPTH type))"

text \<open>\<^verbatim>\<open>copyTo\<close> into a new array, row by row at the step of its first axis.\<close>

definition write_row :: "Mat \<Rightarrow> NdArray \<Rightarrow> nat \<Rightarrow> bytes \<Rightarrow> bytes" where
  "write_row m a i memory =
     (let p = nd_offset a + i * nat (nd_strides a ! 0)
      in take p memory @ mat_row m i @ drop (p + row_size m) memory)"

definition pyopencv_from :: "PyLib \<Rightarrow> Mat \<Rightarrow> PyObject" where
  "pyopencv_from py m =
     (if mat_rows m \<le> 0 \<or> mat_cols m \<le> 0 then PyNone
      else let a = allocate py (mat_rows m) (mat_cols m) (mat_type m)
           in PyArray (a\<lparr>nd_memory := fold (write_row m a) [0..<nat (mat_rows m)] (nd_memory a)\<rparr>))"

section \<open>The functions of the module\<close>

text \<open>\<open>None\<close> for more than two dimensions, which \<open>Mat\<close> does not cover.\<close>

definition as_mat :: "NdMat \<Rightarrow> Mat option" where
  "as_mat m =
     (case nm_sizes m of
        [] \<Rightarrow> Some \<lparr>mat_rows = 0, mat_cols = 0, mat_type = nm_type m, mat_step = 0, mat_data = []\<rparr>
      | [n] \<Rightarrow> Some \<lparr>mat_rows = n, mat_cols = 1, mat_type = nm_type m, mat_step = elemSize (nm_type m),
                  mat_data = drop (nm_offset m) (nm_memory m)\<rparr>
      | [rows, cols] \<Rightarrow> Some \<lparr>mat_rows = rows, mat_cols = cols, mat_type = nm_type m,
                  mat_step = unat (nm_steps m ! 0), mat_data = drop (nm_offset m) (nm_memory m)\<rparr>
      | _ \<Rightarrow> None)"

text \<open>What Python sees: the pending error, and the object that is returned.\<close>

definition cvtColor2Wrap ::
  "CvLib \<Rightarrow> PyLib \<Rightarrow> PyObject \<Rightarrow> string \<Rightarrow> string \<Rightarrow> (failure + string option \<times> PyObject) option" where
  "cvtColor2Wrap lib py obj_in encoding_in encoding_out =
     (case convert_to_CvMat2 py obj_in of
        Inl f \<Rightarrow> Some (Inl f)
      | Inr (pending, m) \<Rightarrow>
          map_option (\<lambda>mat_in.
            bindR (cvtColor lib \<lparr>cvi_header = default_header, cvi_encoding = encoding_in, cvi_image = mat_in\<rparr>
                     encoding_out) (\<lambda>c.
              Inr (pending, pyopencv_from py (cvi_image c)))) (as_mat m))"

definition display_options :: "bool \<Rightarrow> real \<Rightarrow> real \<Rightarrow> CvtColorForDisplayOptions" where
  "display_options do_scaling lo hi = default_display_options
     \<lparr>do_dynamic_scaling := do_scaling, min_image_value := lo, max_image_value := hi\<rparr>"

text \<open>Whether the display conversion returns its source itself, whose array then is what Python gets.\<close>

definition returns_source :: "CvLib \<Rightarrow> string \<Rightarrow> string \<Rightarrow> CvtColorForDisplayOptions \<Rightarrow> bool" where
  "returns_source lib encoding_in encoding_out options \<longleftrightarrow>
     (case display_encoding lib encoding_in encoding_out of
        Inl _ \<Rightarrow> False
      | Inr e \<Rightarrow> \<not> (e = enc_BGR8 \<and> encoding_in = ''32SC1'') \<and> \<not> do_dynamic_scaling options \<and>
          min_image_value options = max_image_value options \<and> guessed_encoding encoding_in = e)"

definition cvtColorForDisplayWrap ::
  "CvLib \<Rightarrow> DisplayLib \<Rightarrow> PyLib \<Rightarrow> PyObject \<Rightarrow> string \<Rightarrow> string \<Rightarrow> bool \<Rightarrow> real \<Rightarrow> real \<Rightarrow>
     (failure + string option \<times> PyObject) option" where
  "cvtColorForDisplayWrap lib dl py obj_in encoding_in encoding_out do_scaling lo hi =
     (case convert_to_CvMat2 py obj_in of
        Inl f \<Rightarrow> Some (Inl f)
      | Inr (pending, m) \<Rightarrow>
          map_option (\<lambda>mat_in.
            bindR (cvtColorForDisplay lib dl
                     (Some \<lparr>cvi_header = default_header, cvi_encoding = encoding_in, cvi_image = mat_in\<rparr>)
                     encoding_out (display_options do_scaling lo hi)) (\<lambda>c.
              Inr (pending,
                case nm_owner m of
                  Some a \<Rightarrow> if returns_source lib encoding_in encoding_out (display_options do_scaling lo hi)
                            then PyArray a else pyopencv_from py (cvi_image c)
                | None \<Rightarrow> pyopencv_from py (cvi_image c)))) (as_mat m))"

definition CV_MAT_CNWrap :: "int \<Rightarrow> int" where
  "CV_MAT_CNWrap i = CV_MAT_CN i"

definition CV_MAT_DEPTHWrap :: "int \<Rightarrow> int" where
  "CV_MAT_DEPTHWrap i = CV_MAT_DEPTH i"

end
