(* ===== verification/Numpy_Properties.thy ===== *)
theory Numpy_Properties
  imports Numpy_Arrays
begin

text \<open>
  Arrays as matrices: every element of the matrix is the element of the array with the same indices,
  and lies in the memory of the array.
\<close>

section \<open>Elements\<close>

definition in_shape :: "nat list \<Rightarrow> int list \<Rightarrow> bool" where
  "in_shape idx dims \<longleftrightarrow> list_all2 (\<lambda>i n. int i < n) idx dims"

definition itemsize :: "NdArray \<Rightarrow> nat" where
  "itemsize a = (if depth_of_typenum (nd_type a) < 0 then 8 else nat (depth_bytes (depth_of_typenum (nd_type a))))"

definition nd_address :: "NdArray \<Rightarrow> nat list \<Rightarrow> int" where
  "nd_address a idx = int (nd_offset a) + (\<Sum>k<length idx. int (idx ! k) * nd_strides a ! k)"

definition nd_element :: "NdArray \<Rightarrow> nat list \<Rightarrow> bytes" where
  "nd_element a idx = slice (nat (nd_address a idx)) (itemsize a) (nd_memory a)"

text \<open>What NumPy keeps of every array.\<close>

definition nd_wf :: "NdArray \<Rightarrow> bool" where
  "nd_wf a \<longleftrightarrow> length (nd_strides a) = length (nd_dims a) \<and> (\<forall>n \<in> set (nd_dims a). 0 \<le> n) \<and>
     (\<forall>s \<in> set (nd_strides a). s < 2 ^ 63) \<and>
     (\<forall>idx. in_shape idx (nd_dims a) \<longrightarrow>
        0 \<le> nd_address a idx \<and> nd_address a idx + int (itemsize a) \<le> int (length (nd_memory a)))"

definition c_contiguous :: "NdArray \<Rightarrow> bool" where
  "c_contiguous a \<longleftrightarrow> (\<forall>k < length (nd_dims a).
     nd_dims a ! k = 1 \<or> nd_strides a ! k = int (itemsize a) * prod_list (drop (Suc k) (nd_dims a)))"

text \<open>Both functions give an array of the same shape without gaps, and a copy has the same elements.\<close>

definition numpy_documented :: "PyLib \<Rightarrow> bool" where
  "numpy_documented py \<longleftrightarrow>
     (\<forall>a. nd_wf a \<longrightarrow>
        (let c = PyArray_Cast py a NPY_INT
         in nd_wf c \<and> c_contiguous c \<and> nd_dims c = nd_dims a \<and> nd_type c = NPY_INT) \<and>
        (let c = PyArray_GETCONTIGUOUS py a
         in nd_wf c \<and> c_contiguous c \<and> nd_dims c = nd_dims a \<and> nd_type c = nd_type a \<and>
            (\<forall>idx. in_shape idx (nd_dims a) \<longrightarrow> nd_element c idx = nd_element a idx)))"

definition nm_address :: "NdMat \<Rightarrow> nat list \<times> nat \<Rightarrow> int" where
  "nm_address m p = int (nm_offset m) + (\<Sum>k<length (fst p). int (fst p ! k) *
       (if Suc k = length (nm_sizes m) then int (elemSize (nm_type m)) else uint (nm_steps m ! k))) +
     int (snd p) * depth_bytes (CV_MAT_DEPTH (nm_type m))"

definition nm_element :: "NdMat \<Rightarrow> nat list \<times> nat \<Rightarrow> bytes" where
  "nm_element m p = slice (nat (nm_address m p)) (nat (depth_bytes (CV_MAT_DEPTH (nm_type m)))) (nm_memory m)"

text \<open>Where an element of the array is found in the matrix, whose last axis may have become channels.\<close>

definition mat_index :: "NdArray \<Rightarrow> nat list \<Rightarrow> nat list \<times> nat" where
  "mat_index a idx =
     (if nd_dims a = [] then ([0], 0) else if ismultichannel a then (take 2 idx, idx ! 2) else (idx, 0))"

section \<open>Strides\<close>

text \<open>The axes that matter have the strides that OpenCV computes with.\<close>

definition fits :: "NdArray \<Rightarrow> int \<Rightarrow> bool" where
  "fits a e \<longleftrightarrow> (\<forall>k < length (nd_dims a). nd_dims a ! k = 1 \<or>
     (0 \<le> nd_strides a ! k \<and> (Suc k = length (nd_dims a) \<longrightarrow> nd_strides a ! k = e) \<and>
      (ismultichannel a \<and> k = 1 \<longrightarrow> nd_strides a ! k = e * nd_dims a ! 2)))"

lemma in_shape_nth: "in_shape idx dims \<Longrightarrow> k < length dims \<Longrightarrow> length idx = length dims \<and> int (idx ! k) < dims ! k"
  by (auto simp: in_shape_def list_all2_conv_all_nth)

lemma dense_fits:
  assumes "\<not> needs_copy a e" and "0 \<le> e" shows "fits a e"
proof -
  let ?d = "length (nd_dims a)"
  have dense: "Suc k = ?d \<Longrightarrow> nd_strides a ! k = e" "Suc k < ?d \<Longrightarrow> nd_strides a ! Suc k \<le> nd_strides a ! k"
    "ismultichannel a \<Longrightarrow> nd_strides a ! 1 = e * nd_dims a ! 2" for k
    using assms(1) by (force simp: needs_copy_def list_all_iff list_ex_iff not_less)+
  have "k < ?d \<Longrightarrow> e \<le> nd_strides a ! k" for k
  proof (induction "?d - Suc k" arbitrary: k)
    case 0
    then show ?case using dense(1) [of k] by simp
  next
    case (Suc n)
    then have "e \<le> nd_strides a ! Suc k" "Suc k < ?d" by simp_all
    then show ?case using dense(2) [of k] by linarith
  qed
  then show ?thesis using dense(1,3) assms(2) by (fastforce simp: fits_def)
qed

lemma contiguous_fits:
  assumes "c_contiguous a" and "\<forall>n \<in> set (nd_dims a). 0 \<le> n" and "e = int (itemsize a)"
  shows "fits a e"
proof -
  have "0 \<le> prod_list (drop k (nd_dims a))" for k
    using assms(2) by (intro prod_list_nonneg) (auto dest: in_set_dropD)
  moreover have "drop 2 (nd_dims a) = [nd_dims a ! 2]" if "length (nd_dims a) = 3"
    using that by (auto simp: eval_nat_numeral length_Suc_conv)
  ultimately show ?thesis
    using assms(1,3) by (auto simp: fits_def c_contiguous_def ismultichannel_def eval_nat_numeral)
qed

lemma stride_word: "0 \<le> s \<Longrightarrow> s < 2 ^ 63 \<Longrightarrow> uint (word_of_int s :: u64) = s"
  by (simp add: uint_word_of_int)

lemma or_channels:
  assumes "0 \<le> d" "d < 8" shows "(d :: int) OR CV_MAKETYPE 0 n = CV_MAKETYPE d n"
proof -
  have "d = take_bit 3 d" using assms by (simp add: take_bit_eq_mod)
  then have "d AND push_bit 3 (n - 1) = 0"
    by (metis (no_types, lifting) bit_0_eq bit_and_iff bit_eqI bit_push_bit_iff_int bit_take_bit_iff bot_apply bot_bool_def not_less)
  then have "d OR push_bit 3 (n - 1) = d + push_bit 3 (n - 1)" by (rule disjunctive_add_eq_or [symmetric])
  then show ?thesis using assms by (simp add: CV_MAKETYPE_def push_bit_eq_mult)
qed

lemma mask_type [simp]: "CV_MAT_DEPTH (t mod 4096) = CV_MAT_DEPTH t" "CV_MAT_CN (t mod 4096) = CV_MAT_CN t"
proof -
  show "CV_MAT_DEPTH (t mod 4096) = CV_MAT_DEPTH t" by (simp add: CV_MAT_DEPTH_def mod_mod_cancel)
  have "t mod 4096 = 8 * (t div 8 mod 512) + t mod 8" using zmod_zmult2_eq [of 512 t 8] by simp
  then have "t mod 4096 div 8 = t div 8 mod 512" by simp
  then show "CV_MAT_CN (t mod 4096) = CV_MAT_CN t" by (simp add: CV_MAT_CN_def)
qed

section \<open>The matrix over an array\<close>

lemma axes_address:
  assumes "fits a e" and "nd_wf a" and "in_shape idx (nd_dims a)" and "\<not> ismultichannel a"
    and "nm_offset m = nd_offset a" and "length (nm_sizes m) = length (nd_dims a)"
    and "nm_steps m = map word_of_int (nd_strides a)" and "int (elemSize (nm_type m)) = e"
  shows "nm_address m (idx, 0) = nd_address a idx"
proof -
  have l: "length idx = length (nd_dims a)" using assms(3) by (simp add: in_shape_def list_all2_lengthD)
  have terms: "int (idx ! k) * (if Suc k = length (nm_sizes m) then int (elemSize (nm_type m)) else uint (nm_steps m ! k)) =
      int (idx ! k) * nd_strides a ! k" if k: "k < length idx" for k
  proof (cases "nd_dims a ! k = 1")
    case True
    then have "idx ! k = 0" using in_shape_nth [OF assms(3), of k] k l by simp
    then show ?thesis by simp
  next
    case False
    have s: "0 \<le> nd_strides a ! k" "Suc k = length (nd_dims a) \<Longrightarrow> nd_strides a ! k = e"
      using assms(1) [unfolded fits_def, rule_format, of k] k l False by simp_all
    have "k < length (nd_strides a)" "nd_strides a ! k < 2 ^ 63"
      using assms(2) k l by (auto simp: nd_wf_def)
    then show ?thesis using s stride_word assms(6-8) by simp
  qed
  have "(\<Sum>k<length idx. int (idx ! k) *
        (if Suc k = length (nm_sizes m) then int (elemSize (nm_type m)) else uint (nm_steps m ! k))) =
      (\<Sum>k<length idx. int (idx ! k) * nd_strides a ! k)"
    by (rule sum.cong [OF refl]) (simp only: lessThan_iff terms)
  then show ?thesis by (simp only: nm_address_def nd_address_def assms(5) fst_conv snd_conv)
qed

lemma channel_address:
  assumes "fits a e" and "nd_wf a" and "in_shape idx (nd_dims a)" and "ismultichannel a"
    and "nm_offset m = nd_offset a" and "length (nm_sizes m) = 2"
    and "nm_steps m = take 2 (map word_of_int (nd_strides a))"
    and "int (elemSize (nm_type m)) = e * nd_dims a ! 2" and "depth_bytes (CV_MAT_DEPTH (nm_type m)) = e"
  shows "nm_address m (take 2 idx, idx ! 2) = nd_address a idx"
proof -
  have l: "length (nd_dims a) = 3" using assms(4) by (simp add: ismultichannel_def)
  then have li: "length idx = 3" "length (nd_strides a) = 3"
    using assms(2,3) by (simp_all add: in_shape_def list_all2_lengthD nd_wf_def)
  have z: "idx ! k = 0 \<or> (0 \<le> nd_strides a ! k \<and> nd_strides a ! k < 2 ^ 63 \<and>
      (Suc k = 3 \<longrightarrow> nd_strides a ! k = e) \<and> (k = 1 \<longrightarrow> nd_strides a ! k = e * nd_dims a ! 2))" if "k < 3" for k
    using assms(1,2,4) in_shape_nth [OF assms(3), of k] that l li by (force simp: fits_def nd_wf_def)
  have "nm_address m (take 2 idx, idx ! 2) =
      int (nd_offset a) + (int (idx ! 0) * uint (nm_steps m ! 0) + int (idx ! 1) * (e * nd_dims a ! 2)) + int (idx ! 2) * e"
    by (simp add: nm_address_def li assms(5,6,8,9) numeral_2_eq_2)
  also have "int (idx ! 0) * uint (nm_steps m ! 0) = int (idx ! 0) * nd_strides a ! 0"
    using z [of 0] stride_word li assms(7) by auto
  also have "int (idx ! 1) * (e * nd_dims a ! 2) = int (idx ! 1) * nd_strides a ! 1" using z [of 1] by auto
  also have "int (idx ! 2) * e = int (idx ! 2) * nd_strides a ! 2" using z [of 2] by auto
  finally show ?thesis by (simp add: nd_address_def li eval_nat_numeral)
qed

definition matrix_over :: "NdArray \<Rightarrow> NdArray \<Rightarrow> int \<Rightarrow> NdMat" where
  "matrix_over a owner type =
     (let sizes = (if nd_dims a = [] then [1] else map (\<lambda>n. sint (word_of_int n :: u32)) (nd_dims a));
          steps = (if nd_dims a = [] then [word_of_int (depth_bytes type)] else map word_of_int (nd_strides owner));
          k = (if ismultichannel a then 2 else length sizes)
      in \<lparr>nm_sizes = take k sizes, nm_type = (if ismultichannel a then CV_MAKETYPE type (sizes ! 2) else type) mod 4096,
          nm_steps = take k steps, nm_offset = nd_offset owner, nm_memory = nd_memory owner, nm_owner = Some owner\<rparr>)"

lemma mat_over_owner:
  assumes "length (nd_strides owner) = length (nd_dims a)" and "0 \<le> type" "type < 8"
    and "sizes = (if nd_dims a = [] then [1] else map (\<lambda>n. sint (word_of_int n :: u32)) (nd_dims a))"
    and "steps = (if nd_dims a = [] then [word_of_int (depth_bytes type)] else map word_of_int (nd_strides owner))"
  shows "(if ismultichannel a then mat_over py owner (take 2 sizes) (type OR CV_MAKETYPE 0 (sizes ! 2)) (take 2 steps)
      else mat_over py owner sizes type steps) =
    (let m = matrix_over a owner type
     in if nd_accepted py (nm_sizes m) (nm_type m) (nm_steps m) then Inr m else Inl (Throws ''cv::Exception''))"
proof -
  have "length steps = length sizes" using assms(1,4,5) by auto
  then show ?thesis
    unfolding matrix_over_def mat_over_def or_channels [OF assms(2,3)] assms(4,5) [symmetric] Let_def by simp
qed

lemma array_owner:
  assumes "numpy_documented py" and "nd_wf a" and "length (nd_dims a) < 32" and "\<not> ai_outputarg info"
    and "0 \<le> depth_of_typenum (nd_type a) \<or> nd_type a \<in> {NPY_LONG, NPY_ULONG}"
    and "type = (if depth_of_typenum (nd_type a) < 0 then 4 else depth_of_typenum (nd_type a))"
  shows "\<exists>owner. nd_wf owner \<and> nd_dims owner = nd_dims a \<and>
    fits owner (depth_bytes type) \<and> int (itemsize owner) = depth_bytes type \<and>
    array_to_mat py a info = (let m = matrix_over a owner type
      in if nd_accepted py (nm_sizes m) (nm_type m) (nm_steps m) then Inr (Inr m)
         else Inl (Throws ''cv::Exception'')) \<and>
    (0 \<le> depth_of_typenum (nd_type a) \<longrightarrow>
       (\<forall>idx. in_shape idx (nd_dims a) \<longrightarrow> nd_element owner idx = nd_element a idx))"
proof -
  let ?depth = "depth_of_typenum (nd_type a)"
  let ?copied = "if ?depth < 0 then PyArray_Cast py a NPY_INT
    else if needs_copy a (depth_bytes type) then PyArray_GETCONTIGUOUS py a else a"
  have type: "0 \<le> type" "type < 8" "1 \<le> depth_bytes type"
    using depth_bytes_range [of type] by (auto simp: assms(6) depth_of_typenum_def)
  have size: "int (itemsize b) = depth_bytes type"
    if "nd_type b = (if ?depth < 0 then NPY_INT else nd_type a)" for b
    using type(3) that by (auto simp: itemsize_def assms(6) depth_of_typenum_def split: if_splits)
  have wf: "nd_wf ?copied" "nd_dims ?copied = nd_dims a"
    "nd_type ?copied = (if ?depth < 0 then NPY_INT else nd_type a)"
    "0 \<le> ?depth \<Longrightarrow> in_shape idx (nd_dims a) \<Longrightarrow> nd_element ?copied idx = nd_element a idx"
    "?depth < 0 \<or> needs_copy a (depth_bytes type) \<Longrightarrow> c_contiguous ?copied" for idx
    using assms(1,2) by (auto simp: numpy_documented_def Let_def)
  have "fits ?copied (depth_bytes type)"
  proof (cases "?depth < 0 \<or> needs_copy a (depth_bytes type)")
    case True
    then show ?thesis using contiguous_fits [OF wf(5)] wf(1) size [OF wf(3)] by (simp add: nd_wf_def)
  next
    case False
    then show ?thesis using dense_fits [of a "depth_bytes type"] type(3) by simp
  qed
  moreover have "array_to_mat py a info = (let m = matrix_over a ?copied type
      in if nd_accepted py (nm_sizes m) (nm_type m) (nm_steps m) then Inr (Inr m) else Inl (Throws ''cv::Exception''))"
  proof -
    have l: "length (nd_strides ?copied) = length (nd_dims a)" using wf(1,2) by (simp add: nd_wf_def)
    note over = mat_over_owner [OF l type(1,2) refl refl, of py]
    have "bindR (if ismultichannel a then mat_over py ?copied (take 2 s) (type OR CV_MAKETYPE 0 (s ! 2)) (take 2 t)
        else mat_over py ?copied s type t) (\<lambda>m. Inr (Inr m)) = array_to_mat py a info"
      if "s = (if nd_dims a = [] then [1] else map (\<lambda>n. sint (word_of_int n :: u32)) (nd_dims a))"
        "t = (if nd_dims a = [] then [word_of_int (depth_bytes type)] else map word_of_int (nd_strides ?copied))" for s t
      using assms(3-5) that by (cases "?depth < 0") (auto simp: array_to_mat_def Let_def assms(6))
    from this [OF refl refl] show ?thesis unfolding over Let_def by (simp split: if_splits)
  qed
  ultimately show ?thesis using wf(1,2,4) size [OF wf(3)] by blast
qed

lemma matrix_over_address:
  assumes "nd_wf owner" and "nd_dims owner = nd_dims a" and "fits owner e" and "0 \<le> type" "type < 8"
    and "e = depth_bytes type" and "\<forall>n \<in> set (nd_dims a). n < 2 ^ 31"
    and "ismultichannel a \<longrightarrow> 1 \<le> nd_dims a ! 2"
  shows "in_shape idx (nd_dims a) \<Longrightarrow> nm_address (matrix_over a owner type) (mat_index a idx) = nd_address owner idx"
    and "depth_bytes (CV_MAT_DEPTH (nm_type (matrix_over a owner type))) = e"
proof -
  let ?m = "matrix_over a owner type"
  have multi: "ismultichannel owner = ismultichannel a" by (simp add: ismultichannel_def assms(2))
  have l: "length (nd_strides owner) = length (nd_dims a)" using assms(1,2) by (simp add: nd_wf_def)
  show e: "depth_bytes (CV_MAT_DEPTH (nm_type ?m)) = e"
    using assms(4,5) by (simp add: matrix_over_def Let_def assms(6)) (simp add: CV_MAT_DEPTH_def)
  assume idx: "in_shape idx (nd_dims a)"
  consider "nd_dims a = []" | "ismultichannel a" | "nd_dims a \<noteq> []" "\<not> ismultichannel a" by blast
  then show "nm_address ?m (mat_index a idx) = nd_address owner idx"
  proof cases
    case 1
    then have "idx = []" using idx by (simp add: in_shape_def)
    with 1 show ?thesis by (simp add: nm_address_def nd_address_def mat_index_def matrix_over_def Let_def)
  next
    case 2
    have d: "length (nd_dims a) = 3" "nd_dims a ! 2 \<le> 512" "1 \<le> nd_dims a ! 2" using 2 assms(8) by (simp_all add: ismultichannel_def)
    then have n: "sint (word_of_int (nd_dims a ! 2) :: u32) = nd_dims a ! 2" by (intro sint_of_int_u32) simp_all
    have "nd_dims a \<noteq> []" using d(1) by auto
    then have m: "nm_offset ?m = nd_offset owner" "length (nm_sizes ?m) = 2"
      "nm_steps ?m = take 2 (map word_of_int (nd_strides owner))" "nm_type ?m = CV_MAKETYPE type (nd_dims a ! 2) mod 4096"
      using 2 d(1) n by (simp_all add: matrix_over_def Let_def)
    have "int (elemSize (nm_type ?m)) = e * nd_dims owner ! 2"
      using d(2,3) assms(4,5) depth_bytes_range [of type] by (simp add: elemSize_def m(4) assms(2,6))
    from channel_address [OF assms(3,1) _ _ m(1-3) this e] show ?thesis
      using idx 2 multi \<open>nd_dims a \<noteq> []\<close> by (simp add: mat_index_def assms(2))
  next
    case 3
    then have m: "nm_offset ?m = nd_offset owner" "length (nm_sizes ?m) = length (nd_dims owner)"
      "nm_steps ?m = map word_of_int (nd_strides owner)" "nm_type ?m = type mod 4096"
      using l by (simp_all add: matrix_over_def Let_def assms(2))
    have "CV_MAT_CN type = 1" using assms(4,5) by (simp add: CV_MAT_CN_def)
    then have "int (elemSize (nm_type ?m)) = e"
      using assms(4,5) depth_bytes_range [of type] by (simp add: elemSize_def m(4) assms(6) CV_MAT_DEPTH_def)
    from axes_address [OF assms(3,1) _ _ m(1-3) this] show ?thesis
      using idx 3 multi by (simp add: mat_index_def assms(2))
  qed
qed

text \<open>Every supported array becomes a matrix over its memory, or over that of a copy, unless OpenCV refuses
  the strides.\<close>

lemma numpy_view:
  assumes "numpy_documented py" and "nd_wf a" and "length (nd_dims a) < 32" and "\<not> ai_outputarg info"
    and "\<forall>n \<in> set (nd_dims a). n < 2 ^ 31" and "ismultichannel a \<Longrightarrow> 1 \<le> nd_dims a ! 2"
    and "0 \<le> depth_of_typenum (nd_type a) \<or> nd_type a \<in> {NPY_LONG, NPY_ULONG}"
  shows "\<exists>m owner. (array_to_mat py a info = Inr (Inr m) \<or>
      array_to_mat py a info = Inl (Throws ''cv::Exception'') \<and> \<not> nd_accepted py (nm_sizes m) (nm_type m) (nm_steps m)) \<and>
    nm_owner m = Some owner \<and> nm_memory m = nd_memory owner \<and> nd_dims owner = nd_dims a \<and>
    (0 \<le> depth_of_typenum (nd_type a) \<longrightarrow>
       (\<forall>idx. in_shape idx (nd_dims a) \<longrightarrow> nd_element owner idx = nd_element a idx)) \<and>
    (\<forall>idx. in_shape idx (nd_dims a) \<longrightarrow> nm_element m (mat_index a idx) = nd_element owner idx \<and>
       0 \<le> nm_address m (mat_index a idx) \<and>
       nm_address m (mat_index a idx) + int (itemsize owner) \<le> int (length (nm_memory m)))"
proof -
  define type where "type = (if depth_of_typenum (nd_type a) < 0 then 4 else depth_of_typenum (nd_type a))"
  obtain owner where o: "nd_wf owner" "nd_dims owner = nd_dims a" "fits owner (depth_bytes type)"
      "int (itemsize owner) = depth_bytes type"
    and run: "array_to_mat py a info = (let m = matrix_over a owner type
      in if nd_accepted py (nm_sizes m) (nm_type m) (nm_steps m) then Inr (Inr m)
         else Inl (Throws ''cv::Exception''))"
    and copied: "0 \<le> depth_of_typenum (nd_type a) \<longrightarrow>
       (\<forall>idx. in_shape idx (nd_dims a) \<longrightarrow> nd_element owner idx = nd_element a idx)"
    using array_owner [OF assms(1-4,7) type_def] by blast
  let ?m = "matrix_over a owner type"
  have type: "0 \<le> type" "type < 8" by (auto simp: type_def depth_of_typenum_def)
  have multi: "ismultichannel a \<longrightarrow> 1 \<le> nd_dims a ! 2" using assms(6) by blast
  note found = matrix_over_address [OF o(1-3) type refl assms(5) multi]
  have m: "nm_owner ?m = Some owner" "nm_memory ?m = nd_memory owner" by (simp_all add: matrix_over_def Let_def)
  have "nm_element ?m (mat_index a idx) = nd_element owner idx \<and> 0 \<le> nm_address ?m (mat_index a idx) \<and>
       nm_address ?m (mat_index a idx) + int (itemsize owner) \<le> int (length (nm_memory ?m))"
    if "in_shape idx (nd_dims a)" for idx
  proof -
    have "nat (depth_bytes type) = itemsize owner" using o(4) by linarith
    then show ?thesis
      using o(1,2) that unfolding nm_element_def found(1) [OF that] found(2) nd_element_def m(2) nd_wf_def by simp
  qed
  then show ?thesis using run m o(2) copied by (intro exI [of _ ?m] exI [of _ owner]) (simp add: Let_def)
qed

text \<open>An array whose third axis is empty becomes a matrix of 512 channels, which it has no memory for.\<close>

lemma no_channels:
  assumes "array_to_mat py a info = Inr (Inr m)" and "length (nd_dims a) = 3" and "nd_dims a ! 2 = 0"
  shows "CV_MAT_CN (nm_type m) = 512"
proof -
  have "depth_of_typenum t OR CV_MAKETYPE 0 0 = CV_MAKETYPE (depth_of_typenum t) 0" if "\<not> depth_of_typenum t < 0" for t
    using that by (intro or_channels) (auto simp: depth_of_typenum_def)
  moreover have "4 OR CV_MAKETYPE 0 0 = CV_MAKETYPE 4 0" by (rule or_channels) simp_all
  ultimately show ?thesis
    using assms by (auto simp: array_to_mat_def mat_over_def Let_def ismultichannel_def CV_MAT_CN_make split: if_splits)
qed

section \<open>Back to Python\<close>

lemma typenum_roundtrip:
  "0 \<le> depth_of_typenum t \<Longrightarrow> typenum_of_depth (depth_of_typenum t) = t"
  "0 \<le> d \<Longrightarrow> d < 7 \<Longrightarrow> depth_of_typenum (typenum_of_depth d) = d"
  by (auto simp: depth_of_typenum_def typenum_of_depth_def split: if_splits)

lemma slice_before: "i + n \<le> p \<Longrightarrow> p \<le> length M \<Longrightarrow> slice i n (take p M @ ys) = slice i n M"
  by (simp add: slice_def drop_take)

lemma slice_at: "length xs = p \<Longrightarrow> length ys = n \<Longrightarrow> slice p n (xs @ ys @ zs) = ys"
  by (simp add: slice_def)

text \<open>The rows of the new array are the rows of the matrix.\<close>

lemma fold_write_row:
  assumes "readable m" and "0 < mat_cols m" and "row_size m \<le> nat (nd_strides a ! 0)"
    and "nd_offset a + (nat (mat_rows m) - 1) * nat (nd_strides a ! 0) + row_size m \<le> length memory"
    and "int n \<le> mat_rows m"
  shows "length (fold (write_row m a) [0..<n] memory) = length memory \<and>
    (\<forall>i<n. slice (nd_offset a + i * nat (nd_strides a ! 0)) (row_size m) (fold (write_row m a) [0..<n] memory) = mat_row m i)"
  using assms(5)
proof (induction n)
  case (Suc n)
  let ?s = "nat (nd_strides a ! 0)" and ?M = "fold (write_row m a) [0..<n] memory"
  let ?p = "nd_offset a + n * ?s"
  have IH: "length ?M = length memory" "slice (nd_offset a + i * ?s) (row_size m) ?M = mat_row m i" if "i < n" for i
    using Suc that by simp_all
  have l: "length ?M = length memory" using Suc by simp
  have row: "length (mat_row m n) = row_size m"
    using Suc.prems by (intro length_mat_row [OF assms(1)]) simp_all
  have "n * ?s \<le> (nat (mat_rows m) - 1) * ?s" using Suc.prems by (intro mult_le_mono1) linarith
  then have room: "?p + row_size m \<le> length memory" using assms(4) by linarith
  have new: "fold (write_row m a) [0..<Suc n] memory = take ?p ?M @ mat_row m n @ drop (?p + row_size m) ?M"
    by (simp add: write_row_def Let_def)
  have "slice (nd_offset a + i * ?s) (row_size m) (take ?p ?M @ mat_row m n @ drop (?p + row_size m) ?M) = mat_row m i"
    if "i < Suc n" for i
  proof (cases "i = n")
    case True
    have "length (take ?p ?M) = ?p" using room l by simp
    from slice_at [OF this row] show ?thesis unfolding True .
  next
    case False
    then have "Suc i * ?s \<le> n * ?s" using that by (intro mult_le_mono1) simp
    then have "nd_offset a + i * ?s + row_size m \<le> ?p" using assms(3) by simp
    moreover have "?p \<le> length ?M" using room l by linarith
    ultimately have "slice (nd_offset a + i * ?s) (row_size m)
        (take ?p ?M @ mat_row m n @ drop (?p + row_size m) ?M) = slice (nd_offset a + i * ?s) (row_size m) ?M"
      by (rule slice_before)
    then show ?thesis using IH(2) [of i] False that by simp
  qed
  then show ?case unfolding new using room l row by simp
qed simp

lemma pyopencv_from_rows:
  assumes "readable m" and "0 < mat_rows m" "0 < mat_cols m"
    and "a = allocate py (mat_rows m) (mat_cols m) (mat_type m)"
    and "row_size m \<le> nat (nd_strides a ! 0)"
    and "nd_offset a + (nat (mat_rows m) - 1) * nat (nd_strides a ! 0) + row_size m \<le> length (nd_memory a)"
  shows "\<exists>memory. pyopencv_from py m = PyArray (a\<lparr>nd_memory := memory\<rparr>) \<and> length memory = length (nd_memory a) \<and>
    (\<forall>i. int i < mat_rows m \<longrightarrow>
       slice (nd_offset a + i * nat (nd_strides a ! 0)) (row_size m) memory = mat_row m i)"
  using fold_write_row [OF assms(1,3,5,6), of "nat (mat_rows m)"] assms(2-4)
  by (intro exI [of _ "fold (write_row m a) [0..<nat (mat_rows m)] (nd_memory a)"]) (auto simp: pyopencv_from_def Let_def)

section \<open>The functions of the module\<close>

text \<open>An object that is no array is not refused: the call returns, with the error still pending.\<close>

lemma ignored_error:
  assumes "encoding_out = [] \<or> encoding_out = encoding_in"
  shows "cvtColor2Wrap lib py PyOther encoding_in encoding_out =
    Some (Inr (Some ''unknown is not a numpy array, neither a scalar'', PyNone))"
  using assms
  by (auto simp: cvtColor2Wrap_def convert_to_CvMat2_def failmsg_def empty_mat_def as_mat_def cvtColor_def
      toCvCopyImpl_def readable_def copyTo_def pyopencv_from_def)

text \<open>A display conversion that changes nothing hands the array of its argument back.\<close>

lemma display_shares_array:
  assumes "array_to_mat py a \<lparr>ai_name = ''unknown'', ai_outputarg = False\<rparr> = Inr (Inr m)" and "nm_owner m = Some b"
    and "as_mat m = Some mat" and "getCvType encoding_in = Inr (mat_type mat)"
    and "returns_source lib encoding_in encoding_out (display_options False lo lo)"
  shows "cvtColorForDisplayWrap lib dl py (PyArray a) encoding_in encoding_out False lo lo = Some (Inr (None, PyArray b))"
  using assms
  by (auto simp: cvtColorForDisplayWrap_def convert_to_CvMat2_def returns_source_def cvtColorForDisplay_def
      display_options_def default_display_options_def typed_conversion_def Let_def split: sum.splits)

end
