(* ===== verification/Predef.thy ===== *)
theory Predef
  imports Endian_Conversion "HOL-Library.Signed_Division"
begin

text \<open>
  How the byte order of the machine is found out: the copy of Boost.Predef that \<^verbatim>\<open>conversion.hpp\<close> includes.
  A header is a function on the macros that are defined; its own \<^verbatim>\<open>include\<close>s are composed in the order in
  which the preprocessor meets them.  A macro without a text has the value 0, and only \<^verbatim>\<open>defined\<close> asks
  for it.
\<close>

section \<open>Macros\<close>

type_synonym macros = "string \<Rightarrow> int option"

definition is_defined :: "macros \<Rightarrow> string \<Rightarrow> bool" where
  "is_defined m x \<longleftrightarrow> m x \<noteq> None"

text \<open>In an \<^verbatim>\<open>#if\<close>, a name that is no macro is 0.\<close>

definition macro :: "macros \<Rightarrow> string \<Rightarrow> int" where
  "macro m x = (case m x of Some v \<Rightarrow> v | None \<Rightarrow> 0)"

abbreviation set_macro :: "string \<Rightarrow> int \<Rightarrow> macros \<Rightarrow> macros" where
  "set_macro x v m \<equiv> m(x := Some v)"

abbreviation undef :: "string \<Rightarrow> macros \<Rightarrow> macros" where
  "undef x m \<equiv> m(x := None)"

text \<open>Headers that are not part of the copy: those of the system by their names, \<^verbatim>\<open>architecture.h\<close>,
  \<^verbatim>\<open>os/windows.h\<close> and \<^verbatim>\<open>detail/os_detected.h\<close> of an installed Boost.\<close>

type_synonym headers = "string \<Rightarrow> macros \<Rightarrow> macros"

section \<open>Version numbers\<close>

definition BOOST_VERSION_NUMBER :: "int \<Rightarrow> int \<Rightarrow> int \<Rightarrow> int" where
  "BOOST_VERSION_NUMBER major minor patch =
     (major smod 100) * 10000000 + (minor smod 100) * 100000 + (patch smod 100000)"

definition BOOST_VERSION_NUMBER_MAX :: int where
  "BOOST_VERSION_NUMBER_MAX = BOOST_VERSION_NUMBER 99 99 99999"

definition BOOST_VERSION_NUMBER_NOT_AVAILABLE :: int where
  "BOOST_VERSION_NUMBER_NOT_AVAILABLE = BOOST_VERSION_NUMBER 0 0 0"

definition BOOST_VERSION_NUMBER_AVAILABLE :: int where
  "BOOST_VERSION_NUMBER_AVAILABLE = BOOST_VERSION_NUMBER 0 0 1"

text \<open>The shorthands of \<^verbatim>\<open>make.h\<close> that the headers use, and those for dates.\<close>

definition BOOST_PREDEF_MAKE_10_VRP000 :: "int \<Rightarrow> int" where
  "BOOST_PREDEF_MAKE_10_VRP000 V =
     BOOST_VERSION_NUMBER ((V sdiv 100000) smod 10) ((V sdiv 10000) smod 10) ((V sdiv 1000) smod 10)"

definition BOOST_PREDEF_MAKE_10_VRR000 :: "int \<Rightarrow> int" where
  "BOOST_PREDEF_MAKE_10_VRR000 V = BOOST_VERSION_NUMBER ((V sdiv 100000) smod 10) ((V sdiv 1000) smod 100) 0"

definition BOOST_PREDEF_MAKE_10_VVRR :: "int \<Rightarrow> int" where
  "BOOST_PREDEF_MAKE_10_VVRR V = BOOST_VERSION_NUMBER ((V sdiv 100) smod 100) (V smod 100) 0"

definition BOOST_PREDEF_MAKE_10_VVRR00PP00 :: "int \<Rightarrow> int" where
  "BOOST_PREDEF_MAKE_10_VVRR00PP00 V =
     BOOST_VERSION_NUMBER ((V sdiv 100000000) smod 100) ((V sdiv 1000000) smod 100) ((V sdiv 100) smod 100)"

definition BOOST_PREDEF_MAKE_DATE :: "int \<Rightarrow> int \<Rightarrow> int \<Rightarrow> int" where
  "BOOST_PREDEF_MAKE_DATE Y M D = BOOST_VERSION_NUMBER (Y smod 10000 - 1970) (M smod 100) (D smod 100)"

definition BOOST_PREDEF_MAKE_YYYYMMDD :: "int \<Rightarrow> int" where
  "BOOST_PREDEF_MAKE_YYYYMMDD V =
     BOOST_PREDEF_MAKE_DATE ((V sdiv 10000) smod 10000) ((V sdiv 100) smod 100) (V smod 100)"

section \<open>Library and operating system\<close>

definition gnu_h :: "macros \<Rightarrow> macros" where
  "gnu_h m =
     (let m = set_macro ''BOOST_LIB_C_GNU'' BOOST_VERSION_NUMBER_NOT_AVAILABLE m;
          m = (if is_defined m ''__GLIBC__'' \<or> is_defined m ''__GNU_LIBRARY__'' then
                 (if is_defined m ''__GLIBC__'' then
                    set_macro ''BOOST_LIB_C_GNU''
                      (BOOST_VERSION_NUMBER (macro m ''__GLIBC__'') (macro m ''__GLIBC_MINOR__'') 0) m
                  else
                    set_macro ''BOOST_LIB_C_GNU''
                      (BOOST_VERSION_NUMBER (macro m ''__GNU_LIBRARY__'') (macro m ''__GNU_LIBRARY_MINOR__'') 0) m)
               else m)
      in if macro m ''BOOST_LIB_C_GNU'' \<noteq> 0 then set_macro ''BOOST_LIB_C_GNU_AVAILABLE'' 0 m else m)"

text \<open>What every header of an operating system ends with.\<close>

definition os_available :: "headers \<Rightarrow> string \<Rightarrow> macros \<Rightarrow> macros" where
  "os_available H os m =
     (if macro m os \<noteq> 0 then H ''boost/predef/detail/os_detected.h'' (set_macro (os @ ''_AVAILABLE'') 0 m) else m)"

abbreviation undetected :: "macros \<Rightarrow> bool" where
  "undetected m \<equiv> \<not> is_defined m ''BOOST_PREDEF_DETAIL_OS_DETECTED''"

definition ios_h :: "headers \<Rightarrow> macros \<Rightarrow> macros" where
  "ios_h H m =
     (let m = set_macro ''BOOST_OS_IOS'' BOOST_VERSION_NUMBER_NOT_AVAILABLE m
      in os_available H ''BOOST_OS_IOS''
           (if undetected m \<and> is_defined m ''__APPLE__'' \<and> is_defined m ''__MACH__'' \<and>
               is_defined m ''__ENVIRONMENT_IPHONE_OS_VERSION_MIN_REQUIRED__''
            then set_macro ''BOOST_OS_IOS'' (macro m ''__ENVIRONMENT_IPHONE_OS_VERSION_MIN_REQUIRED__'' * 1000) m
            else m))"

definition macos_h :: "headers \<Rightarrow> macros \<Rightarrow> macros" where
  "macos_h H m =
     (let m = set_macro ''BOOST_OS_MACOS'' BOOST_VERSION_NUMBER_NOT_AVAILABLE (ios_h H m)
      in os_available H ''BOOST_OS_MACOS''
           (if undetected m \<and> (is_defined m ''macintosh'' \<or> is_defined m ''Macintosh'' \<or>
                 (is_defined m ''__APPLE__'' \<and> is_defined m ''__MACH__''))
            then set_macro ''BOOST_OS_MACOS''
              (if is_defined m ''__APPLE__'' \<and> is_defined m ''__MACH__''
               then BOOST_VERSION_NUMBER 10 0 0 else BOOST_VERSION_NUMBER 9 0 0) m
            else m))"

text \<open>Every variant of BSD claims \<^verbatim>\<open>BOOST_OS_BSD\<close> first.\<close>

definition some_bsd :: "macros \<Rightarrow> macros" where
  "some_bsd m =
     (if is_defined m ''BOOST_OS_BSD_AVAILABLE'' then m
      else set_macro ''BOOST_OS_BSD_AVAILABLE'' 0 (set_macro ''BOOST_OS_BSD'' BOOST_VERSION_NUMBER_AVAILABLE m))"

definition bsdi_h :: "headers \<Rightarrow> macros \<Rightarrow> macros" where
  "bsdi_h H m =
     (let m = set_macro ''BOOST_OS_BSD_BSDI'' BOOST_VERSION_NUMBER_NOT_AVAILABLE m
      in os_available H ''BOOST_OS_BSD_BSDI''
           (if undetected m \<and> is_defined m ''__bsdi__''
            then set_macro ''BOOST_OS_BSD_BSDI'' BOOST_VERSION_NUMBER_AVAILABLE (some_bsd m) else m))"

text \<open>The name that is defined here is not the one that is tested.\<close>

definition dragonfly_h :: "headers \<Rightarrow> macros \<Rightarrow> macros" where
  "dragonfly_h H m =
     (let m = set_macro ''BOOST_OS_BSD_DRAGONFLY'' BOOST_VERSION_NUMBER_NOT_AVAILABLE m
      in os_available H ''BOOST_OS_BSD_DRAGONFLY''
           (if undetected m \<and> is_defined m ''__DragonFly__''
            then set_macro ''BOOST_OS_DRAGONFLY_BSD'' BOOST_VERSION_NUMBER_AVAILABLE
                   (undef ''BOOST_OS_BSD_DRAGONFLY'' (some_bsd m))
            else m))"

definition free_h :: "headers \<Rightarrow> macros \<Rightarrow> macros" where
  "free_h H m =
     (let m = set_macro ''BOOST_OS_BSD_FREE'' BOOST_VERSION_NUMBER_NOT_AVAILABLE m
      in os_available H ''BOOST_OS_BSD_FREE''
           (if undetected m \<and> is_defined m ''__FreeBSD__'' then
              set_macro ''BOOST_OS_BSD_FREE''
                (if is_defined m ''__FreeBSD_version'' then
                   (if macro m ''__FreeBSD_version'' < 500000
                    then BOOST_PREDEF_MAKE_10_VRP000 (macro m ''__FreeBSD_version'')
                    else BOOST_PREDEF_MAKE_10_VRR000 (macro m ''__FreeBSD_version''))
                 else BOOST_VERSION_NUMBER_AVAILABLE) (some_bsd m)
            else m))"

text \<open>The releases 2.0 to 4.9 in the order in which their macros are tried.\<close>

definition openbsd_releases :: "(nat \<times> nat) list" where
  "openbsd_releases = List.product [2, 3, 4] [0, 1, 2, 3, 4, 5, 6, 7, 8, 9]"

definition open_h :: "headers \<Rightarrow> macros \<Rightarrow> macros" where
  "open_h H m =
     (let m = set_macro ''BOOST_OS_BSD_OPEN'' BOOST_VERSION_NUMBER_NOT_AVAILABLE m
      in os_available H ''BOOST_OS_BSD_OPEN''
           (if undetected m \<and> is_defined m ''__OpenBSD__'' then
              set_macro ''BOOST_OS_BSD_OPEN''
                (case find (\<lambda>(v, r). is_defined m (''OpenBSD'' @ dec v @ ''_'' @ dec r)) openbsd_releases of
                   Some (v, r) \<Rightarrow> BOOST_VERSION_NUMBER (int v) (int r) 0
                 | None \<Rightarrow> BOOST_VERSION_NUMBER_AVAILABLE) (some_bsd m)
            else m))"

definition net_h :: "headers \<Rightarrow> macros \<Rightarrow> macros" where
  "net_h H m =
     (let m = set_macro ''BOOST_OS_BSD_NET'' BOOST_VERSION_NUMBER_NOT_AVAILABLE m
      in os_available H ''BOOST_OS_BSD_NET''
           (if undetected m \<and> (is_defined m ''__NETBSD__'' \<or> is_defined m ''__NetBSD__'') then
              set_macro ''BOOST_OS_BSD_NET''
                (if is_defined m ''__NETBSD__'' then
                   (if is_defined m ''__NETBSD_version'' then
                      (if macro m ''__NETBSD_version'' < 500000
                       then BOOST_PREDEF_MAKE_10_VRP000 (macro m ''__NETBSD_version'')
                       else BOOST_PREDEF_MAKE_10_VRR000 (macro m ''__NETBSD_version''))
                    else BOOST_VERSION_NUMBER_AVAILABLE)
                 else if is_defined m ''NetBSD0_8'' then BOOST_VERSION_NUMBER 0 8 0
                 else if is_defined m ''NetBSD0_9'' then BOOST_VERSION_NUMBER 0 9 0
                 else if is_defined m ''NetBSD1_0'' then BOOST_VERSION_NUMBER 1 0 0
                 else if is_defined m ''__NetBSD_Version'' then
                   BOOST_PREDEF_MAKE_10_VVRR00PP00 (macro m ''__NetBSD_Version'')
                 else BOOST_VERSION_NUMBER_AVAILABLE) (some_bsd m)
            else m))"

text \<open>\<^verbatim>\<open>bsd.h\<close> includes the variants, and each of them includes \<^verbatim>\<open>bsd.h\<close> again before its own test, which
  then includes those that were not yet begun.  So the innermost comes first: the last variant of the
  list is tried before the others.\<close>

definition bsd_variants :: "headers \<Rightarrow> macros \<Rightarrow> macros" where
  "bsd_variants H m = bsdi_h H (dragonfly_h H (free_h H (open_h H (net_h H m))))"

definition bsd_h :: "headers \<Rightarrow> macros \<Rightarrow> macros" where
  "bsd_h H m =
     (let m = bsd_variants H m;
          m = (if is_defined m ''BOOST_OS_BSD'' then m
               else set_macro ''BOOST_OS_BSD'' BOOST_VERSION_NUMBER_NOT_AVAILABLE m);
          m = (if undetected m \<and> (is_defined m ''BSD'' \<or> is_defined m ''_SYSTYPE_BSD'') then
                 (let m = H ''sys/param.h'' (undef ''BOOST_OS_BSD'' m)
                  in if is_defined m ''BOOST_OS_BSD'' then m
                     else set_macro ''BOOST_OS_BSD''
                       (if is_defined m ''BSD4_4'' then BOOST_VERSION_NUMBER 4 4 0
                        else if is_defined m ''BSD4_3'' then BOOST_VERSION_NUMBER 4 3 0
                        else if is_defined m ''BSD4_2'' then BOOST_VERSION_NUMBER 4 2 0
                        else if is_defined m ''BSD'' then BOOST_PREDEF_MAKE_10_VVRR (macro m ''BSD'')
                        else BOOST_VERSION_NUMBER_AVAILABLE) m)
               else m)
      in os_available H ''BOOST_OS_BSD'' m)"

definition android_h :: "headers \<Rightarrow> macros \<Rightarrow> macros" where
  "android_h H m =
     (let m = set_macro ''BOOST_OS_ANDROID'' BOOST_VERSION_NUMBER_NOT_AVAILABLE m
      in os_available H ''BOOST_OS_ANDROID''
           (if undetected m \<and> is_defined m ''__ANDROID__''
            then set_macro ''BOOST_OS_ANDROID'' BOOST_VERSION_NUMBER_AVAILABLE m else m))"

section \<open>Byte order\<close>

definition no_order :: "macros \<Rightarrow> bool" where
  "no_order m \<longleftrightarrow> macro m ''BOOST_ENDIAN_BIG_BYTE'' = 0 \<and> macro m ''BOOST_ENDIAN_BIG_WORD'' = 0 \<and>
     macro m ''BOOST_ENDIAN_LITTLE_BYTE'' = 0 \<and> macro m ''BOOST_ENDIAN_LITTLE_WORD'' = 0"

definition set_order :: "string \<Rightarrow> bool \<Rightarrow> macros \<Rightarrow> macros" where
  "set_order x cond m = (if cond then set_macro x BOOST_VERSION_NUMBER_AVAILABLE m else m)"

text \<open>The header that may say what the order is.\<close>

definition order_header :: "headers \<Rightarrow> macros \<Rightarrow> macros" where
  "order_header H m =
     (if macro m ''BOOST_LIB_C_GNU'' \<noteq> 0 \<or> macro m ''BOOST_OS_ANDROID'' \<noteq> 0 then H ''endian.h'' m
      else if macro m ''BOOST_OS_MACOS'' \<noteq> 0 then H ''machine/endian.h'' m
      else if macro m ''BOOST_OS_BSD'' \<noteq> 0 then
        (if macro m ''BOOST_OS_BSD_OPEN'' \<noteq> 0 then H ''machine/endian.h'' m else H ''sys/endian.h'' m)
      else m)"

text \<open>The order by the constants of such a header, whose names begin with one or two underscores.\<close>

definition by_constants :: "string \<Rightarrow> macros \<Rightarrow> macros" where
  "by_constants p m =
     (let is = (\<lambda>m x. is_defined m (p @ x) \<and> macro m (p @ ''BYTE_ORDER'') = macro m (p @ x));
          m = set_order ''BOOST_ENDIAN_BIG_BYTE'' (is m ''BIG_ENDIAN'') m;
          m = set_order ''BOOST_ENDIAN_LITTLE_BYTE'' (is m ''LITTLE_ENDIAN'') m
      in set_order ''BOOST_ENDIAN_LITTLE_WORD'' (is m ''PDP_ENDIAN'') m)"

definition by_header :: "headers \<Rightarrow> macros \<Rightarrow> macros" where
  "by_header H m =
     (let m = order_header H m;
          m = (if is_defined m ''__BYTE_ORDER'' then by_constants ''__'' m else m)
      in if \<not> is_defined m ''__BYTE_ORDER'' \<and> is_defined m ''_BYTE_ORDER'' then by_constants ''_'' m else m)"

definition by_big_macros :: "macros \<Rightarrow> macros" where
  "by_big_macros m = set_order ''BOOST_ENDIAN_BIG_BYTE''
     ((is_defined m ''__BIG_ENDIAN__'' \<and> \<not> is_defined m ''__LITTLE_ENDIAN__'') \<or>
      (is_defined m ''_BIG_ENDIAN'' \<and> \<not> is_defined m ''_LITTLE_ENDIAN'') \<or>
      list_ex (is_defined m) [''__ARMEB__'', ''__THUMBEB__'', ''__AARCH64EB__'', ''_MIPSEB'', ''__MIPSEB'', ''__MIPSEB__'']) m"

definition by_little_macros :: "macros \<Rightarrow> macros" where
  "by_little_macros m = set_order ''BOOST_ENDIAN_LITTLE_BYTE''
     ((is_defined m ''__LITTLE_ENDIAN__'' \<and> \<not> is_defined m ''__BIG_ENDIAN__'') \<or>
      (is_defined m ''_LITTLE_ENDIAN'' \<and> \<not> is_defined m ''_BIG_ENDIAN'') \<or>
      list_ex (is_defined m) [''__ARMEL__'', ''__THUMBEL__'', ''__AARCH64EL__'', ''_MIPSEL'', ''__MIPSEL'', ''__MIPSEL__'']) m"

definition by_architecture :: "headers \<Rightarrow> macros \<Rightarrow> macros" where
  "by_architecture H m =
     (let m = H ''boost/predef/architecture.h'' m;
          m = set_order ''BOOST_ENDIAN_BIG_BYTE'' (list_ex (\<lambda>a. macro m (''BOOST_ARCH_'' @ a) \<noteq> 0)
                [''M68K'', ''PARISC'', ''SPARC'', ''SYS370'', ''SYS390'', ''Z'']) m
      in set_order ''BOOST_ENDIAN_LITTLE_BYTE'' (list_ex (\<lambda>a. macro m (''BOOST_ARCH_'' @ a) \<noteq> 0)
           [''AMD64'', ''IA64'', ''X86'', ''BLACKFIN'']) m)"

definition by_windows :: "headers \<Rightarrow> macros \<Rightarrow> macros" where
  "by_windows H m =
     (if macro m ''BOOST_ARCH_ARM'' \<noteq> 0 then
        (let m = H ''boost/predef/os/windows.h'' m
         in set_order ''BOOST_ENDIAN_LITTLE_BYTE'' (macro m ''BOOST_OS_WINDOWS'' \<noteq> 0) m)
      else m)"

text \<open>A step is taken only while no order is known.\<close>

definition unless_known :: "(macros \<Rightarrow> macros) \<Rightarrow> macros \<Rightarrow> macros" where
  "unless_known step m = (if no_order m then step m else m)"

definition no_orders :: "macros \<Rightarrow> macros" where
  "no_orders m =
     fold (\<lambda>x. set_macro x BOOST_VERSION_NUMBER_NOT_AVAILABLE)
       [''BOOST_ENDIAN_BIG_BYTE'', ''BOOST_ENDIAN_BIG_WORD'', ''BOOST_ENDIAN_LITTLE_BYTE'', ''BOOST_ENDIAN_LITTLE_WORD''] m"

definition endian_h :: "headers \<Rightarrow> macros \<Rightarrow> macros" where
  "endian_h H m =
     fold unless_known [by_header H, by_big_macros, by_little_macros, by_architecture H, by_windows H]
       (no_orders (android_h H (bsd_h H (macos_h H (gnu_h m)))))"

definition endian_compat_h :: "headers \<Rightarrow> macros \<Rightarrow> macros" where
  "endian_compat_h H m =
     (let m = endian_h H m;
          m = (if macro m ''BOOST_ENDIAN_BIG_BYTE'' \<noteq> 0
               then set_macro ''BOOST_BYTE_ORDER'' 4321 (set_macro ''BOOST_BIG_ENDIAN'' 0 m) else m);
          m = (if macro m ''BOOST_ENDIAN_LITTLE_BYTE'' \<noteq> 0
               then set_macro ''BOOST_BYTE_ORDER'' 1234 (set_macro ''BOOST_LITTLE_ENDIAN'' 0 m) else m)
      in if macro m ''BOOST_ENDIAN_LITTLE_WORD'' \<noteq> 0
         then set_macro ''BOOST_BYTE_ORDER'' 2134 (set_macro ''BOOST_PDP_ENDIAN'' 0 m) else m)"

text \<open>\<^verbatim>\<open>order::native\<close>.\<close>

definition native_by_macros :: "macros \<Rightarrow> order" where
  "native_by_macros m = (if is_defined m ''BOOST_BIG_ENDIAN'' then big else little)"

end
