(* ===== verification/Predef_Properties.thy ===== *)
theory Predef_Properties
  imports Predef
begin

text \<open>
  Version numbers compare like their parts, one operating system at most is found, and the order that
  the conversions work with is the one the system headers state.
\<close>

section \<open>Version numbers\<close>

lemma smod_small: "0 \<le> a \<Longrightarrow> a < n \<Longrightarrow> a smod n = (a :: int)"
  by (cases "a = 0") (simp_all add: smod_int_alt_def)

lemma version_parts:
  assumes "0 \<le> a" "a < 100" "0 \<le> b" "b < 100" "0 \<le> c" "c < 100000"
  shows "BOOST_VERSION_NUMBER a b c = a * 10000000 + b * 100000 + c"
  using assms by (simp add: BOOST_VERSION_NUMBER_def smod_small)

text \<open>Within their ranges the parts are compared from the left, and no version reaches the maximum plus one.\<close>

lemma version_order:
  assumes "0 \<le> a" "a < 100" "0 \<le> b" "b < 100" "0 \<le> c" "c < 100000"
    and "0 \<le> a'" "a' < 100" "0 \<le> b'" "b' < 100" "0 \<le> c'" "c' < 100000"
  shows "BOOST_VERSION_NUMBER a b c < BOOST_VERSION_NUMBER a' b' c' \<longleftrightarrow>
      a < a' \<or> a = a' \<and> (b < b' \<or> b = b' \<and> c < c')"
    and "BOOST_VERSION_NUMBER a b c \<le> BOOST_VERSION_NUMBER_MAX"
    and "BOOST_VERSION_NUMBER a b c = 0 \<longleftrightarrow> a = 0 \<and> b = 0 \<and> c = 0"
  using assms by (auto simp: version_parts BOOST_VERSION_NUMBER_MAX_def add_nonneg_eq_0_iff)

lemma available [simp]: "BOOST_VERSION_NUMBER_AVAILABLE = 1" "BOOST_VERSION_NUMBER_NOT_AVAILABLE = 0"
  by (simp_all add: BOOST_VERSION_NUMBER_AVAILABLE_def BOOST_VERSION_NUMBER_NOT_AVAILABLE_def version_parts)

section \<open>Operating systems\<close>

text \<open>Headers that leave a macro alone.\<close>

definition keeps :: "headers \<Rightarrow> string \<Rightarrow> bool" where
  "keeps H x \<longleftrightarrow> (\<forall>h m. h \<noteq> ''endian.h'' \<longrightarrow> H h m x = m x)"

lemma keepsD: "keeps H x \<Longrightarrow> h \<noteq> ''endian.h'' \<Longrightarrow> H h m x = m x"
  by (simp add: keeps_def)

lemma os_available_keeps:
  "keeps H x \<Longrightarrow> x \<noteq> os @ ''_AVAILABLE'' \<Longrightarrow> os_available H os m x = m x"
  by (simp add: os_available_def keepsD)

text \<open>DragonFly is never reported: the macro that is tested was undefined just before.\<close>

lemma dragonfly_missed:
  assumes "keeps H ''BOOST_OS_BSD_DRAGONFLY''"
  shows "macro (dragonfly_h H m) ''BOOST_OS_BSD_DRAGONFLY'' = 0"
  using assms by (simp add: dragonfly_h_def os_available_keeps macro_def Let_def)

text \<open>A system that is found as iOS is not found as Mac OS as well.\<close>

lemma ios_not_macos:
  assumes "keeps H ''BOOST_OS_MACOS''"
    and "\<And>m. is_defined (H ''boost/predef/detail/os_detected.h'' m) ''BOOST_PREDEF_DETAIL_OS_DETECTED''"
    and "macro (ios_h H m) ''BOOST_OS_IOS'' \<noteq> 0" and "keeps H ''BOOST_OS_IOS''"
  shows "macro (macos_h H m) ''BOOST_OS_MACOS'' = 0"
proof -
  have "is_defined (ios_h H m) ''BOOST_PREDEF_DETAIL_OS_DETECTED''"
    using assms(2-4) by (auto simp: ios_h_def os_available_def Let_def macro_def keepsD split: if_splits)
  then obtain v where "ios_h H m ''BOOST_PREDEF_DETAIL_OS_DETECTED'' = Some v" by (auto simp: is_defined_def)
  then show ?thesis
    using assms(1) by (simp add: macos_h_def Let_def os_available_keeps macro_def is_defined_def)
qed

section \<open>Byte order\<close>

text \<open>The macros that the detection of the system sets.\<close>

definition os_macros :: "string list" where
  "os_macros =
     [''BOOST_OS_IOS'', ''BOOST_OS_IOS_AVAILABLE'', ''BOOST_OS_MACOS'', ''BOOST_OS_MACOS_AVAILABLE'',
      ''BOOST_OS_BSD'', ''BOOST_OS_BSD_AVAILABLE'', ''BOOST_OS_BSD_BSDI'', ''BOOST_OS_BSD_BSDI_AVAILABLE'',
      ''BOOST_OS_BSD_DRAGONFLY'', ''BOOST_OS_BSD_DRAGONFLY_AVAILABLE'', ''BOOST_OS_DRAGONFLY_BSD'',
      ''BOOST_OS_BSD_FREE'', ''BOOST_OS_BSD_FREE_AVAILABLE'', ''BOOST_OS_BSD_OPEN'', ''BOOST_OS_BSD_OPEN_AVAILABLE'',
      ''BOOST_OS_BSD_NET'', ''BOOST_OS_BSD_NET_AVAILABLE'', ''BOOST_OS_ANDROID'', ''BOOST_OS_ANDROID_AVAILABLE'']"

lemma detection_keeps:
  assumes "keeps H x" and "x \<notin> set os_macros"
  shows "macos_h H m x = m x" "net_h H m x = m x" "open_h H m x = m x" "free_h H m x = m x"
    and "dragonfly_h H m x = m x" "bsdi_h H m x = m x" "android_h H m x = m x"
proof -
  note x = assms(2) [unfolded os_macros_def]
  have os: "os_available H os m' x = m' x" if "x \<noteq> os @ ''_AVAILABLE''" for os m'
    using assms(1) that by (rule os_available_keeps)
  have bsd: "some_bsd m' x = m' x" for m' using x by (simp add: some_bsd_def)
  show "macos_h H m x = m x" unfolding macos_h_def ios_h_def Let_def using x by (simp add: os)
  show "net_h H m x = m x" unfolding net_h_def Let_def using x by (simp add: os bsd)
  show "open_h H m x = m x" unfolding open_h_def Let_def using x by (simp add: os bsd)
  show "free_h H m x = m x" unfolding free_h_def Let_def using x by (simp add: os bsd)
  show "dragonfly_h H m x = m x" unfolding dragonfly_h_def Let_def using x by (simp add: os bsd)
  show "bsdi_h H m x = m x" unfolding bsdi_h_def Let_def using x by (simp add: os bsd)
  show "android_h H m x = m x" unfolding android_h_def Let_def using x by (simp add: os)
qed

lemma bsd_keeps:
  assumes "keeps H x" and "x \<notin> set os_macros"
  shows "bsd_h H m x = m x"
proof -
  have x: "x \<noteq> ''BOOST_OS_BSD''" "x \<noteq> ''BOOST_OS_BSD'' @ ''_AVAILABLE''" using assms(2) by (auto simp: os_macros_def)
  have "bsd_variants H m x = m x" by (simp add: bsd_variants_def detection_keeps [OF assms])
  then show ?thesis
    unfolding bsd_h_def Let_def using x(1) by (simp add: os_available_keeps [OF assms(1) x(2)] keepsD [OF assms(1)])
qed

lemma system_keeps:
  "keeps H x \<Longrightarrow> x \<notin> set os_macros \<Longrightarrow> android_h H (bsd_h H (macos_h H m)) x = m x"
  by (simp add: detection_keeps bsd_keeps)

lemma gnu_keeps: "x \<notin> {''BOOST_LIB_C_GNU'', ''BOOST_LIB_C_GNU_AVAILABLE''} \<Longrightarrow> gnu_h m x = m x"
  by (simp add: gnu_h_def Let_def)

text \<open>What \<^verbatim>\<open>endian.h\<close> of the GNU library defines.\<close>

definition gnu_orders :: "int \<Rightarrow> macros \<Rightarrow> macros" where
  "gnu_orders v m = m(''__LITTLE_ENDIAN'' \<mapsto> 1234, ''__BIG_ENDIAN'' \<mapsto> 4321, ''__PDP_ENDIAN'' \<mapsto> 3412, ''__BYTE_ORDER'' \<mapsto> v)"

lemma set_order_apply: "set_order x c m y = (if y = x \<and> c then Some 1 else m y)"
  by (simp add: set_order_def)

lemma by_header_gnu:
  assumes "macro m ''BOOST_LIB_C_GNU'' \<noteq> 0" and "\<And>m. H ''endian.h'' m = gnu_orders v m"
  shows "by_header H m = set_order ''BOOST_ENDIAN_LITTLE_WORD'' (v = 3412)
    (set_order ''BOOST_ENDIAN_LITTLE_BYTE'' (v = 1234) (set_order ''BOOST_ENDIAN_BIG_BYTE'' (v = 4321) (gnu_orders v m)))"
proof -
  let ?m = "gnu_orders v m"
  have o: "order_header H m = ?m" using assms by (simp add: order_header_def)
  have m: "?m ''__BYTE_ORDER'' = Some v" "?m ''__BIG_ENDIAN'' = Some 4321" "?m ''__LITTLE_ENDIAN'' = Some 1234"
    "?m ''__PDP_ENDIAN'' = Some 3412" by (simp_all add: gnu_orders_def)
  have "by_constants ''__'' ?m = set_order ''BOOST_ENDIAN_LITTLE_WORD'' (v = 3412)
    (set_order ''BOOST_ENDIAN_LITTLE_BYTE'' (v = 1234) (set_order ''BOOST_ENDIAN_BIG_BYTE'' (v = 4321) ?m))"
    by (simp add: by_constants_def Let_def is_defined_def macro_def set_order_apply m)
  then show ?thesis by (simp add: by_header_def Let_def o is_defined_def set_order_apply m)
qed

lemma known_stays: "\<not> no_order m \<Longrightarrow> fold unless_known steps m = m"
  by (induction steps) (simp_all add: unless_known_def)

text \<open>With the GNU library the byte order is the one of its header, and both ways in which the conversions ask
  for it agree; only on a machine with word-swapped integers do they not.\<close>

lemma gnu_byte_order:
  assumes "is_defined m ''__GLIBC__''" and "macro m ''__GLIBC__'' \<in> {1..99}" and "macro m ''__GLIBC_MINOR__'' \<in> {0..99}"
    and "\<And>m. H ''endian.h'' m = gnu_orders v m" and "v \<in> {1234, 4321, 3412}"
    and "keeps H ''BOOST_LIB_C_GNU''" "keeps H ''BOOST_BIG_ENDIAN''" "keeps H ''BOOST_LITTLE_ENDIAN''"
    and "m ''BOOST_BIG_ENDIAN'' = None" "m ''BOOST_LITTLE_ENDIAN'' = None"
  shows "is_defined (endian_compat_h H m) ''BOOST_BIG_ENDIAN'' \<longleftrightarrow> v = 4321"
    and "is_defined (endian_compat_h H m) ''BOOST_LITTLE_ENDIAN'' \<longleftrightarrow> v = 1234"
    and "native_by_macros (endian_compat_h H m) = (if v = 4321 then big else little)"
proof -
  let ?sys = "android_h H (bsd_h H (macos_h H (gnu_h m)))" and ?r = "endian_h H m"
  have gnu: "gnu_h m ''BOOST_LIB_C_GNU'' = Some (BOOST_VERSION_NUMBER (macro m ''__GLIBC__'') (macro m ''__GLIBC_MINOR__'') 0)"
    using assms(1) by (simp add: gnu_h_def Let_def is_defined_def macro_def)
  have out: "''BOOST_LIB_C_GNU'' \<notin> set os_macros" "''BOOST_BIG_ENDIAN'' \<notin> set os_macros"
    "''BOOST_LITTLE_ENDIAN'' \<notin> set os_macros" by (simp_all add: os_macros_def)
  have "BOOST_VERSION_NUMBER (macro m ''__GLIBC__'') (macro m ''__GLIBC_MINOR__'') 0 \<noteq> 0"
    using assms(2,3) by (subst version_parts) auto
  moreover have "no_orders ?sys ''BOOST_LIB_C_GNU'' = gnu_h m ''BOOST_LIB_C_GNU''"
    using system_keeps [OF assms(6) out(1)] by (simp add: no_orders_def)
  ultimately have "macro (no_orders ?sys) ''BOOST_LIB_C_GNU'' \<noteq> 0" by (simp add: macro_def [of "no_orders _"] gnu)
  note header = by_header_gnu [where H = H and v = v, OF this assms(4)]
  have none: "no_order (no_orders ?sys)" by (simp add: no_order_def no_orders_def macro_def)
  have "\<not> no_order (by_header H (no_orders ?sys))"
    using assms(5) by (auto simp: header no_order_def macro_def set_order_apply)
  then have r: "?r = by_header H (no_orders ?sys)"
    unfolding endian_h_def using none by (simp add: unless_known_def known_stays)
  note r = r [unfolded header]
  have keep: "?r ''BOOST_BIG_ENDIAN'' = None" "?r ''BOOST_LITTLE_ENDIAN'' = None"
    unfolding r set_order_apply gnu_orders_def no_orders_def
    by (simp_all add: system_keeps [OF assms(7) out(2)] system_keeps [OF assms(8) out(3)] gnu_keeps assms(9,10))
  have v: "macro ?r ''BOOST_ENDIAN_BIG_BYTE'' \<noteq> 0 \<longleftrightarrow> v = 4321" "macro ?r ''BOOST_ENDIAN_LITTLE_BYTE'' \<noteq> 0 \<longleftrightarrow> v = 1234"
    unfolding r macro_def set_order_apply gnu_orders_def no_orders_def by simp_all
  show b: "is_defined (endian_compat_h H m) ''BOOST_BIG_ENDIAN'' \<longleftrightarrow> v = 4321"
    and "is_defined (endian_compat_h H m) ''BOOST_LITTLE_ENDIAN'' \<longleftrightarrow> v = 1234"
    using v keep assms(5) by (auto simp: endian_compat_h_def Let_def is_defined_def macro_def)
  show "native_by_macros (endian_compat_h H m) = (if v = 4321 then big else little)"
    unfolding native_by_macros_def b ..
qed

text \<open>When nothing is found, the native order is taken to be little, and yet the conversions to and from
  little-endian integers, which ask for \<^verbatim>\<open>BOOST_LITTLE_ENDIAN\<close>, reverse.\<close>

lemma unknown_order:
  assumes "no_order (endian_h H m)"
    and "endian_h H m ''BOOST_BIG_ENDIAN'' = None" "endian_h H m ''BOOST_LITTLE_ENDIAN'' = None"
  shows "native_by_macros (endian_compat_h H m) = little \<and> \<not> is_defined (endian_compat_h H m) ''BOOST_LITTLE_ENDIAN''"
  using assms by (simp add: endian_compat_h_def no_order_def native_by_macros_def is_defined_def Let_def)

end
