(* ===== verification/Diagnostics_Flow.thy ===== *)
theory Diagnostics_Flow
  imports Node_Properties
begin

text \<open>
  From the transport of a node to the screen: what \<open>publishDiagnostics\<close> sends and the diagnostics
  cache of the terminal UI makes of it.
\<close>

section \<open>The parts of a diagnostics message\<close>

lemma poll_session_presence:
  "poll_session counts (Some z) = (s, z') \<Longrightarrow> \<exists>z1. z' = Some z1 \<and> zi_presence z1 = zi_presence z"
  by (auto simp: poll_session_def Stats_def Let_def split: prod.splits if_splits)

lemma poll_session_None: "poll_session counts None = (default_stats, None)"
  by (simp add: poll_session_def)

lemma GetMetricsSnapshot_type: "GetMetricsSnapshot now s = (m, s') \<Longrightarrow> tm_msg_type m = msg_type s"
  by (auto simp: GetMetricsSnapshot_def pruneMetricsWindowLocked_def MakeTopicMetrics_def Let_def)

text \<open>Which entries are about presence: none of a topic with a type of its own, none of a session.\<close>

definition no_presence :: "NetworkInfo list \<Rightarrow> bool" where
  "no_presence infos \<longleftrightarrow> list_all (\<lambda>i. ni_msg_type i \<noteq> ''presence'') infos"

lemma no_presence_append [simp]: "no_presence (xs @ ys) \<longleftrightarrow> no_presence xs \<and> no_presence ys"
  by (simp add: no_presence_def)

definition plain_types :: "TopicFactory smap \<Rightarrow> bool" where
  "plain_types topics \<longleftrightarrow> list_all (\<lambda>(n, t). msg_type (tf_metrics t) \<noteq> ''presence'') topics"

lemma topic_infos_no_presence:
  "topic_infos (topic_info c i k) now topics = (infos, topics') \<Longrightarrow> plain_types topics \<Longrightarrow>
    no_presence infos"
proof (induction topics arbitrary: infos topics')
  case (Cons a topics)
  obtain n t where a: "a = (n, t)" by (cases a)
  obtain m s rest topics1 where s: "GetMetricsSnapshot now (tf_metrics t) = (m, s)"
    "topic_infos (topic_info c i k) now topics = (rest, topics1)" "infos = topic_info c i k m # rest"
    using Cons.prems(1) by (auto simp: a split: prod.splits)
  have "tm_msg_type m = msg_type (tf_metrics t)" using GetMetricsSnapshot_type [OF s(1)] .
  then have "ni_msg_type (topic_info c i k m) \<noteq> ''presence''"
    using Cons.prems(2) by (simp add: a plain_types_def topic_info_def Let_def default_info_def)
  then show ?case using Cons.IH [OF s(2)] Cons.prems(2) by (simp add: s(3) no_presence_def plain_types_def)
qed (simp add: no_presence_def)

lemma session_info_no_presence: "no_presence [session_info n d t s]"
  by (simp add: no_presence_def session_info_def)

definition node_of :: "nat \<Rightarrow> string \<times> PresenceRecord \<Rightarrow> NodePresence" where
  "node_of steady = (\<lambda>(hostname, r).
     \<lparr>np_hostname = hostname, np_online = pr_online r,
      np_state_age_ms = of_nat ((steady - pr_state_changed_at r) div 1000000),
      np_online_transitions = pr_online_transitions r\<rparr>)"

lemma publishDiagnostics_infos:
  assumes "publishDiagnostics counts now steady b = ((hdr, infos), b')" and "bf_control b = Some z"
    and "plain_types (bf_send_topics b)" and "plain_types (bf_recv_topics b)"
  shows "\<exists>pre. no_presence pre \<and> infos = pre @
    map (\<lambda>p. presence_info (fst (poll_session (counts ControlSession) (Some z))) (node_of steady p))
      (zi_presence z)"
proof -
  obtain cs control where c: "poll_session (counts ControlSession) (Some z) = (cs, control)"
    by (rule prod.exhaust)
  obtain ims pic where i: "poll_session (counts ImageSession) (bf_image b) = (ims, pic)"
    by (rule prod.exhaust)
  obtain ks cloud where k: "poll_session (counts CloudSession) (bf_cloud b) = (ks, cloud)"
    by (rule prod.exhaust)
  obtain sends senders where s: "topic_infos (topic_info cs ims ks) now (bf_send_topics b) = (sends, senders)"
    by (rule prod.exhaust)
  obtain recvs receivers where r: "topic_infos (topic_info cs ims ks) now (bf_recv_topics b) = (recvs, receivers)"
    by (rule prod.exhaust)
  obtain z1 where z1: "control = Some z1" "zi_presence z1 = zi_presence z"
    using poll_session_presence [OF c] by blast
  let ?zs = "ht_setup (bf_config b)"
  let ?pre = "sends @ recvs @
    [session_info ''@zenoh/session/control'' ''control''
       (if zs_image_enabled ?zs \<or> zs_cloud_enabled ?zs then ''zenoh-tcp'' else ''zenoh'') cs] @
    (if pic \<noteq> None then [session_info ''@zenoh/session/image'' ''image'' ''zenoh-udp'' ims] else []) @
    (if cloud \<noteq> None then [session_info ''@zenoh/session/cloud'' ''cloud'' ''zenoh-cloud-tcp'' ks] else [])"
  have "infos = ?pre @ map (presence_info cs) (Presence steady z1)"
    using assms(1,2) by (simp add: publishDiagnostics_def Let_def c i k s r z1(1))
  also have "map (presence_info cs) (Presence steady z1) =
      map (\<lambda>p. presence_info cs (node_of steady p)) (zi_presence z)"
    by (simp add: Presence_def z1(2) node_of_def case_prod_beta comp_def)
  finally have "infos = ?pre @ map (\<lambda>p. presence_info cs (node_of steady p)) (zi_presence z)" .
  moreover have "no_presence ?pre"
    using topic_infos_no_presence [OF s assms(3)] topic_infos_no_presence [OF r assms(4)]
      session_info_no_presence by (simp add: no_presence_def)
  ultimately show ?thesis unfolding c fst_conv by blast
qed

section \<open>What the cache finds\<close>

lemma last_named_append:
  "last_named (xs @ ys) nm = (case last_named ys nm of None \<Rightarrow> last_named xs nm | Some i \<Rightarrow> Some i)"
proof -
  have "List.find P (us @ vs) = (case List.find P us of None \<Rightarrow> List.find P vs | Some i \<Rightarrow> Some i)" for P us vs
    by (induction us) auto
  then show ?thesis unfolding last_named_def rev_append .
qed

lemma last_named_nodes:
  assumes "map_ok m"
  shows "last_named (map (\<lambda>p. presence_info cs (node_of steady p)) m) (''@zenoh/node/'' @ h) =
    map_option (\<lambda>r. presence_info cs (node_of steady (h, r))) (mfind m h)"
proof -
  have name: "ni_name (presence_info cs (node_of steady p)) = ''@zenoh/node/'' @ fst p" for p
    by (simp add: presence_info_def node_of_def case_prod_beta)
  have "distinct (map fst m) \<Longrightarrow>
      last_named (map (\<lambda>p. presence_info cs (node_of steady p)) m) (''@zenoh/node/'' @ h) =
      map_option (\<lambda>r. presence_info cs (node_of steady (h, r))) (mfind m h)" for m
  proof (induction m)
    case (Cons a m)
    obtain k r where a: "a = (k, r)" by (cases a)
    have "last_named [presence_info cs (node_of steady a)] (''@zenoh/node/'' @ h) =
        (if k = h then Some (presence_info cs (node_of steady a)) else None)"
      by (simp add: last_named_def name a)
    moreover have "mfind m h = None" if "k = h"
      using Cons.prems that by (simp add: a mfind_None_iff)
    ultimately show ?case
      using Cons last_named_append [of "[presence_info cs (node_of steady a)]"
          "map (\<lambda>p. presence_info cs (node_of steady p)) m" "''@zenoh/node/'' @ h"]
      by (auto simp: a split: option.split)
  qed (simp add: last_named_def)
  then show ?thesis using map_ok_distinct [OF assms] by blast
qed

text \<open>C23: What a node knows of the presence of another reaches the screen: after the UI received a
  diagnostics message of the node, and for the 2.5 seconds it counts as fresh, looking up a host
  succeeds exactly when the node has seen a liveliness event of it, and then answers the host's state,
  its number of online transitions, the milliseconds since its last change of state at the time of the
  message, and whether the control session of the node was open and linked.\<close>

theorem presence_display:
  assumes "publishDiagnostics counts now steady b = ((hdr, infos), b')"
    and "bf_control b = Some z" and "map_ok (zi_presence z)"
    and "plain_types (bf_send_topics b)" and "plain_types (bf_recv_topics b)"
    and "int t - int t0 \<le> 2500000000"
  shows "case mfind (zi_presence z) h of
       None \<Rightarrow> LookupNode t h (Some old) (Update t0 infos cache) = (False, Some old)
     | Some r \<Rightarrow> \<exists>i. LookupNode t h (Some old) (Update t0 infos cache) = (True, Some i) \<and>
         ni_name i = ''@zenoh/node/'' @ h \<and> ni_msg_type i = ''presence'' \<and> ni_node_hostname i = h \<and>
         ni_node_online i = pr_online r \<and>
         ni_direction i = (if pr_online r then ''online'' else ''offline'') \<and>
         ni_node_state_age_ms i = of_nat ((steady - pr_state_changed_at r) div 1000000) \<and>
         ni_node_online_transitions i = pr_online_transitions r \<and>
         ni_session_connected i = st_session_open (fst (poll_session (counts ControlSession) (Some z))) \<and>
         ni_link_connected i = st_link_connected (fst (poll_session (counts ControlSession) (Some z)))"
proof -
  let ?cs = "fst (poll_session (counts ControlSession) (Some z))"
  obtain pre where pre: "no_presence pre"
    and infos: "infos = pre @ map (\<lambda>p. presence_info ?cs (node_of steady p)) (zi_presence z)"
    using publishDiagnostics_infos [OF assms(1,2,4,5)] by blast
  have f: "IsFreshLocked t 2500 (Update t0 infos cache)"
    using assms(6) by (simp add: IsFreshLocked_def Update_def)
  have find: "mfind (latest (Update t0 infos cache)) (''@zenoh/node/'' @ h) =
      (case mfind (zi_presence z) h of None \<Rightarrow> last_named pre (''@zenoh/node/'' @ h)
       | Some r \<Rightarrow> Some (presence_info ?cs (node_of steady (h, r))))"
    unfolding mfind_Update infos last_named_append last_named_nodes [OF assms(3)]
    by (simp split: option.split)
  show ?thesis
  proof (cases "mfind (zi_presence z) h")
    case None
    have "ni_msg_type i \<noteq> ''presence''" if "last_named pre (''@zenoh/node/'' @ h) = Some i" for i
      using last_named_name [OF that] pre by (auto simp: no_presence_def list_all_iff)
    then show ?thesis using f find None by (simp add: LookupNode_def split: option.split)
  next
    case (Some r)
    then show ?thesis using f find by (simp add: LookupNode_def node_of_def presence_info_def)
  qed
qed

lemma presence_display_witness:
  "\<exists>hdr infos b' i. publishDiagnostics (\<lambda>_. (None, None)) 0 9000000 (sample_node ''b'') = ((hdr, infos), b') \<and>
     LookupNode 100 ''a'' (Some default_info) (Update 50 infos initial_cache) = (True, Some i) \<and>
     ni_node_online i \<and> ni_node_online_transitions i = 1 \<and> ni_node_state_age_ms i = 9"
proof -
  obtain hdr infos b' where p: "publishDiagnostics (\<lambda>_. (None, None)) 0 9000000 (sample_node ''b'') =
      ((hdr, infos), b')"
    by (metis prod.exhaust)
  have z: "zi_presence open_transport =
      [(''a'', \<lparr>pr_online = True, pr_state_changed_at = 0, pr_online_transitions = 1\<rparr>)]"
    by (simp add: open_transport_def Impl_create_def default_zenoh_config_def UpdatePresence_def)
  have "bf_control (sample_node ''b'') = Some open_transport"
    "plain_types (bf_send_topics (sample_node ''b''))" "plain_types (bf_recv_topics (sample_node ''b''))"
    "map_ok (zi_presence open_transport)"
    by (simp_all add: sample_node_def plain_types_def map_ok_def z)
  from presence_display [OF p this(1,4,2,3), of 100 50 "''a''" default_info initial_cache] show ?thesis
    using p by (auto simp: z)
qed

end
