(* ===== verification/Tui_Text.thy ===== *)
theory Tui_Text
  imports Prelude
begin

text \<open>
  The text layout of the terminal UI: \<^verbatim>\<open>src/tui/format.cpp\<close>, \<^verbatim>\<open>WrapValue\<close> of \<^verbatim>\<open>src/tui/theme.cpp\<close>
  and \<^verbatim>\<open>WrappedPath\<close> of \<^verbatim>\<open>src/tui/topics_screen.cpp\<close>.  A function that
  builds an element of lines is here the list of its lines.
\<close>

section \<open>Shortening\<close>

definition MiddleEllipsis :: "string \<Rightarrow> nat \<Rightarrow> string" where
  "MiddleEllipsis text max_width =
     (if length text \<le> max_width \<or> max_width < 7 then text
      else
        let head = (max_width - 3) div 2; tail = max_width - 3 - head
        in take head text @ ''...'' @ drop (length text - tail) text)"

text \<open>The size is cast to \<^verbatim>\<open>int\<close>.\<close>

definition EndEllipsis :: "string \<Rightarrow> int \<Rightarrow> string" where
  "EndEllipsis val max_width =
     (if max_width \<le> 3 \<or> sint (of_nat (length val) :: 32 word) \<le> max_width then val
      else take (nat (max_width - 3)) val @ ''...'')"

definition JoinHosts :: "string list \<Rightarrow> string" where
  "JoinHosts hosts =
     (case hosts of [] \<Rightarrow> ''-'' | h # hs \<Rightarrow> foldl (\<lambda>joined h. joined @ '', '' @ h) h hs)"

definition FormatAge :: "u64 \<Rightarrow> string" where
  "FormatAge milliseconds =
     (let seconds = milliseconds div 1000 in
      if seconds < 1 then ''<1s''
      else if seconds < 60 then dec (unat seconds) @ ''s''
      else
        let minutes = seconds div 60 in
        if minutes < 60 then dec (unat minutes) @ ''m '' @ dec (unat (seconds mod 60)) @ ''s''
        else dec (unat (minutes div 60)) @ ''h '' @ dec (unat (minutes mod 60)) @ ''m'')"

definition ShortType :: "string \<Rightarrow> string" where
  "ShortType msg_type =
     (if msg_type = ''sensor_msgs/Image'' then ''Img''
      else if msg_type = ''sensor_msgs/CompressedImage'' then ''Jpg''
      else if msg_type = ''sensor_msgs/PointCloud2'' then ''Cloud''
      else if msg_type = ''nav_msgs/Odometry'' then ''Odom''
      else
        let raw = rev (takeWhile (\<lambda>c. c \<noteq> CHR ''/'') (rev msg_type))
        in if length raw > 6 then take 5 raw @ ''.'' else raw)"

definition LevelTag :: "string \<Rightarrow> string" where
  "LevelTag level =
     (if level = ''FATAL'' then ''FATAL''
      else if length level > 5 then take 5 level else level)"

lemma MiddleEllipsis_length:
  "7 \<le> max_width \<Longrightarrow> length (MiddleEllipsis s max_width) = min (length s) max_width"
  by (auto simp: MiddleEllipsis_def Let_def)

lemma EndEllipsis_length:
  assumes "3 < max_width" and "length s < 2 ^ 31"
  shows "int (length (EndEllipsis s max_width)) = min (int (length s)) max_width"
proof -
  have "sint (of_nat (length s) :: 32 word) = int (length s)"
    using assms(2) by (simp add: sint_sbintrunc' signed_of_nat signed_take_bit_int_eq_self)
  then show ?thesis using assms by (auto simp: EndEllipsis_def)
qed

section \<open>Wrapping\<close>

text \<open>\<open>s.rfind(c, pos)\<close>: the last occurrence at or before \<open>pos\<close>.\<close>

definition rfind_char :: "char \<Rightarrow> string \<Rightarrow> nat \<Rightarrow> nat option" where
  "rfind_char c s pos =
     (case filter (\<lambda>i. s ! i = c) [0..<min (Suc pos) (length s)] of
        [] \<Rightarrow> None | is \<Rightarrow> Some (last is))"

lemma rfind_char_Some:
  assumes "rfind_char c s pos = Some i"
  shows "i \<le> pos \<and> i < length s \<and> s ! i = c"
proof -
  let ?is = "filter (\<lambda>i. s ! i = c) [0..<min (Suc pos) (length s)]"
  have "?is \<noteq> []" "i = last ?is" using assms by (auto simp: rfind_char_def split: list.splits)
  then have "i \<in> set ?is" by (metis last_in_set)
  then show ?thesis by auto
qed

text \<open>\<^verbatim>\<open>WrappedPath\<close>: where the line that starts at \<open>start\<close> ends.\<close>

definition path_line_end :: "string \<Rightarrow> int \<Rightarrow> nat \<Rightarrow> nat" where
  "path_line_end val available_width start =
     (let width = nat (max 8 available_width);
          line_end = min (length val) (start + width);
          line_end =
            (if line_end < length val then
               (case rfind_char (CHR ''/'') val line_end of
                  Some slash \<Rightarrow> if slash > start then slash else line_end
                | None \<Rightarrow> line_end)
             else line_end)
      in if line_end = start then min (length val) (start + width) else line_end)"

lemma path_line_end_bounds:
  assumes "start < length val"
  shows "start < path_line_end val w start" "path_line_end val w start \<le> length val"
    "path_line_end val w start \<le> start + nat (max 8 w)"
  using assms by (auto simp: path_line_end_def Let_def split: option.splits dest: rfind_char_Some)

function path_lines :: "string \<Rightarrow> int \<Rightarrow> nat \<Rightarrow> string list" where
  "path_lines val available_width start =
     (if start < length val then
        take (path_line_end val available_width start - start) (drop start val) #
          path_lines val available_width (path_line_end val available_width start)
      else [])"
  by pat_completeness auto
termination
  by (relation "measure (\<lambda>(val, w, start). length val - start)")
    (auto intro: diff_less_mono2 path_line_end_bounds)

declare path_lines.simps [simp del]

definition WrappedPath :: "string \<Rightarrow> int \<Rightarrow> string list" where
  "WrappedPath val available_width =
     (let lines = path_lines val available_width 0 in if lines = [] then [''-''] else lines)"

text \<open>\<^verbatim>\<open>WrapValue\<close>: blanks at the start of a line are skipped, blanks at its end removed.\<close>

definition skip_blanks :: "string \<Rightarrow> nat \<Rightarrow> nat" where
  "skip_blanks val start = start + length (takeWhile (\<lambda>c. c = CHR '' '') (drop start val))"

definition trim_right :: "string \<Rightarrow> string" where
  "trim_right line = rev (dropWhile (\<lambda>c. c = CHR '' '') (rev line))"

definition value_line_end :: "string \<Rightarrow> nat \<Rightarrow> nat \<Rightarrow> nat" where
  "value_line_end val line_width start =
     (let line_end = min (length val) (start + line_width) in
      if line_end < length val then
        let fallback = (case rfind_char (CHR ''/'') val (line_end - 1) of
                          Some slash \<Rightarrow> if slash > start then slash + 1 else line_end
                        | None \<Rightarrow> line_end)
        in (case rfind_char (CHR '' '') val line_end of
              None \<Rightarrow> fallback
            | Some split \<Rightarrow> if split \<le> start then fallback else split)
      else line_end)"

lemma line_width_pos [simp]: "0 < max 1 (w :: int)"
  by (simp add: less_max_iff_disj)

lemma skip_blanks_ge: "start \<le> skip_blanks val start"
  by (simp add: skip_blanks_def)

lemma value_line_end_bounds:
  assumes "start < length val" and "0 < w"
  shows "start < value_line_end val w start" "value_line_end val w start \<le> length val"
    "value_line_end val w start \<le> start + w"
  using assms by (auto simp: value_line_end_def Let_def split: option.splits dest!: rfind_char_Some)

function value_lines :: "string \<Rightarrow> int \<Rightarrow> nat \<Rightarrow> string list" where
  "value_lines val width start =
     (let line_width = nat (max 1 width); start = skip_blanks val start in
      if start < length val then
        trim_right (take (value_line_end val line_width start - start) (drop start val)) #
          value_lines val width (value_line_end val line_width start)
      else [])"
  by pat_completeness auto
termination
proof (relation "measure (\<lambda>(val, w, start). length val - start)")
  fix val :: string and width :: int and start lw s
  assume "lw = nat (max 1 width)" "s = skip_blanks val start" "s < length val"
  then show "((val, width, value_line_end val lw s), val, width, start) \<in>
      measure (\<lambda>(val, w, start). length val - start)"
    using value_line_end_bounds(1) [of s val lw] skip_blanks_ge [of start val]
    by (auto intro!: diff_less_mono2)
qed simp

declare value_lines.simps [simp del]

definition WrapValue :: "string \<Rightarrow> int \<Rightarrow> string list" where
  "WrapValue val width =
     (let lines = value_lines val width 0 in if lines = [] then [[]] else lines)"

section \<open>Wrapping loses nothing\<close>

lemma take_drop_split: "i \<le> j \<Longrightarrow> take (j - i) (drop i xs) @ drop j xs = drop i xs"
  by (metis append_take_drop_id drop_drop le_add_diff_inverse2)

lemma concat_path_lines: "concat (path_lines val w start) = drop start val"
proof (induction val w start rule: path_lines.induct)
  case (1 val w start)
  show ?case
  proof (cases "start < length val")
    case True
    then show ?thesis
      using 1 take_drop_split [of start "path_line_end val w start" val]
        path_line_end_bounds(1) [OF True, of w]
      by (subst path_lines.simps) simp
  qed (simp add: path_lines.simps)
qed

lemma path_lines_width:
  "line \<in> set (path_lines val w start) \<Longrightarrow> line \<noteq> [] \<and> length line \<le> nat (max 8 w)"
proof (induction val w start rule: path_lines.induct)
  case (1 val w start)
  show ?case
  proof (cases "start < length val")
    case True
    let ?e = "path_line_end val w start"
    note b = path_line_end_bounds [OF True, of w]
    consider "line = take (?e - start) (drop start val)" | "line \<in> set (path_lines val w ?e)"
      using "1.prems" True by (subst (asm) path_lines.simps) auto
    then show ?thesis
    proof cases
      case 1
      then show ?thesis using b True by auto
    next
      case 2
      then show ?thesis using "1.IH" True by blast
    qed
  next
    case False
    then show ?thesis using "1.prems" by (simp add: path_lines.simps)
  qed
qed

abbreviation not_blank :: "char \<Rightarrow> bool" where
  "not_blank c \<equiv> c \<noteq> CHR '' ''"

lemma filter_trim_right: "filter not_blank (trim_right s) = filter not_blank s"
proof -
  have "filter not_blank (dropWhile (\<lambda>c. c = CHR '' '') xs) = filter not_blank xs" for xs
    by (induction xs) auto
  from this [of "rev s"] show ?thesis by (simp add: trim_right_def flip: rev_filter)
qed

lemma trim_right_length: "length (trim_right s) \<le> length s"
  by (metis length_dropWhile_le length_rev trim_right_def)

lemma filter_skip_blanks:
  "filter not_blank (drop (skip_blanks val start) val) = filter not_blank (drop start val)"
proof -
  let ?b = "takeWhile (\<lambda>c. c = CHR '' '') (drop start val)"
  have "drop start val = ?b @ drop (length ?b) (drop start val)"
    by (metis dropWhile_eq_drop takeWhile_dropWhile_id)
  moreover have "filter not_blank ?b = []" by (auto simp: filter_empty_conv dest: set_takeWhileD)
  ultimately have "filter not_blank (drop start val) = filter not_blank (drop (length ?b) (drop start val))"
    by (metis append_Nil filter_append)
  then show ?thesis by (simp add: skip_blanks_def add.commute)
qed

lemma value_lines_filter:
  "filter not_blank (concat (value_lines val w start)) = filter not_blank (drop start val)"
proof (induction val w start rule: value_lines.induct)
  case (1 val w start)
  let ?s = "skip_blanks val start" and ?lw = "nat (max 1 w)"
  let ?e = "value_line_end val ?lw ?s"
  show ?case
  proof (cases "?s < length val")
    case True
    have IH: "filter not_blank (concat (value_lines val w ?e)) = filter not_blank (drop ?e val)"
      using 1 True by simp
    have "filter not_blank (concat (value_lines val w start)) =
        filter not_blank (take (?e - ?s) (drop ?s val)) @ filter not_blank (drop ?e val)"
      using True IH by (subst value_lines.simps) (simp add: Let_def filter_trim_right)
    also have "\<dots> = filter not_blank (drop ?s val)"
      using take_drop_split [of ?s ?e val] value_line_end_bounds(1) [OF True, of ?lw]
      by (metis filter_append less_imp_le max.strict_coboundedI1 zero_less_nat_eq zero_less_one)
    finally show ?thesis by (simp only: filter_skip_blanks)
  next
    case False
    then have "filter not_blank (drop start val) = []"
      using filter_skip_blanks [of val start] by simp
    then show ?thesis using False by (simp add: value_lines.simps Let_def)
  qed
qed

lemma value_lines_width:
  "line \<in> set (value_lines val w start) \<Longrightarrow> length line \<le> nat (max 1 w)"
proof (induction val w start rule: value_lines.induct)
  case (1 val w start)
  let ?s = "skip_blanks val start" and ?lw = "nat (max 1 w)"
  let ?e = "value_line_end val ?lw ?s"
  show ?case
  proof (cases "?s < length val")
    case True
    consider "line = trim_right (take (?e - ?s) (drop ?s val))" | "line \<in> set (value_lines val w ?e)"
      using "1.prems" True by (subst (asm) value_lines.simps) (auto simp: Let_def)
    then show ?thesis
    proof cases
      case 1
      have "length line \<le> length (take (?e - ?s) (drop ?s val))"
        unfolding 1 by (rule trim_right_length)
      then have "length line \<le> ?e - ?s" by simp
      moreover have "?e \<le> ?s + ?lw" using value_line_end_bounds(3) [OF True, of ?lw] by simp
      ultimately show ?thesis by linarith
    next
      case 2
      then show ?thesis using "1.IH" [OF refl refl True] by blast
    qed
  next
    case False
    then show ?thesis using "1.prems" by (simp add: value_lines.simps Let_def)
  qed
qed

text \<open>C40: Wrapping terminates and loses nothing: the lines of a wrapped topic path put together are
  the path, the lines of a wrapped value carry all its non-blank characters in order, and no line
  is wider than asked for.\<close>

theorem wrapping_lossless:
  "(val \<noteq> [] \<longrightarrow> concat (WrappedPath val w) = val) \<and>
   list_all (\<lambda>line. int (length line) \<le> max 8 w) (WrappedPath val w) \<and>
   filter not_blank (concat (WrapValue val w)) = filter not_blank val \<and>
   list_all (\<lambda>line. int (length line) \<le> max 1 w) (WrapValue val w)"
proof (intro conjI impI)
  show "concat (WrappedPath val w) = val" if "val \<noteq> []"
    using that concat_path_lines [of val w 0] by (auto simp: WrappedPath_def Let_def)
  show "list_all (\<lambda>line. int (length line) \<le> max 8 w) (WrappedPath val w)"
    using path_lines_width [of _ val w 0] by (force simp: WrappedPath_def Let_def list_all_iff)
  show "filter not_blank (concat (WrapValue val w)) = filter not_blank val"
    using value_lines_filter [of val w 0] by (auto simp: WrapValue_def Let_def)
  show "list_all (\<lambda>line. int (length line) \<le> max 1 w) (WrapValue val w)"
    using value_lines_width [of _ val w 0] by (force simp: WrapValue_def Let_def list_all_iff)
qed

lemma wrapping_lossless_witness:
  "WrappedPath ''/drone_1/camera/image_raw'' 10 = [''/drone_1'', ''/camera'', ''/image_raw''] \<and>
   concat (WrappedPath ''/drone_1/camera/image_raw'' 10) = ''/drone_1/camera/image_raw''"
proof
  show "WrappedPath ''/drone_1/camera/image_raw'' 10 = [''/drone_1'', ''/camera'', ''/image_raw'']"
    by code_simp
  show "concat (WrappedPath ''/drone_1/camera/image_raw'' 10) = ''/drone_1/camera/image_raw''"
    using wrapping_lossless [of "''/drone_1/camera/image_raw''" 10] by simp
qed

end
