(* ===== verification/Tui_State.thy ===== *)
theory Tui_State
  imports Config_Loader Diagnostics_Cache Tui_Text "HOL-Library.Signed_Division"
begin

text \<open>
  The state of the terminal UI and what it shows of the diagnostics: \<^verbatim>\<open>src/tui/history_store.cpp\<close>,
  \<^verbatim>\<open>log_store.cpp\<close>, \<^verbatim>\<open>app.cpp\<close> and the computing parts of the screens;
  a \<^verbatim>\<open>float\<close> is a \<open>real\<close>, printing a number with a fixed precision is a parameter.
\<close>

section \<open>Ring buffers\<close>

text \<open>Appending to a deque and popping its front while it is too long.\<close>

definition ring_push :: "nat \<Rightarrow> 'a list \<Rightarrow> 'a \<Rightarrow> 'a list" where
  "ring_push capacity xs x = (let ys = xs @ [x] in drop (length ys - capacity) ys)"

lemma ring_push_run: "foldl (ring_push capacity) [] xs = drop (length xs - capacity) xs"
proof (induction xs rule: rev_induct)
  case (snoc x xs)
  let ?n = "length xs - capacity"
  have "foldl (ring_push capacity) [] (xs @ [x]) = ring_push capacity (drop ?n xs) x"
    using snoc by simp
  also have "\<dots> = drop (length (drop ?n xs @ [x]) - capacity) (drop ?n (xs @ [x]))"
    by (simp add: ring_push_def Let_def)
  also have "\<dots> = drop (length (xs @ [x]) - capacity) (xs @ [x])"
    unfolding drop_drop by (rule arg_cong [where f = "\<lambda>n. drop n (xs @ [x])"]) auto
  finally show ?case .
qed simp

section \<open>Bandwidth history\<close>

record HistoryStore =
  hs_total :: "real list"
  hs_per_key :: "real list smap"
  hs_sample_count :: nat

definition history_capacity :: nat where
  "history_capacity = 120"

definition empty_history :: HistoryStore where
  "empty_history = \<lparr>hs_total = [], hs_per_key = [], hs_sample_count = 0\<rparr>"

definition IsTopicRow :: "NetworkInfo \<Rightarrow> bool" where
  "IsTopicRow info \<longleftrightarrow> ni_msg_type info \<noteq> ''transport'' \<and> ni_msg_type info \<noteq> ''presence''"

definition series_of :: "real list smap \<Rightarrow> string \<Rightarrow> real list" where
  "series_of m key = (case mfind m key of None \<Rightarrow> [] | Some s \<Rightarrow> s)"

fun sample_rows :: "NetworkInfo list \<Rightarrow> real \<Rightarrow> real list smap \<Rightarrow> real \<times> real list smap" where
  "sample_rows [] acc m = (acc, m)"
| "sample_rows (info # rows) acc m =
     (if \<not> IsTopicRow info then sample_rows rows acc m
      else sample_rows rows (acc + ni_bandwidth_kbps info)
             (mset_at (ni_name info)
                (ring_push history_capacity (series_of m (ni_name info)) (ni_bandwidth_kbps info)) m))"

definition Sample :: "NetworkInfo list \<Rightarrow> HistoryStore \<Rightarrow> HistoryStore" where
  "Sample snapshot h =
     (let (acc, m) = sample_rows snapshot 0 (hs_per_key h)
      in \<lparr>hs_total = ring_push history_capacity (hs_total h) acc, hs_per_key = m,
          hs_sample_count = hs_sample_count h + 1\<rparr>)"

definition TotalBandwidthKbps :: "HistoryStore \<Rightarrow> real list" where
  "TotalBandwidthKbps h = hs_total h"

definition merge_series :: "real list \<Rightarrow> real list \<Rightarrow> real list" where
  "merge_series merged other =
     (if merged = [] then other
      else
        let overlap = min (length merged) (length other)
        in take (length merged - overlap) merged @
           map2 max (drop (length merged - overlap) merged) (drop (length other - overlap) other))"

fun BandwidthKbps :: "HistoryStore \<Rightarrow> string list \<Rightarrow> real list \<Rightarrow> real list" where
  "BandwidthKbps h [] merged = merged"
| "BandwidthKbps h (key # keys) merged =
     BandwidthKbps h keys
       (case mfind (hs_per_key h) key of None \<Rightarrow> merged | Some s \<Rightarrow> merge_series merged s)"

definition LatestTotalKbps :: "HistoryStore \<Rightarrow> real" where
  "LatestTotalKbps h = (if hs_total h = [] then 0 else last (hs_total h))"

text \<open>The columns of \<^verbatim>\<open>Sparkline\<close> for a graph of a given size; \<open>safe_peak\<close> is the scale.\<close>

definition sparkline_index :: "real list \<Rightarrow> nat \<Rightarrow> nat \<Rightarrow> nat" where
  "sparkline_index samples width x =
     (if length samples \<ge> width then length samples - (width - x) else x)"

definition sparkline_columns :: "real list \<Rightarrow> real \<Rightarrow> int \<Rightarrow> int \<Rightarrow> int list" where
  "sparkline_columns samples safe_peak width height =
     (if samples = [] \<or> width \<le> 0 then replicate (nat width) 0
      else
        map (\<lambda>x.
          let index = sparkline_index samples (nat width) x in
          if index \<ge> length samples then 0
          else
            let v = max 0 (min 1 (samples ! index / safe_peak)) * real_of_int height
            in if v < 0 then \<lceil>v\<rceil> else \<lfloor>v\<rfloor>) [0..<nat width])"

text \<open>A full window ends with the newest sample; a window with fewer samples than columns starts with
  the oldest one, at the left edge.\<close>

lemma sparkline_alignment:
  "0 < w \<Longrightarrow> w \<le> length samples \<Longrightarrow> sparkline_index samples w (w - 1) = length samples - 1"
  "length samples < w \<Longrightarrow> sparkline_index samples w x = x"
  by (auto simp: sparkline_index_def)

section \<open>Log records\<close>

record LogRecord =
  lr_stamp :: string
  lr_level :: string
  lr_node :: string
  lr_message :: string

definition log_capacity :: nat where
  "log_capacity = 500"

definition LevelRank :: "string \<Rightarrow> int" where
  "LevelRank level =
     (if level = ''INFO'' \<or> level = ''Info'' then 10
      else if level = ''WARN'' \<or> level = ''Warn'' then 20
      else if level = ''ERROR'' \<or> level = ''Error'' \<or> level = ''FATAL'' then 30 else 0)"

definition Append :: "LogRecord \<Rightarrow> LogRecord list \<Rightarrow> LogRecord list" where
  "Append r records = ring_push log_capacity records r"

definition Records :: "string \<Rightarrow> LogRecord list \<Rightarrow> LogRecord list" where
  "Records min_level records = filter (\<lambda>r. LevelRank (lr_level r) \<ge> LevelRank min_level) records"

definition TotalCount :: "LogRecord list \<Rightarrow> nat" where
  "TotalCount records = length records"

text \<open>\<^verbatim>\<open>LevelToString\<close> of the UI's main program, for the levels of \<^verbatim>\<open>rosgraph_msgs/Log\<close>.\<close>

definition LevelToString :: "byte \<Rightarrow> string" where
  "LevelToString level =
     (if level = 1 then ''DEBUG'' else if level = 2 then ''INFO'' else if level = 4 then ''WARN''
      else if level = 8 then ''ERROR'' else if level = 16 then ''FATAL'' else ''DEBUG'')"

lemma Records_run:
  "Records lvl (foldl (\<lambda>s r. Append r s) [] rs) =
     filter (\<lambda>r. LevelRank (lr_level r) \<ge> LevelRank lvl) (drop (length rs - 500) rs)"
  using ring_push_run [of log_capacity rs] by (simp add: Records_def Append_def log_capacity_def)

section \<open>Layout\<close>

datatype LayoutMode = kCompact | kMedium | kWide

record LayoutContext =
  lc_terminal_width :: int
  lc_terminal_height :: int
  lc_content_width :: int
  lc_content_height :: int
  lc_short_height :: bool
  lc_mode :: LayoutMode

definition MakeLayoutContext :: "int \<Rightarrow> int \<Rightarrow> LayoutContext" where
  "MakeLayoutContext width height =
     (let terminal_width = (if width > 0 then width else 80);
          terminal_height = (if height > 0 then height else 24);
          content_height = max 1 (terminal_height - 5)
      in \<lparr>lc_terminal_width = terminal_width, lc_terminal_height = terminal_height,
          lc_content_width = terminal_width, lc_content_height = content_height,
          lc_short_height = (content_height < 18),
          lc_mode = (if terminal_width < 72 \<or> content_height < 14 then kCompact
                     else if terminal_width \<ge> 104 \<and> content_height \<ge> 22 then kWide else kMedium)\<rparr>)"

record TopicPaneGeometry =
  tg_split :: bool
  tg_detailed_columns :: bool
  tg_matrix_width :: int
  tg_matrix_inner_width :: int
  tg_inspector_width :: int
  tg_name_width :: int

definition MakeTopicPaneGeometry :: "LayoutContext \<Rightarrow> TopicPaneGeometry" where
  "MakeTopicPaneGeometry layout =
     (let compact = (lc_mode layout = kCompact);
          split = (lc_content_width layout \<ge> 120 \<and> lc_content_height layout \<ge> 22);
          inspector_width =
            (if split then max 40 (min 48 (lc_content_width layout sdiv 3)) else lc_content_width layout);
          matrix_width =
            (if split then lc_content_width layout - inspector_width else lc_content_width layout);
          panel_chrome = (if compact \<and> lc_short_height layout then 0 else 2);
          matrix_inner_width = max 1 (matrix_width - panel_chrome);
          detailed_columns = (\<not> compact \<and> matrix_inner_width \<ge> 70)
      in \<lparr>tg_split = split, tg_detailed_columns = detailed_columns, tg_matrix_width = matrix_width,
          tg_matrix_inner_width = matrix_inner_width, tg_inspector_width = inspector_width,
          tg_name_width = max 8 (matrix_inner_width - (if detailed_columns then 49 else 17))\<rparr>)"

text \<open>The log screen: the width of the line, of its four columns, and the records shown.\<close>

definition log_body_width :: "LayoutContext \<Rightarrow> int" where
  "log_body_width layout =
     max 1 (lc_content_width layout -
       (if lc_mode layout = kCompact \<and> lc_short_height layout then 0 else 2))"

definition log_columns :: "LayoutContext \<Rightarrow> int \<times> int \<times> int \<times> int" where
  "log_columns layout =
     (let body_width = log_body_width layout;
          stamp_width = (if body_width < 56 then 9 else 11); level_width = 7;
          node_width = (if body_width \<ge> 100 then 20 else if body_width \<ge> 72 then 16
                        else if body_width \<ge> 56 then 12 else 0)
      in (stamp_width, level_width, node_width,
          max 4 (body_width - stamp_width - level_width - node_width)))"

definition visible_records :: "LayoutContext \<Rightarrow> 'r list \<Rightarrow> 'r list" where
  "visible_records layout records =
     (let visible_capacity =
            nat (max 1 (lc_content_height layout -
              (if lc_mode layout = kCompact \<and> lc_short_height layout then 1 else 9)))
      in drop (if length records > visible_capacity then length records - visible_capacity else 0)
           records)"

lemma geometry_fits:
  assumes "tg_split (MakeTopicPaneGeometry layout)"
  shows "tg_matrix_width (MakeTopicPaneGeometry layout) +
      tg_inspector_width (MakeTopicPaneGeometry layout) = lc_content_width layout"
  using assms unfolding MakeTopicPaneGeometry_def Let_def by simp

lemma log_columns_fit:
  assumes "20 \<le> log_body_width layout" and "log_columns layout = (a, b, c, d)"
  shows "a + b + c + d = log_body_width layout"
  using assms by (auto simp: log_columns_def Let_def split: if_splits)

lemma visible_records_suffix:
  "visible_records layout rs = drop (length rs - length (visible_records layout rs)) rs"
  "int (length (visible_records layout rs)) \<le> max 1 (lc_content_height layout)"
  by (auto simp: visible_records_def Let_def)

section \<open>Labels\<close>

definition CodecLabel :: "TopicRule \<Rightarrow> string" where
  "CodecLabel topic =
     (if tr_msg_type topic \<noteq> ''sensor_msgs/PointCloud2'' then ''-'' else tr_cloud_codec topic)"

definition TransportLabel :: "BridgeConfig \<Rightarrow> TopicRule \<Rightarrow> string" where
  "TransportLabel config topic =
     (let i = iso_enabled (zo_image_session (bc_zenoh config));
          c = cso_enabled (zo_cloud_session (bc_zenoh config))
      in if i \<and> tr_msg_type topic = ''sensor_msgs/Image'' then ''Zenoh / UDP''
         else if c \<and> tr_msg_type topic = ''sensor_msgs/PointCloud2'' then ''Zenoh / dedicated TCP''
         else if i \<or> c then ''Zenoh / TCP'' else ''Zenoh'')"

definition PressureLabel :: "real \<Rightarrow> string" where
  "PressureLabel bandwidth_kbps =
     (if bandwidth_kbps \<le> 0 then ''IDLE'' else if bandwidth_kbps < 256 then ''LOW''
      else if bandwidth_kbps < 2048 then ''MID'' else ''HIGH'')"

definition SessionShortName :: "NetworkInfo \<Rightarrow> string" where
  "SessionShortName info =
     (let name = (if ni_direction info = [] then ni_name info else ni_direction info)
      in if name = [] then ni_name info else name)"

text \<open>The names under which the diagnostics may list a configured topic.\<close>

definition TopicAliases :: "TopicRule \<Rightarrow> string list" where
  "TopicAliases topic =
     tr_topic_name topic #
     (if tr_same_prefix topic then [''/bridge'' @ tr_topic_name topic]
      else if tr_prefix topic then map (\<lambda>host. ''/'' @ host @ tr_topic_name topic) (tr_src_hosts topic)
      else [])"

text \<open>\<open>fixed p v\<close> prints \<open>v\<close> with \<open>p\<close> digits after the point.\<close>

definition FormatMetric :: "(nat \<Rightarrow> real \<Rightarrow> string) \<Rightarrow> real \<Rightarrow> string \<Rightarrow> string" where
  "FormatMetric fixed_digits v unit_name =
     (if v < 0 then ''--'' else fixed_digits (if v \<ge> 100 then 0 else 1) v @ unit_name)"

end
