(* ===== verification/Tui_App.thy ===== *)
theory Tui_App
  imports Tui_State "HOL-Library.Multiset"
begin

text \<open>
  What the terminal UI computes from the diagnostics (\<^verbatim>\<open>src/tui/overview_screen.cpp\<close>,
  \<^verbatim>\<open>hosts_screen.cpp\<close>) and its main loop (\<^verbatim>\<open>src/tui/app.cpp\<close>): the render tick and the keyboard
  state machine.  A null cache pointer is \<open>None\<close>.
\<close>

section \<open>Overview\<close>

record OverviewStats =
  os_unhealthy_topics :: nat
  os_avg_latency_ms :: real
  os_avg_stability :: real

definition fresh :: "nat \<Rightarrow> DiagnosticsCache option \<Rightarrow> bool" where
  "fresh now c = (case c of None \<Rightarrow> False | Some c \<Rightarrow> IsFresh now 2500 c)"

definition unhealthy :: "NetworkInfo \<Rightarrow> bool" where
  "unhealthy item \<longleftrightarrow> ni_stability_score item < 80 \<or> ni_last_recv_age_ms item > 3000"

text \<open>The sums of the loop: topics, unhealthy ones, stability, topics with a latency, latency.\<close>

fun overview_sums ::
  "NetworkInfo list \<Rightarrow> nat \<times> nat \<times> real \<times> nat \<times> real \<Rightarrow> nat \<times> nat \<times> real \<times> nat \<times> real" where
  "overview_sums [] acc = acc"
| "overview_sums (item # items) (topics, bad, stability, measured, latency) =
     overview_sums items
       (if \<not> IsTopicRow item then (topics, bad, stability, measured, latency)
        else
          (topics + 1, if unhealthy item then bad + 1 else bad,
           stability + ni_stability_score item,
           if ni_avg_latency_ms item > 0 then measured + 1 else measured,
           if ni_avg_latency_ms item > 0 then latency + ni_avg_latency_ms item else latency))"

definition BuildOverviewStats :: "nat \<Rightarrow> DiagnosticsCache option \<Rightarrow> OverviewStats" where
  "BuildOverviewStats now c =
     (if \<not> fresh now c then
        \<lparr>os_unhealthy_topics = 0, os_avg_latency_ms = 0, os_avg_stability = 100\<rparr>
      else
        case overview_sums (Snapshot (the c)) (0, 0, 0, 0, 0) of
          (topics, bad, stability, measured, latency) \<Rightarrow>
            \<lparr>os_unhealthy_topics = bad,
             os_avg_latency_ms = (if measured = 0 then 0 else latency / real measured),
             os_avg_stability = (if topics = 0 then 100 else stability / real topics)\<rparr>)"

record AlertRow =
  ar_name :: string
  ar_reason :: string
  ar_severity :: real

definition alert_reasons :: "(nat \<Rightarrow> real \<Rightarrow> string) \<Rightarrow> NetworkInfo \<Rightarrow> string list" where
  "alert_reasons fixed_digits item =
     (if ni_stability_score item < 80
      then [FormatMetric fixed_digits (ni_stability_score item) ''% stability''] else []) @
     (if ni_last_recv_age_ms item > 3000
      then [''stale '' @ FormatMetric fixed_digits (ni_last_recv_age_ms item / 1000) ''s''] else [])"

text \<open>The middle dot between two reasons, in UTF-8.\<close>

definition middle_dot :: string where
  "middle_dot = [CHR '' '', char_of (194 :: nat), char_of (183 :: nat), CHR '' '']"

definition alert_row :: "(nat \<Rightarrow> real \<Rightarrow> string) \<Rightarrow> NetworkInfo \<Rightarrow> AlertRow option" where
  "alert_row fixed_digits item =
     (if \<not> IsTopicRow item then None
      else
        case alert_reasons fixed_digits item of
          [] \<Rightarrow> None
        | r # rs \<Rightarrow>
            Some \<lparr>ar_name = ni_name item,
                  ar_reason = foldl (\<lambda>joined reason. joined @ middle_dot @ reason) r rs,
                  ar_severity =
                    (let s = (if ni_stability_score item < 80
                              then max 0 (100 - ni_stability_score item) else 0)
                     in if ni_last_recv_age_ms item > 3000 then max s 50 else s)\<rparr>)"

definition alert_rows ::
  "(nat \<Rightarrow> real \<Rightarrow> string) \<Rightarrow> nat \<Rightarrow> DiagnosticsCache option \<Rightarrow> AlertRow list" where
  "alert_rows fixed_digits now c =
     (if \<not> fresh now c then [] else List.map_filter (alert_row fixed_digits) (Snapshot (the c)))"

text \<open>\<^verbatim>\<open>BuildAlerts\<close> sorts the rows with \<^verbatim>\<open>std::sort\<close>, which does not fix the order of equal severities:
  the results it may have.\<close>

definition BuildAlerts ::
  "(nat \<Rightarrow> real \<Rightarrow> string) \<Rightarrow> nat \<Rightarrow> DiagnosticsCache option \<Rightarrow> AlertRow list \<Rightarrow> bool" where
  "BuildAlerts fixed_digits now c alerts \<longleftrightarrow>
     mset alerts = mset (alert_rows fixed_digits now c) \<and>
     sorted_wrt (\<lambda>a b. ar_severity b \<le> ar_severity a) alerts"

section \<open>Nodes\<close>

definition reserved_host :: "string \<Rightarrow> bool" where
  "reserved_host h \<longleftrightarrow> h = ''all'' \<or> h = ''all_drone''"

text \<open>The \<^verbatim>\<open>std::set\<close> of the configured and the observed hosts, in its order.\<close>

definition node_names :: "BridgeConfig \<Rightarrow> DiagnosticsCache option \<Rightarrow> string list" where
  "node_names config c =
     (let configured = filter (\<lambda>h. \<not> reserved_host h) (map fst (bc_ip_map config));
          observed = (case c of None \<Rightarrow> []
            | Some c \<Rightarrow> filter (\<lambda>h. h \<noteq> []) (map ni_node_hostname (NodeSnapshot c)))
      in map fst (foldl (\<lambda>m h. mset_at h () m) [] (configured @ observed)))"

text \<open>How many of some hosts are online, offline and unknown, looked up one by one.\<close>

fun host_counts ::
  "nat \<Rightarrow> DiagnosticsCache option \<Rightarrow> string list \<Rightarrow> nat \<times> nat \<times> nat \<Rightarrow> nat \<times> nat \<times> nat" where
  "host_counts now c [] counts = counts"
| "host_counts now c (hostname # hosts) (online, offline, unknown) =
     host_counts now c hosts
       (case c of
          None \<Rightarrow> (online, offline, unknown + 1)
        | Some cache \<Rightarrow>
            (case LookupNode now hostname (Some default_info) cache of
               (True, Some presence) \<Rightarrow>
                 if ni_node_online presence then (online + 1, offline, unknown)
                 else (online, offline + 1, unknown)
             | _ \<Rightarrow> (online, offline, unknown + 1)))"

section \<open>The application\<close>

record ViewState =
  vs_selected_nav :: int
  vs_selected_topic :: int
  vs_selected_host :: int
  vs_selected_log_level :: int
  vs_show_help :: bool
  vs_show_quit_confirm :: bool
  vs_animation_frame :: int
  vs_nav_items :: "string list"
  vs_log_levels :: "string list"

definition initial_view :: ViewState where
  "initial_view =
     \<lparr>vs_selected_nav = 0, vs_selected_topic = 0, vs_selected_host = 0, vs_selected_log_level = 0,
      vs_show_help = False, vs_show_quit_confirm = False, vs_animation_frame = 0,
      vs_nav_items = [''Overview'', ''Topics'', ''Hosts'', ''Logs''],
      vs_log_levels = [''All'', ''Info'', ''Warn'', ''Error'']\<rparr>"

text \<open>Incrementing an \<^verbatim>\<open>int\<close> at its maximum is undefined (\<open>None\<close>); the test for a negative value
  comes after it.\<close>

definition AdvanceFrame :: "ViewState \<Rightarrow> ViewState option" where
  "AdvanceFrame s =
     (if vs_animation_frame s = 2 ^ 31 - 1 then None
      else
        let frame = vs_animation_frame s + 1
        in Some (s\<lparr>vs_animation_frame := (if frame < 0 then 0 else frame)\<rparr>))"

record App =
  app_config :: BridgeConfig
  app_cache :: "DiagnosticsCache option"
  app_history :: HistoryStore
  app_state :: ViewState
  app_host_entries :: "string list"
  app_topic_entries :: "string list"
  app_last_sample :: int

definition BuildTopicEntries :: "App \<Rightarrow> App" where
  "BuildTopicEntries app = app\<lparr>app_topic_entries := map tr_topic_name (bc_topics (app_config app))\<rparr>"

definition BuildHostEntries :: "App \<Rightarrow> App" where
  "BuildHostEntries app =
     (let entries = node_names (app_config app) (app_cache app);
          s = app_state app
      in app\<lparr>app_host_entries := entries,
             app_state := s\<lparr>vs_selected_host :=
               (if entries = [] then 0
                else min (vs_selected_host s) (sint (of_nat (length entries - 1) :: 32 word)))\<rparr>\<rparr>)"

text \<open>The constructor and the first lines of \<^verbatim>\<open>Run\<close>; the clock is in nanoseconds.\<close>

definition App_start :: "int \<Rightarrow> BridgeConfig \<Rightarrow> DiagnosticsCache option \<Rightarrow> App" where
  "App_start now config c =
     BuildHostEntries (BuildTopicEntries
       \<lparr>app_config = config, app_cache = c, app_history = empty_history, app_state = initial_view,
        app_host_entries = [], app_topic_entries = [], app_last_sample = now - 1000000000\<rparr>)"

text \<open>What a call of the renderer does to the state: the bandwidth is sampled twice a second.\<close>

definition render_tick :: "nat \<Rightarrow> App \<Rightarrow> App option" where
  "render_tick now app =
     map_option (\<lambda>s.
       let app = BuildHostEntries (app\<lparr>app_state := s\<rparr>)
       in if int now - app_last_sample app \<ge> 500000000 then
            app\<lparr>app_last_sample := int now,
                app_history := (if fresh now (app_cache app)
                                then Sample (Snapshot (the (app_cache app))) (app_history app)
                                else app_history app)\<rparr>
          else app)
     (AdvanceFrame (app_state app))"

text \<open>An event is its characters, the bytes the terminal sent; events are compared by them.\<close>

record UiEvent =
  ev_character :: string

definition ev_is_escape :: "UiEvent \<Rightarrow> bool" where
  "ev_is_escape e \<longleftrightarrow> ev_character e = [char_of (27 :: nat)]"

datatype EventOutcome = ExitLoop | Consumed ViewState | PassedOn ViewState

definition nav_key :: "string \<Rightarrow> int option" where
  "nav_key k = map_option int (List.find (\<lambda>i. k = [char_of (49 + i)]) [0..<4])"

definition on_event :: "UiEvent \<Rightarrow> ViewState \<Rightarrow> EventOutcome" where
  "on_event event s =
     (let k = ev_character event in
      if vs_show_quit_confirm s then
        (if k = ''q'' then ExitLoop else Consumed (s\<lparr>vs_show_quit_confirm := False\<rparr>))
      else if vs_show_help s then
        (if k = ''?'' \<or> ev_is_escape event then Consumed (s\<lparr>vs_show_help := False\<rparr>) else Consumed s)
      else if k = ''?'' then Consumed (s\<lparr>vs_show_help := True\<rparr>)
      else if k = ''q'' then Consumed (s\<lparr>vs_show_quit_confirm := True\<rparr>)
      else if k = ''f'' \<and> vs_selected_nav s = 3 then
        Consumed (s\<lparr>vs_selected_log_level :=
          (vs_selected_log_level s + 1) smod int (length (vs_log_levels s))\<rparr>)
      else
        case nav_key k of
          Some i \<Rightarrow> Consumed (s\<lparr>vs_selected_nav := i\<rparr>)
        | None \<Rightarrow> PassedOn s)"




section \<open>Quitting\<close>











section \<open>The view stays in range\<close>

definition view_ok :: "ViewState \<Rightarrow> bool" where
  "view_ok s \<longleftrightarrow> 0 \<le> vs_selected_nav s \<and> vs_selected_nav s < 4 \<and>
     0 \<le> vs_selected_log_level s \<and> vs_selected_log_level s < int (length (vs_log_levels s)) \<and>
     \<not> (vs_show_help s \<and> vs_show_quit_confirm s)"

lemma nav_key_range: "nav_key k = Some i \<Longrightarrow> 0 \<le> i \<and> i < 4"
proof -
  assume "nav_key k = Some i"
  then obtain n where n: "List.find (\<lambda>i. k = [char_of (49 + i)]) [0..<4] = Some n" "i = int n"
    unfolding nav_key_def by blast
  then have "n \<in> set [0..<4]" unfolding find_Some_iff by (metis nth_mem)
  then show ?thesis using n(2) by simp
qed

lemma on_event_ok:
  assumes "view_ok s" and "on_event e s = Consumed s' \<or> on_event e s = PassedOn s'"
  shows "view_ok s' \<and> vs_log_levels s' = vs_log_levels s"
proof -
  let ?n = "int (length (vs_log_levels s))"
  have n: "0 < ?n" and l: "0 \<le> vs_selected_log_level s" using assms(1) by (auto simp: view_ok_def)
  then have "(vs_selected_log_level s + 1) smod ?n = (vs_selected_log_level s + 1) mod ?n"
    by (simp add: smod_int_alt_def)
  then have "0 \<le> (vs_selected_log_level s + 1) smod ?n" "(vs_selected_log_level s + 1) smod ?n < ?n"
    using pos_mod_sign [OF n] pos_mod_bound [OF n] by simp_all
  then show ?thesis
    using assms by (auto simp: on_event_def view_ok_def Let_def split: option.splits if_splits dest: nav_key_range)
qed

end
