(* ===== verification/Tui_Properties.thy ===== *)
theory Tui_Properties
  imports Tui_App Node_Topology
begin

text \<open>
  What the terminal UI shows against what the bridge does: both read the same parameters with their
  own code, and the UI finds a topic in the diagnostics only under the names it computes itself.
\<close>

section \<open>Two readings of one topic rule\<close>

text \<open>What \<^verbatim>\<open>XmlRpcValue\<close> documents of the casts of constant values: a string cast is the one of the
  overload for mutable values, a \<^verbatim>\<open>bool\<close> is only cast from a \<^verbatim>\<open>bool\<close>.\<close>

definition const_casts_ok :: "XmlRpcLib \<Rightarrow> bool" where
  "const_casts_ok lib \<longleftrightarrow>
     (\<forall>v s. xr_string_const lib v = Some s \<longrightarrow> xr_string lib v = Some s) \<and>
     (\<forall>v b. xr_bool lib v = Some b \<longrightarrow> v = XBool b)"

lemma const_casts_string:
  "const_casts_ok lib \<Longrightarrow> cast_string_const lib v = Inr s \<Longrightarrow> cast_string lib v = Inr s"
  by (auto simp: const_casts_ok_def cast_string_def cast_string_const_def or_throw_def split: option.splits)

lemma const_casts_bool:
  "const_casts_ok lib \<Longrightarrow> GetBoolMember lib x key d = Inr b \<Longrightarrow> opt_bool lib x key f d = Inr b' \<Longrightarrow> b = b'"
proof -
  assume ok: "const_casts_ok lib" and g: "GetBoolMember lib x key d = Inr b"
    and o: "opt_bool lib x key f d = Inr b'"
  show "b = b'"
  proof (cases "has_member x key")
    case True
    then obtain v where v: "member lib x key = Inr v" "cast_bool lib v = Inr b"
      using g by (auto simp: GetBoolMember_def bindR_Inr_iff)
    then have "xr_bool lib v = Some b" by (simp add: cast_bool_def or_throw_def split: option.splits)
    then have "v = XBool b" using ok unfolding const_casts_ok_def by blast
    then show ?thesis using v True o by (simp add: opt_bool_def opt_member_def XmlRpcToBool_def)
  next
    case False
    then show ?thesis using g o by (simp add: GetBoolMember_def opt_bool_def opt_member_def)
  qed
qed

lemma load_topic_rule_parts:
  assumes "load_topic_rule lib x = Inr r"
  shows "(\<exists>v. member lib x ''topic_name'' = Inr v \<and> cast_string_const lib v = Inr (tr_topic_name r)) \<and>
    (\<exists>v. member lib x ''msg_type'' = Inr v \<and> cast_string_const lib v = Inr (tr_msg_type r)) \<and>
    GetBoolMember lib x ''prefix'' True = Inr (tr_prefix r) \<and>
    GetBoolMember lib x ''same_prefix'' False = Inr (tr_same_prefix r)"
proof -
  have d: "tr_prefix default_topic_rule = True" "tr_same_prefix default_topic_rule = False"
    by (simp_all add: default_topic_rule_def)
  show ?thesis
    using assms unfolding load_topic_rule_def Let_def d
    by (elim bindR_InrE) (drule Inr_inject, hypsubst, simp)
qed

lemma load_topic_base_parts:
  assumes "load_topic_base lib h sm dm x = Inr t"
  shows "(\<exists>v. member lib x ''topic_name'' = Inr v \<and> cast_string lib v = Inr (tc_name t)) \<and>
    (\<exists>v. member lib x ''msg_type'' = Inr v \<and> cast_string lib v = Inr (tc_type t)) \<and>
    opt_bool lib x ''prefix'' True True = Inr (tc_has_prefix t) \<and>
    opt_bool lib x ''same_prefix'' False False = Inr (tc_same_prefix t)"
  using assms unfolding load_topic_base_def case_prod_beta
  by (elim bindR_InrE throwIf_InrE) (drule Inr_inject, hypsubst, simp)

definition same_names :: "TopicCfg \<Rightarrow> TopicCfg \<Rightarrow> bool" where
  "same_names t t' \<longleftrightarrow> tc_name t' = tc_name t \<and> tc_type t' = tc_type t \<and>
     tc_has_prefix t' = tc_has_prefix t \<and> tc_same_prefix t' = tc_same_prefix t"

lemma load_image_topic_names: "load_image_topic lib x t = Inr t' \<Longrightarrow> same_names t t'"
  unfolding load_image_topic_def Let_def same_names_def
  by (elim bindR_InrE) (drule Inr_inject, hypsubst, simp)

lemma load_cloud_topic_names: "load_cloud_topic lib x t = Inr t' \<Longrightarrow> same_names t t'"
  unfolding load_cloud_topic_def Let_def same_names_def
  by (elim bindR_InrE) (drule Inr_inject, hypsubst, simp)

lemma load_topic_cfg_names:
  assumes "load_topic_cfg lib h sm dm x = Inr t"
  shows "\<exists>t0. load_topic_base lib h sm dm x = Inr t0 \<and> same_names t0 t"
proof -
  obtain t0 t1 t2 where 0: "load_topic_base lib h sm dm x = Inr t0"
    and 1: "(if tc_type t0 = ''sensor_msgs/Image'' then load_image_topic lib x t0 else Inr t0) = Inr t1"
    and 2: "(if tc_type t1 = ''sensor_msgs/PointCloud2'' then load_cloud_topic lib x t1 else Inr t1) = Inr t2"
    and 3: "t = t2\<lparr>tc_dynamic_dst := (tc_type t2 \<in> set drone_ids_types)\<rparr>"
    using assms unfolding load_topic_cfg_def by (elim bindR_InrE) auto
  have "same_names t0 t1" using 1 load_image_topic_names
    by (auto simp: same_names_def split: if_splits)
  moreover have "same_names t1 t2" using 2 load_cloud_topic_names
    by (auto simp: same_names_def split: if_splits)
  ultimately have "same_names t0 t" by (simp add: 3 same_names_def)
  then show ?thesis using 0 by blast
qed

lemma readings_agree:
  assumes "const_casts_ok lib" and "load_topic_rule lib x = Inr r" and "load_topic_cfg lib h sm dm x = Inr t"
  shows "tr_topic_name r = tc_name t \<and> tr_msg_type r = tc_type t \<and>
    tr_prefix r = tc_has_prefix t \<and> tr_same_prefix r = tc_same_prefix t"
proof -
  obtain t0 where 0: "load_topic_base lib h sm dm x = Inr t0" and s: "same_names t0 t"
    using load_topic_cfg_names [OF assms(3)] by blast
  note b = load_topic_base_parts [OF 0] and p = load_topic_rule_parts [OF assms(2)]
  have "tr_topic_name r = tc_name t0" "tr_msg_type r = tc_type t0"
    using b p const_casts_string [OF assms(1)] by fastforce+
  moreover have "tr_prefix r = tc_has_prefix t0" "tr_same_prefix r = tc_same_prefix t0"
    using b p const_casts_bool [OF assms(1)] by blast+
  ultimately show ?thesis using s by (simp add: same_names_def)
qed

section \<open>Finding a topic in the diagnostics\<close>

lemma last_dec: "last (dec n) \<noteq> CHR ''}''"
proof -
  have "char_of (48 + k) \<noteq> CHR ''}''" if "k < 10" for k :: nat
  proof
    assume "char_of (48 + k) = CHR ''}''"
    then have "of_char (char_of (48 + k)) = (of_char CHR ''}'' :: nat)" by simp
    then show False using that by simp
  qed
  then show ?thesis by (subst dec.simps) simp
qed

lemma last_dec_int: "last (dec_int i) \<noteq> CHR ''}''"
proof -
  have "dec n \<noteq> []" for n by (subst dec.simps) simp
  then show ?thesis using last_dec by (simp add: dec_int_def)
qed

text \<open>A name with a number in the place of \<open>{id}\<close> does not end like one with \<open>{id}\<close>.\<close>

lemma replaced_id_differs:
  assumes "starts_with drone_prefix n"
  shows "us @ with_drone_id i n \<noteq> vs @ n"
proof
  assume eq: "us @ with_drone_id i n = vs @ n"
  let ?r = "drop (length drone_prefix) n"
  have "n = drone_prefix @ ?r"
    using assms append_take_drop_id [of "length drone_prefix" n] by (simp add: starts_with_def)
  then have "(us @ ''/drone_'' @ dec_int i) @ ?r = (vs @ drone_prefix) @ ?r"
    using eq by (simp add: with_drone_id_def)
  then have "us @ ''/drone_'' @ dec_int i = vs @ drone_prefix" by (simp only: append_same_eq)
  then have "last (us @ ''/drone_'' @ dec_int i) = last (vs @ drone_prefix)" by (rule arg_cong)
  moreover have "dec n \<noteq> []" for n by (subst dec.simps) simp
  then have "dec_int i \<noteq> []" by (simp add: dec_int_def)
  ultimately show False using last_dec_int [of i] by (simp add: drone_prefix_def)
qed

lemma aliases_end: "m \<in> set (TopicAliases r) \<Longrightarrow> \<exists>vs. m = vs @ tr_topic_name r"
  by (auto simp: TopicAliases_def split: if_splits)

lemma recv_topic_cfg_name:
  assumes "recv_topic_cfg lib cfg source b = Inr topic"
  shows "\<exists>name. tc_name topic =
      (if tc_has_prefix cfg \<and> \<not> tc_same_prefix cfg then ''/'' @ source @ name
       else if tc_same_prefix cfg then ''/bridge'' @ name else name) \<and>
    (if starts_with drone_prefix (tc_name cfg) then \<exists>i. name = with_drone_id i (tc_name cfg)
     else name = tc_name cfg)"
proof -
  obtain name where n: "(if \<not> starts_with drone_prefix (tc_name cfg) then Inr (tc_name cfg)
            else if \<not> starts_with ''drone'' source then
              Inl (Throws ''{id} topic source must be a drone host'')
            else
              bindR (if tc_dynamic_dst cfg then Inr (bf_my_drone_id b)
                     else stoi (drop 5 source))
                (\<lambda>i. Inr (with_drone_id i (tc_name cfg)))) = Inr name"
    and t: "tc_name topic =
      (if tc_has_prefix cfg \<and> \<not> tc_same_prefix cfg then ''/'' @ source @ name
       else if tc_same_prefix cfg then ''/bridge'' @ name else name)"
    using assms unfolding recv_topic_cfg_def Let_def
    by (elim bindR_InrE) (drule Inr_inject, hypsubst, simp)
  have "if starts_with drone_prefix (tc_name cfg) then \<exists>i. name = with_drone_id i (tc_name cfg)
     else name = tc_name cfg"
    using n by (auto split: if_splits elim!: bindR_InrE)
  then show ?thesis using t by blast
qed

lemma recv_alias:
  assumes "const_casts_ok lib" and "load_topic_rule lib x = Inr r" and "load_topic_cfg lib h sm dm x = Inr t"
    and "recv_topic_cfg node t source b = Inr topic"
  shows "tc_name topic \<in> set (TopicAliases r) \<longleftrightarrow> \<not> starts_with drone_prefix (tc_name t) \<and>
     (\<not> tc_has_prefix t \<or> tc_same_prefix t \<or> source \<in> set (tr_src_hosts r))"
proof -
  note same = readings_agree [OF assms(1-3)]
  obtain name where name: "tc_name topic =
      (if tc_has_prefix t \<and> \<not> tc_same_prefix t then ''/'' @ source @ name
       else if tc_same_prefix t then ''/bridge'' @ name else name)"
    and n: "if starts_with drone_prefix (tc_name t) then \<exists>i. name = with_drone_id i (tc_name t)
     else name = tc_name t"
    using recv_topic_cfg_name [OF assms(4)] by blast
  show ?thesis
  proof (cases "starts_with drone_prefix (tc_name t)")
    case True
    then obtain i where i: "name = with_drone_id i (tc_name t)" using n by auto
    obtain us where us: "tc_name topic = us @ with_drone_id i (tc_name t)"
      unfolding name i by (metis append.assoc append_Nil)
    have "tc_name topic \<notin> set (TopicAliases r)"
      using aliases_end [of "tc_name topic" r] replaced_id_differs [OF True] same us by auto
    then show ?thesis using True by blast
  next
    case False
    have longer: "c # source @ n \<noteq> n" for c n
    proof
      assume "c # source @ n = n"
      then have "length (c # source @ n) = length n" by simp
      then show False by simp
    qed
    show ?thesis using same longer False n by (auto simp: name TopicAliases_def)
  qed
qed

lemma sender_alias:
  assumes "const_casts_ok lib" and "load_topic_rule lib x = Inr r" and "load_topic_cfg lib h sm dm x = Inr t"
  shows "sender_name b t \<in> set (TopicAliases r) \<longleftrightarrow>
    \<not> (starts_with drone_prefix (tc_name t) \<and> bf_my_drone_id b \<noteq> DRONE_ID_NULL)"
proof (cases "starts_with drone_prefix (tc_name t) \<and> bf_my_drone_id b \<noteq> DRONE_ID_NULL")
  case True
  then have "sender_name b t = [] @ with_drone_id (bf_my_drone_id b) (tc_name t)"
    by (simp add: sender_name_def)
  moreover have "[] @ with_drone_id (bf_my_drone_id b) (tc_name t) \<noteq> vs @ tc_name t" for vs
    using True by (intro replaced_id_differs) simp
  moreover have "tr_topic_name r = tc_name t" using readings_agree [OF assms] by simp
  ultimately have "sender_name b t \<notin> set (TopicAliases r)" using aliases_end by metis
  then show ?thesis using True by blast
next
  case False
  then have "sender_name b t = tc_name t" by (auto simp: sender_name_def)
  then show ?thesis using False readings_agree [OF assms] by (simp add: TopicAliases_def)
qed

lemma first_any_iff: "first_any m ns \<noteq> None \<longleftrightarrow> (\<exists>n \<in> set ns. mfind m n \<noteq> None)"
  by (induction ns) (auto split: option.split)

lemma LookupAny_found:
  "fst (LookupAny now ns (Some old) c) \<longleftrightarrow> IsFresh now 2500 c \<and> (\<exists>n \<in> set ns. mfind (latest c) n \<noteq> None)"
  unfolding first_any_iff [symmetric] by (auto simp: LookupAny_def IsFresh_def split: option.split)

text \<open>C27: The UI looks a topic up under the aliases that it computes from the rule.  It finds an entry
  in a fresh cache exactly when some reported name is among them.  The name under which the sending
  end of a node reports is among them unless the node has put its own number into \<open>{id}\<close>; the
  name of the receiving end for a source is among them exactly when the rule has no \<open>{id}\<close> and the ends
  are not prefixed by host, share the prefix, or the rule lists that source by name.  So a rule with
  an \<open>{id}\<close> shows nothing of a drone, and one that selects its sources with \<open>all\<close> or \<open>all_drone\<close> shows
  no reception.\<close>

theorem alias_coverage:
  assumes "const_casts_ok lib" and "load_topic_rule lib x = Inr r" and "load_topic_cfg lib h sm dm x = Inr t"
  shows "(fst (LookupAny now (TopicAliases r) (Some old) c) \<longleftrightarrow>
      IsFresh now 2500 c \<and> (\<exists>name \<in> set (TopicAliases r). mfind (latest c) name \<noteq> None)) \<and>
    (sender_name b t \<in> set (TopicAliases r) \<longleftrightarrow>
      \<not> (starts_with drone_prefix (tc_name t) \<and> bf_my_drone_id b \<noteq> DRONE_ID_NULL)) \<and>
    (recv_topic_cfg node t source b = Inr topic \<longrightarrow>
      (tc_name topic \<in> set (TopicAliases r) \<longleftrightarrow> \<not> starts_with drone_prefix (tc_name t) \<and>
         (\<not> tc_has_prefix t \<or> tc_same_prefix t \<or> source \<in> set (tr_src_hosts r))))"
  by (intro conjI impI LookupAny_found sender_alias [OF assms] recv_alias [OF assms])

text \<open>The string topic of the sample configuration, from every host.\<close>

definition all_topic_xml :: XmlRpcValue where
  "all_topic_xml = XStruct
     [(''topic_name'', XString ''/chat''), (''msg_type'', XString ''std_msgs/String''),
      (''qos_class'', XString ''command''), (''max_freq'', XInt 20),
      (''srcIP'', XArray [XString ''all'']), (''dstIP'', XArray [XString ''b''])]"

lemma plain_casts: "const_casts_ok plain_xml"
  by (auto simp: const_casts_ok_def plain_xml_def split: XmlRpcValue.splits)

lemma plain_member:
  "member plain_xml (XStruct m) k = Inr (case map_of m k of None \<Rightarrow> XInvalid | Some x \<Rightarrow> x)"
  by (simp add: member_def or_throw_def plain_xml_def)

lemma plain_strings:
  "cast_string plain_xml (XString s) = Inr s" "cast_string_const plain_xml (XString s) = Inr s"
  by (simp_all add: cast_string_def cast_string_const_def or_throw_def plain_xml_def)

lemma all_topic_rule:
  "\<exists>r. load_topic_rule plain_xml all_topic_xml = Inr r \<and> tr_src_hosts r = [''all''] \<and>
     tr_topic_name r = ''/chat''"
  by (simp add: load_topic_rule_def all_topic_xml_def plain_member plain_strings load_member_hosts_def
      LoadHosts_def GetBoolMember_def GetIntMember_def GetDoubleMember_def GetStringMember_def Let_def)

lemma all_topic_cfg:
  "\<exists>t. load_topic_cfg plain_xml ''b'' [(''a'', False), (''b'', False)] [(''a'', False), (''b'', False)]
      all_topic_xml = Inr t \<and> tc_has_prefix t \<and> \<not> tc_same_prefix t \<and> tc_name t = ''/chat''"
proof -
  have s: "expandHostSelection plain_xml (XArray [XString ''all'']) (Some [(''a'', False), (''b'', False)]) =
      Inr [(''a'', True), (''b'', True)]"
    by (simp add: expandHostSelection_def select_host_def plain_strings)
  show ?thesis
    by (simp add: load_topic_cfg_def load_topic_base_def all_topic_xml_def plain_member plain_strings
        opt_bool_def opt_member_def throwIf_def ParseQosClass_def sample_select s drone_ids_types_def)
qed

lemma alias_coverage_witness:
  "\<exists>r t topic node b. load_topic_rule plain_xml all_topic_xml = Inr r \<and>
     load_topic_cfg plain_xml ''b'' [(''a'', False), (''b'', False)] [(''a'', False), (''b'', False)]
       all_topic_xml = Inr t \<and>
     recv_topic_cfg node t ''a'' b = Inr topic \<and> tc_name topic \<notin> set (TopicAliases r)"
proof -
  obtain r where r: "load_topic_rule plain_xml all_topic_xml = Inr r" "tr_src_hosts r = [''all'']"
    using all_topic_rule by blast
  obtain t where t: "load_topic_cfg plain_xml ''b'' [(''a'', False), (''b'', False)]
      [(''a'', False), (''b'', False)] all_topic_xml = Inr t"
    "tc_has_prefix t" "\<not> tc_same_prefix t" "tc_name t = ''/chat''"
    using all_topic_cfg by blast
  have n: "\<not> starts_with drone_prefix (tc_name t)" by (simp add: t(4) starts_with_def drone_prefix_def)
  define node where "node = \<lparr>nl_xml = plain_xml, nl_resolve = Inr, nl_open = (\<lambda>_. True),
    nl_watch = (\<lambda>_. True), nl_announce = (\<lambda>_. True), nl_declare_publisher = (\<lambda>_ _ _. True),
    nl_declare_queryable = (\<lambda>_. Inr ())\<rparr>"
  obtain b topic where p: "recv_topic_cfg node t ''a'' b = Inr topic"
    using n by (simp add: recv_topic_cfg_def node_def)
  have "tc_name topic \<notin> set (TopicAliases r)"
    using alias_coverage [OF plain_casts r(1) t(1)] p t(2,3) r(2) by auto
  then show ?thesis using r(1) t(1) p by blast
qed

end
