(* ===== verification/Ftxui_Layout.thy ===== *)
theory Ftxui_Layout
  imports Prelude "HOL-Library.Signed_Division"
begin

text \<open>
  The documents of the terminal UI and their layout, from the vendored FTXUI sources
  (\<^verbatim>\<open>src/third_party/FTXUI/src/ftxui/dom\<close>): the elements the screens build, the space an element asks
  for (\<^verbatim>\<open>ComputeRequirement\<close>) and the boxes its texts are drawn in (\<^verbatim>\<open>SetBox\<close>).  Splitting a text into
  cells (Unicode tables) and the flexbox of a paragraph are the parameter \<open>m\<close>; pixels, borders' characters
  and the mouse are left out, and sizes are unbounded integers.
\<close>

section \<open>Boxes\<close>

record Box =
  x_min :: int
  x_max :: int
  y_min :: int
  y_max :: int

definition Intersection :: "Box \<Rightarrow> Box \<Rightarrow> Box" where
  "Intersection a b =
     \<lparr>x_min = max (x_min a) (x_min b), x_max = min (x_max a) (x_max b),
      y_min = max (y_min a) (y_min b), y_max = min (y_max a) (y_max b)\<rparr>"

definition Shift :: "int \<Rightarrow> int \<Rightarrow> Box \<Rightarrow> Box" where
  "Shift x y b =
     \<lparr>x_min = x_min b + x, x_max = x_max b + x, y_min = y_min b + y, y_max = y_max b + y\<rparr>"

definition Contain :: "int \<Rightarrow> int \<Rightarrow> Box \<Rightarrow> bool" where
  "Contain x y b \<longleftrightarrow> x_min b \<le> x \<and> x_max b \<ge> x \<and> y_min b \<le> y \<and> y_max b \<ge> y"

section \<open>Distributing space: box_helper\<close>

record BoxElement =
  be_min_size :: int
  be_flex_grow :: int
  be_flex_shrink :: int

definition SafeRatio :: "int \<Rightarrow> int \<Rightarrow> int \<Rightarrow> int" where
  "SafeRatio v numerator denominator = (v * numerator) sdiv max denominator 1"

fun ComputeGrow :: "BoxElement list \<Rightarrow> int \<Rightarrow> int \<Rightarrow> int list" where
  "ComputeGrow [] extra_space flex_grow_sum = []"
| "ComputeGrow (e # es) extra_space flex_grow_sum =
     (let added_space = SafeRatio extra_space (be_flex_grow e) flex_grow_sum
      in (be_min_size e + added_space) #
           ComputeGrow es (extra_space - added_space) (flex_grow_sum - be_flex_grow e))"

fun ComputeShrinkEasy :: "BoxElement list \<Rightarrow> int \<Rightarrow> int \<Rightarrow> int list" where
  "ComputeShrinkEasy [] extra_space flex_shrink_sum = []"
| "ComputeShrinkEasy (e # es) extra_space flex_shrink_sum =
     (let added_space = SafeRatio extra_space (be_min_size e * be_flex_shrink e) flex_shrink_sum
      in (be_min_size e + added_space) #
           ComputeShrinkEasy es (extra_space - added_space)
             (flex_shrink_sum - be_flex_shrink e * be_min_size e))"

fun ComputeShrinkHard :: "BoxElement list \<Rightarrow> int \<Rightarrow> int \<Rightarrow> int list" where
  "ComputeShrinkHard [] extra_space whole = []"
| "ComputeShrinkHard (e # es) extra_space whole =
     (if be_flex_shrink e \<noteq> 0 then 0 # ComputeShrinkHard es extra_space whole
      else
        let added_space = SafeRatio extra_space (be_min_size e) whole
        in (be_min_size e + added_space) #
             ComputeShrinkHard es (extra_space - added_space) (whole - be_min_size e))"

definition Compute :: "BoxElement list \<Rightarrow> int \<Rightarrow> int list" where
  "Compute elements target =
     (let flex_grow_sum = sum_list (map be_flex_grow elements);
          flex_shrink_sum = sum_list (map (\<lambda>e. be_min_size e * be_flex_shrink e) elements);
          flex_shrink_size =
            sum_list (map be_min_size (filter (\<lambda>e. be_flex_shrink e \<noteq> 0) elements));
          whole = sum_list (map be_min_size elements);
          extra_space = target - whole
      in if extra_space \<ge> 0 then ComputeGrow elements extra_space flex_grow_sum
         else if flex_shrink_size + extra_space \<ge> 0
         then ComputeShrinkEasy elements extra_space flex_shrink_sum
         else ComputeShrinkHard elements (extra_space + flex_shrink_size) (whole - flex_shrink_size))"

section \<open>Elements\<close>

datatype Color = RGB int int int | Black

datatype Style = Bold | Dim | Fg Color | Bg Color | ClearUnder

datatype WidthOrHeight = WIDTH | HEIGHT

datatype Constraint = LESS_THAN | EQUAL | GREATER_THAN

text \<open>\<open>Filler\<close> is a \<^verbatim>\<open>Flex\<close> without a child; the four numbers of \<open>Flex\<close> are its factors, \<open>-1\<close> for one that
  is kept; \<open>Styled\<close> stands for the decorators that only change how cells look; \<open>FocusNode\<close> is
  \<^verbatim>\<open>focus\<close>, \<open>Component\<close> the wrapper of \<^verbatim>\<open>ComponentBase::Render\<close>.\<close>

datatype Elem =
    Text string
  | HBox "Elem list"
  | VBox "Elem list"
  | DBox "Elem list"
  | Sized WidthOrHeight Constraint int Elem
  | Flex int int int int Elem
  | Filler
  | Separator
  | Border Elem
  | Frame Elem
  | VScroll Elem
  | FocusNode Elem
  | Component bool bool Elem
  | GaugeLeft real
  | Graph "int \<Rightarrow> int \<Rightarrow> int list"
  | Paragraph string
  | Styled Style Elem

record Focused =
  fo_enabled :: bool
  fo_box :: Box
  fo_component_active :: bool
  fo_component_focused :: bool

record Requirement =
  rq_min_x :: int
  rq_min_y :: int
  rq_flex_grow_x :: int
  rq_flex_grow_y :: int
  rq_flex_shrink_x :: int
  rq_flex_shrink_y :: int
  rq_focused :: Focused

text \<open>\<open>m\<close>: the width and height of a text, and the requirement of a paragraph.\<close>

record TextMeasure =
  tm_text :: "string \<Rightarrow> int \<times> int"
  tm_paragraph :: "string \<Rightarrow> Requirement"

definition empty_box :: Box where
  "empty_box = \<lparr>x_min = 0, x_max = 0, y_min = 0, y_max = 0\<rparr>"

definition default_requirement :: Requirement where
  "default_requirement =
     \<lparr>rq_min_x = 0, rq_min_y = 0, rq_flex_grow_x = 0, rq_flex_grow_y = 0, rq_flex_shrink_x = 0,
      rq_flex_shrink_y = 0, rq_focused = \<lparr>fo_enabled = False, fo_box = empty_box, fo_component_active = False,
                    fo_component_focused = False\<rparr>\<rparr>"

definition Prefer :: "Focused \<Rightarrow> Focused \<Rightarrow> bool" where
  "Prefer this other \<longleftrightarrow>
     (if \<not> fo_enabled other then False
      else if \<not> fo_enabled this then True
      else if fo_component_focused other \<noteq> fo_component_focused this
      then fo_component_focused other
      else fo_component_active other \<and> \<not> fo_component_active this)"

definition hbox_add :: "Requirement \<Rightarrow> Requirement \<Rightarrow> Requirement" where
  "hbox_add req child =
     (let req = (if Prefer (rq_focused req) (rq_focused child)
                 then req\<lparr>rq_focused := (rq_focused child)
                        \<lparr>fo_box := Shift (rq_min_x req) 0 (fo_box (rq_focused child))\<rparr>\<rparr>
                 else req)
      in req\<lparr>rq_min_x := rq_min_x req + rq_min_x child,
             rq_min_y := max (rq_min_y req) (rq_min_y child)\<rparr>)"

definition vbox_add :: "Requirement \<Rightarrow> Requirement \<Rightarrow> Requirement" where
  "vbox_add req child =
     (let req = (if Prefer (rq_focused req) (rq_focused child)
                 then req\<lparr>rq_focused := (rq_focused child)
                        \<lparr>fo_box := Shift 0 (rq_min_y req) (fo_box (rq_focused child))\<rparr>\<rparr>
                 else req)
      in req\<lparr>rq_min_y := rq_min_y req + rq_min_y child,
             rq_min_x := max (rq_min_x req) (rq_min_x child)\<rparr>)"

definition dbox_add :: "Requirement \<Rightarrow> Requirement \<Rightarrow> Requirement" where
  "dbox_add req child =
     req\<lparr>rq_min_x := max (rq_min_x req) (rq_min_x child),
         rq_min_y := max (rq_min_y req) (rq_min_y child)\<rparr>"

definition dbox_focus :: "Requirement \<Rightarrow> Requirement list \<Rightarrow> Requirement" where
  "dbox_focus req children =
     foldl (\<lambda>req child. if Prefer (rq_focused req) (rq_focused child)
                        then req\<lparr>rq_focused := rq_focused child\<rparr> else req)
       req (rev children)"

definition constrain :: "Constraint \<Rightarrow> int \<Rightarrow> int \<Rightarrow> int" where
  "constrain c v wanted =
     (case c of LESS_THAN \<Rightarrow> min wanted v | EQUAL \<Rightarrow> v | GREATER_THAN \<Rightarrow> max wanted v)"

definition size_requirement ::
  "WidthOrHeight \<Rightarrow> Constraint \<Rightarrow> int \<Rightarrow> Requirement \<Rightarrow> Requirement" where
  "size_requirement d c v req =
     (case d of
        WIDTH \<Rightarrow> req\<lparr>rq_min_x := constrain c (max 0 v) (rq_min_x req),
                    rq_flex_grow_x := 0, rq_flex_shrink_x := 0\<rparr>
      | HEIGHT \<Rightarrow> req\<lparr>rq_min_y := constrain c (max 0 v) (rq_min_y req),
                     rq_flex_grow_y := 0, rq_flex_shrink_y := 0\<rparr>)"

definition flex_requirement :: "int \<Rightarrow> int \<Rightarrow> int \<Rightarrow> int \<Rightarrow> Requirement \<Rightarrow> Requirement" where
  "flex_requirement gx gy sx sy req =
     req\<lparr>rq_flex_grow_x := (if gx \<noteq> -1 then gx else rq_flex_grow_x req),
         rq_flex_grow_y := (if gy \<noteq> -1 then gy else rq_flex_grow_y req),
         rq_flex_shrink_x := (if sx \<noteq> -1 then sx else rq_flex_shrink_x req),
         rq_flex_shrink_y := (if sy \<noteq> -1 then sy else rq_flex_shrink_y req)\<rparr>"

definition shift_focus :: "int \<Rightarrow> int \<Rightarrow> Requirement \<Rightarrow> Requirement" where
  "shift_focus x y req =
     req\<lparr>rq_focused := (rq_focused req)\<lparr>fo_box := Shift x y (fo_box (rq_focused req))\<rparr>\<rparr>"

definition text_requirement :: "int \<times> int \<Rightarrow> Requirement" where
  "text_requirement extent = default_requirement\<lparr>rq_min_x := fst extent, rq_min_y := snd extent\<rparr>"

definition separator_requirement :: Requirement where
  "separator_requirement = default_requirement\<lparr>rq_min_x := 1, rq_min_y := 1\<rparr>"

definition border_requirement :: "Requirement \<Rightarrow> Requirement" where
  "border_requirement req =
     shift_focus 1 1 (req\<lparr>rq_min_x := rq_min_x req + 2, rq_min_y := rq_min_y req + 2\<rparr>)"

definition vscroll_requirement :: "Requirement \<Rightarrow> Requirement" where
  "vscroll_requirement req = req\<lparr>rq_min_x := rq_min_x req + 1\<rparr>"

definition focus_requirement :: "Requirement \<Rightarrow> Requirement" where
  "focus_requirement req =
     req\<lparr>rq_focused := (rq_focused req)
       \<lparr>fo_enabled := True,
        fo_box := \<lparr>x_min = 0, x_max = rq_min_x req - 1, y_min = 0, y_max = rq_min_y req - 1\<rparr>\<rparr>\<rparr>"

definition component_requirement :: "bool \<Rightarrow> bool \<Rightarrow> Requirement \<Rightarrow> Requirement" where
  "component_requirement active focused req =
     req\<lparr>rq_focused := (rq_focused req)
       \<lparr>fo_component_active := active, fo_component_focused := focused\<rparr>\<rparr>"

definition gauge_requirement :: Requirement where
  "gauge_requirement =
     default_requirement\<lparr>rq_min_x := 1, rq_min_y := 1, rq_flex_grow_x := 1, rq_flex_shrink_x := 1\<rparr>"

definition graph_requirement :: Requirement where
  "graph_requirement =
     default_requirement\<lparr>rq_min_x := 3, rq_min_y := 3, rq_flex_grow_x := 1, rq_flex_grow_y := 1,
       rq_flex_shrink_x := 1, rq_flex_shrink_y := 1\<rparr>"

text \<open>The dispatch on the class of a node; frames and decorators keep their child's requirement.\<close>

fun requirement :: "TextMeasure \<Rightarrow> Elem \<Rightarrow> Requirement" where
  "requirement m (Text s) = text_requirement (tm_text m s)"
| "requirement m (HBox es) = foldl hbox_add default_requirement (map (requirement m) es)"
| "requirement m (VBox es) = foldl vbox_add default_requirement (map (requirement m) es)"
| "requirement m (DBox es) =
     dbox_focus (foldl dbox_add default_requirement (map (requirement m) es)) (map (requirement m) es)"
| "requirement m (Sized d c v e) = size_requirement d c v (requirement m e)"
| "requirement m (Flex gx gy sx sy e) = flex_requirement gx gy sx sy (requirement m e)"
| "requirement m Filler = flex_requirement 1 1 1 1 default_requirement"
| "requirement m Separator = separator_requirement"
| "requirement m (Border e) = border_requirement (requirement m e)"
| "requirement m (Frame e) = requirement m e"
| "requirement m (VScroll e) = vscroll_requirement (requirement m e)"
| "requirement m (FocusNode e) = focus_requirement (requirement m e)"
| "requirement m (Component active focused e) = component_requirement active focused (requirement m e)"
| "requirement m (GaugeLeft p) = gauge_requirement"
| "requirement m (Graph g) = graph_requirement"
| "requirement m (Paragraph s) = tm_paragraph m s"
| "requirement m (Styled s e) = requirement m e"

lemmas node_requirements [simp] = text_requirement_def separator_requirement_def border_requirement_def
  vscroll_requirement_def focus_requirement_def component_requirement_def gauge_requirement_def
  graph_requirement_def

section \<open>Placing\<close>

definition x_elements :: "Requirement list \<Rightarrow> BoxElement list" where
  "x_elements = map (\<lambda>r. \<lparr>be_min_size = rq_min_x r, be_flex_grow = rq_flex_grow_x r,
                          be_flex_shrink = rq_flex_shrink_x r\<rparr>)"

definition y_elements :: "Requirement list \<Rightarrow> BoxElement list" where
  "y_elements = map (\<lambda>r. \<lparr>be_min_size = rq_min_y r, be_flex_grow = rq_flex_grow_y r,
                          be_flex_shrink = rq_flex_shrink_y r\<rparr>)"

fun columns :: "Box \<Rightarrow> int \<Rightarrow> int list \<Rightarrow> Box list" where
  "columns box x [] = []"
| "columns box x (s # ss) = box\<lparr>x_min := x, x_max := x + s - 1\<rparr> # columns box (x + s) ss"

fun lines_of :: "Box \<Rightarrow> int \<Rightarrow> int list \<Rightarrow> Box list" where
  "lines_of box y [] = []"
| "lines_of box y (s # ss) = box\<lparr>y_min := y, y_max := y + s - 1\<rparr> # lines_of box (y + s) ss"

definition hbox_boxes :: "Box \<Rightarrow> Requirement list \<Rightarrow> Box list" where
  "hbox_boxes box rs =
     columns box (x_min box) (Compute (x_elements rs) (x_max box - x_min box + 1))"

definition vbox_boxes :: "Box \<Rightarrow> Requirement list \<Rightarrow> Box list" where
  "vbox_boxes box rs =
     lines_of box (y_min box) (Compute (y_elements rs) (y_max box - y_min box + 1))"

definition size_box :: "WidthOrHeight \<Rightarrow> Constraint \<Rightarrow> int \<Rightarrow> Box \<Rightarrow> Box" where
  "size_box d c v box =
     (if c = GREATER_THAN then box
      else case d of
        WIDTH \<Rightarrow> box\<lparr>x_max := min (x_min box + max 0 v - 1) (x_max box)\<rparr>
      | HEIGHT \<Rightarrow> box\<lparr>y_max := min (y_min box + max 0 v - 1) (y_max box)\<rparr>)"

definition scroll :: "int \<Rightarrow> int \<Rightarrow> int \<Rightarrow> int \<Rightarrow> int \<Rightarrow> int \<times> int" where
  "scroll lo hi wanted focus_lo focus_hi =
     (let external = hi - lo; internal = max wanted external; focused = focus_hi - focus_lo;
          d = focus_lo - external sdiv 2 + focused sdiv 2;
          d = max 0 (min (internal - external - 1) d)
      in (lo - d, lo + internal - d))"

definition frame_box :: "Requirement \<Rightarrow> Box \<Rightarrow> Box" where
  "frame_box req box =
     (let f = fo_box (rq_focused req);
          x = scroll (x_min box) (x_max box) (rq_min_x req) (x_min f) (x_max f);
          y = scroll (y_min box) (y_max box) (rq_min_y req) (y_min f) (y_max f)
      in \<lparr>x_min = fst x, x_max = snd x, y_min = fst y, y_max = snd y\<rparr>)"

definition border_box :: "Box \<Rightarrow> Box" where
  "border_box box =
     \<lparr>x_min = x_min box + 1, x_max = x_max box - 1, y_min = y_min box + 1, y_max = y_max box - 1\<rparr>"

definition vscroll_box :: "Box \<Rightarrow> Box" where
  "vscroll_box box = box\<lparr>x_max := x_max box - 1\<rparr>"

declare border_box_def [simp] vscroll_box_def [simp]

text \<open>The texts of an element in a box: each with its own box and the stencil it is clipped by.\<close>

fun texts :: "TextMeasure \<Rightarrow> Elem \<Rightarrow> Box \<Rightarrow> Box \<Rightarrow> (string \<times> Box \<times> Box) list"
  and texts_all :: "TextMeasure \<Rightarrow> Elem list \<Rightarrow> Box list \<Rightarrow> Box \<Rightarrow> (string \<times> Box \<times> Box) list" where
  "texts m (Text s) box stencil = [(s, box, stencil)]"
| "texts m (HBox es) box stencil = texts_all m es (hbox_boxes box (map (requirement m) es)) stencil"
| "texts m (VBox es) box stencil = texts_all m es (vbox_boxes box (map (requirement m) es)) stencil"
| "texts m (DBox es) box stencil = texts_all m es (replicate (length es) box) stencil"
| "texts m (Sized d c v e) box stencil = texts m e (size_box d c v box) stencil"
| "texts m (Flex gx gy sx sy e) box stencil = texts m e box stencil"
| "texts m (Border e) box stencil =
     texts m e (border_box box) stencil"
| "texts m (Frame e) box stencil =
     texts m e (frame_box (requirement m e) box) (Intersection box stencil)"
| "texts m (VScroll e) box stencil = texts m e (vscroll_box box) stencil"
| "texts m (FocusNode e) box stencil = texts m e box stencil"
| "texts m (Component active focused e) box stencil = texts m e box stencil"
| "texts m (Styled s e) box stencil = texts m e box stencil"
| "texts m Filler box stencil = []"
| "texts m Separator box stencil = []"
| "texts m (GaugeLeft p) box stencil = []"
| "texts m (Graph g) box stencil = []"
| "texts m (Paragraph s) box stencil = []"
| "texts_all m (e # es) (b # bs) stencil = texts m e b stencil @ texts_all m es bs stencil"
| "texts_all m [] bs stencil = []"
| "texts_all m (e # es) [] stencil = []"

text \<open>\<^verbatim>\<open>Text::Render\<close> writes the i-th cell of a line at \<open>x_min + i\<close>, if that is not beyond \<open>x_max\<close>, and the
  screen drops what is outside the stencil.\<close>

definition cell_drawn :: "Box \<Rightarrow> Box \<Rightarrow> int \<Rightarrow> bool" where
  "cell_drawn box stencil i \<longleftrightarrow>
     x_min box + i \<le> x_max box \<and> y_min box \<le> y_max box \<and> Contain (x_min box + i) (y_min box) stencil"

text \<open>The decorators, applied from left to right as the operator \<^verbatim>\<open>|\<close> does.\<close>

definition piped :: "Elem \<Rightarrow> (Elem \<Rightarrow> Elem) list \<Rightarrow> Elem" where
  "piped e ds = foldl (\<lambda>e d. d e) e ds"

abbreviation bold :: "Elem \<Rightarrow> Elem" where "bold \<equiv> Styled Bold"

abbreviation dim :: "Elem \<Rightarrow> Elem" where "dim \<equiv> Styled Dim"

abbreviation color :: "Color \<Rightarrow> Elem \<Rightarrow> Elem" where "color c \<equiv> Styled (Fg c)"

abbreviation bgcolor :: "Color \<Rightarrow> Elem \<Rightarrow> Elem" where "bgcolor c \<equiv> Styled (Bg c)"

abbreviation flex :: "Elem \<Rightarrow> Elem" where "flex \<equiv> Flex 1 1 1 1"

abbreviation xflex_grow :: "Elem \<Rightarrow> Elem" where "xflex_grow \<equiv> Flex 1 (-1) (-1) (-1)"

definition hcenter :: "Elem \<Rightarrow> Elem" where "hcenter child = HBox [Filler, child, Filler]"

definition vcenter :: "Elem \<Rightarrow> Elem" where "vcenter child = VBox [Filler, child, Filler]"

definition center :: "Elem \<Rightarrow> Elem" where "center child = hcenter (vcenter child)"

definition align_right :: "Elem \<Rightarrow> Elem" where "align_right child = HBox [Filler, child]"

text \<open>\<^verbatim>\<open>MenuBase::OnRender\<close> without prefix, infix, postfix and underline: the entry that has the menu's focus
  is marked.\<close>

definition menu_bar :: "bool \<Rightarrow> bool \<Rightarrow> bool \<Rightarrow> nat \<Rightarrow> Elem list \<Rightarrow> Elem" where
  "menu_bar horizontal active focused selected_focus entries =
     (let elements = map (\<lambda>i. if i = selected_focus then FocusNode (entries ! i) else entries ! i)
            [0..<length entries]
      in Component active focused (if horizontal then HBox elements else VBox elements))"

section \<open>The boxes tile their container\<close>

lemma SafeRatio_nonneg: "0 \<le> x \<Longrightarrow> 0 \<le> w \<Longrightarrow> SafeRatio x w d = x * w div max d 1"
  by (simp add: SafeRatio_def signed_divide_int_def sgn_if zero_le_mult_iff)

lemma SafeRatio_neg: "0 \<le> x \<Longrightarrow> 0 \<le> w \<Longrightarrow> SafeRatio (- x) w d = - (x * w div max d 1)"
  by (auto simp: SafeRatio_def signed_divide_int_def sgn_if zero_le_mult_iff mult_le_0_iff)

lemma share_bounds:
  fixes x w d :: int
  assumes "0 \<le> x" and "0 \<le> w" and "w \<le> d"
  shows "0 \<le> x * w div max d 1" and "x * w div max d 1 \<le> x"
    and "d = w \<Longrightarrow> 0 < w \<Longrightarrow> x * w div max d 1 = x"
proof -
  show "0 \<le> x * w div max d 1" using assms by (simp add: pos_imp_zdiv_nonneg_iff)
  have "x * w \<le> x * max d 1" using assms by (intro mult_left_mono) auto
  then have "x * w div max d 1 \<le> x * max d 1 div max d 1" by (intro zdiv_mono1) auto
  then show "x * w div max d 1 \<le> x" by simp
  show "x * w div max d 1 = x" if "d = w" "0 < w" using that by (simp add: max_def)
qed

lemma share_rest:
  fixes x w d :: int
  assumes "0 \<le> x" and "x \<le> d" and "0 \<le> w" and "w \<le> d"
  shows "x - x * w div max d 1 \<le> d - w" and "x * w div max d 1 \<le> w"
proof -
  have "x - x * w div max d 1 \<le> d - w \<and> x * w div max d 1 \<le> w"
  proof (cases "0 < d")
    case True
    have "0 \<le> (d - x) * (d - w)" using assms by simp
    then have "(x - d + w) * d \<le> x * w" by (simp add: algebra_simps)
    then have "(x - d + w) * d div d \<le> x * w div d" using True by (intro zdiv_mono1)
    moreover have "x * w div d \<le> d * w div d"
      using assms True by (intro zdiv_mono1 mult_right_mono)
    moreover have "max d 1 = d" using True by simp
    ultimately show ?thesis using True by simp
  next
    case False
    then have "d = 0" "x = 0" "w = 0" using assms by linarith+
    then show ?thesis by simp
  qed
  then show "x - x * w div max d 1 \<le> d - w" "x * w div max d 1 \<le> w" by simp_all
qed

definition be_ok :: "BoxElement \<Rightarrow> bool" where
  "be_ok e \<longleftrightarrow> 0 \<le> be_min_size e \<and> 0 \<le> be_flex_grow e \<and> be_flex_shrink e \<in> {0, 1}"

lemma be_okD:
  assumes "be_ok e"
  shows "0 \<le> be_min_size e" and "0 \<le> be_flex_grow e" and "0 \<le> be_min_size e * be_flex_shrink e"
    and "be_min_size e * be_flex_shrink e \<le> be_min_size e"
  using assms by (auto simp: be_ok_def)

lemma be_ok_sums:
  assumes "list_all be_ok es"
  shows "0 \<le> sum_list (map be_min_size (filter P es))" and "0 \<le> sum_list (map be_flex_grow es)"
    and "0 \<le> sum_list (map (\<lambda>e. be_min_size e * be_flex_shrink e) es)"
  using assms by (induction es) (auto simp: be_okD)

abbreviation total_of :: "('a \<Rightarrow> int) \<Rightarrow> 'a list \<Rightarrow> int" where
  "total_of f es \<equiv> sum_list (map f es)"

lemma ComputeGrow_fills:
  assumes "list_all be_ok es" and "0 \<le> x"
  shows "sum_list (ComputeGrow es x (total_of be_flex_grow es)) =
      total_of be_min_size es + (if 0 < total_of be_flex_grow es then x else 0) \<and>
    list_all2 (\<lambda>e s. be_min_size e \<le> s) es (ComputeGrow es x (total_of be_flex_grow es))"
  using assms
proof (induction es arbitrary: x)
  case (Cons e es)
  let ?g = "be_flex_grow e" and ?S = "total_of be_flex_grow es"
  have g: "0 \<le> ?g" and S: "0 \<le> ?S"
    using Cons.prems by (simp_all add: be_okD be_ok_sums)
  let ?a = "x * ?g div max (?g + ?S) 1"
  have a: "SafeRatio x ?g (?g + ?S) = ?a" using g Cons.prems by (simp add: SafeRatio_nonneg)
  note b = share_bounds [of x ?g "?g + ?S"]
  have "0 \<le> ?a" "?a \<le> x" using b g S Cons.prems by simp_all
  moreover have "?a = x" if "?S = 0" "0 < ?g" using b(3) that g Cons.prems by simp
  moreover have "?a = 0" if "?g = 0" using that by simp
  ultimately show ?case
    using Cons.IH [of "x - ?a"] Cons.prems g S by (auto simp: a Let_def)
qed simp

lemma ComputeShrinkEasy_fills:
  assumes "list_all be_ok es" and "0 \<le> x" and "x \<le> total_of (\<lambda>e. be_min_size e * be_flex_shrink e) es"
  shows "sum_list (ComputeShrinkEasy es (- x) (total_of (\<lambda>e. be_min_size e * be_flex_shrink e) es)) =
      total_of be_min_size es - x \<and>
    list_all (\<lambda>s. 0 \<le> s)
      (ComputeShrinkEasy es (- x) (total_of (\<lambda>e. be_min_size e * be_flex_shrink e) es))"
  using assms
proof (induction es arbitrary: x)
  case (Cons e es)
  let ?w = "be_min_size e * be_flex_shrink e"
  let ?S = "total_of (\<lambda>e. be_min_size e * be_flex_shrink e) es"
  have w: "0 \<le> ?w" "?w \<le> be_min_size e" and S: "0 \<le> ?S"
    using Cons.prems by (simp_all add: be_okD be_ok_sums)
  let ?a = "x * ?w div max (?w + ?S) 1"
  have a: "SafeRatio (- x) ?w (?w + ?S) = - ?a" using w Cons.prems by (simp only: SafeRatio_neg)
  have c: "be_flex_shrink e * be_min_size e = ?w" by simp
  have p: "0 \<le> x" "x \<le> ?w + ?S" "0 \<le> ?w" "?w \<le> ?w + ?S" using w S Cons.prems by simp_all
  have "?a \<le> x" by (rule share_bounds(2) [OF p(1,3,4)])
  moreover have "x - ?a \<le> ?S" using share_rest(1) [OF p] by linarith
  moreover have "?a \<le> ?w" by (rule share_rest(2) [OF p])
  ultimately show ?case
    using Cons.IH [of "x - ?a"] Cons.prems w S by (simp add: a c Let_def)
qed simp

lemma ComputeShrinkHard_fills:
  assumes "list_all be_ok es" and "0 \<le> x"
    and "x \<le> total_of be_min_size (filter (\<lambda>e. be_flex_shrink e = 0) es)"
  shows "sum_list (ComputeShrinkHard es (- x)
        (total_of be_min_size (filter (\<lambda>e. be_flex_shrink e = 0) es))) =
      total_of be_min_size (filter (\<lambda>e. be_flex_shrink e = 0) es) - x \<and>
    list_all (\<lambda>s. 0 \<le> s) (ComputeShrinkHard es (- x)
        (total_of be_min_size (filter (\<lambda>e. be_flex_shrink e = 0) es)))"
  using assms
proof (induction es arbitrary: x)
  case (Cons e es)
  show ?case
  proof (cases "be_flex_shrink e = 0")
    case True
    let ?w = "be_min_size e" and ?S = "total_of be_min_size (filter (\<lambda>e. be_flex_shrink e = 0) es)"
    have w: "0 \<le> ?w" and S: "0 \<le> ?S"
      using Cons.prems by (simp_all add: be_okD be_ok_sums)
    let ?a = "x * ?w div max (?w + ?S) 1"
    have a: "SafeRatio (- x) ?w (?w + ?S) = - ?a" using w Cons.prems by (simp only: SafeRatio_neg)
    have p: "0 \<le> x" "x \<le> ?w + ?S" "0 \<le> ?w" "?w \<le> ?w + ?S"
      using w S True Cons.prems by simp_all
    have "?a \<le> x" by (rule share_bounds(2) [OF p(1,3,4)])
    moreover have "x - ?a \<le> ?S" using share_rest(1) [OF p] by linarith
    moreover have "?a \<le> ?w" by (rule share_rest(2) [OF p])
    ultimately show ?thesis
      using Cons.IH [of "x - ?a"] Cons.prems w S True by (simp add: a Let_def)
  next
    case False
    then show ?thesis using Cons.IH [of x] Cons.prems by simp
  qed
qed simp

lemma shrink_weight:
  "list_all be_ok es \<Longrightarrow> total_of (\<lambda>e. be_min_size e * be_flex_shrink e) es =
     total_of be_min_size (filter (\<lambda>e. be_flex_shrink e \<noteq> 0) es)"
  by (induction es) (auto simp: be_ok_def)

lemma split_shrink:
  "total_of be_min_size es =
     total_of be_min_size (filter (\<lambda>e. be_flex_shrink e \<noteq> 0) es) +
     total_of be_min_size (filter (\<lambda>e. be_flex_shrink e = 0) es)"
  by (induction es) auto

lemma Compute_tiles:
  assumes "list_all be_ok es" and "0 \<le> target"
  shows "list_all (\<lambda>s. 0 \<le> s) (Compute es target) \<and>
    sum_list (Compute es target) =
      (if target < total_of be_min_size es \<or> 0 < total_of be_flex_grow es then target
       else total_of be_min_size es) \<and>
    (total_of be_min_size es \<le> target \<longrightarrow>
       list_all2 (\<lambda>e s. be_min_size e \<le> s) es (Compute es target))"
proof -
  let ?min = "total_of be_min_size es"
  let ?soft = "total_of be_min_size (filter (\<lambda>e. be_flex_shrink e \<noteq> 0) es)"
  let ?hard = "total_of be_min_size (filter (\<lambda>e. be_flex_shrink e = 0) es)"
  have ok: "0 \<le> be_min_size e" if "e \<in> set es" for e
    using assms(1) that by (auto simp: list_all_iff be_ok_def)
  consider (grow) "?min \<le> target" | (easy) "target < ?min" "?min \<le> target + ?soft"
    | (hard) "target + ?soft < ?min"
    by linarith
  then show ?thesis
  proof cases
    case grow
    have c: "Compute es target = ComputeGrow es (target - ?min) (total_of be_flex_grow es)"
      using grow by (simp add: Compute_def)
    have g: "list_all2 (\<lambda>e s. be_min_size e \<le> s) es (Compute es target)"
      using ComputeGrow_fills [OF assms(1), of "target - ?min"] grow by (simp add: c)
    then have "list_all (\<lambda>s. 0 \<le> s) (Compute es target)"
      unfolding list_all_length list_all2_conv_all_nth by (metis nth_mem ok order_trans)
    then show ?thesis
      using ComputeGrow_fills [OF assms(1), of "target - ?min"] g grow by (simp add: c)
  next
    case easy
    have c: "Compute es target =
        ComputeShrinkEasy es (- (?min - target)) (total_of (\<lambda>e. be_min_size e * be_flex_shrink e) es)"
      using easy by (simp add: Compute_def)
    show ?thesis
      unfolding c using ComputeShrinkEasy_fills [OF assms(1), of "?min - target"] easy
      by (simp add: shrink_weight [OF assms(1)])
  next
    case hard
    have s: "0 \<le> ?soft" by (intro sum_list_nonneg) (auto dest: ok)
    have c: "Compute es target = ComputeShrinkHard es (- (?min - target - ?soft)) ?hard"
      using hard s split_shrink [of es] by (simp add: Compute_def)
    show ?thesis
      unfolding c using ComputeShrinkHard_fills [OF assms(1), of "?min - target - ?soft"]
        hard s assms(2) split_shrink [of es] by simp
  qed
qed

end
