(* ===== verification/Tui_Theme.thy ===== *)
theory Tui_Theme
  imports Ftxui_Layout Tui_State
begin

text \<open>
  The building blocks of the screens, \<^verbatim>\<open>include/tui/theme.hpp\<close> and \<^verbatim>\<open>src/tui/theme.cpp\<close>: the palette and the
  functions that make an element of a label, a field, a tile, a panel or a series.  A \<^verbatim>\<open>float\<close> is a
  \<open>real\<close>; texts are UTF-8 bytes.
\<close>

section \<open>The palette\<close>

definition theme_Background :: Color where "theme_Background = RGB 10 10 10"

definition theme_BackgroundPanel :: Color where "theme_BackgroundPanel = RGB 20 20 20"

definition theme_BackgroundElement :: Color where "theme_BackgroundElement = RGB 30 30 30"

definition theme_BackgroundSelected :: Color where "theme_BackgroundSelected = RGB 36 44 60"

definition theme_BorderSubtle :: Color where "theme_BorderSubtle = RGB 52 52 52"

definition theme_Primary :: Color where "theme_Primary = RGB 92 156 245"

definition theme_PrimarySoft :: Color where "theme_PrimarySoft = RGB 140 186 248"

definition theme_Accent :: Color where "theme_Accent = RGB 157 124 216"

definition theme_Error :: Color where "theme_Error = RGB 224 108 117"

definition theme_Warning :: Color where "theme_Warning = RGB 245 167 66"

definition theme_Success :: Color where "theme_Success = RGB 127 216 143"

definition theme_Info :: Color where "theme_Info = RGB 86 182 194"

definition theme_Text :: Color where "theme_Text = RGB 238 238 238"

definition theme_TextMuted :: Color where "theme_TextMuted = RGB 128 128 128"

definition theme_TextDim :: Color where "theme_TextDim = RGB 96 96 96"

section \<open>Symbols\<close>

text \<open>The characters beyond ASCII, as the bytes of the source: black and white circle, fisheye, small right
  triangle, single right quote, up triangle, the two block bars, the arrows.\<close>

definition sym_dot :: string where "sym_dot = [CHR 0xE2, CHR 0x97, CHR 0x8F]"

definition sym_ring :: string where "sym_ring = [CHR 0xE2, CHR 0x97, CHR 0x8B]"

definition sym_fisheye :: string where "sym_fisheye = [CHR 0xE2, CHR 0x97, CHR 0x89]"

definition sym_cursor :: string where "sym_cursor = [CHR 0xE2, CHR 0x96, CHR 0xB8]"

definition sym_quote :: string where "sym_quote = [CHR 0xE2, CHR 0x80, CHR 0xBA]"

definition sym_alert :: string where "sym_alert = [CHR 0xE2, CHR 0x96, CHR 0xB2]"

definition sym_bar :: string where "sym_bar = [CHR 0xE2, CHR 0x96, CHR 0x8F]"

definition sym_half :: string where "sym_half = [CHR 0xE2, CHR 0x96, CHR 0x8C]"

definition sym_left :: string where "sym_left = [CHR 0xE2, CHR 0x86, CHR 0x90]"

definition sym_up :: string where "sym_up = [CHR 0xE2, CHR 0x86, CHR 0x91]"

definition sym_right :: string where "sym_right = [CHR 0xE2, CHR 0x86, CHR 0x92]"

definition sym_down :: string where "sym_down = [CHR 0xE2, CHR 0x86, CHR 0x93]"

section \<open>Elements\<close>

definition Badge :: "string \<Rightarrow> Color \<Rightarrow> Elem" where
  "Badge label accent =
     piped (Text ('' '' @ label @ '' '')) [bold, color Black, bgcolor accent]"

definition BadgeOutline :: "string \<Rightarrow> Color \<Rightarrow> Elem" where
  "BadgeOutline label accent = piped (Text ('' '' @ label @ '' '')) [color accent]"

definition FieldInline :: "string \<Rightarrow> string \<Rightarrow> Color \<Rightarrow> Elem" where
  "FieldInline label val value_color =
     HBox [piped (Text label) [color theme_TextMuted], piped (Text val) [color value_color]]"

text \<open>The widths of a field's row: of the row, its label and its value.\<close>

definition field_widths :: "int \<Rightarrow> int \<times> int \<times> int" where
  "field_widths available_width =
     (let row_width = (if available_width > 0 then available_width else 48);
          label_width =
            (if row_width < 36 then row_width else min 18 (max 10 (row_width sdiv 2)));
          value_width = (if row_width < 36 then row_width else max 1 (row_width - label_width - 1))
      in (row_width, label_width, value_width))"

definition field_line :: "int \<Rightarrow> int \<Rightarrow> Color \<Rightarrow> string \<Rightarrow> string \<Rightarrow> Elem" where
  "field_line label_width value_width value_color label line =
     HBox [piped (Text label) [color theme_TextMuted, Sized WIDTH EQUAL label_width],
           Text '' '',
           piped (Text line) [color value_color, Sized WIDTH EQUAL value_width, align_right]]"

definition FieldRow :: "string \<Rightarrow> string \<Rightarrow> Color \<Rightarrow> int \<Rightarrow> Elem" where
  "FieldRow label val value_color available_width =
     (case field_widths available_width of (row_width, label_width, value_width) \<Rightarrow>
        let value_lines = WrapValue val value_width in
        if row_width < 36 then
          VBox (piped (Text label) [color theme_TextMuted] #
                map (\<lambda>line. piped (Text line) [color value_color]) value_lines)
        else
          VBox (map (\<lambda>index.
            field_line label_width value_width value_color (if index = 0 then label else [])
              (value_lines ! index)) [0..<length value_lines]))"

definition WrappedText :: "string \<Rightarrow> int \<Rightarrow> Elem" where
  "WrappedText val available_width = VBox (map Text (WrapValue val available_width))"

definition StatTile :: "string \<Rightarrow> string \<Rightarrow> string \<Rightarrow> Color \<Rightarrow> Elem" where
  "StatTile label val note accent =
     piped
       (HBox [Text '' '',
              piped (Text sym_half) [color accent],
              Text '' '',
              piped (VBox [piped (Text label) [color theme_TextMuted],
                           piped (Text val) [bold, color accent],
                           piped (Text note) [color theme_TextDim]]) [flex],
              Filler])
       [xflex_grow, vcenter, Sized HEIGHT GREATER_THAN 5, bgcolor theme_BackgroundElement, flex]"

definition SectionLabel :: "string \<Rightarrow> Elem" where
  "SectionLabel title =
     HBox [piped (Text sym_bar) [color theme_Primary],
           piped (Text title) [bold, color theme_Text]]"

definition Keycap :: "string \<Rightarrow> Elem" where
  "Keycap key =
     piped (Text ('' '' @ key @ '' '')) [color theme_Text, bgcolor theme_BackgroundElement]"

definition KeyHint :: "string \<Rightarrow> string \<Rightarrow> Elem" where
  "KeyHint key description =
     HBox [Keycap key, piped (Text ('' '' @ description @ '' '')) [color theme_TextMuted]]"

abbreviation rule_line :: Elem where
  "rule_line \<equiv> color theme_BorderSubtle Separator"

definition Panel :: "string \<Rightarrow> Elem \<Rightarrow> Elem" where
  "Panel title body =
     piped
       (VBox [piped (Text ('' '' @ title)) [bold, color theme_TextMuted],
              rule_line,
              piped body [flex]])
       [Border, color theme_BorderSubtle, bgcolor theme_BackgroundPanel]"

definition Bar :: "real \<Rightarrow> Color \<Rightarrow> Elem" where
  "Bar ratio accent =
     (let clamped = max 0 (min 1 ratio)
      in if clamped \<le> 0 then Text [] else piped (GaugeLeft clamped) [color accent])"

definition Sparkline :: "real list \<Rightarrow> Color \<Rightarrow> real \<Rightarrow> Elem" where
  "Sparkline samples accent scale_max =
     (if samples = [] then
        piped (Text ''Waiting for samples'') [center, dim, color theme_TextDim]
      else
        let data_peak = foldl max 0 samples in
        if data_peak \<le> 0 then
          piped (Text ''No traffic in window'') [center, dim, color theme_TextDim]
        else
          let peak = (if scale_max > 0 then scale_max else data_peak);
              safe_peak = max (1 / 1000) peak
          in piped (Graph (sparkline_columns samples safe_peak)) [color accent])"

definition PressureColor :: "real \<Rightarrow> Color" where
  "PressureColor bandwidth_kbps =
     (if bandwidth_kbps \<le> 0 then theme_TextDim
      else if bandwidth_kbps < 256 then theme_Success
      else if bandwidth_kbps < 2048 then theme_Warning
      else theme_Error)"

definition PressureDot :: "real \<Rightarrow> string" where
  "PressureDot bandwidth_kbps = (if bandwidth_kbps \<le> 0 then sym_ring else sym_dot)"

text \<open>\<^verbatim>\<open>spinner\<close> with the charset the program uses: two frames of one line.\<close>

definition spinner3 :: "nat \<Rightarrow> Elem" where
  "spinner3 image_index = VBox [Text (if image_index mod 2 = 0 then ''+'' else ''x'')]"

end
