(* ===== verification/Tui_Topics.thy ===== *)
theory Tui_Topics
  imports Tui_Theme Tui_App
begin

text \<open>
  The topic screen, \<^verbatim>\<open>src/tui/topics_screen.cpp\<close>: the rows of the topic matrix, the inspector of the selected
  topic and the document of the screen.  The rendered topic list (an FTXUI menu) is an argument, as is
  \<open>fixed_digits\<close>, the printing of a number with a fixed precision.  A lookup in the cache that finds
  nothing is \<open>None\<close>.
\<close>

section \<open>Shared by the screens\<close>

definition to_string_int :: "int \<Rightarrow> string" where
  "to_string_int i = (if i < 0 then ''-'' @ dec (nat (- i)) else dec (nat i))"

text \<open>A \<^verbatim>\<open>size_t\<close> cast to \<^verbatim>\<open>int\<close>.\<close>

definition int_of_size :: "nat \<Rightarrow> int" where
  "int_of_size n = sint (of_nat n :: 32 word)"

definition on_off :: "bool \<Rightarrow> string" where
  "on_off b = (if b then ''on'' else ''off'')"

definition found :: "bool \<times> NetworkInfo option \<Rightarrow> NetworkInfo option" where
  "found r = (if fst r then snd r else None)"

definition live_info_of :: "nat \<Rightarrow> DiagnosticsCache option \<Rightarrow> string list \<Rightarrow> NetworkInfo option" where
  "live_info_of now c aliases =
     (case c of None \<Rightarrow> None | Some cache \<Rightarrow> found (LookupAny now aliases (Some default_info) cache))"

definition directed_info_of ::
  "nat \<Rightarrow> DiagnosticsCache option \<Rightarrow> string list \<Rightarrow> string \<Rightarrow> NetworkInfo option" where
  "directed_info_of now c aliases dir =
     (case c of None \<Rightarrow> None
      | Some cache \<Rightarrow> found (LookupDirected now aliases dir (Some default_info) cache))"

definition compact :: "LayoutContext \<Rightarrow> bool" where
  "compact layout \<longleftrightarrow> lc_mode layout = kCompact"

definition wide :: "LayoutContext \<Rightarrow> bool" where
  "wide layout \<longleftrightarrow> lc_mode layout = kWide"

abbreviation scrolled :: "Elem \<Rightarrow> Elem" where
  "scrolled e \<equiv> VScroll (Frame e)"

section \<open>Rows\<close>

definition rate_of :: "NetworkInfo \<Rightarrow> real" where
  "rate_of info = (if ni_direction info = ''send'' then ni_send_rate_hz info else ni_recv_rate_hz info)"

definition DirectionStrip ::
  "(nat \<Rightarrow> real \<Rightarrow> string) \<Rightarrow> string \<Rightarrow> Color \<Rightarrow> NetworkInfo option \<Rightarrow> Elem" where
  "DirectionStrip fixed_digits title accent info =
     (let rate = (case info of None \<Rightarrow> ''--'' | Some i \<Rightarrow> FormatMetric fixed_digits (rate_of i) '' Hz'');
          bandwidth = (case info of None \<Rightarrow> ''--''
            | Some i \<Rightarrow> FormatMetric fixed_digits (ni_bandwidth_kbps i) '' kbps'');
          packet = (case info of None \<Rightarrow> ''--'' | Some i \<Rightarrow> dec (unat (ni_packet_size i)) @ '' B'');
          drops = (case info of None \<Rightarrow> ''--'' | Some i \<Rightarrow> dec (unat (ni_dropped_messages i)))
      in piped
           (HBox [piped (Text (sym_bar @ '' '')) [color accent],
                  piped (Text title) [bold, color accent, Sized WIDTH EQUAL 6],
                  piped (Text rate) [color theme_Text, Sized WIDTH EQUAL 10, align_right],
                  piped (Text bandwidth) [color theme_Text, Sized WIDTH EQUAL 13, align_right],
                  Filler,
                  piped (Text (''pkt '' @ packet @ ''  drop '' @ drops)) [color theme_TextMuted]])
           [xflex_grow, bgcolor theme_BackgroundElement])"

definition name_part :: "string \<Rightarrow> bool \<Rightarrow> int \<Rightarrow> Elem" where
  "name_part topic_name highlighted name_width =
     (let w = max 8 name_width;
          parts = HBox [Text (if highlighted then sym_cursor @ '' '' else ''  ''),
                        piped (Text (MiddleEllipsis topic_name (nat w))) [Sized WIDTH EQUAL w]]
      in if highlighted then piped parts [bold, color theme_Text]
         else piped parts [color theme_TextMuted])"

definition TopicRowElement ::
  "(nat \<Rightarrow> real \<Rightarrow> string) \<Rightarrow> TopicRule \<Rightarrow> NetworkInfo option \<Rightarrow> bool \<Rightarrow> int \<Rightarrow> bool \<Rightarrow> Elem" where
  "TopicRowElement fixed_digits topic live highlighted name_width detailed =
     (let bandwidth = (case live of None \<Rightarrow> 0 | Some i \<Rightarrow> ni_bandwidth_kbps i);
          pressure_color = PressureColor bandwidth;
          dot = piped (Text (PressureDot bandwidth @ '' '')) [color pressure_color];
          name = piped (name_part (tr_topic_name topic) highlighted name_width) [flex];
          row =
            (if \<not> detailed then
               HBox [dot, name,
                 piped (Text (case live of None \<Rightarrow> ''--''
                                | Some _ \<Rightarrow> FormatMetric fixed_digits bandwidth '' kbps''))
                   [color pressure_color],
                 Text '' '']
             else
               let rate = (case live of None \<Rightarrow> -1 | Some i \<Rightarrow> rate_of i);
                   stability = (case live of None \<Rightarrow> -1 | Some i \<Rightarrow> ni_stability_score i);
                   drops = (case live of None \<Rightarrow> 0 | Some i \<Rightarrow> ni_dropped_messages i)
               in HBox [dot, name,
                    piped (Text (ShortType (tr_msg_type topic)))
                      [color theme_Info, Sized WIDTH EQUAL 6],
                    piped (Text (FormatMetric fixed_digits rate '' Hz''))
                      [color theme_Text, Sized WIDTH EQUAL 9, align_right],
                    piped (Bar (case live of None \<Rightarrow> 0 | Some _ \<Rightarrow> bandwidth / 2048) pressure_color)
                      [Sized WIDTH EQUAL 8],
                    piped (Text (FormatMetric fixed_digits bandwidth '' kbps''))
                      [color pressure_color, Sized WIDTH EQUAL 11, align_right],
                    piped (Text (dec (unat drops)))
                      [color (if drops > 0 then theme_Warning else theme_TextDim),
                       Sized WIDTH EQUAL 5, align_right],
                    piped (Text (FormatMetric fixed_digits stability ''%''))
                      [color (if stability \<ge> 0 \<and> stability < 80 then theme_Error
                              else theme_Success), Sized WIDTH EQUAL 5, align_right],
                    Text '' ''])
      in if highlighted then piped row [bgcolor theme_BackgroundSelected] else row)"

section \<open>The inspector\<close>

definition WrappedPath_element :: "string \<Rightarrow> int \<Rightarrow> Elem" where
  "WrappedPath_element val available_width =
     VBox (if val = [] then [piped (Text ''-'') [color theme_TextDim]]
           else map (\<lambda>line. piped (Text line) [bold, color theme_Text])
                  (WrappedPath val available_width))"

definition topic_header :: "TopicRule \<Rightarrow> NetworkInfo option \<Rightarrow> int \<Rightarrow> Elem" where
  "topic_header topic live w =
     (let bandwidth = (case live of None \<Rightarrow> 0 | Some i \<Rightarrow> ni_bandwidth_kbps i)
      in VBox [WrappedPath_element (tr_topic_name topic) w,
               HBox [BadgeOutline (ShortType (tr_msg_type topic)) theme_Info,
                     Text '' '',
                     BadgeOutline (EndEllipsis (tr_qos_class topic) 12) theme_TextMuted,
                     Text '' '',
                     (if live \<noteq> None then Badge (PressureLabel bandwidth) (PressureColor bandwidth)
                      else Badge ''WAIT'' theme_Warning)],
               rule_line])"

definition routing_rows ::
  "(nat \<Rightarrow> real \<Rightarrow> string) \<Rightarrow> BridgeConfig \<Rightarrow> TopicRule \<Rightarrow> int \<Rightarrow> Elem list" where
  "routing_rows fixed_digits config topic w =
     [FieldRow ''Type'' (tr_msg_type topic) theme_Info w,
      FieldRow ''Sources'' (JoinHosts (tr_src_hosts topic)) theme_Text w,
      FieldRow ''Targets'' (JoinHosts (tr_dst_hosts topic)) theme_Text w,
      FieldRow ''Transport'' (TransportLabel config topic) theme_Text w,
      FieldRow ''Prefix'' (on_off (tr_prefix topic)) theme_TextMuted w,
      FieldRow ''Same prefix'' (on_off (tr_same_prefix topic)) theme_TextMuted w] @
     (if tr_msg_type topic = ''sensor_msgs/PointCloud2'' then
        FieldRow ''Cloud codec'' (CodecLabel topic) theme_Text w #
        (if tr_cloud_downsample topic > 0 then
           [FieldRow ''Downsample''
              (fixed_digits (if tr_cloud_downsample topic \<ge> 1 then 2 else 4) (tr_cloud_downsample topic))
              theme_Text w]
         else [])
      else [])"

definition quality_rows ::
  "(nat \<Rightarrow> real \<Rightarrow> string) \<Rightarrow> TopicRule \<Rightarrow> NetworkInfo option \<Rightarrow> int \<Rightarrow> Elem list" where
  "quality_rows fixed_digits topic live w =
     (if tr_image_adaptive_quality topic then
        [FieldRow ''Quality range''
           (to_string_int (tr_image_min_jpeg_quality topic) @ '' - '' @
            to_string_int (tr_image_max_jpeg_quality topic)) theme_Text w,
         FieldRow ''Target BW''
           (fixed_digits (if tr_image_target_bandwidth_kbps topic \<ge> 100 then 0 else 1)
              (tr_image_target_bandwidth_kbps topic) @ '' kbps'') theme_Text w,
         FieldRow ''Current JPEG''
           (case live of None \<Rightarrow> ''-''
            | Some i \<Rightarrow> if ni_current_jpeg_quality i > 0
                       then dec (unat (ni_current_jpeg_quality i)) else ''-'') theme_Text w]
      else [])"

definition image_rows ::
  "(nat \<Rightarrow> real \<Rightarrow> string) \<Rightarrow> TopicRule \<Rightarrow> NetworkInfo option \<Rightarrow> NetworkInfo option \<Rightarrow> int \<Rightarrow>
     Elem list" where
  "image_rows fixed_digits topic live recv w =
     (if tr_msg_type topic \<noteq> ''sensor_msgs/Image'' then []
      else
        [FieldRow ''Resize'' (fixed_digits 2 (tr_image_resize_rate topic) @ ''x'') theme_Text w,
         FieldRow ''JPEG quality'' (to_string_int (tr_image_jpeg_quality topic)) theme_Text w,
         FieldRow ''Adaptive JPEG'' (on_off (tr_image_adaptive_quality topic))
           (if tr_image_adaptive_quality topic then theme_Success else theme_TextMuted) w] @
        quality_rows fixed_digits topic live w @
        [FieldRow ''Receiver loss''
           (case recv of None \<Rightarrow> ''--''
            | Some i \<Rightarrow> FormatMetric fixed_digits (ni_image_loss_rate_pct i) ''%'')
           (case recv of None \<Rightarrow> theme_Text
            | Some i \<Rightarrow> if ni_image_loss_rate_pct i > 5 then theme_Warning else theme_Text) w,
         FieldRow ''Complete frames''
           (case recv of None \<Rightarrow> ''--''
            | Some i \<Rightarrow> FormatMetric fixed_digits (ni_complete_frame_success_rate_pct i) ''%'')
           theme_Text w,
         FieldRow ''Effective RX''
           (case recv of None \<Rightarrow> ''--''
            | Some i \<Rightarrow> FormatMetric fixed_digits (ni_effective_recv_bandwidth_kbps i) '' kbps'')
           theme_Text w,
         FieldRow ''Decoded / expected''
           (case recv of None \<Rightarrow> ''--''
            | Some i \<Rightarrow> dec (unat (ni_decoded_frames i)) @ '' / '' @ dec (unat (ni_expected_frames i)))
           theme_Text w])"

definition live_rows ::
  "(nat \<Rightarrow> real \<Rightarrow> string) \<Rightarrow> NetworkInfo option \<Rightarrow> int \<Rightarrow> Elem list" where
  "live_rows fixed_digits live w =
     (let shown = (\<lambda>metric unit_name.
            case live of None \<Rightarrow> ''--'' | Some i \<Rightarrow> FormatMetric fixed_digits (metric i) unit_name)
      in [FieldRow ''Latency'' (shown ni_avg_latency_ms '' ms'') theme_Accent w,
          FieldRow ''Jitter'' (shown ni_jitter_ms '' ms'') theme_Text w,
          FieldRow ''Stability'' (shown ni_stability_score ''%'') theme_Success w,
          FieldRow ''Last recv age'' (shown ni_last_recv_age_ms '' ms'') theme_Text w])"

definition transfer_summary ::
  "(nat \<Rightarrow> real \<Rightarrow> string) \<Rightarrow> NetworkInfo option \<Rightarrow> NetworkInfo option \<Rightarrow> Elem" where
  "transfer_summary fixed_digits send recv =
     VBox [SectionLabel ''Live Transfer'',
           DirectionStrip fixed_digits ''SEND'' theme_Accent send,
           DirectionStrip fixed_digits ''RECV'' theme_Info recv]"

definition trend :: "HistoryStore \<Rightarrow> string list \<Rightarrow> Elem" where
  "trend history aliases =
     VBox [SectionLabel ''Bandwidth Trend'',
           piped (Sparkline (BandwidthKbps history aliases []) theme_Primary 0) [Sized HEIGHT EQUAL 3]]"

definition inspector_of ::
  "(nat \<Rightarrow> real \<Rightarrow> string) \<Rightarrow> nat \<Rightarrow> BridgeConfig \<Rightarrow> DiagnosticsCache option \<Rightarrow> HistoryStore \<Rightarrow>
     TopicRule \<Rightarrow> int \<Rightarrow> Elem" where
  "inspector_of fixed_digits now config c history topic w =
     (let aliases = TopicAliases topic;
          live = live_info_of now c aliases;
          recv = directed_info_of now c aliases ''recv'';
          images = image_rows fixed_digits topic live recv w
      in VBox ([topic_header topic live w, SectionLabel ''Routing''] @
               routing_rows fixed_digits config topic w @
               (if images = [] then [] else SectionLabel ''Image Quality'' # images) @
               SectionLabel ''Live Metrics'' # live_rows fixed_digits live w @
               [trend history aliases]))"

definition short_inspector_of :: "nat \<Rightarrow> DiagnosticsCache option \<Rightarrow> TopicRule \<Rightarrow> LayoutContext \<Rightarrow> Elem" where
  "short_inspector_of now c topic layout =
     (let live = live_info_of now c (TopicAliases topic);
          bandwidth = (case live of None \<Rightarrow> 0 | Some i \<Rightarrow> ni_bandwidth_kbps i)
      in HBox [piped (Text ('' '' @ EndEllipsis (tr_topic_name topic) (max 8 (lc_content_width layout - 12))))
                 [bold, color theme_Text],
               Filler,
               piped (Text (if live \<noteq> None then PressureLabel bandwidth else ''WAIT''))
                 [bold, color (if live \<noteq> None then PressureColor bandwidth else theme_Warning)],
               Text '' ''])"

section \<open>The screen\<close>

definition matrix_header :: "TopicPaneGeometry \<Rightarrow> Elem" where
  "matrix_header geometry =
     HBox [piped (Text ''    topic'') [color theme_TextDim, Sized WIDTH EQUAL (tg_name_width geometry + 4)],
           piped (Text ''type'') [color theme_TextDim, Sized WIDTH EQUAL 6],
           piped (Text ''rate'') [color theme_TextDim, Sized WIDTH EQUAL 9, align_right],
           piped (Text ''bandwidth'') [color theme_TextDim, Sized WIDTH EQUAL 19, align_right],
           piped (Text ''drop'') [color theme_TextDim, Sized WIDTH EQUAL 5, align_right],
           piped (Text ''stab'') [color theme_TextDim, Sized WIDTH EQUAL 5, align_right],
           Text '' '']"

definition matrix_body :: "TopicPaneGeometry \<Rightarrow> Elem \<Rightarrow> Elem \<Rightarrow> Elem" where
  "matrix_body geometry topic_list transfer =
     VBox [matrix_header geometry,
           rule_line,
           flex (scrolled topic_list),
           rule_line,
           transfer]"

definition topics_document ::
  "LayoutContext \<Rightarrow> Elem \<Rightarrow> Elem \<Rightarrow> Elem \<Rightarrow> Elem \<Rightarrow> Elem" where
  "topics_document layout topic_list inspector transfer short_inspector =
     (let geometry = MakeTopicPaneGeometry layout;
          matrix = Panel ''Topic Matrix'' (matrix_body geometry topic_list transfer)
      in if compact layout then
           (if lc_short_height layout then
              VBox [flex (scrolled topic_list), rule_line, short_inspector]
            else
              VBox [flex (Panel ''Topics'' (scrolled topic_list)),
                    Sized HEIGHT EQUAL (max 6 (lc_content_height layout sdiv 2))
                      (Panel ''Inspector'' (scrolled inspector))])
         else if tg_split geometry then
           HBox [flex matrix,
                 Sized WIDTH EQUAL (tg_inspector_width geometry) (Panel ''Inspector'' (scrolled inspector))]
         else
           VBox [flex matrix,
                 Sized HEIGHT EQUAL (max 6 (min 12 (lc_content_height layout sdiv 3)))
                   (Panel ''Inspector'' (scrolled inspector))])"

text \<open>Indexing the topics below zero is undefined: \<open>None\<close>.\<close>

definition RenderTopicsScreen ::
  "(nat \<Rightarrow> real \<Rightarrow> string) \<Rightarrow> nat \<Rightarrow> BridgeConfig \<Rightarrow> ViewState \<Rightarrow> DiagnosticsCache option \<Rightarrow>
     HistoryStore \<Rightarrow> Elem \<Rightarrow> LayoutContext \<Rightarrow> Elem option" where
  "RenderTopicsScreen fixed_digits now config state c history topic_list layout =
     (let geometry = MakeTopicPaneGeometry layout;
          w = max 20 (tg_inspector_width geometry -
                (if compact layout \<and> lc_short_height layout then 0 else 2));
          hint = VBox [piped (Text ''Select a topic to inspect send/recv state.'') [color theme_TextDim]];
          selected = min (vs_selected_topic state) (int_of_size (length (bc_topics config)) - 1)
      in if bc_topics config = [] then Some (topics_document layout topic_list hint hint hint)
         else if selected < 0 then None
         else
           let topic = bc_topics config ! nat selected;
               send = directed_info_of now c (TopicAliases topic) ''send'';
               recv = directed_info_of now c (TopicAliases topic) ''recv''
           in Some (topics_document layout topic_list
                      (inspector_of fixed_digits now config c history topic w)
                      (transfer_summary fixed_digits send recv)
                      (short_inspector_of now c topic layout)))"

text \<open>The entry of the topic menu for an index (the transform in \<^verbatim>\<open>App::Run\<close>); \<open>layout\<close> is that of the
  terminal's size.\<close>

definition topic_entry ::
  "(nat \<Rightarrow> real \<Rightarrow> string) \<Rightarrow> nat \<Rightarrow> BridgeConfig \<Rightarrow> DiagnosticsCache option \<Rightarrow> LayoutContext \<Rightarrow>
     string \<Rightarrow> int \<Rightarrow> bool \<Rightarrow> Elem" where
  "topic_entry fixed_digits now config c layout label index active =
     (if index < 0 \<or> index \<ge> int_of_size (length (bc_topics config)) then Text label
      else
        let topic = bc_topics config ! nat index;
            geometry = MakeTopicPaneGeometry layout
        in TopicRowElement fixed_digits topic (live_info_of now c (TopicAliases topic)) active
             (tg_name_width geometry) (tg_detailed_columns geometry))"

end
