(* ===== verification/Tui_Screens.thy ===== *)
theory Tui_Screens
  imports Tui_Topics
begin

text \<open>
  The other screens and the frame around them: \<^verbatim>\<open>src/tui/hosts_screen.cpp\<close>, \<^verbatim>\<open>logs_screen.cpp\<close>,
  \<^verbatim>\<open>overview_screen.cpp\<close> and the document that \<^verbatim>\<open>App::Run\<close> of \<^verbatim>\<open>app.cpp\<close> renders.  Rendered menus, the clock's
  text and the order \<^verbatim>\<open>std::sort\<close> gives equally severe alerts are arguments.
\<close>

section \<open>Hosts\<close>

definition presence_of :: "nat \<Rightarrow> DiagnosticsCache option \<Rightarrow> string \<Rightarrow> NetworkInfo option" where
  "presence_of now c hostname =
     (case c of None \<Rightarrow> None | Some cache \<Rightarrow> found (LookupNode now hostname (Some default_info) cache))"

definition has_data :: "DiagnosticsCache option \<Rightarrow> bool" where
  "has_data c = (case c of None \<Rightarrow> False | Some cache \<Rightarrow> HasReceivedData cache)"

definition diag_label :: "nat \<Rightarrow> DiagnosticsCache option \<Rightarrow> string" where
  "diag_label now c = (if fresh now c then ''LIVE'' else if has_data c then ''STALE'' else ''WAIT'')"

definition diag_color :: "nat \<Rightarrow> DiagnosticsCache option \<Rightarrow> Color" where
  "diag_color now c = (if fresh now c then theme_Success else theme_Warning)"

definition HostRowElement :: "string \<Rightarrow> NetworkInfo option \<Rightarrow> bool \<Rightarrow> bool \<Rightarrow> int \<Rightarrow> Elem" where
  "HostRowElement hostname presence selected focused name_width =
     (let online = (case presence of None \<Rightarrow> False | Some p \<Rightarrow> ni_node_online p);
          state_color = (if presence = None then theme_TextDim
                         else if online then theme_Success else theme_Error);
          dot = (if presence = None then ''? ''
                 else if online then sym_dot @ '' '' else sym_ring @ '' '');
          cursor = (if selected then sym_cursor @ '' ''
                    else if focused then sym_quote @ '' '' else ''  '');
          name_color = (if selected then theme_Text
                        else if focused then theme_PrimarySoft else theme_TextMuted);
          row = HBox [piped (Text cursor) [color (if focused then theme_Primary else theme_TextDim)],
                      piped (Text dot) [color state_color],
                      piped (Text (MiddleEllipsis hostname (nat (max 8 name_width)))) [color name_color],
                      Filler,
                      piped (Text (case presence of None \<Rightarrow> []
                                     | Some p \<Rightarrow> FormatAge (ni_node_state_age_ms p)))
                        [color theme_TextDim],
                      Text '' '']
      in if selected then piped row [bgcolor theme_BackgroundSelected] else row)"

definition host_detail_width :: "LayoutContext \<Rightarrow> int" where
  "host_detail_width layout =
     (if compact layout then lc_content_width layout
      else if wide layout then min 48 (max 40 (lc_content_width layout sdiv 3))
      else max 34 (lc_content_width layout sdiv 2))"

text \<open>The entry of the host menu for a host name (the transform in \<^verbatim>\<open>App::Run\<close>).\<close>

definition host_entry ::
  "nat \<Rightarrow> DiagnosticsCache option \<Rightarrow> LayoutContext \<Rightarrow> string \<Rightarrow> bool \<Rightarrow> bool \<Rightarrow> Elem" where
  "host_entry now c layout label active focused =
     (let detail_width = (if compact layout then 0 else host_detail_width layout);
          list_width = lc_content_width layout - detail_width;
          panel_chrome = (if compact layout \<and> lc_short_height layout then 0 else 2)
      in HostRowElement label (presence_of now c label) active focused
           (max 8 (list_width - panel_chrome - 14)))"

definition hosts_summary :: "nat \<Rightarrow> DiagnosticsCache option \<Rightarrow> string list \<Rightarrow> Elem" where
  "hosts_summary now c host_entries =
     (case host_counts now c host_entries (0, 0, 0) of (online, offline, unknown) \<Rightarrow>
        HBox [piped (Text ('' '' @ sym_dot @ '' '' @ dec online @ '' up '')) [bold, color theme_Success],
              piped (Text (''  '' @ sym_dot @ '' '' @ dec offline @ '' down '')) [bold, color theme_Error],
              piped (Text (''  ? '' @ dec unknown @ '' '')) [color theme_TextMuted],
              Filler,
              piped (Text ''diagnostics '') [color theme_TextMuted],
              piped (Text (diag_label now c)) [bold, color (diag_color now c)],
              Text '' ''])"

definition host_status :: "NetworkInfo option \<Rightarrow> string" where
  "host_status presence =
     (case presence of None \<Rightarrow> ''UNKNOWN''
      | Some p \<Rightarrow> if ni_node_online p then ''ONLINE'' else ''OFFLINE'')"

definition host_status_color :: "NetworkInfo option \<Rightarrow> Color" where
  "host_status_color presence =
     (case presence of None \<Rightarrow> theme_TextMuted
      | Some p \<Rightarrow> if ni_node_online p then theme_Success else theme_Error)"

definition host_address :: "BridgeConfig \<Rightarrow> string \<Rightarrow> string" where
  "host_address config hostname =
     (case mfind (bc_ip_map config) hostname of
        None \<Rightarrow> ''Zenoh discovery''
      | Some ip \<Rightarrow> if ip = [] then ''Zenoh discovery'' else ip)"

definition stale :: "nat \<Rightarrow> DiagnosticsCache option \<Rightarrow> bool" where
  "stale now c \<longleftrightarrow> has_data c \<and> \<not> fresh now c"

definition host_presence_rows ::
  "nat \<Rightarrow> DiagnosticsCache option \<Rightarrow> NetworkInfo option \<Rightarrow> int \<Rightarrow> Elem list" where
  "host_presence_rows now c presence w =
     (case presence of
        Some p \<Rightarrow>
          [FieldRow (if ni_node_online p then ''Online for'' else ''Offline for'')
             (FormatAge (ni_node_state_age_ms p)) theme_Text w,
           FieldRow ''Online count'' (dec (unat (ni_node_online_transitions p))) theme_Text w]
      | None \<Rightarrow>
          [FieldRow ''Last event'' (if stale now c then ''local diagnostics stale'' else ''not observed'')
             theme_Warning w])"

definition host_detail ::
  "nat \<Rightarrow> BridgeConfig \<Rightarrow> DiagnosticsCache option \<Rightarrow> string \<Rightarrow> int \<Rightarrow> Elem" where
  "host_detail now config c hostname w =
     (let presence = presence_of now c hostname;
          status = host_status presence;
          status_color = host_status_color presence;
          is_configured = (mfind (bc_ip_map config) hostname \<noteq> None)
      in VBox
          ((if w \<le> 38 then
              [piped (Text hostname) [bold, color theme_Text],
               FieldRow ''Status'' status status_color w]
            else
              [HBox [piped (Text hostname) [bold, color theme_Text, flex], Badge status status_color]]) @
           [rule_line,
            FieldRow ''Role'' (if hostname = bc_hostname config then ''Current node'' else ''Peer node'')
              theme_Text w,
            FieldRow ''Scope'' (if take 5 hostname = ''drone'' then ''Drone'' else ''Ground / custom'')
              theme_Text w,
            FieldRow ''Configured'' (if is_configured then ''yes'' else ''no'')
              (if is_configured then theme_Text else theme_TextMuted) w,
            FieldRow ''Address'' (host_address config hostname) theme_Text w,
            FieldRow ''Discovery'' ''Zenoh liveliness token'' theme_TextMuted w] @
           host_presence_rows now c presence w @
           [rule_line,
            piped (WrappedText
                (if presence \<noteq> None then ''State comes from live Zenoh PUT/DELETE events.''
                 else if stale now c then ''Local bridge diagnostics are older than 2.5s.''
                 else ''Waiting for the node's first liveliness event.'') w)
              [dim, color theme_TextDim, flex]]))"

definition short_host_detail ::
  "nat \<Rightarrow> DiagnosticsCache option \<Rightarrow> string \<Rightarrow> LayoutContext \<Rightarrow> Elem" where
  "short_host_detail now c hostname layout =
     (let presence = presence_of now c hostname
      in HBox [piped (Text ('' '' @ EndEllipsis hostname (max 8 (lc_content_width layout - 32))))
                 [bold, color theme_Text],
               Filler,
               piped (Text (host_status presence @ '' '')) [bold, color (host_status_color presence)],
               piped (Text (case presence of
                       Some p \<Rightarrow> FormatAge (ni_node_state_age_ms p)
                     | None \<Rightarrow> if stale now c then ''stale'' else ''not seen''))
                 [color (if presence \<noteq> None then theme_TextMuted else theme_Warning)],
               Text '' ''])"

definition hosts_document :: "LayoutContext \<Rightarrow> Elem \<Rightarrow> Elem \<Rightarrow> Elem \<Rightarrow> Elem \<Rightarrow> Elem" where
  "hosts_document layout summary host_list detail short_detail =
     (let summary = bgcolor theme_BackgroundElement summary
      in if compact layout then
           (if lc_short_height layout then
              VBox [summary,
                    Sized HEIGHT EQUAL (max 1 (lc_content_height layout - 2)) (scrolled host_list),
                    bgcolor theme_BackgroundElement short_detail]
            else
              VBox [summary,
                    flex (Panel ''Nodes'' (scrolled host_list)),
                    Sized HEIGHT EQUAL (max 6 (lc_content_height layout sdiv 2))
                      (Panel ''Node Detail'' (scrolled detail))])
         else
           VBox [summary,
                 flex (HBox [flex (Panel ''Nodes'' (scrolled host_list)),
                             Sized WIDTH EQUAL (host_detail_width layout)
                               (Panel ''Node Detail'' (scrolled detail))])])"

definition RenderHostsScreen ::
  "nat \<Rightarrow> BridgeConfig \<Rightarrow> ViewState \<Rightarrow> DiagnosticsCache option \<Rightarrow> string list \<Rightarrow> Elem \<Rightarrow>
     LayoutContext \<Rightarrow> Elem option" where
  "RenderHostsScreen now config state c host_entries host_list layout =
     (let summary = hosts_summary now c host_entries;
          w = max 20 (host_detail_width layout -
                (if compact layout \<and> lc_short_height layout then 0 else 2));
          none = piped (Text ''No configured or discovered nodes.'') [color theme_TextDim];
          selected = min (vs_selected_host state) (int_of_size (length host_entries - 1))
      in if host_entries = [] then Some (hosts_document layout summary host_list none none)
         else if selected < 0 then None
         else
           let hostname = host_entries ! nat selected
           in Some (hosts_document layout summary host_list
                      (host_detail now config c hostname w)
                      (short_host_detail now c hostname layout)))"

section \<open>Logs\<close>

definition LevelColor :: "string \<Rightarrow> Color" where
  "LevelColor level =
     (if level = ''ERROR'' \<or> level = ''FATAL'' then theme_Error
      else if level = ''WARN'' then theme_Warning
      else if level = ''INFO'' then theme_Info
      else theme_TextDim)"

definition selected_level :: "ViewState \<Rightarrow> string option" where
  "selected_level state =
     (let i = nat (max 0 (min (vs_selected_log_level state)
                (int_of_size (length (vs_log_levels state)) - 1)))
      in if i < length (vs_log_levels state) then Some (vs_log_levels state ! i) else None)"

definition log_line :: "LayoutContext \<Rightarrow> LogRecord \<Rightarrow> Elem" where
  "log_line layout record =
     (case log_columns layout of (stamp_width, level_width, node_width, message_width) \<Rightarrow>
        HBox
          ([piped (Text ('' '' @ lr_stamp record @ '' ''))
              [color theme_TextDim, Sized WIDTH EQUAL stamp_width],
            piped (Text ('' '' @ LevelTag (lr_level record) @ '' ''))
              [bold, color (LevelColor (lr_level record)), Sized WIDTH EQUAL level_width]] @
           (if node_width > 0 then
              [piped (Text (EndEllipsis (lr_node record) (node_width - 1) @ '' ''))
                 [color theme_Primary, Sized WIDTH EQUAL node_width]]
            else []) @
           [piped (Text (EndEllipsis (lr_message record) message_width))
              [color theme_Text, Sized WIDTH EQUAL message_width]]))"

definition log_count_label :: "LayoutContext \<Rightarrow> nat \<Rightarrow> nat \<Rightarrow> nat \<Rightarrow> string" where
  "log_count_label layout visible_count filtered stored =
     (if compact layout then dec visible_count @ ''/'' @ dec filtered
      else ''showing '' @ dec visible_count @ '' / '' @ dec filtered @ '' filtered / '' @
             dec stored @ '' total'')"

definition frame_index :: "ViewState \<Rightarrow> nat" where
  "frame_index state = nat (vs_animation_frame state mod 2 ^ 64)"

definition log_body :: "ViewState \<Rightarrow> string \<Rightarrow> Elem list \<Rightarrow> Elem" where
  "log_body state min_level lines =
     (if lines = [] then
        center (VBox [color theme_Primary (spinner3 (frame_index state)),
                      piped (Text (''Waiting for /rosout messages'' @
                               (if min_level = ''All'' then ''...'' else '' at '' @ min_level @ ''+...'')))
                        [color theme_TextDim]])
      else VBox lines)"

definition RenderLogsScreen ::
  "ViewState \<Rightarrow> LogRecord list \<Rightarrow> Elem \<Rightarrow> LayoutContext \<Rightarrow> Elem option" where
  "RenderLogsScreen state log_store level_filter layout =
     map_option (\<lambda>min_level.
       let records = Records min_level log_store;
           visible = visible_records layout records;
           body = log_body state min_level (map (log_line layout) visible);
           filter_row =
             HBox [level_filter, Filler,
                   piped (Text (log_count_label layout (length visible) (length records)
                            (TotalCount log_store))) [color theme_TextDim]]
       in if compact layout \<and> lc_short_height layout then
            VBox [bgcolor theme_BackgroundElement filter_row, flex body]
          else VBox [Panel ''Filters'' filter_row, flex (Panel ''rosout'' body)])
     (selected_level state)"

section \<open>Overview\<close>

text \<open>The nodes whose state is known, and the counts of the configured and observed ones.\<close>

definition observed_nodes :: "nat \<Rightarrow> DiagnosticsCache option \<Rightarrow> bool smap" where
  "observed_nodes now c =
     (if fresh now c then
        foldl (\<lambda>m node. if ni_node_hostname node = [] then m
                        else mset_at (ni_node_hostname node) (ni_node_online node) m)
          [] (NodeSnapshot (the c))
      else [])"

fun node_counts :: "bool smap \<Rightarrow> string list \<Rightarrow> nat \<times> nat \<times> nat \<Rightarrow> nat \<times> nat \<times> nat" where
  "node_counts observed [] counts = counts"
| "node_counts observed (hostname # names) (online, offline, unknown) =
     node_counts observed names
       (case mfind observed hostname of
          None \<Rightarrow> (online, offline, unknown + 1)
        | Some True \<Rightarrow> (online + 1, offline, unknown)
        | Some False \<Rightarrow> (online, offline + 1, unknown))"

definition live_snapshot :: "nat \<Rightarrow> DiagnosticsCache option \<Rightarrow> NetworkInfo list" where
  "live_snapshot now c = (if fresh now c then Snapshot (the c) else [])"

definition bridge_state :: "nat \<Rightarrow> DiagnosticsCache option \<Rightarrow> string" where
  "bridge_state now c =
     (if live_snapshot now c = [] then (if has_data c then ''STALE'' else ''WAIT'')
      else if os_unhealthy_topics (BuildOverviewStats now c) = 0 then ''STABLE'' else ''ATTN'')"

definition bridge_color :: "nat \<Rightarrow> DiagnosticsCache option \<Rightarrow> Color" where
  "bridge_color now c =
     (if live_snapshot now c = [] \<or> os_unhealthy_topics (BuildOverviewStats now c) > 0
      then theme_Warning else theme_Success)"

text \<open>A \<^verbatim>\<open>double\<close> beyond the range of \<^verbatim>\<open>int\<close> has no value when cast: \<open>None\<close>.\<close>

definition latency_text :: "nat \<Rightarrow> DiagnosticsCache option \<Rightarrow> string option" where
  "latency_text now c =
     (if live_snapshot now c = [] then Some ''--''
      else
        let v = os_avg_latency_ms (BuildOverviewStats now c);
            i = (if v < 0 then \<lceil>v\<rceil> else \<lfloor>v\<rfloor>)
        in if - (2 ^ 31) \<le> i \<and> i < 2 ^ 31 then Some (to_string_int i @ '' ms'') else None)"

definition live_topic_count :: "nat \<Rightarrow> DiagnosticsCache option \<Rightarrow> nat" where
  "live_topic_count now c = length (filter IsTopicRow (live_snapshot now c))"

definition overview_nodes ::
  "nat \<Rightarrow> BridgeConfig \<Rightarrow> DiagnosticsCache option \<Rightarrow> nat \<times> nat \<times> nat" where
  "overview_nodes now config c =
     node_counts (observed_nodes now c) (node_names config c) (0, 0, 0)"

definition node_color :: "nat \<times> nat \<times> nat \<Rightarrow> Color" where
  "node_color counts =
     (case counts of (online, offline, unknown) \<Rightarrow>
        if offline > 0 then theme_Error else if unknown > 0 then theme_Warning else theme_Success)"

definition bridge_tile :: "nat \<Rightarrow> DiagnosticsCache option \<Rightarrow> Elem" where
  "bridge_tile now c =
     StatTile ''Bridge'' (bridge_state now c)
       (if live_snapshot now c = []
        then (if has_data c then ''diagnostics stale'' else ''awaiting diagnostics'')
        else dec (os_unhealthy_topics (BuildOverviewStats now c)) @ '' need attention'')
       (bridge_color now c)"

definition topics_tile :: "nat \<Rightarrow> BridgeConfig \<Rightarrow> DiagnosticsCache option \<Rightarrow> Elem" where
  "topics_tile now config c =
     StatTile ''Topics'' (dec (length (bc_topics config))) (dec (live_topic_count now c) @ '' live'')
       theme_Primary"

definition nodes_tile :: "nat \<Rightarrow> BridgeConfig \<Rightarrow> DiagnosticsCache option \<Rightarrow> Elem" where
  "nodes_tile now config c =
     (case overview_nodes now config c of (online, offline, unknown) \<Rightarrow>
        StatTile ''Nodes'' (dec online @ '' / '' @ dec (length (node_names config c)))
          (dec offline @ '' down'' @ middle_dot @ dec unknown @ '' unknown'')
          (node_color (online, offline, unknown)))"

definition this_node_panel ::
  "(nat \<Rightarrow> real \<Rightarrow> string) \<Rightarrow> nat \<Rightarrow> BridgeConfig \<Rightarrow> DiagnosticsCache option \<Rightarrow> int \<Rightarrow> Elem" where
  "this_node_panel fixed_digits now config c w =
     Panel ''This Node''
       (VBox [FieldRow ''Hostname'' (bc_hostname config) theme_Primary w,
              FieldRow ''Host entries'' (dec (length (bc_ip_map config))) theme_Text w,
              FieldRow ''Live topics'' (dec (live_topic_count now c)) theme_Text w,
              FieldRow ''Cloud links''
                (dec (length (filter (\<lambda>t. tr_msg_type t = ''sensor_msgs/PointCloud2'') (bc_topics config))))
                theme_Text w,
              FieldRow ''Monitor''
                (if ro_monitor_node (bc_runtime config) then ''enabled'' else ''disabled'')
                (if ro_monitor_node (bc_runtime config) then theme_Success else theme_TextMuted) w,
              FieldRow ''Avg stability''
                (FormatMetric fixed_digits (os_avg_stability (BuildOverviewStats now c)) ''%'')
                theme_Text w])"

definition session_row :: "int \<Rightarrow> NetworkInfo \<Rightarrow> Elem" where
  "session_row column_width item =
     (let link_color = (if ni_link_connected item then theme_Success else theme_Error);
          bullet = piped (Text (sym_dot @ '' '')) [color link_color];
          link = [piped (Text ''link '') [color theme_TextMuted],
                  piped (Text (if ni_link_connected item then ''up'' else ''down'')) [color link_color]];
          peers = [piped (Text ''  peers '') [color theme_TextMuted],
                   piped (Text (dec (unat (ni_connected_peer_count item)))) [color theme_Text],
                   piped (Text ''  routers '') [color theme_TextMuted],
                   piped (Text (dec (unat (ni_connected_router_count item)))) [color theme_Text],
                   Filler];
          counters = ''rc '' @ dec (unat (ni_reconnect_count item)) @ ''  qdrop '' @
                     dec (unat (ni_transport_queue_drops item))
      in if column_width < 72 then
           VBox [HBox ([bullet, piped (Text (SessionShortName item)) [bold, color theme_Text], Filler] @
                       link @ [Text '' '']),
                 HBox (peers @ [piped (Text (counters @ '' '')) [color theme_TextDim]])]
         else
           HBox ([bullet,
                  piped (Text (SessionShortName item)) [bold, color theme_Text, Sized WIDTH EQUAL 8]] @
                 link @ peers @ [piped (Text counters) [color theme_TextDim]]))"

definition transport_panel :: "nat \<Rightarrow> DiagnosticsCache option \<Rightarrow> int \<Rightarrow> Elem" where
  "transport_panel now c column_width =
     (let rows = map (session_row column_width)
            (filter (\<lambda>i. ni_msg_type i = ''transport'') (live_snapshot now c))
      in Panel ''Transport Sessions''
           (VBox (if rows = [] then
                    [piped (Text (if has_data c
                                  then ''No transport telemetry in the latest diagnostics.''
                                  else ''Waiting for transport telemetry...''))
                       [color theme_TextDim, dim]]
                  else rows)))"

definition bandwidth_panel :: "(nat \<Rightarrow> real \<Rightarrow> string) \<Rightarrow> HistoryStore \<Rightarrow> Elem" where
  "bandwidth_panel fixed_digits history =
     (let bandwidth_series = TotalBandwidthKbps history;
          bandwidth_peak = foldl max 0 bandwidth_series
      in Panel ''Bandwidth Trend''
           (piped
             (VBox [flex (Sparkline bandwidth_series theme_Primary 0),
                    HBox [FieldInline ''now '' (FormatMetric fixed_digits (LatestTotalKbps history) '' kbps'')
                            theme_Text,
                          Filler,
                          FieldInline ''peak '' (FormatMetric fixed_digits bandwidth_peak '' kbps'')
                            theme_TextMuted]])
             [Sized HEIGHT GREATER_THAN 7]))"

definition alerts_panel :: "nat \<Rightarrow> DiagnosticsCache option \<Rightarrow> AlertRow list \<Rightarrow> int \<Rightarrow> Elem" where
  "alerts_panel now c alerts column_width =
     (let waiting = (live_snapshot now c = []);
          w = max 14 (min 28 (column_width - 18));
          rows =
            (if alerts = [] then
               [HBox [piped (Text (sym_dot @ '' '')) [color theme_Success],
                      piped (Text (if waiting
                                   then (if has_data c then ''Diagnostics are stale.''
                                         else ''Waiting for the first diagnostics.'')
                                   else ''All topics are healthy.''))
                        [color (if waiting then theme_Warning else theme_TextMuted)]]]
             else
               map (\<lambda>alert.
                 HBox [piped (Text (sym_alert @ '' '')) [color theme_Warning],
                       piped (Text (MiddleEllipsis (ar_name alert) (nat w)))
                         [color theme_Text, Sized WIDTH EQUAL w],
                       Text '' '',
                       piped (Paragraph (ar_reason alert)) [color theme_TextMuted, flex]]) alerts)
      in Panel ''Alerts'' (flex (VBox rows)))"

definition overview_document ::
  "LayoutContext \<Rightarrow> Elem list \<Rightarrow> Elem \<Rightarrow> Elem \<Rightarrow> Elem \<Rightarrow> Elem \<Rightarrow> Elem" where
  "overview_document layout tiles this_node transport bandwidth alerts =
     (let t = (\<lambda>i. tiles ! i)
      in if compact layout then
           VBox [HBox [t 0, t 1], HBox [t 2, t 3], flex this_node, flex alerts]
         else
           VBox [(if wide layout then HBox [t 0, rule_line, t 1, rule_line, t 2, rule_line, t 3]
                  else HBox [flex (HBox [t 0, t 1]), flex (HBox [t 2, t 3])]),
                 flex (HBox [flex this_node, flex transport]),
                 flex (HBox [flex bandwidth, flex alerts])])"

definition short_overview ::
  "nat \<Rightarrow> BridgeConfig \<Rightarrow> DiagnosticsCache option \<Rightarrow> string \<Rightarrow> Elem \<Rightarrow> Elem" where
  "short_overview now config c latency alerts =
     (case overview_nodes now config c of (online, offline, unknown) \<Rightarrow>
        VBox [HBox [piped (Text ('' '' @ bridge_state now c @ '' '')) [bold, color (bridge_color now c)],
                    piped (Text (''  T '' @ dec (length (bc_topics config)) @ '' '')) [color theme_Primary],
                    Filler,
                    piped (Text (''N '' @ dec online @ ''/'' @ dec (length (node_names config c)) @ '' ''))
                      [color (node_color (online, offline, unknown))],
                    piped (Text (''  '' @ latency)) [color theme_Accent]],
              flex alerts])"

definition RenderOverviewScreen ::
  "(nat \<Rightarrow> real \<Rightarrow> string) \<Rightarrow> nat \<Rightarrow> BridgeConfig \<Rightarrow> DiagnosticsCache option \<Rightarrow> HistoryStore \<Rightarrow>
     AlertRow list \<Rightarrow> LayoutContext \<Rightarrow> Elem option" where
  "RenderOverviewScreen fixed_digits now config c history alerts layout =
     map_option (\<lambda>latency.
       let column_width = (if compact layout then lc_content_width layout
                           else lc_content_width layout sdiv 2);
           panel = alerts_panel now c alerts column_width
       in if compact layout \<and> lc_short_height layout
          then short_overview now config c latency panel
          else overview_document layout
                 [bridge_tile now c, topics_tile now config c, nodes_tile now config c,
                  StatTile ''Latency'' latency ''avg receive'' theme_Accent]
                 (this_node_panel fixed_digits now config c (max 20 (column_width - 2)))
                 (transport_panel now c column_width)
                 (bandwidth_panel fixed_digits history)
                 panel)
     (latency_text now c)"

section \<open>The document\<close>

definition MakeHeader :: "string \<Rightarrow> nat \<Rightarrow> BridgeConfig \<Rightarrow> DiagnosticsCache option \<Rightarrow> ViewState \<Rightarrow> Elem" where
  "MakeHeader clock now config c state =
     (let diag =
            (if \<not> fresh now c then
               HBox [color theme_Primary (spinner3 (frame_index state)),
                     piped (Text ('' '' @ diag_label now c @ '' '')) [bold, color (diag_color now c)]]
             else
               HBox [piped (Text (sym_dot @ '' '')) [color theme_Success],
                     piped (Text (diag_label now c @ '' '')) [bold, color (diag_color now c)]])
      in piped
           (HBox [piped (Text ('' '' @ sym_fisheye @ '' '')) [color theme_Primary],
                  piped (Text ''NetBridge'') [bold, color theme_Text],
                  piped (Text '' zenoh'') [color theme_TextDim],
                  Filler,
                  piped (Text (EndEllipsis (bc_hostname config) 20)) [color theme_Info],
                  piped (Text middle_dot) [color theme_BorderSubtle],
                  diag,
                  piped (Text (drop 1 middle_dot)) [color theme_BorderSubtle],
                  piped (Text clock) [color theme_TextMuted],
                  Text '' ''])
           [bgcolor theme_BackgroundPanel])"

definition MakeTabBar :: "Elem \<Rightarrow> Elem" where
  "MakeTabBar nav = VBox [nav, rule_line]"

text \<open>The entries of the two horizontal menus: the tabs (with their number) and the log levels.\<close>

definition chip :: "string \<Rightarrow> bool \<Rightarrow> bool \<Rightarrow> Elem" where
  "chip label active focused =
     (if active then piped (Text label) [bold, color Black, bgcolor theme_Primary]
      else if focused then piped (Text label) [bold, color theme_PrimarySoft]
      else piped (Text label) [color theme_TextMuted])"

definition nav_entry :: "string \<Rightarrow> int \<Rightarrow> bool \<Rightarrow> bool \<Rightarrow> Elem" where
  "nav_entry label index active focused =
     chip ('' '' @ to_string_int (index + 1) @ '' '' @ label @ '' '') active focused"

definition level_entry :: "string \<Rightarrow> bool \<Rightarrow> bool \<Rightarrow> Elem" where
  "level_entry label active focused = chip ('' '' @ label @ '' '') active focused"

definition key_hints :: "ViewState \<Rightarrow> LayoutContext \<Rightarrow> Elem list" where
  "key_hints state layout =
     (if \<not> compact layout then
        [KeyHint ''1-4'' ''tabs''] @
        (if vs_selected_nav state = 1 \<or> vs_selected_nav state = 2
         then [KeyHint (sym_up @ sym_down) ''select''] else []) @
        (if vs_selected_nav state = 3 then [KeyHint ''f'' ''filter''] else [])
      else []) @
     [KeyHint ''?'' ''help'', KeyHint ''q'' ''quit'']"

definition MakeFooter :: "ViewState \<Rightarrow> LayoutContext \<Rightarrow> Elem" where
  "MakeFooter state layout =
     (let pulse = (vs_animation_frame state smod 2 = 0)
      in piped
           (HBox [HBox (key_hints state layout),
                  Filler,
                  piped (Text (if pulse then sym_dot @ '' '' else sym_ring @ '' ''))
                    [color (if pulse then theme_Primary else theme_TextDim)],
                  piped (Text (to_string_int (lc_terminal_width layout) @ ''x'' @
                               to_string_int (lc_terminal_height layout) @ '' ''))
                    [color theme_TextDim]])
           [bgcolor theme_BackgroundPanel])"

definition MakeHelpOverlay :: Elem where
  "MakeHelpOverlay =
     piped (Panel ''Keybindings''
       (VBox [KeyHint ''1-4'' ''Switch tab'',
              KeyHint (sym_left @ sym_right) ''Move between tabs'',
              KeyHint ''Tab'' ''Move between tab bar and content'',
              KeyHint (sym_up @ sym_down) ''Move inside lists'',
              KeyHint ''f'' ''Cycle log level filter (Logs)'',
              KeyHint ''mouse'' ''Click menu entries and chips'',
              KeyHint ''?'' ''Toggle this help'',
              KeyHint ''q'' ''Quit (press q twice)'',
              KeyHint ''Esc'' ''Close overlays'']))
       [Sized WIDTH EQUAL 44]"

definition MakeQuitOverlay :: Elem where
  "MakeQuitOverlay =
     piped (Panel ''Quit''
       (VBox [piped (Text ''Quit the NetBridge TUI?'') [color theme_Text],
              Text '' '',
              KeyHint ''q'' ''quit now'',
              KeyHint ''other'' ''cancel'']))
       [Sized WIDTH EQUAL 36]"

text \<open>The four rendered menus.\<close>

record Menus =
  mn_nav :: Elem
  mn_topics :: Elem
  mn_hosts :: Elem
  mn_levels :: Elem

definition content_element ::
  "(nat \<Rightarrow> real \<Rightarrow> string) \<Rightarrow> nat \<Rightarrow> App \<Rightarrow> LogRecord list \<Rightarrow> AlertRow list \<Rightarrow> Menus \<Rightarrow>
     LayoutContext \<Rightarrow> Elem option" where
  "content_element fixed_digits now app log_store alerts menus layout =
     (let state = app_state app; nav = vs_selected_nav state in
      if nav = 0 then
        RenderOverviewScreen fixed_digits now (app_config app) (app_cache app) (app_history app) alerts
          layout
      else if nav = 1 then
        RenderTopicsScreen fixed_digits now (app_config app) state (app_cache app) (app_history app)
          (mn_topics menus) layout
      else if nav = 2 then
        RenderHostsScreen now (app_config app) state (app_cache app) (app_host_entries app)
          (mn_hosts menus) layout
      else RenderLogsScreen state log_store (mn_levels menus) layout)"

text \<open>The document of a call of the renderer, after \<open>render_tick\<close>.\<close>

definition render_document ::
  "(nat \<Rightarrow> real \<Rightarrow> string) \<Rightarrow> string \<Rightarrow> nat \<Rightarrow> App \<Rightarrow> LogRecord list \<Rightarrow> AlertRow list \<Rightarrow> Menus \<Rightarrow>
     LayoutContext \<Rightarrow> Elem option" where
  "render_document fixed_digits clock now app log_store alerts menus layout =
     map_option (\<lambda>content.
       let state = app_state app;
           document =
             VBox [MakeHeader clock now (app_config app) (app_cache app) state,
                   MakeTabBar (mn_nav menus),
                   flex content,
                   MakeFooter state layout];
           document =
             (if vs_show_help state \<or> vs_show_quit_confirm state then
                DBox [document,
                      piped (center (if vs_show_help state then MakeHelpOverlay else MakeQuitOverlay))
                        [Styled ClearUnder, bgcolor theme_Background]]
              else document)
       in bgcolor theme_Background document)
     (content_element fixed_digits now app log_store alerts menus layout)"

end
