(* ===== verification/Tui_Overview.thy ===== *)
theory Tui_Overview
  imports Tui_Screens Diagnostics_Flow
begin

text \<open>
  What the screens say agrees: the overview's numbers, the alert list, the host list and what the
  publishing node knows.
\<close>

section \<open>Unhealthy topics are the alerts\<close>

lemma overview_sums_bad:
  "fst (snd (overview_sums items (topics, bad, stability, measured, latency))) =
     bad + length (filter (\<lambda>i. IsTopicRow i \<and> unhealthy i) items)"
  by (induction items arbitrary: topics bad stability measured latency) auto

lemma alert_row_Some: "alert_row fd item \<noteq> None \<longleftrightarrow> IsTopicRow item \<and> unhealthy item"
  by (auto simp: alert_row_def alert_reasons_def unhealthy_def Let_def split: list.split)

lemma map_filter_length:
  "length (List.map_filter f xs) = length (filter (\<lambda>x. f x \<noteq> None) xs)"
  by (induction xs) (auto simp: List.map_filter_simps split: option.split)

lemma alert_rows_length:
  "length (List.map_filter (alert_row fd) items) = length (filter (\<lambda>i. IsTopicRow i \<and> unhealthy i) items)"
  by (simp only: map_filter_length alert_row_Some)

lemma unhealthy_alerts:
  assumes "BuildAlerts fd now c alerts"
  shows "os_unhealthy_topics (BuildOverviewStats now c) = length alerts"
proof -
  have "length alerts = length (alert_rows fd now c)"
    using assms unfolding BuildAlerts_def by (metis size_mset)
  then show ?thesis
    using overview_sums_bad [of "Snapshot (the c)" 0 0 0 0 0]
    by (simp add: alert_rows_def BuildOverviewStats_def alert_rows_length Let_def
        case_prod_beta)
qed

section \<open>Both screens count the same nodes\<close>

text \<open>Presence entries are named after their host.\<close>

definition named_nodes :: "NetworkInfo list \<Rightarrow> bool" where
  "named_nodes infos \<longleftrightarrow>
     list_all (\<lambda>i. ni_msg_type i = ''presence'' \<longrightarrow>
       ni_node_hostname i \<noteq> [] \<and> ni_name i = ''@zenoh/node/'' @ ni_node_hostname i) infos"

lemma Update_entry:
  "(k, i) \<in> set (latest (Update t infos c)) \<Longrightarrow> i \<in> set infos \<and> k = ni_name i"
  using mfind_set [OF map_ok_Update, of k i t infos c] last_named_name [of infos k i]
  by (simp add: mfind_Update)

lemma NodeSnapshot_lookup:
  assumes "named_nodes infos"
  shows "i \<in> set (NodeSnapshot (Update t0 infos c)) \<and> ni_node_hostname i = h \<longleftrightarrow>
    mfind (latest (Update t0 infos c)) (''@zenoh/node/'' @ h) = Some i \<and> ni_msg_type i = ''presence''"
    (is "?l \<longleftrightarrow> ?r")
proof
  assume ?l
  then obtain k where k: "(k, i) \<in> set (latest (Update t0 infos c))" "ni_msg_type i = ''presence''"
    "ni_node_hostname i = h"
    by (auto simp: NodeSnapshot_def)
  then have "k = ''@zenoh/node/'' @ h"
    using Update_entry [OF k(1)] assms by (auto simp: named_nodes_def list_all_iff)
  then show ?r using k mfind_set [OF map_ok_Update] by metis
next
  assume r: ?r
  then have k: "(''@zenoh/node/'' @ h, i) \<in> set (latest (Update t0 infos c))"
    using mfind_set [OF map_ok_Update] by metis
  then have "ni_node_hostname i = h"
    using Update_entry [OF k] r assms by (auto simp: named_nodes_def list_all_iff)
  then show ?l using k r by (force simp: NodeSnapshot_def)
qed

lemma NodeSnapshot_distinct:
  assumes "named_nodes infos"
  shows "distinct (map ni_node_hostname (NodeSnapshot (Update t0 infos c)))"
proof -
  let ?ps = "filter (\<lambda>(_, i). ni_msg_type i = ''presence'') (latest (Update t0 infos c))"
  have "map fst ?ps = map (\<lambda>i. ''@zenoh/node/'' @ ni_node_hostname i) (map snd ?ps)"
    using assms Update_entry by (fastforce simp: named_nodes_def list_all_iff)
  moreover have "distinct (map fst ?ps)"
    by (rule distinct_map_filter [OF map_ok_distinct [OF map_ok_Update]])
  ultimately have "distinct (map ((@) ''@zenoh/node/'') (map ni_node_hostname (map snd ?ps)))"
    by (simp only: map_map comp_def)
  then show ?thesis unfolding NodeSnapshot_def distinct_map by blast
qed

lemma map_of_rev_distinct: "distinct (map fst kvs) \<Longrightarrow> map_of (rev kvs) = map_of kvs"
  by (subst map_of_inject_set) (simp_all add: distinct_rev flip: rev_map)

lemma observed_lookup:
  assumes "named_nodes infos" and "int t - int t0 \<le> 2500000000"
  shows "mfind (observed_nodes t (Some (Update t0 infos c))) h =
    map_option ni_node_online (presence_of t (Some (Update t0 infos c)) h)"
proof -
  let ?c = "Update t0 infos c"
  let ?kvs = "map (\<lambda>i. (ni_node_hostname i, ni_node_online i)) (NodeSnapshot ?c)"
  have f: "IsFresh t 2500 ?c" using assms(2) by (simp add: IsFresh_def IsFreshLocked_def Update_def)
  have ne: "ni_node_hostname i \<noteq> []" if "i \<in> set (NodeSnapshot ?c)" for i
    using that assms(1) Update_entry by (fastforce simp: NodeSnapshot_def named_nodes_def list_all_iff)
  have none: "map_of ?kvs h = None"
    if "\<And>j. mfind (latest ?c) (''@zenoh/node/'' @ h) = Some j \<Longrightarrow> ni_msg_type j \<noteq> ''presence''"
  proof -
    have "h \<notin> ni_node_hostname ` set (NodeSnapshot ?c)"
    proof
      assume "h \<in> ni_node_hostname ` set (NodeSnapshot ?c)"
      then obtain j where "j \<in> set (NodeSnapshot ?c) \<and> ni_node_hostname j = h" by blast
      from NodeSnapshot_lookup [OF assms(1), THEN iffD1, OF this] show False using that by blast
    qed
    then show ?thesis by (simp add: map_of_eq_None_iff image_image)
  qed
  have "observed_nodes t (Some ?c) = foldl (\<lambda>m (k, v). mset_at k v m) [] ?kvs"
    using f ne by (auto simp: observed_nodes_def fresh_def foldl_map intro!: foldl_cong)
  then have "mfind (observed_nodes t (Some ?c)) h = map_of ?kvs h"
    using NodeSnapshot_distinct [OF assms(1), of t0 c]
    by (simp add: std_map.put_all_last comp_def map_of_rev_distinct split: option.split)
  also have "\<dots> = map_option ni_node_online (presence_of t (Some ?c) h)"
  proof (cases "mfind (latest ?c) (''@zenoh/node/'' @ h)")
    case (Some i)
    show ?thesis
    proof (cases "ni_msg_type i = ''presence''")
      case True
      then have "i \<in> set (NodeSnapshot ?c)" "ni_node_hostname i = h"
        using NodeSnapshot_lookup [OF assms(1)] Some by blast+
      then have "map_of ?kvs h = Some (ni_node_online i)"
        using NodeSnapshot_distinct [OF assms(1), of t0 c]
        by (intro map_of_is_SomeI) (auto simp: comp_def)
      then show ?thesis
        using f Some True by (simp add: presence_of_def found_def LookupNode_def IsFresh_def)
    next
      case False
      then have "map_of ?kvs h = None" using Some by (intro none) (metis option.inject)
      then show ?thesis
        using f Some False by (simp add: presence_of_def found_def LookupNode_def IsFresh_def)
    qed
  next
    case None
    then have "map_of ?kvs h = None" by (intro none) (metis option.distinct(1))
    then show ?thesis using f None by (simp add: presence_of_def found_def LookupNode_def IsFresh_def)
  qed
  finally show ?thesis .
qed

lemma presence_of_cases:
  "host_counts now (Some c) (h # hs) (a, b, u) =
     host_counts now (Some c) hs
       (case presence_of now (Some c) h of
          None \<Rightarrow> (a, b, u + 1)
        | Some p \<Rightarrow> if ni_node_online p then (a + 1, b, u) else (a, b + 1, u))"
proof -
  obtain ok out where l: "LookupNode now h (Some default_info) c = (ok, out)" by (rule prod.exhaust)
  have "out \<noteq> None"
  proof
    assume "out = None"
    then show False
      using l by (cases "mfind (latest c) (''@zenoh/node/'' @ h)")
        (simp_all add: LookupNode_def split: if_splits)
  qed
  then show ?thesis by (cases ok) (auto simp: presence_of_def found_def l)
qed

lemma counts_agree:
  assumes "\<And>h. mfind observed h = map_option ni_node_online (presence_of now (Some c) h)"
  shows "host_counts now (Some c) hs k = node_counts observed hs k"
proof (induction hs arbitrary: k)
  case (Cons h hs)
  obtain a b u where k: "k = (a, b, u)" by (rule prod_cases3)
  show ?case
    unfolding k presence_of_cases node_counts.simps assms
    by (cases "presence_of now (Some c) h") (simp_all add: Cons split: bool.split)
qed (auto elim: prod_cases3)

lemma node_counts_sum:
  "node_counts observed hs (a, b, u) = (a', b', u') \<Longrightarrow> a' + b' + u' = a + b + u + length hs"
  by (induction hs arbitrary: a b u) (auto split: option.splits bool.splits)

section \<open>What a node publishes\<close>

lemma published_named:
  assumes "publishDiagnostics counts now steady b = ((hdr, infos), b')"
    and "bf_control b = Some z" and "mfind (zi_presence z) [] = None"
    and "plain_types (bf_send_topics b)" and "plain_types (bf_recv_topics b)"
  shows "named_nodes infos"
proof -
  let ?cs = "fst (poll_session (counts ControlSession) (Some z))"
  obtain pre where pre: "no_presence pre"
    and infos: "infos = pre @ map (\<lambda>p. presence_info ?cs (node_of steady p)) (zi_presence z)"
    using publishDiagnostics_infos [OF assms(1,2,4,5)] by blast
  have "fst p \<noteq> []" if "p \<in> set (zi_presence z)" for p
    using assms(3) that unfolding mfind_None_iff by (metis imageI)
  then show ?thesis
    using pre unfolding infos
    by (auto simp: named_nodes_def no_presence_def list_all_iff presence_info_def node_of_def case_prod_beta)
qed

lemma published_session:
  assumes "publishDiagnostics counts now steady b = ((hdr, infos), b')" and "bf_control b = Some z"
  shows "infos \<noteq> []"
proof -
  obtain cs control where c: "poll_session (counts ControlSession) (Some z) = (cs, control)"
    by (rule prod.exhaust)
  then have "control \<noteq> None" using poll_session_presence [OF c] by auto
  then show ?thesis
    using assms by (auto simp: publishDiagnostics_def Let_def c split: prod.splits)
qed

text \<open>C31: For the 2.5 seconds a published diagnostics message is fresh the screens agree, whatever order the
  sort gives equally severe alerts: the number of topics the overview says need attention is the
  number of alerts it lists, it says STABLE exactly when there is none, and its online, offline and
  unknown nodes are counted as on the host screen and add up to the nodes known.\<close>

theorem screens_agree:
  assumes "publishDiagnostics counts now steady b = ((hdr, infos), b')"
    and "bf_control b = Some z" and "mfind (zi_presence z) [] = None"
    and "plain_types (bf_send_topics b)" and "plain_types (bf_recv_topics b)"
    and "int t - int t0 \<le> 2500000000"
    and "BuildAlerts fixed_digits t (Some (Update t0 infos cache)) alerts"
  shows "os_unhealthy_topics (BuildOverviewStats t (Some (Update t0 infos cache))) = length alerts \<and>
    (bridge_state t (Some (Update t0 infos cache)) = ''STABLE'' \<longleftrightarrow> alerts = []) \<and>
    overview_nodes t config (Some (Update t0 infos cache)) =
      host_counts t (Some (Update t0 infos cache))
        (node_names config (Some (Update t0 infos cache))) (0, 0, 0) \<and>
    (case overview_nodes t config (Some (Update t0 infos cache)) of (online, offline, unknown) \<Rightarrow>
       online + offline + unknown = length (node_names config (Some (Update t0 infos cache))))"
proof (intro conjI)
  let ?c = "Some (Update t0 infos cache)"
  show u: "os_unhealthy_topics (BuildOverviewStats t ?c) = length alerts"
    by (rule unhealthy_alerts [OF assms(7)])
  have f: "fresh t ?c"
    using assms(6) by (simp add: fresh_def IsFresh_def IsFreshLocked_def Update_def)
  obtain i where "i \<in> set infos" using published_session [OF assms(1,2)] by (cases infos) auto
  then have "last_named infos (ni_name i) \<noteq> None"
    unfolding last_named_def find_None_iff by auto
  then have "Snapshot (Update t0 infos cache) \<noteq> []"
    by (auto simp: Snapshot_def simp flip: mfind_Update [of t0 infos cache])
  then show "bridge_state t ?c = ''STABLE'' \<longleftrightarrow> alerts = []"
    using f u by (simp add: bridge_state_def live_snapshot_def)
  note named = published_named [OF assms(1-5)]
  show "overview_nodes t config ?c = host_counts t ?c (node_names config ?c) (0, 0, 0)"
    unfolding overview_nodes_def
    by (rule counts_agree [symmetric]) (rule observed_lookup [OF named assms(6)])
  show "case overview_nodes t config ?c of (online, offline, unknown) \<Rightarrow>
      online + offline + unknown = length (node_names config ?c)"
    using node_counts_sum [of "observed_nodes t ?c" "node_names config ?c" 0 0 0]
    by (simp add: overview_nodes_def split: prod.split)
qed

lemma BuildAlerts_exists: "\<exists>alerts. BuildAlerts fd now c alerts"
proof -
  let ?rows = "rev (sort_key ar_severity (alert_rows fd now c))"
  have "sorted_wrt (\<lambda>a b. ar_severity b \<le> ar_severity a) ?rows"
    using sorted_sort_key [of ar_severity "alert_rows fd now c"]
    by (simp add: sorted_wrt_rev sorted_wrt_map)
  then have "BuildAlerts fd now c ?rows" by (simp add: BuildAlerts_def)
  then show ?thesis by blast
qed

lemma screens_agree_witness:
  "\<exists>hdr infos b' alerts.
     publishDiagnostics (\<lambda>_. (None, None)) 0 9000000 (sample_node ''b'') = ((hdr, infos), b') \<and>
     BuildAlerts (\<lambda>_ _. []) 100 (Some (Update 50 infos initial_cache)) alerts \<and>
     (bridge_state 100 (Some (Update 50 infos initial_cache)) = ''STABLE'' \<longleftrightarrow> alerts = [])"
proof -
  obtain hdr infos b' where p: "publishDiagnostics (\<lambda>_. (None, None)) 0 9000000 (sample_node ''b'') =
      ((hdr, infos), b')"
    by (metis prod.exhaust)
  obtain alerts where a: "BuildAlerts (\<lambda>_ _. []) 100 (Some (Update 50 infos initial_cache)) alerts"
    using BuildAlerts_exists by blast
  have "bf_control (sample_node ''b'') = Some open_transport"
    "plain_types (bf_send_topics (sample_node ''b''))" "plain_types (bf_recv_topics (sample_node ''b''))"
    "mfind (zi_presence open_transport) [] = None"
    by (simp_all add: sample_node_def plain_types_def open_transport_def Impl_create_def
        default_zenoh_config_def UpdatePresence_def)
  from screens_agree [OF p this(1,4,2,3) _ a] show ?thesis using p a by auto
qed

end
