(* ===== verification/Tui_Alignment.thy ===== *)
theory Tui_Alignment
  imports Tui_Screens
begin

text \<open>
  Where the columns of the topic matrix end up on the terminal: the widths its elements ask for, the
  boxes the layout gives them and what of them the frame around the list leaves visible.
\<close>

section \<open>Cells\<close>

text \<open>Texts whose cells are known without the Unicode tables: printable ASCII and the program's symbols,
  one cell each.\<close>

definition symbols :: "string list" where
  "symbols = [sym_dot, sym_ring, sym_fisheye, sym_cursor, sym_quote, sym_alert, sym_bar, sym_half,
     sym_left, sym_up, sym_right, sym_down]"

fun plain_cells :: "string \<Rightarrow> nat option" where
  "plain_cells [] = Some 0"
| "plain_cells (c # cs) =
     (if CHR '' '' \<le> c \<and> c \<le> CHR ''~'' then map_option Suc (plain_cells cs)
      else if take 3 (c # cs) \<in> set symbols then map_option Suc (plain_cells (drop 2 cs))
      else None)"

definition plain_measure :: "TextMeasure \<Rightarrow> bool" where
  "plain_measure m \<longleftrightarrow> (\<forall>s n. plain_cells s = Some n \<longrightarrow> tm_text m s = (int n, 1))"

lemma measured: "plain_measure m \<Longrightarrow> plain_cells s = Some n \<Longrightarrow> tm_text m s = (int n, 1)"
  by (simp add: plain_measure_def)

section \<open>Requirements\<close>

definition unfocused :: "Requirement \<Rightarrow> bool" where
  "unfocused r \<longleftrightarrow> \<not> fo_enabled (rq_focused r)"

lemma default_unfocused [simp]: "unfocused default_requirement"
  by (simp add: unfocused_def default_requirement_def)

lemma default_sizes [simp]:
  "rq_min_x default_requirement = 0" "rq_min_y default_requirement = 0"
  "rq_flex_grow_x default_requirement = 0" "rq_flex_shrink_x default_requirement = 0"
  by (simp_all add: default_requirement_def)

lemma hbox_add_sizes [simp]:
  "rq_min_x (hbox_add r c) = rq_min_x r + rq_min_x c"
  "rq_flex_grow_x (hbox_add r c) = rq_flex_grow_x r"
  "rq_flex_shrink_x (hbox_add r c) = rq_flex_shrink_x r"
  by (simp_all add: hbox_add_def)

lemma vbox_add_sizes [simp]:
  "rq_min_x (vbox_add r c) = max (rq_min_x r) (rq_min_x c)"
  "rq_flex_grow_x (vbox_add r c) = rq_flex_grow_x r"
  "rq_flex_shrink_x (vbox_add r c) = rq_flex_shrink_x r"
  by (simp_all add: vbox_add_def)

lemma unfocused_adds [simp]:
  "unfocused r \<Longrightarrow> unfocused c \<Longrightarrow> unfocused (hbox_add r c)"
  "unfocused r \<Longrightarrow> unfocused c \<Longrightarrow> unfocused (vbox_add r c)"
  by (simp_all add: unfocused_def hbox_add_def vbox_add_def Prefer_def)

lemma unfocused_updates [simp]:
  "unfocused (r\<lparr>rq_min_x := a\<rparr>) = unfocused r" "unfocused (r\<lparr>rq_min_y := a\<rparr>) = unfocused r"
  "unfocused (r\<lparr>rq_flex_grow_x := a\<rparr>) = unfocused r" "unfocused (r\<lparr>rq_flex_shrink_x := a\<rparr>) = unfocused r"
  "unfocused (size_requirement d k v r) = unfocused r"
  "unfocused (flex_requirement gx gy sx sy r) = unfocused r"
  by (simp_all add: unfocused_def size_requirement_def flex_requirement_def split: WidthOrHeight.split)

lemma hbox_fold_sizes [simp]:
  "rq_min_x (foldl hbox_add r rs) = rq_min_x r + sum_list (map rq_min_x rs)"
  "rq_flex_grow_x (foldl hbox_add r rs) = rq_flex_grow_x r"
  "rq_flex_shrink_x (foldl hbox_add r rs) = rq_flex_shrink_x r"
  by (induction rs arbitrary: r) simp_all

lemma vbox_fold_sizes [simp]:
  "rq_min_x (foldl vbox_add r rs) = foldl max (rq_min_x r) (map rq_min_x rs)"
  "rq_flex_grow_x (foldl vbox_add r rs) = rq_flex_grow_x r"
  "rq_flex_shrink_x (foldl vbox_add r rs) = rq_flex_shrink_x r"
  by (induction rs arbitrary: r) simp_all

lemma flex_sizes [simp]:
  "rq_min_x (flex_requirement gx gy sx sy r) = rq_min_x r"
  "rq_flex_grow_x (flex_requirement gx gy sx sy r) = (if gx \<noteq> -1 then gx else rq_flex_grow_x r)"
  "rq_flex_shrink_x (flex_requirement gx gy sx sy r) = (if sx \<noteq> -1 then sx else rq_flex_shrink_x r)"
  by (simp_all add: flex_requirement_def)

lemma size_sizes [simp]:
  "rq_min_x (size_requirement WIDTH EQUAL v r) = max 0 v"
  "rq_flex_grow_x (size_requirement WIDTH k v r) = 0"
  "rq_flex_shrink_x (size_requirement WIDTH k v r) = 0"
  "rq_min_x (size_requirement HEIGHT k v r) = rq_min_x r"
  "rq_flex_grow_x (size_requirement HEIGHT k v r) = rq_flex_grow_x r"
  "rq_flex_shrink_x (size_requirement HEIGHT k v r) = rq_flex_shrink_x r"
  by (simp_all add: size_requirement_def constrain_def)

lemma shift_focus_sizes [simp]:
  "rq_min_x (shift_focus x y r) = rq_min_x r"
  "rq_flex_grow_x (shift_focus x y r) = rq_flex_grow_x r"
  "rq_flex_shrink_x (shift_focus x y r) = rq_flex_shrink_x r"
  by (simp_all add: shift_focus_def)

section \<open>Columns\<close>

text \<open>A text with its extent on a line and that of the stencil.\<close>

type_synonym span = "string \<times> int \<times> int \<times> int \<times> int"

definition span_of :: "string \<times> Box \<times> Box \<Rightarrow> span" where
  "span_of t = (case t of (s, b, st) \<Rightarrow> (s, x_min b, x_max b, x_min st, x_max st))"

definition spans :: "TextMeasure \<Rightarrow> Elem \<Rightarrow> Box \<Rightarrow> Box \<Rightarrow> span list" where
  "spans m e box stencil = map span_of (texts m e box stencil)"

text \<open>Whether the i-th cell of a text is within its box and the stencil, as far as the column decides.\<close>

definition column_drawn :: "span \<Rightarrow> int \<Rightarrow> bool" where
  "column_drawn t i = (case t of (s, lo, hi, clip_lo, clip_hi) \<Rightarrow>
     lo + i \<le> hi \<and> clip_lo \<le> lo + i \<and> lo + i \<le> clip_hi)"

lemma cell_drawn_column: "cell_drawn b st i \<Longrightarrow> column_drawn (span_of (s, b, st)) i"
  by (simp add: cell_drawn_def column_drawn_def span_of_def Contain_def)

definition same_columns :: "Box \<Rightarrow> Box \<Rightarrow> bool" where
  "same_columns a b \<longleftrightarrow> x_min a = x_min b \<and> x_max a = x_max b"

lemma same_columns_refl [simp]: "same_columns a a"
  by (simp add: same_columns_def)

lemma length_Compute [simp]: "length (Compute es n) = length es"
proof -
  have "length (ComputeGrow es x s) = length es" for x s by (induction es arbitrary: x s) (auto simp: Let_def)
  moreover have "length (ComputeShrinkEasy es x s) = length es" for x s
    by (induction es arbitrary: x s) (auto simp: Let_def)
  moreover have "length (ComputeShrinkHard es x s) = length es" for x s
    by (induction es arbitrary: x s) (auto simp: Let_def)
  ultimately show ?thesis by (simp add: Compute_def Let_def)
qed

lemma lines_of_columns:
  "same_columns a b \<Longrightarrow> length ss = length ss' \<Longrightarrow>
     list_all2 same_columns (lines_of a y ss) (lines_of b z ss')"
proof (induction ss arbitrary: ss' y z)
  case (Cons s ss)
  then show ?case by (cases ss') (auto simp: same_columns_def)
qed simp

lemma columns_columns:
  "list_all2 same_columns (columns a x ss) (columns b x ss)"
  by (induction ss arbitrary: x) (auto simp: same_columns_def)

lemma hbox_columns:
  "same_columns a b \<Longrightarrow> list_all2 same_columns (hbox_boxes a rs) (hbox_boxes b rs)"
  by (simp add: hbox_boxes_def same_columns_def [of a b] columns_columns)

lemma vbox_columns:
  "same_columns a b \<Longrightarrow> list_all2 same_columns (vbox_boxes a rs) (vbox_boxes b rs)"
  unfolding vbox_boxes_def by (rule lines_of_columns) (simp_all add: y_elements_def)

lemma dbox_columns:
  "same_columns a b \<Longrightarrow> list_all2 same_columns (replicate n a) (replicate n b)"
  by (induction n) simp_all

lemma inner_columns:
  assumes "same_columns a b"
  shows "same_columns (size_box d k v a) (size_box d k v b)"
    and "same_columns (frame_box r a) (frame_box r b)"
    and "same_columns (a\<lparr>x_max := x_max a - 1\<rparr>) (b\<lparr>x_max := x_max b - 1\<rparr>)"
    and "same_columns \<lparr>x_min = x_min a + 1, x_max = x_max a - 1, y_min = y, y_max = y'\<rparr>
           \<lparr>x_min = x_min b + 1, x_max = x_max b - 1, y_min = z, y_max = z'\<rparr>"
    and "same_columns c c' \<Longrightarrow> same_columns (Intersection a c) (Intersection b c')"
  using assms
  by (simp_all add: size_box_def frame_box_def Let_def same_columns_def Intersection_def
      split: WidthOrHeight.split)

lemma spans_columns:
  "same_columns b b' \<Longrightarrow> same_columns st st' \<Longrightarrow>
     map span_of (texts m e b st) = map span_of (texts m e b' st')"
  "list_all2 same_columns bs bs' \<Longrightarrow> same_columns st st' \<Longrightarrow>
     map span_of (texts_all m es bs st) = map span_of (texts_all m es bs' st')"
proof (induction m e b st and m es bs st arbitrary: b' st' and bs' st' rule: texts_texts_all.induct)
  case (1 m s b st)
  then show ?case by (simp add: span_of_def same_columns_def)
next
  case (18 m e es b bs st)
  then obtain c cs where "bs' = c # cs" "same_columns b c" "list_all2 same_columns bs cs"
    by (auto simp: list_all2_Cons1)
  then show ?case using 18 by simp
qed (simp_all add: hbox_columns vbox_columns dbox_columns inner_columns list_all2_Cons1)

section \<open>The rows of the topic matrix\<close>

lemma symbol_cells:
  assumes "plain_measure m"
  shows "tm_text m (PressureDot bw @ '' '') = (2, 1)" and "tm_text m ''  '' = (2, 1)"
    and "tm_text m (sym_cursor @ '' '') = (2, 1)" and "tm_text m '' '' = (1, 1)"
    and "tm_text m [] = (0, 1)"
proof -
  have "plain_cells (sym_dot @ '' '') = Some 2" "plain_cells (sym_ring @ '' '') = Some 2"
    "plain_cells (sym_cursor @ '' '') = Some 2" "plain_cells ''  '' = Some 2"
    "plain_cells '' '' = Some 1" "plain_cells [] = Some 0"
    by code_simp+
  then show "tm_text m (PressureDot bw @ '' '') = (2, 1)" "tm_text m ''  '' = (2, 1)"
    "tm_text m (sym_cursor @ '' '') = (2, 1)" "tm_text m '' '' = (1, 1)" "tm_text m [] = (0, 1)"
    using measured [OF assms] by (auto simp: PressureDot_def)
qed

text \<open>One line of fixed columns: the boxes when nothing, or one element, can grow.\<close>

lemma SafeRatio_simps [simp]:
  "SafeRatio 0 w d = 0" "SafeRatio x 0 d = 0" "SafeRatio x 1 1 = x" "0 < d \<Longrightarrow> SafeRatio x d d = x"
proof -
  show "SafeRatio x d d = x" if "0 < d"
  proof (cases "0 \<le> x")
    case True
    then show ?thesis using that by (simp add: SafeRatio_nonneg max_def)
  next
    case False
    have m: "max d 1 = d" and d: "d \<noteq> 0" using that by auto
    have "(- x) * d div max d 1 = - x" unfolding m by (rule nonzero_mult_div_cancel_right [OF d])
    then show ?thesis using False that SafeRatio_neg [of "- x" d d] by (simp only: minus_minus)
  qed
qed (auto simp: SafeRatio_def signed_divide_int_def sgn_if)

lemma Compute_exact:
  assumes "target = total_of be_min_size es"
  shows "Compute es target = map be_min_size es"
proof -
  have "ComputeGrow es 0 s = map be_min_size es" for s by (induction es arbitrary: s) simp_all
  then show ?thesis using assms by (simp add: Compute_def)
qed

lemma hbox_texts:
  assumes "Compute (x_elements (map (requirement m) es)) n = ss" and "x_max box - x_min box + 1 = n"
  shows "texts m (HBox es) box stencil = texts_all m es (columns box (x_min box) ss) stencil"
  using assms by (simp add: hbox_boxes_def)

lemma align_right_texts:
  assumes "x_max box = x_min box + n - 1" and "0 \<le> n"
  shows "texts m (align_right (Sized WIDTH EQUAL n e)) box stencil = texts m e box stencil"
proof -
  have c: "Compute (x_elements (map (requirement m) [Filler, Sized WIDTH EQUAL n e])) n = [0, n]"
    using assms(2) by (subst Compute_exact) (simp_all add: x_elements_def)
  have w: "x_max box - x_min box + 1 = n" using assms(1) by simp
  have u: "box\<lparr>x_max := x_min box + n - 1\<rparr> = box" using assms(1) by (cases box) simp
  show ?thesis
    using assms by (simp add: align_right_def hbox_texts [OF c w] size_box_def u del: texts.simps(2))
qed

definition shown_bandwidth :: "NetworkInfo option \<Rightarrow> real" where
  "shown_bandwidth live = (case live of None \<Rightarrow> 0 | Some i \<Rightarrow> ni_bandwidth_kbps i)"

text \<open>The texts of a detailed row that starts at column \<open>x\<close>, with a name of \<open>w\<close> columns, in a box one
  column wider than it asks for.\<close>

definition topic_row_spans ::
  "(nat \<Rightarrow> real \<Rightarrow> string) \<Rightarrow> int \<Rightarrow> TopicRule \<Rightarrow> NetworkInfo option \<Rightarrow> bool \<Rightarrow> int \<Rightarrow>
     int \<times> int \<Rightarrow> span list" where
  "topic_row_spans fixed_digits w topic live highlighted x clip =
     (let bw = shown_bandwidth live; q = x + w + 5
      in map (\<lambda>(s, lo, hi). (s, lo, hi, fst clip, snd clip))
       ([(PressureDot bw @ '' '', x, x + 1),
         (if highlighted then sym_cursor @ '' '' else ''  '', x + 2, x + 3),
         (MiddleEllipsis (tr_topic_name topic) (nat w), x + 4, x + 3 + w),
         (ShortType (tr_msg_type topic), q, q + 5),
         (FormatMetric fixed_digits (case live of None \<Rightarrow> -1 | Some i \<Rightarrow> rate_of i) '' Hz'', q + 6, q + 14)] @
        (if bw > 0 then [] else [([], q + 15, q + 22)]) @
        [(FormatMetric fixed_digits bw '' kbps'', q + 23, q + 33),
         (dec (unat (case live of None \<Rightarrow> 0 | Some i \<Rightarrow> ni_dropped_messages i)), q + 34, q + 38),
         (FormatMetric fixed_digits (case live of None \<Rightarrow> -1 | Some i \<Rightarrow> ni_stability_score i) ''%'',
            q + 39, q + 43),
         ('' '', q + 44, q + 44)]))"

lemma name_part_req:
  assumes "plain_measure m" and "8 \<le> w"
  shows "rq_min_x (requirement m (name_part nm hl w)) = w + 2"
    and "unfocused (requirement m (name_part nm hl w))"
  using assms by (simp_all add: name_part_def piped_def Let_def symbol_cells max_def)

lemma name_part_texts:
  assumes "plain_measure m" and "8 \<le> w" and "x_max box = x_min box + w + 2"
  shows "spans m (name_part nm hl w) box stencil =
    [(if hl then sym_cursor @ '' '' else ''  '', x_min box, x_min box + 1, x_min stencil, x_max stencil),
     (MiddleEllipsis nm (nat w), x_min box + 2, x_min box + 1 + w, x_min stencil, x_max stencil)]"
proof -
  let ?s = "if hl then sym_cursor @ '' '' else ''  ''"
  let ?es = "[Text ?s, Sized WIDTH EQUAL w (Text (MiddleEllipsis nm (nat w)))]"
  have c: "Compute (x_elements (map (requirement m) ?es)) (w + 3) = [2, w]"
    using assms(1,2) by (simp add: x_elements_def Compute_def symbol_cells Let_def)
  have w: "x_max box - x_min box + 1 = w + 3" using assms(3) by simp
  have "spans m (name_part nm hl w) box stencil = map span_of (texts m (HBox ?es) box stencil)"
    using assms(2) by (simp add: name_part_def piped_def Let_def spans_def max_def)
  also have "\<dots> = map span_of (texts_all m ?es (columns box (x_min box) [2, w]) stencil)"
    by (simp only: hbox_texts [OF c w])
  finally show ?thesis
    using assms by (simp add: size_box_def span_of_def)
qed

lemma align_right_req:
  "rq_min_x (requirement m (align_right e)) = rq_min_x (requirement m e)"
  "rq_flex_grow_x (requirement m (align_right e)) = 0" "rq_flex_shrink_x (requirement m (align_right e)) = 0"
  "unfocused (requirement m e) \<Longrightarrow> unfocused (requirement m (align_right e))"
  by (simp_all add: align_right_def)

lemma text_req:
  "unfocused (requirement m (Text s))" "rq_min_x (requirement m (Text s)) = fst (tm_text m s)"
  "rq_flex_grow_x (requirement m (Text s)) = 0" "rq_flex_shrink_x (requirement m (Text s)) = 0"
  by simp_all

lemma bar_req: "unfocused (requirement m (Bar ratio c))"
  by (simp add: Bar_def piped_def)

definition topic_row_cells :: "(nat \<Rightarrow> real \<Rightarrow> string) \<Rightarrow> int \<Rightarrow> TopicRule \<Rightarrow> NetworkInfo option \<Rightarrow> bool \<Rightarrow> Elem list" where
  "topic_row_cells fixed_digits w topic live hl =
     (let bandwidth = shown_bandwidth live;
          pressure_color = PressureColor bandwidth;
          stability = (case live of None \<Rightarrow> -1 | Some i \<Rightarrow> ni_stability_score i);
          drops = (case live of None \<Rightarrow> 0 | Some i \<Rightarrow> ni_dropped_messages i)
      in [color pressure_color (Text (PressureDot bandwidth @ '' '')),
          flex (name_part (tr_topic_name topic) hl w),
          Sized WIDTH EQUAL 6 (color theme_Info (Text (ShortType (tr_msg_type topic)))),
          align_right (Sized WIDTH EQUAL 9 (color theme_Text (Text (FormatMetric fixed_digits
            (case live of None \<Rightarrow> -1 | Some i \<Rightarrow> rate_of i) '' Hz'')))),
          Sized WIDTH EQUAL 8 (Bar (case live of None \<Rightarrow> 0 | Some _ \<Rightarrow> bandwidth / 2048) pressure_color),
          align_right (Sized WIDTH EQUAL 11 (color pressure_color (Text (FormatMetric fixed_digits bandwidth '' kbps'')))),
          align_right (Sized WIDTH EQUAL 5 (color (if drops > 0 then theme_Warning else theme_TextDim)
            (Text (dec (unat drops))))),
          align_right (Sized WIDTH EQUAL 5 (color (if stability \<ge> 0 \<and> stability < 80 then theme_Error
            else theme_Success) (Text (FormatMetric fixed_digits stability ''%'')))),
          Text '' ''])"

lemma TopicRow_cells:
  "TopicRowElement fd topic live hl w True =
     (if hl then bgcolor theme_BackgroundSelected (HBox (topic_row_cells fd w topic live hl))
      else HBox (topic_row_cells fd w topic live hl))"
  by (simp add: TopicRowElement_def topic_row_cells_def piped_def shown_bandwidth_def Let_def)

lemma row_elements:
  assumes "plain_measure m" and "8 \<le> w"
  shows "x_elements (map (requirement m) (topic_row_cells fd w topic live hl)) =
    map (\<lambda>(a, g, s). \<lparr>be_min_size = a, be_flex_grow = g, be_flex_shrink = s\<rparr>)
      [(2, 0, 0), (w + 2, 1, 1), (6, 0, 0), (9, 0, 0), (8, 0, 0), (11, 0, 0), (5, 0, 0), (5, 0, 0),
       (1, 0, 0)]"
  by (simp add: topic_row_cells_def x_elements_def Let_def symbol_cells [OF assms(1)]
      name_part_req [OF assms] align_right_req)

lemma row_req:
  assumes "plain_measure m" and "8 \<le> w"
  shows "rq_min_x (requirement m (TopicRowElement fd topic live hl w True)) = w + 49"
    and "unfocused (requirement m (TopicRowElement fd topic live hl w True))"
  by (simp_all add: TopicRow_cells topic_row_cells_def Let_def symbol_cells [OF assms(1)]
      name_part_req [OF assms] align_right_req bar_req)

lemma bar_texts:
  "map span_of (texts m (Bar (case live of None \<Rightarrow> 0 | Some _ \<Rightarrow> shown_bandwidth live / 2048) c)
      box st) =
    (if shown_bandwidth live > 0 then [] else [([], x_min box, x_max box, x_min st, x_max st)])"
  by (auto simp: Bar_def Let_def piped_def shown_bandwidth_def span_of_def min_def divide_le_0_iff split: option.split)

lemma row_spans:
  assumes "plain_measure m" and "8 \<le> w" and "x_max box = x_min box + w + 49"
  shows "spans m (TopicRowElement fd topic live hl w True) box st =
    topic_row_spans fd w topic live hl (x_min box) (x_min st, x_max st)"
proof -
  let ?cells = "topic_row_cells fd w topic live hl"
  have c: "Compute (x_elements (map (requirement m) ?cells)) (w + 50) = [2, w + 3, 6, 9, 8, 11, 5, 5, 1]"
    using assms(2) unfolding row_elements [OF assms(1,2)] by (simp add: Compute_def Let_def)
  have n: "x_max box - x_min box + 1 = w + 50" using assms(3) by simp
  note name = name_part_texts [OF assms(1,2), unfolded spans_def]
  have "spans m (TopicRowElement fd topic live hl w True) box st =
      map span_of (texts m (HBox ?cells) box st)"
    by (simp add: TopicRow_cells spans_def)
  also have "\<dots> = map span_of (texts_all m ?cells
      (columns box (x_min box) [2, w + 3, 6, 9, 8, 11, 5, 5, 1]) st)"
    by (simp only: hbox_texts [OF c n])
  also have "\<dots> = topic_row_spans fd w topic live hl (x_min box) (x_min st, x_max st)"
    using assms(2,3)
    by (simp add: topic_row_cells_def Let_def align_right_texts name bar_texts size_box_def
        topic_row_spans_def span_of_def)
  finally show ?thesis .
qed

section \<open>The list in its frame\<close>

text \<open>The focus of a column of rows spans the width of a row.\<close>

definition focus_spans :: "int \<Rightarrow> Requirement \<Rightarrow> bool" where
  "focus_spans width r \<longleftrightarrow> fo_enabled (rq_focused r) \<longrightarrow>
     x_min (fo_box (rq_focused r)) = 0 \<and> x_max (fo_box (rq_focused r)) = width - 1"

lemma vbox_focus:
  assumes "list_all (focus_spans width) rs" and "focus_spans width r"
  shows "focus_spans width (foldl vbox_add r rs) \<and>
    (unfocused (foldl vbox_add r rs) \<longleftrightarrow> unfocused r \<and> list_all unfocused rs)"
  using assms
proof (induction rs arbitrary: r)
  case (Cons c rs)
  have "focus_spans width (vbox_add r c)" "unfocused (vbox_add r c) \<longleftrightarrow> unfocused r \<and> unfocused c"
    using Cons.prems
    by (auto simp: focus_spans_def unfocused_def vbox_add_def Prefer_def Shift_def split: if_splits)
  then show ?case using Cons.IH [of "vbox_add r c"] Cons.prems by auto
qed simp

lemma foldl_max_same:
  fixes n :: int
  assumes "xs \<noteq> []" and "list_all (\<lambda>x. x = n) xs" and "0 \<le> n"
  shows "foldl max 0 xs = n"
proof -
  have "foldl max n xs = n" if "list_all (\<lambda>x. x = n) xs" for xs
    using that by (induction xs) auto
  then show ?thesis using assms by (cases xs) auto
qed

lemma menu_req:
  assumes "\<And>e. e \<in> set es \<Longrightarrow> rq_min_x (requirement m e) = n \<and> unfocused (requirement m e)"
    and "sel < length es" and "0 \<le> n" and r_def: "r = requirement m (menu_bar False a f sel es)"
  shows "rq_min_x r = n" and "x_min (fo_box (rq_focused r)) = 0" and "x_max (fo_box (rq_focused r)) = n - 1"
proof -
  let ?row = "\<lambda>i. if i = sel then FocusNode (es ! i) else es ! i"
  let ?rs = "map (requirement m \<circ> ?row) [0..<length es]"
  have row: "rq_min_x (requirement m (?row i)) = n \<and> focus_spans n (requirement m (?row i)) \<and>
      (unfocused (requirement m (?row i)) \<longleftrightarrow> i \<noteq> sel)" if "i < length es" for i
    using assms(1) [OF nth_mem [OF that]] by (auto simp: focus_spans_def unfocused_def)
  have r: "r = (let r = foldl vbox_add default_requirement ?rs
      in r\<lparr>rq_focused := (rq_focused r)\<lparr>fo_component_active := a, fo_component_focused := f\<rparr>\<rparr>)"
    by (simp add: r_def menu_bar_def Let_def)
  have "foldl max 0 (map rq_min_x ?rs) = n"
    using assms(2,3) row by (intro foldl_max_same) (auto simp: list_all_iff)
  then show "rq_min_x r = n" by (simp add: r Let_def)
  have "focus_spans n default_requirement" using default_unfocused by (simp add: focus_spans_def unfocused_def)
  moreover have "list_all (focus_spans n) ?rs" using row by (simp add: list_all_iff)
  moreover have "\<not> list_all unfocused ?rs"
    using row [OF assms(2)] assms(2) by (auto simp: list_all_iff intro!: bexI [of _ sel])
  ultimately have "focus_spans n (foldl vbox_add default_requirement ?rs) \<and>
      \<not> unfocused (foldl vbox_add default_requirement ?rs)"
    using vbox_focus [of n ?rs default_requirement] by blast
  then show "x_min (fo_box (rq_focused r)) = 0" "x_max (fo_box (rq_focused r)) = n - 1"
    by (auto simp: r Let_def focus_spans_def unfocused_def)
qed

lemma scroll_wide:
  assumes "2 \<le> n"
  shows "scroll lo (lo + n - 2) n 0 (n - 1) = (lo - n mod 2, lo + n - n mod 2)"
proof -
  have "(n - 1) div 2 - (n - 2) div 2 = n mod 2" by presburger
  moreover have "(n - 1) sdiv 2 = (n - 1) div 2" "(n - 2) sdiv 2 = (n - 2) div 2"
    using assms by (auto simp: signed_divide_int_def sgn_if)
  moreover have "0 \<le> n mod 2" "n mod 2 \<le> 1" by simp_all
  ultimately show ?thesis using assms by (simp add: scroll_def Let_def)
qed

lemma column_of_rows:
  assumes "list_all (same_columns box) bs" and "length bs = length es"
  shows "map span_of (texts_all m es bs st) = concat (map (\<lambda>e. spans m e box st) es)"
  using assms
proof (induction es arbitrary: bs)
  case (Cons e es)
  then obtain b bs' where "bs = b # bs'" by (cases bs) auto
  then show ?case
    using Cons.IH [of bs'] Cons.prems spans_columns(1) [of box b st st m e] by (simp add: spans_def)
qed simp

lemma lines_of_same: "list_all (same_columns box) (lines_of box y ss) \<and> length (lines_of box y ss) = length ss"
  by (induction ss arbitrary: y) (simp_all add: same_columns_def)

lemma vbox_spans:
  "spans m (VBox es) box st = concat (map (\<lambda>e. spans m e box st) es)"
  unfolding spans_def texts.simps vbox_boxes_def
  by (subst column_of_rows [where box = box]) (simp_all add: lines_of_same y_elements_def spans_def)

lemma focus_spans_same: "spans m (FocusNode e) box st = spans m e box st"
  by (simp add: spans_def)

lemma menu_spans:
  "spans m (menu_bar False a f sel es) box st = concat (map (\<lambda>e. spans m e box st) es)"
proof -
  have "spans m (menu_bar False a f sel es) box st = spans m (VBox
      (map (\<lambda>i. if i = sel then FocusNode (es ! i) else es ! i) [0..<length es])) box st"
    by (simp add: spans_def menu_bar_def Let_def)
  also have "\<dots> = concat (map (\<lambda>i. spans m (es ! i) box st) [0..<length es])"
    unfolding vbox_spans map_map comp_def
    by (intro arg_cong [where f = concat] map_cong refl) (simp add: focus_spans_same)
  also have "\<dots> = concat (map (\<lambda>e. spans m e box st) es)"
    using map_map [of "\<lambda>e. spans m e box st" "(!) es" "[0..<length es]"] by (simp add: map_nth comp_def)
  finally show ?thesis .
qed

lemma scrolled_spans:
  assumes "plain_measure m" and "8 \<le> w" and "sel < length rows"
    and "x_max box = x_min box + w + 48"
  shows "spans m (flex (scrolled (menu_bar False a f sel
      (map (\<lambda>(topic, live, hl). TopicRowElement fd topic live hl w True) rows)))) box st =
    concat (map (\<lambda>(topic, live, hl). topic_row_spans fd w topic live hl
        (x_min box - (w + 49) mod 2) (max (x_min box) (x_min st), min (x_max box - 1) (x_max st))) rows)"
proof -
  let ?elems = "map (\<lambda>(topic, live, hl). TopicRowElement fd topic live hl w True) rows"
  let ?menu = "menu_bar False a f sel ?elems"
  have rows: "rq_min_x (requirement m e) = w + 49 \<and> unfocused (requirement m e)" if "e \<in> set ?elems" for e
    using that row_req [OF assms(1,2)] by auto
  have sel: "sel < length ?elems" and w: "0 \<le> w + 49" using assms(2,3) by simp_all
  note req = menu_req [OF rows sel w refl]
  let ?box = "box\<lparr>x_max := x_max box - 1\<rparr>"
  let ?inner = "frame_box (requirement m ?menu) ?box"
  let ?clip = "Intersection ?box st"
  have n: "2 \<le> w + 49" using assms(2) by simp
  have "x_max box - 1 = x_min box + (w + 49) - 2" using assms(4) by simp
  then have "scroll (x_min box) (x_max box - 1) (w + 49) 0 (w + 49 - 1) =
      (x_min box - (w + 49) mod 2, x_min box + (w + 49) - (w + 49) mod 2)"
    by (simp only: scroll_wide [OF n])
  moreover have b: "x_min ?box = x_min box" "x_max ?box = x_max box - 1" by simp_all
  ultimately have "x_min ?inner = x_min box - (w + 49) mod 2"
    "x_max ?inner = x_min box + (w + 49) - (w + 49) mod 2"
    by (simp_all only: frame_box_def Let_def req b Box.simps fst_conv snd_conv)
  moreover have "x_min ?clip = max (x_min box) (x_min st)" "x_max ?clip = min (x_max box - 1) (x_max st)"
    by (simp_all add: Intersection_def)
  moreover have "spans m (flex (scrolled ?menu)) box st = concat (map (\<lambda>e. spans m e ?inner ?clip) ?elems)"
    by (simp add: spans_def menu_spans [unfolded spans_def])
  ultimately show ?thesis
    using row_spans [OF assms(1,2), of ?inner] by (simp add: comp_def case_prod_unfold add.assoc)
qed

section \<open>The screen\<close>

definition header_spans :: "int \<Rightarrow> int \<Rightarrow> int \<times> int \<Rightarrow> span list" where
  "header_spans w x clip =
     map (\<lambda>(s, lo, hi). (s, lo, hi, fst clip, snd clip))
       [(''    topic'', x, x + w + 3), (''type'', x + w + 4, x + w + 9),
        (''rate'', x + w + 10, x + w + 18), (''bandwidth'', x + w + 19, x + w + 37),
        (''drop'', x + w + 38, x + w + 42), (''stab'', x + w + 43, x + w + 47),
        ('' '', x + w + 48, x + w + 48)]"

lemma matrix_header_spans:
  assumes "plain_measure m" and "0 \<le> tg_name_width g" and "x_max box = x_min box + tg_name_width g + 48"
  shows "spans m (matrix_header g) box st = header_spans (tg_name_width g) (x_min box) (x_min st, x_max st)"
proof -
  let ?w = "tg_name_width g"
  obtain es where h: "matrix_header g = HBox es" and es: "es =
      [Sized WIDTH EQUAL (?w + 4) (color theme_TextDim (Text ''    topic'')),
       Sized WIDTH EQUAL 6 (color theme_TextDim (Text ''type'')),
       align_right (Sized WIDTH EQUAL 9 (color theme_TextDim (Text ''rate''))),
       align_right (Sized WIDTH EQUAL 19 (color theme_TextDim (Text ''bandwidth''))),
       align_right (Sized WIDTH EQUAL 5 (color theme_TextDim (Text ''drop''))),
       align_right (Sized WIDTH EQUAL 5 (color theme_TextDim (Text ''stab''))),
       Text '' '']"
    by (simp add: matrix_header_def piped_def)
  have c: "Compute (x_elements (map (requirement m) es)) (?w + 49) = [?w + 4, 6, 9, 19, 5, 5, 1]"
    using assms(2)
    by (subst Compute_exact) (simp_all add: es x_elements_def align_right_req symbol_cells [OF assms(1)])
  have n: "x_max box - x_min box + 1 = ?w + 49" using assms(3) by simp
  have "spans m (matrix_header g) box st =
      map span_of (texts_all m es (columns box (x_min box) [?w + 4, 6, 9, 19, 5, 5, 1]) st)"
    by (simp only: h spans_def hbox_texts [OF c n])
  also have "\<dots> = header_spans ?w (x_min box) (x_min st, x_max st)"
    using assms(2,3)
    by (simp add: es align_right_texts size_box_def span_of_def header_spans_def)
  finally show ?thesis .
qed

lemma styled_spans:
  "spans m (Styled s e) box st = spans m e box st"
  "spans m (Flex gx gy sx sy e) box st = spans m e box st"
  "spans m Separator box st = []"
  "spans m (Sized HEIGHT k v e) box st = spans m e box st"
  using spans_columns(1) [of "size_box HEIGHT k v box" box st st m e]
  by (simp_all add: spans_def size_box_def same_columns_def)

lemma panel_spans:
  "spans m (Panel title body) box st =
     ('' '' @ title, x_min box + 1, x_max box - 1, x_min st, x_max st) #
     spans m body (box\<lparr>x_min := x_min box + 1, x_max := x_max box - 1\<rparr>) st"
proof -
  let ?b = "\<lparr>x_min = x_min box + 1, x_max = x_max box - 1, y_min = y_min box + 1, y_max = y_max box - 1\<rparr>"
  have "spans m (Panel title body) box st = spans m (VBox
      [color theme_TextMuted (bold (Text ('' '' @ title))), rule_line, flex body]) ?b st"
    by (simp add: Panel_def piped_def spans_def)
  also have "\<dots> = ('' '' @ title, x_min box + 1, x_max box - 1, x_min st, x_max st) # spans m body ?b st"
    by (simp add: vbox_spans styled_spans) (simp add: spans_def span_of_def)
  also have "spans m body ?b st = spans m body (box\<lparr>x_min := x_min box + 1, x_max := x_max box - 1\<rparr>) st"
    using spans_columns(1) [of ?b "box\<lparr>x_min := x_min box + 1, x_max := x_max box - 1\<rparr>" st st m body]
    by (simp add: spans_def same_columns_def)
  finally show ?thesis .
qed

lemma Compute_two:
  assumes "0 < a" and "0 \<le> b" and "0 \<le> c"
  shows "Compute [\<lparr>be_min_size = c, be_flex_grow = 1, be_flex_shrink = 1\<rparr>,
      \<lparr>be_min_size = b, be_flex_grow = 0, be_flex_shrink = 0\<rparr>] (a + b) = [a, b]"
  using assms by (simp add: Compute_def Let_def)

lemma split_spans:
  assumes "x_max box - x_min box + 1 = a + b" and "0 < a" and "0 \<le> b"
    and "0 \<le> rq_min_x (requirement m e)"
  shows "spans m (HBox [flex e, Sized WIDTH EQUAL b e']) box st =
    spans m e (box\<lparr>x_max := x_min box + a - 1\<rparr>) st @
    spans m (Sized WIDTH EQUAL b e') (box\<lparr>x_min := x_min box + a\<rparr>) st"
proof -
  have c: "Compute (x_elements (map (requirement m) [flex e, Sized WIDTH EQUAL b e'])) (a + b) = [a, b]"
    using Compute_two [OF assms(2,3,4)] assms(3) by (simp add: x_elements_def)
  have "x_max box = x_min box + a + b - 1" using assms(1) by simp
  then have "box\<lparr>x_min := x_min box + a, x_max := x_min box + a + b - 1\<rparr> = box\<lparr>x_min := x_min box + a\<rparr>"
    by (cases box) simp
  then show ?thesis
    unfolding spans_def hbox_texts [OF c assms(1)] by simp
qed

lemma nonneg_panel: "0 \<le> rq_min_x (requirement m (Panel title body))"
proof -
  have "a \<le> foldl max a xs" for a :: int and xs
    by (induction xs arbitrary: a) (auto intro: order_trans [OF max.cobounded1])
  from this [of 0 "[_, 1, _]"] show ?thesis by (simp add: Panel_def piped_def)
qed

lemma detailed_geometry:
  assumes "tg_detailed_columns g" and "g = MakeTopicPaneGeometry layout"
  shows "\<not> compact layout" and "8 \<le> tg_name_width g"
    and "tg_matrix_inner_width g = tg_name_width g + 49"
    and "tg_matrix_width g = tg_name_width g + 51" and "0 \<le> tg_inspector_width g \<or> \<not> tg_split g"
    and "\<not> tg_split g \<Longrightarrow> tg_matrix_width g = lc_content_width layout"
    and "tg_split g \<Longrightarrow> tg_matrix_width g + tg_inspector_width g = lc_content_width layout"
proof -
  let ?cw = "lc_content_width layout"
  let ?iw = "max 40 (min 48 (?cw sdiv 3))"
  let ?s = "?cw \<ge> 120 \<and> lc_content_height layout \<ge> 22"
  let ?mw = "if ?s then ?cw - (if ?s then ?iw else ?cw) else ?cw"
  have s: "tg_split g = ?s" and iw: "tg_inspector_width g = (if ?s then ?iw else ?cw)"
    and mw: "tg_matrix_width g = ?mw"
    unfolding assms(2) MakeTopicPaneGeometry_def Let_def by (simp_all only: TopicPaneGeometry.simps)
  have detailed: "tg_detailed_columns g \<longleftrightarrow> \<not> compact layout \<and> 70 \<le> tg_matrix_inner_width g"
    and inner: "tg_matrix_inner_width g = max 1 (?mw - (if compact layout \<and> lc_short_height layout then 0 else 2))"
    and nm: "tg_name_width g = max 8 (tg_matrix_inner_width g - (if tg_detailed_columns g then 49 else 17))"
    unfolding assms(2) MakeTopicPaneGeometry_def Let_def compact_def
    by (simp_all only: TopicPaneGeometry.simps)
  have c: "\<not> compact layout" and i: "70 \<le> tg_matrix_inner_width g"
    using assms(1) unfolding detailed by simp_all
  have "tg_matrix_inner_width g = max 1 (?mw - 2)" using inner c by simp
  moreover have "tg_name_width g = max 8 (tg_matrix_inner_width g - 49)" using nm assms(1) by simp
  ultimately show "\<not> compact layout" "8 \<le> tg_name_width g"
    "tg_matrix_inner_width g = tg_name_width g + 49" "tg_matrix_width g = tg_name_width g + 51"
    using c i mw by linarith+
  show "0 \<le> tg_inspector_width g \<or> \<not> tg_split g" using s iw by (simp add: le_max_iff_disj)
  show "tg_matrix_width g = ?cw" if "\<not> tg_split g"
    using that mw unfolding s by (simp only: if_False)
  show "tg_matrix_width g + tg_inspector_width g = ?cw" if "tg_split g"
  proof -
    have "?s" using that unfolding s .
    then have "tg_matrix_width g = ?cw - ?iw" "tg_inspector_width g = ?iw" unfolding mw iw by (simp_all only: if_P)
    then show ?thesis by simp
  qed
qed

lemma matrix_spans:
  assumes "plain_measure m" and "tg_detailed_columns g" and "g = MakeTopicPaneGeometry layout"
    and "sel < length rows" and "x_max box = x_min box + tg_matrix_width g - 1"
    and "x_min st \<le> x_min box" and "x_max box \<le> x_max st"
  shows "spans m (Panel ''Topic Matrix'' (matrix_body g (menu_bar False a f sel
      (map (\<lambda>(topic, live, hl). TopicRowElement fd topic live hl (tg_name_width g) True) rows)) transfer)) box st =
    [('' Topic Matrix'', x_min box + 1, x_max box - 1, x_min st, x_max st)] @
    header_spans (tg_name_width g) (x_min box + 1) (x_min st, x_max st) @
    concat (map (\<lambda>(topic, live, hl). topic_row_spans fd (tg_name_width g) topic live hl
        (x_min box + 1 - tg_matrix_inner_width g mod 2) (x_min box + 1, x_max box - 2)) rows) @
    spans m transfer (box\<lparr>x_min := x_min box + 1, x_max := x_max box - 1\<rparr>) st"
proof -
  let ?box = "box\<lparr>x_min := x_min box + 1, x_max := x_max box - 1\<rparr>"
  note g = detailed_geometry [OF assms(2,3)]
  have w: "x_max ?box = x_min ?box + tg_name_width g + 48" using assms(5) g(4) by simp
  have "max (x_min ?box) (x_min st) = x_min box + 1" "min (x_max ?box - 1) (x_max st) = x_max box - 2"
    using assms(6,7) by simp_all
  then show ?thesis
    using scrolled_spans [OF assms(1) g(2) assms(4) w] matrix_header_spans [OF assms(1) _ w] g(2,3)
    by (simp add: panel_spans matrix_body_def vbox_spans styled_spans)
qed

lemma topics_document_spans:
  assumes "plain_measure m" and "g = MakeTopicPaneGeometry layout" and "tg_detailed_columns g"
    and "sel < length rows" and "x_max screen = x_min screen + lc_content_width layout - 1"
  shows "\<exists>post. spans m (topics_document layout (menu_bar False a f sel
      (map (\<lambda>(topic, live, hl). TopicRowElement fd topic live hl (tg_name_width g) True) rows))
      inspector transfer short) screen screen =
    [('' Topic Matrix'', x_min screen + 1, x_min screen + tg_matrix_width g - 2, x_min screen, x_max screen)] @
    header_spans (tg_name_width g) (x_min screen + 1) (x_min screen, x_max screen) @
    concat (map (\<lambda>(topic, live, hl). topic_row_spans fd (tg_name_width g) topic live hl
        (x_min screen + 1 - tg_matrix_inner_width g mod 2)
        (x_min screen + 1, x_min screen + tg_matrix_width g - 3)) rows) @ post"
    and "column_drawn (hd (topic_row_spans fd (tg_name_width g) topic live hl
        (x_min screen + 1 - tg_matrix_inner_width g mod 2)
        (x_min screen + 1, x_min screen + tg_matrix_width g - 3))) 0 \<longleftrightarrow> even (tg_matrix_inner_width g)"
proof -
  note d = detailed_geometry [OF assms(3,2)]
  let ?menu = "menu_bar False a f sel
      (map (\<lambda>(topic, live, hl). TopicRowElement fd topic live hl (tg_name_width g) True) rows)"
  let ?matrix = "Panel ''Topic Matrix'' (matrix_body g ?menu transfer)"
  let ?box = "screen\<lparr>x_max := x_min screen + tg_matrix_width g - 1\<rparr>"
  have "tg_matrix_width g \<le> lc_content_width layout"
    using d(5,6,7) by (cases "tg_split g") simp_all
  then have le: "x_max ?box \<le> x_max screen" using assms(5) by simp
  have "\<exists>post. spans m (topics_document layout ?menu inspector transfer short) screen screen =
      spans m ?matrix ?box screen @ post"
  proof (cases "tg_split g")
    case True
    have w: "x_max screen - x_min screen + 1 = tg_matrix_width g + tg_inspector_width g"
      using assms(5) d(7) [OF True] by simp
    have "0 < tg_matrix_width g" "0 \<le> tg_inspector_width g" using d(2,4,5) True by auto
    from split_spans [OF w this nonneg_panel] show ?thesis
      using True d(1) by (simp add: topics_document_def Let_def flip: assms(2))
  next
    case False
    have "?box = screen" using assms(5) d(6) [OF False] by (cases screen) simp
    then show ?thesis
      using False d(1) by (simp add: topics_document_def Let_def vbox_spans styled_spans flip: assms(2))
  qed
  then show "\<exists>post. spans m (topics_document layout ?menu inspector transfer short) screen screen =
      [('' Topic Matrix'', x_min screen + 1, x_min screen + tg_matrix_width g - 2, x_min screen, x_max screen)] @
      header_spans (tg_name_width g) (x_min screen + 1) (x_min screen, x_max screen) @
      concat (map (\<lambda>(topic, live, hl). topic_row_spans fd (tg_name_width g) topic live hl
          (x_min screen + 1 - tg_matrix_inner_width g mod 2)
          (x_min screen + 1, x_min screen + tg_matrix_width g - 3)) rows) @ post"
    using matrix_spans [OF assms(1,3,2,4), of ?box screen a f fd transfer] le by auto
  show "column_drawn (hd (topic_row_spans fd (tg_name_width g) topic live hl
        (x_min screen + 1 - tg_matrix_inner_width g mod 2)
        (x_min screen + 1, x_min screen + tg_matrix_width g - 3))) 0 \<longleftrightarrow> even (tg_matrix_inner_width g)"
    using d(2,4) by (cases "even (tg_matrix_inner_width g)")
      (auto simp: topic_row_spans_def Let_def column_drawn_def even_iff_mod_2_eq_zero odd_iff_mod_2_eq_one)
qed

text \<open>The entries of the topic menu, one for each configured topic.\<close>

definition topic_menu ::
  "(nat \<Rightarrow> real \<Rightarrow> string) \<Rightarrow> nat \<Rightarrow> BridgeConfig \<Rightarrow> DiagnosticsCache option \<Rightarrow> LayoutContext \<Rightarrow>
     nat \<Rightarrow> nat \<Rightarrow> bool \<Rightarrow> bool \<Rightarrow> Elem" where
  "topic_menu fixed_digits now config c layout selected focus active focused =
     menu_bar False active focused focus
       (map (\<lambda>i. topic_entry fixed_digits now config c layout
          (tr_topic_name (bc_topics config ! i)) (int i) (i = selected)) [0..<length (bc_topics config)])"

lemma int_of_size_small: "n < 2 ^ 31 \<Longrightarrow> int_of_size n = int n"
  by (simp add: int_of_size_def sint_sbintrunc' signed_of_nat signed_take_bit_int_eq_self)

lemma topic_menu_rows:
  assumes "tg_detailed_columns (MakeTopicPaneGeometry layout)" and "length (bc_topics config) < 2 ^ 31"
  shows "topic_menu fd now config c layout selected focus a f =
    menu_bar False a f focus (map (\<lambda>(topic, live, hl).
        TopicRowElement fd topic live hl (tg_name_width (MakeTopicPaneGeometry layout)) True)
      (map (\<lambda>i. (bc_topics config ! i, live_info_of now c (TopicAliases (bc_topics config ! i)), i = selected))
        [0..<length (bc_topics config)]))"
  using assms int_of_size_small [OF assms(2)]
  by (auto simp: topic_menu_def topic_entry_def Let_def comp_def
      intro!: arg_cong [where f = "menu_bar False a f focus"])

text \<open>C29: The columns of the topic matrix on the terminal: the headings start where the rows ask for their
  columns, but the list is drawn in a frame one column narrower (its scroll bar) that the layout
  centres on the selected row.  With an even inner width every column after the name is one to
  the right of its heading; with an odd one the columns line up, and the whole row is shifted so
  that the first cell, the pressure dot, is cut off.  No column is right-aligned.\<close>

theorem topic_matrix_columns:
  assumes "plain_measure m" and "tg_detailed_columns (MakeTopicPaneGeometry layout)"
    and "length (bc_topics config) < 2 ^ 31" and "focus < length (bc_topics config)"
    and "0 \<le> vs_selected_topic state"
    and "x_max screen = x_min screen + lc_content_width layout - 1"
  shows "\<exists>doc post.
    RenderTopicsScreen fd now config state c history
      (topic_menu fd now config c layout selected focus a f) layout = Some doc \<and>
    (let g = MakeTopicPaneGeometry layout; w = tg_name_width g; x = x_min screen + 1;
         shift = tg_matrix_inner_width g mod 2;
         row = (\<lambda>i. let topic = bc_topics config ! i
           in topic_row_spans fd w topic (live_info_of now c (TopicAliases topic)) (i = selected)
                (x - shift) (x, x + tg_matrix_width g - 4))
     in spans m doc screen screen =
          [('' Topic Matrix'', x, x + tg_matrix_width g - 3, x_min screen, x_max screen)] @
          header_spans w x (x_min screen, x_max screen) @
          concat (map row [0..<length (bc_topics config)]) @ post \<and>
        list_all (\<lambda>i. column_drawn (hd (row i)) 0 \<longleftrightarrow> shift = 0) [0..<length (bc_topics config)])"
proof -
  let ?n = "length (bc_topics config)"
  let ?live = "\<lambda>i. live_info_of now c (TopicAliases (bc_topics config ! i))"
  let ?rows = "map (\<lambda>i. (bc_topics config ! i, ?live i, i = selected)) [0..<?n]"
  have ne: "bc_topics config \<noteq> []" and len: "focus < length ?rows" using assms(4) by auto
  have sel: "\<not> min (vs_selected_topic state) (int_of_size ?n - 1) < 0"
    using ne assms(5) int_of_size_small [OF assms(3)] by (cases "bc_topics config") auto
  obtain inspector transfer short where doc:
    "RenderTopicsScreen fd now config state c history
       (topic_menu fd now config c layout selected focus a f) layout =
     Some (topics_document layout (topic_menu fd now config c layout selected focus a f)
       inspector transfer short)"
    using ne sel by (simp add: RenderTopicsScreen_def Let_def)
  note d = topics_document_spans [OF assms(1) refl assms(2) len assms(6)]
  have "x_min screen + 1 + k - 3 = x_min screen + k - 2" "x_min screen + 1 + k - 4 = x_min screen + k - 3" for k
    by simp_all
  then show ?thesis
    unfolding doc using d(1) [of a f fd inspector transfer short] d(2) [of fd]
    by (simp add: topic_menu_rows [OF assms(2,3)] Let_def comp_def even_iff_mod_2_eq_zero list_all_iff)
qed

definition sample_measure :: TextMeasure where
  "sample_measure =
     \<lparr>tm_text = (\<lambda>s. case plain_cells s of Some n \<Rightarrow> (int n, 1) | None \<Rightarrow> (int (length s), 1)),
      tm_paragraph = (\<lambda>_. default_requirement)\<rparr>"

definition sample_ui_config :: BridgeConfig where
  "sample_ui_config =
     \<lparr>bc_hostname = ''ground'', bc_ip_map = [], bc_zenoh = default_zenoh_options,
      bc_runtime = default_runtime_options,
      bc_topics = [default_topic_rule\<lparr>tr_topic_name := ''/odom'', tr_msg_type := ''nav_msgs/Odometry''\<rparr>],
      bc_services = []\<rparr>"

text \<open>On a terminal of 81 columns the ring of the row is at column 0, clipped from column 1 on.\<close>

lemma topic_matrix_columns_witness:
  "\<exists>doc. RenderTopicsScreen (\<lambda>_ _. ''0'') 0 sample_ui_config initial_view None empty_history
       (topic_menu (\<lambda>_ _. ''0'') 0 sample_ui_config None (MakeLayoutContext 81 30) 0 0 True True)
       (MakeLayoutContext 81 30) = Some doc \<and>
     spans sample_measure doc \<lparr>x_min = 0, x_max = 80, y_min = 2, y_max = 26\<rparr>
       \<lparr>x_min = 0, x_max = 80, y_min = 2, y_max = 26\<rparr> ! 8 = (sym_ring @ '' '', 0, 1, 1, 78) \<and>
     \<not> column_drawn (sym_ring @ '' '', 0, 1, 1, 78) 0"
proof -
  let ?l = "MakeLayoutContext 81 30" and ?box = "\<lparr>x_min = 0, x_max = 80, y_min = 2, y_max = 26\<rparr>"
  have m: "plain_measure sample_measure" by (simp add: plain_measure_def sample_measure_def)
  have g: "tg_detailed_columns (MakeTopicPaneGeometry ?l)" "tg_matrix_inner_width (MakeTopicPaneGeometry ?l) = 79"
    "tg_matrix_width (MakeTopicPaneGeometry ?l) = 81" "lc_content_width ?l = 81"
    by code_simp+
  have "length (bc_topics sample_ui_config) < 2 ^ 31" "0 < length (bc_topics sample_ui_config)"
    "0 \<le> vs_selected_topic initial_view" "x_max ?box = x_min ?box + lc_content_width ?l - 1"
    by (simp_all add: sample_ui_config_def initial_view_def g)
  from topic_matrix_columns [OF m g(1) this, of "\<lambda>_ _. ''0''" 0 None empty_history 0 True True]
  obtain doc post where d: "RenderTopicsScreen (\<lambda>_ _. ''0'') 0 sample_ui_config initial_view None empty_history
       (topic_menu (\<lambda>_ _. ''0'') 0 sample_ui_config None ?l 0 0 True True) ?l = Some doc"
    and s: "spans sample_measure doc ?box ?box =
      [('' Topic Matrix'', 1, 79, 0, 80)] @ header_spans (tg_name_width (MakeTopicPaneGeometry ?l)) 1 (0, 80) @
      topic_row_spans (\<lambda>_ _. ''0'') (tg_name_width (MakeTopicPaneGeometry ?l)) (bc_topics sample_ui_config ! 0)
        None True 0 (1, 78) @ post"
    by (auto simp: Let_def g sample_ui_config_def live_info_of_def)
  show ?thesis
    using d s by (intro exI [of _ doc])
      (simp add: header_spans_def topic_row_spans_def Let_def shown_bandwidth_def PressureDot_def column_drawn_def)
qed

end
