(* ===== verification/Tui_Log_Lines.thy ===== *)
theory Tui_Log_Lines
  imports Tui_Alignment
begin

text \<open>
  Where the records of the log screen are drawn: each in a row of its own inside the panel, in columns
  that fill it.
\<close>

section \<open>Heights\<close>

text \<open>A text without a line break is one row high.\<close>

definition line_measure :: "TextMeasure \<Rightarrow> bool" where
  "line_measure m \<longleftrightarrow> (\<forall>s. CHR 0x0A \<notin> set s \<longrightarrow> snd (tm_text m s) = 1)"

abbreviation one_line :: "string \<Rightarrow> bool" where
  "one_line s \<equiv> CHR 0x0A \<notin> set s"

lemma dec_one_line: "one_line (dec n)"
proof (induction n rule: dec.induct)
  case (1 n)
  have c: "CHR 0x0A \<noteq> char_of (48 + k)" if "k < 10" for k :: nat
  proof
    assume "CHR 0x0A = char_of (48 + k)"
    then have "char_of (48 + k) = CHR 0x0A" by (rule sym)
    then show False using that by (simp add: char_of_eq_iff take_bit_eq_mod)
  qed
  show ?case using 1 c [of n] c [of "n mod 10"] by (subst dec.simps) auto
qed

lemma add_heights [simp]:
  "rq_min_y (hbox_add r c) = max (rq_min_y r) (rq_min_y c)"
  "rq_flex_grow_y (hbox_add r c) = rq_flex_grow_y r"
  "rq_flex_shrink_y (hbox_add r c) = rq_flex_shrink_y r"
  "rq_min_y (vbox_add r c) = rq_min_y r + rq_min_y c"
  "rq_flex_grow_y (vbox_add r c) = rq_flex_grow_y r"
  "rq_flex_shrink_y (vbox_add r c) = rq_flex_shrink_y r"
  by (simp_all add: hbox_add_def vbox_add_def)

lemma fold_heights [simp]:
  "rq_min_y (foldl hbox_add r rs) = foldl max (rq_min_y r) (map rq_min_y rs)"
  "rq_flex_grow_y (foldl hbox_add r rs) = rq_flex_grow_y r"
  "rq_flex_shrink_y (foldl hbox_add r rs) = rq_flex_shrink_y r"
  "rq_min_y (foldl vbox_add r rs) = rq_min_y r + sum_list (map rq_min_y rs)"
  "rq_flex_grow_y (foldl vbox_add r rs) = rq_flex_grow_y r"
  "rq_flex_shrink_y (foldl vbox_add r rs) = rq_flex_shrink_y r"
  by (induction rs arbitrary: r) simp_all

lemma width_heights [simp]:
  "rq_min_y (size_requirement WIDTH k v r) = rq_min_y r"
  "rq_flex_grow_y (size_requirement WIDTH k v r) = rq_flex_grow_y r"
  "rq_flex_shrink_y (size_requirement WIDTH k v r) = rq_flex_shrink_y r"
  "rq_min_y (flex_requirement gx gy sx sy r) = rq_min_y r"
  "rq_flex_grow_y (flex_requirement gx gy sx sy r) = (if gy \<noteq> -1 then gy else rq_flex_grow_y r)"
  "rq_flex_shrink_y (flex_requirement gx gy sx sy r) = (if sy \<noteq> -1 then sy else rq_flex_shrink_y r)"
  "rq_min_y (shift_focus x y r) = rq_min_y r"
  "rq_flex_grow_y (shift_focus x y r) = rq_flex_grow_y r"
  "rq_flex_shrink_y (shift_focus x y r) = rq_flex_shrink_y r"
  "rq_flex_grow_y default_requirement = 0" "rq_flex_shrink_y default_requirement = 0"
  by (simp_all add: size_requirement_def flex_requirement_def shift_focus_def default_requirement_def)

lemma panel_height:
  assumes "line_measure m" and "one_line title"
  shows "rq_min_y (requirement m (Panel title body)) = 4 + rq_min_y (requirement m body)"
    and "rq_flex_grow_y (requirement m (Panel title body)) = 0"
    and "rq_flex_shrink_y (requirement m (Panel title body)) = 0"
  using assms by (simp_all add: Panel_def piped_def line_measure_def)

section \<open>Rows\<close>

lemma Compute_rigid:
  assumes "total_of be_min_size es \<le> target" and "list_all (\<lambda>e. be_flex_grow e = 0) es"
  shows "Compute es target = map be_min_size es"
proof -
  have "list_all (\<lambda>e. be_flex_grow e = 0) es \<Longrightarrow> ComputeGrow es x s = map be_min_size es" for x s
    by (induction es) simp_all
  then show ?thesis using assms by (simp add: Compute_def Let_def)
qed

lemma vbox_texts:
  assumes "Compute (y_elements (map (requirement m) es)) n = ss" and "y_max box - y_min box + 1 = n"
  shows "texts m (VBox es) box stencil = texts_all m es (lines_of box (y_min box) ss) stencil"
  using assms by (simp add: vbox_boxes_def)

text \<open>Rows of height one, from the top of the box down.\<close>

definition row_box :: "Box \<Rightarrow> nat \<Rightarrow> Box" where
  "row_box box i = box\<lparr>y_min := y_min box + int i, y_max := y_min box + int i\<rparr>"

lemma rows_texts:
  assumes "list_all (\<lambda>e. rq_min_y (requirement m e) = 1 \<and> rq_flex_grow_y (requirement m e) = 0) es"
    and "int (length es) \<le> y_max box - y_min box + 1"
  shows "texts m (VBox es) box st = concat (map (\<lambda>i. texts m (es ! i) (row_box box i) st) [0..<length es])"
proof -
  have ones: "map be_min_size (y_elements (map (requirement m) es)) = replicate (length es) 1"
    using assms(1) by (induction es) (simp_all add: y_elements_def)
  have "list_all (\<lambda>e. be_flex_grow e = 0) (y_elements (map (requirement m) es))"
    using assms(1) by (induction es) (simp_all add: y_elements_def)
  then have c: "Compute (y_elements (map (requirement m) es)) (y_max box - y_min box + 1) = replicate (length es) 1"
    using assms(2) by (subst Compute_rigid) (simp_all add: ones sum_list_replicate)
  have "texts_all m es (lines_of box (y_min box + int k) (replicate (length es) 1)) st =
      concat (map (\<lambda>i. texts m (es ! i) (row_box box (k + i)) st) [0..<length es])" for k
  proof (induction es arbitrary: k)
    case (Cons e es)
    have s: "[0..<length (e # es)] = 0 # map Suc [0..<length es]" by (metis length_Cons map_Suc_upt upt_conv_Cons zero_less_Suc)
    show ?case
      unfolding s using Cons.IH [of "Suc k"] by (simp add: row_box_def comp_def add_ac)
  qed simp
  from this [of 0] show ?thesis unfolding vbox_texts [OF c refl] by simp
qed

section \<open>The lines of the log\<close>

text \<open>A text with its extent and the row it starts in.\<close>

definition place_of :: "string \<times> Box \<times> Box \<Rightarrow> string \<times> int \<times> int \<times> int" where
  "place_of t = (case t of (s, b, st) \<Rightarrow> (s, x_min b, x_max b, y_min b))"

definition places :: "TextMeasure \<Rightarrow> Elem \<Rightarrow> Box \<Rightarrow> Box \<Rightarrow> (string \<times> int \<times> int \<times> int) list" where
  "places m e box st = map place_of (texts m e box st)"

text \<open>The texts of a record in a line that starts at column \<open>x\<close> of row \<open>y\<close>.\<close>

definition log_line_places :: "LayoutContext \<Rightarrow> LogRecord \<Rightarrow> int \<Rightarrow> int \<Rightarrow> (string \<times> int \<times> int \<times> int) list" where
  "log_line_places layout r x y =
     (case log_columns layout of (a, b, c, d) \<Rightarrow>
        [('' '' @ lr_stamp r @ '' '', x, x + a - 1, y),
         ('' '' @ LevelTag (lr_level r) @ '' '', x + a, x + a + b - 1, y)] @
        (if c > 0 then [(EndEllipsis (lr_node r) (c - 1) @ '' '', x + a + b, x + a + b + c - 1, y)] else []) @
        [(EndEllipsis (lr_message r) d, x + a + b + c, x + a + b + c + d - 1, y)])"

lemma log_columns_pos:
  "log_columns layout = (a, b, c, d) \<Longrightarrow> 0 < a \<and> 0 < b \<and> 0 \<le> c \<and> 0 < d"
  by (auto simp: log_columns_def Let_def)

definition log_cells :: "LayoutContext \<Rightarrow> LogRecord \<Rightarrow> Elem list" where
  "log_cells layout r = (case log_columns layout of (a, b, c, d) \<Rightarrow>
     [Sized WIDTH EQUAL a (color theme_TextDim (Text ('' '' @ lr_stamp r @ '' ''))),
      Sized WIDTH EQUAL b (color (LevelColor (lr_level r)) (bold (Text ('' '' @ LevelTag (lr_level r) @ '' ''))))] @
     (if c > 0 then [Sized WIDTH EQUAL c (color theme_Primary (Text (EndEllipsis (lr_node r) (c - 1) @ '' '')))]
      else []) @
     [Sized WIDTH EQUAL d (color theme_Text (Text (EndEllipsis (lr_message r) d)))])"

lemma log_line_cells: "log_line layout r = HBox (log_cells layout r)"
  by (auto simp: log_line_def log_cells_def piped_def split: prod.split)

lemma log_line_texts:
  assumes "20 \<le> log_body_width layout" and "x_max box = x_min box + log_body_width layout - 1"
  shows "places m (log_line layout r) box st = log_line_places layout r (x_min box) (y_min box)"
proof -
  obtain a b c d where l: "log_columns layout = (a, b, c, d)" by (rule prod_cases4)
  note pos = log_columns_pos [OF l]
  have fit: "a + b + c + d = log_body_width layout" by (rule log_columns_fit [OF assms(1) l])
  have k: "Compute (x_elements (map (requirement m) (log_cells layout r))) (a + b + c + d) =
      [a, b] @ (if c > 0 then [c] else []) @ [d]"
    using pos by (subst Compute_exact) (auto simp: log_cells_def l x_elements_def)
  have n: "x_max box - x_min box + 1 = a + b + c + d" using assms(2) fit by simp
  have "places m (log_line layout r) box st = map place_of (texts_all m (log_cells layout r)
      (columns box (x_min box) ([a, b] @ (if c > 0 then [c] else []) @ [d])) st)"
    by (simp only: log_line_cells places_def hbox_texts [OF k n])
  also have "\<dots> = log_line_places layout r (x_min box) (y_min box)"
    using pos by (auto simp: log_cells_def size_box_def place_of_def log_line_places_def l)
  finally show ?thesis .
qed

definition one_line_record :: "LogRecord \<Rightarrow> bool" where
  "one_line_record r \<longleftrightarrow>
     one_line (lr_stamp r) \<and> one_line (lr_level r) \<and> one_line (lr_node r) \<and> one_line (lr_message r)"

lemma shortened_one_line:
  "one_line s \<Longrightarrow> one_line (LevelTag s)" "one_line s \<Longrightarrow> one_line (EndEllipsis s k)"
  by (auto simp: LevelTag_def EndEllipsis_def dest: in_set_takeD)

lemma log_line_height:
  assumes "line_measure m" and "one_line_record r"
  shows "rq_min_y (requirement m (log_line layout r)) = 1"
    and "rq_flex_grow_y (requirement m (log_line layout r)) = 0"
proof -
  have "snd (tm_text m s) = 1" if "one_line s" for s using assms(1) that by (simp add: line_measure_def)
  then show "rq_min_y (requirement m (log_line layout r)) = 1"
    "rq_flex_grow_y (requirement m (log_line layout r)) = 0"
    using assms(2) shortened_one_line
    by (auto simp: log_line_cells log_cells_def one_line_record_def split: prod.split)
qed

section \<open>The screen\<close>

text \<open>Rigid parts above one that takes the rest of the height.\<close>

lemma Compute_rest:
  assumes "n \<le> rest" and "list_all (\<lambda>e. be_flex_grow e = 0) es" and "target = total_of be_min_size es + rest"
  shows "Compute (es @ [\<lparr>be_min_size = n, be_flex_grow = 1, be_flex_shrink = 1\<rparr>]) target =
    map be_min_size es @ [rest]"
proof -
  let ?e = "\<lparr>be_min_size = n, be_flex_grow = 1, be_flex_shrink = 1\<rparr>"
  have "list_all (\<lambda>e. be_flex_grow e = 0) es \<Longrightarrow>
      ComputeGrow (es @ [?e]) x 1 = map be_min_size es @ [n + x]" for x
    by (induction es) simp_all
  moreover have "total_of be_flex_grow es = 0" using assms(2) by (induction es) simp_all
  ultimately show ?thesis using assms by (simp add: Compute_def Let_def)
qed

lemma panel_texts:
  assumes "line_measure m" and "one_line title" and "rq_min_y (requirement m body) \<le> y_max box - y_min box - 3"
  shows "\<exists>pre. texts m (Panel title body) box st = pre @ texts m body
    \<lparr>x_min = x_min box + 1, x_max = x_max box - 1, y_min = y_min box + 3, y_max = y_max box - 1\<rparr> st"
proof -
  let ?b = "border_box box" and ?n = "y_max box - y_min box - 3"
  let ?es = "[color theme_TextMuted (bold (Text ('' '' @ title))), rule_line, flex body]"
  have h: "snd (tm_text m ('' '' @ title)) = 1"
    using assms(1,2) by (simp add: line_measure_def)
  have c: "Compute (y_elements (map (requirement m) ?es)) (2 + ?n) = [1, 1, ?n]"
    using Compute_rest [of "rq_min_y (requirement m body)" ?n
        "[\<lparr>be_min_size = 1, be_flex_grow = 0, be_flex_shrink = 0\<rparr>,
          \<lparr>be_min_size = 1, be_flex_grow = 0, be_flex_shrink = 0\<rparr>]" "2 + ?n"] assms(3) h
    by (simp add: y_elements_def)
  have n: "y_max ?b - y_min ?b + 1 = 2 + ?n" by simp
  have "texts m (Panel title body) box st = texts_all m ?es (lines_of ?b (y_min ?b) [1, 1, ?n]) st"
    using vbox_texts [OF c n] by (simp add: Panel_def piped_def)
  then show ?thesis by (simp add: add.assoc)
qed

text \<open>A panel of rows that takes what a panel of one row leaves of the screen.\<close>

lemma panel_rows:
  assumes "line_measure m" and "one_line title" and "0 < length es" and "int (length es) \<le> y_max box - y_min box - 8"
    and "list_all (\<lambda>e. rq_min_y (requirement m e) = 1 \<and> rq_flex_grow_y (requirement m e) = 0) es"
    and "rq_min_y (requirement m hd_panel) = 5" and "rq_flex_grow_y (requirement m hd_panel) = 0"
    and "rq_flex_shrink_y (requirement m hd_panel) = 0"
  shows "\<exists>pre. texts m (VBox [hd_panel, flex (Panel title (VBox es))]) box st = pre @ concat (map (\<lambda>i.
    texts m (es ! i) (row_box \<lparr>x_min = x_min box + 1, x_max = x_max box - 1,
      y_min = y_min box + 8, y_max = y_max box - 1\<rparr> i) st) [0..<length es])"
proof -
  let ?panel = "Panel title (VBox es)" and ?n = "y_max box - y_min box - 4"
  let ?below = "box\<lparr>y_min := y_min box + 5, y_max := y_max box\<rparr>"
  let ?body = "\<lparr>x_min = x_min box + 1, x_max = x_max box - 1, y_min = y_min box + 8, y_max = y_max box - 1\<rparr>"
  have "map (rq_min_y \<circ> requirement m) es = replicate (length es) 1"
    using assms(5) by (induction es) simp_all
  then have sum: "rq_min_y (requirement m (VBox es)) = int (length es)"
    using assms(3) by (simp add: sum_list_replicate)
  note ph = panel_height [OF assms(1,2)]
  have c: "Compute (y_elements (map (requirement m) [hd_panel, flex ?panel])) (5 + ?n) = [5, ?n]"
    using Compute_rest [of "4 + int (length es)" ?n
        "[\<lparr>be_min_size = 5, be_flex_grow = 0, be_flex_shrink = 0\<rparr>]" "5 + ?n"] assms(4,6-8) sum
    by (simp add: y_elements_def ph del: requirement.simps(3))
  have h: "y_max box - y_min box + 1 = 5 + ?n" by simp
  have "texts m (VBox [hd_panel, flex ?panel]) box st =
      texts m hd_panel (box\<lparr>y_max := y_min box + 4\<rparr>) st @ texts m ?panel ?below st"
    unfolding vbox_texts [OF c h] by (simp add: add.commute)
  moreover have fits: "rq_min_y (requirement m (VBox es)) \<le> y_max ?below - y_min ?below - 3"
    unfolding sum using assms(4) by simp
  have body: "\<lparr>x_min = x_min ?below + 1, x_max = x_max ?below - 1, y_min = y_min ?below + 3,
      y_max = y_max ?below - 1\<rparr> = ?body"
    by simp
  obtain pre where "texts m ?panel ?below st = pre @ texts m (VBox es) ?body st"
    using panel_texts [OF assms(1,2) fits, of st] unfolding body by blast
  moreover have "texts m (VBox es) ?body st =
      concat (map (\<lambda>i. texts m (es ! i) (row_box ?body i) st) [0..<length es])"
    using assms(4) by (intro rows_texts [OF assms(5)]) simp
  ultimately show ?thesis
    by (intro exI [of _ "texts m hd_panel (box\<lparr>y_max := y_min box + 4\<rparr>) st @ pre"]) (simp only: append_assoc)
qed

text \<open>C37: The log screen shows the newest records: of the last 500 that arrived, those of at least the
  selected level, and of these as many of the last ones as the panel has rows.  Each is drawn in a
  row of its own, oldest first from the top of the panel, all of them inside it, in columns for
  time, level, node and message that fill its width exactly, as long as no record has a line
  break.\<close>

theorem log_screen_lines:
  assumes "selected_level state = Some lvl" and "log_store = foldl (\<lambda>s r. Append r s) [] rs"
    and "layout = MakeLayoutContext width height" and "\<not> (compact layout \<and> lc_short_height layout)"
    and "20 \<le> log_body_width layout"
    and "x_max screen = x_min screen + lc_content_width layout - 1"
    and "y_max screen = y_min screen + lc_content_height layout - 1"
    and "line_measure m" and "list_all one_line_record rs"
    and "rq_min_y (requirement m level_filter) = 1"
    and "kept = filter (\<lambda>r. LevelRank (lr_level r) \<ge> LevelRank lvl) (drop (length rs - 500) rs)"
    and "shown = drop (length kept - nat (lc_content_height layout - 9)) kept" and "kept \<noteq> []"
  shows "\<exists>doc pre. RenderLogsScreen state log_store level_filter layout = Some doc \<and>
    places m doc screen screen = pre @ concat (map (\<lambda>i.
      log_line_places layout (shown ! i) (x_min screen + 1) (y_min screen + 8 + int i)) [0..<length shown]) \<and>
    y_min screen + 8 + int (length shown) \<le> y_max screen"
proof -
  let ?H = "lc_content_height layout" and ?lines = "map (log_line layout) shown"
  have H: "14 \<le> ?H"
    using assms(4) by (auto simp: assms(3) MakeLayoutContext_def compact_def Let_def split: if_splits)
  have k: "Records lvl log_store = kept" unfolding assms(2,11) by (rule Records_run)
  have v: "visible_records layout kept = shown"
    using assms(4) H by (auto simp: visible_records_def assms(12) Let_def compact_def max_def)
  have len: "length shown = min (length kept) (nat (?H - 9))" by (simp add: assms(12))
  have "0 < length kept" "0 < nat (?H - 9)" using assms(13) H by simp_all
  then have ne: "shown \<noteq> []" unfolding length_greater_0_conv [symmetric] len by (rule min_less_iff_conj [THEN iffD2, OF conjI])
  have n: "int (length shown) \<le> ?H - 9" using len H by simp
  have one: "list_all one_line_record shown"
    using assms(9) by (auto simp: list_all_iff assms(11,12) dest!: in_set_dropD)
  have lines: "list_all (\<lambda>e. rq_min_y (requirement m e) = 1 \<and> rq_flex_grow_y (requirement m e) = 0) ?lines"
    using one log_line_height [OF assms(8)] by (auto simp: list_all_iff)
  let ?label = "log_count_label layout (length shown) (length kept) (TotalCount log_store)"
  let ?filters = "Panel ''Filters'' (HBox [level_filter, Filler, color theme_TextDim (Text ?label)])"
  have label: "one_line ?label" using dec_one_line by (simp add: log_count_label_def)
  have doc: "RenderLogsScreen state log_store level_filter layout = Some (VBox
       [?filters, flex (Panel ''rosout'' (VBox ?lines))])"
    unfolding RenderLogsScreen_def assms(1) Let_def option.map k v if_not_P [OF assms(4)]
    using ne by (simp add: log_body_def piped_def)
  have tl: "one_line ''Filters''" "one_line ''rosout''" by simp_all
  have "snd (tm_text m ?label) = 1" using assms(8) label by (simp add: line_measure_def)
  then have top: "rq_min_y (requirement m ?filters) = 5"
    using assms(10) by (simp add: panel_height [OF assms(8) tl(1)])
  have w: "log_body_width layout = lc_content_width layout - 2"
    using assms(4,5) by (auto simp: log_body_width_def compact_def max_def split: if_splits)
  let ?body = "\<lparr>x_min = x_min screen + 1, x_max = x_max screen - 1,
    y_min = y_min screen + 8, y_max = y_max screen - 1\<rparr>"
  let ?doc = "VBox [?filters, flex (Panel ''rosout'' (VBox ?lines))]"
  obtain pre where "texts m ?doc screen screen =
      pre @ concat (map (\<lambda>i. texts m (?lines ! i) (row_box ?body i) screen) [0..<length ?lines])"
    using panel_rows [OF assms(8) tl(2) _ _ lines top panel_height(2,3) [OF assms(8) tl(1)], of screen screen]
      ne n assms(7) by auto
  moreover have "map place_of (texts m (log_line layout r) (row_box ?body i) screen) =
      log_line_places layout r (x_min screen + 1) (y_min screen + 8 + int i)" for r i
    using log_line_texts [OF assms(5), of "row_box ?body i" m r screen] w assms(6)
    by (simp add: row_box_def places_def)
  ultimately have "places m ?doc screen screen = map place_of pre @ concat (map (\<lambda>i.
      log_line_places layout (shown ! i) (x_min screen + 1) (y_min screen + 8 + int i)) [0..<length shown])"
    by (auto simp: places_def map_concat comp_def intro!: arg_cong [where f = concat] map_cong)
  moreover have "y_min screen + 8 + int (length shown) \<le> y_max screen" using n assms(7) by simp
  ultimately show ?thesis using doc by blast
qed

text \<open>A text measure that satisfies what the properties ask for: cells and lines counted, not looked up.\<close>

definition line_sample :: TextMeasure where
  "line_sample = \<lparr>tm_text = (\<lambda>s. (int (length s), 1 + int (length (filter (\<lambda>c. c = CHR 0x0A) s)))),
     tm_paragraph = (\<lambda>_. default_requirement)\<rparr>"

lemma log_screen_lines_witness:
  "\<exists>doc pre. RenderLogsScreen initial_view
       [\<lparr>lr_stamp = ''12:00:01'', lr_level = ''INFO'', lr_node = ''/bridge'', lr_message = ''ready''\<rparr>]
       (Text ''All'') (MakeLayoutContext 80 30) = Some doc \<and>
     places line_sample doc \<lparr>x_min = 0, x_max = 79, y_min = 2, y_max = 26\<rparr>
         \<lparr>x_min = 0, x_max = 79, y_min = 2, y_max = 26\<rparr> =
       pre @ [('' 12:00:01 '', 1, 11, 10), ('' INFO '', 12, 18, 10),
              (''/bridge '', 19, 34, 10), (''ready'', 35, 78, 10)]"
proof -
  let ?r = "\<lparr>lr_stamp = ''12:00:01'', lr_level = ''INFO'', lr_node = ''/bridge'', lr_message = ''ready''\<rparr>"
  let ?l = "MakeLayoutContext 80 30" and ?box = "\<lparr>x_min = 0, x_max = 79, y_min = 2, y_max = 26\<rparr>"
  have a: "selected_level initial_view = Some ''All''" "[?r] = foldl (\<lambda>s r. Append r s) [] [?r]"
    by code_simp+
  have b: "\<not> (compact ?l \<and> lc_short_height ?l)" "20 \<le> log_body_width ?l"
    "x_max ?box = x_min ?box + lc_content_width ?l - 1" "y_max ?box = y_min ?box + lc_content_height ?l - 1"
    by code_simp+
  have m: "line_measure line_sample" "list_all one_line_record [?r]"
    "rq_min_y (requirement line_sample (Text ''All'')) = 1"
    by (auto simp: line_measure_def line_sample_def one_line_record_def filter_empty_conv)
  have c: "[?r] = filter (\<lambda>r. LevelRank (lr_level r) \<ge> LevelRank ''All'') (drop (length [?r] - 500) [?r])"
    by (simp add: LevelRank_def)
  have "lc_content_height ?l = 25" by code_simp
  then have d: "[?r] = drop (length [?r] - nat (lc_content_height ?l - 9)) [?r]" by simp
  have e: "log_line_places ?l ?r 1 10 = [('' 12:00:01 '', 1, 11, 10), ('' INFO '', 12, 18, 10),
      (''/bridge '', 19, 34, 10), (''ready'', 35, 78, 10)]"
    by code_simp
  from log_screen_lines [OF a refl b m c d] show ?thesis by (simp add: e)
qed

end
