(* ===== verification/Entry_Points.thy ===== *)
theory Entry_Points
  imports Node_Properties Tui_State
begin

text \<open>
  The ends of the programs: the log lines of \<^verbatim>\<open>logging/bridge_logger.cpp\<close>, the callback that puts
  \<^verbatim>\<open>/rosout\<close> into the log of the terminal UI (\<^verbatim>\<open>nodes/bridge_tui_main.cpp\<close>) and \<^verbatim>\<open>main\<close> of the
  bridge (\<^verbatim>\<open>bridge_node_main.cpp\<close>).
\<close>

section \<open>Log lines\<close>

datatype Level = kDebug | kInfo | kWarn | kError

definition LevelName :: "Level \<Rightarrow> string" where
  "LevelName level =
     (case level of kDebug \<Rightarrow> ''DEBUG'' | kInfo \<Rightarrow> ''INFO'' | kWarn \<Rightarrow> ''WARN'' | kError \<Rightarrow> ''ERROR'')"

definition Emoji :: "Level \<Rightarrow> string" where
  "Emoji level = (case level of kDebug \<Rightarrow> ''[..]'' | kInfo \<Rightarrow> ''[OK]'' | kWarn \<Rightarrow> ''[!]'' | kError \<Rightarrow> ''[X]'')"

definition FormatLine :: "Level \<Rightarrow> string \<Rightarrow> string \<Rightarrow> string \<Rightarrow> string" where
  "FormatLine level component topic message =
     Emoji level @ '' '' @ ''['' @ LevelName level @ '']'' @ ''['' @ component @ '']'' @
     (if topic \<noteq> [] then ''['' @ topic @ '']'' else []) @ '' '' @ message"

text \<open>The macro of roscpp that prints the line, by the level of \<^verbatim>\<open>rosgraph_msgs/Log\<close> it logs with.\<close>

definition log_line_of :: "Level \<Rightarrow> string \<Rightarrow> string \<Rightarrow> string \<Rightarrow> byte \<times> string" where
  "log_line_of level component topic message =
     (case level of kDebug \<Rightarrow> 1 | kInfo \<Rightarrow> 2 | kWarn \<Rightarrow> 4 | kError \<Rightarrow> 8, FormatLine level component topic message)"

section \<open>From rosout to the log of the UI\<close>

record RosLog =
  rl_stamp :: ros_time
  rl_level :: byte
  rl_name :: string
  rl_msg :: string

text \<open>A number printed to a width of two, filled with zeros.\<close>

definition two_digits :: "nat \<Rightarrow> string" where
  "two_digits n = replicate (2 - length (dec n)) CHR ''0'' @ dec n"

text \<open>\<open>localtime\<close> gives hour, minute and second of a number of seconds.\<close>

definition StampToString :: "(nat \<Rightarrow> nat \<times> nat \<times> nat) \<Rightarrow> ros_time \<Rightarrow> RosLog \<Rightarrow> string" where
  "StampToString localtime now message =
     (let stamp = (if rl_stamp message = 0 then now else rl_stamp message)
      in case localtime (stamp div 10 ^ 9) of (tm_hour, tm_min, tm_sec) \<Rightarrow>
           two_digits tm_hour @ '':'' @ two_digits tm_min @ '':'' @ two_digits tm_sec)"

definition rosout_callback ::
  "(nat \<Rightarrow> nat \<times> nat \<times> nat) \<Rightarrow> ros_time \<Rightarrow> RosLog \<Rightarrow> LogRecord list \<Rightarrow> LogRecord list" where
  "rosout_callback localtime now message log_store =
     Append \<lparr>lr_stamp = StampToString localtime now message, lr_level = LevelToString (rl_level message),
             lr_node = rl_name message, lr_message = rl_msg message\<rparr> log_store"

section \<open>The main program of the bridge\<close>

text \<open>The exit code, and the text that is logged as fatal; \<open>None\<close> when the program does not get there
  because a codec is undefined, \<open>Hangs\<close> when it never ends.  An exception while the bridge starts unwinds
  through its destructor, which stops what was started; \<open>missed\<close> and \<open>missed'\<close> are the wake-ups that the
  workers miss while the bridge starts and while it stops.\<close>

definition bridge_main ::
  "NodeLib \<Rightarrow> ('pose, 'o) RosLib \<Rightarrow> (nat \<Rightarrow> ros_time) \<Rightarrow> (string \<Rightarrow> XmlRpcValue option) \<Rightarrow> string option \<Rightarrow>
     (TopicCfg \<Rightarrow> string \<Rightarrow> bool) \<Rightarrow> (string \<Rightarrow> bool) \<Rightarrow> (string \<Rightarrow> bool) \<Rightarrow> (BridgeFactory \<Rightarrow> BridgeFactory) \<Rightarrow>
     (nat \<times> string option) Joined option" where
  "bridge_main lib ros clock params env subscribe_ok missed missed' spin =
     (let failed = (\<lambda>e. (1, Some (''[Bridge] startup failed: '' @ e)));
          stop = (\<lambda>factory result.
            map_option (\<lambda>r. case r of Hangs \<Rightarrow> Hangs | Returns _ \<Rightarrow> Returns result)
              (stopBridge ros clock missed' factory))
      in case BridgeFactory_create lib params env (clock 0) of
           Inl Undefined \<Rightarrow> None
         | Inl (Throws e) \<Rightarrow> Some (Returns (failed e))
         | Inr factory \<Rightarrow>
             (case startBridge subscribe_ok missed factory of
                Hangs \<Rightarrow> Some Hangs
              | Returns (Inl e, factory) \<Rightarrow> stop factory (failed e)
              | Returns (Inr _, factory) \<Rightarrow> stop (spin factory) (0, None)))"

section \<open>Properties\<close>

lemma level_survives: "LevelToString (fst (log_line_of level component topic message)) = LevelName level"
  by (cases level) (simp_all add: log_line_of_def LevelToString_def LevelName_def)

text \<open>A line that a program of the bridge logs is shown by the terminal UI whenever the selected level is
  not above its own, with its node and its text.\<close>

lemma log_line_shown:
  assumes "log_line_of level component topic message = (severity, line)"
    and "LevelRank lvl \<le> LevelRank (LevelName level)"
  shows "\<exists>r \<in> set (Records lvl (rosout_callback localtime now
      \<lparr>rl_stamp = stamp, rl_level = severity, rl_name = node, rl_msg = line\<rparr> records)).
    lr_node r = node \<and> lr_message r = FormatLine level component topic message \<and> lr_level r = LevelName level"
proof -
  have l: "LevelToString severity = LevelName level" "line = FormatLine level component topic message"
    using level_survives [of level component topic message] assms(1) by (simp_all add: log_line_of_def)
  let ?r = "\<lparr>lr_stamp = StampToString localtime now \<lparr>rl_stamp = stamp, rl_level = severity, rl_name = node, rl_msg = line\<rparr>,
    lr_level = LevelName level, lr_node = node, lr_message = line\<rparr>"
  have "?r \<in> set (Append ?r records)" by (simp add: Append_def ring_push_def Let_def log_capacity_def)
  then show ?thesis using assms(2) l by (intro bexI [of _ ?r]) (simp_all add: rosout_callback_def Records_def)
qed

text \<open>The stamp of a record has the fixed form of a clock.\<close>

lemma length_two_digits: "n < 100 \<Longrightarrow> length (two_digits n) = 2"
  by (auto simp: two_digits_def dec.simps [of n] dec.simps [of "n div 10"])

lemma stamp_width:
  assumes "localtime ((if rl_stamp m = 0 then now else rl_stamp m) div 10 ^ 9) = (h, mi, s)"
    and "h < 100" "mi < 100" "s < 100"
  shows "length (StampToString localtime now m) = 8"
  using assms by (simp add: StampToString_def Let_def length_two_digits)

end
