(* ===== verification/Recv_Worker.thy ===== *)
theory Recv_Worker
  imports Topic_Properties
begin

text \<open>
  The worker of a receiver against the thread that stops it (\<^verbatim>\<open>recvFunction\<close>, \<^verbatim>\<open>enqueueEnvelope\<close> and
  \<^verbatim>\<open>stopThread\<close> of \<^verbatim>\<open>topic_factory.cpp\<close>): in every interleaving of their steps stopping either returns
  with an empty queue and a worker that has left, or ends in the one deadlock that the code has, a
  notification between the worker's test and its wait.
\<close>

section \<open>The queue and the flag\<close>

lemma enqueueEnvelope_silent:
  assumes "enqueueEnvelope lib e t = (notified, t')"
  shows "\<not> notified \<Longrightarrow> tf_recv_queue t' = tf_recv_queue t"
    "notified \<Longrightarrow> accepts lib (tf_cfg t) e \<and> tf_recv_thread_flag t"
    "tf_recv_thread_flag t' = tf_recv_thread_flag t" "tf_subscription t' = tf_subscription t"
proof -
  obtain r q where pq: "push_queue (tc_qos_class (tf_cfg t)) e (tf_recv_queue t) = (r, q)"
    by (rule prod.exhaust)
  have rej: "r = kRejected \<Longrightarrow> q = tf_recv_queue t"
    using pq by (cases "tc_qos_class (tf_cfg t)") (auto simp: push_queue_eq split: if_splits)
  have obs: "tf_subscription (observe_if_image e t) = tf_subscription t" by (simp add: observe_if_image_def)
  show "\<not> notified \<Longrightarrow> tf_recv_queue t' = tf_recv_queue t"
    "notified \<Longrightarrow> accepts lib (tf_cfg t) e \<and> tf_recv_thread_flag t"
    "tf_recv_thread_flag t' = tf_recv_thread_flag t" "tf_subscription t' = tf_subscription t"
    using assms rej obs unfolding enqueueEnvelope_eq Let_def pq
    by (auto split: if_splits)
qed

lemma recvFunction_round_iff:
  "recvFunction_round lib now t = WorkerWait \<longleftrightarrow> tf_recv_thread_flag t \<and> tf_recv_queue t = []"
  "recvFunction_round lib now t = WorkerExit \<longleftrightarrow> \<not> tf_recv_thread_flag t \<and> tf_recv_queue t = []"
  by (auto simp: recvFunction_round_def Let_def split: option.split prod.split)

definition flag_set :: "StopPc \<Rightarrow> bool" where
  "flag_set s \<longleftrightarrow> s = NotStopping \<or> s = Unsubscribed"

definition th_inv :: "('pose, 'o) threads \<Rightarrow> bool" where
  "th_inv p \<longleftrightarrow>
     tf_recv_thread_flag (th_tf p) = flag_set (th_stop p) \<and>
     (th_stop p \<noteq> NotStopping \<longrightarrow> tf_subscription (th_tf p) = None) \<and>
     (th_worker p \<noteq> Testing \<longrightarrow> tf_recv_queue (th_tf p) = []) \<and>
     (th_worker p = Exited \<longrightarrow> \<not> flag_set (th_stop p)) \<and>
     (th_stop p = Stopped \<longrightarrow> th_worker p = Exited)"

lemma took_keeps:
  assumes "recvFunction_round lib now t = WorkerTook e m t'"
  shows "tf_subscription t' = tf_subscription t"
proof -
  obtain q where q: "tf_recv_queue t = hd (tf_recv_queue t) # q"
    using recvFunction_round_took(1) [OF assms] by simp
  have "deserializePublish lib now (hd (tf_recv_queue t)) (t\<lparr>tf_recv_queue := q\<rparr>) = Some (m, t')"
    using assms q by (cases "tf_recv_queue t")
      (auto simp: recvFunction_round_def Let_def split: if_splits option.splits)
  from deserializePublish_subscription [OF this] show ?thesis by simp
qed

lemma th_inv_start: "tf_recv_thread_flag t \<Longrightarrow> th_inv (th_start t)"
  by (simp add: th_inv_def th_start_def flag_set_def)

lemma th_inv_thread:
  assumes "thread_step lib clock p p'" and "th_inv p"
  shows "th_inv p'"
  using assms(1)
proof (cases rule: thread_step.cases)
  case (take e m t)
  then show ?thesis
    using assms(2) recvFunction_round_took(3) [OF take(3)] took_keeps [OF take(3)]
    by (auto simp: th_inv_def)
qed (use assms(2) in \<open>auto simp: th_inv_def flag_set_def woken_def recvFunction_round_iff\<close>)

lemma th_inv_arrive:
  assumes "arrive_step lib p p'" and "th_inv p"
  shows "th_inv p'"
  using assms(1)
proof (cases rule: arrive_step.cases)
  case (arrival e notified t)
  note s = enqueueEnvelope_silent [OF arrival(2)]
  show ?thesis
  proof (cases notified)
    case True
    then have w: "th_worker p \<noteq> Blocking" "th_worker p \<noteq> Exited" "th_stop p \<noteq> Stopped"
      using s(2) arrival(3) assms(2) by (auto simp: th_inv_def)
    then have "woken (th_worker p) = Testing" by (cases "th_worker p") (auto simp: woken_def)
    then show ?thesis using w True assms(2) s(3,4) arrival(1) by (auto simp: th_inv_def)
  next
    case False
    then show ?thesis using assms(2) s(1,3,4) arrival(1) by (auto simp: th_inv_def)
  qed
qed

section \<open>Runs\<close>

definition run_step :: "('pose, 'o) RosLib \<Rightarrow> (nat \<Rightarrow> ros_time) \<Rightarrow> ('pose, 'o) threads \<Rightarrow> ('pose, 'o) threads \<Rightarrow> bool"
  where "run_step lib clock p p' \<longleftrightarrow> thread_step lib clock p p' \<or> arrive_step lib p p'"

lemma th_inv_run:
  "(run_step lib clock)\<^sup>*\<^sup>* p p' \<Longrightarrow> th_inv p \<Longrightarrow> th_inv p'"
  by (induction rule: rtranclp_induct) (auto simp: run_step_def intro: th_inv_thread th_inv_arrive)

text \<open>The steps that a stop has left once the flag is cleared.\<close>

definition steps_left :: "('pose, 'o) threads \<Rightarrow> nat" where
  "steps_left p = length (tf_recv_queue (th_tf p)) +
     (case th_worker p of Testing \<Rightarrow> 3 | Blocking \<Rightarrow> 2 | Blocked \<Rightarrow> 1 | Exited \<Rightarrow> 0) +
     (case th_stop p of Notified \<Rightarrow> 1 | Stopped \<Rightarrow> 0 | _ \<Rightarrow> 4)"

lemma steps_left_thread:
  assumes "thread_step lib clock p p'" and "th_inv p" and "\<not> flag_set (th_stop p)"
  shows "steps_left p' < steps_left p \<and> \<not> flag_set (th_stop p')"
  using assms(1)
proof (cases rule: thread_step.cases)
  case (take e m t)
  then show ?thesis using assms(3) recvFunction_round_took(1) [OF take(3)] by (simp add: steps_left_def)
next
  case notify
  then show ?thesis by (cases "th_worker p") (simp_all add: steps_left_def woken_def flag_set_def)
qed (use assms(2,3) in \<open>auto simp: steps_left_def flag_set_def th_inv_def recvFunction_round_iff\<close>)

lemma steps_left_arrive:
  assumes "arrive_step lib p p'" and "th_inv p" and "\<not> flag_set (th_stop p)"
  shows "steps_left p' = steps_left p \<and> th_stop p' = th_stop p \<and> th_worker p' = th_worker p"
  using assms(1)
proof (cases rule: arrive_step.cases)
  case (arrival e notified t)
  have "\<not> notified" using enqueueEnvelope_silent(2) [OF arrival(2)] assms(2,3) by (auto simp: th_inv_def)
  then show ?thesis using enqueueEnvelope_silent(1) [OF arrival(2)] arrival(1) by (simp add: steps_left_def)
qed

text \<open>When nothing but arrivals can happen.\<close>

lemma no_thread_step:
  assumes "th_inv p"
  shows "(\<nexists>p'. thread_step lib clock p p') \<longleftrightarrow>
    th_stop p = Stopped \<or> th_stop p = Notified \<and> (th_worker p = Blocked \<or>
      th_worker p = Testing \<and>
        recvFunction_round lib (clock (length (th_published p))) (th_tf p) = WorkerUndefined)"
    (is "?none \<longleftrightarrow> ?ended")
proof
  let ?round = "recvFunction_round lib (clock (length (th_published p))) (th_tf p)"
  assume n: ?none
  have "th_stop p = Stopped \<or> th_stop p = Notified"
    using n thread_step.unsubscribe [of p] thread_step.clear [of p] thread_step.notify [of p]
    by (cases "th_stop p") auto
  moreover have "th_worker p = Blocked \<or> th_worker p = Testing \<and> ?round = WorkerUndefined"
    if s: "th_stop p = Notified"
  proof (cases "th_worker p")
    case Testing
    then show ?thesis
      using n thread_step.look [of p lib clock] thread_step.leave [of p lib clock]
        thread_step.take [of p lib clock] by (cases ?round) auto
  qed (use n s thread_step.block [of p] thread_step.join [of p] in auto)
  ultimately show ?ended by blast
next
  assume ?ended
  then show ?none
    using assms by (auto elim!: thread_stepE simp: th_inv_def)
qed

text \<open>A worker that missed the notification is never woken.\<close>

lemma missed_forever:
  assumes "(run_step lib clock)\<^sup>*\<^sup>* p p'" and "th_inv p" and "th_stop p = Notified" "th_worker p = Blocked"
  shows "th_stop p' = Notified \<and> th_worker p' = Blocked"
  using assms
proof (induction rule: rtranclp_induct)
  case (step q r)
  have inv: "th_inv q" by (rule th_inv_run [OF step.hyps(1) step.prems(1)])
  have q: "th_stop q = Notified" "th_worker q = Blocked" using step.IH [OF step.prems] by simp_all
  from step.hyps(2) show ?case unfolding run_step_def
  proof
    assume "thread_step lib clock q r"
    then show ?thesis using q by (auto elim!: thread_stepE)
  next
    assume "arrive_step lib q r"
    from steps_left_arrive [OF this inv] show ?thesis using q by (simp add: flag_set_def)
  qed
qed simp

text \<open>The interleaving that misses it.\<close>

lemma missed_happens:
  assumes "tf_recv_thread_flag t" and "tf_recv_queue t = []"
  shows "\<exists>p. (thread_step lib clock)\<^sup>*\<^sup>* (th_start t) p \<and> th_stop p = Notified \<and> th_worker p = Blocked"
proof -
  let ?p0 = "th_start t :: ('a, 'b) threads"
  let ?p1 = "?p0\<lparr>th_stop := Unsubscribed, th_tf := (th_tf ?p0)\<lparr>tf_subscription := None\<rparr>\<rparr>"
  let ?p2 = "?p1\<lparr>th_worker := Blocking\<rparr>"
  let ?p3 = "?p2\<lparr>th_stop := Cleared, th_tf := (th_tf ?p2)\<lparr>tf_recv_thread_flag := False\<rparr>\<rparr>"
  let ?p4 = "?p3\<lparr>th_stop := Notified, th_worker := woken (th_worker ?p3)\<rparr>"
  let ?p5 = "?p4\<lparr>th_worker := Blocked\<rparr>"
  have "thread_step lib clock ?p0 ?p1" by (rule thread_step.unsubscribe) (simp add: th_start_def)
  moreover have "thread_step lib clock ?p1 ?p2"
    by (rule thread_step.look) (simp_all add: th_start_def recvFunction_round_iff assms)
  moreover have "thread_step lib clock ?p2 ?p3" by (rule thread_step.clear) simp
  moreover have "thread_step lib clock ?p3 ?p4" by (rule thread_step.notify) simp
  moreover have "thread_step lib clock ?p4 ?p5" by (rule thread_step.block) (simp add: woken_def)
  ultimately have "(thread_step lib clock)\<^sup>*\<^sup>* ?p0 ?p5"
    by (meson rtranclp.rtrancl_into_rtrancl rtranclp.rtrancl_refl)
  then show ?thesis by (intro exI [of _ ?p5]) simp
qed

section \<open>What is published\<close>

text \<open>Without arrivals every interleaving publishes what \<open>drain\<close> says: the messages so far and those
  of the envelopes still queued do not change with a step.\<close>

abbreviation quiet :: "TopicFactory \<Rightarrow> TopicFactory" where
  "quiet t \<equiv> t\<lparr>tf_subscription := None, tf_recv_thread_flag := False\<rparr>"

lemma deserializePublish_quiet:
  "deserializePublish lib now e (quiet t) =
     map_option (\<lambda>(m, t). (m, quiet t)) (deserializePublish lib now e t)"
  by (cases "decode_message lib (payload_cfg (tf_cfg t)) now (tc_type (tf_cfg t)) e")
     (auto simp: deserializePublish_def split: sum.split)

definition total_result ::
  "('pose, 'o) RosLib \<Rightarrow> (nat \<Rightarrow> ros_time) \<Rightarrow> ('pose, 'o) threads \<Rightarrow>
     (('pose, 'o) RosMessage option list \<times> TopicFactory) option" where
  "total_result lib clock p =
     map_option (\<lambda>(ms, t). (th_published p @ ms, t))
       (drain lib clock (length (th_published p)) (tf_recv_queue (th_tf p)) (quiet (th_tf p)))"

lemma round_drain:
  assumes "recvFunction_round lib (clock k) t = WorkerTook e m t'"
  shows "drain lib clock k (tf_recv_queue t) (quiet t) =
    map_option (\<lambda>(ms, t). (m # ms, t)) (drain lib clock (Suc k) (tf_recv_queue t') (quiet t'))"
proof -
  obtain q where q: "tf_recv_queue t = e # q" using recvFunction_round_took(1) [OF assms] by blast
  then have d: "deserializePublish lib (clock k) e (t\<lparr>tf_recv_queue := q\<rparr>) = Some (m, t')"
    using assms by (auto simp: recvFunction_round_def Let_def split: if_splits option.splits)
  have "deserializePublish lib (clock k) e (quiet (t\<lparr>tf_recv_queue := q\<rparr>)) = Some (m, quiet t')"
    unfolding deserializePublish_quiet d by simp
  moreover have "quiet (t\<lparr>tf_recv_queue := q\<rparr>) = (quiet t)\<lparr>tf_recv_queue := q\<rparr>" by (cases t) simp
  moreover have "tf_recv_queue t' = q" using recvFunction_round_took(1) [OF assms] q by simp
  ultimately show ?thesis
    by (cases "drain lib clock (Suc k) q (quiet t')") (auto simp: q)
qed

lemma total_result_step:
  assumes "thread_step lib clock p p'" and "th_stop p' \<noteq> Stopped"
  shows "total_result lib clock p' = total_result lib clock p"
  using assms(1)
proof (cases rule: thread_step.cases)
  case (take e m t)
  then show ?thesis
    using round_drain [where clock = clock and k = "length (th_published p)", OF take(3)]
    by (cases "drain lib clock (Suc (length (th_published p))) (tf_recv_queue t) (quiet t)")
       (auto simp: total_result_def)
qed (use assms(2) in \<open>simp_all add: total_result_def\<close>)

lemma total_result_run:
  assumes "(thread_step lib clock)\<^sup>*\<^sup>* p p'" and "th_stop p' \<noteq> Stopped"
  shows "total_result lib clock p' = total_result lib clock p"
  using assms
proof (induction rule: rtranclp_induct)
  case (step q r)
  have "th_stop q \<noteq> Stopped"
  proof
    assume s: "th_stop q = Stopped"
    then have "th_stop r = Stopped" using step.hyps(2) by (auto elim!: thread_stepE)
    then show False using step.prems by blast
  qed
  then show ?case using step.IH total_result_step [OF step.hyps(2) step.prems] by simp
qed simp

text \<open>So the interleavings refine \<open>stopThread\<close>: with the worker gone it returns what they published,
  and a missed notification is its \<open>Hangs\<close>.\<close>

lemma th_start_result:
  assumes "tf_dir t = RECV" "tf_recv_thread_flag t"
  shows "stopThread lib clock missed t =
    map_option (\<lambda>(ms, t). if missed then Hangs else Returns (ms, t\<lparr>tf_ros_active := False\<rparr>))
      (total_result lib clock (th_start t))"
  using assms
  by (cases "drain lib clock 0 (tf_recv_queue t) (quiet t)")
     (auto simp: stopThread_def total_result_def th_start_def Let_def)

lemma runs_thread: "(thread_step lib clock)\<^sup>*\<^sup>* p p' \<Longrightarrow> (run_step lib clock)\<^sup>*\<^sup>* p p'"
  by (erule rtranclp_mono [THEN predicate2D, rotated]) (auto simp: run_step_def)

lemma stop_refines:
  assumes "(thread_step lib clock)\<^sup>*\<^sup>* (th_start t) p" and "tf_dir t = RECV" "tf_recv_thread_flag t"
  shows "th_stop p = Stopped \<Longrightarrow> stopThread lib clock False t = Some (Returns (th_published p, th_tf p))"
    "th_stop p = Notified \<Longrightarrow> th_worker p = Blocked \<Longrightarrow> stopThread lib clock True t = Some Hangs"
proof -
  note result = th_start_result [OF assms(2,3)]
  have inv: "th_inv q" if "(thread_step lib clock)\<^sup>*\<^sup>* (th_start t) q" for q
    using th_inv_run [OF runs_thread [OF that] th_inv_start [OF assms(3)]] .
  have gone: "total_result lib clock q = Some (th_published q, th_tf q)"
    if "th_inv q" "th_worker q \<noteq> Testing" "\<not> flag_set (th_stop q)" for q
  proof -
    have "quiet (th_tf q) = th_tf q" using that by (cases "th_tf q") (auto simp: th_inv_def flag_set_def)
    then show ?thesis using that by (simp add: total_result_def th_inv_def)
  qed
  show "stopThread lib clock False t = Some (Returns (th_published p, th_tf p))" if s: "th_stop p = Stopped"
  proof -
    from assms(1) s obtain q where q: "(thread_step lib clock)\<^sup>*\<^sup>* (th_start t) q" "thread_step lib clock q p"
      "th_stop q \<noteq> Stopped"
    proof (induction rule: rtranclp_induct)
      case (step q r)
      have "th_stop q \<noteq> Stopped"
        using no_thread_step [OF inv [OF step.hyps(1)], of lib clock] step.hyps(2) by blast
      then show ?case using step by blast
    qed (simp add: th_start_def)
    have j: "th_stop q = Notified" "th_worker q = Exited"
      "p = q\<lparr>th_stop := Stopped, th_tf := (th_tf q)\<lparr>tf_ros_active := False\<rparr>\<rparr>"
      using q(2,3) s by (auto elim!: thread_stepE)
    have "total_result lib clock (th_start t) = Some (th_published q, th_tf q)"
      using total_result_run [OF q(1,3)] gone [OF inv [OF q(1)]] j by (simp add: flag_set_def)
    then show ?thesis using j(3) by (simp add: result)
  qed
  show "stopThread lib clock True t = Some Hangs" if s: "th_stop p = Notified" "th_worker p = Blocked"
  proof -
    have "total_result lib clock (th_start t) = Some (th_published p, th_tf p)"
      using total_result_run [OF assms(1)] gone [OF inv [OF assms(1)]] s by (simp add: flag_set_def)
    then show ?thesis by (simp add: result)
  qed
qed

section \<open>Stopping\<close>

text \<open>C30: In every interleaving of a running receiver's worker, of arriving envelopes and of the thread
  that stops it: when the stop returns, the worker has left, the queue is empty and the subscription
  gone; after the flag is cleared only finitely many steps of the two threads remain, and when none is
  possible the stop has returned, a codec is undefined, or the worker waits although it was notified,
  because the notification fell between its test and its wait.  Nothing in the program ever wakes that
  worker (only a spurious wake-up could): the stop does not return.  From an empty queue this happens.
  Without arrivals the outcome is the one of
  \<open>stopThread\<close>.\<close>

theorem stop_protocol:
  assumes "(run_step lib clock)\<^sup>*\<^sup>* (th_start t) p" and "tf_dir t = RECV" and "tf_recv_thread_flag t"
  shows "(th_stop p = Stopped \<longrightarrow> th_worker p = Exited \<and> tf_recv_queue (th_tf p) = [] \<and>
       \<not> tf_recv_thread_flag (th_tf p) \<and> tf_subscription (th_tf p) = None) \<and>
    (\<not> tf_recv_thread_flag (th_tf p) \<longrightarrow>
       (\<forall>p'. thread_step lib clock p p' \<longrightarrow> steps_left p' < steps_left p) \<and>
       (\<forall>p'. arrive_step lib p p' \<longrightarrow> steps_left p' = steps_left p)) \<and>
    ((\<nexists>p'. thread_step lib clock p p') \<longleftrightarrow>
       th_stop p = Stopped \<or> th_stop p = Notified \<and> (th_worker p = Blocked \<or> th_worker p = Testing \<and>
         recvFunction_round lib (clock (length (th_published p))) (th_tf p) = WorkerUndefined)) \<and>
    (th_stop p = Notified \<and> th_worker p = Blocked \<longrightarrow>
       (\<forall>p'. (run_step lib clock)\<^sup>*\<^sup>* p p' \<longrightarrow> th_stop p' \<noteq> Stopped)) \<and>
    (tf_recv_queue t = [] \<longrightarrow>
       (\<exists>p'. (thread_step lib clock)\<^sup>*\<^sup>* (th_start t) p' \<and> th_stop p' = Notified \<and> th_worker p' = Blocked)) \<and>
    ((thread_step lib clock)\<^sup>*\<^sup>* (th_start t) p \<longrightarrow>
       (th_stop p = Stopped \<longrightarrow> stopThread lib clock False t = Some (Returns (th_published p, th_tf p))) \<and>
       (th_stop p = Notified \<and> th_worker p = Blocked \<longrightarrow> stopThread lib clock True t = Some Hangs))"
proof -
  have inv: "th_inv p" by (rule th_inv_run [OF assms(1) th_inv_start [OF assms(3)]])
  then have flag: "tf_recv_thread_flag (th_tf p) = flag_set (th_stop p)" by (simp add: th_inv_def)
  have "th_stop p = Stopped \<longrightarrow> th_worker p = Exited \<and> tf_recv_queue (th_tf p) = [] \<and>
      \<not> tf_recv_thread_flag (th_tf p) \<and> tf_subscription (th_tf p) = None"
    using inv by (auto simp: th_inv_def flag_set_def)
  moreover have "th_stop p' \<noteq> Stopped"
    if "(run_step lib clock)\<^sup>*\<^sup>* p p'" "th_stop p = Notified" "th_worker p = Blocked" for p'
    using missed_forever [OF that(1) inv that(2,3)] by simp
  ultimately show ?thesis
    using steps_left_thread [OF _ inv] steps_left_arrive [OF _ inv] no_thread_step [OF inv]
      missed_happens [OF assms(3)] stop_refines [OF _ assms(2,3)] flag by blast
qed

text \<open>An idle receiver that is stopped at the wrong moment.\<close>

lemma stop_protocol_witness:
  "\<exists>p. (thread_step sample_lib (\<lambda>_. 0))\<^sup>*\<^sup>* (th_start (sample_factory RECV)) p \<and>
     th_stop p = Notified \<and> (\<nexists>p'. thread_step sample_lib (\<lambda>_. 0) p p') \<and>
     stopThread sample_lib (\<lambda>_. 0) True (sample_factory RECV) = Some Hangs"
proof -
  have "(run_step sample_lib (\<lambda>_. 0))\<^sup>*\<^sup>* (th_start (sample_factory RECV)) (th_start (sample_factory RECV))"
    by simp
  from stop_protocol [OF this] obtain p where
    p: "(thread_step sample_lib (\<lambda>_. 0))\<^sup>*\<^sup>* (th_start (sample_factory RECV)) p"
      "th_stop p = Notified" "th_worker p = Blocked"
    by auto
  from stop_protocol [OF runs_thread [OF p(1)]] p show ?thesis by auto
qed

end
