(* ===== verification/Spec2Isabelle.thy ===== *)
theory Spec2Isabelle
  imports Qos_Queue Zenoh_Keys Cloud_Properties Diagnostics_Cache Topic_Stats Topic_Properties
    Zenoh_Properties Service_Properties Config_Loader Bridge_Properties Topic_Delivery
    Node_Properties Image_Delivery Display_Properties Stream_Properties Numpy_Properties Predef_Properties
    Diagnostics_Flow Tui_Properties
    Tui_Overview Tui_Log_Lines Entry_Points Recv_Worker
begin

text \<open>
  Verification library of NetBridge, the ROS bridge of a robot swarm (package
  \<^verbatim>\<open>swarm_ros_bridge\<close>).  A node of the bridge subscribes to local ROS topics, packs each message
  into an envelope, publishes it over Zenoh under a key that names the source host and the topic,
  and on the receiving hosts decodes the envelope and publishes the message again; ROS services
  are bridged by queries in the same way.  A second program, a terminal UI, shows the
  diagnostics that a node publishes.

  \<^bold>\<open>Foundations.\<close>  \<open>Prelude\<close> has the machine types (\<open>byte\<close>, \<open>u16\<close>, \<open>u32\<close>, \<open>u64\<close> are words and wrap
  around), the C++ string tests and the lemma collections; \<open>Wire_Integers\<close> the byte-wise
  integer codecs as a locale, interpreted at the four widths; \<open>Std_Map\<close> the ordered maps with a
  locale for the map laws; \<open>Xmlrpc\<close> the values of the ROS parameter server.  A failing operation
  returns \<open>Inl\<close> of the error text or \<open>None\<close>; a null pointer is \<open>None\<close>; undefined behaviour of C++
  is a branch of its own (\<open>Undefined\<close>, or \<open>None\<close> around the result) and never a value.

  \<^bold>\<open>Wire format\<close> (\<^verbatim>\<open>src/transport/bridge_transport.cpp\<close>).  \<open>Envelope\<close>: \<open>EncodeEnvelope\<close>, \<open>DecodeEnvelope\<close>,
  \<open>ValidateEnvelopeMetadata\<close> at byte level; the lemmas give both functions on every branch, the
  round trip, that an accepted buffer is the encoding of its envelope up to one reserved byte, and
  that truncated or padded buffers are rejected.  \<open>Qos_Queue\<close>: the QoS classes and the bounded
  receive queue, with an abstract bounded buffer as a locale that every class interprets.
  \<open>Zenoh_Keys\<close>: ROS name normalisation and the keys of topics, services and liveliness tokens.

  \<^bold>\<open>Point clouds\<close> (\<^verbatim>\<open>src/transport/draco_pointcloud_codec.cpp\<close>).  \<open>Point_Layout\<close> (field analysis and byte
  mask), \<open>Cloud_Storage\<close> (unaligned access, side car, storage checks), \<open>Draco_Codec\<close> (\<open>Encode\<close> and \<open>Decode\<close>)
  and \<open>Cloud_Properties\<close>.  Buffers are lists, every access out of range or through null makes the
  whole call undefined; \<open>encode_safe\<close> says that encoding never is, \<open>decode_undefined_iff\<close> exactly when
  decoding is.  The Draco library is a record of functions.  The decoded cloud has attributes of whatever
  size the payload says, and \<open>GetMappedValue\<close> copies as many bytes into the decoder's buffers.  What the
  round trip needs of the library is the hypothesis \<open>draco_faithful\<close>: the points come back in some order,
  positions changed by a quantiser \<open>q\<close>, the other attributes unchanged; \<open>one_point_draco\<close> satisfies it.
  The host is little-endian.

  \<^bold>\<open>Images\<close> (\<^verbatim>\<open>cv_bridge.cpp\<close> of the package copied to \<^verbatim>\<open>src/cv_bridge_noetic_fit_version\<close>).
  \<open>Image_Encodings\<close>: the OpenCV type of an encoding and the table of colour conversions.  \<open>Cv_Bridge\<close>: image
  messages to matrices and back, byte order, conversion, compressed images; a matrix is a view on
  bytes, and handing OpenCV a view beyond them is \<open>Undefined\<close>.  OpenCV and the predicates of
  \<^verbatim>\<open>sensor_msgs::image_encodings\<close> are records of functions with their documentation as the hypotheses
  \<open>cv_documented\<close> and \<open>documented\<close>, which \<open>plain_cv\<close> and \<open>plain_enc\<close> satisfy.  \<open>Cv_Properties\<close>: reads
  stay in the message unless the 32-bit size check wraps around, which conversions exist and that
  their steps fit together, the round trip of a matrix, the reversal of bytes; \<open>Cv_Safety\<close> that a
  conversion of a sane matrix is never undefined.  \<open>Image_Delivery\<close>, after the topic theories, follows an
  image from the callback of the sender to the receiver's publisher.  The rest of the package is not on
  that path: \<open>Cv_Display\<close> and \<open>Display_Properties\<close> (\<open>cvtColorForDisplay\<close>; label colours from \<open>Rgb_Colors\<close>,
  the type of what is returned), \<open>Cv_Stream\<close> and \<open>Stream_Properties\<close> (the serializer of \<open>CvImage\<close> in
  \<^verbatim>\<open>cv_bridge.h\<close>; what it writes it reads, and what it does not check), \<open>Endian_Conversion\<close> (the copied
  Boost.Endian; every implementation of the reversal equals the one on memory), \<open>Predef\<close> and
  \<open>Predef_Properties\<close> (the copied Boost.Predef, headers as functions on macros; the order that is found is
  that of the GNU library), \<open>Numpy_Arrays\<close> and \<open>Numpy_Properties\<close> (the Python bindings \<^verbatim>\<open>module.cpp\<close> and
  \<^verbatim>\<open>module_opencv4.cpp\<close>; a matrix over an array has its elements and stays in its memory).  OpenCV's range,
  scaling and colour map and the roscpp streams are the records \<open>DisplayLib\<close> and \<open>StreamLib\<close>, documented by
  \<open>display_documented\<close> and \<open>streams_documented\<close>; the compiler's byte swaps are \<open>Builtins\<close>.

  \<^bold>\<open>Topics\<close> (\<^verbatim>\<open>src/topic_factory.cpp\<close>).  \<open>Topic_Metrics\<close> and \<open>Topic_Stats\<close>: the counters, the frame sequence
  observer, the sliding send window, latency filter and adaptive JPEG quality.  \<open>Ros_Messages\<close>:
  payload encoding and decoding; ROS serialisation, PCL and what OpenCV and Draco do are the record
  \<open>RosLib\<close>.  The adaptive quality adds C++ ints, so recording a send is \<open>None\<close> where the sum overflows.
  \<open>Topic_Factory\<close>: a topic end, its construction, the sender callback, the reception checks, the worker and
  stopping.  The worker thread and the transport's callback share the receive queue under one mutex, so
  each critical section is one step of the relation \<open>rx_step\<close>.  \<open>stopThread\<close> clears the flag and notifies
  without that mutex; \<open>thread_step\<close> has the test, the wait, the flag and the notification as steps of
  their own.  \<open>Topic_Properties\<close> proves the queue invariant over all interleavings, the acceptance policy,
  the accounting of the sender and the spacing of the rate limiter.  \<open>Recv_Worker\<close>: stopping ends with an
  empty queue or in the deadlock of the lost notification, and nowhere else; the operations that join a
  worker therefore have a result of the type \<open>Joined\<close>, \<open>Returns\<close> or \<open>Hangs\<close>, and an argument that says
  whether the notification is missed.

  \<^bold>\<open>Transport\<close> (\<^verbatim>\<open>src/transport/zenoh_transport.cpp\<close>).  \<open>Zenoh_Transport\<close>: configuration text, executor, presence,
  statistics, publish, subscribe, queryables and queries; the Zenoh library is what the callbacks
  and function arguments stand for.  \<open>Zenoh_Properties\<close>: the executor runs each accepted task at
  most once and in order in every interleaving and stops; a query returns its first reply; the
  presence table and the reconnect counter summarise the history of events.

  \<^bold>\<open>Services\<close> (\<^verbatim>\<open>src/service_factory.cpp\<close>).  \<open>Service_Factory\<close> and \<open>Service_Properties\<close>: both ends, who may
  call, and what a call returns over a network that hands a query to the queryable under its key
  (\<open>zenoh_get\<close> is what Zenoh documents of that).

  \<^bold>\<open>Node\<close> (\<^verbatim>\<open>src/bridge_factory.cpp\<close>).  \<open>Bridge_Config\<close> reads the parameters: hosts, the control, image and
  cloud session, topic rules.  \<open>Bridge_Factory\<close> creates sessions, topic ends and service ends, starts
  and stops them and builds the diagnostics message.  The long C++ functions are split at their
  blocks, one definition each, and composed in the order of the code.  \<open>Bridge_Properties\<close>: host
  selection, well-formed topic rules, isolation of the sessions.  \<open>Topic_Delivery\<close>, \<open>Node_Topology\<close> and
  \<open>Node_Properties\<close> span the components: the ends that two nodes create for a route fit together, a
  message that leaves the sender arrives as \<open>published_for\<close> says (an odometry without covariance and
  twist, a cloud as its rule thins it out and compresses it), a node has exactly the topic ends its rules
  ask for, and a stop that returns loses no queued envelope.  \<open>Diagnostics_Flow\<close> follows the presence of a
  host from the liveliness events of a node to the lookup of the UI.

  \<^bold>\<open>Diagnostics and UI\<close>.  \<open>Diagnostics_Cache\<close> (\<^verbatim>\<open>src/diagnostics\<close>), \<open>Config_Loader\<close> (\<^verbatim>\<open>src/config\<close>), \<open>Tui_Text\<close>,
  \<open>Tui_State\<close>, \<open>Tui_App\<close> (\<^verbatim>\<open>src/tui\<close>): lookups and freshness, the UI's own reading of the parameters,
  wrapping and shortening of text, history and log rings, pane geometry, the render tick and the
  keyboard state machine with the exit on Ctrl-C that FTXUI adds.  \<open>Tui_Properties\<close> compares the UI's
  reading with the node's and says which names the UI looks up.
  \<open>Entry_Points\<close>: the log lines (\<^verbatim>\<open>src/logging\<close>) and how the UI takes them from \<^verbatim>\<open>/rosout\<close>, and \<^verbatim>\<open>main\<close> of
  the bridge (\<^verbatim>\<open>src/bridge_node_main.cpp\<close>) from the creation of the factory to the exit code.

  \<^bold>\<open>Screens.\<close>  The screens are documents of FTXUI, whose sources are vendored (\<^verbatim>\<open>src/third_party/FTXUI\<close>).
  \<open>Ftxui_Layout\<close> has the elements the program uses as a datatype, what each asks for (\<open>requirement\<close>),
  how a container shares its space (\<open>Compute\<close>; the shares tile it) and the boxes its texts are drawn in
  (\<open>texts\<close>), with frames, scroll bars and the focus of a menu.  \<open>Tui_Theme\<close> (\<^verbatim>\<open>theme.cpp\<close>), \<open>Tui_Topics\<close> and
  \<open>Tui_Screens\<close> build the documents of the four screens, the header, the footer and the overlays; a
  conversion or an index that is undefined in C++ makes the document \<open>None\<close>.  \<open>Tui_Overview\<close>: the
  numbers of the overview agree with the alert list and the host screen for whatever a node
  published.  \<open>Tui_Alignment\<close> and \<open>Tui_Log_Lines\<close>: the columns of every text of the topic matrix and the
  rows and columns of the log screen on the terminal, by following the document through the layout.
  How many cells a text takes is a parameter; \<open>plain_measure\<close> asks one cell per character of the texts
  whose width matters, \<open>line_measure\<close> one row of a text without a line break.

  \<^bold>\<open>Numbers and time.\<close>  Integers keep their width; a C++ \<^verbatim>\<open>int\<close> read from the parameters is an \<open>int\<close> in
  range, and conversions out of range are undefined.  \<^verbatim>\<open>double\<close> and \<^verbatim>\<open>float\<close> are real numbers: rounding
  is not modelled.  A clock reading is an argument of the step that takes it.  Loops are
  structural recursions over the data they walk, except text wrapping, whose termination is
  proved with the rest of the text as the measure.

  \<^bold>\<open>Not modelled.\<close>  The cells and pixels FTXUI writes, its flexbox, mouse and menu events (terminal
  output of a vendored library); the wiring of subscriptions in the \<^verbatim>\<open>main\<close> functions and the log lines
  between the operations (effects on ROS alone); reference counts and the interpreter lock in the Python
  bindings of \<^verbatim>\<open>cv_bridge\<close>, and conversions of arrays with more than two dimensions and channels there;
  the scoped enumerations and the unused shorthands of the copied Boost headers; the vendored Draco,
  tests, scripts and launch files.
  Threads and condition variables appear only as the steps they order, spurious wake-ups are no steps;
  memory exhaustion and the failure of ROS itself are left out.
\<close>

end
